(* ===== verification/Prelude.thy ===== *)
theory Prelude
  imports Main "HOL-Library.Finite_Map" "HOL-Library.Char_ord" "HOL-Library.List_Lexorder"
begin

text \<open>
  Shared ground of the development: the error type of the program
  (\<open>crates/orbflow-core/src/error.rs\<close>), the state-and-error computations the engine's
  handlers are written in, and the lemmas on lists and finite maps the components share.

  A handler of the engine takes the mutable data it works on and returns it updated, with
  either an error or a value: a computation over a state \<open>'s\<close> is a function
  \<open>'s \<Rightarrow> (error + 'a) \<times> 's\<close>. The state survives an error, because the Rust code mutates
  \<open>&mut Instance\<close> in place and its callers go on with the partly updated value after an
  \<open>Err\<close>. A \<open>HashMap<String, V>\<close> is a finite map \<open>(string, 'v) fmap\<close>.
\<close>

section \<open>Errors\<close>

datatype orbflow_error =
    NotFound
  | AlreadyExists
  | CycleDetected
  | DuplicateNode
  | DuplicateEdge
  | InvalidEdge
  | NoEntryNodes
  | Disconnected
  | InvalidStatus
  | CancelledError
  | Timeout
  | EngineStopped
  | NodeNotFound
  | Conflict
  | InvalidNodeKind
  | MissingCapability
  | InvalidCapabilityEdge
  | InvalidNodeConfig string
  | EmptyNodeKind
  | NilExecutor
  | DuplicateNodeKind string
  | Internal string
  | Crypto string
  | Database string
  | Bus string
  | Forbidden string
  | BudgetExceeded string
  | InvalidPolicy string

type_synonym 'a result = "orbflow_error + 'a"

definition is_validation_error :: "orbflow_error \<Rightarrow> bool" where
  "is_validation_error e = (case e of
       CycleDetected \<Rightarrow> True
     | DuplicateNode \<Rightarrow> True
     | DuplicateEdge \<Rightarrow> True
     | InvalidEdge \<Rightarrow> True
     | NoEntryNodes \<Rightarrow> True
     | Disconnected \<Rightarrow> True
     | InvalidCapabilityEdge \<Rightarrow> True
     | MissingCapability \<Rightarrow> True
     | InvalidNodeConfig _ \<Rightarrow> True
     | InvalidNodeKind \<Rightarrow> True
     | InvalidPolicy _ \<Rightarrow> True
     | _ \<Rightarrow> False)"

definition is_not_found :: "orbflow_error \<Rightarrow> bool" where
  "is_not_found e = (case e of NotFound \<Rightarrow> True | _ \<Rightarrow> False)"

definition is_conflict :: "orbflow_error \<Rightarrow> bool" where
  "is_conflict e = (case e of Conflict \<Rightarrow> True | _ \<Rightarrow> False)"

definition is_budget_exceeded :: "orbflow_error \<Rightarrow> bool" where
  "is_budget_exceeded e = (case e of BudgetExceeded _ \<Rightarrow> True | _ \<Rightarrow> False)"

text \<open>The texts of \<open>Display\<close>.\<close>

definition error_str :: "orbflow_error \<Rightarrow> string" where
  "error_str e = ''orbflow: '' @ (case e of
       NotFound \<Rightarrow> ''not found''
     | AlreadyExists \<Rightarrow> ''already exists''
     | CycleDetected \<Rightarrow> ''cycle detected in workflow DAG''
     | DuplicateNode \<Rightarrow> ''duplicate node ID''
     | DuplicateEdge \<Rightarrow> ''duplicate edge between same source and target''
     | InvalidEdge \<Rightarrow> ''invalid edge (unknown source or target)''
     | NoEntryNodes \<Rightarrow> ''workflow has no entry nodes''
     | Disconnected \<Rightarrow> ''workflow graph is disconnected''
     | InvalidStatus \<Rightarrow> ''invalid status transition''
     | CancelledError \<Rightarrow> ''instance cancelled''
     | Timeout \<Rightarrow> ''execution timed out''
     | EngineStopped \<Rightarrow> ''engine is stopped''
     | NodeNotFound \<Rightarrow> ''node executor not registered''
     | Conflict \<Rightarrow> ''version conflict''
     | InvalidNodeKind \<Rightarrow> ''invalid node kind''
     | MissingCapability \<Rightarrow> ''required capability not connected''
     | InvalidCapabilityEdge \<Rightarrow> ''invalid capability edge''
     | InvalidNodeConfig s \<Rightarrow> ''invalid node configuration: '' @ s
     | EmptyNodeKind \<Rightarrow> ''node kind (name) must not be empty''
     | NilExecutor \<Rightarrow> ''node executor must not be nil''
     | DuplicateNodeKind s \<Rightarrow> ''node kind already registered: '' @ s
     | Internal s \<Rightarrow> ''internal error: '' @ s
     | Crypto s \<Rightarrow> ''crypto error: '' @ s
     | Database s \<Rightarrow> ''database error: '' @ s
     | Bus s \<Rightarrow> ''bus error: '' @ s
     | Forbidden s \<Rightarrow> ''forbidden: '' @ s
     | BudgetExceeded s \<Rightarrow> ''budget exceeded: '' @ s
     | InvalidPolicy s \<Rightarrow> ''invalid policy: '' @ s)"

lemma is_conflict_iff [simp]: "is_conflict e \<longleftrightarrow> e = Conflict"
  by (cases e) (simp_all add: is_conflict_def)

lemma is_not_found_iff [simp]: "is_not_found e \<longleftrightarrow> e = NotFound"
  by (cases e) (simp_all add: is_not_found_def)

section \<open>State-and-error computations\<close>

type_synonym ('s, 'a) act = "'s \<Rightarrow> 'a result \<times> 's"

definition ret :: "'a \<Rightarrow> ('s, 'a) act" where
  "ret x = (\<lambda>s. (Inr x, s))"

definition raise :: "orbflow_error \<Rightarrow> ('s, 'a) act" where
  "raise e = (\<lambda>s. (Inl e, s))"

text \<open>\<open>bindE m f\<close> is Rust's \<open>let x = m?; f(x)\<close>: the first error ends the computation.\<close>

definition bindE :: "('s, 'a) act \<Rightarrow> ('a \<Rightarrow> ('s, 'b) act) \<Rightarrow> ('s, 'b) act" where
  "bindE m f = (\<lambda>s. case m s of (Inl e, s') \<Rightarrow> (Inl e, s') | (Inr x, s') \<Rightarrow> f x s')"

text \<open>\<open>catchE m h\<close> is \<open>match m { Err(e) => h(e), Ok(x) => Ok(x) }\<close>.\<close>

definition catchE :: "('s, 'a) act \<Rightarrow> (orbflow_error \<Rightarrow> ('s, 'a) act) \<Rightarrow> ('s, 'a) act" where
  "catchE m h = (\<lambda>s. case m s of (Inl e, s') \<Rightarrow> h e s' | (Inr x, s') \<Rightarrow> (Inr x, s'))"

text \<open>\<open>tryE m k\<close> is \<open>match m { r => k(r) }\<close>: both outcomes are handed on.\<close>

definition tryE :: "('s, 'a) act \<Rightarrow> ('a result \<Rightarrow> ('s, 'b) act) \<Rightarrow> ('s, 'b) act" where
  "tryE m k = (\<lambda>s. case m s of (r, s') \<Rightarrow> k r s')"

text \<open>
  \<open>logE m\<close> is the code's \<open>if let Err(e) = m { error!(...) }\<close>: the error is logged and
  execution goes on.
\<close>

definition logE :: "('s, 'a) act \<Rightarrow> ('s, unit) act" where
  "logE m = (\<lambda>s. (Inr (), snd (m s)))"

definition getsE :: "('s \<Rightarrow> 'a) \<Rightarrow> ('s, 'a) act" where
  "getsE f = (\<lambda>s. (Inr (f s), s))"

definition modifyE :: "('s \<Rightarrow> 's) \<Rightarrow> ('s, unit) act" where
  "modifyE f = (\<lambda>s. (Inr (), f s))"

definition liftR :: "'a result \<Rightarrow> ('s, 'a) act" where
  "liftR r = (\<lambda>s. (r, s))"

definition seqE :: "('s, 'a) act \<Rightarrow> ('s, 'b) act \<Rightarrow> ('s, 'b) act" where
  "seqE m n = bindE m (\<lambda>_. n)"

text \<open>A \<open>for\<close> loop whose body may return early with an error.\<close>

fun forE :: "'x list \<Rightarrow> ('x \<Rightarrow> ('s, unit) act) \<Rightarrow> ('s, unit) act" where
  "forE [] f = ret ()"
| "forE (x # xs) f = bindE (f x) (\<lambda>_. forE xs f)"

named_theorems act_simps

lemmas act_basic_simps [act_simps] =
  ret_def raise_def bindE_def catchE_def tryE_def logE_def getsE_def modifyE_def liftR_def seqE_def

lemma bindE_Inr_iff: "bindE m f s = (Inr y, t) \<longleftrightarrow> (\<exists>x s'. m s = (Inr x, s') \<and> f x s' = (Inr y, t))"
  by (auto simp: bindE_def split: prod.split sum.split)

lemma seqE_Inr_iff: "seqE m n s = (Inr y, t) \<longleftrightarrow> (\<exists>x s'. m s = (Inr x, s') \<and> n s' = (Inr y, t))"
  by (simp add: seqE_def bindE_Inr_iff)

subsection \<open>Relations every computation keeps\<close>

text \<open>
  \<open>keeps R m\<close>: whatever \<open>m\<close> returns, its final state is related to its initial one by
  \<open>R\<close>. For a reflexive and transitive \<open>R\<close> (a frame condition, a monotone quantity) the
  property is closed under the combinators, so it is proved handler by handler.
\<close>

definition keeps :: "('s \<Rightarrow> 's \<Rightarrow> bool) \<Rightarrow> ('s, 'a) act \<Rightarrow> bool" where
  "keeps R m \<longleftrightarrow> (\<forall>s. R s (snd (m s)))"

named_theorems keeps_intros

lemma keepsI: "(\<And>s. R s (snd (m s))) \<Longrightarrow> keeps R m"
  by (simp add: keeps_def)

lemma keepsD: "keeps R m \<Longrightarrow> m s = (r, s') \<Longrightarrow> R s s'"
  by (metis keeps_def snd_conv)

locale preorder_rel =
  fixes R :: "'s \<Rightarrow> 's \<Rightarrow> bool"
  assumes refl: "R s s"
    and trans: "R s t \<Longrightarrow> R t u \<Longrightarrow> R s u"
begin

lemma keeps_ret: "keeps R (ret x)"
  by (simp add: keeps_def ret_def refl)

lemma keeps_raise: "keeps R (raise e)"
  by (simp add: keeps_def raise_def refl)

lemma keeps_liftR: "keeps R (liftR r)"
  by (simp add: keeps_def liftR_def refl)

lemma keeps_getsE: "keeps R (getsE f)"
  by (simp add: keeps_def getsE_def refl)

text \<open>At one state: the rest of the computation is judged from the state it starts in.\<close>

lemma at_bindE:
  "R s (snd (m s)) \<Longrightarrow> (\<And>x t. m s = (Inr x, t) \<Longrightarrow> R t (snd (f x t))) \<Longrightarrow> R s (snd (bindE m f s))"
  by (cases "m s") (auto simp: bindE_def split: sum.split intro: trans)

lemma at_tryE:
  "R s (snd (m s)) \<Longrightarrow> (\<And>r t. m s = (r, t) \<Longrightarrow> R t (snd (k r t))) \<Longrightarrow> R s (snd (tryE m k s))"
  by (cases "m s") (auto simp: tryE_def intro: trans)

lemma at_catchE:
  "R s (snd (m s)) \<Longrightarrow> (\<And>e t. m s = (Inl e, t) \<Longrightarrow> R t (snd (h e t))) \<Longrightarrow> R s (snd (catchE m h s))"
  by (cases "m s") (auto simp: catchE_def split: sum.split intro: trans)

lemma keeps_bindE: "keeps R m \<Longrightarrow> (\<And>x. keeps R (f x)) \<Longrightarrow> keeps R (bindE m f)"
  by (simp add: keeps_def at_bindE)

lemma keeps_seqE: "keeps R m \<Longrightarrow> keeps R n \<Longrightarrow> keeps R (seqE m n)"
  by (simp add: seqE_def keeps_bindE)

lemma keeps_catchE: "keeps R m \<Longrightarrow> (\<And>e. keeps R (h e)) \<Longrightarrow> keeps R (catchE m h)"
  by (simp add: keeps_def at_catchE)

lemma keeps_tryE: "keeps R m \<Longrightarrow> (\<And>r. keeps R (k r)) \<Longrightarrow> keeps R (tryE m k)"
  by (simp add: keeps_def at_tryE)

lemma keeps_logE: "keeps R m \<Longrightarrow> keeps R (logE m)"
  by (simp add: keeps_def logE_def)

lemma keeps_forE: "(\<And>x. x \<in> set xs \<Longrightarrow> keeps R (f x)) \<Longrightarrow> keeps R (forE xs f)"
  by (induction xs) (auto intro: keeps_ret keeps_bindE)

lemmas keeps_rules =
  keeps_ret keeps_raise keeps_liftR keeps_getsE keeps_bindE keeps_seqE keeps_catchE keeps_tryE
  keeps_logE keeps_forE

end

subsection \<open>Weakest preconditions\<close>

text \<open>
  \<open>wp m Q s\<close>: run in state \<open>s\<close>, the computation ends with a result and a state that satisfy
  \<open>Q\<close>. One equation per combinator turns a statement about a handler into one about its parts.
\<close>

definition wp :: "('s, 'a) act \<Rightarrow> ('a result \<Rightarrow> 's \<Rightarrow> bool) \<Rightarrow> 's \<Rightarrow> bool" where
  "wp m Q s = (case m s of (r, s') \<Rightarrow> Q r s')"

named_theorems wp_simps

lemma wp_ret [wp_simps]: "wp (ret x) Q s = Q (Inr x) s"
  by (simp add: wp_def ret_def)

lemma wp_raise [wp_simps]: "wp (raise e) Q s = Q (Inl e) s"
  by (simp add: wp_def raise_def)

lemma wp_liftR [wp_simps]: "wp (liftR r) Q s = Q r s"
  by (simp add: wp_def liftR_def)

lemma wp_getsE [wp_simps]: "wp (getsE f) Q s = Q (Inr (f s)) s"
  by (simp add: wp_def getsE_def)

lemma wp_modifyE [wp_simps]: "wp (modifyE f) Q s = Q (Inr ()) (f s)"
  by (simp add: wp_def modifyE_def)

lemma wp_bindE [wp_simps]:
  "wp (bindE m f) Q s = wp m (\<lambda>r s'. case r of Inl e \<Rightarrow> Q (Inl e) s' | Inr x \<Rightarrow> wp (f x) Q s') s"
  by (simp add: wp_def bindE_def split: prod.split sum.split)

lemma wp_seqE [wp_simps]:
  "wp (seqE m n) Q s = wp m (\<lambda>r s'. case r of Inl e \<Rightarrow> Q (Inl e) s' | Inr _ \<Rightarrow> wp n Q s') s"
  by (simp add: seqE_def wp_bindE)

lemma wp_tryE [wp_simps]: "wp (tryE m k) Q s = wp m (\<lambda>r. wp (k r) Q) s"
  by (simp add: wp_def tryE_def split: prod.split)

lemma wp_logE [wp_simps]: "wp (logE m) Q s = wp m (\<lambda>_. Q (Inr ())) s"
  by (simp add: wp_def logE_def split: prod.split)

lemma wp_mono: "wp m P s \<Longrightarrow> (\<And>r s'. P r s' \<Longrightarrow> Q r s') \<Longrightarrow> wp m Q s"
  by (simp add: wp_def split: prod.splits)

lemma wp_run: "m s = (r, s') \<Longrightarrow> wp m Q s = Q r s'"
  by (simp add: wp_def)

lemma wpD: "wp m Q s \<Longrightarrow> m s = (r, s') \<Longrightarrow> Q r s'"
  by (simp add: wp_def)

lemma keeps_wp: "keeps R m \<longleftrightarrow> (\<forall>s. wp m (\<lambda>_. R s) s)"
  by (simp add: keeps_def wp_def split_beta)

lemma wp_keeps: "keeps R m \<Longrightarrow> wp m (\<lambda>_. R s) s"
  by (simp add: keeps_wp)

section \<open>Finite maps\<close>

text \<open>
  The key-value pairs of a map, in the order of the keys. A Rust \<open>HashMap\<close> iterates in an
  unspecified order; the model iterates in this one wherever the code iterates, and no
  property depends on the choice.
\<close>

definition fm_items :: "(string, 'v) fmap \<Rightarrow> (string \<times> 'v) list" where
  "fm_items m = sorted_list_of_fmap m"

definition fm_any :: "('v \<Rightarrow> bool) \<Rightarrow> (string, 'v) fmap \<Rightarrow> bool" where
  "fm_any P m = (\<not> fmpred (\<lambda>_ v. \<not> P v) m)"

lemma map_of_fm_items [simp]: "map_of (fm_items m) = fmlookup m"
  by (simp add: fm_items_def)

lemma distinct_fm_items [simp]: "distinct (map fst (fm_items m))"
  by (simp add: fm_items_def sorted_list_of_fmap_def comp_def sorted_list_of_fset.rep_eq)

lemma fm_items_iff: "(k, v) \<in> set (fm_items m) \<longleftrightarrow> fmlookup m k = Some v"
  by (metis distinct_fm_items map_of_eq_Some_iff map_of_fm_items)

lemma filter_fm_items: "filter P (fm_items m) = fm_items (fmfilter (\<lambda>k. P (k, the (fmlookup m k))) m)"
proof -
  let ?Q = "\<lambda>k. P (k, the (fmlookup m k))"
  have keys: "sorted_list_of_fset (fmdom (fmfilter ?Q m)) = filter ?Q (sorted_list_of_fset (fmdom m))"
    by (intro sorted_distinct_set_unique) (auto simp: sorted_list_of_fset.rep_eq fmdom_filter sorted_wrt_filter)
  have "filter P (fm_items m) = map (\<lambda>k. (k, the (fmlookup m k))) (filter ?Q (sorted_list_of_fset (fmdom m)))"
    by (simp add: fm_items_def sorted_list_of_fmap_def filter_map comp_def)
  also have "\<dots> = fm_items (fmfilter ?Q m)"
    unfolding keys [symmetric] by (auto simp: fm_items_def sorted_list_of_fmap_def sorted_list_of_fset.rep_eq fmlookup_dom_iff)
  finally show ?thesis .
qed

lemma fmap_of_rev_items [simp]: "fmap_of_list (rev (fm_items m)) = m"
proof (rule fmap_ext)
  fix k
  have "map_of (rev (fm_items m)) k = map_of (fm_items m) k"
    by (rule fun_cong [OF map_of_inject_set [THEN iffD2]]) (simp_all flip: rev_map)
  then show "fmlookup (fmap_of_list (rev (fm_items m))) k = fmlookup m k"
    by (simp add: fmlookup_of_list)
qed

lemma fm_any_iff: "fm_any P m \<longleftrightarrow> (\<exists>k v. fmlookup m k = Some v \<and> P v)"
  by (auto simp: fm_any_def fmpred_iff)

text \<open>\<open>map.entry(k).or_insert(v)\<close> for every pair of \<open>extra\<close>: existing keys win.\<close>

definition fm_or_insert_all :: "('k, 'v) fmap \<Rightarrow> ('k, 'v) fmap \<Rightarrow> ('k, 'v) fmap" where
  "fm_or_insert_all m extra = extra ++\<^sub>f m"

lemma fm_or_insert_all_lookup [simp]:
  "fmlookup (fm_or_insert_all m extra) k =
     (case fmlookup m k of None \<Rightarrow> fmlookup extra k | Some v \<Rightarrow> Some v)"
  by (cases "fmlookup m k") (simp_all add: fm_or_insert_all_def fmdom_notI fmdomI)

section \<open>Lists\<close>

lemma find_SomeD: "List.find P xs = Some x \<Longrightarrow> x \<in> set xs \<and> P x"
  by (auto simp: find_Some_iff)

lemma find_None_all: "List.find P xs = None \<Longrightarrow> x \<in> set xs \<Longrightarrow> \<not> P x"
  by (auto simp: find_None_iff)

lemma drop_last_distinct: "distinct xs \<Longrightarrow> distinct (drop n xs)"
  by simp

section \<open>Results\<close>

text \<open>\<open>bindR r f\<close> is \<open>let x = r?; f(x)\<close> in a function without state.\<close>

fun bindR :: "'a result \<Rightarrow> ('a \<Rightarrow> 'b result) \<Rightarrow> 'b result" where
  "bindR (Inl e) f = Inl e"
| "bindR (Inr x) f = f x"

lemma bindR_Inr_iff: "bindR r f = Inr y \<longleftrightarrow> (\<exists>x. r = Inr x \<and> f x = Inr y)"
  by (cases r) simp_all

lemma bindR_Inl_iff: "bindR r f = Inl e \<longleftrightarrow> r = Inl e \<or> (\<exists>x. r = Inr x \<and> f x = Inl e)"
  by (cases r) simp_all

text \<open>\<open>if bad { return Err(e) }\<close>\<close>

definition rejectR :: "bool \<Rightarrow> orbflow_error \<Rightarrow> unit result" where
  "rejectR bad e = (if bad then Inl e else Inr ())"

lemma rejectR_Inr [simp]: "rejectR b e = Inr u \<longleftrightarrow> \<not> b"
  by (simp add: rejectR_def)

lemma rejectR_Inl [simp]: "rejectR b e = Inl e' \<longleftrightarrow> b \<and> e' = e"
  by (auto simp: rejectR_def)

section \<open>Strings\<close>

text \<open>A string is the list of its UTF-8 bytes.\<close>

definition starts_with :: "string \<Rightarrow> string \<Rightarrow> bool" where
  "starts_with p s = (take (length p) s = p)"

definition strip_prefix :: "string \<Rightarrow> string \<Rightarrow> string option" where
  "strip_prefix p s = (if starts_with p s then Some (drop (length p) s) else None)"

definition ends_with :: "string \<Rightarrow> string \<Rightarrow> bool" where
  "ends_with p s = (length p \<le> length s \<and> drop (length s - length p) s = p)"

fun str_contains :: "string \<Rightarrow> string \<Rightarrow> bool" where
  "str_contains p [] = (p = [])"
| "str_contains p (c # cs) = (starts_with p (c # cs) \<or> str_contains p cs)"

definition ascii_digit :: "char \<Rightarrow> bool" where
  "ascii_digit c = (let n = of_char c :: nat in 48 \<le> n \<and> n \<le> 57)"

definition ascii_alnum :: "char \<Rightarrow> bool" where
  "ascii_alnum c = (let n = of_char c :: nat in
     48 \<le> n \<and> n \<le> 57 \<or> 65 \<le> n \<and> n \<le> 90 \<or> 97 \<le> n \<and> n \<le> 122)"

definition ascii_lower :: "char \<Rightarrow> char" where
  "ascii_lower c = (let n = of_char c :: nat in if 65 \<le> n \<and> n \<le> 90 then char_of (n + 32) else c)"

definition eq_ignore_ascii_case :: "string \<Rightarrow> string \<Rightarrow> bool" where
  "eq_ignore_ascii_case a b = (map ascii_lower a = map ascii_lower b)"

lemma starts_with_iff: "starts_with p s \<longleftrightarrow> (\<exists>t. s = p @ t)"
  by (metis append_eq_conv_conj append_take_drop_id starts_with_def)

lemma str_contains_iff: "str_contains p s \<longleftrightarrow> (\<exists>us vs. s = us @ p @ vs)"
proof (induction s)
  case Nil
  then show ?case by auto
next
  case (Cons c cs)
  have "(\<exists>us vs. c # cs = us @ p @ vs) \<longleftrightarrow> (\<exists>vs. c # cs = p @ vs) \<or> (\<exists>us vs. cs = us @ p @ vs)"
    by (metis append_Cons append_Nil list.exhaust list.inject)
  with Cons show ?case by (simp add: starts_with_iff)
qed

text \<open>The decimal text of a number, as \<open>format!("{n}")\<close> prints it.\<close>

fun nat_str :: "nat \<Rightarrow> string" where
  "nat_str n = (if n < 10 then [char_of (48 + n)] else nat_str (n div 10) @ [char_of (48 + n mod 10)])"

declare nat_str.simps [simp del]

definition int_str :: "int \<Rightarrow> string" where
  "int_str i = (if i < 0 then ''-'' @ nat_str (nat (- i)) else nat_str (nat i))"

definition digits_val :: "string \<Rightarrow> nat" where
  "digits_val s = foldl (\<lambda>a c. 10 * a + (of_char c - 48)) 0 s"

lemma digits_val_nat_str [simp]: "digits_val (nat_str n) = n"
proof (induction n rule: nat_str.induct)
  case (1 n)
  show ?case
  proof (cases "n < 10")
    case True
    then show ?thesis by (subst nat_str.simps) (simp add: digits_val_def)
  next
    case False
    with 1 show ?thesis by (subst nat_str.simps) (simp add: digits_val_def)
  qed
qed

lemma nat_str_inject [simp]: "nat_str m = nat_str n \<longleftrightarrow> m = n"
  by (metis digits_val_nat_str)

lemma nat_str_digits: "c \<in> set (nat_str n) \<Longrightarrow> ascii_digit c"
proof (induction n arbitrary: c rule: nat_str.induct)
  case (1 n)
  then show ?case
    by (subst (asm) nat_str.simps) (auto simp: ascii_digit_def Let_def split: if_splits)
qed

lemma nat_str_nonempty [simp]: "nat_str n \<noteq> []"
  by (subst nat_str.simps) simp

lemma ascii_digit_alnum: "ascii_digit c \<Longrightarrow> ascii_alnum c"
  by (simp add: ascii_digit_def ascii_alnum_def Let_def)

text \<open>
  White space in the sense of Unicode, on the bytes of UTF-8: \<open>space_len s\<close> is the number of bytes of the
  white-space character \<open>s\<close> begins with, \<open>blank\<close> is \<open>trim().is_empty()\<close>.
\<close>

definition space_len :: "string \<Rightarrow> nat" where
  "space_len s = (case map of_char (take 3 s) :: nat list of
       [] \<Rightarrow> 0
     | a # xs \<Rightarrow>
         if 9 \<le> a \<and> a \<le> 13 \<or> a = 32 then 1
         else if a = 0xC2 then (case xs of b # _ \<Rightarrow> if b = 0x85 \<or> b = 0xA0 then 2 else 0 | [] \<Rightarrow> 0)
         else (case xs of
             [b, c] \<Rightarrow>
               if a = 0xE1 \<and> b = 0x9A \<and> c = 0x80 \<or>
                  a = 0xE2 \<and> b = 0x80 \<and> (0x80 \<le> c \<and> c \<le> 0x8A \<or> c = 0xA8 \<or> c = 0xA9 \<or> c = 0xAF) \<or>
                  a = 0xE2 \<and> b = 0x81 \<and> c = 0x9F \<or> a = 0xE3 \<and> b = 0x80 \<and> c = 0x80
               then 3 else 0
           | _ \<Rightarrow> 0))"

fun blank :: "string \<Rightarrow> bool" where
  "blank [] = True"
| "blank (c # cs) = (space_len (c # cs) \<noteq> 0 \<and> blank (drop (space_len (c # cs) - 1) cs))"

lemma space_len_Nil [simp]: "space_len [] = 0"
  by (simp add: space_len_def)

function trim_start :: "string \<Rightarrow> string" where
  "trim_start s = (if space_len s = 0 then s else trim_start (drop (space_len s) s))"
  by auto

termination
proof (relation "measure length")
  fix s assume "space_len s \<noteq> 0"
  then show "(drop (space_len s) s, s) \<in> measure length" by (cases s) auto
qed simp

declare trim_start.simps [simp del]

fun trim_end :: "string \<Rightarrow> string" where
  "trim_end [] = []"
| "trim_end (c # cs) = (if blank (c # cs) then [] else c # trim_end cs)"

definition trim :: "string \<Rightarrow> string" where
  "trim s = trim_end (trim_start s)"

lemma blank_trim_start: "blank s \<Longrightarrow> trim_start s = []"
proof (induction s rule: blank.induct)
  case (2 c cs)
  then show ?case by (subst trim_start.simps) (simp add: drop_Cons')
qed (simp add: trim_start.simps)

lemma blank_trim: "blank s \<Longrightarrow> trim s = []"
  by (simp add: trim_def blank_trim_start)

lemma trim_end_blank: "trim_end s = [] \<Longrightarrow> blank s"
  by (cases s) (auto split: if_splits)

lemma trim_blank: "trim s = [] \<Longrightarrow> blank s"
proof (induction s rule: trim_start.induct)
  case (1 s)
  then show ?case
  proof (cases "space_len s = 0")
    case True
    with 1(2) show ?thesis by (simp add: trim_def trim_start.simps [of s] trim_end_blank)
  next
    case False
    with 1 have "blank (drop (space_len s) s)" by (simp add: trim_def trim_start.simps [of s])
    with False show ?thesis by (cases s) (auto simp: drop_Cons')
  qed
qed

lemma trim_Nil_iff [simp]: "trim s = [] \<longleftrightarrow> blank s"
  using blank_trim trim_blank by blast

definition em_dash :: string where
  "em_dash = [CHR 0xE2, CHR 0x80, CHR 0x94]"

text \<open>\<open>s.split(c)\<close>\<close>

fun split_on :: "char \<Rightarrow> string \<Rightarrow> string list" where
  "split_on d [] = [[]]"
| "split_on d (c # cs) = (if c = d then [] # split_on d cs else (case split_on d cs of s # ss \<Rightarrow> (c # s) # ss | [] \<Rightarrow> [[c]]))"

text \<open>\<open>xs.join(sep)\<close>\<close>

fun join_str :: "string \<Rightarrow> string list \<Rightarrow> string" where
  "join_str sep [] = []"
| "join_str sep [x] = x"
| "join_str sep (x # y # ys) = x @ sep @ join_str sep (y # ys)"

end
