(* ===== verification/Json.thy ===== *)
theory Json
  imports Complex_Main Prelude "HOL-Library.Log_Nat"
begin

text \<open>
  The data the program moves around: 64-bit floats and JSON values.

  \<^item> \<open>f64\<close>: the finite doubles are rational numbers; \<open>f64_of_rat\<close> rounds to the nearest
    double, ties to even, with gradual underflow and overflow to infinity. The sign of zero
    is not represented: the code never divides by a zero and never prints one.
  \<^item> \<open>json\<close>: the variants of \<open>serde_json::Value\<close>, as \<open>crates/orbflow-cel/src/evaluator.rs\<close>
    matches on them (lines 228-260). A number is known by what its three accessors return,
    an object is a finite map.
\<close>

section \<open>64-bit floats\<close>

datatype f64 = F_NaN | F_NegInf | F_PosInf | F rat

definition round_half_even :: "rat \<Rightarrow> int" where
  "round_half_even q =
     (let n = \<lfloor>q\<rfloor>; r = q - of_int n in
      if r < 1 / 2 then n else if 1 / 2 < r then n + 1 else if even n then n else n + 1)"

definition f64_exponent :: "rat \<Rightarrow> int" where
  "f64_exponent q =
     (let (n, d) = quotient_of q; e = bitlen n - bitlen d in
      if 2 powi e \<le> q then e else e - 1)"

definition f64_of_rat :: "rat \<Rightarrow> f64" where
  "f64_of_rat q =
     (if q = 0 then F 0
      else
        let e = max (f64_exponent \<bar>q\<bar> - 52) (- 1074);
            r = of_int (round_half_even (q / 2 powi e)) * 2 powi e in
        if 2 ^ 1024 \<le> r then F_PosInf
        else if r \<le> - (2 ^ 1024) then F_NegInf
        else F r)"

fun f64_lt :: "f64 \<Rightarrow> f64 \<Rightarrow> bool" where
  "f64_lt (F x) (F y) = (x < y)"
| "f64_lt (F _) F_PosInf = True"
| "f64_lt F_NegInf (F _) = True"
| "f64_lt F_NegInf F_PosInf = True"
| "f64_lt _ _ = False"

fun f64_le :: "f64 \<Rightarrow> f64 \<Rightarrow> bool" where
  "f64_le (F x) (F y) = (x \<le> y)"
| "f64_le F_NaN _ = False"
| "f64_le _ F_NaN = False"
| "f64_le F_NegInf _ = True"
| "f64_le _ F_PosInf = True"
| "f64_le _ _ = False"

fun f64_add :: "f64 \<Rightarrow> f64 \<Rightarrow> f64" where
  "f64_add (F x) (F y) = f64_of_rat (x + y)"
| "f64_add F_NaN _ = F_NaN"
| "f64_add _ F_NaN = F_NaN"
| "f64_add F_PosInf F_NegInf = F_NaN"
| "f64_add F_NegInf F_PosInf = F_NaN"
| "f64_add F_PosInf _ = F_PosInf"
| "f64_add _ F_PosInf = F_PosInf"
| "f64_add F_NegInf _ = F_NegInf"
| "f64_add _ F_NegInf = F_NegInf"

definition f64_neg :: "f64 \<Rightarrow> f64" where
  "f64_neg x = (case x of F_NaN \<Rightarrow> F_NaN | F_NegInf \<Rightarrow> F_PosInf | F_PosInf \<Rightarrow> F_NegInf | F q \<Rightarrow> F (- q))"

definition f64_sub :: "f64 \<Rightarrow> f64 \<Rightarrow> f64" where
  "f64_sub x y = f64_add x (f64_neg y)"

fun f64_mul :: "f64 \<Rightarrow> f64 \<Rightarrow> f64" where
  "f64_mul (F x) (F y) = f64_of_rat (x * y)"
| "f64_mul F_NaN _ = F_NaN"
| "f64_mul _ F_NaN = F_NaN"
| "f64_mul (F x) y = (if x = 0 then F_NaN else if 0 < x then y else f64_neg y)"
| "f64_mul x (F y) = (if y = 0 then F_NaN else if 0 < y then x else f64_neg x)"
| "f64_mul F_PosInf y = y"
| "f64_mul F_NegInf y = f64_neg y"

text \<open>\<open>round\<close>: to the nearest integer, halves away from zero.\<close>

definition f64_round :: "f64 \<Rightarrow> f64" where
  "f64_round x = (case x of
       F q \<Rightarrow> f64_of_rat (of_int (if 0 \<le> q then \<lfloor>q + 1 / 2\<rfloor> else \<lceil>q - 1 / 2\<rceil>))
     | y \<Rightarrow> y)"

text \<open>The casts \<open>as u64\<close> and \<open>as i64\<close>: towards zero, saturating, NaN to zero.\<close>

definition f64_to_int :: "int \<Rightarrow> int \<Rightarrow> f64 \<Rightarrow> int" where
  "f64_to_int lo hi x = (case x of
       F_NaN \<Rightarrow> 0 | F_NegInf \<Rightarrow> lo | F_PosInf \<Rightarrow> hi
     | F q \<Rightarrow> max lo (min hi (if 0 \<le> q then \<lfloor>q\<rfloor> else \<lceil>q\<rceil>)))"

definition f64_clamp :: "f64 \<Rightarrow> f64 \<Rightarrow> f64 \<Rightarrow> f64" where
  "f64_clamp lo hi x = (if f64_lt x lo then lo else if f64_lt hi x then hi else x)"

definition U64_MAX :: int where
  "U64_MAX = 2 ^ 64 - 1"

text \<open>Division. A zero divisor counts as positive.\<close>

fun f64_div :: "f64 \<Rightarrow> f64 \<Rightarrow> f64" where
  "f64_div (F x) (F y) =
     (if y = 0 then (if x = 0 then F_NaN else if 0 < x then F_PosInf else F_NegInf) else f64_of_rat (x / y))"
| "f64_div F_NaN _ = F_NaN"
| "f64_div _ F_NaN = F_NaN"
| "f64_div (F x) _ = F 0"
| "f64_div F_PosInf (F y) = (if y < 0 then F_NegInf else F_PosInf)"
| "f64_div F_NegInf (F y) = (if y < 0 then F_PosInf else F_NegInf)"
| "f64_div _ _ = F_NaN"

definition f64_abs :: "f64 \<Rightarrow> f64" where
  "f64_abs x = (case x of F q \<Rightarrow> F \<bar>q\<bar> | F_NegInf \<Rightarrow> F_PosInf | y \<Rightarrow> y)"

lemma f64_lt_irrefl [simp]: "\<not> f64_lt x x"
  by (cases x) simp_all

lemma f64_lt_imp_le: "f64_lt x y \<Longrightarrow> f64_le x y"
  by (cases x; cases y) simp_all

lemma f64_not_lt_iff: "x \<noteq> F_NaN \<Longrightarrow> y \<noteq> F_NaN \<Longrightarrow> \<not> f64_lt x y \<longleftrightarrow> f64_le y x"
  by (cases x; cases y) auto

lemma f64_to_int_range: "lo \<le> 0 \<Longrightarrow> 0 \<le> hi \<Longrightarrow> lo \<le> f64_to_int lo hi x \<and> f64_to_int lo hi x \<le> hi"
  by (auto simp: f64_to_int_def split: f64.split)

lemma round_half_even_of_int [simp]: "round_half_even (of_int n) = n"
  by (simp add: round_half_even_def)

lemma f64_exponent_of_int: "0 < n \<Longrightarrow> f64_exponent (of_int n) = bitlen n - 1"
proof -
  assume n: "0 < n"
  then have "2 ^ nat (bitlen n - 1) \<le> n" using bitlen_bounds [of n] by simp
  moreover have "0 \<le> bitlen n - 1" using n bitlen_ge_iff_power [of 1 n] by simp
  ultimately have "2 powi (bitlen n - 1) \<le> (of_int n :: rat)"
    by (simp add: power_int_def)
  moreover have "quotient_of (of_int n) = (n, 1)" by (simp add: quotient_of_int)
  ultimately show ?thesis by (simp add: f64_exponent_def) (simp add: bitlen_alt_def)?
qed

lemma f64_of_rat_small_int: "\<bar>n\<bar> < 2 ^ 53 \<Longrightarrow> f64_of_rat (of_int n) = F (of_int n)"
proof (cases "n = 0")
  case False
  assume n: "\<bar>n\<bar> < 2 ^ 53"
  let ?e = "max (f64_exponent (of_int \<bar>n\<bar>) - 52) (- 1074)"
  have b: "bitlen \<bar>n\<bar> \<le> 53" using n bitlen_le_iff_power [of "\<bar>n\<bar>" 53] by simp
  then have e: "?e = bitlen \<bar>n\<bar> - 53" using False bitlen_nonneg [of "\<bar>n\<bar>"] f64_exponent_of_int [of "\<bar>n\<bar>"] by simp
  define k where "k = nat (53 - bitlen \<bar>n\<bar>)"
  have ek: "?e = - int k" using b e by (simp add: k_def)
  have "of_int n / 2 powi ?e = (of_int (n * 2 ^ k) :: rat)"
    unfolding ek by (simp add: power_int_minus divide_simps)
  then have r: "of_int (round_half_even (of_int n / 2 powi ?e)) * 2 powi ?e = (of_int n :: rat)"
    unfolding ek by (simp only: round_half_even_of_int) (simp add: power_int_minus divide_simps)
  have hi: "\<not> 2 ^ 1024 \<le> (of_int n :: rat)" "\<not> (of_int n :: rat) \<le> - (2 ^ 1024)"
  proof -
    have "(2::int) ^ 53 \<le> 2 ^ 1024" by simp
    then have "n < 2 ^ 1024" "- (2 ^ 1024) < n" using n by linarith+
    then show "\<not> 2 ^ 1024 \<le> (of_int n :: rat)" "\<not> (of_int n :: rat) \<le> - (2 ^ 1024)"
      by (metis not_le of_int_less_iff of_int_numeral of_int_power, metis not_le of_int_less_iff of_int_minus of_int_numeral of_int_power)
  qed
  from r hi False show ?thesis by (simp add: f64_of_rat_def Let_def)
qed (simp add: f64_of_rat_def)

section \<open>JSON values\<close>

datatype json_num = JsonNum (num_as_i64: "int option") (num_as_u64: "nat option") (num_as_f64: "f64 option")

datatype json =
    JNull
  | JBool bool
  | JNumber json_num
  | JString string
  | JArray "json list"
  | JObject "(string, json) fmap"

type_synonym jmap = "(string, json) fmap"

text \<open>The accessors of \<open>Value\<close> the sources call.\<close>

fun json_get :: "json \<Rightarrow> string \<Rightarrow> json option" where
  "json_get (JObject m) k = fmlookup m k"
| "json_get _ _ = None"

fun json_as_str :: "json \<Rightarrow> string option" where
  "json_as_str (JString s) = Some s"
| "json_as_str _ = None"

fun json_as_array :: "json \<Rightarrow> json list option" where
  "json_as_array (JArray xs) = Some xs"
| "json_as_array _ = None"

fun json_as_object :: "json \<Rightarrow> jmap option" where
  "json_as_object (JObject m) = Some m"
| "json_as_object _ = None"

fun json_as_f64 :: "json \<Rightarrow> f64 option" where
  "json_as_f64 (JNumber n) = num_as_f64 n"
| "json_as_f64 _ = None"

fun json_as_i64 :: "json \<Rightarrow> int option" where
  "json_as_i64 (JNumber n) = num_as_i64 n"
| "json_as_i64 _ = None"

fun json_as_u64 :: "json \<Rightarrow> nat option" where
  "json_as_u64 (JNumber n) = num_as_u64 n"
| "json_as_u64 _ = None"

text \<open>\<open>Number::from\<close> of an \<open>i64\<close> and a \<open>u64\<close>, and \<open>Number::from_f64\<close>.\<close>

definition num_of_i64 :: "int \<Rightarrow> json_num" where
  "num_of_i64 i = JsonNum (Some i) (if 0 \<le> i then Some (nat i) else None) (Some (f64_of_rat (of_int i)))"

definition num_of_u64 :: "nat \<Rightarrow> json_num" where
  "num_of_u64 u = JsonNum (if u < 2 ^ 63 then Some (int u) else None) (Some u) (Some (f64_of_rat (of_nat u)))"

definition num_of_f64 :: "f64 \<Rightarrow> json_num option" where
  "num_of_f64 f = (case f of F _ \<Rightarrow> Some (JsonNum None None (Some f)) | _ \<Rightarrow> None)"

end
