(* ===== verification/Workflow.thy ===== *)
theory Workflow
  imports Json
begin

text \<open>
  The workflow blueprint, \<open>crates/orbflow-core/src/workflow.rs\<close> and \<open>trigger.rs\<close>: the
  records of the DAG, the look-ups on it, the depth-first enumeration of a node's ancestors
  and the conversion of the deprecated trigger list into trigger nodes. Time stamps are
  integers; strings are UTF-8 byte strings.
\<close>

section \<open>Data\<close>

datatype trigger_type = TManual | TEvent | TSchedule | TWebhook

definition trigger_type_str :: "trigger_type \<Rightarrow> string" where
  "trigger_type_str t = (case t of
       TManual \<Rightarrow> ''manual'' | TEvent \<Rightarrow> ''event''
     | TSchedule \<Rightarrow> ''schedule'' | TWebhook \<Rightarrow> ''webhook'')"

definition trigger_parse_wire :: "string \<Rightarrow> trigger_type option" where
  "trigger_parse_wire s =
     (if s = ''manual'' then Some TManual
      else if s = ''event'' then Some TEvent
      else if s = ''schedule'' \<or> s = ''cron'' then Some TSchedule
      else if s = ''webhook'' then Some TWebhook
      else None)"

definition trigger_is_legacy_alias :: "string \<Rightarrow> bool" where
  "trigger_is_legacy_alias s = (s = ''cron'')"

lemma trigger_parse_str [simp]: "trigger_parse_wire (trigger_type_str t) = Some t"
  by (cases t) (simp_all add: trigger_parse_wire_def trigger_type_str_def)

lemma trigger_parse_legacy:
  "trigger_parse_wire s = Some t \<Longrightarrow> s = trigger_type_str t \<or> trigger_is_legacy_alias s"
  by (auto simp: trigger_parse_wire_def trigger_type_str_def trigger_is_legacy_alias_def
      split: if_splits)

record trigger_config =
  tc_cron :: "string option"
  tc_event_name :: "string option"
  tc_path :: "string option"

record trigger =
  tr_type :: trigger_type
  tr_config :: trigger_config

datatype definition_status = Draft | Active | Archived

datatype node_type = Builtin | Plugin

datatype node_kind = KTrigger | KAction | KCapability

datatype parameter_mode = PStatic | PExpression

record position =
  pos_x :: f64
  pos_y :: f64

record retry_policy =
  rp_max_attempts :: int
  rp_delay :: nat
  rp_multiplier :: f64

record compensate_config =
  cc_plugin_ref :: string
  cc_input_mapping :: "jmap option"

record parameter =
  pa_key :: string
  pa_mode :: parameter_mode
  pa_value :: "json option"
  pa_expression :: "string option"

record capability_port =
  cp_key :: string
  cp_capability_type :: string
  cp_required :: bool
  cp_description :: "string option"

record capability_edge =
  ce_id :: string
  ce_source_node_id :: string
  ce_target_node_id :: string
  ce_target_port_key :: string

record node_metadata =
  nm_description :: "string option"
  nm_docs :: "string option"
  nm_image_url :: "string option"

record annotation =
  an_id :: string
  an_annotation_type :: string
  an_content :: string
  an_position :: position
  an_style :: "jmap option"

record trigger_node_config =
  tn_trigger_type :: trigger_type
  tn_cron :: "string option"
  tn_event_name :: "string option"
  tn_path :: "string option"

record wf_node =
  n_id :: string
  n_name :: string
  n_kind :: node_kind
  n_type :: node_type
  n_plugin_ref :: string
  n_input_mapping :: "jmap option"
  n_config :: "jmap option"
  n_parameters :: "parameter list"
  n_retry :: "retry_policy option"
  n_compensate :: "compensate_config option"
  n_position :: position
  n_capability_ports :: "capability_port list"
  n_metadata :: "node_metadata option"
  n_trigger_config :: "trigger_node_config option"
  n_requires_approval :: bool

record edge =
  e_id :: string
  e_source :: string
  e_target :: string
  e_condition :: "string option"

record workflow =
  wf_id :: string
  wf_name :: string
  wf_description :: "string option"
  wf_version :: int
  wf_status :: definition_status
  wf_nodes :: "wf_node list"
  wf_edges :: "edge list"
  wf_capability_edges :: "capability_edge list"
  wf_triggers :: "trigger list"
  wf_annotations :: "annotation list"
  wf_created_at :: int
  wf_updated_at :: int

section \<open>Look-ups\<close>

definition node_by_id :: "workflow \<Rightarrow> string \<Rightarrow> wf_node option" where
  "node_by_id w i = List.find (\<lambda>n. n_id n = i) (wf_nodes w)"

definition entry_nodes :: "workflow \<Rightarrow> wf_node list" where
  "entry_nodes w =
     (let has_incoming = set (map e_target (wf_edges w)) in
      filter (\<lambda>n. n_kind n \<noteq> KCapability \<and> n_id n \<notin> has_incoming) (wf_nodes w))"

definition trigger_nodes :: "workflow \<Rightarrow> wf_node list" where
  "trigger_nodes w = filter (\<lambda>n. n_kind n = KTrigger) (wf_nodes w)"

definition capability_nodes :: "workflow \<Rightarrow> wf_node list" where
  "capability_nodes w = filter (\<lambda>n. n_kind n = KCapability) (wf_nodes w)"

definition action_nodes :: "workflow \<Rightarrow> wf_node list" where
  "action_nodes w = filter (\<lambda>n. n_kind n \<noteq> KTrigger \<and> n_kind n \<noteq> KCapability) (wf_nodes w)"

definition outgoing_edges :: "workflow \<Rightarrow> string \<Rightarrow> edge list" where
  "outgoing_edges w i = filter (\<lambda>e. e_source e = i) (wf_edges w)"

lemma node_by_id_SomeD: "node_by_id w i = Some n \<Longrightarrow> n \<in> set (wf_nodes w) \<and> n_id n = i"
  by (auto simp: node_by_id_def dest: find_SomeD)

lemma node_by_id_exists: "i \<in> n_id ` set (wf_nodes w) \<Longrightarrow> \<exists>n. node_by_id w i = Some n"
  by (cases "node_by_id w i") (auto simp: node_by_id_def find_None_iff)

lemma node_by_id_distinct:
  "distinct (map n_id (wf_nodes w)) \<Longrightarrow> n \<in> set (wf_nodes w) \<Longrightarrow> node_by_id w (n_id n) = Some n"
  by (metis node_by_id_SomeD node_by_id_exists image_eqI distinct_map inj_onD)

section \<open>The edge relation\<close>

definition edge_rel :: "edge list \<Rightarrow> (string \<times> string) set" where
  "edge_rel es = (\<lambda>e. (e_source e, e_target e)) ` set es"

definition successors :: "edge list \<Rightarrow> string \<Rightarrow> string list" where
  "successors es i = map e_target (filter (\<lambda>e. e_source e = i) es)"

definition predecessors :: "edge list \<Rightarrow> string \<Rightarrow> string list" where
  "predecessors es i = map e_source (filter (\<lambda>e. e_target e = i) es)"

lemma set_successors: "set (successors es i) = {j. (i, j) \<in> edge_rel es}"
  by (auto simp: successors_def edge_rel_def)

lemma set_predecessors: "set (predecessors es i) = {j. (j, i) \<in> edge_rel es}"
  by (auto simp: predecessors_def edge_rel_def)

lemma finite_edge_rel [simp]: "finite (edge_rel es)"
  by (simp add: edge_rel_def)

end
