(* ===== verification/Metering.thy ===== *)
theory Metering
  imports Json "HOL-Library.Word"
begin

text \<open>
  Resource metering and budgets, \<open>crates/orbflow-core/src/metering.rs\<close> and the check of
  \<open>crates/orbflow-engine/src/budget.rs\<close>. \<open>u64\<close>, \<open>i64\<close> and \<open>u32\<close> are words of that width: the
  additions wrap, as they do in a release build; \<open>sint\<close> reads an \<open>i64\<close>. Costs are doubles.
  The message of an exceeded budget is its fixed part.
\<close>

type_synonym u64 = "64 word"
type_synonym i64 = "64 word"
type_synonym u32 = "32 word"

record token_metrics =
  tk_prompt_tokens :: i64
  tk_completion_tokens :: i64
  tk_total_tokens :: i64

record node_metrics =
  nm_wall_time_ms :: u64
  nm_cpu_time_ms :: "u64 option"
  nm_api_calls :: u32
  nm_tokens :: "token_metrics option"
  nm_cost_usd :: f64
  nm_bytes_transferred :: u64

record instance_metrics =
  im_total_cost_usd :: f64
  im_total_wall_time_ms :: u64
  im_total_tokens :: i64
  im_total_api_calls :: u32
  im_total_bytes_transferred :: u64
  im_node_metrics :: "(string, node_metrics) fmap"

definition instance_metrics_new :: instance_metrics where
  "instance_metrics_new =
     \<lparr>im_total_cost_usd = F 0, im_total_wall_time_ms = 0, im_total_tokens = 0,
      im_total_api_calls = 0, im_total_bytes_transferred = 0, im_node_metrics = fmempty\<rparr>"

definition record_node :: "string \<Rightarrow> node_metrics \<Rightarrow> instance_metrics \<Rightarrow> instance_metrics" where
  "record_node node_id m im =
     im\<lparr>im_total_cost_usd := f64_add (im_total_cost_usd im) (nm_cost_usd m),
        im_total_wall_time_ms := im_total_wall_time_ms im + nm_wall_time_ms m,
        im_total_api_calls := im_total_api_calls im + nm_api_calls m,
        im_total_bytes_transferred := im_total_bytes_transferred im + nm_bytes_transferred m,
        im_total_tokens := (case nm_tokens m of
            None \<Rightarrow> im_total_tokens im
          | Some t \<Rightarrow> im_total_tokens im + tk_total_tokens t),
        im_node_metrics := fmupd node_id m (im_node_metrics im)\<rparr>"

definition node_count :: "instance_metrics \<Rightarrow> nat" where
  "node_count im = card (fmdom' (im_node_metrics im))"

record budget =
  bu_limit_usd :: "f64 option"
  bu_limit_tokens :: "i64 option"
  bu_limit_wall_time_ms :: "u64 option"

definition budget_check :: "budget \<Rightarrow> instance_metrics \<Rightarrow> string option" where
  "budget_check b im =
     (if (case bu_limit_usd b of None \<Rightarrow> False | Some l \<Rightarrow> f64_lt l (im_total_cost_usd im))
      then Some ''cost budget exceeded''
      else if (case bu_limit_tokens b of None \<Rightarrow> False | Some l \<Rightarrow> sint l < sint (im_total_tokens im))
      then Some ''token budget exceeded''
      else if (case bu_limit_wall_time_ms b of None \<Rightarrow> False | Some l \<Rightarrow> l < im_total_wall_time_ms im)
      then Some ''time budget exceeded''
      else None)"

datatype budget_period = Daily | Weekly | Monthly

record account_budget =
  ab_id :: string
  ab_workflow_id :: "string option"
  ab_team :: "string option"
  ab_period :: budget_period
  ab_limit_usd :: f64
  ab_current_usd :: f64
  ab_reset_at :: int
  ab_created_at :: int

text \<open>\<open>to_str\<close> is the \<open>Display\<close> of a JSON value (serde_json).\<close>

definition extract_metrics_from_output :: "(json \<Rightarrow> string) \<Rightarrow> jmap \<Rightarrow> u64 \<Rightarrow> node_metrics" where
  "extract_metrics_from_output to_str out wall_time_ms =
     \<lparr>nm_wall_time_ms = wall_time_ms,
      nm_cpu_time_ms = None,
      nm_api_calls = (if fmlookup out ''status'' \<noteq> None \<or> fmlookup out ''content'' \<noteq> None then 1 else 0),
      nm_tokens =
        Option.bind (fmlookup out ''usage'') (\<lambda>usage.
        Option.bind (Option.bind (json_get usage ''prompt_tokens'') json_as_i64) (\<lambda>p.
        Option.bind (Option.bind (json_get usage ''completion_tokens'') json_as_i64) (\<lambda>c.
        Option.bind (Option.bind (json_get usage ''total_tokens'') json_as_i64) (\<lambda>t.
          Some \<lparr>tk_prompt_tokens = word_of_int p, tk_completion_tokens = word_of_int c,
                tk_total_tokens = word_of_int t\<rparr>)))),
      nm_cost_usd = (case Option.bind (fmlookup out ''cost_usd'') json_as_f64 of None \<Rightarrow> F 0 | Some x \<Rightarrow> x),
      nm_bytes_transferred = (case fmlookup out ''body'' of
          None \<Rightarrow> 0 | Some v \<Rightarrow> of_nat (length (to_str v)))\<rparr>"

text \<open>\<open>check_budget_before_start\<close>; the argument is what \<open>budget_store.check_budget\<close> answered.\<close>

definition check_budget_before_start :: "account_budget option result \<Rightarrow> unit result" where
  "check_budget_before_start found =
     bindR found (\<lambda>b. case b of
         None \<Rightarrow> Inr ()
       | Some b \<Rightarrow> rejectR (f64_le (ab_limit_usd b) (ab_current_usd b))
           (BudgetExceeded ''Budget exceeded for workflow''))"

section \<open>Aggregation\<close>

definition record_all :: "(string \<times> node_metrics) list \<Rightarrow> instance_metrics \<Rightarrow> instance_metrics" where
  "record_all rs = fold (\<lambda>(i, m). record_node i m) rs"

definition tokens_of :: "node_metrics \<Rightarrow> i64" where
  "tokens_of m = (case nm_tokens m of None \<Rightarrow> 0 | Some t \<Rightarrow> tk_total_tokens t)"

lemma unat_sum_list:
  "sum_list (map unat ws) < 2 ^ LENGTH('a) \<Longrightarrow> unat (sum_list ws) = sum_list (map unat ws)"
  for ws :: "'a::len word list"
proof (induction ws)
  case Nil
  then show ?case by simp
next
  case (Cons w ws)
  then have "unat (sum_list ws) = sum_list (map unat ws)" by simp
  with Cons.prems show ?case by (simp add: unat_word_ariths)
qed

lemma record_all_simps [simp]:
  "record_all [] im = im"
  "record_all ((i, m) # rs) im = record_all rs (record_node i m im)"
  by (simp_all add: record_all_def)

lemma record_node_simps [simp]:
  "im_total_wall_time_ms (record_node i m im) = im_total_wall_time_ms im + nm_wall_time_ms m"
  "im_total_api_calls (record_node i m im) = im_total_api_calls im + nm_api_calls m"
  "im_total_bytes_transferred (record_node i m im) = im_total_bytes_transferred im + nm_bytes_transferred m"
  "im_total_tokens (record_node i m im) = im_total_tokens im + tokens_of m"
  "im_node_metrics (record_node i m im) = fmupd i m (im_node_metrics im)"
  by (simp_all add: record_node_def tokens_of_def split: option.split)

lemma record_all_wall:
  "im_total_wall_time_ms (record_all rs im) = im_total_wall_time_ms im + sum_list (map (nm_wall_time_ms \<circ> snd) rs)"
  by (induction rs arbitrary: im) (auto simp: add.assoc)

lemma record_all_api:
  "im_total_api_calls (record_all rs im) = im_total_api_calls im + sum_list (map (nm_api_calls \<circ> snd) rs)"
  by (induction rs arbitrary: im) (auto simp: add.assoc)

lemma record_all_bytes:
  "im_total_bytes_transferred (record_all rs im) =
     im_total_bytes_transferred im + sum_list (map (nm_bytes_transferred \<circ> snd) rs)"
  by (induction rs arbitrary: im) (auto simp: add.assoc)

lemma record_all_tokens:
  "im_total_tokens (record_all rs im) = im_total_tokens im + sum_list (map (tokens_of \<circ> snd) rs)"
  by (induction rs arbitrary: im) (auto simp: add.assoc)

lemma record_all_nodes:
  "fmlookup (im_node_metrics (record_all rs im)) k =
     (case map_of (rev rs) k of None \<Rightarrow> fmlookup (im_node_metrics im) k | Some m \<Rightarrow> Some m)"
proof (induction rs arbitrary: im)
  case Nil
  then show ?case by simp
next
  case (Cons r rs)
  obtain i m where "r = (i, m)" by (cases r)
  then show ?case using Cons.IH by (simp add: map_add_def split: option.split)
qed

text \<open>
  The totals of an instance are the sums of what was recorded: wall time, bytes and calls
  add up exactly as long as they fit their width (and modulo \<open>2^64\<close> or \<open>2^32\<close> otherwise),
  tokens modulo \<open>2^64\<close>, and each node keeps the metrics recorded for it last.
\<close>

theorem record_all_totals:
  assumes "sum_list (map (unat \<circ> nm_wall_time_ms \<circ> snd) rs) < 2 ^ 64"
  shows "unat (im_total_wall_time_ms (record_all rs instance_metrics_new)) =
      sum_list (map (unat \<circ> nm_wall_time_ms \<circ> snd) rs) \<and>
    im_total_bytes_transferred (record_all rs instance_metrics_new) = sum_list (map (nm_bytes_transferred \<circ> snd) rs) \<and>
    im_total_api_calls (record_all rs instance_metrics_new) = sum_list (map (nm_api_calls \<circ> snd) rs) \<and>
    im_total_tokens (record_all rs instance_metrics_new) = sum_list (map (tokens_of \<circ> snd) rs) \<and>
    fmlookup (im_node_metrics (record_all rs instance_metrics_new)) = map_of (rev rs)"
proof -
  have "sum_list (map unat (map (nm_wall_time_ms \<circ> snd) rs)) < 2 ^ LENGTH(64)"
    using assms by (simp add: comp_assoc)
  from unat_sum_list [OF this] show ?thesis
    by (simp add: record_all_wall record_all_api record_all_bytes record_all_tokens record_all_nodes
        instance_metrics_new_def comp_assoc fun_eq_iff split: option.split)
qed

text \<open>A node with the given wall time and nothing else.\<close>

definition sample_metrics :: "u64 \<Rightarrow> node_metrics" where
  "sample_metrics t =
     \<lparr>nm_wall_time_ms = t, nm_cpu_time_ms = None, nm_api_calls = 1, nm_tokens = None,
      nm_cost_usd = F 0, nm_bytes_transferred = 10\<rparr>"

theorem record_all_totals_witness:
  "unat (im_total_wall_time_ms
     (record_all [(''a'', sample_metrics 100), (''b'', sample_metrics 500)] instance_metrics_new)) = 600"
  using record_all_totals [of "[(''a'', sample_metrics 100), (''b'', sample_metrics 500)]"]
  by (simp add: sample_metrics_def)

section \<open>Limits\<close>

text \<open>
  A budget check passes exactly when no limit that is set is exceeded; reaching a limit is
  allowed.
\<close>

definition within_budget :: "budget \<Rightarrow> instance_metrics \<Rightarrow> bool" where
  "within_budget b im \<longleftrightarrow>
     (\<forall>l. bu_limit_usd b = Some l \<longrightarrow> \<not> f64_lt l (im_total_cost_usd im)) \<and>
     (\<forall>l. bu_limit_tokens b = Some l \<longrightarrow> sint (im_total_tokens im) \<le> sint l) \<and>
     (\<forall>l. bu_limit_wall_time_ms b = Some l \<longrightarrow> im_total_wall_time_ms im \<le> l)"

lemma budget_check_iff: "budget_check b im = None \<longleftrightarrow> within_budget b im"
  by (auto simp: budget_check_def within_budget_def not_less split: option.splits)

end
