(* ===== verification/Execution.thy ===== *)
theory Execution
  imports Workflow Metering
begin

text \<open>
  Instances and node states, \<open>crates/orbflow-core/src/execution.rs\<close>. Ids are strings, time
  stamps integers; \<open>version\<close> (an \<open>i64\<close> counter bumped by one per save) and \<open>attempt\<close> (an
  \<open>i32\<close> bumped per dispatch) are integers.
\<close>

datatype instance_status = IPending | IRunning | ICompleted | IFailed | ICancelled

datatype node_status =
    NPending | NQueued | NRunning | NCompleted | NFailed | NSkipped | NCancelled | NWaitingApproval

definition node_terminal :: "node_status \<Rightarrow> bool" where
  "node_terminal s = (s = NCompleted \<or> s = NFailed \<or> s = NSkipped \<or> s = NCancelled)"

definition node_waiting :: "node_status \<Rightarrow> bool" where
  "node_waiting s = (s = NWaitingApproval)"

record trigger_info =
  ti_trigger_type :: trigger_type
  ti_payload :: "jmap option"

record execution_context =
  cx_variables :: jmap
  cx_node_outputs :: "(string, jmap) fmap"
  cx_trigger_data :: "trigger_info option"
  cx_user_id :: "string option"

definition context_new :: "jmap \<Rightarrow> execution_context" where
  "context_new input =
     \<lparr>cx_variables = input, cx_node_outputs = fmempty, cx_trigger_data = None, cx_user_id = None\<rparr>"

definition context_with_user :: "jmap \<Rightarrow> string option \<Rightarrow> execution_context" where
  "context_with_user input user =
     \<lparr>cx_variables = input, cx_node_outputs = fmempty, cx_trigger_data = None, cx_user_id = user\<rparr>"

record node_state =
  st_node_id :: string
  st_status :: node_status
  st_input :: "jmap option"
  st_output :: "jmap option"
  st_parameters :: "jmap option"
  st_error :: "string option"
  st_attempt :: int
  st_started_at :: "int option"
  st_ended_at :: "int option"

record saga_state =
  sg_compensating :: bool
  sg_completed_nodes :: "string list"
  sg_compensated_nodes :: "string list"
  sg_failed_node :: "string option"

type_synonym node_states = "(string, node_state) fmap"

record wf_instance =
  in_id :: string
  in_workflow_id :: string
  in_status :: instance_status
  in_node_states :: node_states
  in_context :: execution_context
  in_saga :: "saga_state option"
  in_parent_id :: "string option"
  in_metrics :: "instance_metrics option"
  in_workflow_version :: "int option"
  in_owner_id :: "string option"
  in_version :: int
  in_created_at :: int
  in_updated_at :: int

definition inst_terminal :: "wf_instance \<Rightarrow> bool" where
  "inst_terminal i = (in_status i = ICompleted \<or> in_status i = IFailed \<or> in_status i = ICancelled)"

definition all_nodes_terminal :: "wf_instance \<Rightarrow> bool" where
  "all_nodes_terminal i = fmpred (\<lambda>_ ns. node_terminal (st_status ns)) (in_node_states i)"

record test_node_result =
  tr_node_outputs :: node_states
  tr_target_node :: string
  tr_warnings :: "string list"

section \<open>Status of a node by id\<close>

definition status_of :: "node_states \<Rightarrow> string \<Rightarrow> node_status option" where
  "status_of m i = map_option st_status (fmlookup m i)"

lemma status_of_Some: "status_of m i = Some s \<longleftrightarrow> (\<exists>ns. fmlookup m i = Some ns \<and> st_status ns = s)"
  by (auto simp: status_of_def)

lemma status_of_upd [simp]:
  "status_of (fmupd j ns m) i = (if i = j then Some (st_status ns) else status_of m i)"
  by (simp add: status_of_def)

lemma all_nodes_terminal_iff:
  "all_nodes_terminal i \<longleftrightarrow> (\<forall>k s. status_of (in_node_states i) k = Some s \<longrightarrow> node_terminal s)"
  by (auto simp: all_nodes_terminal_def fmpred_iff status_of_Some)

lemma node_terminal_simps [simp]:
  "node_terminal NCompleted" "node_terminal NFailed" "node_terminal NSkipped" "node_terminal NCancelled"
  "\<not> node_terminal NPending" "\<not> node_terminal NQueued" "\<not> node_terminal NRunning"
  "\<not> node_terminal NWaitingApproval"
  by (simp_all add: node_terminal_def)

section \<open>Sample instance\<close>

definition sample_state :: "string \<Rightarrow> node_status \<Rightarrow> node_state" where
  "sample_state i s =
     \<lparr>st_node_id = i, st_status = s, st_input = None, st_output = None, st_parameters = None,
      st_error = None, st_attempt = 0, st_started_at = None, st_ended_at = None\<rparr>"

definition sample_instance :: "(string \<times> node_status) list \<Rightarrow> wf_instance" where
  "sample_instance sts =
     \<lparr>in_id = ''inst-1'', in_workflow_id = ''wf-1'', in_status = IRunning,
      in_node_states = fmap_of_list (map (\<lambda>(i, s). (i, sample_state i s)) sts),
      in_context = context_new fmempty, in_saga = None, in_parent_id = None, in_metrics = None,
      in_workflow_version = Some 1, in_owner_id = None, in_version = 1, in_created_at = 0,
      in_updated_at = 0\<rparr>"

lemma sample_status [simp]:
  "status_of (in_node_states (sample_instance sts)) i = map_of sts i"
proof -
  have "map_option st_status (map_of (map (\<lambda>(i, s). (i, sample_state i s)) sts) i) = map_of sts i"
    by (induction sts) (auto simp: sample_state_def)
  then show ?thesis by (simp add: status_of_def sample_instance_def fmlookup_of_list)
qed

end
