(* ===== verification/Events.thy ===== *)
theory Events
  imports Execution
begin

text \<open>
  Domain events, \<open>crates/orbflow-core/src/event.rs\<close>: a common base (instance, version, time
  stamp) and one payload per kind.
\<close>

datatype event_type =
    EtInstanceStarted | EtNodeQueued | EtNodeStarted | EtNodeCompleted | EtNodeFailed
  | EtInstanceCompleted | EtInstanceFailed | EtInstanceCancelled | EtNodeApprovalRequested
  | EtNodeApproved | EtNodeRejected | EtCompensationStarted | EtCompensationCompleted
  | EtAnomalyDetected | EtChangeRequestStateChanged | EtPolicyChanged | EtVersionCreated

record base_event =
  be_instance_id :: string
  be_version :: int
  be_timestamp :: int

record anomaly_detected =
  ad_anomaly_type :: string
  ad_message :: string
  ad_severity :: string

record change_request_state_changed =
  cs_change_request_id :: string
  cs_workflow_id :: string
  cs_old_status :: string
  cs_new_status :: string
  cs_actor :: string

record policy_changed =
  pc_user_id :: string
  pc_action :: string
  pc_resource_type :: string
  pc_detail :: string

record version_created =
  vc_workflow_id :: string
  vc_workflow_version :: int
  vc_author :: "string option"
  vc_message :: "string option"

text \<open>
  The payload structs hold the base and the fields listed after it: \<open>EvNodeCompleted base
  node_id output\<close>, \<open>EvNodeRejected base node_id reason rejected_by\<close>, and so on.
\<close>

datatype domain_event =
    EvInstanceStarted base_event jmap
  | EvNodeQueued base_event string
  | EvNodeStarted base_event string
  | EvNodeCompleted base_event string "jmap option"
  | EvNodeFailed base_event string string
  | EvInstanceCompleted base_event
  | EvInstanceFailed base_event string
  | EvInstanceCancelled base_event
  | EvNodeApprovalRequested base_event string "string option"
  | EvNodeApproved base_event string "string option"
  | EvNodeRejected base_event string "string option" "string option"
  | EvCompensationStarted base_event string
  | EvCompensationCompleted base_event
  | EvAnomalyDetected base_event anomaly_detected
  | EvChangeRequestStateChanged base_event change_request_state_changed
  | EvPolicyChanged base_event policy_changed
  | EvVersionCreated base_event version_created

fun event_type_of :: "domain_event \<Rightarrow> event_type" where
  "event_type_of (EvInstanceStarted _ _) = EtInstanceStarted"
| "event_type_of (EvNodeQueued _ _) = EtNodeQueued"
| "event_type_of (EvNodeStarted _ _) = EtNodeStarted"
| "event_type_of (EvNodeCompleted _ _ _) = EtNodeCompleted"
| "event_type_of (EvNodeFailed _ _ _) = EtNodeFailed"
| "event_type_of (EvNodeApprovalRequested _ _ _) = EtNodeApprovalRequested"
| "event_type_of (EvNodeApproved _ _ _) = EtNodeApproved"
| "event_type_of (EvNodeRejected _ _ _ _) = EtNodeRejected"
| "event_type_of (EvInstanceCompleted _) = EtInstanceCompleted"
| "event_type_of (EvInstanceFailed _ _) = EtInstanceFailed"
| "event_type_of (EvInstanceCancelled _) = EtInstanceCancelled"
| "event_type_of (EvCompensationStarted _ _) = EtCompensationStarted"
| "event_type_of (EvCompensationCompleted _) = EtCompensationCompleted"
| "event_type_of (EvAnomalyDetected _ _) = EtAnomalyDetected"
| "event_type_of (EvChangeRequestStateChanged _ _) = EtChangeRequestStateChanged"
| "event_type_of (EvPolicyChanged _ _) = EtPolicyChanged"
| "event_type_of (EvVersionCreated _ _) = EtVersionCreated"

fun event_base :: "domain_event \<Rightarrow> base_event" where
  "event_base (EvInstanceStarted b _) = b"
| "event_base (EvNodeQueued b _) = b"
| "event_base (EvNodeStarted b _) = b"
| "event_base (EvNodeCompleted b _ _) = b"
| "event_base (EvNodeFailed b _ _) = b"
| "event_base (EvNodeApprovalRequested b _ _) = b"
| "event_base (EvNodeApproved b _ _) = b"
| "event_base (EvNodeRejected b _ _ _) = b"
| "event_base (EvInstanceCompleted b) = b"
| "event_base (EvInstanceFailed b _) = b"
| "event_base (EvInstanceCancelled b) = b"
| "event_base (EvCompensationStarted b _) = b"
| "event_base (EvCompensationCompleted b) = b"
| "event_base (EvAnomalyDetected b _) = b"
| "event_base (EvChangeRequestStateChanged b _) = b"
| "event_base (EvPolicyChanged b _) = b"
| "event_base (EvVersionCreated b _) = b"

definition event_instance_id :: "domain_event \<Rightarrow> string" where
  "event_instance_id e = be_instance_id (event_base e)"

definition event_timestamp :: "domain_event \<Rightarrow> int" where
  "event_timestamp e = be_timestamp (event_base e)"

definition event_version :: "domain_event \<Rightarrow> int" where
  "event_version e = be_version (event_base e)"

definition base_event_new :: "string \<Rightarrow> int \<Rightarrow> int \<Rightarrow> base_event" where
  "base_event_new inst_id version now =
     \<lparr>be_instance_id = inst_id, be_version = version, be_timestamp = now\<rparr>"

end
