(* ===== verification/Ports.thy ===== *)
theory Ports
  imports Workflow
begin

text \<open>
  The data of the port traits, \<open>crates/orbflow-core/src/ports.rs\<close>: what an executor is given
  and returns, the schema of a node type, and the options of a list query.
\<close>

definition DEFAULT_PAGE_SIZE :: int where
  "DEFAULT_PAGE_SIZE = 20"

record list_options =
  lo_offset :: int
  lo_limit :: int

definition list_options_default :: list_options where
  "list_options_default = \<lparr>lo_offset = 0, lo_limit = DEFAULT_PAGE_SIZE\<rparr>"

record node_input =
  ni_instance_id :: string
  ni_node_id :: string
  ni_plugin_ref :: string
  ni_config :: "jmap option"
  ni_input :: "jmap option"
  ni_parameters :: "jmap option"
  ni_capabilities :: "jmap option"
  ni_attempt :: int

record node_output =
  no_data :: "jmap option"
  no_error :: "string option"

datatype field_type =
    FtString | FtNumber | FtBoolean | FtObject | FtArray | FtSelect | FtCode | FtJson
  | FtTextarea | FtPassword | FtCredential

record field_schema =
  fs_key :: string
  fs_label :: string
  fs_field_type :: field_type
  fs_required :: bool
  fs_default :: "json option"
  fs_description :: "string option"
  fs_enum :: "string list"
  fs_credential_type :: "string option"

record node_schema =
  ns_plugin_ref :: string
  ns_name :: string
  ns_description :: string
  ns_category :: string
  ns_node_kind :: "node_kind option"
  ns_icon :: string
  ns_color :: string
  ns_docs :: "string option"
  ns_image_url :: "string option"
  ns_inputs :: "field_schema list"
  ns_outputs :: "field_schema list"
  ns_parameters :: "field_schema list"
  ns_capability_ports :: "capability_port list"
  ns_settings :: "field_schema list"
  ns_provides_capability :: "string option"

end
