(* ===== verification/Pagination.thy ===== *)
theory Pagination
  imports Ports
begin

text \<open>
  Offset and limit, \<open>crates/orbflow-core/src/pagination.rs\<close>. Offsets and limits are \<open>i64\<close>;
  \<open>None\<close> is the panic of \<open>start + limit\<close> when it exceeds \<open>i64::MAX\<close> (an arithmetic overflow
  in a checked build; in an unchecked one the sum is negative and the slice bounds panic). A
  slice has fewer than \<open>2^63\<close> elements.
\<close>

definition paginate :: "'a list \<Rightarrow> list_options \<Rightarrow> 'a list option" where
  "paginate xs opts =
     (let len = int (length xs);
          start = min (max (lo_offset opts) 0) len in
      if lo_limit opts \<le> 0 then Some (drop (nat start) xs)
      else if start + lo_limit opts \<ge> 2 ^ 63 then None
      else let end' = min (start + lo_limit opts) len in
        Some (take (nat end' - nat start) (drop (nat start) xs)))"

lemma paginate_page:
  assumes "0 \<le> o'" and "0 < l" and "o' + l < 2 ^ 63" and "int (length xs) + l < 2 ^ 63"
  shows "paginate xs \<lparr>lo_offset = o', lo_limit = l\<rparr> = Some (take (nat l) (drop (nat o') xs))"
proof (cases "o' \<le> int (length xs)")
  case True
  then have s: "min (max o' 0) (int (length xs)) = o'" using assms(1) by simp
  have "take (nat (min (o' + l) (int (length xs))) - nat o') (drop (nat o') xs) = take (nat l) (drop (nat o') xs)"
  proof (cases "o' + l \<le> int (length xs)")
    case True
    then show ?thesis using assms(1,2) by (simp add: nat_diff_distrib nat_add_distrib)
  next
    case False
    then show ?thesis using assms(1,2) True by (simp add: nat_diff_distrib)
  qed
  with s assms(2,3) show ?thesis by (simp add: paginate_def Let_def)
next
  case False
  then have "min (max o' 0) (int (length xs)) = int (length xs)" by simp
  with False assms(2,4) show ?thesis by (simp add: paginate_def Let_def)
qed

lemma take_drop_chunks: "concat (map (\<lambda>k. take n (drop (k * n) xs)) [0..<m]) = take (m * n) xs"
proof (induction m)
  case 0
  then show ?case by simp
next
  case (Suc m)
  have "take (Suc m * n) xs = take (m * n + n) xs" by (simp add: add.commute)
  also have "\<dots> = take (m * n) xs @ take n (drop (m * n) xs)" by (rule take_add)
  finally show ?case using Suc by simp
qed

text \<open>
  Reading page after page loses and repeats nothing: with a page size \<open>l\<close> and offsets
  \<open>0, l, 2 l, ...\<close>, the concatenation of the pages is the whole list, in order, once enough
  pages are read.
\<close>

theorem pages_cover:
  assumes "0 < l" and "length xs \<le> m * l" and "int (m * l) + int (length xs) < 2 ^ 63"
  shows "concat (map (\<lambda>k. the (paginate xs \<lparr>lo_offset = int (k * l), lo_limit = int l\<rparr>)) [0..<m]) = xs"
proof -
  have "paginate xs \<lparr>lo_offset = int (k * l), lo_limit = int l\<rparr> = Some (take l (drop (k * l) xs))"
    if "k < m" for k
  proof -
    have "k * l + l \<le> m * l" using that by (metis Suc_leI mult_Suc mult_le_mono1 add.commute)
    moreover have "l \<le> m * l" using that by (cases m) auto
    ultimately have "int (k * l) + int l < 2 ^ 63" "int (length xs) + int l < 2 ^ 63"
      using assms(3) by linarith+
    then show ?thesis using paginate_page [of "int (k * l)" "int l" xs] assms(1)
      by (simp del: of_nat_mult)
  qed
  then have "map (\<lambda>k. the (paginate xs \<lparr>lo_offset = int (k * l), lo_limit = int l\<rparr>)) [0..<m] =
      map (\<lambda>k. take l (drop (k * l) xs)) [0..<m]" by simp
  then have "concat (map (\<lambda>k. the (paginate xs \<lparr>lo_offset = int (k * l), lo_limit = int l\<rparr>)) [0..<m]) =
      take (m * l) xs" by (simp only: take_drop_chunks)
  with assms(2) show ?thesis by simp
qed

theorem pages_cover_witness:
  "concat (map (\<lambda>k. the (paginate [1 :: nat, 2, 3, 4, 5] \<lparr>lo_offset = int (k * 2), lo_limit = int 2\<rparr>)) [0..<3]) =
     [1, 2, 3, 4, 5]"
  by (rule pages_cover) simp_all

text \<open>A caller that asks for everything after an offset with the largest limit makes it panic.\<close>

lemma paginate_overflow:
  "paginate [x] \<lparr>lo_offset = 1, lo_limit = 2 ^ 63 - 1\<rparr> = None"
  by (simp add: paginate_def Let_def)

end
