(* ===== verification/Versioning.thy ===== *)
theory Versioning
  imports Json
begin

text \<open>
  Versions, diffs and change requests, \<open>crates/orbflow-core/src/versioning.rs\<close>. The node lists
  of a diff come out in the order of a hash map; the model lists them by id.
\<close>

record workflow_version =
  wv_version :: int
  wv_workflow_id :: string
  wv_definition :: json
  wv_author :: "string option"
  wv_message :: "string option"
  wv_created_at :: int

record workflow_diff =
  wd_from_version :: int
  wd_to_version :: int
  wd_added_nodes :: "string list"
  wd_removed_nodes :: "string list"
  wd_modified_nodes :: "string list"
  wd_added_edges :: "(string \<times> string) list"
  wd_removed_edges :: "(string \<times> string) list"

definition json_list_field :: "json \<Rightarrow> string \<Rightarrow> json list" where
  "json_list_field d k = (case Option.bind (json_get d k) json_as_array of None \<Rightarrow> [] | Some xs \<Rightarrow> xs)"

definition extract_node_ids :: "json \<Rightarrow> (string, json) fmap" where
  "extract_node_ids d =
     fold (\<lambda>node m. case Option.bind (json_get node ''id'') json_as_str of
                      None \<Rightarrow> m
                    | Some i \<Rightarrow> fmupd i node m)
       (json_list_field d ''nodes'') fmempty"

definition extract_edges :: "json \<Rightarrow> (string \<times> string) list" where
  "extract_edges d =
     concat (map (\<lambda>e. case (Option.bind (json_get e ''source'') json_as_str,
                            Option.bind (json_get e ''target'') json_as_str) of
                        (Some s, Some t) \<Rightarrow> [(s, t)]
                      | _ \<Rightarrow> [])
       (json_list_field d ''edges''))"

definition fm_keys :: "(string, 'v) fmap \<Rightarrow> string list" where
  "fm_keys m = map fst (fm_items m)"

definition compute_diff :: "json \<Rightarrow> json \<Rightarrow> int \<Rightarrow> int \<Rightarrow> workflow_diff" where
  "compute_diff from to from_ver to_ver =
     (let from_nodes = extract_node_ids from; to_nodes = extract_node_ids to;
          from_edges = extract_edges from; to_edges = extract_edges to in
      \<lparr>wd_from_version = from_ver, wd_to_version = to_ver,
       wd_added_nodes = filter (\<lambda>i. fmlookup from_nodes i = None) (fm_keys to_nodes),
       wd_removed_nodes = filter (\<lambda>i. fmlookup to_nodes i = None) (fm_keys from_nodes),
       wd_modified_nodes =
         filter (\<lambda>i. case fmlookup to_nodes i of None \<Rightarrow> False | Some v \<Rightarrow> fmlookup from_nodes i \<noteq> Some v)
           (fm_keys from_nodes),
       wd_added_edges = filter (\<lambda>e. e \<notin> set from_edges) to_edges,
       wd_removed_edges = filter (\<lambda>e. e \<notin> set to_edges) from_edges\<rparr>)"

datatype change_request_status = CrDraft | CrOpen | CrApproved | CrRejected | CrMerged

text \<open>serde's names of the statuses\<close>

definition cr_status_str :: "change_request_status \<Rightarrow> string" where
  "cr_status_str st = (case st of CrDraft \<Rightarrow> ''draft'' | CrOpen \<Rightarrow> ''open'' | CrApproved \<Rightarrow> ''approved''
     | CrRejected \<Rightarrow> ''rejected'' | CrMerged \<Rightarrow> ''merged'')"

definition cr_status_parse :: "string \<Rightarrow> change_request_status option" where
  "cr_status_parse s = (if s = ''draft'' then Some CrDraft else if s = ''open'' then Some CrOpen
     else if s = ''approved'' then Some CrApproved else if s = ''rejected'' then Some CrRejected
     else if s = ''merged'' then Some CrMerged else None)"

lemma cr_status_parse_str [simp]: "cr_status_parse (cr_status_str st) = Some st"
  by (cases st) (simp_all add: cr_status_parse_def cr_status_str_def)

record review_comment =
  rc_id :: string
  rc_author :: string
  rc_body :: string
  rc_node_id :: "string option"
  rc_edge_ref :: "(string \<times> string) option"
  rc_resolved :: bool
  rc_created_at :: int

record change_request =
  cr_id :: string
  cr_workflow_id :: string
  cr_title :: string
  cr_description :: "string option"
  cr_proposed_definition :: json
  cr_base_version :: int
  cr_status :: change_request_status
  cr_author :: string
  cr_reviewers :: "string list"
  cr_comments :: "review_comment list"
  cr_created_at :: int
  cr_updated_at :: int

definition has_key :: "string \<Rightarrow> json \<Rightarrow> bool" where
  "has_key k v = (case json_as_object v of None \<Rightarrow> False | Some m \<Rightarrow> fmlookup m k \<noteq> None)"

definition reject_reactflow_change_definition :: "json \<Rightarrow> unit result" where
  "reject_reactflow_change_definition d =
     bindR (rejectR (list_ex (has_key ''data'') (json_list_field d ''nodes''))
       (InvalidNodeConfig ''change request definition uses ReactFlow node shape'')) (\<lambda>_.
     rejectR (list_ex (\<lambda>e. has_key ''sourceHandle'' e \<or> has_key ''targetHandle'' e) (json_list_field d ''edges''))
       (InvalidNodeConfig ''change request definition uses ReactFlow edge shape''))"

section \<open>What a diff says\<close>

lemma set_fm_keys [simp]: "i \<in> set (fm_keys m) \<longleftrightarrow> fmlookup m i \<noteq> None"
  by (simp add: fm_keys_def fm_items_def sorted_list_of_fmap_def comp_def fmlookup_dom_iff)

text \<open>Which of the two versions a node belongs to, and whether its definition changed.\<close>

lemma diff_nodes:
  "i \<in> set (wd_added_nodes (compute_diff f t a b)) \<longleftrightarrow>
     fmlookup (extract_node_ids f) i = None \<and> fmlookup (extract_node_ids t) i \<noteq> None"
  "i \<in> set (wd_removed_nodes (compute_diff f t a b)) \<longleftrightarrow>
     fmlookup (extract_node_ids f) i \<noteq> None \<and> fmlookup (extract_node_ids t) i = None"
  "i \<in> set (wd_modified_nodes (compute_diff f t a b)) \<longleftrightarrow>
     fmlookup (extract_node_ids f) i \<noteq> None \<and> fmlookup (extract_node_ids t) i \<noteq> None \<and>
     fmlookup (extract_node_ids f) i \<noteq> fmlookup (extract_node_ids t) i"
  by (auto simp: compute_diff_def Let_def split: option.splits)

text \<open>
  A diff is complete: it is empty in all five lists if and only if the two definitions have
  the same nodes (by id and content) and the same set of edges; so every change of a node or an
  edge is shown to the reviewer, and comparing a version with itself shows none.
\<close>

theorem diff_empty_iff:
  "(let d = compute_diff f t a b in
      wd_added_nodes d = [] \<and> wd_removed_nodes d = [] \<and> wd_modified_nodes d = [] \<and>
      wd_added_edges d = [] \<and> wd_removed_edges d = []) \<longleftrightarrow>
   extract_node_ids f = extract_node_ids t \<and> set (extract_edges f) = set (extract_edges t)"
proof -
  let ?d = "compute_diff f t a b"
  have e: "wd_added_edges ?d = [] \<and> wd_removed_edges ?d = [] \<longleftrightarrow> set (extract_edges f) = set (extract_edges t)"
    by (auto simp: compute_diff_def Let_def filter_empty_conv)
  have "set (wd_added_nodes ?d) = {} \<and> set (wd_removed_nodes ?d) = {} \<and> set (wd_modified_nodes ?d) = {} \<longleftrightarrow>
      (\<forall>i. fmlookup (extract_node_ids f) i = fmlookup (extract_node_ids t) i)"
  proof -
    have "i \<notin> set (wd_added_nodes ?d) \<and> i \<notin> set (wd_removed_nodes ?d) \<and> i \<notin> set (wd_modified_nodes ?d) \<longleftrightarrow>
        fmlookup (extract_node_ids f) i = fmlookup (extract_node_ids t) i" for i
      unfolding diff_nodes by (cases "fmlookup (extract_node_ids f) i"; cases "fmlookup (extract_node_ids t) i") simp_all
    moreover have "A = {} \<and> B = {} \<and> C = {} \<longleftrightarrow> (\<forall>i. i \<notin> A \<and> i \<notin> B \<and> i \<notin> C)" for A B C :: "string set"
      by auto
    note this [of "set (wd_added_nodes ?d)" "set (wd_removed_nodes ?d)" "set (wd_modified_nodes ?d)"]
    ultimately show ?thesis by (simp only:)
  qed
  also have "\<dots> \<longleftrightarrow> extract_node_ids f = extract_node_ids t" by (auto intro: fmap_ext)
  finally have "wd_added_nodes ?d = [] \<and> wd_removed_nodes ?d = [] \<and> wd_modified_nodes ?d = [] \<longleftrightarrow>
      extract_node_ids f = extract_node_ids t" by simp
  with e show ?thesis by (simp add: Let_def) blast
qed

end
