(* ===== verification/Credentials.thy ===== *)
theory Credentials
  imports Json
begin

text \<open>
  Credentials and the policy of their use, \<open>crates/orbflow-core/src/credential.rs\<close> and
  \<open>credential_proxy.rs\<close>. The host of a URL is found by the crate \<open>url\<close> and is the parameter
  \<open>url_host\<close>; the serialized size of a credential's data is the parameter \<open>ser_len\<close>.
\<close>

section \<open>Access tiers\<close>

datatype access_tier = TierProxy | TierScopedToken | TierRaw

definition tier_str :: "access_tier \<Rightarrow> string" where
  "tier_str t = (case t of
       TierProxy \<Rightarrow> ''proxy'' | TierScopedToken \<Rightarrow> ''scoped_token'' | TierRaw \<Rightarrow> ''raw'')"

definition requires_explicit_policy :: "access_tier \<Rightarrow> bool" where
  "requires_explicit_policy t = (t \<noteq> TierProxy)"

datatype execution_mode = ModeProxy | ModeScopedToken | ModeRawSecret

definition tier_execution_mode :: "access_tier \<Rightarrow> execution_mode" where
  "tier_execution_mode t = (case t of
       TierProxy \<Rightarrow> ModeProxy | TierScopedToken \<Rightarrow> ModeScopedToken | TierRaw \<Rightarrow> ModeRawSecret)"

record execution_support =
  es_proxy :: bool
  es_scoped_token :: bool
  es_raw_secret :: bool

definition FAIL_CLOSED :: execution_support where
  "FAIL_CLOSED = \<lparr>es_proxy = False, es_scoped_token = False, es_raw_secret = False\<rparr>"

definition RAW_SECRET_ONLY :: execution_support where
  "RAW_SECRET_ONLY = \<lparr>es_proxy = False, es_scoped_token = False, es_raw_secret = True\<rparr>"

definition supports :: "execution_support \<Rightarrow> execution_mode \<Rightarrow> bool" where
  "supports s m = (case m of
       ModeProxy \<Rightarrow> es_proxy s | ModeScopedToken \<Rightarrow> es_scoped_token s | ModeRawSecret \<Rightarrow> es_raw_secret s)"

datatype credential_execution_error =
    TierNotAllowed access_tier
  | UnsupportedExecutionMode access_tier execution_mode

definition credential_error :: "credential_execution_error \<Rightarrow> orbflow_error" where
  "credential_error e = (case e of
       TierNotAllowed t \<Rightarrow>
         InvalidNodeConfig (''credential tier '' @ tier_str t @ '' is not allowed by explicit credential policy'')
     | UnsupportedExecutionMode t _ \<Rightarrow>
         InvalidNodeConfig (''credential tier '' @ tier_str t @ '' requires unsupported execution mode''))"

record credential_policy =
  cp_allowed_tiers :: "access_tier list"
  cp_allowed_domains :: "string list"
  cp_rate_limit_per_minute :: nat

definition policy_default :: credential_policy where
  "policy_default =
     \<lparr>cp_allowed_tiers = [TierProxy], cp_allowed_domains = [], cp_rate_limit_per_minute = 0\<rparr>"

definition allows_tier :: "credential_policy \<Rightarrow> access_tier \<Rightarrow> bool" where
  "allows_tier p t = (t \<in> set (cp_allowed_tiers p))"

definition is_domain_allowed :: "(string \<Rightarrow> string option) \<Rightarrow> credential_policy \<Rightarrow> string \<Rightarrow> bool" where
  "is_domain_allowed url_host p url =
     (if cp_allowed_domains p = [] then True
      else
        let host = (case url_host url of None \<Rightarrow> [] | Some h \<Rightarrow> h) in
        if host = [] then False
        else list_ex (\<lambda>d. host = d \<or> ends_with (''.'' @ d) host) (cp_allowed_domains p))"

definition resolve_credential_execution_mode ::
  "access_tier \<Rightarrow> credential_policy option \<Rightarrow> execution_support \<Rightarrow> credential_execution_error + execution_mode" where
  "resolve_credential_execution_mode tier policy support =
     (let policy_allows = (case policy of
            None \<Rightarrow> \<not> requires_explicit_policy tier
          | Some p \<Rightarrow> allows_tier p tier) in
      if \<not> policy_allows then Inl (TierNotAllowed tier)
      else
        let mode = tier_execution_mode tier in
        if \<not> supports support mode then Inl (UnsupportedExecutionMode tier mode)
        else Inr mode)"

section \<open>Credentials\<close>

definition cred_id_char :: "char \<Rightarrow> bool" where
  "cred_id_char c = (ascii_alnum c \<or> c = CHR ''-'' \<or> c = CHR ''_'' \<or> c = CHR ''.'')"

definition credential_id_new :: "string \<Rightarrow> string result" where
  "credential_id_new i =
     (if i = [] \<or> length i > 128
      then Inl (InvalidNodeConfig ''CredentialId must be 1-128 characters'')
      else if \<not> list_all cred_id_char i
      then Inl (InvalidNodeConfig ''CredentialId must contain only alphanumeric characters, hyphens, underscores, and dots'')
      else Inr i)"

record credential =
  cd_id :: string
  cd_name :: string
  cd_type :: string
  cd_data :: jmap
  cd_description :: "string option"
  cd_owner_id :: "string option"
  cd_access_tier :: access_tier
  cd_policy :: "credential_policy option"
  cd_created_at :: int
  cd_updated_at :: int

record create_credential_request =
  cq_name :: string
  cq_type :: string
  cq_data :: jmap
  cq_description :: "string option"
  cq_access_tier :: "access_tier option"
  cq_policy :: "credential_policy option"

definition MAX_CREDENTIAL_NAME_LEN :: nat where
  "MAX_CREDENTIAL_NAME_LEN = 256"

definition MAX_CREDENTIAL_DATA_SIZE :: nat where
  "MAX_CREDENTIAL_DATA_SIZE = 64 * 1024"

definition validate_credential_request :: "(jmap \<Rightarrow> nat option) \<Rightarrow> create_credential_request \<Rightarrow> unit result" where
  "validate_credential_request ser_len r =
     (if cq_name r = [] \<or> length (cq_name r) > MAX_CREDENTIAL_NAME_LEN
      then Inl (InvalidNodeConfig ''credential name must be 1-256 characters'')
      else if cq_type r = [] \<or> length (cq_type r) > MAX_CREDENTIAL_NAME_LEN
      then Inl (InvalidNodeConfig ''credential type must be 1-256 characters'')
      else case ser_len (cq_data r) of
        None \<Rightarrow> Inl (InvalidNodeConfig ''invalid credential data'')
      | Some n \<Rightarrow> rejectR (n > MAX_CREDENTIAL_DATA_SIZE)
          (InvalidNodeConfig ''credential data exceeds maximum size''))"

text \<open>\<open>into_credential\<close>; \<open>uuid\<close> and \<open>now\<close> are the generated id and the clock.\<close>

definition into_credential ::
  "(jmap \<Rightarrow> nat option) \<Rightarrow> string \<Rightarrow> int \<Rightarrow> create_credential_request \<Rightarrow> credential result" where
  "into_credential ser_len uuid now r =
     bindR (validate_credential_request ser_len r) (\<lambda>_.
     bindR (credential_id_new uuid) (\<lambda>i.
     Inr \<lparr>cd_id = i, cd_name = cq_name r, cd_type = cq_type r, cd_data = cq_data r,
          cd_description = cq_description r, cd_owner_id = None,
          cd_access_tier = (case cq_access_tier r of None \<Rightarrow> TierProxy | Some t \<Rightarrow> t),
          cd_policy = cq_policy r, cd_created_at = now, cd_updated_at = now\<rparr>))"

record credential_summary =
  cs_id :: string
  cs_name :: string
  cs_type :: string
  cs_description :: "string option"
  cs_access_tier :: "access_tier option"
  cs_policy :: "credential_policy option"
  cs_created_at :: int
  cs_updated_at :: int

definition summary_of :: "credential \<Rightarrow> credential_summary" where
  "summary_of c =
     \<lparr>cs_id = cd_id c, cs_name = cd_name c, cs_type = cd_type c, cs_description = cd_description c,
      cs_access_tier = Some (cd_access_tier c), cs_policy = cd_policy c,
      cs_created_at = cd_created_at c, cs_updated_at = cd_updated_at c\<rparr>"

section \<open>Fail-closed resolution\<close>

text \<open>
A credential is used in a mode only when all of this holds: the mode is the one of its
  tier, the runtime supports it, and the tier is allowed, either by an explicit policy or,
  without a policy, because it is the proxy tier. So raw secrets and scoped tokens are never
  handed out without a policy that names their tier, and a runtime that supports nothing
  resolves nothing.
\<close>

theorem resolve_execution_mode_iff:
  "resolve_credential_execution_mode tier policy support = Inr mode \<longleftrightarrow>
     mode = tier_execution_mode tier \<and> supports support mode \<and>
     (case policy of None \<Rightarrow> mode = ModeProxy | Some p \<Rightarrow> tier \<in> set (cp_allowed_tiers p))"
  by (cases tier)
     (auto simp: resolve_credential_execution_mode_def Let_def requires_explicit_policy_def
       tier_execution_mode_def allows_tier_def supports_def split: option.splits)

lemma fail_closed: "\<exists>e. resolve_credential_execution_mode tier policy FAIL_CLOSED = Inl e"
  by (cases tier)
     (auto simp: resolve_credential_execution_mode_def Let_def FAIL_CLOSED_def supports_def
       tier_execution_mode_def split: option.splits)

text \<open>
  The domain allowlist: with a list, a URL is allowed exactly when it has a host, and the
  host is a listed domain or ends with a dot and a listed domain; a URL without host is
  refused. An empty list allows every URL.
\<close>

theorem domain_allowed_iff:
  "is_domain_allowed url_host p url \<longleftrightarrow>
     cp_allowed_domains p = [] \<or>
     (\<exists>h d. url_host url = Some h \<and> h \<noteq> [] \<and> d \<in> set (cp_allowed_domains p) \<and>
        (h = d \<or> (\<exists>sub. h = sub @ ''.'' @ d)))"
proof -
  have e: "ends_with q h \<longleftrightarrow> (\<exists>sub. h = sub @ q)" for q h
    by (metis append_take_drop_id ends_with_def length_append
        le_add2 append_eq_conv_conj add_diff_cancel_right')
  show ?thesis
    by (auto simp: is_domain_allowed_def Let_def list_ex_iff e split: option.splits)
qed

end
