(* ===== verification/Samples.thy ===== *)
theory Samples
  imports Workflow
begin

text \<open>
  Small concrete workflows on which the properties of the development are exercised: an
  action node with default fields, a plain edge, and two graphs over them.
\<close>

definition sample_node :: "node_kind \<Rightarrow> string \<Rightarrow> wf_node" where
  "sample_node k i =
     \<lparr>n_id = i, n_name = i, n_kind = k, n_type = Builtin, n_plugin_ref = ''builtin:log'',
      n_input_mapping = None, n_config = None, n_parameters = [], n_retry = None,
      n_compensate = None, n_position = \<lparr>pos_x = F 0, pos_y = F 0\<rparr>, n_capability_ports = [],
      n_metadata = None, n_trigger_config = None, n_requires_approval = False\<rparr>"

definition sample_edge :: "string \<Rightarrow> string \<Rightarrow> edge" where
  "sample_edge s t = \<lparr>e_id = s @ t, e_source = s, e_target = t, e_condition = None\<rparr>"

definition sample_workflow :: "wf_node list \<Rightarrow> edge list \<Rightarrow> workflow" where
  "sample_workflow ns es =
     \<lparr>wf_id = ''wf-1'', wf_name = ''sample'', wf_description = None, wf_version = 1,
      wf_status = Active, wf_nodes = ns, wf_edges = es, wf_capability_edges = [],
      wf_triggers = [], wf_annotations = [], wf_created_at = 0, wf_updated_at = 0\<rparr>"

lemma sample_node_simps [simp]:
  "n_id (sample_node k i) = i" "n_kind (sample_node k i) = k"
  "n_plugin_ref (sample_node k i) = ''builtin:log''"
  "n_input_mapping (sample_node k i) = None" "n_parameters (sample_node k i) = []"
  "n_retry (sample_node k i) = None" "n_compensate (sample_node k i) = None"
  "n_capability_ports (sample_node k i) = []" "n_requires_approval (sample_node k i) = False"
  "n_trigger_config (sample_node k i) = None" "n_config (sample_node k i) = None"
  "n_position (sample_node k i) = \<lparr>pos_x = F 0, pos_y = F 0\<rparr>" "n_name (sample_node k i) = i"
  by (simp_all add: sample_node_def)

lemma sample_edge_simps [simp]:
  "e_source (sample_edge s t) = s" "e_target (sample_edge s t) = t"
  "e_condition (sample_edge s t) = None" "e_id (sample_edge s t) = s @ t"
  by (simp_all add: sample_edge_def)

lemma sample_workflow_simps [simp]:
  "wf_nodes (sample_workflow ns es) = ns" "wf_edges (sample_workflow ns es) = es"
  "wf_capability_edges (sample_workflow ns es) = []" "wf_triggers (sample_workflow ns es) = []"
  "wf_id (sample_workflow ns es) = ''wf-1''" "wf_version (sample_workflow ns es) = 1"
  by (simp_all add: sample_workflow_def)

text \<open>A diamond: \<open>a\<close> feeds \<open>b\<close> and \<open>c\<close>, which both feed \<open>d\<close>.\<close>

definition diamond :: workflow where
  "diamond = sample_workflow (map (sample_node KAction) [''a'', ''b'', ''c'', ''d''])
     [sample_edge ''a'' ''b'', sample_edge ''a'' ''c'', sample_edge ''b'' ''d'', sample_edge ''c'' ''d'']"

lemma diamond_nodes [simp]: "wf_nodes diamond = map (sample_node KAction) [''a'', ''b'', ''c'', ''d'']"
  by (simp add: diamond_def)

lemma diamond_edges: "wf_edges diamond =
    [sample_edge ''a'' ''b'', sample_edge ''a'' ''c'', sample_edge ''b'' ''d'', sample_edge ''c'' ''d'']"
  by (simp add: diamond_def)

text \<open>The edges of the diamond climb: a rank function shows that they form no cycle.\<close>

lemma acyclic_rank: "(\<And>x y. (x, y) \<in> E \<Longrightarrow> f x < (f y :: nat)) \<Longrightarrow> acyclic E"
proof -
  assume r: "\<And>x y. (x, y) \<in> E \<Longrightarrow> f x < f y"
  have "(x, y) \<in> E\<^sup>+ \<Longrightarrow> f x < f y" for x y
    by (induction rule: trancl_induct) (auto dest: r intro: less_trans)
  then show ?thesis unfolding acyclic_def by blast
qed

lemma diamond_edge_rel:
  "edge_rel (wf_edges diamond) = {(''a'', ''b''), (''a'', ''c''), (''b'', ''d''), (''c'', ''d'')}"
  by (auto simp: edge_rel_def diamond_edges)

lemma diamond_acyclic: "acyclic (edge_rel (wf_edges diamond))"
  by (rule acyclic_rank [where f = "\<lambda>x. if x = ''a'' then 0 else if x = ''d'' then 2 else 1"])
     (auto simp: diamond_edge_rel)

end
