(* ===== verification/MemStore.thy ===== *)
theory MemStore
  imports Events Pagination Versioning Credentials Samples
begin

text \<open>
  The in-memory store, \<open>crates/orbflow-memstore/src/store.rs\<close>. Each collection is a finite map
  behind a lock that an operation holds for its whole body, so an operation is one step; the
  operations that take two locks take them in one order. A list operation enumerates a hash
  map, whose order the model fixes to the order of the keys. \<open>now\<close> is the clock; \<open>parse_nodes\<close>
  and \<open>parse_edges\<close> are serde's conversion of a JSON value to a node or edge list.
\<close>

record mem_store =
  ms_workflows :: "(string, workflow) fmap"
  ms_instances :: "(string, wf_instance) fmap"
  ms_events :: "(string, domain_event list) fmap"
  ms_snapshots :: "(string, wf_instance) fmap"
  ms_credentials :: "(string, credential) fmap"
  ms_change_requests :: "(string, change_request) fmap"
  ms_versions :: "(string, workflow_version list) fmap"

definition mem_store_new :: mem_store where
  "mem_store_new =
     \<lparr>ms_workflows = fmempty, ms_instances = fmempty, ms_events = fmempty, ms_snapshots = fmempty,
      ms_credentials = fmempty, ms_change_requests = fmempty, ms_versions = fmempty\<rparr>"

definition fm_values :: "(string, 'v) fmap \<Rightarrow> 'v list" where
  "fm_values m = map snd (fm_items m)"

lemma set_fm_values: "set (fm_values m) = {v. \<exists>k. fmlookup m k = Some v}"
proof -
  have "snd ` A = {v. \<exists>k. (k, v) \<in> A}" for A :: "(string \<times> 'a) set" by force
  then show ?thesis by (simp add: fm_values_def fm_items_iff)
qed

text \<open>A page and the total count; \<open>None\<close> of \<open>paginate\<close> is its panic.\<close>

definition paged :: "'a list \<Rightarrow> list_options \<Rightarrow> ('a list \<times> int) option" where
  "paged xs opts = map_option (\<lambda>p. (p, int (length xs))) (paginate xs opts)"

definition push_at :: "string \<Rightarrow> 'v \<Rightarrow> (string, 'v list) fmap \<Rightarrow> (string, 'v list) fmap" where
  "push_at k v m = fmupd k ((case fmlookup m k of None \<Rightarrow> [] | Some vs \<Rightarrow> vs) @ [v]) m"

section \<open>Workflows\<close>

definition ms_create_workflow :: "workflow \<Rightarrow> (mem_store, unit) act" where
  "ms_create_workflow w s =
     (if fmlookup (ms_workflows s) (wf_id w) \<noteq> None then (Inl AlreadyExists, s)
      else (Inr (), s\<lparr>ms_workflows := fmupd (wf_id w) w (ms_workflows s)\<rparr>))"

definition ms_get_workflow :: "string \<Rightarrow> (mem_store, workflow) act" where
  "ms_get_workflow i s =
     (case fmlookup (ms_workflows s) i of None \<Rightarrow> (Inl NotFound, s) | Some w \<Rightarrow> (Inr w, s))"

definition ms_update_workflow :: "workflow \<Rightarrow> (mem_store, unit) act" where
  "ms_update_workflow w s =
     (if fmlookup (ms_workflows s) (wf_id w) = None then (Inl NotFound, s)
      else (Inr (), s\<lparr>ms_workflows := fmupd (wf_id w) w (ms_workflows s)\<rparr>))"

definition ms_delete_workflow :: "string \<Rightarrow> (mem_store, unit) act" where
  "ms_delete_workflow i s =
     (if fmlookup (ms_workflows s) i = None then (Inl NotFound, s)
      else (Inr (), s\<lparr>ms_workflows := fmdrop i (ms_workflows s)\<rparr>))"

definition ms_list_workflows :: "list_options \<Rightarrow> mem_store \<Rightarrow> (workflow list \<times> int) option" where
  "ms_list_workflows opts s = paged (fm_values (ms_workflows s)) opts"

definition ms_save_workflow_version :: "workflow_version \<Rightarrow> (mem_store, unit) act" where
  "ms_save_workflow_version v s =
     (Inr (), s\<lparr>ms_versions := push_at (wv_workflow_id v) v (ms_versions s)\<rparr>)"

definition ms_list_workflow_versions ::
  "string \<Rightarrow> list_options \<Rightarrow> mem_store \<Rightarrow> (workflow_version list \<times> int) option" where
  "ms_list_workflow_versions i opts s =
     (let vs = (case fmlookup (ms_versions s) i of None \<Rightarrow> [] | Some vs \<Rightarrow> vs) in
      paged (sort_key (\<lambda>v. - wv_version v) vs) opts)"

definition ms_get_workflow_version :: "string \<Rightarrow> int \<Rightarrow> (mem_store, workflow_version) act" where
  "ms_get_workflow_version i version s =
     (case fmlookup (ms_versions s) i of
        None \<Rightarrow> (Inl NotFound, s)
      | Some vs \<Rightarrow>
          (case List.find (\<lambda>v. wv_version v = version) vs of
             None \<Rightarrow> (Inl NotFound, s)
           | Some v \<Rightarrow> (Inr v, s)))"

section \<open>Instances and events\<close>

definition ms_create_instance :: "wf_instance \<Rightarrow> (mem_store, unit) act" where
  "ms_create_instance inst s =
     (if fmlookup (ms_instances s) (in_id inst) \<noteq> None then (Inl AlreadyExists, s)
      else (Inr (), s\<lparr>ms_instances := fmupd (in_id inst) inst (ms_instances s)\<rparr>))"

definition ms_get_instance :: "string \<Rightarrow> (mem_store, wf_instance) act" where
  "ms_get_instance i s =
     (case fmlookup (ms_instances s) i of None \<Rightarrow> (Inl NotFound, s) | Some x \<Rightarrow> (Inr x, s))"

definition ms_update_instance :: "wf_instance \<Rightarrow> (mem_store, unit) act" where
  "ms_update_instance inst s =
     (case fmlookup (ms_instances s) (in_id inst) of
        None \<Rightarrow> (Inl NotFound, s)
      | Some current \<Rightarrow>
          if in_version current \<noteq> in_version inst - 1 then (Inl Conflict, s)
          else (Inr (), s\<lparr>ms_instances := fmupd (in_id inst) inst (ms_instances s)\<rparr>))"

definition ms_list_instances :: "list_options \<Rightarrow> mem_store \<Rightarrow> (wf_instance list \<times> int) option" where
  "ms_list_instances opts s = paged (fm_values (ms_instances s)) opts"

definition ms_list_running_instances :: "mem_store \<Rightarrow> wf_instance list" where
  "ms_list_running_instances s = filter (\<lambda>i. in_status i = IRunning) (fm_values (ms_instances s))"

definition ms_create_instance_tx :: "wf_instance \<Rightarrow> domain_event \<Rightarrow> (mem_store, unit) act" where
  "ms_create_instance_tx inst ev s =
     (if fmlookup (ms_instances s) (in_id inst) \<noteq> None then (Inl AlreadyExists, s)
      else (Inr (), s\<lparr>ms_instances := fmupd (in_id inst) inst (ms_instances s),
                      ms_events := push_at (in_id inst) ev (ms_events s)\<rparr>))"

definition ms_append_event :: "domain_event \<Rightarrow> (mem_store, unit) act" where
  "ms_append_event ev s = (Inr (), s\<lparr>ms_events := push_at (event_instance_id ev) ev (ms_events s)\<rparr>)"

definition ms_load_events :: "string \<Rightarrow> int \<Rightarrow> mem_store \<Rightarrow> domain_event list" where
  "ms_load_events i after_version s =
     (case fmlookup (ms_events s) i of
        None \<Rightarrow> []
      | Some evs \<Rightarrow> filter (\<lambda>e. event_version e > after_version) evs)"

definition ms_save_snapshot :: "wf_instance \<Rightarrow> (mem_store, unit) act" where
  "ms_save_snapshot inst s = (Inr (), s\<lparr>ms_snapshots := fmupd (in_id inst) inst (ms_snapshots s)\<rparr>)"

definition ms_load_snapshot :: "string \<Rightarrow> mem_store \<Rightarrow> wf_instance option" where
  "ms_load_snapshot i s = fmlookup (ms_snapshots s) i"

section \<open>Credentials\<close>

definition ms_create_credential :: "credential \<Rightarrow> (mem_store, unit) act" where
  "ms_create_credential c s =
     (if fmlookup (ms_credentials s) (cd_id c) \<noteq> None then (Inl AlreadyExists, s)
      else (Inr (), s\<lparr>ms_credentials := fmupd (cd_id c) c (ms_credentials s)\<rparr>))"

definition ms_get_credential :: "string \<Rightarrow> (mem_store, credential) act" where
  "ms_get_credential i s =
     (case fmlookup (ms_credentials s) i of None \<Rightarrow> (Inl NotFound, s) | Some c \<Rightarrow> (Inr c, s))"

definition wrong_owner :: "string option \<Rightarrow> credential \<Rightarrow> bool" where
  "wrong_owner owner c = (case owner of None \<Rightarrow> False | Some oid \<Rightarrow> cd_owner_id c \<noteq> Some oid)"

definition ms_get_credential_for_owner :: "string \<Rightarrow> string option \<Rightarrow> (mem_store, credential) act" where
  "ms_get_credential_for_owner i owner s =
     (case fmlookup (ms_credentials s) i of
        None \<Rightarrow> (Inl NotFound, s)
      | Some c \<Rightarrow> if wrong_owner owner c then (Inl NotFound, s) else (Inr c, s))"

definition ms_update_credential :: "credential \<Rightarrow> (mem_store, unit) act" where
  "ms_update_credential c s =
     (if fmlookup (ms_credentials s) (cd_id c) = None then (Inl NotFound, s)
      else (Inr (), s\<lparr>ms_credentials := fmupd (cd_id c) c (ms_credentials s)\<rparr>))"

definition ms_delete_credential :: "string \<Rightarrow> string option \<Rightarrow> (mem_store, unit) act" where
  "ms_delete_credential i owner s =
     (case fmlookup (ms_credentials s) i of
        None \<Rightarrow> (Inl NotFound, s)
      | Some c \<Rightarrow> if wrong_owner owner c then (Inl NotFound, s)
                  else (Inr (), s\<lparr>ms_credentials := fmdrop i (ms_credentials s)\<rparr>))"

definition ms_list_credentials :: "mem_store \<Rightarrow> credential_summary list" where
  "ms_list_credentials s = map summary_of (fm_values (ms_credentials s))"

definition ms_list_credentials_for_owner :: "string option \<Rightarrow> mem_store \<Rightarrow> credential_summary list" where
  "ms_list_credentials_for_owner owner s =
     map summary_of (filter (\<lambda>c. cd_owner_id c = owner) (fm_values (ms_credentials s)))"

section \<open>Change requests\<close>

definition ms_create_change_request :: "change_request \<Rightarrow> (mem_store, unit) act" where
  "ms_create_change_request cr s =
     (if fmlookup (ms_change_requests s) (cr_id cr) \<noteq> None then (Inl AlreadyExists, s)
      else (Inr (), s\<lparr>ms_change_requests := fmupd (cr_id cr) cr (ms_change_requests s)\<rparr>))"

definition ms_get_change_request :: "string \<Rightarrow> (mem_store, change_request) act" where
  "ms_get_change_request i s =
     (case fmlookup (ms_change_requests s) i of None \<Rightarrow> (Inl NotFound, s) | Some cr \<Rightarrow> (Inr cr, s))"

definition ms_list_change_requests ::
  "string \<Rightarrow> change_request_status option \<Rightarrow> list_options \<Rightarrow> mem_store \<Rightarrow> (change_request list \<times> int) option" where
  "ms_list_change_requests wid status opts s =
     (let crs = filter (\<lambda>cr. cr_workflow_id cr = wid \<and>
                          (case status of None \<Rightarrow> True | Some st \<Rightarrow> cr_status cr = st))
                  (fm_values (ms_change_requests s)) in
      paged (sort_key (\<lambda>cr. - cr_created_at cr) crs) opts)"

definition ms_update_change_request :: "change_request \<Rightarrow> (mem_store, unit) act" where
  "ms_update_change_request cr s =
     (if fmlookup (ms_change_requests s) (cr_id cr) = None then (Inl NotFound, s)
      else (Inr (), s\<lparr>ms_change_requests := fmupd (cr_id cr) cr (ms_change_requests s)\<rparr>))"

definition ms_add_comment :: "string \<Rightarrow> review_comment \<Rightarrow> (mem_store, unit) act" where
  "ms_add_comment i c s =
     (case fmlookup (ms_change_requests s) i of
        None \<Rightarrow> (Inl NotFound, s)
      | Some cr \<Rightarrow> (Inr (), s\<lparr>ms_change_requests :=
          fmupd i (cr\<lparr>cr_comments := cr_comments cr @ [c]\<rparr>) (ms_change_requests s)\<rparr>))"

fun resolve_first :: "string \<Rightarrow> bool \<Rightarrow> review_comment list \<Rightarrow> review_comment list option" where
  "resolve_first cid r [] = None"
| "resolve_first cid r (c # cs) =
     (if rc_id c = cid then Some (c\<lparr>rc_resolved := r\<rparr> # cs)
      else map_option (\<lambda>cs'. c # cs') (resolve_first cid r cs))"

definition ms_resolve_comment :: "string \<Rightarrow> string \<Rightarrow> bool \<Rightarrow> (mem_store, unit) act" where
  "ms_resolve_comment i cid resolved s =
     (case fmlookup (ms_change_requests s) i of
        None \<Rightarrow> (Inl NotFound, s)
      | Some cr \<Rightarrow>
          (case resolve_first cid resolved (cr_comments cr) of
             None \<Rightarrow> (Inl NotFound, s)
           | Some cs \<Rightarrow> (Inr (), s\<lparr>ms_change_requests :=
               fmupd i (cr\<lparr>cr_comments := cs\<rparr>) (ms_change_requests s)\<rparr>)))"

definition apply_definition ::
  "(json \<Rightarrow> wf_node list option) \<Rightarrow> (json \<Rightarrow> edge list option) \<Rightarrow> int \<Rightarrow> json \<Rightarrow> workflow \<Rightarrow> workflow" where
  "apply_definition parse_nodes parse_edges now d w =
     w\<lparr>wf_version := wf_version w + 1, wf_updated_at := now,
       wf_nodes := (case Option.bind (json_get d ''nodes'') parse_nodes of None \<Rightarrow> wf_nodes w | Some ns \<Rightarrow> ns),
       wf_edges := (case Option.bind (json_get d ''edges'') parse_edges of None \<Rightarrow> wf_edges w | Some es \<Rightarrow> es)\<rparr>"

definition ms_merge_change_request ::
  "(json \<Rightarrow> wf_node list option) \<Rightarrow> (json \<Rightarrow> edge list option) \<Rightarrow> int \<Rightarrow>
     string \<Rightarrow> int \<Rightarrow> json \<Rightarrow> (mem_store, unit) act" where
  "ms_merge_change_request parse_nodes parse_edges now i expected_version d s =
     (case reject_reactflow_change_definition d of
        Inl e \<Rightarrow> (Inl e, s)
      | Inr _ \<Rightarrow>
        (case fmlookup (ms_change_requests s) i of
           None \<Rightarrow> (Inl NotFound, s)
         | Some cr \<Rightarrow>
             if cr_status cr \<noteq> CrApproved then (Inl Conflict, s)
             else (case fmlookup (ms_workflows s) (cr_workflow_id cr) of
                 None \<Rightarrow> (Inl NotFound, s)
               | Some w \<Rightarrow>
                   (Inr (), s\<lparr>ms_workflows :=
                        fmupd (cr_workflow_id cr) (apply_definition parse_nodes parse_edges now d w) (ms_workflows s),
                      ms_change_requests :=
                        fmupd i (cr\<lparr>cr_status := CrMerged, cr_updated_at := now\<rparr>) (ms_change_requests s)\<rparr>))))"

section \<open>The contract of an instance store\<close>

text \<open>
  What the engine relies on: reading does not change the store, an update is accepted exactly
  when it carries the successor of the stored version, then it is what is read back and no
  other instance changes, and a refused update changes nothing.
\<close>

locale instance_store =
  fixes get :: "string \<Rightarrow> ('s, wf_instance) act"
    and update :: "wf_instance \<Rightarrow> ('s, unit) act"
  assumes get_pure: "snd (get i s) = s"
    and update_match: "fst (get (in_id x) s) = Inr old \<Longrightarrow> in_version x = in_version old + 1 \<Longrightarrow>
      fst (update x s) = Inr () \<and> fst (get (in_id x) (snd (update x s))) = Inr x"
    and update_mismatch: "fst (get (in_id x) s) = Inr old \<Longrightarrow> in_version x \<noteq> in_version old + 1 \<Longrightarrow>
      update x s = (Inl Conflict, s)"
    and update_missing: "fst (get (in_id x) s) = Inl e \<Longrightarrow> \<exists>e'. update x s = (Inl e', s)"
    and update_other: "j \<noteq> in_id x \<Longrightarrow> fst (get j (snd (update x s))) = fst (get j s)"
begin

lemma get_Inr_iff: "get i s = (Inr x, s') \<longleftrightarrow> fst (get i s) = Inr x \<and> s' = s"
  using get_pure [of i s] by (cases "get i s") auto

lemma update_ok_iff:
  "fst (update x s) = Inr () \<longleftrightarrow> (\<exists>old. fst (get (in_id x) s) = Inr old \<and> in_version x = in_version old + 1)"
proof (cases "fst (get (in_id x) s)")
  case (Inl e)
  with update_missing [OF Inl] show ?thesis by auto
next
  case (Inr old)
  then show ?thesis
    using update_match [OF Inr] update_mismatch [OF Inr] by (cases "in_version x = in_version old + 1") auto
qed

lemma update_fail_unchanged: "fst (update x s) \<noteq> Inr () \<Longrightarrow> snd (update x s) = s"
  using update_missing [of x s] update_mismatch [of x s] update_match [of x s]
  by (cases "fst (get (in_id x) s)") fastforce+

lemma one_writer_wins:
  assumes "fst (get i s) = Inr old" and "in_id x = i" and "in_id y = i"
    and "in_version x = in_version old + 1" and "in_version y = in_version old + 1"
  shows "fst (update x s) = Inr () \<and> update y (snd (update x s)) = (Inl Conflict, snd (update x s))"
proof -
  have "fst (update x s) = Inr ()" "fst (get i (snd (update x s))) = Inr x"
    using update_match [of x s old] assms by auto
  moreover have "update y (snd (update x s)) = (Inl Conflict, snd (update x s))"
    using update_mismatch [of y "snd (update x s)" x] calculation(2) assms by auto
  ultimately show ?thesis by simp
qed

definition accepted :: "wf_instance \<Rightarrow> 's \<Rightarrow> nat" where
  "accepted x s = (if fst (update x s) = Inr () then 1 else 0)"

primrec accepted_for :: "string \<Rightarrow> wf_instance list \<Rightarrow> 's \<Rightarrow> nat" where
  "accepted_for i [] s = 0"
| "accepted_for i (x # xs) s = (if in_id x = i then accepted x s else 0) + accepted_for i xs (snd (update x s))"

lemma version_counts:
  "fst (get i s) = Inr old \<Longrightarrow>
     \<exists>new. fst (get i (fold (\<lambda>x s. snd (update x s)) xs s)) = Inr new \<and>
       in_version new = in_version old + int (accepted_for i xs s)"
proof (induction xs arbitrary: s old)
  case Nil
  then show ?case by simp
next
  case (Cons x xs)
  show ?case
  proof (cases "in_id x = i")
    case False
    then have "fst (get i (snd (update x s))) = Inr old" using update_other Cons.prems by metis
    from Cons.IH [OF this] False show ?thesis by simp
  next
    case True
    show ?thesis
    proof (cases "fst (update x s) = Inr ()")
      case acc: True
      with update_ok_iff Cons.prems True have v: "in_version x = in_version old + 1" by auto
      with update_match [of x s old] Cons.prems True have "fst (get i (snd (update x s))) = Inr x" by auto
      from Cons.IH [OF this] True acc v show ?thesis by (simp add: accepted_def add.assoc)
    next
      case rej: False
      then have "snd (update x s) = s" by (rule update_fail_unchanged)
      with Cons.IH [OF Cons.prems] True rej show ?thesis by (simp add: accepted_def)
    qed
  qed
qed

end

interpretation mem: instance_store ms_get_instance ms_update_instance
  by unfold_locales (auto simp: ms_get_instance_def ms_update_instance_def split: option.splits)

text \<open>
Optimistic locking: of two writers that read the same version of an instance and both
  write its successor, the first is accepted and the second gets \<open>Conflict\<close> and changes
  nothing, so no update is overwritten unseen.
\<close>

theorem no_lost_update:
  assumes "fst (ms_get_instance i s) = Inr old" and "in_id x = i" and "in_id y = i"
    and "in_version x = in_version old + 1" and "in_version y = in_version old + 1"
  shows "fst (ms_update_instance x s) = Inr () \<and>
    ms_update_instance y (snd (ms_update_instance x s)) = (Inl Conflict, snd (ms_update_instance x s))"
  using assms by (rule mem.one_writer_wins)

definition one_instance_store :: mem_store where
  "one_instance_store = mem_store_new\<lparr>ms_instances := fmupd ''inst-1'' (sample_instance []) fmempty\<rparr>"

theorem no_lost_update_witness:
  "ms_update_instance (sample_instance [(''a'', NFailed)]\<lparr>in_version := 2\<rparr>)
     (snd (ms_update_instance (sample_instance [(''a'', NCompleted)]\<lparr>in_version := 2\<rparr>) one_instance_store)) =
   (Inl Conflict, snd (ms_update_instance (sample_instance [(''a'', NCompleted)]\<lparr>in_version := 2\<rparr>) one_instance_store))"
  using no_lost_update [of "''inst-1''" one_instance_store "sample_instance []"
      "sample_instance [(''a'', NCompleted)]\<lparr>in_version := 2\<rparr>"
      "sample_instance [(''a'', NFailed)]\<lparr>in_version := 2\<rparr>"]
  by (simp add: one_instance_store_def ms_get_instance_def sample_instance_def)

text \<open>The number of accepted updates of an instance in a sequence of updates of any instances.\<close>

fun updates_accepted :: "string \<Rightarrow> wf_instance list \<Rightarrow> mem_store \<Rightarrow> nat" where
  "updates_accepted i [] s = 0"
| "updates_accepted i (x # xs) s =
     (if in_id x = i \<and> fst (ms_update_instance x s) = Inr () then 1 else 0) +
     updates_accepted i xs (snd (ms_update_instance x s))"

lemma updates_accepted_eq: "updates_accepted i xs s = mem.accepted_for i xs s"
  by (induction xs arbitrary: s) (simp_all add: mem.accepted_def)

text \<open>
The version of a stored instance counts its accepted updates: whatever updates of
  whatever instances arrive in whatever order, the version read at the end is the one at the
  start plus the number of updates of that instance that were accepted.
\<close>

theorem version_counts_updates:
  assumes "fst (ms_get_instance i s) = Inr old"
  shows "\<exists>new. fst (ms_get_instance i (fold (\<lambda>x s. snd (ms_update_instance x s)) xs s)) = Inr new \<and>
    in_version new = in_version old + int (updates_accepted i xs s)"
  unfolding updates_accepted_eq using assms by (rule mem.version_counts)

theorem version_counts_updates_witness:
  "\<exists>new. fst (ms_get_instance ''inst-1'' (fold (\<lambda>x s. snd (ms_update_instance x s))
       [sample_instance []\<lparr>in_version := 2\<rparr>, sample_instance []\<lparr>in_version := 2\<rparr>] one_instance_store)) = Inr new \<and>
     in_version new = 2"
proof -
  have "fst (ms_get_instance ''inst-1'' one_instance_store) = Inr (sample_instance [])"
    by (simp add: ms_get_instance_def one_instance_store_def)
  from version_counts_updates [OF this, of "[sample_instance []\<lparr>in_version := 2\<rparr>, sample_instance []\<lparr>in_version := 2\<rparr>]"]
  show ?thesis
    by (simp add: ms_update_instance_def one_instance_store_def sample_instance_def)
qed

section \<open>Events\<close>

text \<open>
  The event log is append-only and ordered: after any sequence of appended events, loading
  an instance's events from version \<open>v\<close> gives the events of that instance newer than \<open>v\<close>, the
  old ones first and the new ones in the order they were appended.
\<close>

theorem event_log_order:
  "ms_load_events i v (fold (\<lambda>e s. snd (ms_append_event e s)) es s) =
     ms_load_events i v s @ filter (\<lambda>e. event_instance_id e = i \<and> event_version e > v) es"
proof (induction es arbitrary: s)
  case Nil
  then show ?case by simp
next
  case (Cons e es)
  have "ms_load_events i v (snd (ms_append_event e s)) =
      ms_load_events i v s @ (if event_instance_id e = i \<and> event_version e > v then [e] else [])"
    by (auto simp: ms_load_events_def ms_append_event_def push_at_def split: option.split)
  with Cons.IH [of "snd (ms_append_event e s)"] show ?case by simp
qed

section \<open>Owners\<close>

text \<open>
Credentials of one owner are out of reach of another: a read or a delete on behalf of
  \<open>o\<close> of a credential with a different or no owner answers \<open>NotFound\<close>, exactly as for a missing
  credential, and leaves the store as it is; the list for an owner holds summaries of that
  owner's credentials only.
\<close>

theorem owner_isolation:
  assumes "fmlookup (ms_credentials s) i = Some c" and "cd_owner_id c \<noteq> Some o'"
  shows "ms_get_credential_for_owner i (Some o') s = (Inl NotFound, s) \<and>
    ms_delete_credential i (Some o') s = (Inl NotFound, s) \<and>
    summary_of ` {c. \<exists>k. fmlookup (ms_credentials s) k = Some c \<and> cd_owner_id c = Some o'} =
      set (ms_list_credentials_for_owner (Some o') s)"
proof -
  have "set (fm_values (ms_credentials s)) = {c. \<exists>k. fmlookup (ms_credentials s) k = Some c}"
    by (simp add: set_fm_values)
  then have "summary_of ` {c. \<exists>k. fmlookup (ms_credentials s) k = Some c \<and> cd_owner_id c = Some o'} =
      set (ms_list_credentials_for_owner (Some o') s)"
    by (auto simp: ms_list_credentials_for_owner_def)
  then show ?thesis
    using assms by (simp add: ms_get_credential_for_owner_def ms_delete_credential_def wrong_owner_def)
qed

definition sample_credential :: "string \<Rightarrow> string option \<Rightarrow> access_tier \<Rightarrow> credential" where
  "sample_credential i owner tier =
     \<lparr>cd_id = i, cd_name = i, cd_type = ''api_key'', cd_data = fmupd ''key'' (JString ''secret'') fmempty,
      cd_description = None, cd_owner_id = owner, cd_access_tier = tier, cd_policy = None,
      cd_created_at = 0, cd_updated_at = 0\<rparr>"

theorem owner_isolation_witness:
  "fst (ms_get_credential_for_owner ''c'' (Some ''bob'')
     (mem_store_new\<lparr>ms_credentials := fmupd ''c'' (sample_credential ''c'' (Some ''alice'') TierRaw) fmempty\<rparr>)) =
   Inl NotFound"
  using owner_isolation [of "mem_store_new\<lparr>ms_credentials :=
      fmupd ''c'' (sample_credential ''c'' (Some ''alice'') TierRaw) fmempty\<rparr>" "''c''"
      "sample_credential ''c'' (Some ''alice'') TierRaw" "''bob''"]
  by (simp add: sample_credential_def)

section \<open>Merging\<close>

text \<open>
  A merge succeeds exactly for an approved change request of an existing workflow whose new
  definition is not in the editor's shape; then the workflow's version grows by one, the
  request is merged, and merging it again is refused. The version the caller expects is not
  looked at.
\<close>

theorem merge_once:
  "(fst (ms_merge_change_request pn pe now i v d s) = Inr () \<longleftrightarrow>
      reject_reactflow_change_definition d = Inr () \<and>
      (\<exists>cr w. fmlookup (ms_change_requests s) i = Some cr \<and> cr_status cr = CrApproved \<and>
         fmlookup (ms_workflows s) (cr_workflow_id cr) = Some w)) \<and>
   ms_merge_change_request pn pe now i v d s = ms_merge_change_request pn pe now i v' d s \<and>
   fst (ms_merge_change_request pn pe now i v d (snd (ms_merge_change_request pn pe now i v d s))) \<noteq> Inr ()"
proof (cases "reject_reactflow_change_definition d")
  case (Inl e)
  then show ?thesis by (simp add: ms_merge_change_request_def)
next
  case (Inr u)
  then show ?thesis
    by (auto simp: ms_merge_change_request_def split: option.splits)
qed

end
