(* ===== verification/Dedup.thy ===== *)
theory Dedup
  imports Prelude
begin

text \<open>
  The per-instance set of processed result ids, \<open>crates/orbflow-engine/src/dedup.rs\<close>: a
  hash set for membership and a queue for the eviction order, at most
  \<open>MAX_PROCESSED_RESULTS\<close> of them. The mutex around the two is not modelled: every operation
  takes it for its whole body.
\<close>

definition MAX_PROCESSED_RESULTS :: nat where
  "MAX_PROCESSED_RESULTS = 100"

record result_set =
  rs_ids :: "string set"
  rs_order :: "string list"

definition rs_new :: result_set where
  "rs_new = \<lparr>rs_ids = {}, rs_order = []\<rparr>"

definition rs_contains :: "result_set \<Rightarrow> string \<Rightarrow> bool" where
  "rs_contains rs i = (i \<in> rs_ids rs)"

definition rs_add :: "string \<Rightarrow> result_set \<Rightarrow> result_set" where
  "rs_add i rs =
     (if i \<in> rs_ids rs then rs
      else
        let ids = insert i (rs_ids rs); order = rs_order rs @ [i] in
        if length order > MAX_PROCESSED_RESULTS
        then (case order of
                [] \<Rightarrow> rs\<lparr>rs_ids := ids, rs_order := order\<rparr>
              | evicted # rest \<Rightarrow> rs\<lparr>rs_ids := ids - {evicted}, rs_order := rest\<rparr>)
        else rs\<lparr>rs_ids := ids, rs_order := order\<rparr>)"

section \<open>Invariant\<close>

definition rs_inv :: "result_set \<Rightarrow> bool" where
  "rs_inv rs \<longleftrightarrow> rs_ids rs = set (rs_order rs) \<and> distinct (rs_order rs) \<and>
     length (rs_order rs) \<le> MAX_PROCESSED_RESULTS"

lemma rs_inv_new [simp]: "rs_inv rs_new"
  by (simp add: rs_inv_def rs_new_def)

text \<open>The queue after an insertion: the last \<open>MAX_PROCESSED_RESULTS\<close> ids, oldest first.\<close>

definition window_add :: "string \<Rightarrow> string list \<Rightarrow> string list" where
  "window_add i w = (if i \<in> set w then w else drop (length w + 1 - MAX_PROCESSED_RESULTS) (w @ [i]))"

lemma window_add_full:
  assumes "length w = MAX_PROCESSED_RESULTS" and "i \<notin> set w"
  shows "window_add i w = tl w @ [i]"
  using assms by (cases w) (simp_all add: window_add_def MAX_PROCESSED_RESULTS_def)

lemma rs_order_add:
  assumes "rs_inv rs"
  shows "rs_order (rs_add i rs) = window_add i (rs_order rs)"
proof (cases "i \<in> rs_ids rs")
  case True
  with assms show ?thesis by (simp add: rs_add_def window_add_def rs_inv_def)
next
  case False
  show ?thesis
  proof (cases "length (rs_order rs) = MAX_PROCESSED_RESULTS")
    case True
    then obtain e r where "rs_order rs = e # r"
      by (cases "rs_order rs") (simp_all add: MAX_PROCESSED_RESULTS_def)
    with True False assms show ?thesis
      by (simp add: window_add_full rs_inv_def) (simp add: rs_add_def)
  next
    case neq: False
    with assms have "length (rs_order rs) < MAX_PROCESSED_RESULTS" by (simp add: rs_inv_def)
    with False assms show ?thesis by (simp add: rs_add_def window_add_def rs_inv_def)
  qed
qed

lemma rs_inv_add: "rs_inv rs \<Longrightarrow> rs_inv (rs_add i rs)"
  by (cases "rs_order rs")
     (auto simp: rs_inv_def rs_add_def MAX_PROCESSED_RESULTS_def Let_def)

lemma rs_inv_fold: "rs_inv rs \<Longrightarrow> rs_inv (fold rs_add is rs)"
  by (induction "is" arbitrary: rs) (auto intro: rs_inv_add)

lemma rs_contains_add: "rs_inv rs \<Longrightarrow> rs_contains (rs_add i rs) i"
  by (cases "rs_order rs")
     (auto simp: rs_inv_def rs_contains_def rs_add_def MAX_PROCESSED_RESULTS_def Let_def)

lemma rs_contains_order: "rs_inv rs \<Longrightarrow> rs_contains rs i \<longleftrightarrow> i \<in> set (rs_order rs)"
  by (simp add: rs_inv_def rs_contains_def)

section \<open>Retention\<close>

text \<open>
  Position in the window: an id with at most \<open>n\<close> younger ids is kept by the next
  \<open>MAX_PROCESSED_RESULTS - 1 - n\<close> insertions.
\<close>

definition younger :: "string \<Rightarrow> nat \<Rightarrow> result_set \<Rightarrow> bool" where
  "younger i n rs \<longleftrightarrow> (\<exists>us vs. rs_order rs = us @ i # vs \<and> length vs \<le> n)"

lemma younger_new: "rs_inv rs \<Longrightarrow> \<not> rs_contains rs i \<Longrightarrow> younger i 0 (rs_add i rs)"
  by (cases "rs_order rs")
     (auto simp: rs_inv_def younger_def rs_contains_def rs_add_def MAX_PROCESSED_RESULTS_def Let_def)

lemma younger_add:
  assumes inv: "rs_inv rs" and y: "younger i n rs" and n: "n + 1 < MAX_PROCESSED_RESULTS"
  shows "younger i (n + 1) (rs_add j rs)"
proof -
  from y obtain us vs where o: "rs_order rs = us @ i # vs" and l: "length vs \<le> n"
    by (auto simp: younger_def)
  let ?k = "length (rs_order rs) + 1 - MAX_PROCESSED_RESULTS"
  show ?thesis
  proof (cases "j \<in> set (rs_order rs)")
    case True
    with rs_order_add [OF inv, of j] o l show ?thesis
      by (auto simp: window_add_def younger_def intro: exI [of _ us])
  next
    case False
    have "?k \<le> length us" using l n o by simp
    then have "rs_order (rs_add j rs) = drop ?k us @ i # (vs @ [j])"
      using False o rs_order_add [OF inv, of j] by (simp add: window_add_def)
    with l show ?thesis
      unfolding younger_def by (intro exI [of _ "drop ?k us"] exI [of _ "vs @ [j]"]) simp
  qed
qed

lemma younger_contains: "rs_inv rs \<Longrightarrow> younger i n rs \<Longrightarrow> rs_contains rs i"
  by (auto simp: younger_def rs_contains_order)

lemma younger_fold:
  "rs_inv rs \<Longrightarrow> younger i n rs \<Longrightarrow> n + length js < MAX_PROCESSED_RESULTS \<Longrightarrow>
     younger i (n + length js) (fold rs_add js rs)"
proof (induction js arbitrary: rs n)
  case Nil
  then show ?case by simp
next
  case (Cons j js)
  from Cons.prems have "younger i (n + 1) (rs_add j rs)"
    by (intro younger_add) auto
  with Cons.IH [of "rs_add j rs" "n + 1"] Cons.prems rs_inv_add show ?case
    by simp
qed

text \<open>
The hash set and the queue together refine one list, the window of the last hundred
  distinct ids: after any sequence of recordings the queue is that window, an id is recognised
  exactly when it is in it, and it never holds more than the bound.
\<close>

theorem result_set_refines_window:
  "rs_order (fold rs_add is rs_new) = fold window_add is [] \<and>
   (rs_contains (fold rs_add is rs_new) i \<longleftrightarrow> i \<in> set (fold window_add is [])) \<and>
   length (fold window_add is []) \<le> MAX_PROCESSED_RESULTS"
proof -
  have order: "rs_inv rs \<Longrightarrow> rs_order (fold rs_add is rs) = fold window_add is (rs_order rs)" for rs
    by (induction "is" arbitrary: rs) (simp_all add: rs_inv_add rs_order_add)
  have inv: "rs_inv (fold rs_add is rs_new)" by (simp add: rs_inv_fold)
  have "rs_order (fold rs_add is rs_new) = fold window_add is []"
    using order [OF rs_inv_new] by (simp add: rs_new_def)
  with inv rs_contains_order [OF inv, of i] show ?thesis by (simp add: rs_inv_def)
qed

text \<open>
An id that was new when it was recorded is still recognised after up to 99 further
  recordings, so a redelivery of its result within that window is dropped.
\<close>

theorem recorded_id_retained:
  assumes "\<not> rs_contains (fold rs_add is rs_new) i"
    and "length js < MAX_PROCESSED_RESULTS"
  shows "rs_contains (fold rs_add js (rs_add i (fold rs_add is rs_new))) i"
proof -
  let ?rs = "fold rs_add is rs_new"
  have inv: "rs_inv ?rs" by (simp add: rs_inv_fold)
  have "younger i 0 (rs_add i ?rs)" using inv assms(1) by (rule younger_new)
  then have "younger i (0 + length js) (fold rs_add js (rs_add i ?rs))"
    using assms(2) by (intro younger_fold rs_inv_add inv) auto
  then show ?thesis
    by (rule younger_contains [rotated]) (simp add: rs_inv_fold rs_inv_add inv)
qed

theorem recorded_id_retained_witness:
  "rs_contains (fold rs_add [''b'', ''c''] (rs_add ''a'' (fold rs_add [''z''] rs_new))) ''a''"
proof (rule recorded_id_retained)
  show "\<not> rs_contains (fold rs_add [''z''] rs_new) ''a''"
    by (simp add: rs_contains_def rs_add_def rs_new_def MAX_PROCESSED_RESULTS_def Let_def)
  show "length [''b'', ''c''] < MAX_PROCESSED_RESULTS"
    by (simp add: MAX_PROCESSED_RESULTS_def)
qed

end
