(* ===== verification/Cel.thy ===== *)
theory Cel
  imports Json
begin

text \<open>
  The evaluator of CEL expressions, \<open>crates/orbflow-cel/src/evaluator.rs\<close>. Compilation and
  execution belong to the crate \<open>cel_interpreter\<close> and are parameters: \<open>compile\<close> of an
  expression, and \<open>execute\<close> of a program in a context, whose error also stands for the
  five-second time limit. The order in which the program cache lists its keys is the
  parameter \<open>keys\<close>.
\<close>

section \<open>Values\<close>

datatype cel_key = CKInt int | CKUint nat | CKBool bool | CKString string

text \<open>
  A map is the list of its entries in iteration order. \<open>CelOther\<close> stands for the variants
  the source does not name.
\<close>

datatype cel_value =
    CelNull
  | CelBool bool
  | CelInt int
  | CelUInt nat
  | CelFloat f64
  | CelString string
  | CelList "cel_value list"
  | CelMap "(cel_key \<times> cel_value) list"
  | CelOther

primrec json_to_cel :: "json \<Rightarrow> cel_value" where
  "json_to_cel JNull = CelNull"
| "json_to_cel (JBool b) = CelBool b"
| "json_to_cel (JNumber n) =
     (case num_as_i64 n of
        Some i \<Rightarrow> CelInt i
      | None \<Rightarrow> (case num_as_u64 n of
          Some u \<Rightarrow> CelUInt u
        | None \<Rightarrow> (case num_as_f64 n of Some f \<Rightarrow> CelFloat f | None \<Rightarrow> CelNull)))"
| "json_to_cel (JString s) = CelString s"
| "json_to_cel (JArray xs) = CelList (map json_to_cel xs)"
| "json_to_cel (JObject m) =
     CelMap (map (\<lambda>(k, v). (CKString k, v)) (fm_items (fmmap json_to_cel m)))"

definition cel_key_str :: "cel_key \<Rightarrow> string" where
  "cel_key_str k = (case k of
       CKInt i \<Rightarrow> int_str i
     | CKUint u \<Rightarrow> nat_str u
     | CKBool b \<Rightarrow> (if b then ''true'' else ''false'')
     | CKString s \<Rightarrow> s)"

primrec cel_to_json :: "cel_value \<Rightarrow> json" where
  "cel_to_json CelNull = JNull"
| "cel_to_json (CelBool b) = JBool b"
| "cel_to_json (CelInt i) = JNumber (num_of_i64 i)"
| "cel_to_json (CelUInt u) = JNumber (num_of_u64 u)"
| "cel_to_json (CelFloat f) = (case num_of_f64 f of None \<Rightarrow> JNull | Some n \<Rightarrow> JNumber n)"
| "cel_to_json (CelString s) = JString s"
| "cel_to_json (CelList xs) = JArray (map cel_to_json xs)"
| "cel_to_json (CelMap kvs) =
     JObject (fmap_of_list (rev (map (\<lambda>(k, v). (cel_key_str k, v)) (map (map_prod id cel_to_json) kvs))))"
| "cel_to_json CelOther = JNull"

section \<open>Compilation with a bounded cache\<close>

definition CEL_MAX_EXPR_LEN :: nat where
  "CEL_MAX_EXPR_LEN = 4096"

definition CEL_MAX_CACHE_SIZE :: nat where
  "CEL_MAX_CACHE_SIZE = 10000"

type_synonym 'p cel_cache = "(string, 'p) fmap"

definition get_or_compile ::
  "(string \<Rightarrow> 'p result) \<Rightarrow> ('p cel_cache \<Rightarrow> string list) \<Rightarrow> string \<Rightarrow> ('p cel_cache, 'p) act" where
  "get_or_compile compile keys expr cache =
     (if length expr > CEL_MAX_EXPR_LEN
      then (Inl (InvalidNodeConfig ''CEL expression exceeds maximum length''), cache)
      else case fmlookup cache expr of
        Some program \<Rightarrow> (Inr program, cache)
      | None \<Rightarrow>
          (case compile expr of
             Inl e \<Rightarrow> (Inl e, cache)
           | Inr program \<Rightarrow>
               let kept = (if card (fmdom' cache) \<ge> CEL_MAX_CACHE_SIZE
                           then fold fmdrop (take (CEL_MAX_CACHE_SIZE div 2) (keys cache)) cache
                           else cache) in
               (Inr program, fmupd expr program kept)))"

definition eval_any ::
  "(string \<Rightarrow> 'p result) \<Rightarrow> ('p cel_cache \<Rightarrow> string list) \<Rightarrow> ('p \<Rightarrow> (string, cel_value) fmap \<Rightarrow> cel_value result) \<Rightarrow>
     string \<Rightarrow> jmap \<Rightarrow> ('p cel_cache, json) act" where
  "eval_any compile keys execute expr ctx =
     bindE (get_or_compile compile keys expr) (\<lambda>program.
     liftR (map_sum id cel_to_json (execute program (fmmap json_to_cel ctx))))"

definition eval_bool ::
  "(string \<Rightarrow> 'p result) \<Rightarrow> ('p cel_cache \<Rightarrow> string list) \<Rightarrow> ('p \<Rightarrow> (string, cel_value) fmap \<Rightarrow> cel_value result) \<Rightarrow>
     string \<Rightarrow> jmap \<Rightarrow> ('p cel_cache, bool) act" where
  "eval_bool compile keys execute expr ctx =
     bindE (eval_any compile keys execute expr ctx) (\<lambda>v.
     ret (case v of JBool b \<Rightarrow> b | _ \<Rightarrow> False))"

text \<open>The same without a cache: what the rest of the program relies on.\<close>

definition cel_pure ::
  "(string \<Rightarrow> 'p result) \<Rightarrow> ('p \<Rightarrow> (string, cel_value) fmap \<Rightarrow> cel_value result) \<Rightarrow> string \<Rightarrow> jmap \<Rightarrow> json result" where
  "cel_pure compile execute expr ctx =
     (if length expr > CEL_MAX_EXPR_LEN
      then Inl (InvalidNodeConfig ''CEL expression exceeds maximum length'')
      else bindR (compile expr) (\<lambda>program. map_sum id cel_to_json (execute program (fmmap json_to_cel ctx))))"

section \<open>Contexts\<close>

definition outputs_object :: "(string, jmap) fmap \<Rightarrow> json" where
  "outputs_object outs = JObject (fmmap JObject outs)"

definition build_edge_context :: "(string, jmap) fmap \<Rightarrow> jmap" where
  "build_edge_context outs = fmupd ''nodes'' (outputs_object outs) fmempty"

definition build_mapping_context :: "(string, jmap) fmap \<Rightarrow> jmap \<Rightarrow> jmap" where
  "build_mapping_context outs vars = fmupd ''vars'' (JObject vars) (build_edge_context outs)"

section \<open>The cache is transparent and bounded\<close>

definition cache_sound :: "(string \<Rightarrow> 'p result) \<Rightarrow> 'p cel_cache \<Rightarrow> bool" where
  "cache_sound compile cache \<longleftrightarrow>
     (\<forall>e p. fmlookup cache e = Some p \<longrightarrow> compile e = Inr p \<and> length e \<le> CEL_MAX_EXPR_LEN)"

lemma fold_fmdrop_lookup:
  "fmlookup (fold fmdrop ks m) k = (if k \<in> set ks then None else fmlookup m k)"
  by (induction ks arbitrary: m) auto

lemma get_or_compile_result:
  assumes "cache_sound compile cache"
  shows "fst (get_or_compile compile keys expr cache) =
    (if length expr > CEL_MAX_EXPR_LEN then Inl (InvalidNodeConfig ''CEL expression exceeds maximum length'')
     else compile expr)"
  using assms by (auto simp: get_or_compile_def cache_sound_def Let_def split: option.split sum.split)

lemma get_or_compile_sound:
  assumes "cache_sound compile cache"
  shows "cache_sound compile (snd (get_or_compile compile keys expr cache))"
  using assms
  by (auto simp: get_or_compile_def cache_sound_def Let_def fold_fmdrop_lookup
      split: option.split sum.split if_splits)

lemma card_fold_fmdrop:
  assumes "distinct ks" and "set ks \<subseteq> fmdom' m"
  shows "card (fmdom' (fold fmdrop ks m)) = card (fmdom' m) - length ks"
proof -
  have "fmdom' (fold fmdrop ks m) = fmdom' m - set ks"
    by (auto simp: fmlookup_dom'_iff fold_fmdrop_lookup split: if_splits)
  with assms show ?thesis by (simp add: card_Diff_subset distinct_card)
qed

definition key_order :: "('p cel_cache \<Rightarrow> string list) \<Rightarrow> bool" where
  "key_order keys \<longleftrightarrow> (\<forall>m. distinct (keys m) \<and> set (keys m) = fmdom' m)"

lemma get_or_compile_bounded:
  assumes "key_order keys" and "card (fmdom' cache) \<le> CEL_MAX_CACHE_SIZE"
  shows "card (fmdom' (snd (get_or_compile compile keys expr cache))) \<le> CEL_MAX_CACHE_SIZE"
proof -
  have k: "distinct (keys cache)" "set (keys cache) = fmdom' cache"
    using assms(1) by (simp_all add: key_order_def)
  then have len: "length (keys cache) = card (fmdom' cache)" by (metis distinct_card)
  have up: "card (fmdom' (fmupd expr p m)) \<le> Suc (card (fmdom' m))" for p :: 'a and m
    by (simp add: card_insert_if)
  have "card (fmdom' (fold fmdrop (take (CEL_MAX_CACHE_SIZE div 2) (keys cache)) cache)) <
      CEL_MAX_CACHE_SIZE" if "card (fmdom' cache) \<ge> CEL_MAX_CACHE_SIZE"
    using that assms(2) len k
    by (subst card_fold_fmdrop) (auto simp: CEL_MAX_CACHE_SIZE_def dest: in_set_takeD)
  then have "card (fmdom' (fmupd expr p
      (if card (fmdom' cache) \<ge> CEL_MAX_CACHE_SIZE
       then fold fmdrop (take (CEL_MAX_CACHE_SIZE div 2) (keys cache)) cache else cache))) \<le> CEL_MAX_CACHE_SIZE" for p
    using up [of p] by (smt (verit) Suc_leI dual_order.trans not_le)
  then show ?thesis
    using assms(2) by (auto simp: get_or_compile_def Let_def split: option.split sum.split)
qed

text \<open>
  C39. The cache changes no answer: starting from an empty cache, after any sequence of
  evaluations, evaluating an expression gives exactly what compiling and running it afresh
  gives (so the rest of the program may treat evaluation as a function), and the cache never
  holds more than 10000 programs.
\<close>

theorem cel_cache_transparent:
  assumes "key_order keys"
    and "cache = fold (\<lambda>(e, c). snd \<circ> eval_any compile keys execute e c) history fmempty"
  shows "fst (eval_any compile keys execute expr ctx cache) = cel_pure compile execute expr ctx \<and>
    card (fmdom' cache) \<le> CEL_MAX_CACHE_SIZE"
proof -
  have ev: "snd (eval_any compile keys execute e c m) = snd (get_or_compile compile keys e m)" for e c m
    by (simp add: eval_any_def bindE_def liftR_def split: prod.split sum.split)
  have inv: "cache_sound compile (fold (\<lambda>(e, c). snd \<circ> eval_any compile keys execute e c) h m) \<and>
      card (fmdom' (fold (\<lambda>(e, c). snd \<circ> eval_any compile keys execute e c) h m)) \<le> CEL_MAX_CACHE_SIZE"
    if "cache_sound compile m" "card (fmdom' m) \<le> CEL_MAX_CACHE_SIZE" for h m
    using that
  proof (induction h arbitrary: m)
    case Nil
    then show ?case by simp
  next
    case (Cons ec h)
    obtain e c where "ec = (e, c)" by (cases ec)
    with Cons.IH [OF get_or_compile_sound [OF Cons.prems(1)] get_or_compile_bounded [OF assms(1) Cons.prems(2)]]
    show ?case by (simp add: ev)
  qed
  have "cache_sound compile fmempty" by (simp add: cache_sound_def)
  from inv [OF this, of history] have c: "cache_sound compile cache" "card (fmdom' cache) \<le> CEL_MAX_CACHE_SIZE"
    unfolding assms(2) by (simp_all add: CEL_MAX_CACHE_SIZE_def)
  have "fst (eval_any compile keys execute expr ctx cache) = cel_pure compile execute expr ctx"
    using get_or_compile_result [OF c(1), of keys expr]
    by (cases "compile expr")
       (auto simp: eval_any_def cel_pure_def bindE_def liftR_def split: prod.split sum.split if_splits)
  with c(2) show ?thesis by simp
qed

section \<open>Round trip\<close>

text \<open>The numbers serde_json builds: a finite double, or an integer in the range of its width.\<close>

definition num_canonical :: "json_num \<Rightarrow> bool" where
  "num_canonical n \<longleftrightarrow> (\<exists>i. n = num_of_i64 i \<and> i < 2 ^ 63) \<or> (\<exists>u. n = num_of_u64 u) \<or> (\<exists>q. n = JsonNum None None (Some (F q)))"

primrec json_canonical :: "json \<Rightarrow> bool" where
  "json_canonical JNull = True"
| "json_canonical (JBool _) = True"
| "json_canonical (JNumber n) = num_canonical n"
| "json_canonical (JString _) = True"
| "json_canonical (JArray xs) = list_all id (map json_canonical xs)"
| "json_canonical (JObject m) = fmpred (\<lambda>_ b. b) (fmmap json_canonical m)"

text \<open>
Values survive the trip through the expression language: converting a JSON value to a
  CEL value and back gives it unchanged.
\<close>

theorem cel_json_roundtrip:
  "json_canonical v \<Longrightarrow> cel_to_json (json_to_cel v) = v"
proof (induction v)
  case (JNumber n)
  then show ?case
    by (auto simp: num_canonical_def num_of_i64_def num_of_u64_def num_of_f64_def)
next
  case (JArray xs)
  then show ?case by (simp add: list_all_iff map_idI)
next
  case (JObject m)
  have eq: "fmmap (\<lambda>v. cel_to_json (json_to_cel v)) m = m"
  proof (rule fmap_ext)
    fix k
    show "fmlookup (fmmap (\<lambda>v. cel_to_json (json_to_cel v)) m) k = fmlookup m k"
      using JObject by (cases "fmlookup m k") (auto simp: fmpred_iff intro: fmran'I)
  qed
  have "map (\<lambda>(k, v). (cel_key_str k, v)) (map (map_prod id cel_to_json)
      (map (\<lambda>(k, v). (CKString k, v)) (fm_items (fmmap json_to_cel m)))) =
      fm_items (fmmap (\<lambda>v. cel_to_json (json_to_cel v)) m)"
    by (auto simp: fm_items_def sorted_list_of_fmap_def cel_key_str_def fmlookup_dom_iff)
  then show ?case unfolding eq by simp
qed simp_all

text \<open>An evaluator whose programs are the expressions themselves, and one object value.\<close>

definition sample_keys :: "'p cel_cache \<Rightarrow> string list" where
  "sample_keys m = sorted_list_of_fset (fmdom m)"

theorem cel_cache_transparent_witness:
  "fst (eval_any Inr sample_keys (\<lambda>p _. Inr (CelString p)) ''x''  fmempty
     (fold (\<lambda>(e, c). snd \<circ> eval_any Inr sample_keys (\<lambda>p _. Inr (CelString p)) e c)
        [(''x'', fmempty), (''y'', fmempty)] fmempty)) = Inr (JString ''x'')"
proof -
  have "key_order (sample_keys :: string cel_cache \<Rightarrow> string list)"
    by (simp add: key_order_def sample_keys_def sorted_list_of_fset.rep_eq fmdom'_alt_def)
  from cel_cache_transparent [OF this refl, where compile = Inr and execute = "\<lambda>p _. Inr (CelString p)"
      and expr = "''x''" and ctx = fmempty and history = "[(''x'', fmempty), (''y'', fmempty)]"]
  show ?thesis
    by (simp add: cel_pure_def CEL_MAX_EXPR_LEN_def)
qed

theorem cel_json_roundtrip_witness:
  "cel_to_json (json_to_cel (JObject (fmap_of_list
     [(''b'', JArray [JNumber (num_of_i64 (- 3)), JBool True]), (''a'', JString ''t'')]))) =
   JObject (fmap_of_list [(''b'', JArray [JNumber (num_of_i64 (- 3)), JBool True]), (''a'', JString ''t'')])"
proof (rule cel_json_roundtrip)
  have "num_canonical (num_of_i64 (- 3))"
    unfolding num_canonical_def by (intro disjI1 exI [of _ "- 3"]) simp
  then show "json_canonical (JObject (fmap_of_list
     [(''b'', JArray [JNumber (num_of_i64 (- 3)), JBool True]), (''a'', JString ''t'')]))"
    by (auto simp: fmpred_iff fmlookup_of_list split: if_splits)
qed

end
