(* ===== verification/Graph.thy ===== *)
theory Graph
  imports Main
begin

text \<open>
  Facts about finite edge relations that the graph algorithms share: closure and
  reachability, extension of an acyclic relation, sources of an acyclic relation, and lists
  in which every element comes after its predecessors.
\<close>

section \<open>Reachability\<close>

lemma closed_rtrancl: "(x, y) \<in> E\<^sup>* \<Longrightarrow> E `` X \<subseteq> X \<Longrightarrow> x \<in> X \<Longrightarrow> y \<in> X"
  by (induction rule: rtrancl_induct) auto

lemma closed_converse_trancl:
  assumes "\<And>x y. (x, y) \<in> E \<Longrightarrow> y \<in> X \<Longrightarrow> x \<in> X" and "(x, y) \<in> E\<^sup>+" and "y \<in> X"
  shows "x \<in> X"
  using assms(2,3) by (induction rule: trancl_induct) (auto intro: assms(1))

text \<open>In a finite acyclic relation every point is reached from a point without predecessor.\<close>

lemma finite_acyclic_source:
  assumes "finite E" and "acyclic E"
  shows "\<exists>s. (s, x) \<in> E\<^sup>* \<and> (\<forall>p. (p, s) \<notin> E)"
proof -
  have "wf E" using assms by (rule finite_acyclic_wf)
  then show ?thesis
  proof (induction x rule: wf_induct_rule)
    case (less x)
    show ?case
    proof (cases "\<exists>p. (p, x) \<in> E")
      case True
      then obtain p where p: "(p, x) \<in> E" ..
      from less.IH [OF p] obtain s where "(s, p) \<in> E\<^sup>*" "\<forall>q. (q, s) \<notin> E" by blast
      with p show ?thesis by (blast intro: rtrancl_into_rtrancl)
    next
      case False
      then show ?thesis by blast
    qed
  qed
qed

section \<open>Extending an acyclic relation by one point\<close>

lemma acyclic_add_point:
  assumes "acyclic (E \<inter> B \<times> B)" and "E `` B \<subseteq> B" and "v \<notin> B" and "E `` {v} \<subseteq> B"
  shows "acyclic (E \<inter> insert v B \<times> insert v B)"
proof -
  let ?E = "E \<inter> insert v B \<times> insert v B"
  have stay: "y \<in> B \<and> (x, y) \<in> (E \<inter> B \<times> B)\<^sup>+" if "(x, y) \<in> ?E\<^sup>+" "x \<in> B" for x y
    using that
  proof (induction rule: trancl_induct)
    case (base y)
    with assms(2) show ?case by auto
  next
    case (step y z)
    then have "y \<in> B" "(x, y) \<in> (E \<inter> B \<times> B)\<^sup>+" by auto
    with step.hyps(2) assms(2) have "z \<in> B" "(y, z) \<in> E \<inter> B \<times> B" by auto
    with \<open>(x, y) \<in> (E \<inter> B \<times> B)\<^sup>+\<close> show ?case by (auto intro: trancl_into_trancl)
  qed
  have "(x, x) \<notin> ?E\<^sup>+" for x
  proof
    assume c: "(x, x) \<in> ?E\<^sup>+"
    show False
    proof (cases "x \<in> B")
      case True
      with stay [OF c] assms(1) show False by (auto simp: acyclic_def)
    next
      case False
      from c obtain y where y: "(x, y) \<in> ?E" "(y, x) \<in> ?E\<^sup>*" by (blast dest: tranclD)
      with False assms(4) have "x = v" "y \<in> B" by auto
      with y(2) False have "(y, x) \<in> ?E\<^sup>+" by (auto simp: rtrancl_eq_or_trancl)
      with stay [OF this \<open>y \<in> B\<close>] False show False by simp
    qed
  qed
  then show ?thesis by (simp add: acyclic_def)
qed

section \<open>Predecessor-closed lists\<close>

text \<open>\<open>preds_first E xs\<close>: every element of \<open>xs\<close> comes after all its \<open>E\<close>-predecessors.\<close>

definition preds_first :: "('a \<times> 'a) set \<Rightarrow> 'a list \<Rightarrow> bool" where
  "preds_first E xs \<longleftrightarrow> (\<forall>us x vs. xs = us @ x # vs \<longrightarrow> (\<forall>p. (p, x) \<in> E \<longrightarrow> p \<in> set us))"

lemma preds_first_Nil [simp]: "preds_first E []"
  by (simp add: preds_first_def)

lemma preds_first_snoc:
  "preds_first E (xs @ [x]) \<longleftrightarrow> preds_first E xs \<and> (\<forall>p. (p, x) \<in> E \<longrightarrow> p \<in> set xs)"
proof
  assume L: "preds_first E (xs @ [x])"
  have "\<forall>p. (p, x) \<in> E \<longrightarrow> p \<in> set xs" using L by (auto simp: preds_first_def)
  moreover have "preds_first E xs"
    unfolding preds_first_def
  proof (intro allI impI)
    fix us y vs p assume "xs = us @ y # vs" "(p, y) \<in> E"
    then have "xs @ [x] = us @ y # (vs @ [x])" by simp
    with L \<open>(p, y) \<in> E\<close> show "p \<in> set us" unfolding preds_first_def by blast
  qed
  ultimately show "preds_first E xs \<and> (\<forall>p. (p, x) \<in> E \<longrightarrow> p \<in> set xs)" by simp
next
  assume R: "preds_first E xs \<and> (\<forall>p. (p, x) \<in> E \<longrightarrow> p \<in> set xs)"
  show "preds_first E (xs @ [x])"
    unfolding preds_first_def
  proof (intro allI impI)
    fix us y vs p assume eq: "xs @ [x] = us @ y # vs" and "(p, y) \<in> E"
    show "p \<in> set us"
    proof (cases vs rule: rev_cases)
      case Nil
      with eq R \<open>(p, y) \<in> E\<close> show ?thesis by auto
    next
      case (snoc ws w)
      with eq have "xs = us @ y # ws" by simp
      with R \<open>(p, y) \<in> E\<close> show ?thesis unfolding preds_first_def by blast
    qed
  qed
qed

lemma preds_first_pred_in: "preds_first E xs \<Longrightarrow> x \<in> set xs \<Longrightarrow> (p, x) \<in> E \<Longrightarrow> p \<in> set xs"
  by (auto simp: preds_first_def in_set_conv_decomp [of x xs])

text \<open>The order of two elements of a list.\<close>

definition before :: "'a list \<Rightarrow> 'a \<Rightarrow> 'a \<Rightarrow> bool" where
  "before xs a b \<longleftrightarrow> (\<exists>us vs ws. xs = us @ a # vs @ b # ws)"

lemma preds_first_before:
  assumes "preds_first E xs" and "x \<in> set xs" and "(p, x) \<in> E"
  shows "before xs p x"
proof -
  from assms(2) obtain us vs where xs: "xs = us @ x # vs" by (auto simp: in_set_conv_decomp)
  with assms have "p \<in> set us" by (auto simp: preds_first_def)
  then obtain a b where "us = a @ p # b" by (auto simp: in_set_conv_decomp)
  with xs show ?thesis by (auto simp: before_def)
qed

lemma before_rev: "before (rev xs) a b \<longleftrightarrow> before xs b a"
proof -
  have "before xs b a" if "before (rev xs) a b" for xs and a b :: 'a
  proof -
    from that obtain us vs ws where "rev xs = us @ a # vs @ b # ws" by (auto simp: before_def)
    then have "rev (rev xs) = rev (us @ a # vs @ b # ws)" by simp
    then have "xs = rev ws @ b # rev vs @ a # rev us" by simp
    then show ?thesis by (auto simp: before_def)
  qed
  from this [of xs] this [of "rev xs"] show ?thesis by auto
qed

lemma before_filter:
  assumes "before xs a b" and "P a" and "P b"
  shows "before (filter P xs) a b"
proof -
  from assms(1) obtain us vs ws where "xs = us @ a # vs @ b # ws" by (auto simp: before_def)
  with assms(2,3) have "filter P xs = filter P us @ a # filter P vs @ b # filter P ws" by simp
  then show ?thesis unfolding before_def by blast
qed

lemma before_index:
  assumes "before xs a b"
  shows "\<exists>i j. i < j \<and> j < length xs \<and> xs ! i = a \<and> xs ! j = b"
proof -
  from assms obtain us vs ws where xs: "xs = us @ a # vs @ b # ws" by (auto simp: before_def)
  have "xs ! length us = a" "xs ! (length us + Suc (length vs)) = b"
    by (simp_all add: xs nth_append)
  then show ?thesis
    by (intro exI [of _ "length us"] exI [of _ "length us + Suc (length vs)"]) (simp add: xs)
qed

lemma before_distinct_asym:
  assumes "distinct xs" and "before xs a b"
  shows "\<not> before xs b a"
proof
  assume "before xs b a"
  with before_index assms obtain i j k l where
    "i < j" "j < length xs" "xs ! i = a" "xs ! j = b"
    "k < l" "l < length xs" "xs ! k = b" "xs ! l = a" by metis
  with assms(1) show False by (metis nth_eq_iff_index_eq order.strict_trans less_asym)
qed

text \<open>A relation inside a duplicate-free, predecessor-closed list has no cycle.\<close>

lemma preds_first_acyclic:
  "preds_first E xs \<Longrightarrow> distinct xs \<Longrightarrow> acyclic (E \<inter> set xs \<times> set xs)"
proof (induction xs rule: rev_induct)
  case Nil
  then show ?case by (simp add: acyclic_def)
next
  case (snoc x xs)
  let ?B = "set xs"
  have p: "preds_first E xs" "\<forall>p. (p, x) \<in> E \<longrightarrow> p \<in> ?B"
    using snoc.prems(1) by (simp_all add: preds_first_snoc)
  have "acyclic (E\<inverse> \<inter> ?B \<times> ?B)"
  proof -
    have "E\<inverse> \<inter> ?B \<times> ?B = (E \<inter> ?B \<times> ?B)\<inverse>" by auto
    then show ?thesis using snoc p(1) by (simp add: acyclic_converse)
  qed
  moreover have "E\<inverse> `` ?B \<subseteq> ?B" using preds_first_pred_in [OF p(1)] by auto
  moreover have "x \<notin> ?B" using snoc.prems(2) by simp
  moreover have "E\<inverse> `` {x} \<subseteq> ?B" using p(2) by auto
  ultimately have "acyclic (E\<inverse> \<inter> insert x ?B \<times> insert x ?B)" by (rule acyclic_add_point)
  moreover have "E\<inverse> \<inter> insert x ?B \<times> insert x ?B = (E \<inter> set (xs @ [x]) \<times> set (xs @ [x]))\<inverse>" by auto
  ultimately show ?case by (metis acyclic_converse)
qed

end
