(* ===== verification/Dag.thy ===== *)
theory Dag
  imports Execution Cel Graph Samples
begin

text \<open>
  Which nodes may run next, \<open>crates/orbflow-engine/src/dag.rs\<close>: the skip cascade over the
  pending nodes, repeated until nothing changes, then the list of pending nodes whose
  predecessors are all terminal with at least one live path. \<open>cel\<close> is the expression
  evaluator (\<open>Cel.cel_pure\<close> for some compiler).
\<close>

type_synonym cel_fn = "string \<Rightarrow> jmap \<Rightarrow> json result"

definition cel_bool :: "cel_fn \<Rightarrow> string \<Rightarrow> jmap \<Rightarrow> bool result" where
  "cel_bool cel expr ctx = map_sum id (\<lambda>v. case v of JBool b \<Rightarrow> b | _ \<Rightarrow> False) (cel expr ctx)"

definition edge_context :: "execution_context \<Rightarrow> edge \<Rightarrow> jmap" where
  "edge_context c e =
     (let base = build_edge_context (cx_node_outputs c);
          with_node = (case fmlookup (cx_node_outputs c) (e_source e) of
              None \<Rightarrow> base
            | Some out \<Rightarrow> fmupd ''node'' (JObject out) base) in
      fmupd ''vars'' (JObject (cx_variables c)) with_node)"

definition eval_edge_condition :: "cel_fn \<Rightarrow> execution_context \<Rightarrow> edge \<Rightarrow> bool" where
  "eval_edge_condition cel c e =
     (case e_condition e of
        None \<Rightarrow> True
      | Some cond \<Rightarrow>
          if cond = [] then True
          else (case cel_bool cel cond (edge_context c e) of Inl _ \<Rightarrow> False | Inr b \<Rightarrow> b))"

definition incoming :: "workflow \<Rightarrow> string \<Rightarrow> edge list" where
  "incoming w i = filter (\<lambda>e. e_target e = i) (wf_edges w)"

text \<open>
  The loop over the incoming edges of one node: (all predecessors terminal, some live path).
  \<open>live\<close> is the value of the edge's condition.
\<close>

definition scan_edge :: "(edge \<Rightarrow> bool) \<Rightarrow> node_states \<Rightarrow> edge \<Rightarrow> bool \<times> bool \<Rightarrow> bool \<times> bool" where
  "scan_edge live sts e acc =
     (case acc of (all_term, has_live) \<Rightarrow>
        (case status_of sts (e_source e) of
           Some NCompleted \<Rightarrow> (all_term, if live e then True else has_live)
         | Some NSkipped \<Rightarrow> (all_term, has_live)
         | Some NFailed \<Rightarrow> (all_term, has_live)
         | Some NCancelled \<Rightarrow> (all_term, has_live)
         | _ \<Rightarrow> (False, has_live)))"

definition scan_edges :: "(edge \<Rightarrow> bool) \<Rightarrow> node_states \<Rightarrow> edge list \<Rightarrow> bool \<times> bool" where
  "scan_edges live sts es = fold (scan_edge live sts) es (True, False)"

definition skip_node :: "(edge \<Rightarrow> bool) \<Rightarrow> workflow \<Rightarrow> wf_node \<Rightarrow> node_states \<times> bool \<Rightarrow> node_states \<times> bool" where
  "skip_node live w n acc =
     (case acc of (sts, changed) \<Rightarrow>
        if status_of sts (n_id n) \<noteq> Some NPending then (sts, changed)
        else if incoming w (n_id n) = [] then (sts, changed)
        else
          (case scan_edges live sts (incoming w (n_id n)) of (all_pred_terminal, has_live_path) \<Rightarrow>
             if all_pred_terminal \<and> \<not> has_live_path
             then (case fmlookup sts (n_id n) of
                     None \<Rightarrow> (sts, changed)
                   | Some ns \<Rightarrow> (fmupd (n_id n) (ns\<lparr>st_status := NSkipped\<rparr>) sts, True))
             else (sts, changed)))"

definition skip_pass :: "(edge \<Rightarrow> bool) \<Rightarrow> workflow \<Rightarrow> node_states \<Rightarrow> node_states \<times> bool" where
  "skip_pass live w sts = fold (skip_node live w) (wf_nodes w) (sts, False)"

definition pending_count :: "node_states \<Rightarrow> nat" where
  "pending_count sts = card {i. status_of sts i = Some NPending}"

lemma finite_status [simp]: "finite {i. status_of sts i = Some s}"
  by (rule finite_subset [of _ "fmdom' sts"]) (auto simp: status_of_Some intro: fmdom'I)

lemma skip_node_cases:
  obtains "skip_node live w n (sts, ch) = (sts, ch)"
    and "\<not> (status_of sts (n_id n) = Some NPending \<and> incoming w (n_id n) \<noteq> [] \<and>
           scan_edges live sts (incoming w (n_id n)) = (True, False))"
  | ns where "fmlookup sts (n_id n) = Some ns" and "st_status ns = NPending"
    and "incoming w (n_id n) \<noteq> []" and "scan_edges live sts (incoming w (n_id n)) = (True, False)"
    and "skip_node live w n (sts, ch) = (fmupd (n_id n) (ns\<lparr>st_status := NSkipped\<rparr>) sts, True)"
proof (cases "status_of sts (n_id n) = Some NPending \<and> incoming w (n_id n) \<noteq> [] \<and>
    scan_edges live sts (incoming w (n_id n)) = (True, False)")
  case True
  then obtain ns where "fmlookup sts (n_id n) = Some ns" "st_status ns = NPending"
    by (auto simp: status_of_Some)
  with True that(2) [of ns] show thesis by (simp add: skip_node_def)
next
  case False
  with that(1) show thesis
    by (cases "scan_edges live sts (incoming w (n_id n))") (auto simp: skip_node_def)
qed

lemma skip_node_measure:
  assumes "skip_node live w n (sts, ch) = (sts', ch')"
  shows "pending_count sts' \<le> pending_count sts \<and> (ch' \<and> \<not> ch \<longrightarrow> pending_count sts' < pending_count sts)"
proof (cases rule: skip_node_cases [of live w n sts ch])
  case 1
  with assms show ?thesis by simp
next
  case (2 ns)
  then have u: "sts' = fmupd (n_id n) (ns\<lparr>st_status := NSkipped\<rparr>) sts" using assms by simp
  have "pending_count sts' < pending_count sts"
    unfolding pending_count_def
    by (rule psubset_card_mono [OF finite_status]) (use 2 in \<open>auto simp: u status_of_Some split: if_splits\<close>)
  then show ?thesis by simp
qed

lemma skip_fold_measure:
  "fold (skip_node live w) ns (sts, ch) = (sts', ch') \<Longrightarrow>
     pending_count sts' \<le> pending_count sts \<and> (ch' \<and> \<not> ch \<longrightarrow> pending_count sts' < pending_count sts)"
proof (induction ns arbitrary: sts ch)
  case Nil
  then show ?case by simp
next
  case (Cons n ns)
  obtain s1 c1 where s: "skip_node live w n (sts, ch) = (s1, c1)" by fastforce
  with Cons.prems have "fold (skip_node live w) ns (s1, c1) = (sts', ch')" by simp
  from Cons.IH [OF this] skip_node_measure [OF s] show ?case by (cases c1) auto
qed

function skip_loop :: "(edge \<Rightarrow> bool) \<Rightarrow> workflow \<Rightarrow> node_states \<Rightarrow> node_states" where
  "skip_loop live w sts =
     (case skip_pass live w sts of (sts', changed) \<Rightarrow> if changed then skip_loop live w sts' else sts')"
  by auto

termination
proof (relation "measure (\<lambda>(live, w, sts). pending_count sts)", goal_cases)
  case 1
  then show ?case by simp
next
  case (2 live w sts sts' ch)
  then have "skip_pass live w sts = (sts', ch)" by simp
  with 2 skip_fold_measure [of live w "wf_nodes w" sts False sts' ch] show ?case
    by (simp add: skip_pass_def)
qed

declare skip_loop.simps [simp del]

definition node_ready :: "(edge \<Rightarrow> bool) \<Rightarrow> workflow \<Rightarrow> node_states \<Rightarrow> wf_node \<Rightarrow> bool" where
  "node_ready live w sts n =
     (status_of sts (n_id n) = Some NPending \<and> scan_edges live sts (incoming w (n_id n)) = (True, True))"

definition find_ready_nodes :: "cel_fn \<Rightarrow> workflow \<Rightarrow> wf_instance \<Rightarrow> string list \<times> wf_instance" where
  "find_ready_nodes cel w inst =
     (let live = eval_edge_condition cel (in_context inst);
          sts = skip_loop live w (in_node_states inst) in
      (map n_id (filter (node_ready live w sts) (wf_nodes w)), inst\<lparr>in_node_states := sts\<rparr>))"

section \<open>Scanning\<close>

definition dead_status :: "node_status \<Rightarrow> bool" where
  "dead_status s = (s = NSkipped \<or> s = NFailed \<or> s = NCancelled)"

definition pred_done :: "node_states \<Rightarrow> edge \<Rightarrow> bool" where
  "pred_done sts e \<longleftrightarrow> (\<exists>s. status_of sts (e_source e) = Some s \<and> node_terminal s)"

definition edge_live :: "(edge \<Rightarrow> bool) \<Rightarrow> node_states \<Rightarrow> edge \<Rightarrow> bool" where
  "edge_live live sts e \<longleftrightarrow> status_of sts (e_source e) = Some NCompleted \<and> live e"

lemma scan_edge_eq:
  "scan_edge live sts e (t, l) = (t \<and> pred_done sts e, l \<or> edge_live live sts e)"
proof (cases "status_of sts (e_source e)")
  case None
  then show ?thesis by (simp add: scan_edge_def pred_done_def edge_live_def)
next
  case (Some s)
  then show ?thesis by (cases s) (simp_all add: scan_edge_def pred_done_def edge_live_def)
qed

lemma scan_edges_eq:
  "scan_edges live sts es = ((\<forall>e \<in> set es. pred_done sts e), (\<exists>e \<in> set es. edge_live live sts e))"
proof -
  have "fold (scan_edge live sts) es (t, l) =
    (t \<and> (\<forall>e \<in> set es. pred_done sts e), l \<or> (\<exists>e \<in> set es. edge_live live sts e))" for t l
    by (induction es arbitrary: t l) (auto simp: scan_edge_eq)
  then show ?thesis by (simp add: scan_edges_def)
qed

section \<open>The nodes that can never run\<close>

text \<open>
  A pending node is dead when it has an incoming edge and every incoming edge is: its source
  was skipped, failed or was cancelled, or completed with a false condition, or is dead.
\<close>

inductive dead :: "(edge \<Rightarrow> bool) \<Rightarrow> workflow \<Rightarrow> node_states \<Rightarrow> string \<Rightarrow> bool"
  for live :: "edge \<Rightarrow> bool" and w :: workflow and sts :: node_states where
  deadI: "i \<in> n_id ` set (wf_nodes w) \<Longrightarrow> status_of sts i = Some NPending \<Longrightarrow> incoming w i \<noteq> [] \<Longrightarrow>
    (\<And>e. e \<in> set (incoming w i) \<Longrightarrow>
       (\<exists>s. status_of sts (e_source e) = Some s \<and> dead_status s) \<or>
       status_of sts (e_source e) = Some NCompleted \<and> \<not> live e \<or>
       dead live w sts (e_source e)) \<Longrightarrow>
    dead live w sts i"

text \<open>What the cascade may have done so far: nothing but skip dead nodes.\<close>

definition skipped_from :: "(edge \<Rightarrow> bool) \<Rightarrow> workflow \<Rightarrow> node_states \<Rightarrow> node_states \<Rightarrow> bool" where
  "skipped_from live w sts0 sts \<longleftrightarrow>
     (\<forall>i. fmlookup sts i = fmlookup sts0 i \<or>
        (dead live w sts0 i \<and> fmlookup sts i = map_option (\<lambda>ns. ns\<lparr>st_status := NSkipped\<rparr>) (fmlookup sts0 i)))"

lemma dead_pending: "dead live w sts i \<Longrightarrow> status_of sts i = Some NPending"
  by (erule dead.cases) simp

lemma skipped_from_status:
  assumes "skipped_from live w sts0 sts" and "status_of sts i = Some s"
  shows "status_of sts0 i = Some s \<or> s = NSkipped \<and> dead live w sts0 i"
  using assms(1) [unfolded skipped_from_def, rule_format, of i] assms(2)
  by (auto simp: status_of_def)

lemma skipped_from_skip:
  assumes s: "skipped_from live w sts0 sts" and n: "n \<in> set (wf_nodes w)"
  shows "skipped_from live w sts0 (fst (skip_node live w n (sts, ch)))"
proof (cases rule: skip_node_cases [of live w n sts ch])
  case 1
  with s show ?thesis by simp
next
  case (2 ns)
  let ?i = "n_id n"
  have p: "status_of sts ?i = Some NPending" using 2 by (simp add: status_of_Some)
  then have same: "fmlookup sts ?i = fmlookup sts0 ?i"
    using s [unfolded skipped_from_def, rule_format, of ?i] by (auto simp: status_of_def)
  have "dead live w sts0 ?i"
  proof (rule deadI)
    show "?i \<in> n_id ` set (wf_nodes w)" using n by simp
    show "status_of sts0 ?i = Some NPending" using p same by (simp add: status_of_def)
    show "incoming w ?i \<noteq> []" using 2 by simp
  next
    fix e assume e: "e \<in> set (incoming w ?i)"
    from 2(4) e have d: "pred_done sts e" "\<not> edge_live live sts e" unfolding scan_edges_eq by auto
    then obtain t where t: "status_of sts (e_source e) = Some t" "node_terminal t"
      by (auto simp: pred_done_def)
    from skipped_from_status [OF s t(1)] d(2) t(2) t(1)
    show "(\<exists>s. status_of sts0 (e_source e) = Some s \<and> dead_status s) \<or>
        status_of sts0 (e_source e) = Some NCompleted \<and> \<not> live e \<or> dead live w sts0 (e_source e)"
      by (auto simp: node_terminal_def dead_status_def edge_live_def)
  qed
  moreover have "fmlookup sts0 ?i = Some ns" using same 2(1) by simp
  ultimately show ?thesis using s 2(5) by (simp add: skipped_from_def)
qed

lemma skipped_from_pass:
  "set ns \<subseteq> set (wf_nodes w) \<Longrightarrow> skipped_from live w sts0 sts \<Longrightarrow>
     skipped_from live w sts0 (fst (fold (skip_node live w) ns (sts, ch)))"
proof (induction ns arbitrary: sts ch)
  case Nil
  then show ?case by simp
next
  case (Cons n ns)
  obtain s1 c1 where "skip_node live w n (sts, ch) = (s1, c1)" by fastforce
  with Cons skipped_from_skip [of live w sts0 sts n ch] show ?case by simp
qed

lemma skipped_from_loop:
  "skipped_from live w sts0 sts \<Longrightarrow> skipped_from live w sts0 (skip_loop live w sts)"
proof (induction live w sts rule: skip_loop.induct)
  case (1 live w sts)
  obtain s1 c1 where s: "skip_pass live w sts = (s1, c1)" by fastforce
  have "skipped_from live w sts0 s1"
    using skipped_from_pass [OF order_refl 1(2), of False] s by (simp add: skip_pass_def)
  with 1(1) [OF s [symmetric]] s show ?case by (subst skip_loop.simps) simp
qed

text \<open>A pass that changes nothing found no node to skip.\<close>

lemma skip_fold_unchanged:
  "fold (skip_node live w) ns (sts, ch) = (sts', False) \<Longrightarrow>
     sts' = sts \<and> \<not> ch \<and> (\<forall>n \<in> set ns. \<not> (status_of sts (n_id n) = Some NPending \<and>
       incoming w (n_id n) \<noteq> [] \<and> scan_edges live sts (incoming w (n_id n)) = (True, False)))"
proof (induction ns arbitrary: sts ch)
  case Nil
  then show ?case by simp
next
  case (Cons n ns)
  show ?case
  proof (cases rule: skip_node_cases [of live w n sts ch])
    case 1
    with Cons.IH [of sts ch] Cons.prems show ?thesis by simp
  next
    case (2 m)
    with Cons.IH [of _ True] Cons.prems show ?thesis by fastforce
  qed
qed

lemma skip_loop_fixed:
  "\<forall>n \<in> set (wf_nodes w). \<not> (status_of (skip_loop live w sts) (n_id n) = Some NPending \<and>
     incoming w (n_id n) \<noteq> [] \<and>
     scan_edges live (skip_loop live w sts) (incoming w (n_id n)) = (True, False))"
proof (induction live w sts rule: skip_loop.induct)
  case (1 live w sts)
  obtain s1 c1 where s: "skip_pass live w sts = (s1, c1)" by fastforce
  show ?case
  proof (cases c1)
    case True
    with 1 [OF s [symmetric]] s show ?thesis by (simp add: skip_loop.simps [of live w sts])
  next
    case False
    with s have "skip_loop live w sts = s1" by (simp add: skip_loop.simps [of live w sts])
    with skip_fold_unchanged [of live w "wf_nodes w" sts False s1] s False show ?thesis
      by (simp add: skip_pass_def)
  qed
qed

lemma dead_skipped: "dead live w sts i \<Longrightarrow> status_of (skip_loop live w sts) i = Some NSkipped"
proof (induction rule: dead.induct)
  case (deadI i)
  let ?s = "skip_loop live w sts"
  have from0: "skipped_from live w sts ?s"
    by (rule skipped_from_loop) (simp add: skipped_from_def)
  have keep: "status_of ?s j = Some t" if "status_of sts j = Some t" "t \<noteq> NPending" for j t
  proof -
    have "\<not> dead live w sts j" using that dead_pending by fastforce
    with from0 have "fmlookup ?s j = fmlookup sts j" by (auto simp: skipped_from_def)
    with that show ?thesis by (simp add: status_of_def)
  qed
  have "pred_done ?s e \<and> \<not> edge_live live ?s e" if "e \<in> set (incoming w i)" for e
    using deadI(4) [OF that] keep [of "e_source e"]
    by (auto simp: pred_done_def edge_live_def dead_status_def)
  then have "scan_edges live ?s (incoming w i) = (True, False)" unfolding scan_edges_eq by auto
  moreover from deadI(1) obtain n where "n \<in> set (wf_nodes w)" "n_id n = i" by auto
  ultimately have "status_of ?s i \<noteq> Some NPending"
    using skip_loop_fixed [of w live sts] deadI(3) by blast
  moreover from deadI(2) obtain ns where "fmlookup sts i = Some ns" "st_status ns = NPending"
    by (auto simp: status_of_Some)
  ultimately show ?case
    using from0 [unfolded skipped_from_def, rule_format, of i] by (auto simp: status_of_def)
qed

lemma skip_loop_lookup:
  "fmlookup (skip_loop live w sts) i =
     (if dead live w sts i then map_option (\<lambda>ns. ns\<lparr>st_status := NSkipped\<rparr>) (fmlookup sts i)
      else fmlookup sts i)"
proof -
  have from0: "skipped_from live w sts (skip_loop live w sts)"
    by (rule skipped_from_loop) (simp add: skipped_from_def)
  show ?thesis
  proof (cases "dead live w sts i")
    case True
    with dead_skipped dead_pending have "status_of (skip_loop live w sts) i \<noteq> status_of sts i" by fastforce
    with from0 [unfolded skipped_from_def, rule_format, of i] True show ?thesis
      by (auto simp: status_of_def)
  next
    case False
    with from0 show ?thesis by (auto simp: skipped_from_def)
  qed
qed

section \<open>What \<open>find_ready_nodes\<close> computes\<close>

text \<open>The input on which the function works, its truth values of the conditions and its result.\<close>

abbreviation (input) live_in :: "cel_fn \<Rightarrow> wf_instance \<Rightarrow> edge \<Rightarrow> bool" where
  "live_in cel inst \<equiv> eval_edge_condition cel (in_context inst)"

text \<open>
  C3. The skip cascade marks exactly the dead nodes as skipped and touches nothing else: every
  other field of the instance and every other node state is unchanged, and the cascade ends on
  every graph, cyclic or not.
\<close>

theorem find_ready_skips:
  "snd (find_ready_nodes cel w inst) =
     inst\<lparr>in_node_states := skip_loop (live_in cel inst) w (in_node_states inst)\<rparr> \<and>
   fmlookup (in_node_states (snd (find_ready_nodes cel w inst))) i =
     (if dead (live_in cel inst) w (in_node_states inst) i
      then map_option (\<lambda>ns. ns\<lparr>st_status := NSkipped\<rparr>) (fmlookup (in_node_states inst) i)
      else fmlookup (in_node_states inst) i)"
  by (simp add: find_ready_nodes_def Let_def skip_loop_lookup)

text \<open>
  C2. A node is reported ready exactly when it is pending, every predecessor is completed,
  failed, skipped, cancelled or dead, and at least one incoming edge comes from a completed
  predecessor and has a true (or no) condition.
\<close>

theorem find_ready_exact:
  "i \<in> set (fst (find_ready_nodes cel w inst)) \<longleftrightarrow>
     i \<in> n_id ` set (wf_nodes w) \<and> status_of (in_node_states inst) i = Some NPending \<and>
     list_all (\<lambda>e. pred_done (in_node_states inst) e \<or>
        dead (live_in cel inst) w (in_node_states inst) (e_source e)) (incoming w i) \<and>
     list_ex (edge_live (live_in cel inst) (in_node_states inst)) (incoming w i)"
proof -
  let ?l = "live_in cel inst" and ?old = "in_node_states inst"
  let ?new = "skip_loop ?l w ?old"
  have st: "status_of ?new j = (if dead ?l w ?old j then Some NSkipped else status_of ?old j)" for j
  proof (cases "dead ?l w ?old j")
    case True
    with dead_skipped show ?thesis by simp
  next
    case False
    then show ?thesis using skip_loop_lookup [of ?l w ?old j] by (simp add: status_of_def)
  qed
  have don: "pred_done ?new e \<longleftrightarrow> pred_done ?old e \<or> dead ?l w ?old (e_source e)" for e
    by (auto simp: pred_done_def st)
  have live: "edge_live ?l ?new e \<longleftrightarrow> edge_live ?l ?old e" for e
    using dead_pending [of ?l w ?old "e_source e"] by (auto simp: edge_live_def st)
  have not_dead: "\<not> dead ?l w ?old i" if "list_ex (edge_live ?l ?old) (incoming w i)"
  proof
    assume "dead ?l w ?old i"
    then show False
      using that dead_pending [of ?l w ?old]
      by (cases rule: dead.cases) (fastforce simp: list_ex_iff edge_live_def dead_status_def)
  qed
  show ?thesis
    unfolding find_ready_nodes_def Let_def
    using not_dead
    by (auto simp: node_ready_def scan_edges_eq don live st list_all_iff list_ex_iff image_iff)
qed

section \<open>Progress\<close>

text \<open>
  C4. No deadlock: on an acyclic workflow whose entry nodes have all left the pending state
  and in which no node is queued, running or waiting for approval, either some node is
  reported ready or, after the skip cascade, every node is terminal, so the instance can be
  closed.
\<close>

theorem no_deadlock:
  assumes ac: "acyclic (edge_rel (wf_edges w))"
    and src: "e_source ` set (wf_edges w) \<subseteq> n_id ` set (wf_nodes w)"
    and idle: "\<And>i. i \<in> n_id ` set (wf_nodes w) \<Longrightarrow>
      status_of (in_node_states inst) i = Some NPending \<and> incoming w i \<noteq> [] \<or>
      (\<exists>s. status_of (in_node_states inst) i = Some s \<and> node_terminal s)"
    and none: "fst (find_ready_nodes cel w inst) = []"
    and i: "i \<in> n_id ` set (wf_nodes w)"
  shows "\<exists>s. status_of (in_node_states (snd (find_ready_nodes cel w inst))) i = Some s \<and> node_terminal s"
proof -
  let ?l = "live_in cel inst" and ?old = "in_node_states inst"
  let ?new = "skip_loop ?l w ?old"
  have "wf (edge_rel (wf_edges w))" by (rule finite_acyclic_wf) (simp_all add: ac)
  then have "i \<in> n_id ` set (wf_nodes w) \<longrightarrow> (\<exists>s. status_of ?new i = Some s \<and> node_terminal s)"
  proof (induction i rule: wf_induct_rule)
    case (less i)
    show ?case
    proof
      assume i: "i \<in> n_id ` set (wf_nodes w)"
      then obtain n where n: "n \<in> set (wf_nodes w)" "n_id n = i" by auto
      show "\<exists>s. status_of ?new i = Some s \<and> node_terminal s"
      proof (cases "dead ?l w ?old i")
        case True
        then show ?thesis using dead_skipped by fastforce
      next
        case False
        then have same: "status_of ?new i = status_of ?old i"
          by (simp add: status_of_def skip_loop_lookup)
        show ?thesis
        proof (cases "status_of ?old i = Some NPending")
          case False
          with idle [OF i] same show ?thesis by auto
        next
          case True
          with idle [OF i] have inc: "incoming w i \<noteq> []" by auto
          have "pred_done ?new e" if "e \<in> set (incoming w i)" for e
          proof -
            have "(e_source e, i) \<in> edge_rel (wf_edges w)" "e_source e \<in> n_id ` set (wf_nodes w)"
              using that src by (auto simp: incoming_def edge_rel_def)
            with less.IH show ?thesis by (auto simp: pred_done_def)
          qed
          then obtain b where b: "scan_edges ?l ?new (incoming w i) = (True, b)"
            by (auto simp: scan_edges_eq)
          have "\<not> node_ready ?l w ?new n"
            using none n(1) by (auto simp: find_ready_nodes_def Let_def filter_empty_conv)
          with b True same n(2) have "\<not> b" by (cases b) (auto simp: node_ready_def)
          with skip_loop_fixed [of w ?l ?old] n b inc True same show ?thesis by auto
        qed
      qed
    qed
  qed
  with i show ?thesis by (simp add: find_ready_nodes_def Let_def)
qed

text \<open>The diamond after its first node failed: everything behind it is skipped.\<close>

definition failed_diamond :: wf_instance where
  "failed_diamond = sample_instance
     [(''a'', NFailed), (''b'', NPending), (''c'', NPending), (''d'', NPending)]"

theorem no_deadlock_witness:
  "\<exists>s. status_of (in_node_states (snd (find_ready_nodes (\<lambda>_ _. Inr (JBool True)) diamond failed_diamond))) ''d'' =
     Some s \<and> node_terminal s"
proof (rule no_deadlock)
  show "acyclic (edge_rel (wf_edges diamond))" by (rule diamond_acyclic)
  show "e_source ` set (wf_edges diamond) \<subseteq> n_id ` set (wf_nodes diamond)" by (simp add: diamond_edges)
  show "status_of (in_node_states failed_diamond) i = Some NPending \<and> incoming diamond i \<noteq> [] \<or>
      (\<exists>s. status_of (in_node_states failed_diamond) i = Some s \<and> node_terminal s)"
    if "i \<in> n_id ` set (wf_nodes diamond)" for i
    using that by (auto simp: failed_diamond_def incoming_def diamond_edges)
  show "fst (find_ready_nodes (\<lambda>_ _. Inr (JBool True)) diamond failed_diamond) = []"
    by code_simp
  show "''d'' \<in> n_id ` set (wf_nodes diamond)" by simp
qed

text \<open>
  A pending node without incoming edge is out of reach of this function: it is neither
  skipped nor reported ready, so it waits until some other part of the engine dispatches it.
\<close>

lemma pending_entry_stays:
  assumes "status_of (in_node_states inst) i = Some NPending" and "incoming w i = []"
  shows "i \<notin> set (fst (find_ready_nodes cel w inst)) \<and>
    status_of (in_node_states (snd (find_ready_nodes cel w inst))) i = Some NPending"
proof -
  have "\<not> dead (live_in cel inst) w (in_node_states inst) i"
    using assms(2) by (auto elim: dead.cases)
  moreover have "i \<notin> set (fst (find_ready_nodes cel w inst))"
    using assms(2) by (auto simp: find_ready_nodes_def Let_def node_ready_def scan_edges_def)
  ultimately show ?thesis
    using assms(1) by (simp add: find_ready_nodes_def Let_def status_of_def skip_loop_lookup)
qed

end
