(* ===== verification/Wire.thy ===== *)
theory Wire
  imports Execution
begin

text \<open>
  The messages between engine and worker and the identity of a dispatch,
  \<open>crates/orbflow-core/src/wire.rs\<close>. The wire version (a \<open>u8\<close>) is a natural number.
\<close>

definition WIRE_VERSION :: nat where
  "WIRE_VERSION = 1"

record task_message =
  tm_instance_id :: string
  tm_node_id :: string
  tm_dispatch_id :: "string option"
  tm_plugin_ref :: string
  tm_config :: "jmap option"
  tm_input :: "jmap option"
  tm_parameters :: "jmap option"
  tm_capabilities :: "jmap option"
  tm_attempt :: int
  tm_trace_context :: "(string, string) fmap option"
  tm_v :: nat

record result_message =
  rm_result_id :: "string option"
  rm_instance_id :: string
  rm_node_id :: string
  rm_attempt :: int
  rm_dispatch_id :: "string option"
  rm_output :: "jmap option"
  rm_error :: "string option"
  rm_trace_context :: "(string, string) fmap option"
  rm_v :: nat

definition dispatch_identity :: "string \<Rightarrow> string \<Rightarrow> int \<Rightarrow> string" where
  "dispatch_identity inst node attempt = inst @ '':'' @ node @ '':'' @ int_str attempt"

datatype result_identity_mode = Modern | LegacyV1

datatype result_identity_error =
    InstanceMismatch string string
  | NodeMismatch string string
  | AttemptMismatch string int int
  | MissingDispatchId string
  | DispatchIdMismatch string string string

definition verify_result_identity ::
  "result_message \<Rightarrow> string \<Rightarrow> string \<Rightarrow> int \<Rightarrow> bool \<Rightarrow> result_identity_error + result_identity_mode" where
  "verify_result_identity r inst node attempt allow_legacy =
     (if rm_instance_id r \<noteq> inst then Inl (InstanceMismatch inst (rm_instance_id r))
      else if rm_node_id r \<noteq> node then Inl (NodeMismatch node (rm_node_id r))
      else if rm_dispatch_id r = None \<and> allow_legacy \<and> rm_v r \<le> WIRE_VERSION \<and>
              (rm_attempt r = 0 \<or> rm_attempt r = attempt) then Inr LegacyV1
      else if rm_attempt r \<noteq> attempt then Inl (AttemptMismatch (rm_node_id r) attempt (rm_attempt r))
      else
        let expected = dispatch_identity inst node attempt in
        (case rm_dispatch_id r of
           Some d \<Rightarrow> if d = expected then Inr Modern
                     else Inl (DispatchIdMismatch (rm_node_id r) expected d)
         | None \<Rightarrow> Inl (MissingDispatchId (rm_node_id r))))"

section \<open>Identities\<close>

lemma int_str_no_colon: "CHR '':'' \<notin> set (int_str i)"
proof -
  have "\<not> ascii_digit CHR '':''" by code_simp
  then have "CHR '':'' \<notin> set (nat_str n)" for n using nat_str_digits by blast
  then show ?thesis by (simp add: int_str_def)
qed

lemma nat_str_no_minus: "hd (nat_str n) \<noteq> CHR ''-''"
proof -
  have "\<not> ascii_digit CHR ''-''" by code_simp
  then show ?thesis using nat_str_digits [of "hd (nat_str n)" n] by auto
qed

lemma int_str_inject [simp]: "int_str i = int_str j \<longleftrightarrow> i = j"
proof
  assume e: "int_str i = int_str j"
  have mixed: "''-'' @ nat_str m \<noteq> nat_str n" for m n
  proof
    assume "''-'' @ nat_str m = nat_str n"
    then have "hd (nat_str n) = CHR ''-''" by (metis append_Cons list.sel(1))
    with nat_str_no_minus show False by simp
  qed
  from e mixed [of "nat (- i)" "nat j"] mixed [of "nat (- j)" "nat i"] show "i = j"
    by (auto simp: int_str_def split: if_splits)
qed simp

lemma split_last:
  assumes "a @ c # x = b @ c # y" and "c \<notin> set x" and "c \<notin> set y"
  shows "a = b \<and> x = y"
proof -
  have "takeWhile (\<lambda>d. d \<noteq> c) (rev u @ c # v) = rev u" if "c \<notin> set u" for u v
    using that by (subst takeWhile_append2) auto
  from this [OF assms(2), of "rev a"] this [OF assms(3), of "rev b"] arg_cong [OF assms(1), of rev]
  have "x = y" by simp
  with assms(1) show ?thesis by simp
qed

lemma dispatch_identity_eq:
  assumes "CHR '':'' \<notin> set n" and "CHR '':'' \<notin> set n'"
  shows "dispatch_identity i n a = dispatch_identity i' n' a' \<longleftrightarrow> i = i' \<and> n = n' \<and> a = a'"
proof
  assume e: "dispatch_identity i n a = dispatch_identity i' n' a'"
  then have "(i @ '':'' @ n) @ CHR '':'' # int_str a = (i' @ '':'' @ n') @ CHR '':'' # int_str a'"
    by (simp add: dispatch_identity_def)
  from split_last [OF this int_str_no_colon int_str_no_colon] have
    a: "a = a'" and "i @ CHR '':'' # n = i' @ CHR '':'' # n'" by simp_all
  from split_last [OF this(2) assms] a show "i = i' \<and> n = n' \<and> a = a'" by simp
qed simp

text \<open>
A dispatch id names one dispatch: for node ids without a colon (validation admits no
  other), the text \<open>instance:node:attempt\<close> determines all three parts, whatever the
  instance id holds.
\<close>

theorem dispatch_identity_injective:
  assumes "CHR '':'' \<notin> set n" and "CHR '':'' \<notin> set n'"
  shows "dispatch_identity i n a = dispatch_identity i' n' a' \<longleftrightarrow> i = i' \<and> n = n' \<and> a = a'"
  using assms by (rule dispatch_identity_eq)

theorem dispatch_identity_injective_witness:
  "dispatch_identity ''i:1'' ''a'' 2 \<noteq> dispatch_identity ''i'' ''1'' 2"
  using dispatch_identity_injective [of "''a''" "''1''" "''i:1''" 2 "''i''" 2] by simp

lemma verify_result_identity_Modern:
  "verify_result_identity r i n a al = Inr Modern \<longleftrightarrow>
     rm_instance_id r = i \<and> rm_node_id r = n \<and> rm_attempt r = a \<and>
     rm_dispatch_id r = Some (dispatch_identity i n a)"
  by (auto simp: verify_result_identity_def Let_def split: option.split)

lemma verify_result_identity_accepts:
  "(\<exists>m. verify_result_identity r i n a al = Inr m) \<longleftrightarrow>
     rm_instance_id r = i \<and> rm_node_id r = n \<and>
     (rm_attempt r = a \<and> rm_dispatch_id r = Some (dispatch_identity i n a) \<or>
      rm_dispatch_id r = None \<and> al \<and> rm_v r \<le> WIRE_VERSION \<and> (rm_attempt r = 0 \<or> rm_attempt r = a))"
  by (auto simp: verify_result_identity_def Let_def split: option.split)

end
