(* ===== verification/Subjects.thy ===== *)
theory Subjects
  imports Prelude "HOL-Library.Word"
begin

unbundle bit_operations_syntax

text \<open>
  Subject names of the bus, \<open>crates/orbflow-core/src/subjects.rs\<close>: the check of a worker-pool
  token and the encoding of arbitrary pool names by a 64-bit FNV-1a hash in hexadecimal.
\<close>

definition SUBJECT_PREFIX :: string where
  "SUBJECT_PREFIX = ''orbflow''"

definition MAX_POOL_NAME_LEN :: nat where
  "MAX_POOL_NAME_LEN = 64"

datatype subject_name_error = EmptyPool | PoolTooLong nat | InvalidPoolCharacter char nat

definition pool_char :: "char \<Rightarrow> bool" where
  "pool_char c = (ascii_alnum c \<or> c = CHR ''_'' \<or> c = CHR ''-'')"

text \<open>
  The loop over \<open>char_indices\<close>. The character of the error is its first byte: every byte of a
  multi-byte character is rejected, the first one first.
\<close>

fun check_pool_chars :: "nat \<Rightarrow> string \<Rightarrow> subject_name_error + unit" where
  "check_pool_chars i [] = Inr ()"
| "check_pool_chars i (c # cs) =
     (if \<not> pool_char c then Inl (InvalidPoolCharacter c i) else check_pool_chars (i + 1) cs)"

definition validate_pool_name :: "string \<Rightarrow> subject_name_error + unit" where
  "validate_pool_name pool =
     (if pool = [] then Inl EmptyPool
      else if length pool > MAX_POOL_NAME_LEN then Inl (PoolTooLong MAX_POOL_NAME_LEN)
      else check_pool_chars 0 pool)"

definition fnv1a :: "string \<Rightarrow> 64 word" where
  "fnv1a s = foldl (\<lambda>h c. (h XOR of_char c) * 0x100000001b3) 0xcbf29ce484222325 s"

definition hex_digit :: "nat \<Rightarrow> char" where
  "hex_digit n = (if n < 10 then char_of (48 + n) else char_of (87 + n))"

text \<open>\<open>{:016x}\<close>\<close>

definition hex16 :: "64 word \<Rightarrow> string" where
  "hex16 w = map (\<lambda>i. hex_digit (unat (drop_bit (4 * i) w AND 15))) (rev [0..<16])"

definition encode_pool_name :: "string \<Rightarrow> string" where
  "encode_pool_name pool =
     (case validate_pool_name pool of
        Inr _ \<Rightarrow> pool
      | Inl _ \<Rightarrow> if pool = [] then ''pool_empty'' else ''pool_'' @ hex16 (fnv1a pool))"

definition task_subject :: "string \<Rightarrow> string" where
  "task_subject pool = SUBJECT_PREFIX @ ''.tasks.'' @ pool"

definition try_task_subject :: "string \<Rightarrow> subject_name_error + string" where
  "try_task_subject pool = map_sum id (\<lambda>_. task_subject pool) (validate_pool_name pool)"

definition safe_task_subject :: "string \<Rightarrow> string" where
  "safe_task_subject pool = task_subject (encode_pool_name pool)"

definition result_subject :: "string \<Rightarrow> string" where
  "result_subject pool = SUBJECT_PREFIX @ ''.results.'' @ pool"

definition try_result_subject :: "string \<Rightarrow> subject_name_error + string" where
  "try_result_subject pool = map_sum id (\<lambda>_. result_subject pool) (validate_pool_name pool)"

definition safe_result_subject :: "string \<Rightarrow> string" where
  "safe_result_subject pool = result_subject (encode_pool_name pool)"

definition stream_subject :: "string \<Rightarrow> string \<Rightarrow> string" where
  "stream_subject inst node = SUBJECT_PREFIX @ ''.stream.'' @ inst @ ''.'' @ node"

definition plugin_reload_subject :: string where
  "plugin_reload_subject = SUBJECT_PREFIX @ ''.worker.reload-plugins''"

section \<open>Encoded names are single tokens\<close>

lemma check_pool_chars_ok: "check_pool_chars i s = Inr () \<longleftrightarrow> list_all pool_char s"
  by (induction s arbitrary: i) auto

lemma hex_digit_ok: "n < 16 \<Longrightarrow> pool_char (hex_digit n)"
  by (auto simp: hex_digit_def pool_char_def ascii_alnum_def Let_def)

lemma hex16_ok: "list_all pool_char (hex16 w)"
proof -
  have "unat (v AND 15) < 16" for v :: "64 word"
  proof -
    have "v AND 15 \<le> 15" by (rule word_and_le1)
    then have "unat (v AND 15) \<le> unat (15 :: 64 word)" by (simp add: word_le_nat_alt)
    then show ?thesis by simp
  qed
  then show ?thesis by (simp add: hex16_def list_all_iff hex_digit_ok)
qed

text \<open>
  The encoding always yields a valid pool token, so a subject built from it has exactly one
  token after its fixed part: the encoded name is not empty, at most 64 bytes long and free of
  dots, wildcards and blanks; exactly the names that are already valid are kept.
\<close>

theorem encode_pool_name_valid:
  "validate_pool_name (encode_pool_name pool) = Inr () \<and>
   {CHR ''.'', CHR ''*'', CHR ''>'', CHR '' ''} \<inter> set (encode_pool_name pool) = {} \<and>
   (encode_pool_name pool = pool \<longleftrightarrow> validate_pool_name pool = Inr ())"
proof -
  have e: "validate_pool_name ''pool_empty'' = Inr ()" by code_simp
  have p: "list_all pool_char ''pool_''" by code_simp
  have h: "validate_pool_name (''pool_'' @ hex16 w) = Inr ()" for w
    using p hex16_ok [of w] by (simp add: validate_pool_name_def check_pool_chars_ok MAX_POOL_NAME_LEN_def hex16_def)
  have v: "validate_pool_name (encode_pool_name pool) = Inr ()"
    using e h by (simp add: encode_pool_name_def split: sum.split)
  then have "list_all pool_char (encode_pool_name pool)"
    by (simp add: validate_pool_name_def check_pool_chars_ok split: if_splits)
  moreover have "\<not> pool_char CHR ''.''" "\<not> pool_char CHR ''*''" "\<not> pool_char CHR ''>''" "\<not> pool_char CHR '' ''"
    by code_simp+
  ultimately have "{CHR ''.'', CHR ''*'', CHR ''>'', CHR '' ''} \<inter> set (encode_pool_name pool) = {}"
    by (auto simp: list_all_iff)
  moreover have "encode_pool_name pool = pool \<longleftrightarrow> validate_pool_name pool = Inr ()"
  proof
    assume "encode_pool_name pool = pool"
    with v show "validate_pool_name pool = Inr ()" by simp
  qed (simp add: encode_pool_name_def)
  ultimately show ?thesis using v by blast
qed

end
