(* ===== verification/Topo.thy ===== *)
theory Topo
  imports Samples Graph
begin

text \<open>
  Kahn's algorithm, \<open>crates/orbflow-engine/src/topo.rs\<close>: the order in which a saga walks
  the completed nodes backwards. The in-degree table is a finite map; the queue is a list
  whose head is the front.
\<close>

text \<open>\<open>*in_degree.entry(t).or_insert(0) += 1\<close>\<close>

definition incr_degree :: "string \<Rightarrow> (string, nat) fmap \<Rightarrow> (string, nat) fmap" where
  "incr_degree t d = fmupd t (case fmlookup d t of None \<Rightarrow> 1 | Some n \<Rightarrow> Suc n) d"

definition in_degrees :: "workflow \<Rightarrow> (string, nat) fmap" where
  "in_degrees w =
     fold (\<lambda>e d. incr_degree (e_target e) d) (wf_edges w)
       (fold (\<lambda>n d. case fmlookup d (n_id n) of None \<Rightarrow> fmupd (n_id n) 0 d | Some _ \<Rightarrow> d)
         (wf_nodes w) fmempty)"

text \<open>
  The body of the loop over the neighbours of the dequeued node: lower each one's degree and
  enqueue it when it reaches zero. \<open>None\<close> is the panic of \<open>usize\<close> subtraction below zero.
\<close>

fun relax :: "string list \<Rightarrow> (string, nat) fmap \<times> string list \<Rightarrow> ((string, nat) fmap \<times> string list) option" where
  "relax [] (d, q) = Some (d, q)"
| "relax (v # vs) (d, q) =
     (case fmlookup d v of
        None \<Rightarrow> relax vs (d, q)
      | Some 0 \<Rightarrow> None
      | Some (Suc k) \<Rightarrow> relax vs (fmupd v k d, if k = 0 then q @ [v] else q))"

definition degree_sum :: "(string, nat) fmap \<Rightarrow> nat" where
  "degree_sum d = (\<Sum>v \<in> fmdom' d. the (fmlookup d v))"

lemma degree_sum_lower:
  assumes "fmlookup d v = Some (Suc k)"
  shows "Suc (degree_sum (fmupd v k d)) = degree_sum d"
proof -
  have v: "v \<in> fmdom' d" using assms by (rule fmdom'I)
  then have "insert v (fmdom' d) = fmdom' d" by auto
  moreover have "degree_sum d = the (fmlookup d v) + (\<Sum>u \<in> fmdom' d - {v}. the (fmlookup d u))"
    unfolding degree_sum_def by (rule sum.remove) (use v in auto)
  moreover have "(\<Sum>u \<in> fmdom' d. the (fmlookup (fmupd v k d) u)) =
      k + (\<Sum>u \<in> fmdom' d - {v}. the (fmlookup (fmupd v k d) u))"
    by (subst sum.remove [of _ v]) (use v in auto)
  moreover have "(\<Sum>u \<in> fmdom' d - {v}. the (fmlookup (fmupd v k d) u)) =
      (\<Sum>u \<in> fmdom' d - {v}. the (fmlookup d u))"
    by (rule sum.cong) auto
  ultimately show ?thesis using assms by (simp add: degree_sum_def)
qed

lemma relax_measure:
  "relax vs (d, q) = Some (d', q') \<Longrightarrow> length q' + degree_sum d' \<le> length q + degree_sum d"
proof (induction vs "(d, q)" arbitrary: d q rule: relax.induct)
  case (1 d q)
  then show ?case by simp
next
  case (2 v vs d q)
  show ?case
  proof (cases "fmlookup d v")
    case None
    with 2 show ?thesis by simp
  next
    case (Some n)
    with 2(3) obtain k where k: "n = Suc k" by (cases n) auto
    let ?q = "if k = 0 then q @ [v] else q"
    have "length q' + degree_sum d' \<le> length ?q + degree_sum (fmupd v k d)"
      by (rule 2(2) [OF Some k]) (use 2(3) Some k in simp)
    with Some k degree_sum_lower [of d v k] show ?thesis by (simp split: if_splits)
  qed
qed

text \<open>The \<open>while let Some(cur) = queue.pop_front()\<close> loop.\<close>

function kahn :: "edge list \<Rightarrow> (string, nat) fmap \<Rightarrow> string list \<Rightarrow> string list \<Rightarrow> string list option" where
  "kahn es d [] order = Some order"
| "kahn es d (cur # q) order =
     (case relax (successors es cur) (d, q) of
        None \<Rightarrow> None
      | Some (d', q') \<Rightarrow> kahn es d' q' (order @ [cur]))"
  by pat_completeness auto

termination
  by (relation "measure (\<lambda>(es, d, q, order). length q + degree_sum d)")
     (auto dest!: relax_measure)

definition topological_order :: "workflow \<Rightarrow> string list option" where
  "topological_order w =
     (let d = in_degrees w;
          q = filter (\<lambda>i. (case fmlookup d i of None \<Rightarrow> 0 | Some k \<Rightarrow> k) = 0) (map n_id (wf_nodes w)) in
      kahn (wf_edges w) d q [])"

section \<open>In-degrees\<close>

definition in_edges :: "edge list \<Rightarrow> string \<Rightarrow> edge list" where
  "in_edges es v = filter (\<lambda>e. e_target e = v) es"

lemma incr_degrees:
  "(case fmlookup (fold (\<lambda>e d. incr_degree (e_target e) d) es d) v of None \<Rightarrow> 0 | Some k \<Rightarrow> k) =
     (case fmlookup d v of None \<Rightarrow> 0 | Some k \<Rightarrow> k) + length (in_edges es v)"
  by (induction es arbitrary: d) (auto simp: in_edges_def incr_degree_def split: option.split)

lemma incr_degrees_dom:
  "fmdom' (fold (\<lambda>e d. incr_degree (e_target e) d) es d) = fmdom' d \<union> e_target ` set es"
  by (induction es arbitrary: d) (auto simp: incr_degree_def)

lemma zero_degrees:
  assumes "\<forall>v \<in> fmdom' d. fmlookup d v = Some 0"
  shows "\<forall>v. fmlookup (fold (\<lambda>n d. case fmlookup d (n_id n) of None \<Rightarrow> fmupd (n_id n) 0 d | Some _ \<Rightarrow> d) ns d) v =
    (if v \<in> fmdom' d \<union> n_id ` set ns then Some (0::nat) else None)"
  using assms
proof (induction ns arbitrary: d)
  case Nil
  then show ?case by (auto simp: fmdom'_notD)
next
  case (Cons n ns)
  have "\<forall>v \<in> fmdom' (case fmlookup d (n_id n) of None \<Rightarrow> fmupd (n_id n) 0 d | Some _ \<Rightarrow> d).
      fmlookup (case fmlookup d (n_id n) of None \<Rightarrow> fmupd (n_id n) 0 d | Some _ \<Rightarrow> d) v = Some 0"
    using Cons.prems by (auto split: option.split)
  from Cons.IH [OF this] show ?case by (auto simp: fmdom'I split: option.split)
qed

lemma in_degrees_lookup:
  "fmlookup (in_degrees w) v =
     (if v \<in> n_id ` set (wf_nodes w) \<union> e_target ` set (wf_edges w)
      then Some (length (in_edges (wf_edges w) v)) else None)"
proof -
  let ?z = "fold (\<lambda>n d. case fmlookup d (n_id n) of None \<Rightarrow> fmupd (n_id n) (0::nat) d | Some _ \<Rightarrow> d)
    (wf_nodes w) fmempty"
  have z: "fmlookup ?z v = (if v \<in> n_id ` set (wf_nodes w) then Some 0 else None)" for v
    using zero_degrees [of fmempty "wf_nodes w"] by simp
  then have dz: "fmdom' ?z = n_id ` set (wf_nodes w)"
    by (auto simp: fmlookup_dom'_iff split: if_splits)
  have dom: "fmdom' (in_degrees w) = n_id ` set (wf_nodes w) \<union> e_target ` set (wf_edges w)"
    unfolding in_degrees_def incr_degrees_dom dz ..
  have "(case fmlookup (in_degrees w) v of None \<Rightarrow> 0 | Some k \<Rightarrow> k) = length (in_edges (wf_edges w) v)"
    unfolding in_degrees_def incr_degrees by (simp add: z)
  then show ?thesis
    using dom by (cases "fmlookup (in_degrees w) v") (auto simp: fmdom'I dest: fmdom'_notI)
qed


section \<open>One pass over the neighbours\<close>

lemma relax_spec:
  assumes "\<forall>v k. fmlookup d v = Some k \<longrightarrow> count_list vs v \<le> k"
  shows "\<exists>d' new. relax vs (d, q) = Some (d', q @ new) \<and> distinct new \<and>
     set new = {v \<in> set vs. fmlookup d v = Some (count_list vs v)} \<and>
     (\<forall>v. fmlookup d' v = map_option (\<lambda>k. k - count_list vs v) (fmlookup d v))"
  using assms
proof (induction vs arbitrary: d q)
  case Nil
  then show ?case by (simp add: option.map_ident)
next
  case (Cons v vs)
  show ?case
  proof (cases "fmlookup d v")
    case None
    have "\<forall>u k. fmlookup d u = Some k \<longrightarrow> count_list vs u \<le> k"
    proof (intro allI impI)
      fix u k assume u: "fmlookup d u = Some k"
      with Cons.prems have "count_list (v # vs) u \<le> k" by blast
      with u None show "count_list vs u \<le> k" by (cases "u = v") auto
    qed
    from Cons.IH [OF this, of q] None show ?thesis by (fastforce split: if_splits)
  next
    case (Some n)
    with Cons.prems [rule_format, of v n] obtain k where k: "n = Suc k" "count_list vs v \<le> k"
      by (cases n) auto
    let ?d = "fmupd v k d" and ?q = "if k = 0 then q @ [v] else q"
    have "\<forall>u j. fmlookup ?d u = Some j \<longrightarrow> count_list vs u \<le> j"
      using Cons.prems k by (auto split: if_splits)
    from Cons.IH [OF this, of ?q] obtain d' new where
      r: "relax vs (?d, ?q) = Some (d', ?q @ new)" and dn: "distinct new" and
      sn: "set new = {u \<in> set vs. fmlookup ?d u = Some (count_list vs u)}" and
      dd: "\<forall>u. fmlookup d' u = map_option (\<lambda>k. k - count_list vs u) (fmlookup ?d u)"
      by blast
    have run: "relax (v # vs) (d, q) = Some (d', q @ (if k = 0 then [v] else []) @ new)"
      using r Some k(1) by simp
    have zero: "v \<notin> set vs" if "k = 0" using k(2) that by (auto simp: count_list_0_iff)
    have "distinct ((if k = 0 then [v] else []) @ new)" using dn sn zero by auto
    moreover have "set ((if k = 0 then [v] else []) @ new) =
        {u \<in> set (v # vs). fmlookup d u = Some (count_list (v # vs) u)}"
    proof (rule set_eqI)
      fix u
      show "u \<in> set ((if k = 0 then [v] else []) @ new) \<longleftrightarrow>
          u \<in> {u \<in> set (v # vs). fmlookup d u = Some (count_list (v # vs) u)}"
      proof (cases "u = v")
        case True
        have "v \<in> set vs \<longleftrightarrow> count_list vs v \<noteq> 0" by (simp add: count_list_0_iff)
        moreover have "v \<in> set new \<longleftrightarrow> v \<in> set vs \<and> k = count_list vs v" using sn by simp
        moreover have "k = 0 \<longrightarrow> count_list vs v = 0" using k(2) by simp
        ultimately have "v \<in> set ((if k = 0 then [v] else []) @ new) \<longleftrightarrow> k = count_list vs v"
          by (cases "k = 0") auto
        moreover have "fmlookup d v = Some (count_list (v # vs) v) \<longleftrightarrow> k = count_list vs v"
          using Some k(1) by simp
        ultimately show ?thesis unfolding True mem_Collect_eq by simp
      next
        case False
        then show ?thesis using sn by auto
      qed
    qed
    moreover have "\<forall>u. fmlookup d' u = map_option (\<lambda>k. k - count_list (v # vs) u) (fmlookup d u)"
      using dd Some k by (auto simp: option.map_comp)
    ultimately show ?thesis using run by blast
  qed
qed

section \<open>Kahn's invariant\<close>

text \<open>
  \<open>N\<close> is the set of all ids. Every degree counts the edges whose source has not been
  dequeued; the dequeued and queued ids are exactly those of degree zero.
\<close>

definition open_degree :: "edge list \<Rightarrow> string list \<Rightarrow> string \<Rightarrow> nat" where
  "open_degree es order v = length (filter (\<lambda>e. e_target e = v \<and> e_source e \<notin> set order) es)"

definition kahn_inv :: "string set \<Rightarrow> edge list \<Rightarrow> (string, nat) fmap \<Rightarrow> string list \<Rightarrow> string list \<Rightarrow> bool" where
  "kahn_inv N es d q order \<longleftrightarrow>
     (\<forall>v. fmlookup d v = (if v \<in> N then Some (open_degree es order v) else None)) \<and>
     distinct (order @ q) \<and> set (order @ q) = {v \<in> N. open_degree es order v = 0} \<and>
     preds_first (edge_rel es) order"

lemma open_degree_0: "open_degree es order v = 0 \<longleftrightarrow> (\<forall>p. (p, v) \<in> edge_rel es \<longrightarrow> p \<in> set order)"
  by (auto simp: open_degree_def edge_rel_def filter_empty_conv)

lemma open_degree_snoc:
  assumes "cur \<notin> set order"
  shows "open_degree es (order @ [cur]) v + count_list (successors es cur) v = open_degree es order v"
  using assms by (induction es) (auto simp: open_degree_def successors_def)

lemma kahn_step:
  assumes inv: "kahn_inv N es d (cur # q) order" and dom: "e_target ` set es \<subseteq> N"
  shows "\<exists>d' new. relax (successors es cur) (d, q) = Some (d', q @ new) \<and>
    kahn_inv N es d' (q @ new) (order @ [cur])"
proof -
  let ?c = "count_list (successors es cur)"
  have cur: "cur \<notin> set order" and dist: "distinct (order @ cur # q)" and
    dd: "\<And>v. fmlookup d v = (if v \<in> N then Some (open_degree es order v) else None)" and
    zero: "set (order @ cur # q) = {v \<in> N. open_degree es order v = 0}" and
    pf: "preds_first (edge_rel es) order"
    using inv by (auto simp: kahn_inv_def)
  note od = open_degree_snoc [OF cur, of es]
  have "\<forall>v k. fmlookup d v = Some k \<longrightarrow> ?c v \<le> k"
    using dd od by (auto split: if_splits) (metis le_add2)
  from relax_spec [OF this, of q] obtain d' new where
    r: "relax (successors es cur) (d, q) = Some (d', q @ new)" and dn: "distinct new" and
    sn: "set new = {v \<in> set (successors es cur). fmlookup d v = Some (?c v)}" and
    d': "\<And>v. fmlookup d' v = map_option (\<lambda>k. k - ?c v) (fmlookup d v)"
    by blast
  have sub: "open_degree es order v - ?c v = open_degree es (order @ [cur]) v" for v
    using od [of v] by simp
  have new: "v \<in> set new \<longleftrightarrow> v \<in> N \<and> open_degree es order v \<noteq> 0 \<and> open_degree es (order @ [cur]) v = 0" for v
  proof -
    have "v \<in> set (successors es cur) \<longleftrightarrow> ?c v \<noteq> 0" by (simp add: count_list_0_iff)
    then show ?thesis using sn dd od [of v] by (auto split: if_splits)
  qed
  have all: "set ((order @ [cur]) @ q @ new) = {v \<in> N. open_degree es (order @ [cur]) v = 0}"
  proof -
    have "set ((order @ [cur]) @ q @ new) = set (order @ cur # q) \<union> set new" by auto
    also have "\<dots> = {v \<in> N. open_degree es (order @ [cur]) v = 0}"
      unfolding zero using new od by auto (metis add_is_0)
    finally show ?thesis .
  qed
  have "set new \<inter> set (order @ cur # q) = {}" unfolding zero using new by auto
  with dist dn have "distinct ((order @ [cur]) @ q @ new)" by auto
  moreover have "preds_first (edge_rel es) (order @ [cur])"
  proof -
    have "cur \<in> set (order @ cur # q)" by simp
    with zero have "open_degree es order cur = 0" by blast
    with pf show ?thesis by (simp add: preds_first_snoc open_degree_0)
  qed
  moreover have "fmlookup d' v = (if v \<in> N then Some (open_degree es (order @ [cur]) v) else None)" for v
    by (simp add: d' dd sub)
  ultimately show ?thesis using r all by (auto simp: kahn_inv_def)
qed

lemma kahn_final:
  "kahn_inv N es d q order \<Longrightarrow> e_target ` set es \<subseteq> N \<Longrightarrow>
     \<exists>d' order'. kahn es d q order = Some order' \<and> kahn_inv N es d' [] order'"
proof (induction es d q order rule: kahn.induct)
  case (1 es d order)
  then show ?case by auto
next
  case (2 es d cur q order)
  from kahn_step [OF 2(2,3)] obtain d' new where
    r: "relax (successors es cur) (d, q) = Some (d', q @ new)" and
    i: "kahn_inv N es d' (q @ new) (order @ [cur])" by blast
  from 2(1) [OF r refl i 2(3)] r show ?case by simp
qed

lemma kahn_inv_complete:
  assumes inv: "kahn_inv N es d [] order" and dom: "edge_rel es \<subseteq> N \<times> N"
  shows "set order = N \<longleftrightarrow> acyclic (edge_rel es)"
proof
  assume "set order = N"
  moreover have "acyclic (edge_rel es \<inter> set order \<times> set order)"
    using inv by (intro preds_first_acyclic) (auto simp: kahn_inv_def)
  ultimately show "acyclic (edge_rel es)" using dom by (simp add: Int_absorb2)
next
  assume ac: "acyclic (edge_rel es)"
  have so: "set order = {v \<in> N. open_degree es order v = 0}" using inv by (simp add: kahn_inv_def)
  then have so': "x \<in> set order \<longleftrightarrow> x \<in> N \<and> open_degree es order x = 0" for x by (simp only: mem_Collect_eq)
  let ?R = "edge_rel es \<inter> (N - set order) \<times> (N - set order)"
  have "v \<in> set order" if v: "v \<in> N" for v
  proof (rule ccontr)
    assume "v \<notin> set order"
    have ac': "acyclic ?R" by (rule acyclic_subset [OF ac]) simp
    have fin: "finite ?R" by simp
    from finite_acyclic_source [OF fin ac', of v]
    obtain s where s: "(s, v) \<in> ?R\<^sup>*" "\<forall>p. (p, s) \<notin> ?R" by (elim exE conjE)
    from s(1) have "s = v \<or> (\<exists>y. (s, y) \<in> ?R)" by (meson converse_rtranclE)
    with v \<open>v \<notin> set order\<close> have "s \<in> N - set order" by blast
    then have sN: "s \<in> N" "s \<notin> set order" by simp_all
    with so' [of s] have "open_degree es order s \<noteq> 0" by simp
    then obtain p where p: "(p, s) \<in> edge_rel es" "p \<notin> set order"
      unfolding open_degree_0 by blast
    with dom have "p \<in> N" by auto
    with p sN have "(p, s) \<in> ?R" by simp
    with s(2) show False by blast
  qed
  with so' show "set order = N" by blast
qed

lemma topological_order_inv:
  assumes "distinct (map n_id (wf_nodes w))" and "e_target ` set (wf_edges w) \<subseteq> n_id ` set (wf_nodes w)"
  shows "\<exists>d order. topological_order w = Some order \<and>
    kahn_inv (n_id ` set (wf_nodes w)) (wf_edges w) d [] order"
proof -
  let ?N = "n_id ` set (wf_nodes w)" and ?d = "in_degrees w"
  let ?q = "filter (\<lambda>i. (case fmlookup ?d i of None \<Rightarrow> 0 | Some k \<Rightarrow> k) = 0) (map n_id (wf_nodes w))"
  have od: "open_degree (wf_edges w) [] v = length (in_edges (wf_edges w) v)" for v
    by (simp add: open_degree_def in_edges_def)
  have dl: "fmlookup ?d v = (if v \<in> ?N then Some (open_degree (wf_edges w) [] v) else None)" for v
    using assms(2) by (auto simp: in_degrees_lookup od)
  have "kahn_inv ?N (wf_edges w) ?d ?q []"
    unfolding kahn_inv_def using assms(1) by (auto simp: dl)
  from kahn_final [OF this assms(2)] show ?thesis
    by (auto simp: topological_order_def Let_def)
qed

lemma topological_order_spec:
  assumes "distinct (map n_id (wf_nodes w))"
    and "edge_rel (wf_edges w) \<subseteq> n_id ` set (wf_nodes w) \<times> n_id ` set (wf_nodes w)"
  shows "\<exists>order. topological_order w = Some order \<and> distinct order \<and>
    preds_first (edge_rel (wf_edges w)) order \<and> set order \<subseteq> n_id ` set (wf_nodes w) \<and>
    (set order = n_id ` set (wf_nodes w) \<longleftrightarrow> acyclic (edge_rel (wf_edges w)))"
proof -
  have "e_target ` set (wf_edges w) \<subseteq> n_id ` set (wf_nodes w)"
    using assms(2) by (auto simp: edge_rel_def)
  from topological_order_inv [OF assms(1) this] obtain d order where
    t: "topological_order w = Some order" and
    i: "kahn_inv (n_id ` set (wf_nodes w)) (wf_edges w) d [] order" by blast
  from kahn_inv_complete [OF i assms(2)] have
    "set order = n_id ` set (wf_nodes w) \<longleftrightarrow> acyclic (edge_rel (wf_edges w))" .
  moreover from i have "distinct order" "preds_first (edge_rel (wf_edges w)) order"
    "set order \<subseteq> n_id ` set (wf_nodes w)" by (simp_all add: kahn_inv_def)
  ultimately show ?thesis using t by blast
qed

text \<open>
  C37. For a workflow whose node ids are distinct and whose edges join its nodes, the
  subtraction in Kahn's loop never underflows and the resulting list has no repetition and puts
  every node after all its predecessors; it lists every node exactly when the graph has no
  cycle (on a cyclic graph the nodes on and behind a cycle are left out).
\<close>

theorem topological_order_correct:
  assumes "distinct (map n_id (wf_nodes w))"
    and "edge_rel (wf_edges w) \<subseteq> n_id ` set (wf_nodes w) \<times> n_id ` set (wf_nodes w)"
  shows "\<exists>order. topological_order w = Some order \<and> distinct order \<and>
    preds_first (edge_rel (wf_edges w)) order \<and> set order \<subseteq> n_id ` set (wf_nodes w) \<and>
    (set order = n_id ` set (wf_nodes w) \<longleftrightarrow> acyclic (edge_rel (wf_edges w)))"
  using assms by (rule topological_order_spec)

theorem topological_order_correct_witness:
  "\<exists>order. topological_order diamond = Some order \<and> distinct order \<and>
     preds_first (edge_rel (wf_edges diamond)) order \<and> set order = {''a'', ''b'', ''c'', ''d''}"
proof -
  have "distinct (map n_id (wf_nodes diamond))" by simp
  moreover have "edge_rel (wf_edges diamond) \<subseteq> n_id ` set (wf_nodes diamond) \<times> n_id ` set (wf_nodes diamond)"
    unfolding diamond_edge_rel by simp
  ultimately obtain order where "topological_order diamond = Some order" "distinct order"
    "preds_first (edge_rel (wf_edges diamond)) order"
    "set order = n_id ` set (wf_nodes diamond) \<longleftrightarrow> acyclic (edge_rel (wf_edges diamond))"
    using topological_order_correct [of diamond] by blast
  with diamond_acyclic show ?thesis by auto
qed

end
