(* ===== verification/CredentialSchemas.thy ===== *)
theory CredentialSchemas
  imports Credentials
begin

text \<open>
  The built-in credential types, \<open>crates/orbflow-core/src/schema.rs\<close>: which fields a type has,
  which are required and which are secret. Of a field the model keeps what the functions read
  (key, type, required); labels, placeholders and colours are presentation.
\<close>

record credential_field =
  cf_key :: string
  cf_field_type :: string
  cf_required :: bool

record credential_type_schema =
  ct_credential_type :: string
  ct_fields :: "credential_field list"

definition cred_field :: "string \<Rightarrow> string \<Rightarrow> bool \<Rightarrow> credential_field" where
  "cred_field k t r = \<lparr>cf_key = k, cf_field_type = t, cf_required = r\<rparr>"

definition CREDENTIAL_SCHEMAS :: "credential_type_schema list" where
  "CREDENTIAL_SCHEMAS =
    [\<lparr>ct_credential_type = ''postgres'', ct_fields =
       [cred_field ''host'' ''string'' True, cred_field ''port'' ''number'' True,
        cred_field ''database'' ''string'' True, cred_field ''username'' ''string'' True,
        cred_field ''password'' ''password'' True, cred_field ''sslmode'' ''string'' False]\<rparr>,
     \<lparr>ct_credential_type = ''smtp'', ct_fields =
       [cred_field ''host'' ''string'' True, cred_field ''port'' ''number'' True,
        cred_field ''username'' ''string'' True, cred_field ''password'' ''password'' True,
        cred_field ''from'' ''string'' False]\<rparr>,
     \<lparr>ct_credential_type = ''api_key'', ct_fields =
       [cred_field ''key'' ''password'' True, cred_field ''header_name'' ''string'' False,
        cred_field ''prefix'' ''string'' False]\<rparr>,
     \<lparr>ct_credential_type = ''oauth2'', ct_fields =
       [cred_field ''client_id'' ''string'' True, cred_field ''client_secret'' ''password'' True,
        cred_field ''token_url'' ''string'' True, cred_field ''scopes'' ''string'' False]\<rparr>,
     \<lparr>ct_credential_type = ''openai'', ct_fields =
       [cred_field ''api_key'' ''password'' True, cred_field ''organization'' ''string'' False,
        cred_field ''base_url'' ''string'' False]\<rparr>,
     \<lparr>ct_credential_type = ''anthropic'', ct_fields =
       [cred_field ''api_key'' ''password'' True, cred_field ''base_url'' ''string'' False]\<rparr>,
     \<lparr>ct_credential_type = ''google_ai'', ct_fields =
       [cred_field ''api_key'' ''password'' True, cred_field ''base_url'' ''string'' False]\<rparr>,
     \<lparr>ct_credential_type = ''custom'', ct_fields = []\<rparr>]"

definition schema_of :: "string \<Rightarrow> credential_type_schema option" where
  "schema_of t = List.find (\<lambda>s. ct_credential_type s = t) CREDENTIAL_SCHEMAS"

definition field_error :: "jmap \<Rightarrow> credential_field \<Rightarrow> string list" where
  "field_error data f =
     (if cf_required f then
        (case fmlookup data (cf_key f) of
           None \<Rightarrow> [''missing required field: '' @ cf_key f]
         | Some JNull \<Rightarrow> [''missing required field: '' @ cf_key f]
         | Some (JString s) \<Rightarrow> if s = [] then [''field '' @ cf_key f @ '' must not be empty''] else []
         | Some _ \<Rightarrow> [])
      else [])"

definition validate_credential_data :: "string \<Rightarrow> jmap \<Rightarrow> unit result" where
  "validate_credential_data t data =
     (case schema_of t of
        None \<Rightarrow> Inr ()
      | Some sc \<Rightarrow>
          let errors = concat (map (field_error data) (ct_fields sc)) in
          if errors = [] then Inr () else Inl (InvalidNodeConfig (join_str ''; '' errors)))"

definition secret_keys :: "string \<Rightarrow> string set" where
  "secret_keys t = (case schema_of t of
       None \<Rightarrow> {}
     | Some sc \<Rightarrow> set (map cf_key (filter (\<lambda>f. cf_field_type f = ''password'') (ct_fields sc))))"

section \<open>What the schemas say\<close>

lemma secret_keys_builtin:
  "secret_keys ''postgres'' = {''password''}" "secret_keys ''smtp'' = {''password''}"
  "secret_keys ''api_key'' = {''key''}" "secret_keys ''oauth2'' = {''client_secret''}"
  "secret_keys ''openai'' = {''api_key''}" "secret_keys ''anthropic'' = {''api_key''}"
  "secret_keys ''google_ai'' = {''api_key''}" "secret_keys ''custom'' = {}"
  by (simp_all add: secret_keys_def schema_of_def CREDENTIAL_SCHEMAS_def cred_field_def)

lemma field_error_Nil:
  "field_error data f = [] \<longleftrightarrow>
     \<not> cf_required f \<or> (\<exists>v. fmlookup data (cf_key f) = Some v \<and> v \<noteq> JNull \<and> v \<noteq> JString [])"
  by (auto simp: field_error_def split: option.splits json.splits)

text \<open>Validation passes exactly when each required field is present, not null and not empty.\<close>

lemma validate_credential_data_iff:
  "validate_credential_data t data = Inr () \<longleftrightarrow>
     (\<forall>sc f. schema_of t = Some sc \<and> f \<in> set (ct_fields sc) \<and> cf_required f \<longrightarrow>
        (\<exists>v. fmlookup data (cf_key f) = Some v \<and> v \<noteq> JNull \<and> v \<noteq> JString []))"
  by (auto simp: validate_credential_data_def Let_def field_error_Nil split: option.split)

end
