(* ===== verification/EngineBase.thy ===== *)
theory EngineBase
  imports MemStore Dedup Dag Wire Subjects Ports Topo CredentialSchemas
begin

text \<open>
  The engine's state and the ports it works on, \<open>crates/orbflow-engine/src/engine.rs\<close> (struct
  \<open>OrbflowEngine\<close> and its housekeeping).

  A handler works on one instance value, the engine's own fields and the outside world. It is a
  computation over \<open>wf_instance \<times> 'w engine\<close>: the instance is the \<open>&mut Instance\<close> the code
  passes along, \<open>eg_world\<close> the world (store, bus, clock, monitors) of an arbitrary type
  \<open>'w\<close>. The trait objects the engine was built with are the fields of \<open>engine_env\<close>; nothing is
  assumed of them here. The per-instance mutex serialises the handlers of one instance, so a
  handler is one step; other processes act through the answers of the ports, which may change
  from call to call in any way.
\<close>

section \<open>Ports and configuration\<close>

text \<open>The answer of the SLA monitor (\<open>crates/orbflow-engine/src/sla.rs\<close>).\<close>

datatype sla_check_result =
    SlaOk
  | DurationViolation int int
  | LatencyAnomaly int f64 f64
  | FailureRateAnomaly string f64 f64 f64

text \<open>What is sent to the metrics store, \<open>crates/orbflow-core/src/metrics.rs\<close>.\<close>

record node_execution_metrics =
  ne_instance_id :: string
  ne_workflow_id :: string
  ne_node_id :: string
  ne_plugin_ref :: string
  ne_status :: string
  ne_duration_ms :: int
  ne_started_at :: int
  ne_completed_at :: int
  ne_attempt :: int
  ne_tokens :: "i64 option"
  ne_cost_usd_scaled :: "int option"

record instance_execution_metrics =
  ie_instance_id :: string
  ie_workflow_id :: string
  ie_status :: string
  ie_duration_ms :: int
  ie_node_count :: int
  ie_failed_node_count :: int
  ie_started_at :: int
  ie_completed_at :: int
  ie_node_durations :: "(string, int) fmap"

type_synonym 'w executor = "node_input \<Rightarrow> ('w, node_output) act"

text \<open>
  The fields of \<open>engine_env\<close>: configuration (pool name, snapshot interval, budget), the store,
  the optional credential, budget and metrics stores, the bus, the SLA monitor, the clock and
  id generator, serde's conversions, the formatting of floats, and CEL. The writes to the
  metrics and budget stores are spawned: the field says what they do to the world, dropped
  writes included.
\<close>

record 'w engine_env =
  ee_pool_name :: string
  ee_snapshot_interval :: int
  ee_budget :: "budget option"
  ee_cel :: cel_fn
  ee_get_workflow :: "string \<Rightarrow> ('w, workflow) act"
  ee_create_workflow :: "workflow \<Rightarrow> ('w, unit) act"
  ee_update_workflow :: "workflow \<Rightarrow> ('w, unit) act"
  ee_save_workflow_version :: "workflow_version \<Rightarrow> ('w, unit) act"
  ee_get_instance :: "string \<Rightarrow> ('w, wf_instance) act"
  ee_update_instance :: "wf_instance \<Rightarrow> ('w, unit) act"
  ee_create_instance_tx :: "wf_instance \<Rightarrow> domain_event \<Rightarrow> ('w, unit) act"
  ee_list_running :: "('w, wf_instance list) act"
  ee_append_event :: "domain_event \<Rightarrow> ('w, unit) act"
  ee_save_snapshot :: "wf_instance \<Rightarrow> ('w, unit) act"
  ee_credential_for_owner :: "(string \<Rightarrow> string option \<Rightarrow> ('w, credential) act) option"
  ee_check_budget :: "(string \<Rightarrow> ('w, account_budget option) act) option"
  ee_publish :: "string \<Rightarrow> string \<Rightarrow> ('w, unit) act"
  ee_sla_failure :: "string \<Rightarrow> 'w \<Rightarrow> 'w"
  ee_sla_success :: "string \<Rightarrow> 'w \<Rightarrow> 'w"
  ee_sla_check :: "string \<Rightarrow> int \<Rightarrow> 'w \<Rightarrow> sla_check_result \<times> 'w"
  ee_spawn_node_metrics :: "(node_execution_metrics \<Rightarrow> 'w \<Rightarrow> 'w) option"
  ee_spawn_instance_metrics :: "(instance_execution_metrics \<Rightarrow> 'w \<Rightarrow> 'w) option"
  ee_spawn_cost :: "(string \<Rightarrow> f64 \<Rightarrow> 'w \<Rightarrow> 'w) option"
  ee_now :: "'w \<Rightarrow> int \<times> 'w"
  ee_uuid :: "'w \<Rightarrow> string \<times> 'w"
  ee_encode_task :: "task_message \<Rightarrow> string + string"
  ee_decode_result :: "string \<Rightarrow> string + result_message"
  ee_encode_workflow :: "workflow \<Rightarrow> string + json"
  ee_parse_metrics :: "json \<Rightarrow> node_metrics option"
  ee_json_str :: "json \<Rightarrow> string"
  ee_fmt_f64 :: "nat \<Rightarrow> f64 \<Rightarrow> string"
  ee_powi :: "f64 \<Rightarrow> int \<Rightarrow> f64"
  ee_trace_context :: "(string, string) fmap"

section \<open>The engine\<close>

text \<open>The mutable fields: mutex table, processed results, node and schema registries.\<close>

record 'w engine =
  eg_mu :: "string set"
  eg_processed :: "(string, result_set) fmap"
  eg_nodes :: "(string, 'w executor) fmap"
  eg_schemas :: "(string, node_schema) fmap"
  eg_world :: 'w

type_synonym ('w, 'a) handler = "(wf_instance \<times> 'w engine, 'a) act"

definition engine_new :: "'w \<Rightarrow> 'w engine" where
  "engine_new w =
     \<lparr>eg_mu = {}, eg_processed = fmempty, eg_nodes = fmempty, eg_schemas = fmempty, eg_world = w\<rparr>"

text \<open>
  Lifting: \<open>portG\<close> runs a computation on the world, \<open>eng\<close> one on the engine, and \<open>with_inst\<close>
  runs a handler on a local instance value.
\<close>

definition portG :: "('w, 'a) act \<Rightarrow> ('w engine, 'a) act" where
  "portG m = (\<lambda>g. case m (eg_world g) of (r, w) \<Rightarrow> (r, g\<lparr>eg_world := w\<rparr>))"

definition eng :: "('w engine, 'a) act \<Rightarrow> ('w, 'a) handler" where
  "eng m = (\<lambda>(inst, g). case m g of (r, g') \<Rightarrow> (r, inst, g'))"

definition port :: "('w, 'a) act \<Rightarrow> ('w, 'a) handler" where
  "port m = eng (portG m)"

definition with_inst :: "wf_instance \<Rightarrow> ('w, 'a) handler \<Rightarrow> ('w engine, 'a) act" where
  "with_inst inst m = (\<lambda>g. case m (inst, g) of (r, _, g') \<Rightarrow> (r, g'))"

definition get_inst :: "('w, wf_instance) handler" where
  "get_inst = getsE fst"

definition upd_inst :: "(wf_instance \<Rightarrow> wf_instance) \<Rightarrow> ('w, unit) handler" where
  "upd_inst f = modifyE (map_prod f id)"

definition world :: "('w \<Rightarrow> 'w) \<Rightarrow> ('w, unit) handler" where
  "world f = port (modifyE f)"

definition nowE :: "'w engine_env \<Rightarrow> ('w, int) handler" where
  "nowE env = port (\<lambda>w. case ee_now env w of (t, w') \<Rightarrow> (Inr t, w'))"

text \<open>
  \<open>if let Err(e) = store.append_event(..) { error!(..) }\<close> with the base event
  \<open>BaseEvent::new(inst.id, inst.version + k)\<close>, which reads the clock.
\<close>

definition base_at :: "'w engine_env \<Rightarrow> int \<Rightarrow> ('w, base_event) handler" where
  "base_at env k =
     bindE get_inst (\<lambda>inst.
     bindE (nowE env) (\<lambda>t.
     ret (base_event_new (in_id inst) (in_version inst + k) t)))"

definition append_event :: "'w engine_env \<Rightarrow> int \<Rightarrow> (base_event \<Rightarrow> domain_event) \<Rightarrow> ('w, unit) handler" where
  "append_event env k ev = bindE (base_at env k) (\<lambda>b. port (ee_append_event env (ev b)))"

definition log_event :: "'w engine_env \<Rightarrow> int \<Rightarrow> (base_event \<Rightarrow> domain_event) \<Rightarrow> ('w, unit) handler" where
  "log_event env k ev = logE (append_event env k ev)"

definition lock_instance :: "string \<Rightarrow> ('w engine, unit) act" where
  "lock_instance i = modifyE (eg_mu_update (insert i))"

definition forget_instance :: "string \<Rightarrow> 'w engine \<Rightarrow> 'w engine" where
  "forget_instance i g = g\<lparr>eg_mu := eg_mu g - {i}, eg_processed := fmdrop i (eg_processed g)\<rparr>"

definition cleanup_instance :: "('w, unit) handler" where
  "cleanup_instance = (\<lambda>(inst, g).
     (Inr (), inst, if inst_terminal inst then forget_instance (in_id inst) g else g))"

definition sweep_one :: "'w engine_env \<Rightarrow> string \<Rightarrow> ('w engine, unit) act" where
  "sweep_one env i =
     tryE (portG (ee_get_instance env i)) (\<lambda>r.
       case r of
         Inr inst \<Rightarrow> if inst_terminal inst then modifyE (forget_instance i) else ret ()
       | Inl _ \<Rightarrow> modifyE (forget_instance i))"

text \<open>\<open>ids\<close> lists the mutex table in some order.\<close>

definition sweep_stale_instance_state :: "'w engine_env \<Rightarrow> string list \<Rightarrow> ('w engine, unit) act" where
  "sweep_stale_instance_state env ids = forE ids (sweep_one env)"

section \<open>SLA events\<close>

definition severity_from_z :: "f64 \<Rightarrow> string" where
  "severity_from_z z =
     (let abs_z = f64_abs z in
      if f64_lt (F 4) abs_z then ''critical''
      else if f64_lt (F 3) abs_z then ''high''
      else ''warning'')"

definition sla_anomaly :: "'w engine_env \<Rightarrow> sla_check_result \<Rightarrow> anomaly_detected option" where
  "sla_anomaly env r = (case r of
       SlaOk \<Rightarrow> None
     | DurationViolation actual_ms max_ms \<Rightarrow> Some
         \<lparr>ad_anomaly_type = ''duration_violation'',
          ad_message = ''Duration '' @ int_str actual_ms @ ''ms exceeded threshold '' @ int_str max_ms @ ''ms'',
          ad_severity = ''high''\<rparr>
     | LatencyAnomaly actual_ms mean z \<Rightarrow> Some
         \<lparr>ad_anomaly_type = ''latency'',
          ad_message = ''Latency '' @ int_str actual_ms @ ''ms deviates from mean '' @ ee_fmt_f64 env 1 mean @
            ''ms (z='' @ ee_fmt_f64 env 2 z @ '')'',
          ad_severity = severity_from_z z\<rparr>
     | FailureRateAnomaly _ rate expected z \<Rightarrow> Some
         \<lparr>ad_anomaly_type = ''failure_rate'',
          ad_message = ''Failure rate '' @ ee_fmt_f64 env 2 rate @ '' deviates from expected '' @
            ee_fmt_f64 env 2 expected @ '' (z='' @ ee_fmt_f64 env 2 z @ '')'',
          ad_severity = severity_from_z z\<rparr>)"

definition check_and_record_sla_anomalies :: "'w engine_env \<Rightarrow> int \<Rightarrow> ('w, unit) handler" where
  "check_and_record_sla_anomalies env duration_ms =
     bindE get_inst (\<lambda>inst.
     bindE (port (\<lambda>w. case ee_sla_check env (in_workflow_id inst) duration_ms w of (r, w') \<Rightarrow> (Inr r, w'))) (\<lambda>r.
       case sla_anomaly env r of
         None \<Rightarrow> ret ()
       | Some a \<Rightarrow> log_event env 1 (\<lambda>b. EvAnomalyDetected b a)))"

end
