(* ===== verification/Resolve.thy ===== *)
theory Resolve
  imports EngineBase
begin

text \<open>
  What a task is sent with, \<open>crates/orbflow-engine/src/engine.rs\<close>: input mappings and
  parameters (with CEL expressions), credentials with their access tiers, the redaction of
  secrets, and the outputs of capability nodes. A hash map or set is iterated in the order of
  its keys.
\<close>

section \<open>Inputs and parameters\<close>

definition input_value :: "cel_fn \<Rightarrow> jmap \<Rightarrow> execution_context \<Rightarrow> string \<Rightarrow> json \<Rightarrow> json result" where
  "input_value cel ctx ec key val =
     (case val of
        JString v \<Rightarrow>
          if length v > 1 \<and> starts_with ''='' v
          then (case cel (drop 1 v) ctx of
                  Inr evaluated \<Rightarrow> Inr evaluated
                | Inl e \<Rightarrow> Inl (InvalidNodeConfig
                    (''CEL expression failed for key \"'' @ key @ ''\": '' @ error_str e)))
          else (case fmlookup (cx_node_outputs ec) v of
                  Some out \<Rightarrow> Inr (JObject out)
                | None \<Rightarrow> (case fmlookup (cx_variables ec) v of
                    Some x \<Rightarrow> Inr x
                  | None \<Rightarrow> Inr val))
      | _ \<Rightarrow> Inr val)"

fun map_inputs :: "cel_fn \<Rightarrow> jmap \<Rightarrow> execution_context \<Rightarrow> (string \<times> json) list \<Rightarrow> jmap \<Rightarrow> jmap result" where
  "map_inputs cel ctx ec [] acc = Inr acc"
| "map_inputs cel ctx ec ((key, val) # kvs) acc =
     bindR (input_value cel ctx ec key val) (\<lambda>x. map_inputs cel ctx ec kvs (fmupd key x acc))"

definition resolve_input_mapping :: "cel_fn \<Rightarrow> jmap option \<Rightarrow> execution_context \<Rightarrow> jmap result" where
  "resolve_input_mapping cel mapping ec =
     (case mapping of
        None \<Rightarrow> Inr (cx_variables ec)
      | Some m \<Rightarrow>
          if m = fmempty then Inr (cx_variables ec)
          else map_inputs cel (build_mapping_context (cx_node_outputs ec) (cx_variables ec)) ec
                 (fm_items m) fmempty)"

definition static_value :: "parameter \<Rightarrow> jmap \<Rightarrow> jmap" where
  "static_value p acc = (case pa_value p of None \<Rightarrow> acc | Some v \<Rightarrow> fmupd (pa_key p) v acc)"

definition resolve_parameter :: "cel_fn \<Rightarrow> jmap \<Rightarrow> parameter \<Rightarrow> jmap \<Rightarrow> jmap" where
  "resolve_parameter cel ctx p acc =
     (case pa_mode p of
        PExpression \<Rightarrow>
          (case pa_expression p of
             None \<Rightarrow> static_value p acc
           | Some expr \<Rightarrow>
               if expr = [] then static_value p acc
               else (case cel expr ctx of
                       Inr v \<Rightarrow> fmupd (pa_key p) v acc
                     | Inl _ \<Rightarrow> static_value p acc))
      | PStatic \<Rightarrow> static_value p acc)"

definition resolve_parameters :: "cel_fn \<Rightarrow> parameter list \<Rightarrow> execution_context \<Rightarrow> jmap" where
  "resolve_parameters cel params ec =
     (if params = [] then fmempty
      else fold (resolve_parameter cel (build_mapping_context (cx_node_outputs ec) (cx_variables ec)))
             params fmempty)"

section \<open>Credentials\<close>

definition CREDENTIAL_ID_KEY :: string where
  "CREDENTIAL_ID_KEY = ''credential_id''"

text \<open>A resolved credential: its type, effective tier and data.\<close>

type_synonym resolved_creds = "(string, string \<times> access_tier \<times> jmap) fmap"

definition credential_has_secret_material :: "string \<Rightarrow> jmap \<Rightarrow> bool" where
  "credential_has_secret_material cred_type data =
     (if data = fmempty then False
      else secret_keys cred_type = {} \<or> list_ex (\<lambda>(k, _). k \<in> secret_keys cred_type) (fm_items data))"

definition truncated_credential_id :: "string \<Rightarrow> string" where
  "truncated_credential_id i = take (min 8 (length i)) i"

text \<open>The text between single quotes.\<close>

definition quoted :: "string \<Rightarrow> string" where
  "quoted s = char_of (39 :: nat) # s @ [char_of (39 :: nat)]"

definition validate_credential_execution_tier :: "string \<Rightarrow> string \<Rightarrow> access_tier \<Rightarrow> jmap \<Rightarrow> unit result" where
  "validate_credential_execution_tier cred_id cred_type tier data =
     (let truncated = truncated_credential_id cred_id in
      case tier of
        TierRaw \<Rightarrow> Inr ()
      | TierScopedToken \<Rightarrow> Inl (InvalidNodeConfig (''credential '' @ quoted truncated @
          '' uses scoped_token access, but scoped credential execution is not implemented''))
      | TierProxy \<Rightarrow>
          if credential_has_secret_material cred_type data
          then Inl (InvalidNodeConfig (''credential '' @ quoted truncated @
            '' uses proxy access, but proxy credential execution is not implemented for secret material; '' @
            ''configure an explicit raw credential policy or use a proxy-capable node''))
          else Inr ())"

definition tier_debug :: "access_tier \<Rightarrow> string" where
  "tier_debug t = (case t of TierProxy \<Rightarrow> ''Proxy'' | TierScopedToken \<Rightarrow> ''ScopedToken'' | TierRaw \<Rightarrow> ''Raw'')"

text \<open>The ids referenced by a map, and by both maps without repetition.\<close>

definition cred_ref :: "jmap option \<Rightarrow> string list" where
  "cred_ref m = (case Option.bind m (\<lambda>m. fmlookup m CREDENTIAL_ID_KEY) of
       Some (JString i) \<Rightarrow> if i = [] then [] else [i]
     | _ \<Rightarrow> [])"

definition cred_ids :: "jmap option \<Rightarrow> jmap option \<Rightarrow> string list" where
  "cred_ids config params = remdups (cred_ref config @ cred_ref params)"

definition effective_tier :: "string \<Rightarrow> credential \<Rightarrow> access_tier result" where
  "effective_tier cred_id cred =
     (case cd_policy cred of
        None \<Rightarrow>
          if cd_access_tier cred \<noteq> TierProxy
          then Inl (InvalidNodeConfig (''credential '' @ quoted (truncated_credential_id cred_id) @ '' requests '' @
            tier_debug (cd_access_tier cred) @ '' access without an explicit policy''))
          else Inr (cd_access_tier cred)
      | Some p \<Rightarrow>
          if cd_access_tier cred \<notin> set (cp_allowed_tiers p)
          then Inl (InvalidNodeConfig (''credential '' @ quoted (truncated_credential_id cred_id) @ '' requests '' @
            tier_debug (cd_access_tier cred) @ '' access but policy allows ['' @
            join_str '', '' (map tier_debug (cp_allowed_tiers p)) @ '']''))
          else Inr (cd_access_tier cred))"

text \<open>One iteration of the loop over the ids; the error of a failed fetch is rewritten.\<close>

definition resolve_credential ::
  "(string \<Rightarrow> string option \<Rightarrow> ('w, credential) act) \<Rightarrow> string \<Rightarrow> string \<Rightarrow> resolved_creds \<Rightarrow> ('w, resolved_creds) act" where
  "resolve_credential fetch oid cred_id acc =
     (case credential_id_new cred_id of
        Inl e \<Rightarrow> raise (Internal (''invalid credential ID: '' @ error_str e))
      | Inr i \<Rightarrow>
          tryE (fetch i (Some oid)) (\<lambda>r.
            case r of
              Inl e \<Rightarrow>
                if is_not_found e
                then raise (InvalidNodeConfig (''credential '' @ quoted (truncated_credential_id cred_id) @ '' not found''))
                else raise (Internal (''failed to resolve credential '' @ truncated_credential_id cred_id @
                       '': '' @ error_str e))
            | Inr cred \<Rightarrow>
                bindE (liftR (effective_tier cred_id cred)) (\<lambda>tier.
                bindE (liftR (validate_credential_execution_tier cred_id (cd_type cred) tier (cd_data cred))) (\<lambda>_.
                ret (fmupd cred_id (cd_type cred, tier, cd_data cred) acc)))))"

fun resolve_all ::
  "(string \<Rightarrow> string option \<Rightarrow> ('w, credential) act) \<Rightarrow> string \<Rightarrow> string list \<Rightarrow> resolved_creds \<Rightarrow> ('w, resolved_creds) act" where
  "resolve_all fetch oid [] acc = ret acc"
| "resolve_all fetch oid (i # is) acc = bindE (resolve_credential fetch oid i acc) (resolve_all fetch oid is)"

definition resolve_credentials_deduped ::
  "(string \<Rightarrow> string option \<Rightarrow> ('w, credential) act) option \<Rightarrow> jmap option \<Rightarrow> jmap option \<Rightarrow> string option \<Rightarrow>
     ('w, resolved_creds) act" where
  "resolve_credentials_deduped cred_store config params owner =
     (let ids = cred_ids config params in
      if ids = [] then ret fmempty
      else case owner of
        None \<Rightarrow> raise (Forbidden ''credential owner context is required'')
      | Some oid \<Rightarrow>
          (case cred_store of
             None \<Rightarrow> raise (InvalidNodeConfig ''credential store is not configured'')
           | Some fetch \<Rightarrow> resolve_all fetch oid ids fmempty))"

text \<open>The data of the referenced credential joins the map; keys that are set already win.\<close>

definition inject_credential :: "resolved_creds \<Rightarrow> jmap \<Rightarrow> jmap" where
  "inject_credential creds m =
     (let m' = fmdrop CREDENTIAL_ID_KEY m in
      case fmlookup m CREDENTIAL_ID_KEY of
        Some (JString cred_id) \<Rightarrow>
          (case fmlookup creds cred_id of
             Some (_, _, data) \<Rightarrow> fm_or_insert_all m' data
           | None \<Rightarrow> m')
      | _ \<Rightarrow> m')"

section \<open>Redaction\<close>

text \<open>Eight bullets (U+2022) in UTF-8.\<close>

definition BULLETS :: string where
  "BULLETS = concat (replicate 8 [char_of (226 :: nat), char_of (128 :: nat), char_of (162 :: nat)])"

definition redact_key :: "json \<Rightarrow> string \<Rightarrow> string \<Rightarrow> jmap \<Rightarrow> jmap" where
  "redact_key repl cred_type k m =
     (let secrets = secret_keys cred_type in
      if (secrets = {} \<or> k \<in> secrets) \<and> fmlookup m k \<noteq> None then fmupd k repl m else m)"

definition redact_credential :: "json \<Rightarrow> string \<Rightarrow> jmap \<Rightarrow> jmap \<Rightarrow> jmap" where
  "redact_credential repl cred_type data m =
     fold (redact_key repl cred_type) (map fst (fm_items data)) m"

text \<open>For display every credential is redacted; on the wire the raw ones are passed through.\<close>

definition redact_display :: "resolved_creds \<Rightarrow> jmap \<Rightarrow> jmap" where
  "redact_display creds m =
     fold (\<lambda>(cred_type, _, data). redact_credential (JString BULLETS) cred_type data) (fm_values creds) m"

definition redact_wire :: "resolved_creds \<Rightarrow> jmap \<Rightarrow> jmap" where
  "redact_wire creds m =
     fold (\<lambda>(cred_type, tier, data) m.
             if tier = TierRaw then m else redact_credential JNull cred_type data m)
       (fm_values creds) m"

section \<open>Capability edges\<close>

definition resolve_capability_edges_from_context ::
  "execution_context \<Rightarrow> workflow \<Rightarrow> wf_node \<Rightarrow> jmap option" where
  "resolve_capability_edges_from_context ec w node =
     (let caps = fold (\<lambda>ce caps.
            if ce_target_node_id ce \<noteq> n_id node then caps
            else (case fmlookup (cx_node_outputs ec) (ce_source_node_id ce) of
                    None \<Rightarrow> caps
                  | Some out \<Rightarrow> fmupd (ce_target_port_key ce) (JObject out) caps))
          (wf_capability_edges w) fmempty in
      if caps = fmempty then None else Some caps)"

section \<open>Credentials fail closed\<close>

lemma effective_tier_Inr:
  "effective_tier i c = Inr t \<longleftrightarrow>
     t = cd_access_tier c \<and> (case cd_policy c of None \<Rightarrow> t = TierProxy | Some p \<Rightarrow> t \<in> set (cp_allowed_tiers p))"
  by (auto simp: effective_tier_def split: option.splits)

lemma has_secret_iff:
  "credential_has_secret_material ty data \<longleftrightarrow>
     (\<exists>k. fmlookup data k \<noteq> None \<and> (secret_keys ty = {} \<or> k \<in> secret_keys ty))"
proof -
  have "data \<noteq> fmempty \<longleftrightarrow> (\<exists>k. fmlookup data k \<noteq> None)"
    by (metis fmap_ext fmempty_lookup)
  moreover have "list_ex (\<lambda>(k, _). k \<in> S) (fm_items data) \<longleftrightarrow> (\<exists>k. fmlookup data k \<noteq> None \<and> k \<in> S)" for S
    by (force simp: list_ex_iff fm_items_iff)
  ultimately show ?thesis by (auto simp: credential_has_secret_material_def)
qed

lemma validate_tier_Inr:
  "validate_credential_execution_tier i ty t data = Inr u \<longleftrightarrow>
     t = TierRaw \<or> t = TierProxy \<and> \<not> credential_has_secret_material ty data"
  by (cases t) (simp_all add: validate_credential_execution_tier_def Let_def)

text \<open>What the map of resolved credentials may hold for an id.\<close>

definition granted :: "(string \<Rightarrow> string option \<Rightarrow> ('w, credential) act) \<Rightarrow> string \<Rightarrow> string \<Rightarrow> string \<times> access_tier \<times> jmap \<Rightarrow> bool" where
  "granted fetch oid i v \<longleftrightarrow>
     (\<exists>w c. fst (fetch i (Some oid) w) = Inr c \<and> v = (cd_type c, cd_access_tier c, cd_data c) \<and>
        (case cd_policy c of None \<Rightarrow> cd_access_tier c = TierProxy | Some p \<Rightarrow> cd_access_tier c \<in> set (cp_allowed_tiers p)) \<and>
        (cd_access_tier c = TierRaw \<or>
         cd_access_tier c = TierProxy \<and> \<not> credential_has_secret_material (cd_type c) (cd_data c)))"

lemma credential_id_new_Inr: "credential_id_new i = Inr j \<Longrightarrow> j = i"
  by (auto simp: credential_id_new_def split: if_splits)

lemma resolve_credential_Inr:
  assumes "fst (resolve_credential fetch oid i acc w) = Inr acc'"
  shows "\<exists>v. acc' = fmupd i v acc \<and> granted fetch oid i v"
  using assms
  by (auto simp: resolve_credential_def act_simps effective_tier_Inr validate_tier_Inr granted_def
      split: sum.splits prod.splits if_splits dest!: credential_id_new_Inr)
     (metis fst_conv)+

lemma resolve_all_Inr:
  "fst (resolve_all fetch oid is acc w) = Inr creds \<Longrightarrow> fmlookup creds i = Some v \<Longrightarrow>
     fmlookup acc i = Some v \<or> i \<in> set is \<and> granted fetch oid i v"
proof (induction "is" arbitrary: acc w)
  case Nil
  then show ?case by (simp add: ret_def)
next
  case (Cons j js)
  obtain r w' where s: "resolve_credential fetch oid j acc w = (r, w')" by (cases "resolve_credential fetch oid j acc w")
  with Cons.prems(1) obtain a where a: "r = Inr a" "fst (resolve_all fetch oid js a w') = Inr creds"
    by (auto simp: bindE_def split: sum.splits)
  from resolve_credential_Inr [of fetch oid j acc w a] s a(1) obtain u where
    u: "a = fmupd j u acc" "granted fetch oid j u" by auto
  from Cons.IH [OF a(2) Cons.prems(2)] u show ?case by (auto split: if_splits)
qed

text \<open>
  C38. Credentials resolve fail-closed. Whatever the store does, a task that references
  credentials gets them only in the name of an owner, from the configured store, fetched for
  that owner; each one with the tier stored with it, which its policy lists (or which is the
  proxy tier, without a policy); and secret material is handed out in the raw tier only.
\<close>

theorem credentials_fail_closed:
  assumes "fst (resolve_credentials_deduped cred_store config params owner w) = Inr creds"
    and "fmlookup creds i = Some (ty, tier, data)"
  shows "\<exists>fetch oid w' c. cred_store = Some fetch \<and> owner = Some oid \<and> i \<in> set (cred_ids config params) \<and>
    fst (fetch i (Some oid) w') = Inr c \<and> ty = cd_type c \<and> tier = cd_access_tier c \<and> data = cd_data c \<and>
    (case cd_policy c of None \<Rightarrow> tier = TierProxy | Some p \<Rightarrow> tier \<in> set (cp_allowed_tiers p)) \<and>
    (tier = TierRaw \<or>
     tier = TierProxy \<and> (\<forall>k. fmlookup data k \<noteq> None \<longrightarrow> secret_keys ty \<noteq> {} \<and> k \<notin> secret_keys ty))"
proof -
  have "cred_ids config params \<noteq> []"
    using assms by (auto simp: resolve_credentials_deduped_def Let_def ret_def split: if_splits)
  with assms(1) obtain fetch oid where f: "cred_store = Some fetch" "owner = Some oid"
    and r: "fst (resolve_all fetch oid (cred_ids config params) fmempty w) = Inr creds"
    by (auto simp: resolve_credentials_deduped_def Let_def raise_def split: option.splits)
  from resolve_all_Inr [OF r assms(2)] have i: "i \<in> set (cred_ids config params)"
    and "granted fetch oid i (ty, tier, data)" by simp_all
  then obtain w' c where c: "fst (fetch i (Some oid) w') = Inr c"
    "ty = cd_type c" "tier = cd_access_tier c" "data = cd_data c"
    "case cd_policy c of None \<Rightarrow> tier = TierProxy | Some p \<Rightarrow> tier \<in> set (cp_allowed_tiers p)"
    "tier = TierRaw \<or> tier = TierProxy \<and> \<not> credential_has_secret_material ty data"
    unfolding granted_def by blast
  have "tier = TierRaw \<or>
      tier = TierProxy \<and> (\<forall>k. fmlookup data k \<noteq> None \<longrightarrow> secret_keys ty \<noteq> {} \<and> k \<notin> secret_keys ty)"
    using c(6) unfolding has_secret_iff by blast
  with f i c(1-5) show ?thesis by blast
qed

definition raw_credential :: credential where
  "raw_credential = sample_credential ''c'' (Some ''alice'') TierRaw
     \<lparr>cd_policy := Some (policy_default\<lparr>cp_allowed_tiers := [TierRaw]\<rparr>)\<rparr>"

lemma raw_credential_simps [simp]:
  "cd_type raw_credential = ''api_key''" "cd_access_tier raw_credential = TierRaw"
  "cd_owner_id raw_credential = Some ''alice''"
  "cd_data raw_credential = fmupd ''key'' (JString ''secret'') fmempty"
  "cd_policy raw_credential = Some (policy_default\<lparr>cp_allowed_tiers := [TierRaw]\<rparr>)"
  by (simp_all add: raw_credential_def sample_credential_def)

definition credential_config :: jmap where
  "credential_config = fmupd CREDENTIAL_ID_KEY (JString ''c'') fmempty"

lemma resolve_raw_credential:
  "resolve_credentials_deduped (Some ms_get_credential_for_owner) (Some credential_config) None (Some ''alice'')
     (mem_store_new\<lparr>ms_credentials := fmupd ''c'' raw_credential fmempty\<rparr>) =
   (Inr (fmupd ''c'' (''api_key'', TierRaw, fmupd ''key'' (JString ''secret'') fmempty) fmempty),
    mem_store_new\<lparr>ms_credentials := fmupd ''c'' raw_credential fmempty\<rparr>)"
proof -
  have i: "credential_id_new ''c'' = Inr ''c''" by code_simp
  have ids: "cred_ids (Some credential_config) None = [''c'']"
    by (simp add: cred_ids_def cred_ref_def credential_config_def)
  have t: "effective_tier ''c'' raw_credential = Inr TierRaw"
    by (simp add: effective_tier_def)
  have f: "ms_get_credential_for_owner ''c'' (Some ''alice'')
      (mem_store_new\<lparr>ms_credentials := fmupd ''c'' raw_credential fmempty\<rparr>) =
      (Inr raw_credential, mem_store_new\<lparr>ms_credentials := fmupd ''c'' raw_credential fmempty\<rparr>)"
    by (simp add: ms_get_credential_for_owner_def wrong_owner_def)
  show ?thesis
    by (simp add: resolve_credentials_deduped_def ids resolve_credential_def i act_simps f t
        validate_credential_execution_tier_def)
qed

theorem credentials_fail_closed_witness:
  "\<exists>fetch oid w' c. Some ms_get_credential_for_owner = Some fetch \<and> Some ''alice'' = Some oid \<and>
     fst (fetch ''c'' (Some oid) (w' :: mem_store)) = Inr c \<and> TierRaw = cd_access_tier c"
  using credentials_fail_closed [of "Some ms_get_credential_for_owner" "Some credential_config" None
      "Some ''alice''" "mem_store_new\<lparr>ms_credentials := fmupd ''c'' raw_credential fmempty\<rparr>" _ "''c''"
      "''api_key''" TierRaw "fmupd ''key'' (JString ''secret'') fmempty"]
  by (fastforce simp: resolve_raw_credential)

section \<open>Secrets do not reach the bus\<close>

lemma fold_overwrite:
  assumes "\<And>x m. fmlookup (f x m) k = (if P x \<and> fmlookup m k \<noteq> None then Some r else fmlookup m k)"
  shows "fmlookup (fold f xs m) k =
    (if (\<exists>x \<in> set xs. P x) \<and> fmlookup m k \<noteq> None then Some r else fmlookup m k)"
proof (induction xs arbitrary: m)
  case Nil
  then show ?case by simp
next
  case (Cons x xs)
  have "fmlookup (fold f (x # xs) m) k = fmlookup (fold f xs (f x m)) k" by simp
  with Cons.IH [of "f x m"] assms [of x m] show ?case by (cases "P x") simp_all
qed

definition secret_of :: "string \<times> access_tier \<times> jmap \<Rightarrow> string \<Rightarrow> bool" where
  "secret_of v k \<longleftrightarrow> fmlookup (snd (snd v)) k \<noteq> None \<and> (secret_keys (fst v) = {} \<or> k \<in> secret_keys (fst v))"

lemma resolved_secrets_raw:
  assumes "fst (resolve_credentials_deduped cred_store config params owner w) = Inr creds"
    and "fmlookup creds i = Some (ty, tier, data)" and "tier \<noteq> TierRaw" and "fmlookup data k \<noteq> None"
  shows "secret_keys ty \<noteq> {} \<and> k \<notin> secret_keys ty"
proof -
  have "cred_ids config params \<noteq> []"
    using assms(1,2) by (auto simp: resolve_credentials_deduped_def Let_def ret_def split: if_splits)
  with assms(1) obtain fetch oid where "fst (resolve_all fetch oid (cred_ids config params) fmempty w) = Inr creds"
    by (auto simp: resolve_credentials_deduped_def Let_def raise_def split: option.splits)
  from resolve_all_Inr [OF this assms(2)] assms(3) have "\<not> credential_has_secret_material ty data"
    by (auto simp: granted_def)
  with assms(4) show ?thesis unfolding has_secret_iff by blast
qed

lemma redact_key_lookup:
  "fmlookup (redact_key r ty j m) k =
     (if (j = k \<and> (secret_keys ty = {} \<or> k \<in> secret_keys ty)) \<and> fmlookup m k \<noteq> None then Some r else fmlookup m k)"
  by (cases "j = k") (simp_all add: redact_key_def Let_def)

lemma redact_credential_lookup:
  "fmlookup (redact_credential r ty data m) k =
     (if (fmlookup data k \<noteq> None \<and> (secret_keys ty = {} \<or> k \<in> secret_keys ty)) \<and> fmlookup m k \<noteq> None
      then Some r else fmlookup m k)"
proof -
  have "k \<in> fst ` set (fm_items data) \<longleftrightarrow> fmlookup data k \<noteq> None"
    by (auto simp: fm_items_iff image_iff Bex_def)
  then have "(\<exists>j \<in> set (map fst (fm_items data)). j = k \<and> (secret_keys ty = {} \<or> k \<in> secret_keys ty)) \<longleftrightarrow>
      fmlookup data k \<noteq> None \<and> (secret_keys ty = {} \<or> k \<in> secret_keys ty)"
    by auto
  then show ?thesis
    unfolding redact_credential_def fold_overwrite [OF redact_key_lookup] by simp
qed

lemma redact_display_fold:
  "fmlookup (fold (\<lambda>(ty, _, data). redact_credential r ty data) vs m) k =
     (if (\<exists>v \<in> set vs. secret_of v k) \<and> fmlookup m k \<noteq> None then Some r else fmlookup m k)"
  by (rule fold_overwrite) (simp add: redact_credential_lookup secret_of_def split_beta)

lemma redact_wire_fold:
  "fmlookup (fold (\<lambda>(ty, tier, data) m. if tier = TierRaw then m else redact_credential r ty data m) vs m) k =
     (if (\<exists>v \<in> set vs. fst (snd v) \<noteq> TierRaw \<and> secret_of v k) \<and> fmlookup m k \<noteq> None then Some r else fmlookup m k)"
  by (rule fold_overwrite) (simp add: redact_credential_lookup secret_of_def split_beta)

text \<open>
Redaction: in the map shown in the activity viewer every secret field of every resolved
  credential is bullets; in the map sent on the bus every secret field of a credential that is
  not raw is null; all other entries are untouched, and no key appears or disappears.
\<close>

theorem redaction_exact:
  "fmlookup (redact_display creds m) k =
     (if fmlookup m k \<noteq> None \<and> (\<exists>i v. fmlookup creds i = Some v \<and> secret_of v k)
      then Some (JString BULLETS) else fmlookup m k) \<and>
   fmlookup (redact_wire creds m) k =
     (if fmlookup m k \<noteq> None \<and> (\<exists>i v. fmlookup creds i = Some v \<and> fst (snd v) \<noteq> TierRaw \<and> secret_of v k)
      then Some JNull else fmlookup m k)"
  by (auto simp: redact_display_def redact_wire_def redact_display_fold redact_wire_fold set_fm_values)

section \<open>Inputs\<close>

lemma map_inputs_lookup:
  "map_inputs cel ctx ec kvs acc = Inr m \<Longrightarrow> distinct (map fst kvs) \<Longrightarrow>
     (case map_of kvs k of
        None \<Rightarrow> fmlookup m k = fmlookup acc k
      | Some v \<Rightarrow> \<exists>x. input_value cel ctx ec k v = Inr x \<and> fmlookup m k = Some x)"
proof (induction kvs arbitrary: acc)
  case Nil
  then show ?case by simp
next
  case (Cons kv kvs)
  obtain key val where kv: "kv = (key, val)" by (cases kv)
  with Cons.prems obtain x where x: "input_value cel ctx ec key val = Inr x"
    "map_inputs cel ctx ec kvs (fmupd key x acc) = Inr m" by (auto simp: bindR_Inr_iff)
  have "map_of kvs key = None" using Cons.prems(2) kv by (simp add: map_of_eq_None_iff)
  with Cons.IH [OF x(2)] Cons.prems(2) kv x(1) show ?case
    by (cases "k = key"; cases "map_of kvs k") auto
qed

text \<open>
  A non-empty mapping yields exactly the mapped keys, each with its resolved value; an
  expression that fails makes the whole mapping fail.
\<close>

lemma resolve_input_mapping_Inr:
  assumes "resolve_input_mapping cel (Some mp) ec = Inr m" and "mp \<noteq> fmempty"
  shows "(case fmlookup mp k of
        None \<Rightarrow> fmlookup m k = None
      | Some v \<Rightarrow> \<exists>x. input_value cel (build_mapping_context (cx_node_outputs ec) (cx_variables ec)) ec k v = Inr x \<and>
          fmlookup m k = Some x)"
  using assms map_inputs_lookup [of cel "build_mapping_context (cx_node_outputs ec) (cx_variables ec)"
      ec "fm_items mp" fmempty m k]
  by (simp add: resolve_input_mapping_def cong: option.case_cong)

end
