(* ===== verification/SaveInstance.thy ===== *)
theory SaveInstance
  imports EngineBase
begin

text \<open>
  Saving an instance under optimistic locking, \<open>save_instance\<close> of
  \<open>crates/orbflow-engine/src/engine.rs\<close>: the version is bumped before each attempt; a conflict
  re-reads the stored instance, merges the local changes into it and tries again, three times
  at most. The loop is a recursion on the retries left.
\<close>

definition SAVE_INSTANCE_MAX_RETRIES :: nat where
  "SAVE_INSTANCE_MAX_RETRIES = 3"

definition merge_instance_status :: "instance_status \<Rightarrow> instance_status \<Rightarrow> instance_status" where
  "merge_instance_status fresh local =
     (if fresh = IFailed \<or> local = IFailed then IFailed
      else if fresh = ICancelled \<or> local = ICancelled then ICancelled
      else if fresh = ICompleted \<or> local = ICompleted then ICompleted
      else if fresh = IRunning \<or> local = IRunning then IRunning
      else IPending)"

definition needs_merge :: "node_states \<Rightarrow> node_states \<Rightarrow> bool" where
  "needs_merge local fresh =
     list_ex (\<lambda>(i, local_ns).
         case fmlookup fresh i of
           None \<Rightarrow> True
         | Some fresh_ns \<Rightarrow> node_terminal (st_status local_ns) \<and> \<not> node_terminal (st_status fresh_ns))
       (fm_items local)"

definition takes_local :: "node_states \<Rightarrow> string \<times> node_state \<Rightarrow> bool" where
  "takes_local fresh p = (case p of (i, local_ns) \<Rightarrow>
     (case fmlookup fresh i of
        None \<Rightarrow> True
      | Some fresh_ns \<Rightarrow>
          node_terminal (st_status local_ns) \<and> \<not> node_terminal (st_status fresh_ns) \<or>
          st_status local_ns = NQueued \<and> st_status fresh_ns = NPending))"

definition merge_nodes :: "node_states \<Rightarrow> node_states \<Rightarrow> node_states" where
  "merge_nodes local fresh = fold (\<lambda>(i, ns). fmupd i ns) (filter (takes_local fresh) (fm_items local)) fresh"

text \<open>All fields not listed come from the stored instance.\<close>

definition merge_instance :: "wf_instance \<Rightarrow> wf_instance \<Rightarrow> wf_instance" where
  "merge_instance local fresh =
     fresh\<lparr>in_node_states := merge_nodes (in_node_states local) (in_node_states fresh),
           in_status := merge_instance_status (in_status fresh) (in_status local),
           in_updated_at := in_updated_at local,
           in_context := (in_context fresh)
             \<lparr>cx_node_outputs := fm_or_insert_all (cx_node_outputs (in_context fresh)) (cx_node_outputs (in_context local)),
              cx_variables := fm_or_insert_all (cx_variables (in_context fresh)) (cx_variables (in_context local))\<rparr>\<rparr>"

definition bump :: "'w engine_env \<Rightarrow> ('w, unit) handler" where
  "bump env = bindE (nowE env) (\<lambda>t.
     upd_inst (\<lambda>i. i\<lparr>in_version := in_version i + 1, in_updated_at := t\<rparr>))"

definition take_snapshot :: "'w engine_env \<Rightarrow> ('w, unit) handler" where
  "take_snapshot env = bindE get_inst (\<lambda>inst.
     if ee_snapshot_interval env > 0 \<and> in_version inst mod ee_snapshot_interval env = 0
     then logE (port (ee_save_snapshot env inst)) else ret ())"

text \<open>The retries are used up: best effort to mark the stored instance failed, then the error.\<close>

definition give_up :: "'w engine_env \<Rightarrow> ('w, unit) handler" where
  "give_up env = bindE get_inst (\<lambda>inst.
     seqE (tryE (port (ee_get_instance env (in_id inst))) (\<lambda>r.
             case r of
               Inl _ \<Rightarrow> ret ()
             | Inr latest \<Rightarrow>
                 if inst_terminal latest then ret ()
                 else bindE (nowE env) (\<lambda>t.
                   logE (port (ee_update_instance env (latest\<lparr>in_status := IFailed,
                     in_version := in_version latest + 1, in_updated_at := t\<rparr>))))))
          (raise (Internal (''save instance '' @ in_id inst @ '': max retries exceeded after version conflict''))))"

definition reread :: "'w engine_env \<Rightarrow> ('w, unit) handler \<Rightarrow> ('w, unit) handler" where
  "reread env again = bindE get_inst (\<lambda>inst.
     bindE (port (ee_get_instance env (in_id inst))) (\<lambda>fresh.
       if \<not> needs_merge (in_node_states inst) (in_node_states fresh) then ret ()
       else seqE (upd_inst (\<lambda>local. merge_instance local fresh)) again))"

definition save_attempt :: "'w engine_env \<Rightarrow> ('w, unit) handler \<Rightarrow> ('w, unit) handler" where
  "save_attempt env on_conflict =
     seqE (bump env) (bindE get_inst (\<lambda>inst.
       tryE (port (ee_update_instance env inst)) (\<lambda>r.
         case r of
           Inr _ \<Rightarrow> take_snapshot env
         | Inl e \<Rightarrow> if is_conflict e then on_conflict else raise e)))"

primrec save_loop :: "'w engine_env \<Rightarrow> nat \<Rightarrow> ('w, unit) handler" where
  "save_loop env 0 = save_attempt env (give_up env)"
| "save_loop env (Suc retries) = save_attempt env (reread env (save_loop env retries))"

definition save_instance :: "'w engine_env \<Rightarrow> ('w, unit) handler" where
  "save_instance env = save_loop env SAVE_INSTANCE_MAX_RETRIES"

section \<open>Merging\<close>

lemma merge_status_terminal:
  "merge_instance_status f l \<noteq> IRunning \<and> merge_instance_status f l \<noteq> IPending \<longleftrightarrow>
     (f \<noteq> IRunning \<and> f \<noteq> IPending) \<or> (l \<noteq> IRunning \<and> l \<noteq> IPending)"
  by (cases f; cases l) (simp_all add: merge_instance_status_def)

lemma merge_status_commute: "merge_instance_status f l = merge_instance_status l f"
  by (cases f; cases l) (simp_all add: merge_instance_status_def)

lemma needs_merge_iff:
  "needs_merge local fresh \<longleftrightarrow>
     (\<exists>i ns. fmlookup local i = Some ns \<and>
        (case status_of fresh i of None \<Rightarrow> True | Some s \<Rightarrow> node_terminal (st_status ns) \<and> \<not> node_terminal s))"
proof -
  have "(case fmlookup fresh i of None \<Rightarrow> True | Some f \<Rightarrow> P \<and> \<not> node_terminal (st_status f)) =
      (case status_of fresh i of None \<Rightarrow> True | Some s \<Rightarrow> P \<and> \<not> node_terminal s)" for i P
    by (simp add: status_of_def split: option.split)
  then show ?thesis by (simp add: needs_merge_def list_ex_iff Bex_def split_paired_Ex fm_items_iff)
qed

lemma fold_fmupd_lookup:
  "distinct (map fst kvs) \<Longrightarrow>
     fmlookup (fold (\<lambda>(i, v). fmupd i v) kvs m) k = (case map_of kvs k of None \<Rightarrow> fmlookup m k | Some v \<Rightarrow> Some v)"
proof (induction kvs arbitrary: m)
  case Nil
  then show ?case by simp
next
  case (Cons kv kvs)
  obtain i v where kv: "kv = (i, v)" by (cases kv)
  have "map_of kvs i = None" using Cons.prems kv by (simp add: map_of_eq_None_iff)
  with Cons kv show ?case by (auto split: option.split)
qed

lemma map_of_filter_items:
  "map_of (filter P (fm_items m)) k =
     (case fmlookup m k of None \<Rightarrow> None | Some v \<Rightarrow> if P (k, v) then Some v else None)"
proof -
  have d: "distinct (map fst (filter P (fm_items m)))"
    by (rule distinct_map_filter) (rule distinct_fm_items)
  show ?thesis
  proof (cases "fmlookup m k")
    case None
    then show ?thesis by (auto simp: map_of_eq_None_iff fm_items_iff)
  next
    case (Some v)
    show ?thesis
    proof (cases "P (k, v)")
      case True
      with Some d show ?thesis by (simp add: fm_items_iff)
    next
      case False
      with Some have "map_of (filter P (fm_items m)) k = None"
        by (auto simp: map_of_eq_None_iff fm_items_iff)
      with Some False show ?thesis by simp
    qed
  qed
qed

lemma merge_nodes_lookup:
  "fmlookup (merge_nodes local fresh) i =
     (case fmlookup local i of
        None \<Rightarrow> fmlookup fresh i
      | Some ns \<Rightarrow> if takes_local fresh (i, ns) then Some ns else fmlookup fresh i)"
  unfolding merge_nodes_def
  by (subst fold_fmupd_lookup)
     (auto simp: map_of_filter_items distinct_map_filter split: option.split)

text \<open>
  No progress is lost in a merge: every local node is in the result; a node that is terminal on
  either side is terminal in the result; and a stored terminal state is never replaced.
\<close>

lemma merge_nodes_terminal:
  assumes "status_of local i = Some s" and "node_terminal s"
  shows "\<exists>s'. status_of (merge_nodes local fresh) i = Some s' \<and> node_terminal s'"
proof -
  from assms(1) obtain ns where ns: "fmlookup local i = Some ns" "st_status ns = s" by (auto simp: status_of_Some)
  show ?thesis
  proof (cases "takes_local fresh (i, ns)")
    case True
    with ns assms(2) show ?thesis by (simp add: status_of_def merge_nodes_lookup)
  next
    case False
    with ns assms(2) show ?thesis
      by (auto simp: status_of_def merge_nodes_lookup takes_local_def split: option.splits)
  qed
qed

lemma merge_nodes_keeps_terminal:
  assumes "fmlookup fresh i = Some ns" and "node_terminal (st_status ns)"
  shows "fmlookup (merge_nodes local fresh) i = Some ns"
  using assms by (auto simp: merge_nodes_lookup takes_local_def split: option.split)

lemma merge_instance_simps [simp]:
  "in_id (merge_instance l f) = in_id f" "in_workflow_id (merge_instance l f) = in_workflow_id f"
  "in_version (merge_instance l f) = in_version f" "in_saga (merge_instance l f) = in_saga f"
  "in_metrics (merge_instance l f) = in_metrics f" "in_owner_id (merge_instance l f) = in_owner_id f"
  "in_node_states (merge_instance l f) = merge_nodes (in_node_states l) (in_node_states f)"
  "in_status (merge_instance l f) = merge_instance_status (in_status f) (in_status l)"
  by (simp_all add: merge_instance_def)

section \<open>The contract of the engine's ports\<close>

text \<open>What the store answers for an instance id.\<close>

definition stored_at :: "'w engine_env \<Rightarrow> 'w engine \<Rightarrow> string \<Rightarrow> wf_instance result" where
  "stored_at env g i = fst (ee_get_instance env i (eg_world g))"

text \<open>
  The instance store answers as \<open>instance_store\<close> demands, and the other ports (clock, event log,
  snapshots, bus, workflows, credentials, SLA monitor, metrics and cost stores) do not change
  what is read of the instances.
\<close>

locale engine_store = instance_store "ee_get_instance env" "ee_update_instance env"
  for env :: "'w engine_env" +
  assumes now_reads: "fst (ee_get_instance env i (snd (ee_now env w))) = fst (ee_get_instance env i w)"
    and snapshot_reads: "fst (ee_get_instance env i (snd (ee_save_snapshot env x w))) = fst (ee_get_instance env i w)"
    and event_reads: "fst (ee_get_instance env i (snd (ee_append_event env e w))) = fst (ee_get_instance env i w)"
    and publish_reads: "fst (ee_get_instance env i (snd (ee_publish env s d w))) = fst (ee_get_instance env i w)"
    and workflow_reads: "fst (ee_get_instance env i (snd (ee_get_workflow env x' w))) = fst (ee_get_instance env i w)"
    and credential_reads: "ee_credential_for_owner env = Some fetch \<Longrightarrow>
      fst (ee_get_instance env i (snd (fetch c own w))) = fst (ee_get_instance env i w)"
    and sla_failure_reads: "fst (ee_get_instance env i (ee_sla_failure env wid w)) = fst (ee_get_instance env i w)"
    and sla_success_reads: "fst (ee_get_instance env i (ee_sla_success env wid w)) = fst (ee_get_instance env i w)"
    and sla_check_reads: "fst (ee_get_instance env i (snd (ee_sla_check env wid ms w))) = fst (ee_get_instance env i w)"
    and node_metrics_reads: "ee_spawn_node_metrics env = Some spawn1 \<Longrightarrow>
      fst (ee_get_instance env i (spawn1 nm w)) = fst (ee_get_instance env i w)"
    and instance_metrics_reads: "ee_spawn_instance_metrics env = Some spawn2 \<Longrightarrow>
      fst (ee_get_instance env i (spawn2 im w)) = fst (ee_get_instance env i w)"
    and cost_reads: "ee_spawn_cost env = Some spawn3 \<Longrightarrow>
      fst (ee_get_instance env i (spawn3 wid cost w)) = fst (ee_get_instance env i w)"
begin

lemma bump_eq:
  "\<exists>t g'. bump env (inst, g) = (Inr (), inst\<lparr>in_version := in_version inst + 1, in_updated_at := t\<rparr>, g') \<and>
     g' = g\<lparr>eg_world := eg_world g'\<rparr> \<and> stored_at env g' = stored_at env g"
proof -
  obtain t w where n: "ee_now env (eg_world g) = (t, w)" by (cases "ee_now env (eg_world g)")
  have "fst (ee_get_instance env i w) = fst (ee_get_instance env i (eg_world g))" for i
    using now_reads [of i "eg_world g"] n by simp
  with n show ?thesis
    by (auto simp: bump_def nowE_def port_def eng_def portG_def upd_inst_def act_simps stored_at_def fun_eq_iff)
qed

lemma take_snapshot_eq:
  "\<exists>g'. take_snapshot env (inst, g) = (Inr (), inst, g') \<and> g' = g\<lparr>eg_world := eg_world g'\<rparr> \<and> stored_at env g' = stored_at env g"
proof (cases "ee_snapshot_interval env > 0 \<and> in_version inst mod ee_snapshot_interval env = 0")
  case True
  obtain r w where s: "ee_save_snapshot env inst (eg_world g) = (r, w)" by (cases "ee_save_snapshot env inst (eg_world g)")
  have "fst (ee_get_instance env i w) = fst (ee_get_instance env i (eg_world g))" for i
    using snapshot_reads [of i inst "eg_world g"] s by simp
  with s True show ?thesis
    by (auto simp: take_snapshot_def port_def eng_def portG_def get_inst_def act_simps stored_at_def fun_eq_iff)
next
  case False
  then show ?thesis by (auto simp: take_snapshot_def get_inst_def act_simps)
qed

lemma update_eq:
  "port (ee_update_instance env x) (inst, g) =
     (fst (ee_update_instance env x (eg_world g)), inst, g\<lparr>eg_world := snd (ee_update_instance env x (eg_world g))\<rparr>)"
  by (simp add: port_def eng_def portG_def split_beta)

lemma get_eq: "port (ee_get_instance env i) (inst, g) = (stored_at env g i, inst, g)"
  using get_pure [of i "eg_world g"] by (simp add: port_def eng_def portG_def stored_at_def split_beta)

text \<open>One attempt with the version the store expects.\<close>

lemma save_attempt_match:
  assumes "stored_at env g (in_id inst) = Inr old" and "in_version inst = in_version old"
  shows "\<exists>t g'. save_attempt env c (inst, g) =
      (Inr (), inst\<lparr>in_version := in_version inst + 1, in_updated_at := t\<rparr>, g') \<and>
    g' = g\<lparr>eg_world := eg_world g'\<rparr> \<and>
    stored_at env g' = (stored_at env g)(in_id inst := Inr (inst\<lparr>in_version := in_version inst + 1, in_updated_at := t\<rparr>))"
proof -
  obtain t g1 where b: "bump env (inst, g) = (Inr (), inst\<lparr>in_version := in_version inst + 1, in_updated_at := t\<rparr>, g1)"
    "g1 = g\<lparr>eg_world := eg_world g1\<rparr>" "stored_at env g1 = stored_at env g" using bump_eq by blast
  let ?x = "inst\<lparr>in_version := in_version inst + 1, in_updated_at := t\<rparr>"
  let ?g2 = "g1\<lparr>eg_world := snd (ee_update_instance env ?x (eg_world g1))\<rparr>"
  have u: "fst (ee_update_instance env ?x (eg_world g1)) = Inr ()" "stored_at env ?g2 (in_id inst) = Inr ?x"
    using update_match [of ?x "eg_world g1" old] assms b(3) by (simp_all add: stored_at_def fun_eq_iff)
  have o: "stored_at env ?g2 j = stored_at env g j" if "j \<noteq> in_id inst" for j
    using update_other [of j ?x "eg_world g1"] that b(3) by (simp add: stored_at_def fun_eq_iff)
  obtain g3 where g3: "take_snapshot env (?x, ?g2) = (Inr (), ?x, g3)" "g3 = ?g2\<lparr>eg_world := eg_world g3\<rparr>"
    "stored_at env g3 = stored_at env ?g2" using take_snapshot_eq by blast
  have "save_attempt env c (inst, g) = (Inr (), ?x, g3)"
    by (simp add: save_attempt_def act_simps b(1) get_inst_def update_eq u(1) g3(1))
  moreover have "g3 = g\<lparr>eg_world := eg_world g3\<rparr>"
    by (subst g3(2), subst b(2)) simp
  moreover have "stored_at env g3 = (stored_at env g)(in_id inst := Inr ?x)"
    using u(2) o g3(3) by (auto simp: fun_eq_iff)
  ultimately show ?thesis by blast
qed

lemma save_attempt_conflict:
  assumes "stored_at env g (in_id inst) = Inr old" and "in_version inst \<noteq> in_version old"
  shows "\<exists>t g'. save_attempt env c (inst, g) =
      c (inst\<lparr>in_version := in_version inst + 1, in_updated_at := t\<rparr>, g') \<and>
    g' = g\<lparr>eg_world := eg_world g'\<rparr> \<and> stored_at env g' = stored_at env g"
proof -
  obtain t g1 where b: "bump env (inst, g) = (Inr (), inst\<lparr>in_version := in_version inst + 1, in_updated_at := t\<rparr>, g1)"
    "g1 = g\<lparr>eg_world := eg_world g1\<rparr>" "stored_at env g1 = stored_at env g" using bump_eq by blast
  let ?x = "inst\<lparr>in_version := in_version inst + 1, in_updated_at := t\<rparr>"
  have u: "ee_update_instance env ?x (eg_world g1) = (Inl Conflict, eg_world g1)"
    using update_mismatch [of ?x "eg_world g1" old] assms b(3) by (simp add: stored_at_def fun_eq_iff)
  have "save_attempt env c (inst, g) = c (?x, g1)"
    by (simp add: save_attempt_def act_simps b(1) get_inst_def update_eq u)
  with b(2,3) show ?thesis by blast
qed

text \<open>In step with the store: the instance is persisted under the next version.\<close>

lemma save_synced:
  assumes "stored_at env g (in_id inst) = Inr old" and "in_version inst = in_version old"
  shows "\<exists>t g'. save_instance env (inst, g) =
      (Inr (), inst\<lparr>in_version := in_version inst + 1, in_updated_at := t\<rparr>, g') \<and>
    g' = g\<lparr>eg_world := eg_world g'\<rparr> \<and>
    stored_at env g' = (stored_at env g)(in_id inst := Inr (inst\<lparr>in_version := in_version inst + 1, in_updated_at := t\<rparr>))"
proof -
  have "save_instance env = save_attempt env (reread env (save_loop env 2))"
    by (simp add: save_instance_def SAVE_INSTANCE_MAX_RETRIES_def numeral_eq_Suc)
  then show ?thesis using save_attempt_match [OF assms] by simp
qed

text \<open>
  Out of step with the store, with local progress the store lacks: the merged instance is
  persisted under the version after the stored one.
\<close>

lemma save_merges:
  assumes "stored_at env g (in_id inst) = Inr old" and "in_version inst \<noteq> in_version old" and "in_id old = in_id inst"
    and "needs_merge (in_node_states inst) (in_node_states old)"
  shows "\<exists>t t' g'. save_instance env (inst, g) =
      (Inr (), (merge_instance (inst\<lparr>in_updated_at := t\<rparr>) old)\<lparr>in_version := in_version old + 1, in_updated_at := t'\<rparr>, g') \<and>
    g' = g\<lparr>eg_world := eg_world g'\<rparr> \<and>
    stored_at env g' = (stored_at env g)(in_id inst := Inr ((merge_instance (inst\<lparr>in_updated_at := t\<rparr>) old)
      \<lparr>in_version := in_version old + 1, in_updated_at := t'\<rparr>))"
proof -
  let ?c = "reread env (save_loop env 2)"
  have s: "save_instance env = save_attempt env ?c"
    by (simp add: save_instance_def SAVE_INSTANCE_MAX_RETRIES_def numeral_eq_Suc)
  obtain t g1 where c: "save_attempt env ?c (inst, g) = ?c (inst\<lparr>in_version := in_version inst + 1, in_updated_at := t\<rparr>, g1)"
    "g1 = g\<lparr>eg_world := eg_world g1\<rparr>" "stored_at env g1 = stored_at env g" using save_attempt_conflict [OF assms(1,2)] by blast
  let ?m = "merge_instance (inst\<lparr>in_updated_at := t\<rparr>) old"
  have m: "merge_instance (inst\<lparr>in_version := in_version inst + 1, in_updated_at := t\<rparr>) old = ?m"
    by (simp add: merge_instance_def)
  have r: "?c (inst\<lparr>in_version := in_version inst + 1, in_updated_at := t\<rparr>, g1) = save_loop env 2 (?m, g1)"
    using assms(1,4) c(3) by (simp add: reread_def act_simps get_inst_def get_eq upd_inst_def m)
  have "stored_at env g1 (in_id ?m) = Inr old" "in_version ?m = in_version old"
    using assms(1,3) c(3) by simp_all
  from save_attempt_match [OF this, of "reread env (save_loop env 1)"] obtain t' g' where
    f: "save_loop env 2 (?m, g1) = (Inr (), ?m\<lparr>in_version := in_version ?m + 1, in_updated_at := t'\<rparr>, g')"
    "g' = g1\<lparr>eg_world := eg_world g'\<rparr>"
    "stored_at env g' = (stored_at env g1)(in_id ?m := Inr (?m\<lparr>in_version := in_version ?m + 1, in_updated_at := t'\<rparr>))"
    by (auto simp: numeral_eq_Suc)
  have "g' = g\<lparr>eg_world := eg_world g'\<rparr>" by (subst f(2), subst c(2)) simp
  moreover have "save_instance env (inst, g) = (Inr (), ?m\<lparr>in_version := in_version ?m + 1, in_updated_at := t'\<rparr>, g')"
    by (simp add: s c(1) r f(1))
  ultimately show ?thesis using f(3) c(3) assms(3)
    by (metis merge_instance_simps(1) merge_instance_simps(3))
qed

text \<open>
  Out of step with the store, and every local node is there, terminal if it is terminal here:
  success is reported and nothing is persisted.
\<close>

lemma save_drops:
  assumes "stored_at env g (in_id inst) = Inr old" and "in_version inst \<noteq> in_version old"
    and "\<not> needs_merge (in_node_states inst) (in_node_states old)"
  shows "\<exists>t g'. save_instance env (inst, g) =
      (Inr (), inst\<lparr>in_version := in_version inst + 1, in_updated_at := t\<rparr>, g') \<and>
    g' = g\<lparr>eg_world := eg_world g'\<rparr> \<and> stored_at env g' = stored_at env g"
proof -
  let ?c = "reread env (save_loop env 2)"
  have s: "save_instance env = save_attempt env ?c"
    by (simp add: save_instance_def SAVE_INSTANCE_MAX_RETRIES_def numeral_eq_Suc)
  obtain t g1 where c: "save_attempt env ?c (inst, g) = ?c (inst\<lparr>in_version := in_version inst + 1, in_updated_at := t\<rparr>, g1)"
    "g1 = g\<lparr>eg_world := eg_world g1\<rparr>" "stored_at env g1 = stored_at env g" using save_attempt_conflict [OF assms(1,2)] by blast
  have "?c (inst\<lparr>in_version := in_version inst + 1, in_updated_at := t\<rparr>, g1) =
      (Inr (), inst\<lparr>in_version := in_version inst + 1, in_updated_at := t\<rparr>, g1)"
    using assms(1,3) c(3) by (simp add: reread_def act_simps get_inst_def get_eq)
  with c s show ?thesis by metis
qed

end

end
