(* ===== verification/MemWorld.thy ===== *)
theory MemWorld
  imports SaveInstance
begin

text \<open>
  The engine on the in-memory store: the ports of \<open>engine_env\<close> provided by \<open>MemStore\<close>, a bus
  that records what is published (as the program's mock bus does), a ticking clock and
  numbered ids. It provides the contract \<open>engine_store\<close>, and concrete runs use it. A task is
  encoded by its dispatch id, and an expression evaluates to its own text.
\<close>

record mem_world =
  mw_store :: mem_store
  mw_bus :: "(string \<times> string) list"
  mw_clock :: int
  mw_ids :: nat

definition on_store :: "(mem_store, 'a) act \<Rightarrow> (mem_world, 'a) act" where
  "on_store m = (\<lambda>w. case m (mw_store w) of (r, s) \<Rightarrow> (r, w\<lparr>mw_store := s\<rparr>))"

definition mem_env :: "mem_world engine_env" where
  "mem_env =
     \<lparr>ee_pool_name = ''default'', ee_snapshot_interval = 10, ee_budget = None,
      ee_cel = (\<lambda>e _. Inr (JString e)),
      ee_get_workflow = (\<lambda>i. on_store (ms_get_workflow i)),
      ee_create_workflow = (\<lambda>w. on_store (ms_create_workflow w)),
      ee_update_workflow = (\<lambda>w. on_store (ms_update_workflow w)),
      ee_save_workflow_version = (\<lambda>v. on_store (ms_save_workflow_version v)),
      ee_get_instance = (\<lambda>i. on_store (ms_get_instance i)),
      ee_update_instance = (\<lambda>x. on_store (ms_update_instance x)),
      ee_create_instance_tx = (\<lambda>x e. on_store (ms_create_instance_tx x e)),
      ee_list_running = on_store (getsE ms_list_running_instances),
      ee_append_event = (\<lambda>e. on_store (ms_append_event e)),
      ee_save_snapshot = (\<lambda>x. on_store (ms_save_snapshot x)),
      ee_credential_for_owner = Some (\<lambda>i own. on_store (ms_get_credential_for_owner i own)),
      ee_check_budget = None,
      ee_publish = (\<lambda>s d w. (Inr (), w\<lparr>mw_bus := mw_bus w @ [(s, d)]\<rparr>)),
      ee_sla_failure = (\<lambda>_ w. w), ee_sla_success = (\<lambda>_ w. w), ee_sla_check = (\<lambda>_ _ w. (SlaOk, w)),
      ee_spawn_node_metrics = None, ee_spawn_instance_metrics = None, ee_spawn_cost = None,
      ee_now = (\<lambda>w. (mw_clock w, w\<lparr>mw_clock := mw_clock w + 1\<rparr>)),
      ee_uuid = (\<lambda>w. (nat_str (mw_ids w), w\<lparr>mw_ids := mw_ids w + 1\<rparr>)),
      ee_encode_task = (\<lambda>t. Inr (case tm_dispatch_id t of None \<Rightarrow> [] | Some d \<Rightarrow> d)),
      ee_decode_result = (\<lambda>_. Inl ''not a result''),
      ee_encode_workflow = (\<lambda>w. Inr (JString (wf_id w))),
      ee_parse_metrics = (\<lambda>_. None), ee_json_str = (\<lambda>_. []), ee_fmt_f64 = (\<lambda>_ _. []),
      ee_powi = (\<lambda>x _. x), ee_trace_context = fmempty\<rparr>"

definition mem_world_of :: "mem_store \<Rightarrow> mem_world" where
  "mem_world_of s = \<lparr>mw_store = s, mw_bus = [], mw_clock = 0, mw_ids = 0\<rparr>"

lemma on_store_simps [simp]:
  "fst (on_store m w) = fst (m (mw_store w))"
  "snd (on_store m w) = w\<lparr>mw_store := snd (m (mw_store w))\<rparr>"
  by (simp_all add: on_store_def split_beta)

lemma mem_env_simps [simp]:
  "ee_get_instance mem_env i = on_store (ms_get_instance i)"
  "ee_update_instance mem_env x = on_store (ms_update_instance x)"
  "ee_append_event mem_env e = on_store (ms_append_event e)"
  "ee_save_snapshot mem_env x = on_store (ms_save_snapshot x)"
  "ee_publish mem_env s d w = (Inr (), w\<lparr>mw_bus := mw_bus w @ [(s, d)]\<rparr>)"
  "ee_now mem_env w = (mw_clock w, w\<lparr>mw_clock := mw_clock w + 1\<rparr>)"
  "ee_get_workflow mem_env i = on_store (ms_get_workflow i)"
  by (simp_all add: mem_env_def)

lemma ms_get_instance_fst [simp]:
  "fst (ms_get_instance i s) = (case fmlookup (ms_instances s) i of None \<Rightarrow> Inl NotFound | Some x \<Rightarrow> Inr x)"
  "snd (ms_get_instance i s) = s"
  by (simp_all add: ms_get_instance_def split: option.split)

lemma ms_reads_pure [simp]:
  "snd (ms_get_workflow i s) = s" "snd (ms_get_credential_for_owner i own s) = s"
  by (simp_all add: ms_get_workflow_def ms_get_credential_for_owner_def split: option.split)

interpretation mem_engine: engine_store mem_env
proof unfold_locales
  fix i :: string and w :: mem_world
  show "snd (ee_get_instance mem_env i w) = w" by simp
next
  fix x old :: wf_instance and w
  assume "fst (ee_get_instance mem_env (in_id x) w) = Inr old" and "in_version x = in_version old + 1"
  then show "fst (ee_update_instance mem_env x w) = Inr () \<and>
      fst (ee_get_instance mem_env (in_id x) (snd (ee_update_instance mem_env x w))) = Inr x"
    by (auto simp: ms_update_instance_def split: option.splits)
next
  fix x old :: wf_instance and w
  assume "fst (ee_get_instance mem_env (in_id x) w) = Inr old" and "in_version x \<noteq> in_version old + 1"
  then show "ee_update_instance mem_env x w = (Inl Conflict, w)"
    by (intro prod_eqI) (auto simp: ms_update_instance_def split: option.splits)
next
  fix x :: wf_instance and e w
  assume "fst (ee_get_instance mem_env (in_id x) w) = Inl e"
  then have "ee_update_instance mem_env x w = (Inl NotFound, w)"
    by (intro prod_eqI) (auto simp: ms_update_instance_def split: option.splits)
  then show "\<exists>e'. ee_update_instance mem_env x w = (Inl e', w)" by blast
next
  fix j and x :: wf_instance and w
  assume "j \<noteq> in_id x"
  then show "fst (ee_get_instance mem_env j (snd (ee_update_instance mem_env x w))) = fst (ee_get_instance mem_env j w)"
    by (auto simp: ms_update_instance_def split: option.splits)
qed (auto simp: mem_env_def ms_save_snapshot_def ms_append_event_def)

section \<open>What saving achieves\<close>

text \<open>
  C12. Saving an instance of a store that answers as promised always succeeds, and does one of
  three things. With the stored version in hand, the instance is persisted under the next
  version. With another version and local progress the store lacks (a node it does not have,
  or one that is terminal only here), the merge of the two is persisted under the version after
  the stored one. With another version and no such progress, nothing is persisted, although
  success is reported: a node that was just queued, or a saga that was just started, is then
  not in the store.
\<close>

theorem save_instance_effect:
  assumes "engine_store env" and "stored_at env g (in_id inst) = Inr old" and "in_id old = in_id inst"
  shows "\<exists>t t' inst' g'. save_instance env (inst, g) = (Inr (), inst', g') \<and>
    stored_at env g' = (stored_at env g)(in_id inst := Inr
      (if in_version inst = in_version old then inst\<lparr>in_version := in_version inst + 1, in_updated_at := t\<rparr>
       else if needs_merge (in_node_states inst) (in_node_states old)
       then (merge_instance (inst\<lparr>in_updated_at := t\<rparr>) old)\<lparr>in_version := in_version old + 1, in_updated_at := t'\<rparr>
       else old))"
proof (cases "in_version inst = in_version old")
  case True
  from engine_store.save_synced [OF assms(1,2) True] obtain t g' where
    "save_instance env (inst, g) = (Inr (), inst\<lparr>in_version := in_version inst + 1, in_updated_at := t\<rparr>, g')"
    "stored_at env g' = (stored_at env g)(in_id inst := Inr (inst\<lparr>in_version := in_version inst + 1, in_updated_at := t\<rparr>))"
    by blast
  with True show ?thesis by (intro exI [of _ t] exI) simp
next
  case v: False
  show ?thesis
  proof (cases "needs_merge (in_node_states inst) (in_node_states old)")
    case True
    from engine_store.save_merges [OF assms(1,2) v assms(3) True] obtain t t' g' where
      "save_instance env (inst, g) = (Inr (), (merge_instance (inst\<lparr>in_updated_at := t\<rparr>) old)
         \<lparr>in_version := in_version old + 1, in_updated_at := t'\<rparr>, g')"
      "stored_at env g' = (stored_at env g)(in_id inst := Inr ((merge_instance (inst\<lparr>in_updated_at := t\<rparr>) old)
         \<lparr>in_version := in_version old + 1, in_updated_at := t'\<rparr>))" by blast
    with v True show ?thesis by (intro exI [of _ t] exI [of _ t'] exI) simp
  next
    case False
    from engine_store.save_drops [OF assms(1,2) v False] obtain t g' where
      "save_instance env (inst, g) = (Inr (), inst\<lparr>in_version := in_version inst + 1, in_updated_at := t\<rparr>, g')"
      "stored_at env g' = stored_at env g" by blast
    with v False assms(2) show ?thesis
      by (intro exI [of _ t] exI [of _ "inst\<lparr>in_version := in_version inst + 1, in_updated_at := t\<rparr>"] exI [of _ g'])
         (simp add: fun_upd_idem)
  qed
qed

text \<open>A store with one instance.\<close>

definition holding :: "wf_instance \<Rightarrow> mem_world engine" where
  "holding inst = engine_new (mem_world_of (mem_store_new\<lparr>ms_instances := fmupd (in_id inst) inst fmempty\<rparr>))"

lemma stored_holding [simp]: "stored_at mem_env (holding inst) (in_id inst) = Inr inst"
  by (simp add: stored_at_def holding_def engine_new_def mem_world_of_def)

theorem save_instance_effect_witness:
  "\<exists>t t' inst' g'. save_instance mem_env
     (sample_instance [(''a'', NQueued)], holding (sample_instance [(''a'', NPending)])) = (Inr (), inst', g') \<and>
   stored_at mem_env g' = (stored_at mem_env (holding (sample_instance [(''a'', NPending)])))
     (''inst-1'' := Inr ((sample_instance [(''a'', NQueued)])\<lparr>in_version := 2, in_updated_at := t\<rparr>))"
  using save_instance_effect [OF mem_engine.engine_store_axioms, of "holding (sample_instance [(''a'', NPending)])"
      "sample_instance [(''a'', NQueued)]" "sample_instance [(''a'', NPending)]"]
    stored_holding [of "sample_instance [(''a'', NPending)]"]
  by (simp add: sample_instance_def)

end
