(* ===== verification/Frame.thy ===== *)
theory Frame
  imports Resolve MemWorld
begin

text \<open>
  Frame conditions: what a part of a handler leaves alone. \<open>quiet\<close> relates two handler states
  that differ in the outside world only, and there not in what is stored of the instances. It
  is reflexive and transitive, so it is closed under the combinators (\<open>preorder_rel\<close>).
\<close>

definition quiet :: "'w engine_env \<Rightarrow> wf_instance \<times> 'w engine \<Rightarrow> wf_instance \<times> 'w engine \<Rightarrow> bool" where
  "quiet env s s' \<longleftrightarrow> fst s' = fst s \<and> stored_at env (snd s') = stored_at env (snd s) \<and>
     snd s' = (snd s)\<lparr>eg_world := eg_world (snd s')\<rparr>"

interpretation quiet: preorder_rel "quiet env" for env :: "'w engine_env"
proof unfold_locales
  fix s show "quiet env s s" by (simp add: quiet_def)
next
  fix s t u :: "wf_instance \<times> 'w engine"
  assume "quiet env s t" and "quiet env t u"
  then have st: "snd t = (snd s)\<lparr>eg_world := eg_world (snd t)\<rparr>"
    and tu: "snd u = (snd t)\<lparr>eg_world := eg_world (snd u)\<rparr>"
    and r: "fst u = fst s" "stored_at env (snd u) = stored_at env (snd s)"
    by (simp_all add: quiet_def)
  have "snd u = (snd s)\<lparr>eg_world := eg_world (snd u)\<rparr>"
    by (subst tu, subst st) simp
  with r show "quiet env s u" by (simp add: quiet_def)
qed

text \<open>In step with the store: the stored version is the one in hand.\<close>

definition synced :: "'w engine_env \<Rightarrow> wf_instance \<times> 'w engine \<Rightarrow> bool" where
  "synced env s \<longleftrightarrow> (\<exists>old. stored_at env (snd s) (in_id (fst s)) = Inr old \<and> in_version old = in_version (fst s))"

lemma quiet_synced: "quiet env s s' \<Longrightarrow> synced env s \<Longrightarrow> synced env s'"
  by (simp add: quiet_def synced_def)

lemma quiet_run:
  assumes "keeps (quiet env) m"
  shows "\<exists>r g'. m (inst, g) = (r, inst, g') \<and> quiet env (inst, g) (inst, g')"
proof -
  obtain r i g' where m: "m (inst, g) = (r, i, g')" by (cases "m (inst, g)") auto
  from keepsD [OF assms m] have "quiet env (inst, g) (i, g')" .
  with m show ?thesis by (auto simp: quiet_def)
qed

lemma quiet_get_inst: "keeps (quiet env) get_inst"
  unfolding get_inst_def by (rule quiet.keeps_getsE)

lemma quiet_portI:
  assumes "\<And>i w. fst (ee_get_instance env i (snd (m w))) = fst (ee_get_instance env i w)"
  shows "keeps (quiet env) (port m)"
  using assms by (auto simp: keeps_def quiet_def port_def eng_def portG_def stored_at_def fun_eq_iff split_beta)

context engine_store
begin

lemma quiet_now: "keeps (quiet env) (nowE env)"
  unfolding nowE_def by (rule quiet_portI) (simp add: now_reads split_beta)

lemma quiet_base_at: "keeps (quiet env) (base_at env k)"
  unfolding base_at_def by (intro quiet.keeps_bindE quiet_get_inst quiet_now quiet.keeps_ret)

lemma quiet_append_event: "keeps (quiet env) (append_event env k ev)"
  unfolding append_event_def by (intro quiet.keeps_bindE quiet_base_at quiet_portI) (rule event_reads)

lemma quiet_log_event: "keeps (quiet env) (log_event env k ev)"
  unfolding log_event_def by (intro quiet.keeps_logE quiet_append_event)

lemma quiet_workflow: "keeps (quiet env) (port (ee_get_workflow env i))"
  by (rule quiet_portI) (rule workflow_reads)

lemma quiet_publish: "keeps (quiet env) (port (ee_publish env s d))"
  by (rule quiet_portI) (rule publish_reads)

text \<open>Computations of the bare world that keep what is stored: the credential look-ups.\<close>

definition silent :: "'w \<Rightarrow> 'w \<Rightarrow> bool" where
  "silent w w' \<longleftrightarrow> (\<forall>i. fst (ee_get_instance env i w') = fst (ee_get_instance env i w))"

lemma silent_resolve_all:
  assumes "ee_credential_for_owner env = Some fetch"
  shows "silent w (snd (resolve_all fetch oid is acc w))"
proof (induction "is" arbitrary: acc w)
  case Nil
  then show ?case by (simp add: silent_def ret_def)
next
  case (Cons i js)
  have one: "silent w (snd (resolve_credential fetch oid i acc w))" for acc w
    using credential_reads [OF assms]
    by (auto simp: silent_def resolve_credential_def act_simps split_beta split: sum.split)
  obtain r w' where s: "resolve_credential fetch oid i acc w = (r, w')"
    by (cases "resolve_credential fetch oid i acc w")
  from one [of w acc] s have "silent w w'" by simp
  with Cons.IH [of w'] show ?case
    by (cases r) (simp_all add: bindE_def s silent_def)
qed

lemma quiet_credentials:
  "keeps (quiet env) (port (resolve_credentials_deduped (ee_credential_for_owner env) config params owner))"
proof (rule quiet_portI)
  fix i w
  show "fst (ee_get_instance env i (snd (resolve_credentials_deduped (ee_credential_for_owner env) config params owner w))) =
      fst (ee_get_instance env i w)"
    using silent_resolve_all
    by (auto simp: resolve_credentials_deduped_def Let_def ret_def raise_def silent_def split: option.split)
qed

lemma now_run: "\<exists>t g'. nowE env (inst, g) = (Inr t, inst, g') \<and> quiet env (inst, g) (inst, g')"
proof -
  from quiet_run [OF quiet_now] obtain r g' where
    n: "nowE env (inst, g) = (r, inst, g')" "quiet env (inst, g) (inst, g')" by blast
  moreover from n(1) have "\<exists>t. r = Inr t"
    by (auto simp: nowE_def port_def eng_def portG_def split_beta)
  ultimately show ?thesis by blast
qed

lemma log_event_run: "\<exists>g'. log_event env k ev (inst, g) = (Inr (), inst, g') \<and> quiet env (inst, g) (inst, g')"
proof -
  from quiet_run [OF quiet_log_event] obtain r g' where
    n: "log_event env k ev (inst, g) = (r, inst, g')" "quiet env (inst, g) (inst, g')" by blast
  moreover from n(1) have "r = Inr ()" by (simp add: log_event_def logE_def)
  ultimately show ?thesis by blast
qed

text \<open>Saving in step with the store.\<close>

lemma save_run:
  assumes "synced env (inst, g)"
  shows "\<exists>t g'. save_instance env (inst, g) = (Inr (), inst\<lparr>in_version := in_version inst + 1, in_updated_at := t\<rparr>, g') \<and>
    stored_at env g' = (stored_at env g)(in_id inst := Inr (inst\<lparr>in_version := in_version inst + 1, in_updated_at := t\<rparr>)) \<and>
    g' = g\<lparr>eg_world := eg_world g'\<rparr>"
proof -
  from assms obtain old where "stored_at env g (in_id inst) = Inr old" "in_version inst = in_version old"
    by (auto simp: synced_def)
  from save_synced [OF this] show ?thesis by blast
qed

end

lemma upd_inst_run [simp]: "upd_inst f (inst, g) = (Inr (), f inst, g)"
  by (simp add: upd_inst_def modifyE_def)

lemma get_inst_run [simp]: "get_inst (inst, g) = (Inr inst, inst, g)"
  by (simp add: get_inst_def getsE_def)

lemma bindE_Inr: "m s = (Inr x, s') \<Longrightarrow> bindE m f s = f x s'"
  by (simp add: bindE_def)

lemma bindE_Inl: "m s = (Inl e, s') \<Longrightarrow> bindE m f s = (Inl e, s')"
  by (simp add: bindE_def)

lemma seqE_Inr: "m s = (Inr x, s') \<Longrightarrow> seqE m n s = n s'"
  by (simp add: seqE_def bindE_def)

lemmas bind_now = bindE_Inr [where m = "nowE env" for env]
lemmas bind_port = bindE_Inr [where m = "port m" for m]
lemmas bind_port_Inl = bindE_Inl [where m = "port m" for m]
lemmas seq_log = seqE_Inr [where m = "log_event env k ev" for env k ev]
lemmas seq_save = seqE_Inr [where m = "save_instance env" for env]

lemma bindE_get_inst [simp]: "bindE get_inst f (inst, g) = f inst (inst, g)"
  by (simp add: bindE_def)

lemma seqE_upd_inst [simp]: "seqE (upd_inst f) m (inst, g) = m (f inst, g)"
  by (simp add: seqE_def bindE_def)

lemma bindE_liftR_Inr [simp]: "bindE (liftR (Inr x)) f = f x"
  by (simp add: bindE_def liftR_def fun_eq_iff)

lemma bindE_liftR_Inl [simp]: "bindE (liftR (Inl e)) f = raise e"
  by (simp add: bindE_def liftR_def raise_def fun_eq_iff)

lemma ret_run [simp]: "ret x s = (Inr x, s)"
  by (simp add: ret_def)

lemma raise_run [simp]: "raise e s = (Inl e, s)"
  by (simp add: raise_def)

end
