(* ===== verification/Saga.thy ===== *)
theory Saga
  imports Frame
begin

text \<open>
  Saga compensation, \<open>crates/orbflow-engine/src/saga.rs\<close>: after a failure the completed nodes
  that declare a compensation are undone in reverse topological order, one task at a time, each
  step saved before the next task is sent.
\<close>

definition touch :: "'w engine_env \<Rightarrow> ('w, unit) handler" where
  "touch env = bindE (nowE env) (\<lambda>t. upd_inst (\<lambda>i. i\<lparr>in_updated_at := t\<rparr>))"

definition compensation_task_node_id :: "string \<Rightarrow> string" where
  "compensation_task_node_id i = ''_compensate_'' @ i"

definition orig_node_id :: "result_message \<Rightarrow> string" where
  "orig_node_id r = (case strip_prefix ''_compensate_'' (rm_node_id r) of None \<Rightarrow> rm_node_id r | Some i \<Rightarrow> i)"

definition saga_failed_node :: "wf_instance \<Rightarrow> string" where
  "saga_failed_node inst = (case Option.bind (in_saga inst) sg_failed_node of None \<Rightarrow> ''unknown'' | Some n \<Rightarrow> n)"

definition end_compensation :: "wf_instance \<Rightarrow> wf_instance" where
  "end_compensation i =
     i\<lparr>in_saga := map_option (\<lambda>s. s\<lparr>sg_compensating := False\<rparr>) (in_saga i), in_status := IFailed\<rparr>"

definition finalize_compensation :: "'w engine_env \<Rightarrow> ('w, unit) handler" where
  "finalize_compensation env =
     bindE get_inst (\<lambda>inst.
     let failed_node = saga_failed_node inst in
     seqE (upd_inst end_compensation)
     (seqE (touch env)
     (seqE (log_event env 0 EvCompensationCompleted)
           (log_event env 0 (\<lambda>b. EvInstanceFailed b
              (''node '' @ failed_node @ '' failed; compensation completed''))))))"

definition fail_compensation :: "'w engine_env \<Rightarrow> string \<Rightarrow> string \<Rightarrow> ('w, unit) handler" where
  "fail_compensation env original_node_id error_msg =
     bindE get_inst (\<lambda>inst.
     let failed_node = saga_failed_node inst in
     seqE (upd_inst end_compensation)
     (seqE (touch env)
           (log_event env 0 (\<lambda>b. EvInstanceFailed b
              (''node '' @ failed_node @ '' failed; compensation for node '' @ original_node_id @
               '' failed: '' @ error_msg)))))"

definition compensation_task :: "wf_instance \<Rightarrow> string \<Rightarrow> compensate_config \<Rightarrow> jmap \<Rightarrow> task_message" where
  "compensation_task inst node_id compensate input =
     \<lparr>tm_instance_id = in_id inst, tm_node_id = compensation_task_node_id node_id,
      tm_dispatch_id = Some (dispatch_identity (in_id inst) (compensation_task_node_id node_id) 1),
      tm_plugin_ref = cc_plugin_ref compensate, tm_config = None, tm_input = Some input,
      tm_parameters = None, tm_capabilities = None, tm_attempt = 1, tm_trace_context = None,
      tm_v = WIRE_VERSION\<rparr>"

definition dispatch_compensation :: "'w engine_env \<Rightarrow> workflow \<Rightarrow> string \<Rightarrow> ('w, unit) handler" where
  "dispatch_compensation env w node_id =
     (case node_by_id w node_id of
        None \<Rightarrow> ret ()
      | Some node \<Rightarrow>
          (case n_compensate node of
             None \<Rightarrow> ret ()
           | Some compensate \<Rightarrow>
               bindE get_inst (\<lambda>inst.
               bindE (liftR (resolve_input_mapping (ee_cel env) (cc_input_mapping compensate) (in_context inst))) (\<lambda>input.
               case ee_encode_task env (compensation_task inst node_id compensate input) of
                 Inl e \<Rightarrow> raise (Internal (''marshal compensation task: '' @ e))
               | Inr data \<Rightarrow> port (ee_publish env (task_subject (ee_pool_name env)) data)))))"

definition pending_compensations :: "saga_state \<Rightarrow> string list" where
  "pending_compensations sg = filter (\<lambda>i. i \<notin> set (sg_compensated_nodes sg)) (sg_completed_nodes sg)"

definition dispatch_pending_compensations :: "'w engine_env \<Rightarrow> workflow \<Rightarrow> ('w, unit) handler" where
  "dispatch_pending_compensations env w =
     bindE get_inst (\<lambda>inst.
       case in_saga inst of
         None \<Rightarrow> ret ()
       | Some sg \<Rightarrow>
           if \<not> sg_compensating sg then ret ()
           else (case pending_compensations sg of
                   [] \<Rightarrow> finalize_compensation env
                 | node_id # _ \<Rightarrow> logE (dispatch_compensation env w node_id)))"

text \<open>\<open>topological_order\<close> never fails (\<open>Topo\<close>); a failure would be an empty plan.\<close>

definition to_compensate :: "workflow \<Rightarrow> wf_instance \<Rightarrow> string list" where
  "to_compensate w inst =
     rev (filter (\<lambda>i. status_of (in_node_states inst) i = Some NCompleted \<and>
                      (case node_by_id w i of None \<Rightarrow> False | Some n \<Rightarrow> n_compensate n \<noteq> None))
            (case topological_order w of None \<Rightarrow> [] | Some order \<Rightarrow> order))"

definition start_compensation :: "'w engine_env \<Rightarrow> workflow \<Rightarrow> string \<Rightarrow> ('w, unit) handler" where
  "start_compensation env w failed_node_id =
     bindE get_inst (\<lambda>inst.
     let plan = to_compensate w inst in
     seqE (upd_inst (\<lambda>i. i\<lparr>in_status := IRunning,
             in_saga := Some \<lparr>sg_compensating = True, sg_completed_nodes = plan,
               sg_compensated_nodes = [], sg_failed_node = Some failed_node_id\<rparr>\<rparr>))
     (seqE (log_event env 0 (\<lambda>b. EvCompensationStarted b failed_node_id))
     (if plan = [] then seqE (finalize_compensation env) (save_instance env)
      else seqE (save_instance env) (dispatch_pending_compensations env w))))"

definition resume_compensation :: "'w engine_env \<Rightarrow> workflow \<Rightarrow> ('w, unit) handler" where
  "resume_compensation env w = seqE (dispatch_pending_compensations env w) (save_instance env)"

text \<open>The bookkeeping of a successful compensation task.\<close>

definition note_compensated :: "result_message \<Rightarrow> saga_state \<Rightarrow> saga_state result" where
  "note_compensated r sg =
     (let i = orig_node_id r in
      if i \<notin> set (sg_completed_nodes sg)
      then Inl (Bus (''compensation result for node '' @ rm_node_id r @ '' was not dispatched''))
      else if i \<in> set (sg_compensated_nodes sg)
      then Inl (Bus (''duplicate compensation result for node '' @ rm_node_id r))
      else Inr (sg\<lparr>sg_compensated_nodes := sg_compensated_nodes sg @ [i]\<rparr>))"

definition all_compensated :: "saga_state \<Rightarrow> bool" where
  "all_compensated sg = (sg_completed_nodes sg \<noteq> [] \<and>
     length (sg_compensated_nodes sg) = length (sg_completed_nodes sg) \<and>
     list_all (\<lambda>n. n \<in> set (sg_completed_nodes sg)) (sg_compensated_nodes sg))"

definition no_active_saga :: "result_message \<Rightarrow> orbflow_error" where
  "no_active_saga r = Bus (''compensation result for node '' @ rm_node_id r @ '' received without active saga'')"

definition active_saga :: "result_message \<Rightarrow> wf_instance \<Rightarrow> saga_state result" where
  "active_saga r inst = (case in_saga inst of
       Some sg \<Rightarrow> if sg_compensating sg then Inr sg else Inl (no_active_saga r)
     | None \<Rightarrow> Inl (no_active_saga r))"

definition handle_compensation_result :: "'w engine_env \<Rightarrow> result_message \<Rightarrow> ('w, unit) handler" where
  "handle_compensation_result env r =
     (case rm_error r of
        Some error_msg \<Rightarrow> seqE (fail_compensation env (orig_node_id r) error_msg) (save_instance env)
      | None \<Rightarrow>
          bindE get_inst (\<lambda>inst.
          bindE (liftR (active_saga r inst)) (\<lambda>sg.
          bindE (liftR (note_compensated r sg)) (\<lambda>sg'.
          seqE (upd_inst (\<lambda>i. i\<lparr>in_saga := Some sg'\<rparr>))
          (seqE (touch env)
          (if all_compensated sg' then seqE (finalize_compensation env) (save_instance env)
           else seqE (save_instance env)
             (bindE (port (ee_get_workflow env (in_workflow_id inst))) (dispatch_pending_compensations env))))))))"

section \<open>The plan\<close>

lemma set_to_compensate:
  assumes "topological_order w = Some order"
  shows "set (to_compensate w inst) =
    {i \<in> set order. status_of (in_node_states inst) i = Some NCompleted \<and>
       (\<exists>n. node_by_id w i = Some n \<and> n_compensate n \<noteq> None)}"
  using assms by (auto simp: to_compensate_def split: option.splits)

lemma distinct_to_compensate:
  assumes "topological_order w = Some order" and "distinct order"
  shows "distinct (to_compensate w inst)"
  using assms by (simp add: to_compensate_def)

section \<open>Bookkeeping\<close>

definition saga_ok :: "saga_state \<Rightarrow> bool" where
  "saga_ok sg \<longleftrightarrow> distinct (sg_completed_nodes sg) \<and> distinct (sg_compensated_nodes sg) \<and>
     set (sg_compensated_nodes sg) \<subseteq> set (sg_completed_nodes sg)"

lemma note_compensated_Inr:
  "note_compensated r sg = Inr sg' \<longleftrightarrow>
     orig_node_id r \<in> set (pending_compensations sg) \<and>
     sg' = sg\<lparr>sg_compensated_nodes := sg_compensated_nodes sg @ [orig_node_id r]\<rparr>"
  by (auto simp: note_compensated_def Let_def pending_compensations_def)

lemma saga_ok_note: "saga_ok sg \<Longrightarrow> note_compensated r sg = Inr sg' \<Longrightarrow> saga_ok sg'"
  by (auto simp: note_compensated_Inr saga_ok_def pending_compensations_def)

text \<open>Everything is compensated exactly when nothing is pending.\<close>

lemma all_compensated_iff:
  assumes "saga_ok sg" and "sg_completed_nodes sg \<noteq> []"
  shows "all_compensated sg \<longleftrightarrow> pending_compensations sg = []"
proof -
  have s: "set (sg_compensated_nodes sg) \<subseteq> set (sg_completed_nodes sg)"
    and d: "card (set (sg_compensated_nodes sg)) = length (sg_compensated_nodes sg)"
      "card (set (sg_completed_nodes sg)) = length (sg_completed_nodes sg)"
    using assms(1) by (simp_all add: saga_ok_def distinct_card)
  have "length (sg_compensated_nodes sg) = length (sg_completed_nodes sg) \<longleftrightarrow>
      set (sg_completed_nodes sg) \<subseteq> set (sg_compensated_nodes sg)"
    using s d by (metis List.finite_set card_subset_eq order_refl subset_antisym)
  then show ?thesis
    using assms(2) s by (auto simp: all_compensated_def list_all_iff pending_compensations_def filter_empty_conv)
qed

end
