(* ===== verification/Dispatch.thy ===== *)
theory Dispatch
  imports Saga
begin

text \<open>
  Dispatching nodes, \<open>crates/orbflow-engine/src/engine.rs\<close>: the approval gate, the task message
  and its persistence before it is published, the treatment of a dispatch that fails, the
  capability nodes, the triggers and the first nodes of a run.
\<close>

definition fm_alter :: "'k \<Rightarrow> ('v \<Rightarrow> 'v) \<Rightarrow> ('k, 'v) fmap \<Rightarrow> ('k, 'v) fmap" where
  "fm_alter k f m = (case fmlookup m k of None \<Rightarrow> m | Some v \<Rightarrow> fmupd k (f v) m)"

definition upd_node :: "string \<Rightarrow> (node_state \<Rightarrow> node_state) \<Rightarrow> ('w, unit) handler" where
  "upd_node i f = upd_inst (\<lambda>inst. inst\<lparr>in_node_states := fm_alter i f (in_node_states inst)\<rparr>)"

definition get_node :: "string \<Rightarrow> orbflow_error \<Rightarrow> ('w, node_state) handler" where
  "get_node i e = bindE get_inst (\<lambda>inst.
     case fmlookup (in_node_states inst) i of None \<Rightarrow> raise e | Some ns \<Rightarrow> ret ns)"

section \<open>One node\<close>

definition resolve_node_input :: "'w engine_env \<Rightarrow> wf_node \<Rightarrow> ('w, jmap) handler" where
  "resolve_node_input env node = bindE get_inst (\<lambda>inst.
     liftR (resolve_input_mapping (ee_cel env) (n_input_mapping node) (in_context inst)))"

definition pause_for_approval :: "'w engine_env \<Rightarrow> wf_node \<Rightarrow> ('w, unit) handler" where
  "pause_for_approval env node =
     bindE (nowE env) (\<lambda>now.
     seqE (upd_node (n_id node) (\<lambda>ns. ns\<lparr>st_status := NWaitingApproval, st_started_at := Some now\<rparr>))
     (bindE (resolve_node_input env node) (\<lambda>input.
     seqE (upd_node (n_id node) (\<lambda>ns. ns\<lparr>st_input := Some input\<rparr>))
          (log_event env 0 (\<lambda>b. EvNodeApprovalRequested b (n_id node) None)))))"

text \<open>The message before credentials are resolved.\<close>

definition task_for :: "wf_instance \<Rightarrow> wf_node \<Rightarrow> int \<Rightarrow> jmap \<Rightarrow> jmap option \<Rightarrow> task_message" where
  "task_for inst node attempt input params =
     \<lparr>tm_instance_id = in_id inst, tm_node_id = n_id node,
      tm_dispatch_id = Some (dispatch_identity (in_id inst) (n_id node) attempt),
      tm_plugin_ref = n_plugin_ref node, tm_config = n_config node, tm_input = Some input,
      tm_parameters = params, tm_capabilities = None, tm_attempt = attempt,
      tm_trace_context = None, tm_v = WIRE_VERSION\<rparr>"

definition node_parameters :: "'w engine_env \<Rightarrow> wf_node \<Rightarrow> execution_context \<Rightarrow> jmap option" where
  "node_parameters env node ec =
     (if n_parameters node = [] then None else Some (resolve_parameters (ee_cel env) (n_parameters node) ec))"

text \<open>What is put on the bus: secrets redacted, capabilities and trace context added.\<close>

definition wire_task :: "'w engine_env \<Rightarrow> workflow \<Rightarrow> wf_node \<Rightarrow> execution_context \<Rightarrow> resolved_creds \<Rightarrow> task_message \<Rightarrow> task_message" where
  "wire_task env w node ec creds task =
     task\<lparr>tm_config := map_option (\<lambda>m. redact_wire creds (inject_credential creds m)) (tm_config task),
          tm_parameters := map_option (\<lambda>m. redact_wire creds (inject_credential creds m)) (tm_parameters task),
          tm_capabilities :=
            (if n_capability_ports node \<noteq> [] then resolve_capability_edges_from_context ec w node
             else tm_capabilities task),
          tm_trace_context :=
            (if ee_trace_context env = fmempty then tm_trace_context task else Some (ee_trace_context env))\<rparr>"

definition publish_task :: "'w engine_env \<Rightarrow> task_message \<Rightarrow> ('w, unit) handler" where
  "publish_task env task =
     (case ee_encode_task env task of
        Inl e \<Rightarrow> raise (Internal (''marshal task: '' @ e))
      | Inr data \<Rightarrow> port (ee_publish env (task_subject (ee_pool_name env)) data))"

definition send_node :: "'w engine_env \<Rightarrow> workflow \<Rightarrow> wf_node \<Rightarrow> ('w, unit) handler" where
  "send_node env w node =
     bindE (nowE env) (\<lambda>now.
     seqE (upd_node (n_id node) (\<lambda>ns. ns\<lparr>st_status := NQueued, st_started_at := Some now,
             st_attempt := (if st_attempt ns = 0 then 1 else st_attempt ns)\<rparr>))
     (bindE (resolve_node_input env node) (\<lambda>input.
     seqE (upd_node (n_id node) (\<lambda>ns. ns\<lparr>st_input := Some input\<rparr>))
     (seqE (log_event env 0 (\<lambda>b. EvNodeQueued b (n_id node)))
     (bindE get_inst (\<lambda>inst.
     bindE (get_node (n_id node) (Internal (''node state not found: '' @ n_id node))) (\<lambda>ns.
     let params = node_parameters env node (in_context inst);
         task = task_for inst node (st_attempt ns) input params in
     bindE (port (resolve_credentials_deduped (ee_credential_for_owner env) (n_config node) params
              (in_owner_id inst))) (\<lambda>creds.
     seqE (upd_node (n_id node) (\<lambda>ns. ns\<lparr>st_parameters :=
             map_option (\<lambda>m. redact_display creds (inject_credential creds m)) params\<rparr>))
     (seqE (save_instance env)
           (publish_task env (wire_task env w node (in_context inst) creds task)))))))))))"

definition dispatch_node :: "'w engine_env \<Rightarrow> workflow \<Rightarrow> wf_node \<Rightarrow> ('w, unit) handler" where
  "dispatch_node env w node =
     bindE (get_node (n_id node) (Internal (''node state not found: '' @ n_id node))) (\<lambda>ns.
       if n_requires_approval node \<and> st_status ns \<noteq> NQueued then pause_for_approval env node
       else send_node env w node)"

section \<open>Failed dispatches\<close>

definition mark_node_dispatch_failed :: "'w engine_env \<Rightarrow> string \<Rightarrow> orbflow_error \<Rightarrow> ('w, unit) handler" where
  "mark_node_dispatch_failed env node_id e =
     bindE (nowE env) (\<lambda>now.
     let error_msg = error_str e in
     seqE (upd_node node_id (\<lambda>ns. ns\<lparr>st_status := NFailed, st_error := Some error_msg,
             st_started_at := Some now, st_ended_at := Some now\<rparr>))
     (seqE (upd_inst (\<lambda>i. i\<lparr>in_status := IFailed, in_updated_at := now\<rparr>))
     (bindE get_inst (\<lambda>inst.
     seqE (world (ee_sla_failure env (in_workflow_id inst)))
     (seqE (append_event env 0 (\<lambda>b. EvNodeFailed b node_id error_msg))
     (seqE (upd_inst (\<lambda>i. i\<lparr>in_version := in_version i + 1\<rparr>))
           (append_event env 0 (\<lambda>b. EvInstanceFailed b
              (''node '' @ node_id @ '' failed to dispatch: '' @ error_msg)))))))))"

definition cascade_terminal_skips :: "'w engine_env \<Rightarrow> workflow \<Rightarrow> ('w, unit) handler" where
  "cascade_terminal_skips env w = upd_inst (\<lambda>i. snd (find_ready_nodes (ee_cel env) w i))"

definition has_compensation :: "workflow \<Rightarrow> wf_instance \<Rightarrow> bool" where
  "has_compensation w inst =
     fm_any (\<lambda>ns. st_status ns = NCompleted \<and>
         (case node_by_id w (st_node_id ns) of None \<Rightarrow> False | Some n \<Rightarrow> n_compensate n \<noteq> None))
       (in_node_states inst)"

definition handle_node_dispatch_error ::
  "'w engine_env \<Rightarrow> workflow \<Rightarrow> string \<Rightarrow> orbflow_error \<Rightarrow> ('w, unit) handler" where
  "handle_node_dispatch_error env w node_id e =
     seqE (mark_node_dispatch_failed env node_id e)
     (bindE get_inst (\<lambda>inst.
        if has_compensation w inst then start_compensation env w node_id
        else cascade_terminal_skips env w))"

section \<open>Capabilities, triggers, first nodes\<close>

definition run_capability :: "'w engine_env \<Rightarrow> wf_node \<Rightarrow> ('w, unit) handler" where
  "run_capability env cn =
     bindE (getsE (\<lambda>(inst, g). (inst, fmlookup (eg_nodes g) (n_plugin_ref cn)))) (\<lambda>(inst, found).
     case found of
       None \<Rightarrow> raise NodeNotFound
     | Some executor \<Rightarrow>
         (let params = node_parameters env cn (in_context inst) in
          bindE (port (resolve_credentials_deduped (ee_credential_for_owner env) (n_config cn) params
                   (in_owner_id inst))) (\<lambda>creds.
          bindE (resolve_node_input env cn) (\<lambda>input.
          let params' = map_option (inject_credential creds) params in
          bindE (port (executor
            \<lparr>ni_instance_id = in_id inst, ni_node_id = n_id cn, ni_plugin_ref = n_plugin_ref cn,
             ni_config = map_option (inject_credential creds) (n_config cn), ni_input = Some input,
             ni_parameters = params', ni_capabilities = None, ni_attempt = 1\<rparr>)) (\<lambda>output.
          case no_error output of
            Some err \<Rightarrow> raise (Internal (''capability node '' @ n_id cn @ '' error: '' @ err))
          | None \<Rightarrow>
              bindE (nowE env) (\<lambda>now.
              seqE (upd_node (n_id cn) (\<lambda>ns. ns\<lparr>st_status := NCompleted, st_output := no_data output,
                      st_started_at := Some now, st_ended_at := Some now,
                      st_parameters := map_option (redact_display creds) params'\<rparr>))
                (case no_data output of
                   None \<Rightarrow> ret ()
                 | Some data \<Rightarrow> upd_inst (\<lambda>i. i\<lparr>in_context := (in_context i)
                     \<lparr>cx_node_outputs := fmupd (n_id cn) data (cx_node_outputs (in_context i))\<rparr>\<rparr>))))))))"

definition resolve_capabilities :: "'w engine_env \<Rightarrow> workflow \<Rightarrow> ('w, unit) handler" where
  "resolve_capabilities env w = forE (capability_nodes w) (run_capability env)"

definition fired_node :: "jmap \<Rightarrow> json option" where
  "fired_node input = (case fmlookup input ''_fired_trigger_node_id'' of
       Some v \<Rightarrow> Some v | None \<Rightarrow> fmlookup input ''_trigger_node_id'')"

definition trigger_of_type :: "string \<Rightarrow> wf_node \<Rightarrow> bool" where
  "trigger_of_type normalized node = (case n_trigger_config node of
       None \<Rightarrow> False | Some cfg \<Rightarrow> trigger_type_str (tn_trigger_type cfg) = normalized)"

definition triggers_by_type :: "wf_node list \<Rightarrow> jmap \<Rightarrow> wf_node list" where
  "triggers_by_type trigs input =
     (case fmlookup input ''_trigger_type'' of
        Some (JString t) \<Rightarrow>
          if blank t then trigs
          else
            let normalized = (if t = ''cron'' then ''schedule'' else t);
                matching = filter (trigger_of_type normalized) trigs in
            if matching \<noteq> [] then matching else trigs
      | _ \<Rightarrow> trigs)"

definition trigger_nodes_to_complete :: "workflow \<Rightarrow> jmap \<Rightarrow> wf_node list result" where
  "trigger_nodes_to_complete w input =
     (let trigs = trigger_nodes w in
      if trigs = [] then Inr []
      else case fired_node input of
        Some (JString node_id) \<Rightarrow>
          if blank node_id then Inr (triggers_by_type trigs input)
          else
            let matching = filter (\<lambda>n. n_id n = node_id) trigs in
            if matching = []
            then Inl (InvalidNodeConfig (''fired trigger node '' @ quoted node_id @
              '' is not a trigger in workflow '' @ wf_id w))
            else Inr matching
      | _ \<Rightarrow> Inr (triggers_by_type trigs input))"

definition complete_trigger :: "jmap \<Rightarrow> int \<Rightarrow> wf_node \<Rightarrow> wf_instance \<Rightarrow> wf_instance" where
  "complete_trigger input now tn i =
     i\<lparr>in_node_states := fm_alter (n_id tn) (\<lambda>ns. ns\<lparr>st_status := NCompleted, st_output := Some input,
         st_started_at := Some now, st_ended_at := Some now\<rparr>) (in_node_states i),
       in_context := (in_context i)\<lparr>cx_node_outputs := fmupd (n_id tn) input (cx_node_outputs (in_context i))\<rparr>\<rparr>"

definition mark_triggers_completed :: "'w engine_env \<Rightarrow> workflow \<Rightarrow> jmap \<Rightarrow> ('w, bool) handler" where
  "mark_triggers_completed env w input =
     bindE (liftR (trigger_nodes_to_complete w input)) (\<lambda>trigs.
     if trigs = [] then ret False
     else bindE (nowE env) (\<lambda>now.
       seqE (upd_inst (fold (complete_trigger input now) trigs)) (ret True)))"

text \<open>
  A loop over nodes to dispatch. The first dispatch that fails is treated by \<open>on_error\<close> and ends
  the loop; the result tells whether all were dispatched.
\<close>

fun dispatch_each ::
  "'w engine_env \<Rightarrow> workflow \<Rightarrow> (string \<Rightarrow> orbflow_error \<Rightarrow> ('w, unit) handler) \<Rightarrow> wf_node list \<Rightarrow> ('w, bool) handler" where
  "dispatch_each env w on_error [] = ret True"
| "dispatch_each env w on_error (n # ns) =
     tryE (dispatch_node env w n) (\<lambda>r.
       case r of
         Inl e \<Rightarrow> seqE (on_error (n_id n) e) (ret False)
       | Inr _ \<Rightarrow> dispatch_each env w on_error ns)"

text \<open>The nodes of the ids that \<open>find_ready_nodes\<close> reports, which also cascades the skips.\<close>

definition ready_nodes :: "'w engine_env \<Rightarrow> workflow \<Rightarrow> ('w, wf_node list) handler" where
  "ready_nodes env w =
     bindE get_inst (\<lambda>inst.
     case find_ready_nodes (ee_cel env) w inst of
       (ids, inst') \<Rightarrow> seqE (upd_inst (\<lambda>_. inst')) (ret (List.map_filter (node_by_id w) ids)))"

definition dispatch_initial_nodes :: "'w engine_env \<Rightarrow> workflow \<Rightarrow> bool \<Rightarrow> ('w, unit) handler" where
  "dispatch_initial_nodes env w has_triggers =
     bindE (dispatch_each env w (handle_node_dispatch_error env w)
        (filter (\<lambda>n. n_kind n \<noteq> KTrigger) (entry_nodes w))) (\<lambda>ok.
     if \<not> ok then ret ()
     else if \<not> has_triggers then ret ()
     else bindE (ready_nodes env w) (\<lambda>ready.
       seqE (dispatch_each env w (handle_node_dispatch_error env w) ready) (ret ())))"

section \<open>Node updates\<close>

lemma fm_alter_lookup:
  "fmlookup (fm_alter k f m) j = (if j = k then map_option f (fmlookup m k) else fmlookup m j)"
  by (simp add: fm_alter_def split: option.split)

lemma upd_node_run [simp]:
  "upd_node i f (inst, g) = (Inr (), inst\<lparr>in_node_states := fm_alter i f (in_node_states inst)\<rparr>, g)"
  by (simp add: upd_node_def)

lemma seqE_upd_node [simp]:
  "seqE (upd_node i f) m (inst, g) = m (inst\<lparr>in_node_states := fm_alter i f (in_node_states inst)\<rparr>, g)"
  by (simp add: upd_node_def)

lemma get_node_run: "fmlookup (in_node_states inst) i = Some ns \<Longrightarrow> get_node i e (inst, g) = (Inr ns, inst, g)"
  by (simp add: get_node_def)

lemma get_node_missing: "fmlookup (in_node_states inst) i = None \<Longrightarrow> get_node i e (inst, g) = (Inl e, inst, g)"
  by (simp add: get_node_def)

lemma bindE_get_node:
  "bindE (get_node i e) f (inst, g) =
     (case fmlookup (in_node_states inst) i of None \<Rightarrow> (Inl e, inst, g) | Some ns \<Rightarrow> f ns (inst, g))"
  by (simp add: bindE_def get_node_def split: option.split)

lemma bindE_resolve_node_input:
  "bindE (resolve_node_input env node) f (inst, g) =
     (case resolve_input_mapping (ee_cel env) (n_input_mapping node) (in_context inst) of
        Inl e \<Rightarrow> (Inl e, inst, g) | Inr input \<Rightarrow> f input (inst, g))"
  by (simp add: bindE_def resolve_node_input_def liftR_def split: sum.split)

section \<open>The approval gate\<close>

definition gated :: "wf_node \<Rightarrow> wf_instance \<Rightarrow> bool" where
  "gated node inst \<longleftrightarrow> n_requires_approval node \<and> status_of (in_node_states inst) (n_id node) \<noteq> Some NQueued"

lemma dispatch_gated:
  assumes "gated node inst" and "fmlookup (in_node_states inst) (n_id node) = Some ns"
  shows "dispatch_node env w node (inst, g) = pause_for_approval env node (inst, g)"
  using assms by (simp add: dispatch_node_def bindE_get_node gated_def status_of_def)

text \<open>
The approval gate. A node that requires approval and is not queued is not sent: dispatching
  it leaves it waiting for approval with its input resolved, changes no other node and no
  version, and touches nothing outside but the clock and the event log: an observation
  \<open>obs\<close> of the world that those two do not affect (the messages on the bus, the stored
  instances) is what it was, so nothing is published and nothing persisted.
\<close>

theorem approval_gate:
  assumes "gated node inst"
    and "\<And>w. obs (snd (ee_now env w)) = obs w"
    and "\<And>e w. obs (snd (ee_append_event env e w)) = obs w"
    and "dispatch_node env w node (inst, g) = (Inr (), inst', g')"
  shows "status_of (in_node_states inst') (n_id node) = Some NWaitingApproval \<and>
    (\<forall>i. i \<noteq> n_id node \<longrightarrow> fmlookup (in_node_states inst') i = fmlookup (in_node_states inst) i) \<and>
    in_version inst' = in_version inst \<and> obs (eg_world g') = obs (eg_world g)"
proof -
  obtain ns where ns: "fmlookup (in_node_states inst) (n_id node) = Some ns"
    using assms(4) by (cases "fmlookup (in_node_states inst) (n_id node)")
      (simp_all add: dispatch_node_def bindE_get_node)
  have o: "obs (eg_world (snd (snd (log_event env 0 ev (i, h))))) = obs (eg_world h) \<and>
      fst (snd (log_event env 0 ev (i, h))) = i" for ev i h
    using assms(2,3) by (simp add: log_event_def append_event_def base_at_def act_simps get_inst_def nowE_def
        port_def eng_def portG_def split_beta)
  have "pause_for_approval env node (inst, g) = (Inr (), inst', g')"
    using assms(4) dispatch_gated [OF assms(1) ns, of env w g] by simp
  then obtain t g1 input where n: "nowE env (inst, g) = (Inr t, inst, g1)" "obs (eg_world g1) = obs (eg_world g)"
    and l: "log_event env 0 (\<lambda>b. EvNodeApprovalRequested b (n_id node) None)
      (inst\<lparr>in_node_states := fm_alter (n_id node) (\<lambda>ns. ns\<lparr>st_input := Some input\<rparr>)
        (fm_alter (n_id node) (\<lambda>ns. ns\<lparr>st_status := NWaitingApproval, st_started_at := Some t\<rparr>)
          (in_node_states inst))\<rparr>, g1) = (Inr (), inst', g')"
    using assms(2) by (auto simp: pause_for_approval_def bindE_Inr_iff nowE_def port_def eng_def portG_def
        split_beta bindE_resolve_node_input split: sum.splits)
  let ?inst2 = "inst\<lparr>in_node_states := fm_alter (n_id node) (\<lambda>ns. ns\<lparr>st_input := Some input\<rparr>)
        (fm_alter (n_id node) (\<lambda>ns. ns\<lparr>st_status := NWaitingApproval, st_started_at := Some t\<rparr>)
          (in_node_states inst))\<rparr>"
  have "inst' = ?inst2" "obs (eg_world g') = obs (eg_world g1)"
    using o [of "\<lambda>b. EvNodeApprovalRequested b (n_id node) None" ?inst2 g1] l by simp_all
  with n(2) ns show ?thesis by (simp add: fm_alter_lookup status_of_def)
qed

text \<open>The sample node \<open>a\<close>, guarded by an approval.\<close>

definition guarded_node :: wf_node where
  "guarded_node = (sample_node KAction ''a'')\<lparr>n_requires_approval := True\<rparr>"

lemma guarded_node_simps [simp]:
  "n_id guarded_node = ''a''" "n_requires_approval guarded_node" "n_input_mapping guarded_node = None"
  by (simp_all add: guarded_node_def)

lemma sample_lookup:
  "fmlookup (in_node_states (sample_instance sts)) i = map_option (sample_state i) (map_of sts i)"
proof -
  have "map_of (map (\<lambda>(i, s). (i, sample_state i s)) sts) i = map_option (sample_state i) (map_of sts i)"
    by (induction sts) auto
  then show ?thesis by (simp add: sample_instance_def fmlookup_of_list)
qed

lemma sample_instance_simps [simp]:
  "in_id (sample_instance sts) = ''inst-1''" "in_workflow_id (sample_instance sts) = ''wf-1''"
  "in_status (sample_instance sts) = IRunning" "in_saga (sample_instance sts) = None"
  "in_version (sample_instance sts) = 1" "in_owner_id (sample_instance sts) = None"
  by (simp_all add: sample_instance_def)

lemma mem_dispatch_guarded:
  "fst (dispatch_node mem_env diamond guarded_node (sample_instance [(''a'', NPending)], g)) = Inr ()"
proof -
  obtain t g1 where n: "nowE mem_env (sample_instance [(''a'', NPending)], g) = (Inr t, sample_instance [(''a'', NPending)], g1)"
    using mem_engine.now_run by blast
  show ?thesis
    by (simp add: dispatch_node_def bindE_get_node sample_lookup sample_state_def pause_for_approval_def
        bind_now [OF n] bindE_resolve_node_input resolve_input_mapping_def log_event_def logE_def)
qed

theorem approval_gate_witness:
  "status_of (in_node_states (fst (snd (dispatch_node mem_env diamond guarded_node
     (sample_instance [(''a'', NPending)], holding (sample_instance [(''a'', NPending)])))))) ''a'' =
     Some NWaitingApproval \<and>
   mw_bus (eg_world (snd (snd (dispatch_node mem_env diamond guarded_node
     (sample_instance [(''a'', NPending)], holding (sample_instance [(''a'', NPending)])))))) = []"
proof -
  let ?i = "sample_instance [(''a'', NPending)]"
  obtain r i' g' where d: "dispatch_node mem_env diamond guarded_node (?i, holding ?i) = (r, i', g')"
    by (cases "dispatch_node mem_env diamond guarded_node (?i, holding ?i)") auto
  with mem_dispatch_guarded [of "holding ?i"] have "r = Inr ()" by simp
  moreover have "gated guarded_node ?i" by (simp add: gated_def)
  ultimately show ?thesis
    using approval_gate [of guarded_node ?i mw_bus mem_env diamond "holding ?i" i' g'] d
    by (simp add: holding_def engine_new_def mem_world_of_def)
qed

section \<open>Persisted, then published\<close>

lemma publish_task_Inr:
  assumes "publish_task env task (inst, g) = (Inr (), inst', g')"
  shows "\<exists>data. ee_encode_task env task = Inr data \<and> inst' = inst \<and>
    ee_publish env (task_subject (ee_pool_name env)) data (eg_world g) = (Inr (), eg_world g')"
  using assms by (auto simp: publish_task_def port_def eng_def portG_def prod_eq_iff split_beta split: sum.splits)

context engine_store
begin

lemma send_run:
  assumes "synced env (inst, g)" and "fmlookup (in_node_states inst) (n_id node) = Some ns0"
    and "send_node env w node (inst, g) = (Inr (), inst', g')"
  shows "\<exists>ns task data g1. stored_at env g1 (in_id inst) = Inr inst' \<and>
    fmlookup (in_node_states inst') (n_id node) = Some ns \<and> st_status ns = NQueued \<and>
    st_attempt ns = (if st_attempt ns0 = 0 then 1 else st_attempt ns0) \<and>
    tm_instance_id task = in_id inst \<and> tm_node_id task = n_id node \<and> tm_attempt task = st_attempt ns \<and> tm_v task = WIRE_VERSION \<and>
    tm_dispatch_id task = Some (dispatch_identity (in_id inst) (n_id node) (st_attempt ns)) \<and>
    ee_encode_task env task = Inr data \<and>
    ee_publish env (task_subject (ee_pool_name env)) data (eg_world g1) = (Inr (), eg_world g') \<and>
    (\<forall>i. i \<noteq> n_id node \<longrightarrow> fmlookup (in_node_states inst') i = fmlookup (in_node_states inst) i) \<and>
    in_version inst' = in_version inst + 1"
proof -
  let ?i = "n_id node"
  obtain t g1 where n: "nowE env (inst, g) = (Inr t, inst, g1)" "quiet env (inst, g) (inst, g1)"
    using now_run by blast
  let ?f = "\<lambda>ns. ns\<lparr>st_status := NQueued, st_started_at := Some t,
     st_attempt := (if st_attempt ns = 0 then 1 else st_attempt ns)\<rparr>"
  obtain input where inp: "resolve_input_mapping (ee_cel env) (n_input_mapping node) (in_context inst) = Inr input"
    using assms(3) by (auto simp: send_node_def bind_now [OF n(1)] bindE_resolve_node_input split: sum.splits)
  let ?m2 = "fm_alter ?i (\<lambda>ns. ns\<lparr>st_input := Some input\<rparr>) (fm_alter ?i ?f (in_node_states inst))"
  let ?inst2 = "inst\<lparr>in_node_states := ?m2\<rparr>"
  obtain g2 where l: "log_event env 0 (\<lambda>b. EvNodeQueued b ?i) (?inst2, g1) = (Inr (), ?inst2, g2)"
    "quiet env (?inst2, g1) (?inst2, g2)" using log_event_run by blast
  let ?params = "node_parameters env node (in_context inst)"
  let ?a = "if st_attempt ns0 = 0 then 1 else st_attempt ns0"
  let ?task = "task_for ?inst2 node ?a input ?params"
  have ns2: "fmlookup (in_node_states ?inst2) ?i = Some ((?f ns0)\<lparr>st_input := Some input\<rparr>)"
    using assms(2) by (simp add: fm_alter_lookup)
  obtain r g3 where c: "port (resolve_credentials_deduped (ee_credential_for_owner env) (n_config node) ?params
      (in_owner_id inst)) (?inst2, g2) = (r, ?inst2, g3)" "quiet env (?inst2, g2) (?inst2, g3)"
    using quiet_run [OF quiet_credentials] by blast
  have tail: "send_node env w node (inst, g) =
      bindE (port (resolve_credentials_deduped (ee_credential_for_owner env) (n_config node) ?params (in_owner_id inst)))
        (\<lambda>creds. seqE (upd_node ?i (\<lambda>ns. ns\<lparr>st_parameters :=
             map_option (\<lambda>m. redact_display creds (inject_credential creds m)) ?params\<rparr>))
           (seqE (save_instance env) (publish_task env (wire_task env w node (in_context inst) creds ?task)))) (?inst2, g2)"
    using ns2 by (simp add: send_node_def bind_now [OF n(1)] bindE_resolve_node_input inp seq_log [OF l(1)]
        bindE_get_node Let_def split del: if_split)
  obtain creds where cr: "r = Inr creds"
  proof (cases r)
    case (Inl a)
    have "send_node env w node (inst, g) = (Inl a, ?inst2, g3)"
      unfolding tail by (rule bind_port_Inl [OF c(1) [unfolded Inl]])
    with assms(3) show thesis by simp
  qed (use that in blast)
  let ?inst3 = "inst\<lparr>in_node_states := fm_alter ?i (\<lambda>ns. ns\<lparr>st_parameters :=
      map_option (\<lambda>m. redact_display creds (inject_credential creds m)) ?params\<rparr>) ?m2\<rparr>"
  have st: "stored_at env g3 = stored_at env g" using n(2) l(2) c(2) by (simp add: quiet_def)
  then have sy: "synced env (?inst3, g3)" using assms(1) by (simp add: synced_def)
  obtain t2 g4 where
    s0: "save_instance env (?inst3, g3) = (Inr (), ?inst3\<lparr>in_version := in_version ?inst3 + 1, in_updated_at := t2\<rparr>, g4)"
    "stored_at env g4 = (stored_at env g3)(in_id ?inst3 := Inr (?inst3\<lparr>in_version := in_version ?inst3 + 1, in_updated_at := t2\<rparr>))"
    using save_run [OF sy] by blast
  have s: "save_instance env (?inst3, g3) = (Inr (), ?inst3\<lparr>in_version := in_version inst + 1, in_updated_at := t2\<rparr>, g4)"
    "stored_at env g4 (in_id inst) = Inr (?inst3\<lparr>in_version := in_version inst + 1, in_updated_at := t2\<rparr>)"
    using s0 by simp_all
  let ?inst4 = "?inst3\<lparr>in_version := in_version inst + 1, in_updated_at := t2\<rparr>"
  have p: "publish_task env (wire_task env w node (in_context inst) creds ?task) (?inst4, g4) = (Inr (), inst', g')"
    using assms(3) c(1) cr unfolding tail by (simp add: bind_port [OF c(1) [unfolded cr]] seq_save [OF s(1)])
  from publish_task_Inr [OF p] obtain data where
    d: "ee_encode_task env (wire_task env w node (in_context inst) creds ?task) = Inr data"
    and e: "inst' = ?inst4"
      "ee_publish env (task_subject (ee_pool_name env)) data (eg_world g4) = (Inr (), eg_world g')" by blast
  show ?thesis
    by (rule exI [of _ "((?f ns0)\<lparr>st_input := Some input\<rparr>)\<lparr>st_parameters :=
         map_option (\<lambda>m. redact_display creds (inject_credential creds m)) ?params\<rparr>"],
        rule exI [of _ "wire_task env w node (in_context inst) creds ?task"], rule exI [of _ data], rule exI [of _ g4])
       (use s(2) assms(2) d e in \<open>simp add: fm_alter_lookup wire_task_def task_for_def\<close>)
qed

end

lemma ungated_dispatch:
  assumes "engine_store env" and "synced env (inst, g)" and "\<not> gated node inst"
    and "dispatch_node env w node (inst, g) = (Inr (), inst', g')"
  shows "\<exists>ns task data g1. stored_at env g1 (in_id inst) = Inr inst' \<and>
    fmlookup (in_node_states inst') (n_id node) = Some ns \<and> st_status ns = NQueued \<and> st_attempt ns \<noteq> 0 \<and>
    tm_instance_id task = in_id inst \<and> tm_node_id task = n_id node \<and> tm_attempt task = st_attempt ns \<and>
    tm_v task = WIRE_VERSION \<and> tm_dispatch_id task = Some (dispatch_identity (in_id inst) (n_id node) (st_attempt ns)) \<and>
    ee_encode_task env task = Inr data \<and>
    ee_publish env (task_subject (ee_pool_name env)) data (eg_world g1) = (Inr (), eg_world g')"
proof -
  obtain ns where ns: "fmlookup (in_node_states inst) (n_id node) = Some ns"
    using assms(4) by (cases "fmlookup (in_node_states inst) (n_id node)")
      (simp_all add: dispatch_node_def bindE_get_node)
  have "send_node env w node (inst, g) = (Inr (), inst', g')"
    using assms(3,4) ns by (auto simp: dispatch_node_def bindE_get_node gated_def status_of_def)
  from engine_store.send_run [OF assms(1,2) ns this] obtain ns' task data g1 where
    s: "stored_at env g1 (in_id inst) = Inr inst'" "fmlookup (in_node_states inst') (n_id node) = Some ns'"
      "st_status ns' = NQueued" "tm_instance_id task = in_id inst" "tm_node_id task = n_id node"
      "tm_attempt task = st_attempt ns'" "tm_v task = WIRE_VERSION"
      "tm_dispatch_id task = Some (dispatch_identity (in_id inst) (n_id node) (st_attempt ns'))"
      "ee_encode_task env task = Inr data"
      "ee_publish env (task_subject (ee_pool_name env)) data (eg_world g1) = (Inr (), eg_world g')"
    and a: "st_attempt ns' = (if st_attempt ns = 0 then 1 else st_attempt ns)" by blast
  from a have "st_attempt ns' \<noteq> 0" by simp
  with s show ?thesis by blast
qed

text \<open>
  C11. Persisted before published. When the instance at hand is in step with the store and a
  dispatch that is not gated by an approval succeeds, the task was
  published in a world whose store already held the instance with the node queued under the
  attempt and dispatch id of the task, so a worker's answer, however fast, meets its dispatch.
\<close>

theorem dispatch_persists_first:
  assumes "engine_store env" and "synced env (inst, g)" and "\<not> gated node inst"
    and "dispatch_node env w node (inst, g) = (Inr (), inst', g')"
  shows "\<exists>ns task data g1. stored_at env g1 (in_id inst) = Inr inst' \<and>
    fmlookup (in_node_states inst') (n_id node) = Some ns \<and> st_status ns = NQueued \<and> st_attempt ns \<noteq> 0 \<and>
    tm_instance_id task = in_id inst \<and> tm_node_id task = n_id node \<and> tm_attempt task = st_attempt ns \<and>
    tm_dispatch_id task = Some (dispatch_identity (in_id inst) (n_id node) (st_attempt ns)) \<and>
    ee_encode_task env task = Inr data \<and>
    ee_publish env (task_subject (ee_pool_name env)) data (eg_world g1) = (Inr (), eg_world g')"
  using ungated_dispatch [OF assms] by blast

lemma mem_dispatch_sample:
  "\<exists>inst' g'. dispatch_node mem_env diamond (sample_node KAction ''a'')
     (sample_instance [(''a'', NPending)], holding (sample_instance [(''a'', NPending)])) = (Inr (), inst', g')"
proof -
  let ?i = "sample_instance [(''a'', NPending)]"
  have "fst (dispatch_node mem_env diamond (sample_node KAction ''a'') (?i, holding ?i)) = Inr ()"
    by code_simp
  then show ?thesis by (cases "dispatch_node mem_env diamond (sample_node KAction ''a'') (?i, holding ?i)") auto
qed

lemma synced_holding: "synced mem_env (inst, holding inst)"
  by (simp add: synced_def)

theorem dispatch_persists_first_witness:
  "\<exists>inst' g' ns (task :: task_message) g1. dispatch_node mem_env diamond (sample_node KAction ''a'')
     (sample_instance [(''a'', NPending)], holding (sample_instance [(''a'', NPending)])) = (Inr (), inst', g') \<and>
   stored_at mem_env g1 ''inst-1'' = Inr inst' \<and> fmlookup (in_node_states inst') ''a'' = Some ns \<and>
   st_status ns = NQueued \<and> tm_attempt task = st_attempt ns"
proof -
  let ?i = "sample_instance [(''a'', NPending)]"
  obtain inst' g' where d: "dispatch_node mem_env diamond (sample_node KAction ''a'') (?i, holding ?i) = (Inr (), inst', g')"
    using mem_dispatch_sample by blast
  have "\<not> gated (sample_node KAction ''a'') ?i" by (simp add: gated_def)
  from dispatch_persists_first [OF mem_engine.engine_store_axioms synced_holding this d] obtain ns and task :: task_message and g1 where
    "stored_at mem_env g1 ''inst-1'' = Inr inst'" "fmlookup (in_node_states inst') ''a'' = Some ns"
    "st_status ns = NQueued" "tm_attempt task = st_attempt ns"
    by (simp only: sample_instance_simps sample_node_simps) blast
  with d show ?thesis by blast
qed

end
