(* ===== verification/ResultFlow.thy ===== *)
theory ResultFlow
  imports Dispatch
begin

text \<open>
  Results of nodes, \<open>crates/orbflow-engine/src/engine.rs\<close>: the checks that a result answers the
  current dispatch, retries, failures with or without compensation, completions with metering
  and budget, the advance of the DAG, and the entry points with deduplication.

  The OpenTelemetry counters are not modelled (they are written, never read). The writes to the
  metrics and budget stores are the spawned effects of \<open>engine_env\<close>.
\<close>

section \<open>Retry delays\<close>

text \<open>\<open>powi\<close> is the standard library's, whose rounding is unspecified.\<close>

definition retry_delay :: "(f64 \<Rightarrow> int \<Rightarrow> f64) \<Rightarrow> retry_policy \<Rightarrow> int \<Rightarrow> int" where
  "retry_delay pow_i retry failed_attempt =
     (if rp_delay retry = 0 then 0
      else
        let exponent = max (failed_attempt - 1) (- (2 ^ 31));
            m = rp_multiplier retry;
            multiplier = (if f64_lt F_NegInf m \<and> f64_lt m F_PosInf \<and> f64_lt (F 0) m then m else F 1) in
        f64_to_int 0 U64_MAX (f64_clamp (F 0) (f64_of_rat (of_int U64_MAX))
          (f64_round (f64_mul (f64_of_rat (of_nat (rp_delay retry))) (pow_i multiplier exponent)))))"

section \<open>Does a result answer the current dispatch?\<close>

definition is_expected_compensation_result :: "wf_instance \<Rightarrow> result_message \<Rightarrow> bool" where
  "is_expected_compensation_result inst r =
     (case strip_prefix ''_compensate_'' (rm_node_id r) of
        None \<Rightarrow> False
      | Some i \<Rightarrow>
          (case in_saga inst of
             None \<Rightarrow> False
           | Some sg \<Rightarrow> sg_compensating sg \<and> list_ex (\<lambda>n. n = i) (sg_completed_nodes sg)))"

definition validate_dispatch_identity :: "result_message \<Rightarrow> int \<Rightarrow> unit result" where
  "validate_dispatch_identity r expected_attempt =
     (if rm_dispatch_id r = None \<and> rm_v r = 1 \<and> rm_result_id r = None \<and> expected_attempt = 1 \<and>
         (rm_attempt r = 0 \<or> rm_attempt r = 1)
      then Inr ()
      else if rm_attempt r \<noteq> expected_attempt
      then Inl (Bus (''stale result for node '' @ rm_node_id r @ '': attempt '' @ int_str (rm_attempt r) @
             '' does not match expected attempt '' @ int_str expected_attempt))
      else
        let expected = dispatch_identity (rm_instance_id r) (rm_node_id r) expected_attempt in
        (case rm_dispatch_id r of
           Some d \<Rightarrow>
             if d = expected then Inr ()
             else Inl (Bus (''stale result for node '' @ rm_node_id r @ '': dispatch_id '' @ d @
                    '' does not match expected '' @ expected))
         | None \<Rightarrow> Inl (Bus (''result for node '' @ rm_node_id r @ '' is missing dispatch_id''))))"

definition node_status_debug :: "node_status \<Rightarrow> string" where
  "node_status_debug s = (case s of
       NPending \<Rightarrow> ''Pending'' | NQueued \<Rightarrow> ''Queued'' | NRunning \<Rightarrow> ''Running''
     | NCompleted \<Rightarrow> ''Completed'' | NFailed \<Rightarrow> ''Failed'' | NSkipped \<Rightarrow> ''Skipped''
     | NCancelled \<Rightarrow> ''Cancelled'' | NWaitingApproval \<Rightarrow> ''WaitingApproval'')"

definition validate_node_result_identity :: "wf_instance \<Rightarrow> result_message \<Rightarrow> unit result" where
  "validate_node_result_identity inst r =
     (case fmlookup (in_node_states inst) (rm_node_id r) of
        None \<Rightarrow> Inl (Internal (''unknown node '' @ rm_node_id r @ '' in instance '' @ in_id inst))
      | Some ns \<Rightarrow>
          if st_status ns \<noteq> NQueued \<and> st_status ns \<noteq> NRunning
          then Inl (Bus (''stale result for node '' @ rm_node_id r @ '': node status is '' @
                 node_status_debug (st_status ns)))
          else validate_dispatch_identity r (st_attempt ns))"

definition validate_compensation_result_identity :: "wf_instance \<Rightarrow> result_message \<Rightarrow> unit result" where
  "validate_compensation_result_identity inst r =
     bindR (validate_dispatch_identity r 1) (\<lambda>_.
       let i = orig_node_id r in
       case in_saga inst of
         None \<Rightarrow> Inl (no_active_saga r)
       | Some sg \<Rightarrow>
           if \<not> sg_compensating sg
           then Inl (Bus (''compensation result for node '' @ rm_node_id r @
                  '' received after compensation finished''))
           else if i \<notin> set (sg_completed_nodes sg)
           then Inl (Bus (''compensation result for node '' @ rm_node_id r @ '' was not dispatched''))
           else if i \<in> set (sg_compensated_nodes sg)
           then Inl (Bus (''duplicate compensation result for node '' @ rm_node_id r))
           else Inr ())"

section \<open>Metrics\<close>

definition plugin_of :: "workflow \<Rightarrow> string \<Rightarrow> string" where
  "plugin_of w i = (case node_by_id w i of None \<Rightarrow> ''unknown'' | Some n \<Rightarrow> n_plugin_ref n)"

definition node_record ::
  "wf_instance \<Rightarrow> workflow \<Rightarrow> string \<Rightarrow> string \<Rightarrow> node_metrics option \<Rightarrow> int \<Rightarrow> int \<Rightarrow> int \<Rightarrow> node_execution_metrics" where
  "node_record inst w node_id status wm started ended attempt =
     \<lparr>ne_instance_id = in_id inst, ne_workflow_id = in_workflow_id inst, ne_node_id = node_id,
      ne_plugin_ref = plugin_of w node_id, ne_status = status, ne_duration_ms = ended - started,
      ne_started_at = started, ne_completed_at = ended, ne_attempt = attempt,
      ne_tokens = Option.bind wm (\<lambda>m. map_option tk_total_tokens (nm_tokens m)),
      ne_cost_usd_scaled = Option.bind wm (\<lambda>m.
        if f64_lt (F 0) (nm_cost_usd m)
        then Some (f64_to_int (- (2 ^ 63)) (2 ^ 63 - 1) (f64_mul (nm_cost_usd m) (F 10000)))
        else None)\<rparr>"

definition spawn_node_metrics ::
  "'w engine_env \<Rightarrow> workflow \<Rightarrow> string \<Rightarrow> string \<Rightarrow> node_metrics option \<Rightarrow> ('w, unit) handler" where
  "spawn_node_metrics env w node_id status wm =
     bindE get_inst (\<lambda>inst.
       case fmlookup (in_node_states inst) node_id of
         None \<Rightarrow> ret ()
       | Some ns \<Rightarrow>
           (case (st_started_at ns, st_ended_at ns, ee_spawn_node_metrics env) of
              (Some started, Some ended, Some spawn) \<Rightarrow>
                world (spawn (node_record inst w node_id status wm started ended (st_attempt ns)))
            | _ \<Rightarrow> ret ()))"

definition node_durations :: "wf_instance \<Rightarrow> (string, int) fmap" where
  "node_durations inst =
     fmmap_keys (\<lambda>_ ns. the (st_ended_at ns) - the (st_started_at ns))
       (fmfilter (\<lambda>i. case fmlookup (in_node_states inst) i of
            None \<Rightarrow> False | Some ns \<Rightarrow> st_started_at ns \<noteq> None \<and> st_ended_at ns \<noteq> None)
          (in_node_states inst))"

definition instance_record :: "wf_instance \<Rightarrow> string \<Rightarrow> int \<Rightarrow> int \<Rightarrow> instance_execution_metrics" where
  "instance_record inst status duration_ms now =
     \<lparr>ie_instance_id = in_id inst, ie_workflow_id = in_workflow_id inst, ie_status = status,
      ie_duration_ms = duration_ms, ie_node_count = int (length (fm_items (in_node_states inst))),
      ie_failed_node_count =
        int (length (filter (\<lambda>ns. st_status ns = NFailed) (fm_values (in_node_states inst)))),
      ie_started_at = in_created_at inst, ie_completed_at = now, ie_node_durations = node_durations inst\<rparr>"

definition spawn_instance_metrics :: "'w engine_env \<Rightarrow> string \<Rightarrow> int \<Rightarrow> ('w, unit) handler" where
  "spawn_instance_metrics env status duration_ms =
     (case ee_spawn_instance_metrics env of
        None \<Rightarrow> ret ()
      | Some spawn \<Rightarrow>
          bindE (nowE env) (\<lambda>now.
          bindE get_inst (\<lambda>inst. world (spawn (instance_record inst status duration_ms now)))))"

definition total_cost :: "wf_instance \<Rightarrow> f64" where
  "total_cost inst =
     fold (\<lambda>ns acc. case Option.bind (Option.bind (st_output ns) (\<lambda>m. fmlookup m ''cost_usd'')) json_as_f64 of
              None \<Rightarrow> acc | Some x \<Rightarrow> f64_add acc x)
       (fm_values (in_node_states inst)) (F 0)"

definition spawn_cost :: "'w engine_env \<Rightarrow> ('w, unit) handler" where
  "spawn_cost env =
     (case ee_spawn_cost env of
        None \<Rightarrow> ret ()
      | Some spawn \<Rightarrow> bindE get_inst (\<lambda>inst.
          if f64_lt (F 0) (total_cost inst) then world (spawn (in_workflow_id inst) (total_cost inst)) else ret ()))"

text \<open>The duration of the run, then the SLA check.\<close>

definition check_sla :: "'w engine_env \<Rightarrow> ('w, int) handler" where
  "check_sla env =
     bindE (nowE env) (\<lambda>now.
     bindE get_inst (\<lambda>inst.
     seqE (check_and_record_sla_anomalies env (now - in_created_at inst))
          (ret (now - in_created_at inst))))"

definition record_metrics :: "string \<Rightarrow> node_metrics \<Rightarrow> ('w, unit) handler" where
  "record_metrics node_id m = upd_inst (\<lambda>i. i\<lparr>in_metrics := Some (record_node node_id m
     (case in_metrics i of None \<Rightarrow> instance_metrics_new | Some im \<Rightarrow> im))\<rparr>)"

section \<open>A failed node\<close>

datatype post_lock_action = PostNone | PostDispatchRetry string string int

definition retry_of :: "workflow \<Rightarrow> string \<Rightarrow> int \<Rightarrow> retry_policy option" where
  "retry_of w i attempt =
     Option.bind (node_by_id w i) (\<lambda>n. Option.bind (n_retry n) (\<lambda>rp.
       if attempt < rp_max_attempts rp then Some rp else None))"

definition requeue :: "'w engine_env \<Rightarrow> result_message \<Rightarrow> int \<Rightarrow> int \<Rightarrow> ('w, post_lock_action) handler" where
  "requeue env r now delay =
     seqE (upd_node (rm_node_id r) (\<lambda>ns. ns\<lparr>st_attempt := st_attempt ns + 1, st_status := NQueued,
             st_started_at := None, st_ended_at := None, st_error := None\<rparr>))
     (seqE (upd_inst (\<lambda>i. i\<lparr>in_updated_at := now\<rparr>))
     (seqE (save_instance env)
     (bindE get_inst (\<lambda>inst. ret (PostDispatchRetry (in_id inst) (rm_node_id r) delay)))))"

definition save_and_clean :: "'w engine_env \<Rightarrow> ('w, post_lock_action) handler" where
  "save_and_clean env = seqE (save_instance env) (seqE cleanup_instance (ret PostNone))"

definition fail_instance :: "'w engine_env \<Rightarrow> string \<Rightarrow> string \<Rightarrow> ('w, post_lock_action) handler" where
  "fail_instance env node_id error_msg =
     seqE (upd_inst (\<lambda>i. i\<lparr>in_status := IFailed\<rparr>))
     (bindE get_inst (\<lambda>inst.
     seqE (world (ee_sla_failure env (in_workflow_id inst)))
     (bindE (check_sla env) (\<lambda>duration_ms.
     seqE (spawn_instance_metrics env ''failed'' duration_ms)
     (seqE (log_event env 0 (\<lambda>b. EvInstanceFailed b (''node '' @ node_id @ '' failed: '' @ error_msg)))
           (save_and_clean env))))))"

definition handle_failure ::
  "'w engine_env \<Rightarrow> workflow \<Rightarrow> result_message \<Rightarrow> int \<Rightarrow> int \<Rightarrow> string \<Rightarrow> ('w, post_lock_action) handler" where
  "handle_failure env w r attempt now error_msg =
     (let i = rm_node_id r;
          wm = Option.bind (Option.bind (rm_output r) (\<lambda>m. fmlookup m ''_metrics'')) (ee_parse_metrics env) in
      case retry_of w i attempt of
        Some retry \<Rightarrow> requeue env r now (retry_delay (ee_powi env) retry attempt)
      | None \<Rightarrow>
          seqE (upd_node i (\<lambda>ns. ns\<lparr>st_status := NFailed, st_error := Some error_msg, st_ended_at := Some now\<rparr>))
          (seqE (upd_inst (\<lambda>x. x\<lparr>in_updated_at := now\<rparr>))
          (seqE (spawn_node_metrics env w i ''failed'' wm)
          (seqE (case wm of None \<Rightarrow> ret () | Some m \<Rightarrow> record_metrics i m)
          (seqE (log_event env 0 (\<lambda>b. EvNodeFailed b i error_msg))
          (bindE get_inst (\<lambda>inst.
             if has_compensation w inst then seqE (start_compensation env w i) (ret PostNone)
             else fail_instance env i error_msg)))))))"

section \<open>A completed node\<close>

definition SECRET_KEYS :: "string list" where
  "SECRET_KEYS = [''password'', ''token'', ''secret'', ''api_key'', ''apikey'', ''access_token'',
     ''refresh_token'', ''private_key'']"

definition redact_output :: "jmap \<Rightarrow> jmap" where
  "redact_output out =
     (if list_ex (\<lambda>k. fmlookup out k \<noteq> None) SECRET_KEYS
      then fold (\<lambda>k m. if fmlookup m k \<noteq> None then fmupd k (JString BULLETS) m else m) SECRET_KEYS out
      else out)"

definition wall_time :: "wf_instance \<Rightarrow> string \<Rightarrow> u64" where
  "wall_time inst i =
     (case Option.bind (fmlookup (in_node_states inst) i) (\<lambda>ns.
             Option.bind (st_started_at ns) (\<lambda>s. map_option (\<lambda>e. e - s) (st_ended_at ns))) of
        None \<Rightarrow> 0 | Some ms \<Rightarrow> word_of_int ms)"

text \<open>Metering, then the budget: the reason if a limit is exceeded.\<close>

definition meter ::
  "'w engine_env \<Rightarrow> string \<Rightarrow> jmap option \<Rightarrow> node_metrics option \<Rightarrow> ('w, string option) handler" where
  "meter env i output wm =
     bindE get_inst (\<lambda>inst.
     let m = (case wm of
          Some m \<Rightarrow> m
        | None \<Rightarrow> extract_metrics_from_output (ee_json_str env)
            (case output of None \<Rightarrow> fmempty | Some out \<Rightarrow> out) (wall_time inst i)) in
     seqE (record_metrics i m)
     (bindE get_inst (\<lambda>inst'.
        ret (Option.bind (ee_budget env) (\<lambda>b. Option.bind (in_metrics inst') (budget_check b))))))"

definition fail_budget :: "'w engine_env \<Rightarrow> string \<Rightarrow> ('w, post_lock_action) handler" where
  "fail_budget env reason =
     seqE (upd_inst (\<lambda>i. i\<lparr>in_status := IFailed\<rparr>))
     (seqE (log_event env 0 (\<lambda>b. EvInstanceFailed b (''budget exceeded: '' @ reason)))
           (save_and_clean env))"

definition has_failed_node :: "wf_instance \<Rightarrow> bool" where
  "has_failed_node inst = fm_any (\<lambda>ns. st_status ns = NFailed) (in_node_states inst)"

text \<open>All nodes are terminal: the instance ends.\<close>

definition finish_instance :: "'w engine_env \<Rightarrow> ('w, unit) handler" where
  "finish_instance env =
     bindE get_inst (\<lambda>inst.
     let failed = has_failed_node inst in
     seqE (upd_inst (\<lambda>i. i\<lparr>in_status := (if failed then IFailed else ICompleted)\<rparr>))
     (seqE (world ((if failed then ee_sla_failure env else ee_sla_success env) (in_workflow_id inst)))
     (bindE (check_sla env) (\<lambda>duration_ms.
     seqE (spawn_instance_metrics env (if failed then ''failed'' else ''completed'') duration_ms)
     (seqE (spawn_cost env)
           (log_event env 0 EvInstanceCompleted))))))"

definition dispatch_error_and_save :: "'w engine_env \<Rightarrow> workflow \<Rightarrow> string \<Rightarrow> orbflow_error \<Rightarrow> ('w, unit) handler" where
  "dispatch_error_and_save env w i e =
     seqE (handle_node_dispatch_error env w i e) (seqE (save_instance env) cleanup_instance)"

text \<open>From the recorded completion to the end of the handler.\<close>

definition advance :: "'w engine_env \<Rightarrow> workflow \<Rightarrow> ('w, post_lock_action) handler" where
  "advance env w =
     bindE (ready_nodes env w) (\<lambda>ready.
     bindE (dispatch_each env w (dispatch_error_and_save env w) ready) (\<lambda>ok.
     if \<not> ok then ret PostNone
     else bindE get_inst (\<lambda>inst.
       seqE (if all_nodes_terminal inst then finish_instance env else ret ())
            (save_and_clean env))))"

definition handle_success ::
  "'w engine_env \<Rightarrow> workflow \<Rightarrow> result_message \<Rightarrow> int \<Rightarrow> ('w, post_lock_action) handler" where
  "handle_success env w r now =
     (let i = rm_node_id r;
          wm = Option.bind (Option.bind (rm_output r) (\<lambda>m. fmlookup m ''_metrics'')) (ee_parse_metrics env);
          output = map_option (fmdrop ''_metrics'') (rm_output r) in
      seqE (upd_node i (\<lambda>ns. ns\<lparr>st_status := NCompleted, st_output := output, st_ended_at := Some now\<rparr>))
      (seqE (spawn_node_metrics env w i ''completed'' wm)
      (bindE (meter env i output wm) (\<lambda>exceeded.
      case exceeded of
        Some reason \<Rightarrow> fail_budget env reason
      | None \<Rightarrow>
          seqE (upd_inst (\<lambda>x. x\<lparr>in_context := (case output of
                  None \<Rightarrow> in_context x
                | Some out \<Rightarrow> (in_context x)\<lparr>cx_node_outputs := fmupd i out (cx_node_outputs (in_context x))\<rparr>),
                in_updated_at := now\<rparr>))
          (seqE (log_event env 0 (\<lambda>b. EvNodeCompleted b i (map_option redact_output output)))
                (advance env w))))))"

section \<open>Entry points\<close>

definition handle_result_body :: "'w engine_env \<Rightarrow> result_message \<Rightarrow> ('w, post_lock_action) handler" where
  "handle_result_body env r =
     bindE get_inst (\<lambda>inst.
     if is_expected_compensation_result inst r
     then (case validate_compensation_result_identity inst r of
             Inl _ \<Rightarrow> ret PostNone
           | Inr _ \<Rightarrow> seqE (handle_compensation_result env r) (seqE cleanup_instance (ret PostNone)))
     else if inst_terminal inst then seqE cleanup_instance (ret PostNone)
     else
       bindE (liftR (validate_node_result_identity inst r)) (\<lambda>_.
       bindE (port (ee_get_workflow env (in_workflow_id inst))) (\<lambda>w.
       bindE (get_node (rm_node_id r)
                (Internal (''unknown node '' @ rm_node_id r @ '' in instance '' @ in_id inst))) (\<lambda>ns.
       bindE (nowE env) (\<lambda>now.
         case rm_error r of
           Some error_msg \<Rightarrow> handle_failure env w r (st_attempt ns) now error_msg
         | None \<Rightarrow> handle_success env w r now)))))"

definition handle_node_result_durable ::
  "'w engine_env \<Rightarrow> result_message \<Rightarrow> ('w engine, post_lock_action) act" where
  "handle_node_result_durable env r =
     bindE (portG (ee_get_instance env (rm_instance_id r))) (\<lambda>inst.
     with_inst inst (handle_result_body env r))"

definition retry_due :: "wf_instance \<Rightarrow> string \<Rightarrow> bool" where
  "retry_due inst i = (case fmlookup (in_node_states inst) i of
       None \<Rightarrow> False | Some ns \<Rightarrow> st_status ns = NQueued \<and> st_started_at ns = None)"

text \<open>The delay has passed and the lock is taken again.\<close>

definition dispatch_retry_after_lock :: "'w engine_env \<Rightarrow> string \<Rightarrow> string \<Rightarrow> ('w engine, unit) act" where
  "dispatch_retry_after_lock env instance_id node_id =
     seqE (lock_instance instance_id)
     (bindE (portG (ee_get_instance env instance_id)) (\<lambda>inst.
      with_inst inst
        (if inst_terminal inst then cleanup_instance
         else
           bindE (port (ee_get_workflow env (in_workflow_id inst))) (\<lambda>w.
             case node_by_id w node_id of
               None \<Rightarrow> raise NotFound
             | Some node \<Rightarrow>
                 if \<not> retry_due inst node_id then ret ()
                 else seqE (dispatch_each env w (dispatch_error_and_save env w) [node]) (ret ())))))"

text \<open>
  The processed results of the instance, when the result carries an id. The set is created on
  first use.
\<close>

definition result_id_of :: "result_message \<Rightarrow> string option" where
  "result_id_of r = (case rm_result_id r of None \<Rightarrow> None | Some i \<Rightarrow> if i = [] then None else Some i)"

definition processed_set :: "'w engine \<Rightarrow> string \<Rightarrow> result_set" where
  "processed_set g i = (case fmlookup (eg_processed g) i of None \<Rightarrow> rs_new | Some rs \<Rightarrow> rs)"

definition ensure_processed :: "string \<Rightarrow> 'w engine \<Rightarrow> 'w engine" where
  "ensure_processed i g = g\<lparr>eg_processed := fmupd i (processed_set g i) (eg_processed g)\<rparr>"

text \<open>
  \<open>rs.add\<close> works on the shared set the handler holds. If the entry was removed meanwhile
  (the instance became terminal), the set is no longer reachable and the addition is lost.
\<close>

definition record_processed :: "string \<Rightarrow> string \<Rightarrow> 'w engine \<Rightarrow> 'w engine" where
  "record_processed i rid g =
     (case fmlookup (eg_processed g) i of
        None \<Rightarrow> g
      | Some rs \<Rightarrow> g\<lparr>eg_processed := fmupd i (rs_add rid rs) (eg_processed g)\<rparr>)"

definition run_post_lock :: "'w engine_env \<Rightarrow> post_lock_action \<Rightarrow> ('w engine, unit) act" where
  "run_post_lock env action = (case action of
       PostNone \<Rightarrow> ret ()
     | PostDispatchRetry instance_id node_id _ \<Rightarrow> dispatch_retry_after_lock env instance_id node_id)"

definition handle_node_result :: "'w engine_env \<Rightarrow> result_message \<Rightarrow> ('w engine, unit) act" where
  "handle_node_result env r =
     seqE (lock_instance (rm_instance_id r))
     (case result_id_of r of
        None \<Rightarrow> bindE (handle_node_result_durable env r) (run_post_lock env)
      | Some rid \<Rightarrow>
          seqE (modifyE (ensure_processed (rm_instance_id r)))
          (bindE (getsE (\<lambda>g. rs_contains (processed_set g (rm_instance_id r)) rid)) (\<lambda>seen.
             if seen then ret ()
             else bindE (handle_node_result_durable env r) (\<lambda>action.
               seqE (modifyE (record_processed (rm_instance_id r) rid)) (run_post_lock env action)))))"

definition handle_result_message :: "'w engine_env \<Rightarrow> string \<Rightarrow> ('w engine, unit) act" where
  "handle_result_message env data =
     (case ee_decode_result env data of
        Inl e \<Rightarrow> raise (Internal (''unmarshal result: '' @ e))
      | Inr r \<Rightarrow>
          if rm_v r > WIRE_VERSION
          then raise (Bus (''received result with wire version '' @ nat_str (rm_v r) @
                 '' but engine only supports up to '' @ nat_str WIRE_VERSION))
          else handle_node_result env r)"

end
