(* ===== verification/Validate.thy ===== *)
theory Validate
  imports Ports Samples Graph
begin

text \<open>
  Structural validation of a workflow, \<open>crates/orbflow-core/src/validate.rs\<close>: names and
  references, edges, capability edges, the iterative three-colour cycle search and the
  breadth-first reachability check, in the order \<open>validate_workflow\<close> runs them. The text
  carried by an \<open>InvalidNodeConfig\<close> error is its fixed part: the interpolated ids, keys and
  lengths are left out.
\<close>

section \<open>Names and references\<close>

definition MAX_PLUGIN_NAME_LEN :: nat where
  "MAX_PLUGIN_NAME_LEN = 64"

definition MAX_NODE_ID_LEN :: nat where
  "MAX_NODE_ID_LEN = 128"

definition MAX_CEL_EXPR_LEN :: nat where
  "MAX_CEL_EXPR_LEN = 4096"

definition name_char :: "char \<Rightarrow> bool" where
  "name_char c = (ascii_alnum c \<or> c = CHR ''-'' \<or> c = CHR ''_'')"

definition validate_plugin_name :: "string \<Rightarrow> unit result" where
  "validate_plugin_name name =
     rejectR (name = [] \<or> length name > MAX_PLUGIN_NAME_LEN \<or> \<not> list_all name_char name)
       (InvalidNodeConfig ''invalid plugin name'')"

definition validate_node_id :: "string \<Rightarrow> unit result" where
  "validate_node_id i =
     (if i = [] \<or> length i > MAX_NODE_ID_LEN
      then Inl (InvalidNodeConfig ''node ID must be 1-128 characters'')
      else if \<not> list_all name_char i
      then Inl (InvalidNodeConfig ''node ID contains invalid characters'')
      else Inr ())"

definition validate_plugin_ref :: "string \<Rightarrow> unit result" where
  "validate_plugin_ref r =
     (if r = [] then Inl (InvalidNodeConfig ''plugin_ref must not be empty'')
      else if \<not> starts_with ''builtin:'' r \<and> \<not> starts_with ''plugin:'' r \<and> \<not> starts_with ''mcp:'' r
      then Inl (InvalidNodeConfig ''plugin_ref has no known prefix'')
      else if str_contains ''..'' r \<or> CHR ''/'' \<in> set r \<or> CHR 0x5C \<in> set r
      then Inl (InvalidNodeConfig ''plugin_ref contains invalid path characters'')
      else Inr ())"

definition oversized_cel :: "json \<Rightarrow> bool" where
  "oversized_cel v = (case v of
       JString s \<Rightarrow> starts_with ''='' s \<and> length s > MAX_CEL_EXPR_LEN + 1
     | _ \<Rightarrow> False)"

definition validate_input_mapping_cel_lengths :: "wf_node \<Rightarrow> unit result" where
  "validate_input_mapping_cel_lengths n =
     bindR (case n_input_mapping n of
         None \<Rightarrow> Inr ()
       | Some m \<Rightarrow> rejectR (fm_any oversized_cel m)
           (InvalidNodeConfig ''input_mapping CEL expression exceeds maximum length'')) (\<lambda>_.
     case n_compensate n of
       None \<Rightarrow> Inr ()
     | Some c \<Rightarrow> (case cc_input_mapping c of
           None \<Rightarrow> Inr ()
         | Some m \<Rightarrow> rejectR (fm_any oversized_cel m)
             (InvalidNodeConfig ''compensate.input_mapping CEL expression exceeds maximum length'')))"

definition validate_node_kind :: "wf_node \<Rightarrow> unit result" where
  "validate_node_kind n = (case n_kind n of KAction \<Rightarrow> Inr () | KTrigger \<Rightarrow> Inr () | KCapability \<Rightarrow> Inr ())"

section \<open>Nodes and edges\<close>

type_synonym node_table = "(string, node_kind) fmap"

text \<open>The loop over \<open>w.nodes\<close>; \<open>node_ids\<close> is the domain of \<open>node_kinds\<close>.\<close>

fun validate_nodes :: "wf_node list \<Rightarrow> node_table \<Rightarrow> node_table result" where
  "validate_nodes [] kinds = Inr kinds"
| "validate_nodes (n # ns) kinds =
     bindR (validate_node_id (n_id n)) (\<lambda>_.
     bindR (validate_plugin_ref (n_plugin_ref n)) (\<lambda>_.
     bindR (case n_compensate n of
              None \<Rightarrow> Inr ()
            | Some cc \<Rightarrow> (case validate_plugin_ref (cc_plugin_ref cc) of
                Inl _ \<Rightarrow> Inl (InvalidNodeConfig ''compensate.plugin_ref is invalid'')
              | Inr u \<Rightarrow> Inr u)) (\<lambda>_.
     bindR (rejectR (n_id n \<in> fmdom' kinds) DuplicateNode) (\<lambda>_.
     bindR (validate_node_kind n) (\<lambda>_.
     bindR (validate_input_mapping_cel_lengths n) (\<lambda>_.
     validate_nodes ns (fmupd (n_id n) (n_kind n) kinds)))))))"

definition edge_pair :: "edge \<Rightarrow> string" where
  "edge_pair e = e_source e @ ''->'' @ e_target e"

fun validate_edges :: "node_table \<Rightarrow> edge list \<Rightarrow> string set \<Rightarrow> unit result" where
  "validate_edges kinds [] pairs = Inr ()"
| "validate_edges kinds (e # es) pairs =
     bindR (rejectR (e_source e \<notin> fmdom' kinds) InvalidEdge) (\<lambda>_.
     bindR (rejectR (e_target e \<notin> fmdom' kinds) InvalidEdge) (\<lambda>_.
     bindR (rejectR (fmlookup kinds (e_source e) = Some KCapability \<or>
                     fmlookup kinds (e_target e) = Some KCapability) InvalidCapabilityEdge) (\<lambda>_.
     bindR (rejectR (edge_pair e \<in> pairs) DuplicateEdge) (\<lambda>_.
     validate_edges kinds es (insert (edge_pair e) pairs)))))"

definition validate_triggers :: "workflow \<Rightarrow> unit result" where
  "validate_triggers w =
     rejectR (list_ex (\<lambda>n. n_kind n = KTrigger \<and> n_id n \<in> set (map e_target (wf_edges w))) (wf_nodes w))
       InvalidNodeKind"

definition cap_ports :: "workflow \<Rightarrow> (string, string set) fmap" where
  "cap_ports w =
     fold (\<lambda>n m. if n_capability_ports n = [] then m
                 else fmupd (n_id n) (set (map cp_key (n_capability_ports n))) m)
       (wf_nodes w) fmempty"

fun validate_capability_edges :: "node_table \<Rightarrow> (string, string set) fmap \<Rightarrow> capability_edge list \<Rightarrow> unit result" where
  "validate_capability_edges kinds ports [] = Inr ()"
| "validate_capability_edges kinds ports (ce # ces) =
     bindR (rejectR (ce_source_node_id ce \<notin> fmdom' kinds) InvalidCapabilityEdge) (\<lambda>_.
     bindR (rejectR (ce_target_node_id ce \<notin> fmdom' kinds) InvalidCapabilityEdge) (\<lambda>_.
     bindR (rejectR (fmlookup kinds (ce_source_node_id ce) \<noteq> Some KCapability) InvalidCapabilityEdge) (\<lambda>_.
     bindR (case fmlookup ports (ce_target_node_id ce) of
              None \<Rightarrow> Inl InvalidCapabilityEdge
            | Some ps \<Rightarrow> rejectR (ce_target_port_key ce \<notin> ps) InvalidCapabilityEdge) (\<lambda>_.
     validate_capability_edges kinds ports ces))))"

section \<open>Cycles\<close>

datatype color = White | Gray | Black

type_synonym colors = "(string, color) fmap"

definition whites :: "colors \<Rightarrow> nat" where
  "whites c = card {v \<in> fmdom' c. fmlookup c v = Some White}"

lemma whites_alt: "whites c = card {v. fmlookup c v = Some White}"
  unfolding whites_def by (rule arg_cong [where f = card]) (auto intro: fmdom'I)

lemma finite_white: "finite {v. fmlookup c v = Some White}"
  by (rule finite_subset [of _ "fmdom' c"]) (auto intro: fmdom'I)

lemma whites_upd_le: "x \<noteq> White \<Longrightarrow> whites (fmupd v x c) \<le> whites c"
  unfolding whites_alt by (rule card_mono [OF finite_white]) auto

lemma whites_upd_less: "x \<noteq> White \<Longrightarrow> fmlookup c v = Some White \<Longrightarrow> whites (fmupd v x c) < whites c"
  unfolding whites_alt by (rule psubset_card_mono [OF finite_white]) auto

text \<open>
  The \<open>while let Some((node, idx)) = stack.last_mut()\<close> loop; the head of the list is the top
  of the stack. It ends because every turn pops a frame, advances the index of the top frame
  or blackens a white node.
\<close>

definition stack_work :: "edge list \<Rightarrow> (string \<times> nat) list \<Rightarrow> nat" where
  "stack_work es stack = (\<Sum>(n, i) \<leftarrow> stack. Suc (length (successors es n) - i))"

function cycle_loop :: "edge list \<Rightarrow> colors \<Rightarrow> (string \<times> nat) list \<Rightarrow> colors result" where
  "cycle_loop es color [] = Inr color"
| "cycle_loop es color ((node, idx) # stack) =
     (if idx \<ge> length (successors es node)
      then cycle_loop es (fmupd node Black color) stack
      else
        let nxt = successors es node ! idx in
        case fmlookup color nxt of
          Some Gray \<Rightarrow> Inl CycleDetected
        | Some White \<Rightarrow> cycle_loop es (fmupd nxt Gray color) ((nxt, 0) # (node, idx + 1) # stack)
        | _ \<Rightarrow> cycle_loop es color ((node, idx + 1) # stack))"
  by pat_completeness auto

termination
proof (relation "inv_image (less_than <*lex*> less_than) (\<lambda>(es, c, s). (whites c, stack_work es s))",
    goal_cases)
  case 1
  then show ?case by auto
next
  case (2 es color node idx stack)
  have "whites (fmupd node Black color) \<le> whites color" by (simp add: whites_upd_le)
  then show ?case by (auto simp: stack_work_def)
next
  case (3 es color node idx stack)
  then show ?case by (simp add: stack_work_def)
next
  case (4 es color node idx stack)
  then show ?case by (simp add: whites_upd_less)
next
  case (5 es color node idx stack)
  then show ?case by (simp add: stack_work_def)
qed

definition non_cap_ids :: "workflow \<Rightarrow> string list" where
  "non_cap_ids w =
     (let cap = set (map n_id (filter (\<lambda>n. n_kind n = KCapability) (wf_nodes w))) in
      map n_id (filter (\<lambda>n. n_id n \<notin> cap) (wf_nodes w)))"

fun cycle_starts :: "edge list \<Rightarrow> string list \<Rightarrow> colors \<Rightarrow> unit result" where
  "cycle_starts es [] color = Inr ()"
| "cycle_starts es (s # ss) color =
     (if fmlookup color s \<noteq> Some White then cycle_starts es ss color
      else bindR (cycle_loop es (fmupd s Gray color) [(s, 0)]) (cycle_starts es ss))"

definition detect_cycles :: "workflow \<Rightarrow> unit result" where
  "detect_cycles w =
     (let ids = non_cap_ids w in
      cycle_starts (wf_edges w) ids (fmap_of_list (map (\<lambda>i. (i, White)) ids)))"

section \<open>Connectivity\<close>

definition visit :: "string \<Rightarrow> string set \<times> string list \<Rightarrow> string set \<times> string list" where
  "visit nxt st = (case st of (vis, q) \<Rightarrow> if nxt \<in> vis then (vis, q) else (insert nxt vis, q @ [nxt]))"

lemma visit_fold:
  "fold visit ns (vis, q) = (vis', q') \<Longrightarrow>
     vis' = vis \<union> set ns \<and> set q' = set q \<union> (set ns - vis)"
  by (induction ns arbitrary: vis q) (auto simp: visit_def split: if_splits)

lemma visit_fold_distinct:
  "fold visit ns (vis, q) = (vis', q') \<Longrightarrow> distinct q \<Longrightarrow> set q \<subseteq> vis \<Longrightarrow> distinct q'"
proof (induction ns arbitrary: vis q)
  case Nil
  then show ?case by simp
next
  case (Cons n ns)
  show ?case
  proof (cases "n \<in> vis")
    case True
    with Cons show ?thesis by (simp add: visit_def)
  next
    case False
    show ?thesis
      by (rule Cons.IH [of "insert n vis" "q @ [n]"]) (use Cons.prems False in \<open>auto simp: visit_def\<close>)
  qed
qed

lemma visit_fold_measure:
  assumes "finite P"
  shows "set ns \<subseteq> P \<Longrightarrow> fold visit ns (vis, q) = (vis', q') \<Longrightarrow>
     length q' + card (P - vis') \<le> length q + card (P - vis)"
proof (induction ns arbitrary: vis q)
  case Nil
  then show ?case by simp
next
  case (Cons n ns)
  show ?case
  proof (cases "n \<in> vis")
    case True
    with Cons show ?thesis by (simp add: visit_def)
  next
    case False
    then have "P - vis = insert n (P - insert n vis)" using Cons.prems(1) by auto
    then have "card (P - vis) = card (insert n (P - insert n vis))" by (rule arg_cong)
    also have "\<dots> = Suc (card (P - insert n vis))" using assms by simp
    finally have "card (P - vis) = Suc (card (P - insert n vis))" .
    with Cons.IH [of "insert n vis" "q @ [n]"] Cons.prems False show ?thesis
      by (simp add: visit_def)
  qed
qed

lemma successors_targets: "set (successors es i) \<subseteq> e_target ` set es"
  by (auto simp: successors_def)

text \<open>The \<open>while let Some(cur) = queue.pop_front()\<close> loop.\<close>

function bfs :: "edge list \<Rightarrow> string set \<Rightarrow> string list \<Rightarrow> string set" where
  "bfs es vis [] = vis"
| "bfs es vis (cur # q) = (case fold visit (successors es cur) (vis, q) of (vis', q') \<Rightarrow> bfs es vis' q')"
  by pat_completeness auto

termination
proof (relation "measure (\<lambda>(es, vis, q). length q + card (e_target ` set es - vis))", goal_cases)
  case 1
  then show ?case by simp
next
  case (2 es vis cur q vis' q')
  then have f: "fold visit (successors es cur) (vis, q) = (vis', q')" by simp
  from visit_fold_measure [OF _ successors_targets [of es cur] f] show ?case by (simp add: f)
qed

definition check_connectivity :: "workflow \<Rightarrow> wf_node list \<Rightarrow> unit result" where
  "check_connectivity w entry =
     (let visited = bfs (wf_edges w) (set (map n_id entry)) (map n_id entry) in
      rejectR (card visited \<noteq> length (non_cap_ids w)) Disconnected)"

section \<open>The whole check\<close>

definition validate_workflow :: "workflow \<Rightarrow> unit result" where
  "validate_workflow w =
     bindR (rejectR (wf_nodes w = []) NoEntryNodes) (\<lambda>_.
     bindR (validate_nodes (wf_nodes w) fmempty) (\<lambda>kinds.
     bindR (validate_edges kinds (wf_edges w) {}) (\<lambda>_.
     bindR (validate_triggers w) (\<lambda>_.
     bindR (validate_capability_edges kinds (cap_ports w) (wf_capability_edges w)) (\<lambda>_.
     bindR (rejectR (entry_nodes w = []) NoEntryNodes) (\<lambda>_.
     bindR (detect_cycles w) (\<lambda>_.
     check_connectivity w (entry_nodes w))))))))"

section \<open>The cycle search is exact\<close>

text \<open>
  The grey nodes are the ones on the stack, which is a path of the graph; the black set is
  closed under edges and holds no cycle; the neighbours a frame has gone through are black or
  on the stack above it.
\<close>

fun stack_path :: "edge list \<Rightarrow> string list \<Rightarrow> bool" where
  "stack_path es (x # y # r) = ((y, x) \<in> edge_rel es \<and> stack_path es (y # r))"
| "stack_path es _ = True"

fun frames :: "edge list \<Rightarrow> string set \<Rightarrow> (string \<times> nat) list \<Rightarrow> bool" where
  "frames es D [] = True"
| "frames es D ((n, i) # r) = (set (take i (successors es n)) \<subseteq> D \<and> frames es (insert n D) r)"

definition blacks :: "colors \<Rightarrow> string set" where
  "blacks c = {v. fmlookup c v = Some Black}"

definition cycle_inv :: "edge list \<Rightarrow> string set \<Rightarrow> colors \<Rightarrow> (string \<times> nat) list \<Rightarrow> bool" where
  "cycle_inv es N c stack \<longleftrightarrow>
     fmdom' c = N \<and> distinct (map fst stack) \<and>
     (\<forall>v. fmlookup c v = Some Gray \<longleftrightarrow> v \<in> set (map fst stack)) \<and>
     edge_rel es `` blacks c \<subseteq> blacks c \<and> acyclic (edge_rel es \<inter> blacks c \<times> blacks c) \<and>
     stack_path es (map fst stack) \<and> frames es (blacks c) stack"

lemma stack_path_reach: "stack_path es (x # r) \<Longrightarrow> y \<in> set (x # r) \<Longrightarrow> (y, x) \<in> (edge_rel es)\<^sup>*"
proof (induction r arbitrary: x)
  case Nil
  then show ?case by simp
next
  case (Cons z r)
  show ?case
  proof (cases "y = x")
    case False
    with Cons have "(y, z) \<in> (edge_rel es)\<^sup>*" by simp
    moreover have "(z, x) \<in> edge_rel es" using Cons.prems by simp
    ultimately show ?thesis by (rule rtrancl_into_rtrancl)
  qed simp
qed

lemma stack_path_tl: "stack_path es (x # r) \<Longrightarrow> stack_path es r"
  by (cases r) simp_all

lemma frames_mono: "frames es D s \<Longrightarrow> D \<subseteq> D' \<Longrightarrow> frames es D' s"
proof (induction s arbitrary: D D')
  case Nil
  then show ?case by simp
next
  case (Cons f s)
  obtain n i where f: "f = (n, i)" by (cases f)
  with Cons.prems have "insert n D \<subseteq> insert n D'" by auto
  with Cons f show ?case by (auto intro: Cons.IH [of "insert n D"])
qed

lemma blacks_upd [simp]:
  "blacks (fmupd v Black c) = insert v (blacks c)"
  "x \<noteq> Black \<Longrightarrow> blacks (fmupd v x c) = blacks c - {v}"
  by (auto simp: blacks_def)

lemma cycle_inv_pop:
  assumes inv: "cycle_inv es N c ((n, i) # s)" and full: "length (successors es n) \<le> i"
  shows "cycle_inv es N (fmupd n Black c) s"
proof -
  let ?E = "edge_rel es" and ?B = "blacks c"
  have gr: "fmlookup c n = Some Gray" using inv by (simp add: cycle_inv_def)
  then have n: "n \<notin> ?B" by (simp add: blacks_def)
  have nN: "n \<in> N" using fmdom'I [OF gr] inv by (simp add: cycle_inv_def)
  have out: "?E `` {n} \<subseteq> ?B"
  proof -
    have "?E `` {n} = set (successors es n)" by (auto simp: set_successors)
    with inv full show ?thesis by (simp add: cycle_inv_def)
  qed
  have "acyclic (?E \<inter> insert n ?B \<times> insert n ?B)"
    using inv n out by (intro acyclic_add_point) (simp_all add: cycle_inv_def)
  moreover have "?E `` insert n ?B \<subseteq> insert n ?B" using out inv by (auto simp: cycle_inv_def)
  moreover have "\<forall>v. fmlookup (fmupd n Black c) v = Some Gray \<longleftrightarrow> v \<in> set (map fst s)"
    using inv by (auto simp: cycle_inv_def)
  moreover have "frames es (insert n ?B) s" "stack_path es (map fst s)" "distinct (map fst s)"
    "fmdom' (fmupd n Black c) = N"
    using inv nN by (auto simp: cycle_inv_def dest: stack_path_tl)
  ultimately show ?thesis by (simp add: cycle_inv_def)
qed

lemma cycle_inv_skip:
  assumes inv: "cycle_inv es N c ((n, i) # s)" and more: "i < length (successors es n)"
    and black: "fmlookup c (successors es n ! i) = Some Black"
  shows "cycle_inv es N c ((n, i + 1) # s)"
  using inv more black by (auto simp: cycle_inv_def take_Suc_conv_app_nth blacks_def)

lemma cycle_inv_push:
  assumes inv: "cycle_inv es N c ((n, i) # s)" and more: "i < length (successors es n)"
    and white: "fmlookup c (successors es n ! i) = Some White"
  shows "cycle_inv es N (fmupd (successors es n ! i) Gray c) ((successors es n ! i, 0) # (n, i + 1) # s)"
proof -
  let ?x = "successors es n ! i" and ?B = "blacks c"
  have gi: "\<forall>v. fmlookup c v = Some Gray \<longleftrightarrow> v \<in> set (map fst ((n, i) # s))"
    using inv unfolding cycle_inv_def by blast
  have "fmlookup c ?x \<noteq> Some Gray" using white by simp
  then have "?x \<notin> set (map fst ((n, i) # s))" using gi by blast
  moreover have "?x \<notin> ?B" using white by (simp add: blacks_def)
  moreover have "?x \<in> N" using inv fmdom'I [OF white] by (simp add: cycle_inv_def)
  ultimately have x: "?x \<notin> ?B" "?x \<notin> set (map fst ((n, i) # s))" "?x \<in> N" by blast+
  have e: "(n, ?x) \<in> edge_rel es"
    using more by (metis mem_Collect_eq nth_mem set_successors)
  have "frames es (insert n (insert ?x ?B)) s"
    using inv by (auto simp: cycle_inv_def intro: frames_mono)
  then have "frames es ?B ((?x, 0) # (n, i + 1) # s)"
    using inv more by (auto simp: cycle_inv_def take_Suc_conv_app_nth)
  moreover have "stack_path es (map fst ((?x, 0) # (n, i + 1) # s))"
    using inv e by (simp add: cycle_inv_def)
  ultimately show ?thesis using inv x by (auto simp: cycle_inv_def)
qed

lemma cycle_inv_gray:
  assumes inv: "cycle_inv es N c ((n, i) # s)" and more: "i < length (successors es n)"
    and gray: "fmlookup c (successors es n ! i) = Some Gray"
  shows "\<not> acyclic (edge_rel es)"
proof -
  let ?x = "successors es n ! i"
  have e: "(n, ?x) \<in> edge_rel es"
    using more by (metis mem_Collect_eq nth_mem set_successors)
  have "?x \<in> set (n # map fst s)" "stack_path es (n # map fst s)"
    using inv gray by (auto simp: cycle_inv_def)
  then have "(?x, n) \<in> (edge_rel es)\<^sup>*" by (intro stack_path_reach)
  with e have "(n, n) \<in> (edge_rel es)\<^sup>+" by (rule rtrancl_into_trancl2)
  then show ?thesis by (auto simp: acyclic_def)
qed

lemma cycle_loop_correct:
  "edge_rel es \<subseteq> N \<times> N \<Longrightarrow> cycle_inv es N c stack \<Longrightarrow>
    (case cycle_loop es c stack of
       Inl e \<Rightarrow> e = CycleDetected \<and> \<not> acyclic (edge_rel es)
     | Inr c' \<Rightarrow> cycle_inv es N c' [] \<and> (\<forall>v. fmlookup c v \<noteq> Some White \<longrightarrow> fmlookup c' v \<noteq> Some White))"
proof (induction es c stack rule: cycle_loop.induct)
  case (1 es c)
  then show ?case by simp
next
  case (2 es c n i s)
  note inv = 2(6)
  show ?case
  proof (cases "length (successors es n) \<le> i")
    case True
    from 2(1) [OF True 2(5) cycle_inv_pop [OF inv True]] True show ?thesis
      by (auto split: sum.splits if_splits)
  next
    case False
    then have more: "i < length (successors es n)" by simp
    let ?x = "successors es n ! i"
    have "(n, ?x) \<in> edge_rel es" using more by (metis mem_Collect_eq nth_mem set_successors)
    with 2(5) have "?x \<in> N" by auto
    then have "?x \<in> fmdom' c" using inv by (simp add: cycle_inv_def)
    then obtain k where k: "fmlookup c ?x = Some k" by (auto simp: fmlookup_dom'_iff)
    show ?thesis
    proof (cases k)
      case White
      with k have w: "fmlookup c ?x = Some White" by simp
      from 2(3) [OF False refl w refl 2(5) cycle_inv_push [OF inv more w]] False w show ?thesis
        by (auto split: sum.splits if_splits)
    next
      case Gray
      with k cycle_inv_gray [OF inv more] False show ?thesis by simp
    next
      case Black
      with k have b: "fmlookup c ?x = Some Black" by simp
      from 2(4) [OF False refl b refl 2(5) cycle_inv_skip [OF inv more b]] False b show ?thesis
        by simp
    qed
  qed
qed

lemma cycle_start_inv:
  assumes "cycle_inv es N c []" and "fmlookup c s = Some White"
  shows "cycle_inv es N (fmupd s Gray c) [(s, 0)]"
proof -
  have "s \<notin> blacks c" using assms(2) by (simp add: blacks_def)
  moreover have "s \<in> N" using fmdom'I [OF assms(2)] assms(1) by (simp add: cycle_inv_def)
  ultimately show ?thesis using assms(1) by (auto simp: cycle_inv_def)
qed

lemma cycle_starts_correct:
  assumes "edge_rel es \<subseteq> N \<times> N"
  shows "cycle_inv es N c [] \<Longrightarrow> (\<forall>v. fmlookup c v = Some White \<longrightarrow> v \<in> set ss) \<Longrightarrow>
    cycle_starts es ss c = (if acyclic (edge_rel es) then Inr () else Inl CycleDetected)"
proof (induction ss arbitrary: c)
  case Nil
  have "v \<in> N \<Longrightarrow> v \<in> blacks c" for v
  proof -
    assume "v \<in> N"
    then obtain k where k: "fmlookup c v = Some k"
      using Nil(1) by (auto simp: cycle_inv_def fmlookup_dom'_iff)
    then have "k \<noteq> White" "k \<noteq> Gray" using Nil by (auto simp: cycle_inv_def)
    with k show ?thesis by (cases k) (auto simp: blacks_def)
  qed
  moreover have "acyclic (edge_rel es \<inter> blacks c \<times> blacks c)" using Nil by (simp add: cycle_inv_def)
  moreover have "edge_rel es \<inter> blacks c \<times> blacks c = edge_rel es"
    using assms calculation(1) by auto
  ultimately show ?case by simp
next
  case (Cons s ss)
  show ?case
  proof (cases "fmlookup c s = Some White")
    case False
    with Cons.prems have "\<forall>v. fmlookup c v = Some White \<longrightarrow> v \<in> set ss" by auto
    with False Cons.IH [OF Cons.prems(1)] show ?thesis by simp
  next
    case True
    note l = cycle_loop_correct [OF assms cycle_start_inv [OF Cons.prems(1) True]]
    show ?thesis
    proof (cases "cycle_loop es (fmupd s Gray c) [(s, 0)]")
      case (Inl e)
      with l True show ?thesis by simp
    next
      case (Inr c')
      with l have c': "cycle_inv es N c' []"
        "\<forall>v. fmlookup (fmupd s Gray c) v \<noteq> Some White \<longrightarrow> fmlookup c' v \<noteq> Some White" by simp_all
      then have "\<forall>v. fmlookup c' v = Some White \<longrightarrow> v \<in> set ss"
        using Cons.prems(2) by (metis color.distinct(1) fmupd_lookup option.inject set_ConsD)
      with Cons.IH [OF c'(1)] Inr True show ?thesis by simp
    qed
  qed
qed

lemma non_cap_ids_set:
  "set (non_cap_ids w) = n_id ` set (wf_nodes w) - n_id ` {n \<in> set (wf_nodes w). n_kind n = KCapability}"
  by (auto simp: non_cap_ids_def Let_def)

text \<open>
The cycle search is exact: on a workflow whose edges join its non-capability nodes, it
  answers \<open>CycleDetected\<close> if and only if the edges form a cycle, and otherwise it succeeds;
  in particular it always ends.
\<close>

theorem detect_cycles_exact:
  assumes "edge_rel (wf_edges w) \<subseteq> set (non_cap_ids w) \<times> set (non_cap_ids w)"
  shows "detect_cycles w = (if acyclic (edge_rel (wf_edges w)) then Inr () else Inl CycleDetected)"
proof -
  let ?c = "fmap_of_list (map (\<lambda>i. (i, White)) (non_cap_ids w))"
  have l: "fmlookup ?c v = (if v \<in> set (non_cap_ids w) then Some White else None)" for v
    by (induction "non_cap_ids w" arbitrary: w) (auto simp: fmlookup_of_list map_of_map_restrict)
  have "cycle_inv (wf_edges w) (set (non_cap_ids w)) ?c []"
    unfolding cycle_inv_def blacks_def using l
    by (auto simp: fmlookup_dom'_iff acyclic_def split: if_splits)
  with l show ?thesis
    unfolding detect_cycles_def Let_def by (intro cycle_starts_correct [OF assms]) (auto split: if_splits)
qed

section \<open>The reachability check is exact, and redundant\<close>

lemma bfs_correct:
  "distinct q \<Longrightarrow> set q \<subseteq> vis \<Longrightarrow> vis \<subseteq> (edge_rel es)\<^sup>* `` X \<Longrightarrow> X \<subseteq> vis \<Longrightarrow>
     (\<forall>x \<in> vis - set q. set (successors es x) \<subseteq> vis) \<Longrightarrow> bfs es vis q = (edge_rel es)\<^sup>* `` X"
proof (induction es vis q rule: bfs.induct)
  case (1 es vis)
  have "edge_rel es `` vis \<subseteq> vis" using 1(5) by (auto simp: set_successors)
  then have "(edge_rel es)\<^sup>* `` X \<subseteq> vis" using 1(4) by (auto intro: closed_rtrancl)
  with 1(3) show ?case by auto
next
  case (2 es vis cur q)
  obtain vis' q' where f: "fold visit (successors es cur) (vis, q) = (vis', q')" by fastforce
  from visit_fold [OF f] have v: "vis' = vis \<union> set (successors es cur)"
    "set q' = set q \<union> (set (successors es cur) - vis)" by auto
  have "cur \<in> (edge_rel es)\<^sup>* `` X" using 2 by auto
  then have "set (successors es cur) \<subseteq> (edge_rel es)\<^sup>* `` X"
    by (auto simp: set_successors intro: rtrancl_into_rtrancl)
  then have "vis' \<subseteq> (edge_rel es)\<^sup>* `` X" using 2(4) v(1) by auto
  moreover have "\<forall>x \<in> vis' - set q'. set (successors es x) \<subseteq> vis'" using 2(6) v by auto
  moreover have "set q' \<subseteq> vis'" "X \<subseteq> vis'" using 2(3,5) v by auto
  moreover have "distinct q'"
    using 2(2,3) f by (intro visit_fold_distinct [OF f]) auto
  ultimately show ?case using 2(1) [OF f [symmetric]] f by simp
qed

lemma distinct_ids_eq:
  "distinct (map n_id ns) \<Longrightarrow> n \<in> set ns \<Longrightarrow> m \<in> set ns \<Longrightarrow> n_id n = n_id m \<longleftrightarrow> n = m"
  by (metis distinct_map inj_onD)

lemma non_cap_ids_iff:
  assumes "distinct (map n_id (wf_nodes w))"
  shows "i \<in> set (non_cap_ids w) \<longleftrightarrow> (\<exists>n \<in> set (wf_nodes w). n_id n = i \<and> n_kind n \<noteq> KCapability)"
proof -
  have "n_id n \<in> n_id ` {n \<in> set (wf_nodes w). n_kind n = KCapability} \<longleftrightarrow> n_kind n = KCapability"
    if "n \<in> set (wf_nodes w)" for n
    using distinct_ids_eq [OF assms that] that by auto
  then show ?thesis unfolding non_cap_ids_set by auto
qed

lemma non_cap_ids_distinct: "distinct (map n_id (wf_nodes w)) \<Longrightarrow> distinct (non_cap_ids w)"
  unfolding non_cap_ids_def Let_def by (rule distinct_map_filter)

text \<open>
  In an acyclic graph every non-capability node is reached from an entry node: walk the edges
  backwards until a node without predecessor.
\<close>

lemma entry_reaches:
  assumes d: "distinct (map n_id (wf_nodes w))"
    and e: "edge_rel (wf_edges w) \<subseteq> set (non_cap_ids w) \<times> set (non_cap_ids w)"
    and a: "acyclic (edge_rel (wf_edges w))"
  shows "(edge_rel (wf_edges w))\<^sup>* `` set (map n_id (entry_nodes w)) = set (non_cap_ids w)"
proof -
  let ?E = "edge_rel (wf_edges w)" and ?N = "set (non_cap_ids w)"
  have "i \<in> set (map n_id (entry_nodes w)) \<longleftrightarrow> i \<in> ?N \<and> (\<forall>p. (p, i) \<notin> ?E)" for i
  proof -
    have "(\<forall>p. (p, i) \<notin> ?E) \<longleftrightarrow> i \<notin> set (map e_target (wf_edges w))" by (auto simp: edge_rel_def)
    moreover have "i \<in> set (map n_id (entry_nodes w)) \<longleftrightarrow>
        i \<in> ?N \<and> i \<notin> set (map e_target (wf_edges w))"
    proof -
      have "i \<in> n_id ` {x \<in> S. P x \<and> n_id x \<notin> T} \<longleftrightarrow> (\<exists>n \<in> S. n_id n = i \<and> P n) \<and> i \<notin> T" for S P T
        by auto
      then show ?thesis unfolding non_cap_ids_iff [OF d] entry_nodes_def Let_def set_map set_filter .
    qed
    ultimately show ?thesis by blast
  qed
  then have en: "set (map n_id (entry_nodes w)) = {i \<in> ?N. \<forall>p. (p, i) \<notin> ?E}" by blast
  show ?thesis
  proof (intro equalityI subsetI)
    fix x assume "x \<in> ?E\<^sup>* `` set (map n_id (entry_nodes w))"
    then obtain s where "(s, x) \<in> ?E\<^sup>*" "s \<in> ?N" unfolding en by blast
    moreover have "?E `` ?N \<subseteq> ?N" using e by auto
    ultimately show "x \<in> ?N" by (blast intro: closed_rtrancl)
  next
    fix x assume x: "x \<in> ?N"
    from finite_acyclic_source [OF _ a, of x] obtain s where
      s: "(s, x) \<in> ?E\<^sup>*" "\<forall>p. (p, s) \<notin> ?E" by auto
    from s(1) have "s = x \<or> (\<exists>y. (s, y) \<in> ?E)" by (meson converse_rtranclE)
    with x e have "s \<in> ?N" by auto
    with s show "x \<in> ?E\<^sup>* `` set (map n_id (entry_nodes w))" unfolding en by blast
  qed
qed

lemma check_connectivity_ok:
  assumes d: "distinct (map n_id (wf_nodes w))"
    and e: "edge_rel (wf_edges w) \<subseteq> set (non_cap_ids w) \<times> set (non_cap_ids w)"
    and a: "acyclic (edge_rel (wf_edges w))"
  shows "check_connectivity w (entry_nodes w) = Inr ()"
proof -
  have "distinct (map n_id (entry_nodes w))"
    using d by (simp add: entry_nodes_def Let_def distinct_map_filter)
  then have "bfs (wf_edges w) (set (map n_id (entry_nodes w))) (map n_id (entry_nodes w)) =
      (edge_rel (wf_edges w))\<^sup>* `` set (map n_id (entry_nodes w))"
    by (intro bfs_correct) auto
  also have "\<dots> = set (non_cap_ids w)" by (rule entry_reaches [OF assms])
  finally have "card (bfs (wf_edges w) (set (map n_id (entry_nodes w))) (map n_id (entry_nodes w))) =
      length (non_cap_ids w)"
    using non_cap_ids_distinct [OF d] by (simp only: distinct_card)
  then show ?thesis by (simp add: check_connectivity_def Let_def rejectR_def)
qed

section \<open>What the loops accept\<close>

definition node_ok :: "wf_node \<Rightarrow> bool" where
  "node_ok n \<longleftrightarrow>
     n_id n \<noteq> [] \<and> length (n_id n) \<le> MAX_NODE_ID_LEN \<and> list_all name_char (n_id n) \<and>
     validate_plugin_ref (n_plugin_ref n) = Inr () \<and>
     (\<forall>c. n_compensate n = Some c \<longrightarrow> validate_plugin_ref (cc_plugin_ref c) = Inr ()) \<and>
     (\<forall>m. n_input_mapping n = Some m \<longrightarrow> \<not> fm_any oversized_cel m) \<and>
     (\<forall>c m. n_compensate n = Some c \<and> cc_input_mapping c = Some m \<longrightarrow> \<not> fm_any oversized_cel m)"

definition node_check :: "wf_node \<Rightarrow> unit result" where
  "node_check n =
     bindR (validate_node_id (n_id n)) (\<lambda>_.
     bindR (validate_plugin_ref (n_plugin_ref n)) (\<lambda>_.
     bindR (case n_compensate n of
              None \<Rightarrow> Inr ()
            | Some cc \<Rightarrow> (case validate_plugin_ref (cc_plugin_ref cc) of
                Inl _ \<Rightarrow> Inl (InvalidNodeConfig ''compensate.plugin_ref is invalid'')
              | Inr u \<Rightarrow> Inr u)) (\<lambda>_.
     validate_input_mapping_cel_lengths n)))"

lemma unit_result_cases: "r = Inr () \<or> (\<exists>e. r = Inl e)" for r :: "unit result"
  by (cases r) auto

lemma node_check_iff: "node_check n = Inr () \<longleftrightarrow> node_ok n"
  using unit_result_cases [of "validate_plugin_ref (n_plugin_ref n)"]
  by (cases "n_compensate n")
     (auto simp: node_check_def node_ok_def bindR_Inr_iff validate_node_id_def
       validate_input_mapping_cel_lengths_def split: option.splits sum.splits)

lemma validate_nodes_step:
  "validate_nodes (n # ns) kinds = Inr k \<longleftrightarrow>
     node_ok n \<and> n_id n \<notin> fmdom' kinds \<and> validate_nodes ns (fmupd (n_id n) (n_kind n) kinds) = Inr k"
proof -
  have "validate_node_kind n = Inr ()" by (cases "n_kind n") (simp_all add: validate_node_kind_def)
  then show ?thesis
    unfolding node_check_iff [symmetric] node_check_def by (auto simp: bindR_Inr_iff)
qed

lemma validate_nodes_iff:
  "validate_nodes ns kinds = Inr k \<longleftrightarrow>
     (\<forall>n \<in> set ns. node_ok n) \<and> distinct (map n_id ns) \<and> n_id ` set ns \<inter> fmdom' kinds = {} \<and>
     k = fold (\<lambda>n. fmupd (n_id n) (n_kind n)) ns kinds"
proof (induction ns arbitrary: kinds)
  case Nil
  then show ?case by auto
next
  case (Cons n ns)
  show ?case unfolding validate_nodes_step Cons by auto
qed

definition kind_table :: "wf_node list \<Rightarrow> node_table" where
  "kind_table ns = fold (\<lambda>n. fmupd (n_id n) (n_kind n)) ns fmempty"

lemma fold_kind_lookup:
  "distinct (map n_id ns) \<Longrightarrow>
     fmlookup (fold (\<lambda>n. fmupd (n_id n) (n_kind n)) ns m) i =
       (case List.find (\<lambda>n. n_id n = i) ns of None \<Rightarrow> fmlookup m i | Some n \<Rightarrow> Some (n_kind n))"
proof (induction ns arbitrary: m)
  case Nil
  then show ?case by simp
next
  case (Cons n ns)
  have "List.find (\<lambda>x. n_id x = n_id n) ns = None"
    using Cons.prems unfolding find_None_iff by (metis distinct.simps(2) image_eqI list.simps(9) set_map)
  with Cons show ?case by (auto split: option.split)
qed

lemma kind_table_iff:
  assumes "distinct (map n_id ns)"
  shows "fmlookup (kind_table ns) i = Some k \<longleftrightarrow> (\<exists>n \<in> set ns. n_id n = i \<and> n_kind n = k)"
proof (cases "List.find (\<lambda>n. n_id n = i) ns")
  case None
  with fold_kind_lookup [OF assms, of fmempty i] show ?thesis
    by (auto simp: kind_table_def find_None_iff)
next
  case (Some n)
  have "n_id m = i \<longleftrightarrow> m = n" if "m \<in> set ns" for m
    using find_SomeD [OF Some] distinct_ids_eq [OF assms that] by auto
  with find_SomeD [OF Some] have "(\<exists>m \<in> set ns. n_id m = i \<and> n_kind m = k) \<longleftrightarrow> n_kind n = k" by blast
  with Some fold_kind_lookup [OF assms, of fmempty i] show ?thesis by (simp add: kind_table_def)
qed

lemma kind_table_dom: "distinct (map n_id ns) \<Longrightarrow> fmdom' (kind_table ns) = n_id ` set ns"
  by (auto simp: fmlookup_dom'_iff kind_table_iff image_iff) blast

lemma validate_edges_iff:
  "validate_edges k es pairs = Inr () \<longleftrightarrow>
     (\<forall>e \<in> set es. e_source e \<in> fmdom' k \<and> e_target e \<in> fmdom' k \<and>
        fmlookup k (e_source e) \<noteq> Some KCapability \<and> fmlookup k (e_target e) \<noteq> Some KCapability) \<and>
     distinct (map edge_pair es) \<and> edge_pair ` set es \<inter> pairs = {}"
  by (induction es arbitrary: pairs) (auto simp: bindR_Inr_iff)

text \<open>The text \<open>a->b\<close> determines the pair: a node id has no greater-than sign.\<close>

lemma edge_pair_inj:
  assumes "list_all name_char a" and "list_all name_char c"
    and "a @ ''->'' @ b = c @ ''->'' @ d"
  shows "a = c \<and> b = d"
proof -
  have g: "takeWhile (\<lambda>x. x \<noteq> CHR ''>'') (u @ ''->'' @ v) = u @ ''-'' \<and>
      dropWhile (\<lambda>x. x \<noteq> CHR ''>'') (u @ ''->'' @ v) = ''>'' @ v" if "list_all name_char u" for u v
  proof -
    have "\<not> name_char CHR ''>''" by code_simp
    with that have "\<forall>x \<in> set u. x \<noteq> CHR ''>''" by (auto simp: list_all_iff)
    then show ?thesis by simp
  qed
  from g [OF assms(1), of b] have a: "takeWhile (\<lambda>x. x \<noteq> CHR ''>'') (a @ ''->'' @ b) = a @ ''-''"
    "dropWhile (\<lambda>x. x \<noteq> CHR ''>'') (a @ ''->'' @ b) = ''>'' @ b" by blast+
  from g [OF assms(2), of d] have c: "takeWhile (\<lambda>x. x \<noteq> CHR ''>'') (c @ ''->'' @ d) = c @ ''-''"
    "dropWhile (\<lambda>x. x \<noteq> CHR ''>'') (c @ ''->'' @ d) = ''>'' @ d" by blast+
  from a c have "a @ ''-'' = c @ ''-''" "''>'' @ b = ''>'' @ d" unfolding assms(3) by metis+
  then show ?thesis by simp
qed

lemma edge_pairs_distinct:
  assumes "\<And>e. e \<in> set es \<Longrightarrow> list_all name_char (e_source e)"
  shows "distinct (map edge_pair es) \<longleftrightarrow> distinct (map (\<lambda>e. (e_source e, e_target e)) es)"
proof -
  let ?g = "\<lambda>(a, b). a @ ''->'' @ b"
  have m: "map edge_pair es = map ?g (map (\<lambda>e. (e_source e, e_target e)) es)"
    by (simp add: edge_pair_def)
  have "inj_on ?g (set (map (\<lambda>e. (e_source e, e_target e)) es))"
  proof (rule inj_onI)
    fix x y
    assume x: "x \<in> set (map (\<lambda>e. (e_source e, e_target e)) es)"
      and y: "y \<in> set (map (\<lambda>e. (e_source e, e_target e)) es)" and eq: "?g x = ?g y"
    from x y have n: "list_all name_char (fst x)" "list_all name_char (fst y)" using assms by auto
    from edge_pair_inj [OF n] eq show "x = y" by (cases x; cases y) simp
  qed
  then show ?thesis unfolding m distinct_map by simp
qed

lemma cap_ports_lookup:
  assumes "distinct (map n_id (wf_nodes w))"
  shows "fmlookup (cap_ports w) i = Some ps \<longleftrightarrow>
    (\<exists>n \<in> set (wf_nodes w). n_id n = i \<and> n_capability_ports n \<noteq> [] \<and> ps = set (map cp_key (n_capability_ports n)))"
proof -
  let ?f = "\<lambda>n m. if n_capability_ports n = [] then m
    else fmupd (n_id n) (set (map cp_key (n_capability_ports n))) m"
  have "fmlookup (fold ?f ns m) i = Some ps \<longleftrightarrow>
    (\<exists>n \<in> set ns. n_id n = i \<and> n_capability_ports n \<noteq> [] \<and> ps = set (map cp_key (n_capability_ports n))) \<or>
    (\<forall>n \<in> set ns. n_id n = i \<longrightarrow> n_capability_ports n = []) \<and> fmlookup m i = Some ps"
    if "distinct (map n_id ns)" for ns and m :: "(string, string set) fmap"
    using that
  proof (induction ns arbitrary: m)
    case Nil
    then show ?case by simp
  next
    case (Cons n ns)
    have "n_id x \<noteq> n_id n" if "x \<in> set ns" for x
      using Cons.prems that by (metis distinct.simps(2) image_eqI list.simps(9) set_map)
    with Cons show ?case by auto
  qed
  from this [OF assms, of fmempty] show ?thesis by (simp add: cap_ports_def)
qed

lemma validate_capability_edges_iff:
  "validate_capability_edges k ports ces = Inr () \<longleftrightarrow>
     (\<forall>ce \<in> set ces. ce_source_node_id ce \<in> fmdom' k \<and> ce_target_node_id ce \<in> fmdom' k \<and>
        fmlookup k (ce_source_node_id ce) = Some KCapability \<and>
        (\<exists>ps. fmlookup ports (ce_target_node_id ce) = Some ps \<and> ce_target_port_key ce \<in> ps))"
  by (induction ces) (auto simp: bindR_Inr_iff split: option.splits)

section \<open>Exactly the well-formed workflows pass\<close>

definition well_formed :: "workflow \<Rightarrow> bool" where
  "well_formed w \<longleftrightarrow>
     (let kind = (\<lambda>i. map_option n_kind (node_by_id w i)) in
     (\<forall>n \<in> set (wf_nodes w). node_ok n) \<and> distinct (map n_id (wf_nodes w)) \<and>
     (\<exists>n \<in> set (wf_nodes w). n_kind n \<noteq> KCapability) \<and>
     (\<forall>e \<in> set (wf_edges w). kind (e_source e) \<in> {Some KTrigger, Some KAction} \<and> kind (e_target e) = Some KAction) \<and>
     distinct (map (\<lambda>e. (e_source e, e_target e)) (wf_edges w)) \<and>
     acyclic (edge_rel (wf_edges w)) \<and>
     (\<forall>ce \<in> set (wf_capability_edges w). kind (ce_source_node_id ce) = Some KCapability \<and>
        (\<exists>n. node_by_id w (ce_target_node_id ce) = Some n \<and>
             ce_target_port_key ce \<in> cp_key ` set (n_capability_ports n))))"

lemma kind_table_by_id:
  assumes "distinct (map n_id (wf_nodes w))"
  shows "fmlookup (kind_table (wf_nodes w)) i = map_option n_kind (node_by_id w i)"
  unfolding kind_table_def fold_kind_lookup [OF assms] node_by_id_def
  by (simp split: option.split)

lemma in_dom_by_id:
  "distinct (map n_id (wf_nodes w)) \<Longrightarrow>
     i \<in> fmdom' (kind_table (wf_nodes w)) \<longleftrightarrow> (\<exists>k. map_option n_kind (node_by_id w i) = Some k)"
  unfolding fmlookup_dom'_iff kind_table_by_id ..

lemma kind_of_iff:
  assumes "distinct (map n_id (wf_nodes w))"
  shows "map_option n_kind (node_by_id w i) = Some k \<longleftrightarrow> (\<exists>n \<in> set (wf_nodes w). n_id n = i \<and> n_kind n = k)"
  unfolding kind_table_by_id [OF assms, symmetric] kind_table_iff [OF assms] ..

lemma edges_stage:
  assumes d: "distinct (map n_id (wf_nodes w))" and ok: "\<forall>n \<in> set (wf_nodes w). node_ok n"
  shows "validate_edges (kind_table (wf_nodes w)) (wf_edges w) {} = Inr () \<and> validate_triggers w = Inr () \<longleftrightarrow>
    (\<forall>e \<in> set (wf_edges w). map_option n_kind (node_by_id w (e_source e)) \<in> {Some KTrigger, Some KAction} \<and>
       map_option n_kind (node_by_id w (e_target e)) = Some KAction) \<and>
    distinct (map (\<lambda>e. (e_source e, e_target e)) (wf_edges w))"
proof -
  let ?kind = "\<lambda>i. map_option n_kind (node_by_id w i)"
  have k: "(\<exists>k. ?kind i = Some k) \<and> ?kind i \<noteq> Some KCapability \<longleftrightarrow> ?kind i \<in> {Some KTrigger, Some KAction}" for i
    by (cases "?kind i") (auto, metis node_kind.exhaust)
  have t: "validate_triggers w = Inr () \<longleftrightarrow> (\<forall>e \<in> set (wf_edges w). ?kind (e_target e) \<noteq> Some KTrigger)"
    unfolding kind_of_iff [OF d] by (auto simp: validate_triggers_def list_ex_iff image_iff)
  have p: "distinct (map edge_pair (wf_edges w)) \<longleftrightarrow> distinct (map (\<lambda>e. (e_source e, e_target e)) (wf_edges w))"
    if "\<forall>e \<in> set (wf_edges w). \<exists>k. ?kind (e_source e) = Some k"
  proof (rule edge_pairs_distinct)
    fix e assume "e \<in> set (wf_edges w)"
    with that obtain k where "?kind (e_source e) = Some k" by blast
    then obtain n where "n \<in> set (wf_nodes w)" "n_id n = e_source e" unfolding kind_of_iff [OF d] by blast
    with ok show "list_all name_char (e_source e)" by (auto simp: node_ok_def)
  qed
  show ?thesis
    unfolding validate_edges_iff t in_dom_by_id [OF d] kind_table_by_id [OF d]
    using p k by fastforce
qed

lemma caps_stage:
  assumes d: "distinct (map n_id (wf_nodes w))"
  shows "validate_capability_edges (kind_table (wf_nodes w)) (cap_ports w) (wf_capability_edges w) = Inr () \<longleftrightarrow>
    (\<forall>ce \<in> set (wf_capability_edges w).
       map_option n_kind (node_by_id w (ce_source_node_id ce)) = Some KCapability \<and>
       (\<exists>n. node_by_id w (ce_target_node_id ce) = Some n \<and>
            ce_target_port_key ce \<in> cp_key ` set (n_capability_ports n)))"
proof -
  have "(\<exists>ps. fmlookup (cap_ports w) i = Some ps \<and> p \<in> ps) \<longleftrightarrow>
      (\<exists>n. node_by_id w i = Some n \<and> p \<in> cp_key ` set (n_capability_ports n))" for i p
    unfolding cap_ports_lookup [OF d]
    using node_by_id_distinct [OF d] node_by_id_SomeD [of w i] by fastforce
  then show ?thesis
    unfolding validate_capability_edges_iff in_dom_by_id [OF d] kind_table_by_id [OF d] by fastforce
qed

lemma nodes_stage:
  "validate_nodes (wf_nodes w) fmempty = Inr k \<longleftrightarrow>
     (\<forall>n \<in> set (wf_nodes w). node_ok n) \<and> distinct (map n_id (wf_nodes w)) \<and> k = kind_table (wf_nodes w)"
  unfolding validate_nodes_iff kind_table_def by simp

lemma edges_in_non_cap:
  assumes d: "distinct (map n_id (wf_nodes w))"
    and e: "\<forall>e \<in> set (wf_edges w). map_option n_kind (node_by_id w (e_source e)) \<in> {Some KTrigger, Some KAction} \<and>
       map_option n_kind (node_by_id w (e_target e)) = Some KAction"
  shows "edge_rel (wf_edges w) \<subseteq> set (non_cap_ids w) \<times> set (non_cap_ids w)"
proof -
  have "i \<in> set (non_cap_ids w)" if "map_option n_kind (node_by_id w i) \<in> {Some KTrigger, Some KAction}" for i
    using that unfolding non_cap_ids_iff [OF d] insert_iff kind_of_iff [OF d] by auto
  with e show ?thesis by (auto simp: edge_rel_def)
qed

lemma validate_workflow_wf: "validate_workflow w = Inr () \<longleftrightarrow> well_formed w"
proof (cases "(\<forall>n \<in> set (wf_nodes w). node_ok n) \<and> distinct (map n_id (wf_nodes w)) \<and>
    validate_edges (kind_table (wf_nodes w)) (wf_edges w) {} = Inr () \<and> validate_triggers w = Inr ()")
  case False
  have "validate_workflow w \<noteq> Inr ()"
    using False by (auto simp: validate_workflow_def bindR_Inr_iff nodes_stage)
  moreover have "\<not> well_formed w"
  proof
    assume "well_formed w"
    then have d: "distinct (map n_id (wf_nodes w))" "\<forall>n \<in> set (wf_nodes w). node_ok n"
      and "\<forall>e \<in> set (wf_edges w). map_option n_kind (node_by_id w (e_source e)) \<in> {Some KTrigger, Some KAction} \<and>
        map_option n_kind (node_by_id w (e_target e)) = Some KAction"
      and "distinct (map (\<lambda>e. (e_source e, e_target e)) (wf_edges w))"
      unfolding well_formed_def Let_def by blast+
    with edges_stage [OF d] False show False by blast
  qed
  ultimately show ?thesis by simp
next
  case True
  then have d: "distinct (map n_id (wf_nodes w))" and ok: "\<forall>n \<in> set (wf_nodes w). node_ok n"
    and e: "validate_edges (kind_table (wf_nodes w)) (wf_edges w) {} = Inr ()" "validate_triggers w = Inr ()"
    by blast+
  from edges_stage [OF d ok] e have ek:
    "\<forall>e \<in> set (wf_edges w). map_option n_kind (node_by_id w (e_source e)) \<in> {Some KTrigger, Some KAction} \<and>
       map_option n_kind (node_by_id w (e_target e)) = Some KAction"
    "distinct (map (\<lambda>e. (e_source e, e_target e)) (wf_edges w))" by blast+
  note inn = edges_in_non_cap [OF d ek(1)]
  have en: "entry_nodes w \<noteq> [] \<longleftrightarrow> (\<exists>n \<in> set (wf_nodes w). n_kind n \<noteq> KCapability)"
    if "acyclic (edge_rel (wf_edges w))"
  proof -
    have "set (map n_id (entry_nodes w)) = {} \<longleftrightarrow> set (non_cap_ids w) = {}"
      
    proof -
      have "X = {} \<longleftrightarrow> (edge_rel (wf_edges w))\<^sup>* `` X = {}" for X by auto
      then show ?thesis unfolding entry_reaches [OF d inn that, symmetric] .
    qed
    then have "entry_nodes w \<noteq> [] \<longleftrightarrow> (\<exists>i. i \<in> set (non_cap_ids w))" by (simp add: ex_in_conv)
    then show ?thesis unfolding non_cap_ids_iff [OF d] by blast
  qed
  show ?thesis
  proof (cases "acyclic (edge_rel (wf_edges w))")
    case ac: True
    have "validate_workflow w = Inr () \<longleftrightarrow> wf_nodes w \<noteq> [] \<and> entry_nodes w \<noteq> [] \<and>
        validate_capability_edges (kind_table (wf_nodes w)) (cap_ports w) (wf_capability_edges w) = Inr ()"
      unfolding validate_workflow_def bindR_Inr_iff nodes_stage
      using d ok e ac detect_cycles_exact [OF inn] check_connectivity_ok [OF d inn ac] by auto
    also have "\<dots> \<longleftrightarrow> well_formed w"
      unfolding well_formed_def Let_def en [OF ac] caps_stage [OF d] using d ok ek ac by auto
    finally show ?thesis .
  next
    case False
    then show ?thesis
      unfolding validate_workflow_def bindR_Inr_iff well_formed_def Let_def detect_cycles_exact [OF inn] by auto
  qed
qed

text \<open>
  C1. Validation accepts exactly the well-formed workflows: every node has a safe id, a
  known plugin prefix and bounded expressions, ids are distinct, some node is not a capability
  node, every edge joins two existing nodes, starts at no capability node and ends at an action
  node, no pair is joined twice, the edges have no cycle, and every capability edge goes from a
  capability node to a declared port.
\<close>

theorem validate_workflow_iff: "validate_workflow w = Inr () \<longleftrightarrow> well_formed w"
  by (rule validate_workflow_wf)

text \<open>
The error \<open>Disconnected\<close> never occurs: when the cycle search has passed, every
  non-capability node is reached from an entry node, so the connectivity check cannot fail.
\<close>

theorem never_disconnected: "validate_workflow w \<noteq> Inl Disconnected"
proof
  assume a: "validate_workflow w = Inl Disconnected"
  have cel: "validate_input_mapping_cel_lengths n \<noteq> Inl Disconnected" for n
    by (auto simp: validate_input_mapping_cel_lengths_def bindR_Inl_iff split: option.splits)
  have ids: "validate_node_id i \<noteq> Inl Disconnected" "validate_plugin_ref i \<noteq> Inl Disconnected" for i
    by (simp_all add: validate_node_id_def validate_plugin_ref_def)
  have nk: "validate_node_kind n \<noteq> Inl Disconnected" for n
    by (cases "n_kind n") (simp_all add: validate_node_kind_def)
  have "validate_nodes ns k \<noteq> Inl Disconnected" for ns k
    by (induction ns arbitrary: k) (auto simp: bindR_Inl_iff cel ids nk split: option.splits sum.splits)
  moreover have "validate_edges k es p \<noteq> Inl Disconnected" for k es p
    by (induction es arbitrary: p) (auto simp: bindR_Inl_iff)
  moreover have "validate_capability_edges k p ces \<noteq> Inl Disconnected" for k p ces
    by (induction ces) (auto simp: bindR_Inl_iff split: option.splits)
  moreover have "validate_triggers w \<noteq> Inl Disconnected" by (simp add: validate_triggers_def)
  ultimately obtain k where k: "validate_nodes (wf_nodes w) fmempty = Inr k"
    "validate_edges k (wf_edges w) {} = Inr ()" "validate_triggers w = Inr ()" and
    r: "detect_cycles w = Inl Disconnected \<or>
      detect_cycles w = Inr () \<and> check_connectivity w (entry_nodes w) = Inl Disconnected"
    using a unfolding validate_workflow_def bindR_Inl_iff by auto
  from k nodes_stage have d: "distinct (map n_id (wf_nodes w))"
    and ok: "\<forall>n \<in> set (wf_nodes w). node_ok n" and kk: "k = kind_table (wf_nodes w)" by blast+
  from edges_stage [OF d ok] k kk have inn: "edge_rel (wf_edges w) \<subseteq> set (non_cap_ids w) \<times> set (non_cap_ids w)"
    by (intro edges_in_non_cap [OF d]) blast
  from r detect_cycles_exact [OF inn] check_connectivity_ok [OF d inn] show False
    by (auto split: if_splits)
qed

text \<open>A workflow with two parallel branches is well formed; with a back edge it is rejected.\<close>

lemma diamond_well_formed: "well_formed diamond"
proof -
  have "node_ok (sample_node KAction i)" if "i \<in> {''a'', ''b'', ''c'', ''d''}" for i
  proof -
    have "validate_plugin_ref ''builtin:log'' = Inr ()" by code_simp
    moreover have "list_all name_char i" using that by (elim insertE) (simp_all, code_simp+)
    ultimately show ?thesis using that by (auto simp: node_ok_def MAX_NODE_ID_LEN_def)
  qed
  then have "\<forall>n \<in> set (wf_nodes diamond). node_ok n" by simp
  moreover have "wf_capability_edges diamond = []" by (simp add: diamond_def)
  ultimately show ?thesis
    using diamond_acyclic by (simp add: well_formed_def Let_def node_by_id_def diamond_edges)
qed

section \<open>Node configurations against schemas\<close>

text \<open>
  \<open>validate_node_configs\<close>. \<open>to_str\<close> is the \<open>Display\<close> of a JSON value that is not a string
  (serde_json). A later parameter with the same key replaces an earlier one in
  \<open>param_map\<close>.
\<close>

definition param_map :: "wf_node \<Rightarrow> (string, parameter) fmap" where
  "param_map n = fold (\<lambda>p m. fmupd (pa_key p) p m) (n_parameters n) fmempty"

definition missing_input :: "wf_node \<Rightarrow> field_schema \<Rightarrow> bool" where
  "missing_input n f =
     (let mapped = (case n_input_mapping n of None \<Rightarrow> {} | Some m \<Rightarrow> fmdom' m) in
      fs_required f \<and> fs_key f \<notin> mapped \<and> fs_default f = None)"

definition parameter_error :: "(json \<Rightarrow> string) \<Rightarrow> wf_node \<Rightarrow> field_schema \<Rightarrow> string list" where
  "parameter_error to_str n f =
     (case fmlookup (param_map n) (fs_key f) of
        None \<Rightarrow> if fs_required f \<and> fs_default f = None then [''required parameter is missing''] else []
      | Some p \<Rightarrow>
          if fs_enum f \<noteq> [] \<and> pa_mode p = PStatic then
            (case pa_value p of
               None \<Rightarrow> []
             | Some v \<Rightarrow>
                 let s = (case v of JString s \<Rightarrow> s | _ \<Rightarrow> to_str v) in
                 if s \<in> set (fs_enum f) then [] else [''parameter value is not one of the enum''])
          else [])"

definition node_config_errors :: "(json \<Rightarrow> string) \<Rightarrow> (string, node_schema) fmap \<Rightarrow> wf_node \<Rightarrow> string list" where
  "node_config_errors to_str schemas n =
     (case fmlookup schemas (n_plugin_ref n) of
        None \<Rightarrow> []
      | Some sc \<Rightarrow>
          concat (map (\<lambda>f. if missing_input n f then [''required input is missing''] else []) (ns_inputs sc)) @
          concat (map (parameter_error to_str n) (ns_parameters sc)))"

definition validate_node_configs :: "(json \<Rightarrow> string) \<Rightarrow> workflow \<Rightarrow> (string, node_schema) fmap \<Rightarrow> unit result" where
  "validate_node_configs to_str w schemas =
     (let errs = concat (map (node_config_errors to_str schemas) (wf_nodes w)) in
      if errs = [] then Inr () else Inl (InvalidNodeConfig (join_str ''; '' errs)))"

definition configs_ok :: "(json \<Rightarrow> string) \<Rightarrow> workflow \<Rightarrow> (string, node_schema) fmap \<Rightarrow> bool" where
  "configs_ok to_str w schemas \<longleftrightarrow>
     (\<forall>n \<in> set (wf_nodes w). \<forall>sc. fmlookup schemas (n_plugin_ref n) = Some sc \<longrightarrow>
        (\<forall>f \<in> set (ns_inputs sc). fs_required f \<longrightarrow> fs_default f \<noteq> None \<or>
           (\<exists>m. n_input_mapping n = Some m \<and> fmlookup m (fs_key f) \<noteq> None)) \<and>
        (\<forall>f \<in> set (ns_parameters sc).
           (fs_required f \<and> fs_default f = None \<longrightarrow> fmlookup (param_map n) (fs_key f) \<noteq> None) \<and>
           (\<forall>p v. fmlookup (param_map n) (fs_key f) = Some p \<and> fs_enum f \<noteq> [] \<and>
              pa_mode p = PStatic \<and> pa_value p = Some v \<longrightarrow>
              (case v of JString s \<Rightarrow> s | _ \<Rightarrow> to_str v) \<in> set (fs_enum f))))"

text \<open>
  The configuration check passes exactly when every node with a known schema has a
  mapping or default for each required input, a parameter or default for each required
  parameter, and, for each of its static parameters restricted to an enumeration, a listed
  value.
\<close>

theorem validate_node_configs_iff:
  "validate_node_configs to_str w schemas = Inr () \<longleftrightarrow> configs_ok to_str w schemas"
proof -
  have i: "\<not> missing_input n f \<longleftrightarrow> (fs_required f \<longrightarrow> fs_default f \<noteq> None \<or>
      (\<exists>m. n_input_mapping n = Some m \<and> fmlookup m (fs_key f) \<noteq> None))" for n f
    by (auto simp: missing_input_def Let_def fmlookup_dom'_iff split: option.splits)
  have p: "parameter_error to_str n f = [] \<longleftrightarrow>
      (fs_required f \<and> fs_default f = None \<longrightarrow> fmlookup (param_map n) (fs_key f) \<noteq> None) \<and>
      (\<forall>p v. fmlookup (param_map n) (fs_key f) = Some p \<and> fs_enum f \<noteq> [] \<and>
         pa_mode p = PStatic \<and> pa_value p = Some v \<longrightarrow>
         (case v of JString s \<Rightarrow> s | _ \<Rightarrow> to_str v) \<in> set (fs_enum f))" for n f
    by (auto simp: parameter_error_def Let_def split: option.splits)
  have n: "node_config_errors to_str schemas n = [] \<longleftrightarrow>
      (\<forall>sc. fmlookup schemas (n_plugin_ref n) = Some sc \<longrightarrow>
         (\<forall>f \<in> set (ns_inputs sc). \<not> missing_input n f) \<and>
         (\<forall>f \<in> set (ns_parameters sc). parameter_error to_str n f = []))" for n
    by (auto simp: node_config_errors_def split: option.split)
  have "validate_node_configs to_str w schemas = Inr () \<longleftrightarrow>
      (\<forall>n \<in> set (wf_nodes w). node_config_errors to_str schemas n = [])"
    by (auto simp: validate_node_configs_def Let_def)
  then show ?thesis unfolding n i p configs_ok_def .
qed

section \<open>Instances of the properties\<close>

theorem detect_cycles_exact_witness:
  "detect_cycles diamond = Inr () \<and>
   detect_cycles (sample_workflow (map (sample_node KAction) [''a'', ''b''])
     [sample_edge ''a'' ''b'', sample_edge ''b'' ''a'']) = Inl CycleDetected"
proof
  show "detect_cycles diamond = Inr ()"
    using detect_cycles_exact [of diamond] diamond_acyclic
    by (simp add: diamond_edge_rel non_cap_ids_def)
  let ?w = "sample_workflow (map (sample_node KAction) [''a'', ''b''])
    [sample_edge ''a'' ''b'', sample_edge ''b'' ''a'']"
  have e: "edge_rel (wf_edges ?w) = {(''a'', ''b''), (''b'', ''a'')}" by (simp add: edge_rel_def)
  have "(''a'', ''b'') \<in> edge_rel (wf_edges ?w)" "(''b'', ''a'') \<in> edge_rel (wf_edges ?w)" unfolding e by simp_all
  then have "(''a'', ''a'') \<in> (edge_rel (wf_edges ?w))\<^sup>+" by (rule trancl_into_trancl [OF r_into_trancl])
  then have "\<not> acyclic (edge_rel (wf_edges ?w))" unfolding acyclic_def by blast
  with detect_cycles_exact [of ?w] show "detect_cycles ?w = Inl CycleDetected"
    by (simp add: edge_rel_def non_cap_ids_def)
qed

end
