(* ===== verification/Migrate.thy ===== *)
theory Migrate
  imports Samples
begin

text \<open>
  Conversion of the deprecated \<open>Workflow.triggers\<close> list into trigger nodes,
  \<open>crates/orbflow-core/src/workflow.rs\<close>, \<open>migrate_legacy_triggers\<close>.
\<close>

definition trigger_plugin_ref :: "trigger_type \<Rightarrow> string" where
  "trigger_plugin_ref t = (case t of
       TManual \<Rightarrow> ''builtin:trigger-manual''
     | TSchedule \<Rightarrow> ''builtin:trigger-cron''
     | TWebhook \<Rightarrow> ''builtin:trigger-webhook''
     | TEvent \<Rightarrow> ''builtin:trigger-event'')"

definition trigger_name :: "trigger_type \<Rightarrow> string" where
  "trigger_name t = (case t of
       TManual \<Rightarrow> ''Manual Trigger'' | TSchedule \<Rightarrow> ''Schedule''
     | TWebhook \<Rightarrow> ''Webhook'' | TEvent \<Rightarrow> ''Event'')"

definition legacy_trigger_id :: "nat \<Rightarrow> string" where
  "legacy_trigger_id i = ''_trigger_'' @ nat_str i"

definition legacy_trigger_node :: "f64 \<Rightarrow> nat \<Rightarrow> trigger \<Rightarrow> wf_node" where
  "legacy_trigger_node base_x i t =
     \<lparr>n_id = legacy_trigger_id i, n_name = trigger_name (tr_type t), n_kind = KTrigger,
      n_type = Builtin, n_plugin_ref = trigger_plugin_ref (tr_type t),
      n_input_mapping = None, n_config = None, n_parameters = [], n_retry = None,
      n_compensate = None,
      n_position = \<lparr>pos_x = base_x, pos_y = f64_of_rat (of_nat i * 150)\<rparr>,
      n_capability_ports = [], n_metadata = None,
      n_trigger_config = Some
        \<lparr>tn_trigger_type = tr_type t, tn_cron = tc_cron (tr_config t),
         tn_event_name = tc_event_name (tr_config t), tn_path = tc_path (tr_config t)\<rparr>,
      n_requires_approval = False\<rparr>"

definition legacy_trigger_edges :: "string list \<Rightarrow> nat \<Rightarrow> edge list" where
  "legacy_trigger_edges entry_ids i =
     map (\<lambda>en. \<lparr>e_id = ''_trigger_edge_'' @ nat_str i @ ''_'' @ en,
                e_source = legacy_trigger_id i, e_target = en, e_condition = None\<rparr>) entry_ids"

definition migrate_legacy_triggers :: "workflow \<Rightarrow> workflow" where
  "migrate_legacy_triggers w =
     (if trigger_nodes w \<noteq> [] \<or> wf_triggers w = [] then w
      else
        let entry_ids = map n_id (entry_nodes w);
            base_x = (case entry_nodes w of [] \<Rightarrow> F 0
                      | n # _ \<Rightarrow> f64_sub (pos_x (n_position n)) (F 250)) in
        fold (\<lambda>(i, t) v.
               v\<lparr>wf_nodes := wf_nodes v @ [legacy_trigger_node base_x i t],
                 wf_edges := wf_edges v @ legacy_trigger_edges entry_ids i\<rparr>)
          (enumerate 0 (wf_triggers w)) w)"

section \<open>Properties\<close>

lemma legacy_trigger_id_inject [simp]: "legacy_trigger_id i = legacy_trigger_id j \<longleftrightarrow> i = j"
  by (simp add: legacy_trigger_id_def)

lemma migrate_fold:
  "fold (\<lambda>(i, t) v.
       v\<lparr>wf_nodes := wf_nodes v @ [nd i t], wf_edges := wf_edges v @ es i\<rparr>) its v =
     v\<lparr>wf_nodes := wf_nodes v @ map (\<lambda>(i, t). nd i t) its,
       wf_edges := wf_edges v @ concat (map (\<lambda>(i, t). es i) its)\<rparr>"
  by (induction its arbitrary: v) (auto split: prod.split)

lemma migrate_legacy_triggers_eq:
  assumes "trigger_nodes w = []" and "wf_triggers w \<noteq> []"
  shows "\<exists>base_x. migrate_legacy_triggers w =
    w\<lparr>wf_nodes := wf_nodes w @ map (\<lambda>(i, t). legacy_trigger_node base_x i t) (enumerate 0 (wf_triggers w)),
      wf_edges := wf_edges w @
        concat (map (\<lambda>(i, t). legacy_trigger_edges (map n_id (entry_nodes w)) i) (enumerate 0 (wf_triggers w)))\<rparr>"
  using assms by (auto simp: migrate_legacy_triggers_def Let_def migrate_fold)

text \<open>
  Migration is idempotent: once the legacy triggers are nodes, running it again (every
  load of a workflow may) changes nothing.
\<close>

theorem migrate_idempotent:
  "migrate_legacy_triggers (migrate_legacy_triggers w) = migrate_legacy_triggers w"
proof (cases "trigger_nodes w \<noteq> [] \<or> wf_triggers w = []")
  case True
  then show ?thesis by (simp add: migrate_legacy_triggers_def)
next
  case False
  then have f: "trigger_nodes w = []" "wf_triggers w \<noteq> []" by auto
  from migrate_legacy_triggers_eq [OF f] obtain b where m: "migrate_legacy_triggers w =
    w\<lparr>wf_nodes := wf_nodes w @ map (\<lambda>(i, t). legacy_trigger_node b i t) (enumerate 0 (wf_triggers w)),
      wf_edges := wf_edges w @
        concat (map (\<lambda>(i, t). legacy_trigger_edges (map n_id (entry_nodes w)) i) (enumerate 0 (wf_triggers w)))\<rparr>" ..
  from f(2) obtain t ts where "wf_triggers w = t # ts" by (cases "wf_triggers w") auto
  then have "trigger_nodes (migrate_legacy_triggers w) \<noteq> []"
    unfolding m by (simp add: trigger_nodes_def legacy_trigger_node_def)
  then show ?thesis
    by (subst migrate_legacy_triggers_def) simp
qed

text \<open>
  What migration adds: when the workflow has legacy triggers and no trigger node, the old
  nodes and edges stay in place, one trigger node per legacy trigger is appended, in order and
  with distinct ids, and after it every trigger has an edge to every node that was an entry
  node before, and no other edge is added.
\<close>

theorem migrate_connects_entries:
  assumes "trigger_nodes w = []" and "wf_triggers w \<noteq> []"
  shows "\<exists>ns. wf_nodes (migrate_legacy_triggers w) = wf_nodes w @ ns \<and>
    map n_id ns = map legacy_trigger_id [0..<length (wf_triggers w)] \<and> distinct (map n_id ns) \<and>
    map (map_option tn_trigger_type \<circ> n_trigger_config) ns = map (Some \<circ> tr_type) (wf_triggers w) \<and>
    trigger_nodes (migrate_legacy_triggers w) = ns \<and>
    edge_rel (wf_edges (migrate_legacy_triggers w)) =
      edge_rel (wf_edges w) \<union> (n_id ` set ns) \<times> (n_id ` set (entry_nodes w))"
proof -
  from migrate_legacy_triggers_eq [OF assms] obtain b where m: "migrate_legacy_triggers w =
    w\<lparr>wf_nodes := wf_nodes w @ map (\<lambda>(i, t). legacy_trigger_node b i t) (enumerate 0 (wf_triggers w)),
      wf_edges := wf_edges w @
        concat (map (\<lambda>(i, t). legacy_trigger_edges (map n_id (entry_nodes w)) i) (enumerate 0 (wf_triggers w)))\<rparr>" ..
  let ?its = "enumerate 0 (wf_triggers w)"
  let ?ns = "map (\<lambda>(i, t). legacy_trigger_node b i t) ?its"
  have idl: "n_id (legacy_trigger_node b i t) = legacy_trigger_id i" for i t
    by (simp add: legacy_trigger_node_def)
  have ids: "map n_id ?ns = map legacy_trigger_id [0..<length (wf_triggers w)]"
    by (simp add: comp_def case_prod_unfold idl flip: map_map [unfolded comp_def, of legacy_trigger_id fst])
  moreover have "distinct (map n_id ?ns)"
    unfolding ids by (simp add: distinct_map inj_on_def)
  moreover have "map (map_option tn_trigger_type \<circ> n_trigger_config) ?ns = map (Some \<circ> tr_type) (wf_triggers w)"
  proof -
    have "map (map_option tn_trigger_type \<circ> n_trigger_config) ?ns = map (Some \<circ> tr_type \<circ> snd) ?its"
      by (auto simp: legacy_trigger_node_def)
    also have "\<dots> = map (Some \<circ> tr_type) (wf_triggers w)" by (simp flip: map_map)
    finally show ?thesis .
  qed
  moreover have "trigger_nodes (migrate_legacy_triggers w) = ?ns"
  proof -
    have "filter (\<lambda>n. n_kind n = KTrigger) ?ns = ?ns"
      by (auto simp: filter_id_conv legacy_trigger_node_def)
    with assms(1) show ?thesis unfolding m by (simp add: trigger_nodes_def)
  qed
  moreover have "edge_rel (wf_edges (migrate_legacy_triggers w)) =
      edge_rel (wf_edges w) \<union> (n_id ` set ?ns) \<times> (n_id ` set (entry_nodes w))"
  proof -
    have e: "edge_rel (legacy_trigger_edges xs i) = {legacy_trigger_id i} \<times> set xs" for xs i
      by (auto simp: edge_rel_def legacy_trigger_edges_def image_image)
    have u: "edge_rel (xs @ concat yss) = edge_rel xs \<union> (\<Union>ys \<in> set yss. edge_rel ys)" for xs yss
      by (auto simp: edge_rel_def)
    have n: "n_id ` set ?ns = (\<Union>x \<in> set ?its. {legacy_trigger_id (fst x)})"
      unfolding set_map image_image UNION_singleton_eq_range
      by (rule image_cong) (auto simp: idl)
    have c: "edge_rel (case x of (i, t) \<Rightarrow> legacy_trigger_edges xs i) = {legacy_trigger_id (fst x)} \<times> set xs"
      for x :: "nat \<times> trigger" and xs
      by (cases x) (simp add: e)
    show ?thesis unfolding m n by (simp add: u c flip: UN_Times_distrib) blast
  qed
  ultimately show ?thesis unfolding m by simp
qed

text \<open>A workflow with one node and two legacy triggers.\<close>

definition legacy_workflow :: workflow where
  "legacy_workflow = (sample_workflow [sample_node KAction ''a''] [])
     \<lparr>wf_triggers := [\<lparr>tr_type = TManual, tr_config = \<lparr>tc_cron = None, tc_event_name = None, tc_path = None\<rparr>\<rparr>,
                      \<lparr>tr_type = TSchedule, tr_config = \<lparr>tc_cron = Some ''0 * * * *'', tc_event_name = None, tc_path = None\<rparr>\<rparr>]\<rparr>"

theorem migrate_connects_entries_witness:
  "map n_id (trigger_nodes (migrate_legacy_triggers legacy_workflow)) = [''_trigger_0'', ''_trigger_1''] \<and>
   (''_trigger_1'', ''a'') \<in> edge_rel (wf_edges (migrate_legacy_triggers legacy_workflow))"
proof -
  have t: "trigger_nodes legacy_workflow = []"
    by (simp add: legacy_workflow_def trigger_nodes_def sample_workflow_def)
  have l: "length (wf_triggers legacy_workflow) = 2"
    by (simp add: legacy_workflow_def)
  then have l0: "wf_triggers legacy_workflow \<noteq> []" by auto
  have en: "n_id ` set (entry_nodes legacy_workflow) = {''a''}"
    by (simp add: entry_nodes_def legacy_workflow_def sample_workflow_def)
  have ids: "map legacy_trigger_id [0..<2] = [''_trigger_0'', ''_trigger_1'']"
    by code_simp
  from migrate_connects_entries [OF t l0] l en obtain ns where
    n: "trigger_nodes (migrate_legacy_triggers legacy_workflow) = ns" "map n_id ns = [''_trigger_0'', ''_trigger_1'']"
    and r: "edge_rel (wf_edges (migrate_legacy_triggers legacy_workflow)) =
      edge_rel (wf_edges legacy_workflow) \<union> (n_id ` set ns) \<times> {''a''}" unfolding ids [symmetric] by metis
  have "n_id ` set ns = set (map n_id ns)" by simp
  with n(2) have "''_trigger_1'' \<in> n_id ` set ns" by simp
  with n r show ?thesis by simp
qed

lemma migrate_id [simp]: "wf_id (migrate_legacy_triggers w) = wf_id w"
proof -
  have "wf_id (fold (\<lambda>(i, t) v. v\<lparr>wf_nodes := f i t v, wf_edges := h i v\<rparr>) xs w) = wf_id w"
    for xs :: "(nat \<times> trigger) list" and f h
    by (induction xs arbitrary: w) auto
  then show ?thesis by (simp add: migrate_legacy_triggers_def Let_def)
qed

end
