(* ===== verification/Lifecycle.thy ===== *)
theory Lifecycle
  imports ResultFlow Validate Migrate
begin

text \<open>
  The \<open>Engine\<close> trait, \<open>crates/orbflow-engine/src/engine.rs\<close>, and crash recovery,
  \<open>crates/orbflow-engine/src/resume.rs\<close>: registration of node types, creation and update of
  workflows, start, cancellation, approval and rejection, and the resumption of running
  instances. A registry lock is never poisoned here, since no handler panics while holding it.
\<close>

section \<open>Registries\<close>

definition register_node :: "string \<Rightarrow> 'w executor \<Rightarrow> ('w engine, unit) act" where
  "register_node name executor g =
     (if blank name then (Inl EmptyNodeKind, g)
      else if fmlookup (eg_nodes g) name \<noteq> None then (Inl (DuplicateNodeKind name), g)
      else (Inr (), g\<lparr>eg_nodes := fmupd name executor (eg_nodes g)\<rparr>))"

definition register_schema :: "string \<Rightarrow> node_schema \<Rightarrow> 'w engine \<Rightarrow> 'w engine" where
  "register_schema name sc g = g\<lparr>eg_schemas := fmupd name sc (eg_schemas g)\<rparr>"

definition unregister_schema :: "string \<Rightarrow> 'w engine \<Rightarrow> 'w engine" where
  "unregister_schema name g = g\<lparr>eg_schemas := fmdrop name (eg_schemas g)\<rparr>"

definition register_node_with_schema :: "string \<Rightarrow> 'w executor \<Rightarrow> node_schema \<Rightarrow> ('w engine, unit) act" where
  "register_node_with_schema name executor sc =
     seqE (register_node name executor) (modifyE (register_schema name sc))"

definition node_schemas :: "'w engine \<Rightarrow> node_schema list" where
  "node_schemas g = fm_values (eg_schemas g)"

definition node_schema_refs :: "'w engine \<Rightarrow> string list" where
  "node_schema_refs g = map fst (fm_items (eg_schemas g))"

section \<open>Workflows\<close>

definition capability_edge_typed :: "(string, node_schema) fmap \<Rightarrow> workflow \<Rightarrow> capability_edge \<Rightarrow> bool" where
  "capability_edge_typed schemas w ce =
     (case node_by_id w (ce_source_node_id ce) of
        None \<Rightarrow> True
      | Some source \<Rightarrow>
          (case fmlookup schemas (n_plugin_ref source) of
             None \<Rightarrow> True
           | Some sc \<Rightarrow>
               (case node_by_id w (ce_target_node_id ce) of
                  None \<Rightarrow> True
                | Some target \<Rightarrow>
                    (case List.find (\<lambda>p. cp_key p = ce_target_port_key ce) (n_capability_ports target) of
                       None \<Rightarrow> True
                     | Some p \<Rightarrow> ns_provides_capability sc = Some (cp_capability_type p)))))"

definition validate_capability_types :: "(string, node_schema) fmap \<Rightarrow> workflow \<Rightarrow> unit result" where
  "validate_capability_types schemas w =
     rejectR (\<not> list_all (capability_edge_typed schemas w) (wf_capability_edges w)) InvalidCapabilityEdge"

definition port_connected :: "workflow \<Rightarrow> wf_node \<Rightarrow> capability_port \<Rightarrow> bool" where
  "port_connected w n p =
     list_ex (\<lambda>ce. ce_target_node_id ce = n_id n \<and> ce_target_port_key ce = cp_key p) (wf_capability_edges w)"

definition validate_required_capabilities :: "workflow \<Rightarrow> unit result" where
  "validate_required_capabilities w =
     rejectR (\<not> list_all (\<lambda>n. list_all (\<lambda>p. cp_required p \<longrightarrow> port_connected w n p) (n_capability_ports n)) (wf_nodes w))
       MissingCapability"

definition check_definition :: "(string, node_schema) fmap \<Rightarrow> workflow \<Rightarrow> unit result" where
  "check_definition schemas w =
     bindR (validate_workflow w) (\<lambda>_.
     bindR (validate_capability_types schemas w) (\<lambda>_.
     validate_required_capabilities w))"

definition nowG :: "'w engine_env \<Rightarrow> ('w engine, int) act" where
  "nowG env = portG (\<lambda>w. case ee_now env w of (t, w') \<Rightarrow> (Inr t, w'))"

definition uuidG :: "'w engine_env \<Rightarrow> ('w engine, string) act" where
  "uuidG env = portG (\<lambda>w. case ee_uuid env w of (i, w') \<Rightarrow> (Inr i, w'))"

definition create_workflow :: "'w engine_env \<Rightarrow> workflow \<Rightarrow> ('w engine, unit) act" where
  "create_workflow env wf0 =
     bindE (if wf_id wf0 = [] then bindE (uuidG env) (\<lambda>i. ret (wf0\<lparr>wf_id := i\<rparr>)) else ret wf0) (\<lambda>wf1.
     let w = migrate_legacy_triggers wf1 in
     bindE (getsE eg_schemas) (\<lambda>schemas.
     bindE (liftR (check_definition schemas w)) (\<lambda>_.
     bindE (nowG env) (\<lambda>now.
     portG (ee_create_workflow env (w\<lparr>wf_version := 1,
       wf_status := (if wf_status w = Draft then Active else wf_status w),
       wf_created_at := now, wf_updated_at := now\<rparr>))))))"

definition update_workflow :: "'w engine_env \<Rightarrow> workflow \<Rightarrow> ('w engine, unit) act" where
  "update_workflow env wf0 =
     bindE (portG (ee_get_workflow env (wf_id wf0))) (\<lambda>existing.
     let w = migrate_legacy_triggers wf0 in
     bindE (getsE eg_schemas) (\<lambda>schemas.
     bindE (liftR (check_definition schemas w)) (\<lambda>_.
     case ee_encode_workflow env existing of
       Inl e \<Rightarrow> raise (Internal (''serialize workflow for version snapshot: '' @ e))
     | Inr d \<Rightarrow>
         seqE (portG (ee_save_workflow_version env
           \<lparr>wv_version = wf_version existing, wv_workflow_id = wf_id existing, wv_definition = d,
            wv_author = None, wv_message = None, wv_created_at = wf_updated_at existing\<rparr>))
         (bindE (nowG env) (\<lambda>now.
          portG (ee_update_workflow env (w\<lparr>wf_version := wf_version existing + 1,
            wf_created_at := wf_created_at existing, wf_updated_at := now\<rparr>)))))))"

section \<open>Starting\<close>

definition initial_state :: "wf_node \<Rightarrow> node_state" where
  "initial_state n =
     \<lparr>st_node_id = n_id n, st_status = NPending, st_input = None, st_output = None,
      st_parameters = None, st_error = None, st_attempt = 0, st_started_at = None, st_ended_at = None\<rparr>"

definition new_instance :: "workflow \<Rightarrow> string \<Rightarrow> jmap \<Rightarrow> string option \<Rightarrow> int \<Rightarrow> wf_instance" where
  "new_instance w i input owner now =
     \<lparr>in_id = i, in_workflow_id = wf_id w, in_status = IRunning,
      in_node_states = fmap_of_list (rev (map (\<lambda>n. (n_id n, initial_state n)) (wf_nodes w))),
      in_context = context_new input, in_saga = None, in_parent_id = None, in_metrics = None,
      in_workflow_version = Some (wf_version w), in_owner_id = owner, in_version = 1,
      in_created_at = now, in_updated_at = now\<rparr>"

text \<open>All nodes are terminal right after the start.\<close>

definition complete_at_start :: "'w engine_env \<Rightarrow> ('w, unit) handler" where
  "complete_at_start env =
     seqE (upd_inst (\<lambda>i. i\<lparr>in_status := ICompleted\<rparr>))
     (bindE get_inst (\<lambda>inst.
     seqE (world (ee_sla_success env (in_workflow_id inst)))
     (bindE (check_sla env) (\<lambda>_.
     seqE (spawn_cost env)
          (log_event env 0 EvInstanceCompleted)))))"

definition start_body :: "'w engine_env \<Rightarrow> workflow \<Rightarrow> jmap \<Rightarrow> ('w, wf_instance) handler" where
  "start_body env w input =
     seqE (resolve_capabilities env w)
     (bindE (mark_triggers_completed env w input) (\<lambda>has_triggers.
     seqE (dispatch_initial_nodes env w has_triggers)
     (bindE get_inst (\<lambda>inst.
     seqE (if all_nodes_terminal inst \<and> in_status inst \<noteq> IFailed then complete_at_start env else ret ())
     (seqE (save_instance env) get_inst)))))"

definition check_start_budget :: "'w engine_env \<Rightarrow> string \<Rightarrow> ('w engine, unit) act" where
  "check_start_budget env workflow_id =
     (case ee_check_budget env of
        None \<Rightarrow> ret ()
      | Some check \<Rightarrow> tryE (portG (check workflow_id)) (\<lambda>found. liftR (check_budget_before_start found)))"

definition start_workflow_with_owner ::
  "'w engine_env \<Rightarrow> string \<Rightarrow> jmap \<Rightarrow> string option \<Rightarrow> ('w engine, wf_instance) act" where
  "start_workflow_with_owner env workflow_id input owner =
     (if (case owner of None \<Rightarrow> False | Some oid \<Rightarrow> blank oid)
      then raise (Forbidden ''workflow owner context must not be empty'')
      else
        bindE (portG (ee_get_workflow env workflow_id)) (\<lambda>w.
        bindE (getsE eg_schemas) (\<lambda>schemas.
        bindE (liftR (validate_node_configs (ee_json_str env) w schemas)) (\<lambda>_.
        seqE (check_start_budget env workflow_id)
        (bindE (nowG env) (\<lambda>now.
        bindE (uuidG env) (\<lambda>i.
        bindE (nowG env) (\<lambda>t.
        let inst = new_instance w i input owner now in
        seqE (portG (ee_create_instance_tx env inst
                (EvInstanceStarted (base_event_new (in_id inst) (in_version inst) t) input)))
             (with_inst inst (start_body env w input))))))))))"

definition start_workflow :: "'w engine_env \<Rightarrow> string \<Rightarrow> jmap \<Rightarrow> ('w engine, wf_instance) act" where
  "start_workflow env workflow_id input = start_workflow_with_owner env workflow_id input None"

definition start_workflow_for_owner ::
  "'w engine_env \<Rightarrow> string \<Rightarrow> jmap \<Rightarrow> string \<Rightarrow> ('w engine, wf_instance) act" where
  "start_workflow_for_owner env workflow_id input owner =
     start_workflow_with_owner env workflow_id input (Some owner)"

section \<open>Cancelling, approving, rejecting\<close>

definition cancel_node :: "node_state \<Rightarrow> node_state" where
  "cancel_node ns =
     (if st_status ns = NPending \<or> st_status ns = NQueued \<or> st_status ns = NRunning \<or>
         st_status ns = NWaitingApproval
      then ns\<lparr>st_status := NCancelled\<rparr> else ns)"

definition cancel_body :: "'w engine_env \<Rightarrow> ('w, unit) handler" where
  "cancel_body env =
     bindE get_inst (\<lambda>inst.
     if inst_terminal inst then raise InvalidStatus
     else bindE (nowE env) (\<lambda>now.
       seqE (upd_inst (\<lambda>i. i\<lparr>in_status := ICancelled, in_updated_at := now,
               in_node_states := fmmap cancel_node (in_node_states i)\<rparr>))
       (seqE (save_instance env)
             (log_event env 0 EvInstanceCancelled))))"

definition cancel_instance :: "'w engine_env \<Rightarrow> string \<Rightarrow> ('w engine, unit) act" where
  "cancel_instance env i =
     seqE (lock_instance i)
     (bindE (portG (ee_get_instance env i)) (\<lambda>inst. with_inst inst (cancel_body env)))"

text \<open>The checks \<open>approve_node\<close> and \<open>reject_node\<close> begin with.\<close>

definition require_waiting :: "string \<Rightarrow> ('w, unit) handler" where
  "require_waiting node_id =
     bindE get_inst (\<lambda>inst.
     if inst_terminal inst then raise InvalidStatus
     else bindE (get_node node_id NotFound) (\<lambda>ns.
       if st_status ns \<noteq> NWaitingApproval then raise InvalidStatus else ret ()))"

definition approve_body :: "'w engine_env \<Rightarrow> string \<Rightarrow> string option \<Rightarrow> ('w, unit) handler" where
  "approve_body env node_id approved_by =
     seqE (require_waiting node_id)
     (seqE (log_event env 1 (\<lambda>b. EvNodeApproved b node_id approved_by))
     (bindE get_inst (\<lambda>inst.
     bindE (port (ee_get_workflow env (in_workflow_id inst))) (\<lambda>w.
       case node_by_id w node_id of
         None \<Rightarrow> raise NotFound
       | Some node \<Rightarrow>
           seqE (upd_node node_id (\<lambda>ns. ns\<lparr>st_status := NQueued\<rparr>))
           (tryE (dispatch_node env w node) (\<lambda>r.
              case r of
                Inl e \<Rightarrow> seqE (dispatch_error_and_save env w node_id e) (raise e)
              | Inr _ \<Rightarrow> save_instance env))))))"

definition approve_node :: "'w engine_env \<Rightarrow> string \<Rightarrow> string \<Rightarrow> string option \<Rightarrow> ('w engine, unit) act" where
  "approve_node env i node_id approved_by =
     seqE (lock_instance i)
     (bindE (portG (ee_get_instance env i)) (\<lambda>inst. with_inst inst (approve_body env node_id approved_by)))"

definition reject_body :: "'w engine_env \<Rightarrow> string \<Rightarrow> string option \<Rightarrow> string option \<Rightarrow> ('w, unit) handler" where
  "reject_body env node_id reason rejected_by =
     seqE (require_waiting node_id)
     (seqE (log_event env 1 (\<lambda>b. EvNodeRejected b node_id reason rejected_by))
     (let msg = (case reason of None \<Rightarrow> ''rejected by reviewer'' | Some m \<Rightarrow> m) in
      bindE (nowE env) (\<lambda>now.
      seqE (upd_node node_id (\<lambda>ns. ns\<lparr>st_status := NFailed, st_error := Some msg, st_ended_at := Some now\<rparr>))
      (seqE (upd_inst (\<lambda>i. i\<lparr>in_status := IFailed\<rparr>))
      (seqE (log_event env 1 (\<lambda>b. EvInstanceFailed b (''node '' @ node_id @ '' rejected: '' @ msg)))
      (seqE (save_instance env) cleanup_instance))))))"

definition reject_node ::
  "'w engine_env \<Rightarrow> string \<Rightarrow> string \<Rightarrow> string option \<Rightarrow> string option \<Rightarrow> ('w engine, unit) act" where
  "reject_node env i node_id reason rejected_by =
     seqE (lock_instance i)
     (bindE (portG (ee_get_instance env i)) (\<lambda>inst. with_inst inst (reject_body env node_id reason rejected_by)))"

section \<open>Crash recovery\<close>

definition reset_node :: "workflow \<Rightarrow> string \<Rightarrow> node_state \<Rightarrow> node_state" where
  "reset_node w i ns =
     (if (st_status ns = NQueued \<or> st_status ns = NRunning) \<and> node_by_id w i \<noteq> None
      then ns\<lparr>st_attempt := st_attempt ns + 1, st_status := NPending\<rparr> else ns)"

text \<open>A dispatch that fails: the failure is recorded and, if that worked, saved.\<close>

definition resume_dispatch_error :: "'w engine_env \<Rightarrow> workflow \<Rightarrow> string \<Rightarrow> orbflow_error \<Rightarrow> ('w, unit) handler" where
  "resume_dispatch_error env w i e =
     tryE (handle_node_dispatch_error env w i e) (\<lambda>r.
       case r of Inl _ \<Rightarrow> ret () | Inr _ \<Rightarrow> logE (save_instance env))"

definition resume_nodes :: "'w engine_env \<Rightarrow> workflow \<Rightarrow> ('w, unit) handler" where
  "resume_nodes env w =
     seqE (upd_inst (\<lambda>i. i\<lparr>in_node_states := fmmap_keys (reset_node w) (in_node_states i)\<rparr>))
     (tryE (save_instance env) (\<lambda>r.
        case r of
          Inl _ \<Rightarrow> ret ()
        | Inr _ \<Rightarrow>
            bindE (ready_nodes env w) (\<lambda>ready.
            bindE (dispatch_each env w (resume_dispatch_error env w) ready) (\<lambda>ok.
              if ok \<and> ready \<noteq> [] then logE (save_instance env) else ret ()))))"

definition resume_body :: "'w engine_env \<Rightarrow> ('w, unit) handler" where
  "resume_body env =
     bindE get_inst (\<lambda>inst.
     if inst_terminal inst then ret ()
     else tryE (port (ee_get_workflow env (in_workflow_id inst))) (\<lambda>r.
       case r of
         Inl _ \<Rightarrow> ret ()
       | Inr w \<Rightarrow>
           if (case in_saga inst of None \<Rightarrow> False | Some sg \<Rightarrow> sg_compensating sg)
           then logE (resume_compensation env w)
           else resume_nodes env w))"

definition resume_one :: "'w engine_env \<Rightarrow> wf_instance \<Rightarrow> ('w engine, unit) act" where
  "resume_one env summary =
     seqE (lock_instance (in_id summary))
     (tryE (portG (ee_get_instance env (in_id summary))) (\<lambda>r.
        case r of Inl _ \<Rightarrow> ret () | Inr inst \<Rightarrow> with_inst inst (resume_body env)))"

definition resume_running :: "'w engine_env \<Rightarrow> ('w engine, unit) act" where
  "resume_running env = bindE (portG (ee_list_running env)) (\<lambda>insts. forE insts (resume_one env))"

end
