(* ===== verification/History.thy ===== *)
theory History
  imports Lifecycle
begin

text \<open>
  What the engine's operations leave of an instance's past. The owner, the workflow and the set of
  nodes of a stored instance never change, its version never goes back, a node that ended keeps
  its status for ever, and an operation on one instance does not touch another one: over any
  sequence of results, retries, cancellations, approvals, rejections and resumptions, failing
  ports, conflicts and merges included.
\<close>

section \<open>The relations\<close>

text \<open>\<open>new\<close> is a later state of the instance \<open>old\<close>.\<close>

definition ended :: "wf_instance \<Rightarrow> string \<Rightarrow> bool" where
  "ended inst i \<longleftrightarrow> (\<exists>t. status_of (in_node_states inst) i = Some t \<and> node_terminal t)"

definition attempt_of :: "wf_instance \<Rightarrow> string \<Rightarrow> int option" where
  "attempt_of inst i = map_option st_attempt (fmlookup (in_node_states inst) i)"

definition later_attempt :: "wf_instance \<Rightarrow> wf_instance \<Rightarrow> bool" where
  "later_attempt old new \<longleftrightarrow>
     (\<forall>i a. attempt_of old i = Some a \<longrightarrow> (\<exists>b. attempt_of new i = Some b \<and> a \<le> b))"

lemma later_attempt_same: "(\<And>i. attempt_of new i = attempt_of old i) \<Longrightarrow> later_attempt old new"
  by (simp add: later_attempt_def)

lemma later_attemptI:
  "(\<And>i ns. fmlookup (in_node_states old) i = Some ns \<Longrightarrow>
      \<exists>ns'. fmlookup (in_node_states new) i = Some ns' \<and> st_attempt ns \<le> st_attempt ns') \<Longrightarrow> later_attempt old new"
  by (fastforce simp: later_attempt_def attempt_of_def)

lemma later_attempt_trans: "later_attempt a b \<Longrightarrow> later_attempt b c \<Longrightarrow> later_attempt a c"
  unfolding later_attempt_def by (meson order_trans)

definition same_course :: "wf_instance \<Rightarrow> wf_instance \<Rightarrow> bool" where
  "same_course old new \<longleftrightarrow>
     in_id new = in_id old \<and> in_workflow_id new = in_workflow_id old \<and> in_owner_id new = in_owner_id old \<and>
     fmdom (in_node_states new) = fmdom (in_node_states old) \<and> later_attempt old new \<and>
     (\<forall>i. ended old i \<longrightarrow> status_of (in_node_states new) i = status_of (in_node_states old) i)"

lemma same_course_refl [simp]: "same_course inst inst"
  by (simp add: same_course_def later_attempt_same)

lemma ended_transfer: "status_of (in_node_states new) i = status_of (in_node_states old) i \<Longrightarrow> ended new i = ended old i"
  by (simp add: ended_def)

lemma same_course_trans:
  assumes "same_course a b" and "same_course b c"
  shows "same_course a c"
proof -
  have "status_of (in_node_states c) i = status_of (in_node_states a) i" if a: "ended a i" for i
  proof -
    from assms(1) a have ab: "status_of (in_node_states b) i = status_of (in_node_states a) i"
      unfolding same_course_def by blast
    with a have "ended b i" using ended_transfer [OF ab] by blast
    with assms(2) have "status_of (in_node_states c) i = status_of (in_node_states b) i"
      unfolding same_course_def by blast
    with ab show ?thesis by simp
  qed
  moreover from assms have "in_id c = in_id a" "in_workflow_id c = in_workflow_id a" "in_owner_id c = in_owner_id a"
    "fmdom (in_node_states c) = fmdom (in_node_states a)" unfolding same_course_def by simp_all
  moreover from assms have "later_attempt a c" unfolding same_course_def by (blast intro: later_attempt_trans)
  ultimately show ?thesis unfolding same_course_def by blast
qed

text \<open>The local instance continues the stored one.\<close>

definition in_course :: "'w engine_env \<Rightarrow> wf_instance \<times> 'w engine \<Rightarrow> bool" where
  "in_course env s \<longleftrightarrow>
     (\<exists>old. stored_at env (snd s) (in_id (fst s)) = Inr old \<and> same_course old (fst s))"

text \<open>What a handler does to the store, seen from its first state.\<close>

definition moved :: "'w engine_env \<Rightarrow> wf_instance \<times> 'w engine \<Rightarrow> wf_instance \<times> 'w engine \<Rightarrow> bool" where
  "moved env s s' \<longleftrightarrow> in_course env s' \<and> in_id (fst s') = in_id (fst s) \<and>
     (\<forall>i. ended (fst s) i \<longrightarrow> status_of (in_node_states (fst s')) i = status_of (in_node_states (fst s)) i) \<and>
     (\<forall>j. j \<noteq> in_id (fst s) \<longrightarrow> stored_at env (snd s') j = stored_at env (snd s) j) \<and>
     (\<forall>old. stored_at env (snd s) (in_id (fst s)) = Inr old \<longrightarrow>
        (\<exists>old'. stored_at env (snd s') (in_id (fst s)) = Inr old' \<and> same_course old old' \<and>
           in_version old \<le> in_version old'))"

lemma moved_ended: "moved env s t \<Longrightarrow> ended (fst s) i \<Longrightarrow> ended (fst t) i"
  unfolding moved_def ended_def by metis

lemma moved_refl: "in_course env s \<Longrightarrow> moved env s s"
  by (simp add: moved_def)

lemma moved_trans:
  assumes "moved env s t" and "moved env t u"
  shows "moved env s u"
proof -
  have id: "in_id (fst t) = in_id (fst s)" using assms(1) by (simp add: moved_def)
  have "\<exists>x''. stored_at env (snd u) (in_id (fst s)) = Inr x'' \<and> same_course x x'' \<and> in_version x \<le> in_version x''"
    if x: "stored_at env (snd s) (in_id (fst s)) = Inr x" for x
  proof -
    from assms(1) x obtain x' where x': "stored_at env (snd t) (in_id (fst t)) = Inr x'" "same_course x x'"
      "in_version x \<le> in_version x'" using id by (auto simp: moved_def)
    with assms(2) obtain x'' where "stored_at env (snd u) (in_id (fst t)) = Inr x''" "same_course x' x''"
      "in_version x' \<le> in_version x''" by (auto simp: moved_def)
    with x' id show ?thesis by (auto intro: same_course_trans order_trans)
  qed
  moreover have "status_of (in_node_states (fst u)) i = status_of (in_node_states (fst s)) i" if e: "ended (fst s) i" for i
  proof -
    from assms(1) e have st: "status_of (in_node_states (fst t)) i = status_of (in_node_states (fst s)) i"
      unfolding moved_def by blast
    with e have "ended (fst t) i" using ended_transfer [OF st] by blast
    with assms(2) st show ?thesis unfolding moved_def by simp
  qed
  ultimately show ?thesis using assms id by (simp add: moved_def)
qed

text \<open>
  \<open>course\<close>: from a state in course, a move. \<open>steady n\<close>: the same from a state where node \<open>n\<close> has
  not ended, and no node ends.
\<close>

definition course :: "'w engine_env \<Rightarrow> wf_instance \<times> 'w engine \<Rightarrow> wf_instance \<times> 'w engine \<Rightarrow> bool" where
  "course env s s' \<longleftrightarrow> (in_course env s \<longrightarrow> moved env s s')"

definition steady :: "'w engine_env \<Rightarrow> string \<Rightarrow> wf_instance \<times> 'w engine \<Rightarrow> wf_instance \<times> 'w engine \<Rightarrow> bool" where
  "steady env n s s' \<longleftrightarrow> (in_course env s \<and> \<not> ended (fst s) n \<longrightarrow>
     moved env s s' \<and> (\<forall>i. ended (fst s') i \<longrightarrow> ended (fst s) i))"

lemma moved_in_course: "moved env s s' \<Longrightarrow> in_course env s'"
  by (simp add: moved_def)

interpretation course: preorder_rel "course env" for env :: "'w engine_env"
  by unfold_locales (auto simp: course_def moved_refl intro: moved_trans dest: moved_in_course)

interpretation steady: preorder_rel "steady env n" for env :: "'w engine_env" and n
proof unfold_locales
  fix s show "steady env n s s" by (simp add: steady_def moved_refl)
next
  fix s t u :: "wf_instance \<times> 'w engine"
  assume st: "steady env n s t" and tu: "steady env n t u"
  show "steady env n s u" unfolding steady_def
  proof
    assume s: "in_course env s \<and> \<not> ended (fst s) n"
    with st have t: "moved env s t" "\<forall>i. ended (fst t) i \<longrightarrow> ended (fst s) i" by (simp_all add: steady_def)
    with s have "in_course env t \<and> \<not> ended (fst t) n" by (auto dest: moved_in_course)
    with tu have "moved env t u" "\<forall>i. ended (fst u) i \<longrightarrow> ended (fst t) i" by (simp_all add: steady_def)
    with t show "moved env s u \<and> (\<forall>i. ended (fst u) i \<longrightarrow> ended (fst s) i)" by (blast intro: moved_trans)
  qed
qed

text \<open>\<open>keeps_live env n m\<close>: in course, provided node \<open>n\<close> has not ended at the start.\<close>

definition keeps_live :: "'w engine_env \<Rightarrow> string \<Rightarrow> ('w, 'a) handler \<Rightarrow> bool" where
  "keeps_live env n m \<longleftrightarrow> (\<forall>s. \<not> ended (fst s) n \<longrightarrow> course env s (snd (m s)))"

lemma keeps_live_course: "keeps (course env) m \<Longrightarrow> keeps_live env n m"
  by (simp add: keeps_live_def keeps_def)

lemma keeps_live_bindE:
  assumes "keeps_live env n m" and "\<And>x. keeps (course env) (f x)"
  shows "keeps_live env n (bindE m f)"
  using assms unfolding keeps_live_def keeps_def by (blast intro: course.at_bindE)

lemma keeps_live_tryE:
  assumes "keeps_live env n m" and "\<And>r. keeps (course env) (k r)"
  shows "keeps_live env n (tryE m k)"
  using assms unfolding keeps_live_def keeps_def by (blast intro: course.at_tryE)

lemma keeps_live_at: "keeps_live env n m \<Longrightarrow> \<not> ended (fst s) n \<Longrightarrow> course env s (snd (m s))"
  unfolding keeps_live_def by blast

lemma keeps_at: "keeps R m \<Longrightarrow> R s (snd (m s))"
  unfolding keeps_def by blast

lemma steady_live:
  assumes "keeps (steady env n) m"
  shows "keeps_live env n m"
  using assms by (simp add: keeps_live_def keeps_def steady_def course_def)

text \<open>After a steady part the node is still live.\<close>

lemma steady_then:
  assumes "keeps (steady env n) m" and "\<And>x. keeps_live env n (f x)"
  shows "keeps_live env n (bindE m f)"
proof -
  have "course env s (snd (bindE m f s))" if live: "\<not> ended (fst s) n" for s
  proof (cases "in_course env s")
    case True
    obtain r t where m: "m s = (r, t)" by (cases "m s")
    from keepsD [OF assms(1) m] True live have st: "moved env s t" "\<not> ended (fst t) n"
      by (auto simp: steady_def)
    from st(2) assms(2) have "course env t (snd (f x t))" for x unfolding keeps_live_def by blast
    moreover from st(1) have "course env s t" by (simp add: course_def)
    ultimately show ?thesis using m by (auto intro!: course.at_bindE)
  next
    case False
    then show ?thesis by (simp add: course_def)
  qed
  then show ?thesis by (simp add: keeps_live_def)
qed

lemma steady_then_try:
  assumes "keeps (steady env n) m" and "\<And>r. keeps_live env n (k r)"
  shows "keeps_live env n (tryE m k)"
proof -
  have "tryE m k = bindE (tryE m ret) k"
    by (simp add: tryE_def bindE_def ret_def fun_eq_iff split: prod.split)
  moreover have "keeps (steady env n) (tryE m ret)"
    by (intro steady.keeps_tryE steady.keeps_ret assms(1))
  ultimately show ?thesis using steady_then [OF _ assms(2)] by simp
qed

lemma steady_then_seq: "keeps (steady env n) m \<Longrightarrow> keeps_live env n m' \<Longrightarrow> keeps_live env n (seqE m m')"
  by (simp add: seqE_def steady_then)

lemma keeps_live_seqE: "keeps_live env n m \<Longrightarrow> keeps (course env) m' \<Longrightarrow> keeps_live env n (seqE m m')"
  by (simp add: seqE_def keeps_live_bindE)

section \<open>Steps on the local instance\<close>

lemma fmdom_eq_iff: "fmdom m = fmdom m' \<longleftrightarrow> (\<forall>i. fmlookup m i = None \<longleftrightarrow> fmlookup m' i = None)"
  by (metis fmdom_notD fmdom_notI fset_eqI)

lemma moved_local:
  assumes "in_course env s" and "same_course (fst s) inst" and "stored_at env g = stored_at env (snd s)"
  shows "moved env s (inst, g)"
proof -
  obtain old where old: "stored_at env (snd s) (in_id (fst s)) = Inr old" "same_course old (fst s)"
    using assms(1) by (auto simp: in_course_def)
  moreover have "in_id inst = in_id (fst s)" using assms(2) by (simp add: same_course_def)
  moreover have "same_course old inst" using old(2) assms(2) by (rule same_course_trans)
  moreover have "status_of (in_node_states inst) i = status_of (in_node_states (fst s)) i" if "ended (fst s) i" for i
    using that assms(2) by (simp add: same_course_def)
  ultimately show ?thesis using assms(3) by (simp add: moved_def in_course_def)
qed

lemma upd_inst_course: "(\<And>x. same_course x (f x)) \<Longrightarrow> keeps (course env) (upd_inst f)"
  by (auto simp: keeps_def course_def split_paired_all intro!: moved_local)

lemma upd_inst_steady:
  assumes "\<And>x. \<not> ended x n \<Longrightarrow> same_course x (f x) \<and> (\<forall>i. ended (f x) i \<longrightarrow> ended x i)"
  shows "keeps (steady env n) (upd_inst f)"
  using assms by (auto simp: keeps_def steady_def split_paired_all intro!: moved_local)

lemma upd_inst_live: "(\<And>x. \<not> ended x n \<Longrightarrow> same_course x (f x)) \<Longrightarrow> keeps_live env n (upd_inst f)"
  by (auto simp: keeps_live_def course_def split_paired_all intro!: moved_local)

text \<open>An update that leaves ids, owner and node states alone.\<close>

lemma same_course_fields:
  assumes "in_id y = in_id x" and "in_workflow_id y = in_workflow_id x" and "in_owner_id y = in_owner_id x"
    and "in_node_states y = in_node_states x"
  shows "same_course x y" and "ended y i = ended x i"
  using assms by (simp_all add: same_course_def ended_def later_attempt_same attempt_of_def)

text \<open>An update of one node that has not ended.\<close>

lemma alter_course:
  assumes "\<not> ended x n" and "\<And>ns. st_attempt ns \<le> st_attempt (f ns)"
  shows "same_course x (x\<lparr>in_node_states := fm_alter n f (in_node_states x)\<rparr>)"
proof -
  have "status_of (fm_alter n f (in_node_states x)) i = status_of (in_node_states x) i" if "ended x i" for i
  proof -
    from that assms(1) have "i \<noteq> n" by blast
    then show ?thesis by (simp add: status_of_def fm_alter_lookup)
  qed
  moreover have "later_attempt x (x\<lparr>in_node_states := fm_alter n f (in_node_states x)\<rparr>)"
    using assms(2) by (auto simp: later_attempt_def attempt_of_def fm_alter_lookup)
  ultimately show ?thesis by (simp add: same_course_def fmdom_eq_iff fm_alter_lookup)
qed

lemma upd_node_live: "(\<And>ns. st_attempt ns \<le> st_attempt (f ns)) \<Longrightarrow> keeps_live env n (upd_node n f)"
  unfolding upd_node_def by (rule upd_inst_live) (rule alter_course)

lemma upd_node_steady:
  assumes "\<And>ns. \<not> node_terminal (st_status ns) \<Longrightarrow> \<not> node_terminal (st_status (f ns))"
    and "\<And>ns. st_attempt ns \<le> st_attempt (f ns)"
  shows "keeps (steady env n) (upd_node n f)"
  unfolding upd_node_def
proof (rule upd_inst_steady, intro conjI allI impI)
  fix x i
  assume live: "\<not> ended x n"
  then show "same_course x (x\<lparr>in_node_states := fm_alter n f (in_node_states x)\<rparr>)"
    using assms(2) by (rule alter_course)
  assume e: "ended (x\<lparr>in_node_states := fm_alter n f (in_node_states x)\<rparr>) i"
  show "ended x i"
  proof (cases "i = n")
    case True
    with e live assms(1) show ?thesis by (auto simp: ended_def status_of_def fm_alter_lookup)
  next
    case False
    with e show ?thesis by (simp add: ended_def status_of_def fm_alter_lookup)
  qed
qed

text \<open>The outside world changes, the stored instances do not.\<close>

lemma quiet_moved: "quiet env s t \<Longrightarrow> in_course env s \<Longrightarrow> moved env s t"
  by (cases t) (use moved_local [of env s "fst t" "snd t"] in \<open>simp add: quiet_def\<close>)

lemma quiet_course: "keeps (quiet env) m \<Longrightarrow> keeps (course env) m"
  by (simp add: keeps_def course_def quiet_moved)

lemma quiet_steady: "keeps (quiet env) m \<Longrightarrow> keeps (steady env n) m"
  unfolding keeps_def steady_def by (metis quiet_moved quiet_def)

section \<open>Saving\<close>

lemma ended_merge:
  assumes "same_course old local"
  shows "same_course old (merge_instance local old)" and "ended (merge_instance local old) i \<Longrightarrow> ended local i"
proof -
  have kept: "status_of (merge_nodes (in_node_states local) (in_node_states old)) i = status_of (in_node_states old) i"
    if e: "ended old i" for i
  proof -
    from e obtain ns where "fmlookup (in_node_states old) i = Some ns" "node_terminal (st_status ns)"
      by (auto simp: ended_def status_of_Some)
    then show ?thesis by (simp add: status_of_def merge_nodes_keeps_terminal)
  qed
  have "fmdom (merge_nodes (in_node_states local) (in_node_states old)) = fmdom (in_node_states old)"
    unfolding fmdom_eq_iff
  proof
    fix i
    have "fmlookup (in_node_states local) i = None \<longleftrightarrow> fmlookup (in_node_states old) i = None"
      using assms by (simp add: same_course_def fmdom_eq_iff)
    then show "fmlookup (merge_nodes (in_node_states local) (in_node_states old)) i = None \<longleftrightarrow>
        fmlookup (in_node_states old) i = None"
      by (auto simp: merge_nodes_lookup split: option.split)
  qed
  moreover have "later_attempt old (merge_instance local old)"
  proof -
    from assms have "later_attempt old local" by (simp add: same_course_def)
    then show ?thesis
      by (fastforce simp: later_attempt_def attempt_of_def merge_nodes_lookup split: option.split)
  qed
  ultimately show "same_course old (merge_instance local old)"
    using kept by (simp add: same_course_def merge_instance_def)
  show "ended local i" if m: "ended (merge_instance local old) i"
  proof (cases "ended old i")
    case True
    moreover from True assms have "status_of (in_node_states local) i = status_of (in_node_states old) i"
      by (simp add: same_course_def)
    ultimately show ?thesis by (simp add: ended_def)
  next
    case False
    with m show ?thesis
      by (auto simp: ended_def status_of_def merge_nodes_lookup takes_local_def split: option.splits if_splits)
  qed
qed

lemma merged_status:
  assumes "same_course old local" and "ended local i"
  shows "status_of (merge_nodes (in_node_states local) (in_node_states old)) i = status_of (in_node_states local) i"
proof -
  from assms(2) obtain ns where ns: "fmlookup (in_node_states local) i = Some ns" "node_terminal (st_status ns)"
    by (auto simp: ended_def status_of_Some)
  have "status_of (in_node_states local) i = status_of (in_node_states old) i" if "ended old i"
    using that assms(1) by (simp add: same_course_def)
  with ns show ?thesis
    by (auto simp: status_of_def merge_nodes_lookup takes_local_def ended_def split: option.splits)
qed

context engine_store
begin

text \<open>Whatever \<open>save_instance\<close> does, it leaves the past in place and ends no node.\<close>

lemma save_moved:
  assumes "in_course env (inst, g)"
  shows "\<exists>inst' g'. save_instance env (inst, g) = (Inr (), inst', g') \<and> moved env (inst, g) (inst', g') \<and>
    (\<forall>i. ended inst' i \<longrightarrow> ended inst i)"
proof -
  obtain old where old: "stored_at env g (in_id inst) = Inr old" "same_course old inst"
    using assms by (auto simp: in_course_def)
  then have id: "in_id old = in_id inst" by (simp add: same_course_def)
  have same: "same_course x (x\<lparr>in_version := v, in_updated_at := t\<rparr>)" for x v t by (rule same_course_fields) simp_all
  consider "in_version inst = in_version old"
    | "in_version inst \<noteq> in_version old" "needs_merge (in_node_states inst) (in_node_states old)"
    | "in_version inst \<noteq> in_version old" "\<not> needs_merge (in_node_states inst) (in_node_states old)" by blast
  then show ?thesis
  proof cases
    case 1
    obtain t g' where s: "save_instance env (inst, g) = (Inr (), inst\<lparr>in_version := in_version inst + 1, in_updated_at := t\<rparr>, g')"
      "stored_at env g' = (stored_at env g)(in_id inst := Inr (inst\<lparr>in_version := in_version inst + 1, in_updated_at := t\<rparr>))"
      using save_synced [OF old(1) 1] by blast
    let ?x = "inst\<lparr>in_version := in_version inst + 1, in_updated_at := t\<rparr>"
    have "same_course old ?x" by (rule same_course_trans [OF old(2) same])
    moreover have e: "ended ?x i = ended inst i" for i by (rule same_course_fields) simp_all
    ultimately have "moved env (inst, g) (?x, g')" using s(2) old(1) 1 by (simp add: moved_def in_course_def)
    moreover note e
    ultimately show ?thesis using s(1) by blast
  next
    case 2
    obtain t t' g' where s: "save_instance env (inst, g) =
        (Inr (), (merge_instance (inst\<lparr>in_updated_at := t\<rparr>) old)\<lparr>in_version := in_version old + 1, in_updated_at := t'\<rparr>, g')"
      "stored_at env g' = (stored_at env g)(in_id inst := Inr ((merge_instance (inst\<lparr>in_updated_at := t\<rparr>) old)
         \<lparr>in_version := in_version old + 1, in_updated_at := t'\<rparr>))"
      using save_merges [OF old(1) 2(1) id 2(2)] by blast
    let ?l = "inst\<lparr>in_updated_at := t\<rparr>"
    let ?x = "(merge_instance ?l old)\<lparr>in_version := in_version old + 1, in_updated_at := t'\<rparr>"
    have ol: "same_course old ?l" by (rule same_course_trans [OF old(2)]) (rule same_course_fields, simp_all)
    have "same_course old ?x" by (rule same_course_trans [OF ended_merge(1) [OF ol] same])
    moreover have "status_of (in_node_states ?x) i = status_of (in_node_states inst) i" if "ended inst i" for i
      using merged_status [OF ol, of i] that by (simp add: ended_def)
    ultimately have "moved env (inst, g) (?x, g')" using s(2) old(1) id by (simp add: moved_def in_course_def)
    moreover have "ended ?x i \<longrightarrow> ended inst i" for i
      using ended_merge(2) [OF ol, of i] by (simp add: ended_def)
    ultimately show ?thesis using s(1) by blast
  next
    case 3
    obtain t g' where s: "save_instance env (inst, g) = (Inr (), inst\<lparr>in_version := in_version inst + 1, in_updated_at := t\<rparr>, g')"
      "stored_at env g' = stored_at env g" using save_drops [OF old(1) 3] by blast
    let ?x = "inst\<lparr>in_version := in_version inst + 1, in_updated_at := t\<rparr>"
    have "moved env (inst, g) (?x, g')"
      using moved_local [OF assms, of ?x g'] same [of inst] s(2) by simp
    moreover have "ended ?x i = ended inst i" for i by (rule same_course_fields) simp_all
    ultimately show ?thesis using s(1) by blast
  qed
qed

lemma steady_save: "keeps (steady env n) (save_instance env)"
  unfolding keeps_def steady_def using save_moved by (metis fst_conv snd_conv surj_pair)

lemma course_save: "keeps (course env) (save_instance env)"
  unfolding keeps_def course_def using save_moved by (metis snd_conv surj_pair)

end

section \<open>Handlers\<close>

text \<open>The cascade only ends pending nodes; the nodes it reports are pending.\<close>

lemma cascade_same: "same_course x (snd (find_ready_nodes cel w x))"
proof -
  let ?m = "skip_loop (eval_edge_condition cel (in_context x)) w (in_node_states x)"
  have "status_of ?m i = status_of (in_node_states x) i" if "ended x i" for i
  proof -
    have "\<not> dead (eval_edge_condition cel (in_context x)) w (in_node_states x) i"
      using that by (auto simp: ended_def dest: dead_pending)
    then show ?thesis by (simp add: status_of_def skip_loop_lookup)
  qed
  moreover have "later_attempt x (x\<lparr>in_node_states := ?m\<rparr>)"
    by (auto simp: later_attempt_def attempt_of_def skip_loop_lookup)
  ultimately show ?thesis by (simp add: find_ready_nodes_def Let_def same_course_def fmdom_eq_iff skip_loop_lookup)
qed

lemma ready_pending:
  "find_ready_nodes cel w x = (ids, y) \<Longrightarrow> i \<in> set ids \<Longrightarrow> status_of (in_node_states y) i = Some NPending"
  by (auto simp: find_ready_nodes_def Let_def node_ready_def)

context engine_store
begin

lemma quiet_world: "(\<And>i w. fst (ee_get_instance env i (f w)) = fst (ee_get_instance env i w)) \<Longrightarrow> keeps (quiet env) (world f)"
  unfolding world_def by (rule quiet_portI) (simp add: modifyE_def)

lemma quiet_sla_failure: "keeps (quiet env) (world (ee_sla_failure env i))"
  by (rule quiet_world) (rule sla_failure_reads)

lemma quiet_sla_success: "keeps (quiet env) (world (ee_sla_success env i))"
  by (rule quiet_world) (rule sla_success_reads)

lemma quiet_anomalies: "keeps (quiet env) (check_and_record_sla_anomalies env ms)"
  unfolding check_and_record_sla_anomalies_def
  by (intro quiet.keeps_bindE quiet_get_inst quiet_portI)
     (auto simp: sla_check_reads split_beta quiet.keeps_ret quiet_log_event split: option.split)

lemma quiet_check_sla: "keeps (quiet env) (check_sla env)"
  unfolding check_sla_def
  by (intro quiet.keeps_bindE quiet.keeps_seqE quiet_get_inst quiet_now quiet_anomalies quiet.keeps_ret)

lemma quiet_node_metrics: "keeps (quiet env) (spawn_node_metrics env w i status wm)"
  unfolding spawn_node_metrics_def
  by (intro quiet.keeps_bindE quiet_get_inst)
     (auto intro!: quiet.keeps_ret quiet_world node_metrics_reads split: option.split)

lemma quiet_instance_metrics: "keeps (quiet env) (spawn_instance_metrics env status ms)"
  unfolding spawn_instance_metrics_def
  by (auto intro!: quiet.keeps_bindE quiet_get_inst quiet_now quiet.keeps_ret quiet_world instance_metrics_reads
      split: option.split)

lemma quiet_cost: "keeps (quiet env) (spawn_cost env)"
  unfolding spawn_cost_def
  by (auto intro!: quiet.keeps_bindE quiet_get_inst quiet.keeps_ret quiet_world cost_reads split: option.split)

lemma quiet_publish_task: "keeps (quiet env) (publish_task env task)"
  unfolding publish_task_def by (auto intro!: quiet.keeps_raise quiet_publish split: sum.split)

lemma quiet_node_input: "keeps (quiet env) (resolve_node_input env node)"
  unfolding resolve_node_input_def by (intro quiet.keeps_bindE quiet_get_inst quiet.keeps_liftR)

lemma quiet_get_node: "keeps (quiet env) (get_node i e)"
  unfolding get_node_def
  by (auto intro!: quiet.keeps_bindE quiet_get_inst quiet.keeps_ret quiet.keeps_raise split: option.split)

lemma quiet_dispatch_compensation: "keeps (quiet env) (dispatch_compensation env w i)"
  unfolding dispatch_compensation_def
  by (auto intro!: quiet.keeps_bindE quiet_get_inst quiet.keeps_ret quiet.keeps_raise quiet.keeps_liftR quiet_publish
      split: option.split sum.split)

lemmas quiet_parts = quiet_get_inst quiet_now quiet_log_event quiet_append_event quiet_workflow quiet_credentials
  quiet_sla_failure quiet_sla_success quiet_check_sla quiet_node_metrics quiet_instance_metrics quiet_cost
  quiet_publish_task quiet_node_input quiet_get_node quiet_dispatch_compensation

lemmas course_parts = quiet_parts [THEN quiet_course] course_save
lemmas steady_parts = quiet_parts [THEN quiet_steady] steady_save

lemmas course_rules = course.keeps_rules course_parts
lemmas steady_rules = steady.keeps_rules steady_parts

text \<open>Updates of fields other than the node states.\<close>

lemma fields_course:
  assumes "\<And>x. in_id (f x) = in_id x" and "\<And>x. in_workflow_id (f x) = in_workflow_id x"
    and "\<And>x. in_owner_id (f x) = in_owner_id x" and "\<And>x. in_node_states (f x) = in_node_states x"
  shows "keeps (course env) (upd_inst f)"
  by (intro upd_inst_course same_course_fields assms)

lemma fields_steady:
  assumes "\<And>x. in_id (f x) = in_id x" and "\<And>x. in_workflow_id (f x) = in_workflow_id x"
    and "\<And>x. in_owner_id (f x) = in_owner_id x" and "\<And>x. in_node_states (f x) = in_node_states x"
  shows "keeps (steady env n) (upd_inst f)"
proof (intro upd_inst_steady conjI allI impI)
  fix x i
  show "same_course x (f x)" by (intro same_course_fields assms)
  show "ended (f x) i \<Longrightarrow> ended x i" using same_course_fields(2) [OF assms] by blast
qed

lemma course_touch: "keeps (course env) (touch env)"
  unfolding touch_def by (intro course_rules fields_course) simp_all

lemma course_finalize: "keeps (course env) (finalize_compensation env)"
  unfolding finalize_compensation_def Let_def
  by (intro course_rules course_touch fields_course) (simp_all add: end_compensation_def)

lemma course_fail_compensation: "keeps (course env) (fail_compensation env i msg)"
  unfolding fail_compensation_def Let_def
  by (intro course_rules course_touch fields_course) (simp_all add: end_compensation_def)

lemma course_dispatch_pending: "keeps (course env) (dispatch_pending_compensations env w)"
  unfolding dispatch_pending_compensations_def
  by (auto intro!: course.keeps_bindE course_parts course.keeps_ret course.keeps_logE course_finalize
      split: option.split list.split)

lemma course_start_compensation: "keeps (course env) (start_compensation env w i)"
  unfolding start_compensation_def Let_def
  by (intro course.keeps_bindE course.keeps_seqE course_parts fields_course)
     (auto intro!: course.keeps_seqE course_parts course_finalize course_dispatch_pending)

lemma course_resume_compensation: "keeps (course env) (resume_compensation env w)"
  unfolding resume_compensation_def by (intro course_rules course_dispatch_pending)

lemma course_compensation_result: "keeps (course env) (handle_compensation_result env r)"
proof (cases "rm_error r")
  case None
  have "keeps (course env) (seqE (upd_inst (\<lambda>i. i\<lparr>in_saga := Some sg\<rparr>)) (seqE (touch env) m))"
    if "keeps (course env) m" for sg and m :: "('w, unit) handler"
    using that by (intro course_rules course_touch fields_course) simp_all
  moreover have "keeps (course env) (if all_compensated sg then seqE (finalize_compensation env) (save_instance env)
      else seqE (save_instance env) (bindE (port (ee_get_workflow env i)) (dispatch_pending_compensations env)))" for sg i
    by (auto intro!: course.keeps_seqE course.keeps_bindE course_parts course_finalize course_dispatch_pending)
  ultimately show ?thesis
    unfolding handle_compensation_result_def None option.simps
    by (intro course.keeps_bindE course.keeps_liftR course_parts) blast
next
  case (Some msg)
  show ?thesis
    unfolding handle_compensation_result_def Some option.simps
    by (intro course_rules course_fail_compensation)
qed

text \<open>Dispatching a node that has not ended.\<close>

lemma steady_pause: "keeps (steady env (n_id node)) (pause_for_approval env node)"
  unfolding pause_for_approval_def by (intro steady_rules upd_node_steady) simp_all

lemma steady_send: "keeps (steady env (n_id node)) (send_node env w node)"
  unfolding send_node_def Let_def by (intro steady_rules upd_node_steady) simp_all

lemma steady_dispatch: "keeps (steady env (n_id node)) (dispatch_node env w node)"
  unfolding dispatch_node_def
  by (intro steady.keeps_bindE steady_parts) (simp add: steady_pause steady_send)

lemma live_mark_failed: "keeps_live env i (mark_node_dispatch_failed env i e)"
  unfolding mark_node_dispatch_failed_def Let_def
  by (intro steady_then steady_parts keeps_live_seqE upd_node_live course.keeps_bindE course.keeps_seqE course_parts
      fields_course) simp_all

lemma course_cascade: "keeps (course env) (cascade_terminal_skips env w)"
  unfolding cascade_terminal_skips_def by (rule upd_inst_course) (rule cascade_same)

lemma live_dispatch_error: "keeps_live env i (handle_node_dispatch_error env w i e)"
  unfolding handle_node_dispatch_error_def
  by (intro keeps_live_seqE live_mark_failed course.keeps_bindE course_parts)
     (simp add: course_start_compensation course_cascade)

lemma course_cleanup: "keeps (course env) cleanup_instance"
proof (rule keepsI)
  fix s :: "wf_instance \<times> 'w engine"
  obtain inst g where s: "s = (inst, g)" by (cases s)
  have "stored_at env (forget_instance i g) = stored_at env g" for i
    by (simp add: stored_at_def fun_eq_iff forget_instance_def)
  then show "course env s (snd (cleanup_instance s))"
    using moved_local [of env s inst] by (simp add: s course_def cleanup_instance_def)
qed

lemma live_error_and_save: "keeps_live env i (dispatch_error_and_save env w i e)"
  unfolding dispatch_error_and_save_def
  by (intro keeps_live_seqE live_dispatch_error course.keeps_seqE course_parts course_cleanup)

lemma live_resume_error: "keeps_live env i (resume_dispatch_error env w i e)"
  unfolding resume_dispatch_error_def
  by (intro keeps_live_tryE live_dispatch_error) (auto intro!: course_rules split: sum.split)

text \<open>Dispatching several nodes none of which has ended.\<close>

lemma course_dispatch_each:
  assumes "\<And>i e. keeps_live env i (on_error i e)"
  shows "(\<And>n. n \<in> set ns \<Longrightarrow> \<not> ended (fst s) (n_id n)) \<Longrightarrow> course env s (snd (dispatch_each env w on_error ns s))"
proof (induction ns arbitrary: s)
  case Nil
  then show ?case by (simp add: course.refl)
next
  case (Cons n ns)
  show ?case
  proof (cases "in_course env s")
    case True
    obtain r t where d: "dispatch_node env w n s = (r, t)" by (cases "dispatch_node env w n s")
    have "\<not> ended (fst s) (n_id n)" using Cons.prems by simp
    with keepsD [OF steady_dispatch d] True have t: "moved env s t" "\<And>i. ended (fst t) i \<Longrightarrow> ended (fst s) i"
      by (auto simp: steady_def)
    have "course env t (snd (seqE (on_error (n_id n) e) (ret False) t))" for e
      by (rule keeps_live_at [OF keeps_live_seqE [OF assms course.keeps_ret]])
         (use t(2) Cons.prems in auto)
    moreover have "course env t (snd (dispatch_each env w on_error ns t))"
      using t(2) Cons.prems by (intro Cons.IH) auto
    moreover have "course env s t" using t(1) by (simp add: course_def)
    ultimately show ?thesis using d
      by (auto intro!: course.at_tryE split: sum.split)
  next
    case False
    then show ?thesis by (simp add: course_def)
  qed
qed

lemma ready_nodes_run:
  "\<exists>ns y. ready_nodes env w (inst, g) = (Inr ns, y, g) \<and> same_course inst y \<and>
     (\<forall>n \<in> set ns. \<not> ended y (n_id n))"
proof -
  obtain ids y where f: "find_ready_nodes (ee_cel env) w inst = (ids, y)" by fastforce
  have "same_course inst y" using cascade_same [of inst "ee_cel env" w] f by simp
  moreover have "\<not> ended y (n_id n)" if n: "n \<in> set (List.map_filter (node_by_id w) ids)" for n
  proof -
    from n obtain i where "i \<in> set ids" "node_by_id w i = Some n"
      by (auto simp: List.map_filter_def)
    then have "i \<in> set ids" "n_id n = i" by (auto dest: node_by_id_SomeD)
    with ready_pending [OF f] show ?thesis by (simp add: ended_def)
  qed
  ultimately show ?thesis using f by (simp add: ready_nodes_def)
qed

text \<open>The ready nodes are dispatched, then something in course follows.\<close>

lemma course_ready:
  assumes "\<And>i e. keeps_live env i (on_error i e)" and "\<And>ns ok. keeps (course env) (f ns ok)"
  shows "keeps (course env) (bindE (ready_nodes env w) (\<lambda>ns. bindE (dispatch_each env w on_error ns) (f ns)))"
proof (rule keepsI, rule course.at_bindE)
  fix s :: "wf_instance \<times> 'w engine"
  obtain inst g where s: "s = (inst, g)" by (cases s)
  from ready_nodes_run obtain ns y where r: "ready_nodes env w (inst, g) = (Inr ns, y, g)" "same_course inst y"
    "\<forall>n \<in> set ns. \<not> ended y (n_id n)" by blast
  then show "course env s (snd (ready_nodes env w s))"
    using moved_local [of env s y g] by (simp add: s course_def)
  fix ns' t
  assume "ready_nodes env w s = (Inr ns', t)"
  with r s have t: "ns' = ns" "t = (y, g)" by simp_all
  have "course env t (snd (dispatch_each env w on_error ns' t))"
    using r(3) t by (intro course_dispatch_each assms(1)) simp
  then show "course env t (snd (bindE (dispatch_each env w on_error ns') (f ns') t))"
    by (rule course.at_bindE) (rule keeps_at [OF assms(2)])
qed

lemma course_finish: "keeps (course env) (finish_instance env)"
  unfolding finish_instance_def Let_def
  by (intro course_rules fields_course) (simp_all add: quiet_parts quiet_course)

lemma course_advance: "keeps (course env) (advance env w)"
proof -
  have "keeps (course env) (save_and_clean env)"
    unfolding save_and_clean_def by (intro course_rules course_cleanup)
  then show ?thesis
    unfolding advance_def
    by (intro course_ready live_error_and_save)
       (auto intro!: course.keeps_bindE course.keeps_seqE course_parts course.keeps_ret course_finish)
qed

lemma course_save_and_clean: "keeps (course env) (save_and_clean env)"
  unfolding save_and_clean_def by (intro course_rules course_cleanup)

lemma course_record_metrics: "keeps (course env) (record_metrics i m)"
  unfolding record_metrics_def by (rule fields_course) simp_all

lemma course_fail_instance: "keeps (course env) (fail_instance env i msg)"
  unfolding fail_instance_def by (intro course_rules fields_course course_save_and_clean) simp_all

lemma course_fail_budget: "keeps (course env) (fail_budget env reason)"
  unfolding fail_budget_def by (intro course_rules fields_course course_save_and_clean) simp_all

lemma course_meter: "keeps (course env) (meter env i out wm)"
  unfolding meter_def Let_def by (intro course_rules course_record_metrics)

lemma live_failure: "keeps_live env (rm_node_id r) (handle_failure env w r attempt now msg)"
proof -
  have q: "keeps_live env (rm_node_id r) (requeue env r now d)" for d
    unfolding requeue_def
    by (intro steady_then_seq upd_node_steady keeps_live_course course_rules fields_course) simp_all
  have m: "keeps (course env) (case wm of None \<Rightarrow> ret () | Some m \<Rightarrow> record_metrics (rm_node_id r) m)" for wm
    by (cases wm) (simp_all add: course.keeps_ret course_record_metrics)
  have f: "keeps (course env) (bindE get_inst (\<lambda>inst. if has_compensation w inst
      then seqE (start_compensation env w i) (ret PostNone) else fail_instance env i msg))" for i
    by (auto intro!: course.keeps_bindE course_parts course.keeps_seqE course_start_compensation course.keeps_ret
        course_fail_instance)
  show ?thesis
    unfolding handle_failure_def Let_def
    by (cases "retry_of w (rm_node_id r) attempt")
       (simp_all only: option.simps q, intro keeps_live_seqE upd_node_live course.keeps_seqE course_parts fields_course m f, simp_all)
qed

lemma live_success: "keeps_live env (rm_node_id r) (handle_success env w r now)"
proof -
  have c: "keeps (course env) (case x of Some reason \<Rightarrow> fail_budget env reason
      | None \<Rightarrow> seqE (upd_inst f) (seqE (log_event env 0 ev) (advance env w)))"
    if "keeps (course env) (upd_inst f)" for x f ev
    using that by (cases x) (simp_all add: course_fail_budget course.keeps_seqE course_parts course_advance)
  show ?thesis
    unfolding handle_success_def Let_def
    by (intro keeps_live_seqE upd_node_live course.keeps_seqE course.keeps_bindE course_parts course_meter c fields_course)
       simp_all
qed

lemma validate_live: "validate_node_result_identity inst r = Inr () \<Longrightarrow> \<not> ended inst (rm_node_id r)"
  by (auto simp: validate_node_result_identity_def ended_def status_of_Some split: option.splits if_splits)

lemma course_result_body: "keeps (course env) (handle_result_body env r)"
proof (rule keepsI)
  fix s :: "wf_instance \<times> 'w engine"
  obtain inst g where s: "s = (inst, g)" by (cases s)
  have comp: "keeps (course env) (case validate_compensation_result_identity inst r of
      Inl _ \<Rightarrow> ret PostNone | Inr _ \<Rightarrow> seqE (handle_compensation_result env r) (seqE cleanup_instance (ret PostNone)))"
    by (cases "validate_compensation_result_identity inst r")
       (simp_all add: course.keeps_ret course.keeps_seqE course_compensation_result course_cleanup)
  have clean: "keeps (course env) (seqE cleanup_instance (ret PostNone))"
    by (intro course_rules course_cleanup)
  have act: "keeps_live env (rm_node_id r) (bindE (port (ee_get_workflow env i)) (\<lambda>w.
      bindE (get_node (rm_node_id r) e) (\<lambda>ns. bindE (nowE env) (\<lambda>now. case rm_error r of
         Some error_msg \<Rightarrow> handle_failure env w r (st_attempt ns) now error_msg
       | None \<Rightarrow> handle_success env w r now))))" for i e
    by (intro steady_then steady_parts) (simp add: live_failure live_success split: option.split)
  consider "is_expected_compensation_result inst r"
    | "\<not> is_expected_compensation_result inst r" "inst_terminal inst"
    | (node) "\<not> is_expected_compensation_result inst r" "\<not> inst_terminal inst" by blast
  then show "course env s (snd (handle_result_body env r s))"
  proof cases
    case 1
    then show ?thesis using keeps_at [OF comp, of s] by (simp add: handle_result_body_def s)
  next
    case 2
    then show ?thesis using keeps_at [OF clean, of s] by (simp add: handle_result_body_def s)
  next
    case node
    show ?thesis
    proof (cases "validate_node_result_identity inst r")
      case (Inl e)
      with node show ?thesis by (simp add: handle_result_body_def s course.refl)
    next
      case (Inr u)
      then have "\<not> ended (fst s) (rm_node_id r)" using validate_live [of inst r] s by simp
      from keeps_live_at [OF act this] node Inr show ?thesis by (simp add: handle_result_body_def s)
    qed
  qed
qed

lemma course_cancel: "keeps (course env) (cancel_body env)"
proof -
  have "same_course x (x\<lparr>in_status := ICancelled, in_updated_at := t, in_node_states := fmmap cancel_node (in_node_states x)\<rparr>)"
    for x t
    by (auto simp: same_course_def ended_def status_of_def fmdom_eq_iff cancel_node_def intro!: later_attemptI)
  then have "keeps (course env) (seqE (upd_inst (\<lambda>i. i\<lparr>in_status := ICancelled, in_updated_at := t,
      in_node_states := fmmap cancel_node (in_node_states i)\<rparr>)) (seqE (save_instance env) (log_event env 0 EvInstanceCancelled)))" for t
    by (intro course_rules upd_inst_course)
  then show ?thesis
    unfolding cancel_body_def by (auto intro!: course.keeps_bindE course.keeps_raise course_parts)
qed

lemma require_waiting_run:
  assumes "require_waiting i (inst, g) = (Inr (), t)"
  shows "t = (inst, g) \<and> \<not> ended inst i"
  using assms by (auto simp: require_waiting_def bindE_get_node ended_def status_of_def split: if_splits option.splits)

text \<open>What follows a passed check may count on a live node.\<close>

lemma course_after_waiting:
  assumes "keeps_live env i m"
  shows "keeps (course env) (seqE (require_waiting i) m)"
proof (rule keepsI)
  fix s :: "wf_instance \<times> 'w engine"
  obtain inst g where s: "s = (inst, g)" by (cases s)
  obtain x t where r: "require_waiting i (inst, g) = (x, t)" by (cases "require_waiting i (inst, g)")
  have st: "t = (inst, g)"
    using r by (auto simp: require_waiting_def bindE_get_node split: if_splits option.splits)
  show "course env s (snd (seqE (require_waiting i) m s))"
  proof (cases x)
    case (Inl e)
    then show ?thesis using r st s by (simp add: seqE_def bindE_def course.refl)
  next
    case (Inr u)
    then have "\<not> ended inst i" using require_waiting_run [of i inst g t] r by simp
    then have "course env s (snd (m s))" using keeps_live_at [OF assms, of s] s by simp
    then show ?thesis using r Inr st s by (simp add: seqE_def bindE_def)
  qed
qed

lemma course_reject: "keeps (course env) (reject_body env i reason by_user)"
  unfolding reject_body_def Let_def
  by (intro course_after_waiting steady_then_seq steady_then steady_parts keeps_live_seqE upd_node_live
      course.keeps_seqE course_parts fields_course course_cleanup) simp_all

lemma course_approve: "keeps (course env) (approve_body env i by_user)"
proof -
  have d: "keeps_live env i (seqE (upd_node i (\<lambda>ns. ns\<lparr>st_status := NQueued\<rparr>)) (tryE (dispatch_node env w node) (\<lambda>r.
      case r of Inl e \<Rightarrow> seqE (dispatch_error_and_save env w i e) (raise e) | Inr _ \<Rightarrow> save_instance env)))"
    if "n_id node = i" for w node
  proof -
    have "keeps (steady env i) (dispatch_node env w node)" using steady_dispatch [of node w] that by simp
    moreover have "keeps_live env i (case r of Inl e \<Rightarrow> seqE (dispatch_error_and_save env w i e) (raise e)
        | Inr _ \<Rightarrow> save_instance env)" for r :: "unit result"
      by (cases r) (simp_all add: keeps_live_seqE live_error_and_save course.keeps_raise keeps_live_course course_parts)
    ultimately show ?thesis by (intro steady_then_seq steady_then_try upd_node_steady) simp_all
  qed
  have "keeps_live env i (case node_by_id w i of None \<Rightarrow> raise NotFound | Some node \<Rightarrow>
      seqE (upd_node i (\<lambda>ns. ns\<lparr>st_status := NQueued\<rparr>)) (tryE (dispatch_node env w node) (\<lambda>r.
      case r of Inl e \<Rightarrow> seqE (dispatch_error_and_save env w i e) (raise e) | Inr _ \<Rightarrow> save_instance env)))" for w
  proof (cases "node_by_id w i")
    case None
    then show ?thesis by (simp add: keeps_live_course course.keeps_raise)
  next
    case (Some node)
    then have "n_id node = i" by (auto dest: node_by_id_SomeD)
    from d [OF this] Some show ?thesis by simp
  qed
  then show ?thesis
    unfolding approve_body_def
    by (intro course_after_waiting steady_then_seq steady_then steady_parts)
qed

lemma course_resume_nodes: "keeps (course env) (resume_nodes env w)"
proof -
  have s: "same_course x (x\<lparr>in_node_states := fmmap_keys (reset_node w) (in_node_states x)\<rparr>)" for x
    by (auto simp: same_course_def ended_def status_of_def fmdom_eq_iff reset_node_def intro!: later_attemptI)
  have "keeps (course env) (if ok \<and> ns \<noteq> [] then logE (save_instance env) else ret ())" for ok and ns :: "wf_node list"
    by (simp add: course.keeps_logE course_parts course.keeps_ret)
  then have "keeps (course env) (bindE (ready_nodes env w) (\<lambda>ready.
      bindE (dispatch_each env w (resume_dispatch_error env w) ready) (\<lambda>ok.
        if ok \<and> ready \<noteq> [] then logE (save_instance env) else ret ())))"
    by (intro course_ready live_resume_error)
  then have "keeps (course env) (case r of Inl _ \<Rightarrow> ret () | Inr _ \<Rightarrow> bindE (ready_nodes env w) (\<lambda>ready.
      bindE (dispatch_each env w (resume_dispatch_error env w) ready) (\<lambda>ok.
        if ok \<and> ready \<noteq> [] then logE (save_instance env) else ret ())))" for r :: "unit result"
    by (cases r) (simp_all add: course.keeps_ret)
  then show ?thesis
    unfolding resume_nodes_def by (intro course.keeps_seqE course.keeps_tryE course_parts upd_inst_course s)
qed

lemma course_resume: "keeps (course env) (resume_body env)"
proof -
  have "keeps (course env) (case r of Inl _ \<Rightarrow> ret () | Inr w \<Rightarrow>
      if compensating then logE (resume_compensation env w) else resume_nodes env w)" for r :: "workflow result" and compensating
    by (cases r) (simp_all add: course.keeps_ret course.keeps_logE course_resume_compensation course_resume_nodes)
  then show ?thesis
    unfolding resume_body_def
    by (auto intro!: course.keeps_bindE course.keeps_tryE course_parts course.keeps_ret)
qed

text \<open>The body of a retry whose delay has passed; the node was checked to be queued.\<close>

lemma course_retry_body:
  "course env (inst, g) (snd ((if inst_terminal inst then cleanup_instance
     else bindE (port (ee_get_workflow env (in_workflow_id inst))) (\<lambda>w.
       case node_by_id w i of
         None \<Rightarrow> raise NotFound
       | Some node \<Rightarrow>
           if \<not> retry_due inst i then ret ()
           else seqE (dispatch_each env w (dispatch_error_and_save env w) [node]) (ret ()))) (inst, g)))"
proof -
  have d: "keeps_live env i (seqE (dispatch_each env w (dispatch_error_and_save env w) [node]) (ret ()))"
    if "n_id node = i" for w node
  proof -
    have "course env s (snd (dispatch_each env w (dispatch_error_and_save env w) [node] s))" if "\<not> ended (fst s) i" for s
      by (rule course_dispatch_each) (use that \<open>n_id node = i\<close> in \<open>simp_all add: live_error_and_save\<close>)
    then have "keeps_live env i (dispatch_each env w (dispatch_error_and_save env w) [node])"
      unfolding keeps_live_def by blast
    then show ?thesis by (rule keeps_live_seqE) (rule course.keeps_ret)
  qed
  have e: "keeps_live env i (case node_by_id w i of None \<Rightarrow> raise NotFound | Some node \<Rightarrow>
      if late then ret () else seqE (dispatch_each env w (dispatch_error_and_save env w) [node]) (ret ()))" for w late
  proof (cases "node_by_id w i")
    case None
    then show ?thesis by (simp add: keeps_live_course course.keeps_raise)
  next
    case (Some node)
    then have "n_id node = i" by (auto dest: node_by_id_SomeD)
    from d [OF this] Some show ?thesis by (simp add: keeps_live_course course.keeps_ret)
  qed
  have due: "keeps_live env i (bindE (port (ee_get_workflow env (in_workflow_id inst))) (\<lambda>w.
      case node_by_id w i of None \<Rightarrow> raise NotFound | Some node \<Rightarrow>
        if \<not> retry_due inst i then ret ()
        else seqE (dispatch_each env w (dispatch_error_and_save env w) [node]) (ret ())))"
    by (rule steady_then [OF quiet_steady [OF quiet_workflow] e])
  have late: "keeps (course env) (bindE (port (ee_get_workflow env (in_workflow_id inst))) (\<lambda>w.
      case node_by_id w i of None \<Rightarrow> raise NotFound | Some node \<Rightarrow>
        if True then ret () else seqE (dispatch_each env w (dispatch_error_and_save env w) [node]) (ret ())))"
    by (intro course.keeps_bindE course_parts) (simp add: course.keeps_raise course.keeps_ret split: option.split)
  consider "inst_terminal inst" | "\<not> inst_terminal inst" "retry_due inst i" | "\<not> inst_terminal inst" "\<not> retry_due inst i"
    by blast
  then show ?thesis
  proof cases
    case 1
    then show ?thesis using keeps_at [OF course_cleanup, of "(inst, g)"] by simp
  next
    case 2
    then have "\<not> ended (fst (inst, g)) i"
      by (auto simp: retry_due_def ended_def status_of_def split: option.splits)
    from keeps_live_at [OF due this] 2(1) show ?thesis by (simp only: if_False)
  next
    case 3
    then show ?thesis using keeps_at [OF late, of "(inst, g)"] by (simp only: not_False_eq_True if_True if_False)
  qed
qed

end

section \<open>Operations of the engine\<close>

text \<open>The store answers an id with the instance of that id.\<close>

definition keyed :: "'w engine_env \<Rightarrow> 'w engine \<Rightarrow> bool" where
  "keyed env g \<longleftrightarrow> (\<forall>j x. stored_at env g j = Inr x \<longrightarrow> in_id x = j)"

text \<open>An operation on instance \<open>i\<close>.\<close>

definition evolves :: "'w engine_env \<Rightarrow> string \<Rightarrow> 'w engine \<Rightarrow> 'w engine \<Rightarrow> bool" where
  "evolves env i g g' \<longleftrightarrow> (keyed env g \<longrightarrow> keyed env g' \<and>
     (\<forall>j. j \<noteq> i \<longrightarrow> stored_at env g' j = stored_at env g j) \<and>
     (\<forall>old. stored_at env g i = Inr old \<longrightarrow>
        (\<exists>new. stored_at env g' i = Inr new \<and> same_course old new \<and> in_version old \<le> in_version new)))"

interpretation evolves: preorder_rel "evolves env i" for env :: "'w engine_env" and i
proof unfold_locales
  fix g show "evolves env i g g" by (simp add: evolves_def)
next
  fix g h k
  assume gh: "evolves env i g h" and hk: "evolves env i h k"
  show "evolves env i g k" unfolding evolves_def
  proof (intro impI conjI allI)
    assume g: "keyed env g"
    with gh have h: "keyed env h" by (simp add: evolves_def)
    with hk show "keyed env k" by (simp add: evolves_def)
    from g h gh hk show "stored_at env k j = stored_at env g j" if "j \<noteq> i" for j
      using that by (simp add: evolves_def)
    fix old assume "stored_at env g i = Inr old"
    with g gh obtain m where m: "stored_at env h i = Inr m" "same_course old m" "in_version old \<le> in_version m"
      unfolding evolves_def by blast
    with h hk obtain new where "stored_at env k i = Inr new" "same_course m new" "in_version m \<le> in_version new"
      unfolding evolves_def by blast
    with m show "\<exists>new. stored_at env k i = Inr new \<and> same_course old new \<and> in_version old \<le> in_version new"
      by (meson order_trans same_course_trans)
  qed
qed

lemma evolves_same: "stored_at env g' = stored_at env g \<Longrightarrow> evolves env i g g'"
  by (simp add: evolves_def keyed_def)

lemma evolves_modify: "(\<And>g. eg_world (f g) = eg_world g) \<Longrightarrow> keeps (evolves env i) (modifyE f)"
  by (auto simp: keeps_def modifyE_def stored_at_def fun_eq_iff intro!: evolves_same)

text \<open>A handler in course, run on the stored instance.\<close>

lemma evolves_with_inst:
  assumes "stored_at env g i = Inr inst" and "course env (inst, g) (snd (m (inst, g)))"
  shows "evolves env i g (snd (with_inst inst m g))"
proof -
  obtain r inst' g' where m: "m (inst, g) = (r, inst', g')" by (cases "m (inst, g)") auto
  have "evolves env i g g'" unfolding evolves_def
  proof
    assume k: "keyed env g"
    then have id: "in_id inst = i" using assms(1) by (simp add: keyed_def)
    then have "in_course env (inst, g)" using assms(1) by (simp add: in_course_def)
    then have mv: "moved env (inst, g) (inst', g')" using assms(2) m by (simp add: course_def)
    then obtain new where new: "stored_at env g' i = Inr new" "same_course inst new" "in_version inst \<le> in_version new"
      and others: "\<And>j. j \<noteq> i \<Longrightarrow> stored_at env g' j = stored_at env g j"
      using assms(1) id by (auto simp: moved_def)
    have "keyed env g'" unfolding keyed_def
    proof (intro allI impI)
      fix j x assume x: "stored_at env g' j = Inr x"
      show "in_id x = j"
      proof (cases "j = i")
        case True
        with x new id show ?thesis by (simp add: same_course_def)
      next
        case False
        with x others k show ?thesis by (simp add: keyed_def)
      qed
    qed
    with new others assms(1) show "keyed env g' \<and> (\<forall>j. j \<noteq> i \<longrightarrow> stored_at env g' j = stored_at env g j) \<and>
       (\<forall>old. stored_at env g i = Inr old \<longrightarrow>
          (\<exists>new. stored_at env g' i = Inr new \<and> same_course old new \<and> in_version old \<le> in_version new))"
      by simp
  qed
  with m show ?thesis by (simp add: with_inst_def)
qed

context engine_store
begin

lemma get_instance_run: "portG (ee_get_instance env i) g = (stored_at env g i, g)"
  using get_pure [of i "eg_world g"] by (simp add: portG_def stored_at_def split_beta)

text \<open>Every operation reads the stored instance and runs its body on it.\<close>

lemma evolves_get_with:
  assumes "\<And>inst g. course env (inst, g) (snd (m inst (inst, g)))"
  shows "keeps (evolves env i) (bindE (portG (ee_get_instance env i)) (\<lambda>inst. with_inst inst (m inst)))"
proof (rule keepsI)
  fix g
  have "evolves env i g (snd (with_inst inst (m inst) g))" if "stored_at env g i = Inr inst" for inst
    using that assms by (rule evolves_with_inst)
  then show "evolves env i g (snd (bindE (portG (ee_get_instance env i)) (\<lambda>inst. with_inst inst (m inst)) g))"
    by (cases "stored_at env g i") (simp_all add: bindE_def get_instance_run evolves.refl)
qed

lemma evolves_lock: "keeps (evolves env i) (lock_instance j)"
  unfolding lock_instance_def by (rule evolves_modify) simp

lemma evolves_op:
  assumes "\<And>inst g. course env (inst, g) (snd (m inst (inst, g)))"
  shows "keeps (evolves env i) (seqE (lock_instance i) (bindE (portG (ee_get_instance env i)) (\<lambda>inst. with_inst inst (m inst))))"
  by (intro evolves.keeps_seqE evolves_lock evolves_get_with assms)

lemma evolves_retry: "keeps (evolves env i) (dispatch_retry_after_lock env i n)"
  unfolding dispatch_retry_after_lock_def by (rule evolves_op) (rule course_retry_body)

lemma evolves_cancel: "keeps (evolves env i) (cancel_instance env i)"
  unfolding cancel_instance_def by (rule evolves_op) (rule keeps_at [OF course_cancel])

lemma evolves_approve: "keeps (evolves env i) (approve_node env i n u)"
  unfolding approve_node_def by (rule evolves_op) (rule keeps_at [OF course_approve])

lemma evolves_reject: "keeps (evolves env i) (reject_node env i n m u)"
  unfolding reject_node_def by (rule evolves_op) (rule keeps_at [OF course_reject])

lemma evolves_resume: "keeps (evolves env (in_id x)) (resume_one env x)"
proof -
  have "evolves env i g (snd (tryE (portG (ee_get_instance env i)) (\<lambda>r.
      case r of Inl _ \<Rightarrow> ret () | Inr inst \<Rightarrow> with_inst inst (resume_body env)) g))" for i g
  proof (cases "stored_at env g i")
    case (Inl e)
    then show ?thesis by (simp add: tryE_def get_instance_run evolves.refl)
  next
    case (Inr inst)
    from evolves_with_inst [of env g i inst "resume_body env", OF Inr keeps_at [OF course_resume]] Inr show ?thesis
      by (simp add: tryE_def get_instance_run)
  qed
  then show ?thesis unfolding resume_one_def by (intro evolves.keeps_seqE evolves_lock keepsI)
qed

end

section \<open>The action a result asks for\<close>

definition none_only :: "('w, post_lock_action) handler \<Rightarrow> bool" where
  "none_only m \<longleftrightarrow> (\<forall>s x t. m s = (Inr x, t) \<longrightarrow> x = PostNone)"

lemma none_only_basic: "none_only (ret PostNone)" "none_only (raise e)"
  by (simp_all add: none_only_def)

lemma none_only_bindE: "(\<And>x. none_only (f x)) \<Longrightarrow> none_only (bindE m f)"
  unfolding none_only_def by (metis bindE_Inr_iff)

lemma none_only_seqE: "none_only n \<Longrightarrow> none_only (seqE m n)"
  by (simp add: seqE_def none_only_bindE)

definition own_action :: "'w engine_env \<Rightarrow> string \<Rightarrow> ('w, post_lock_action) handler \<Rightarrow> bool" where
  "own_action env n m \<longleftrightarrow> (\<forall>s x t. in_course env s \<and> \<not> ended (fst s) n \<and> m s = (Inr x, t) \<longrightarrow>
     (case x of PostNone \<Rightarrow> True | PostDispatchRetry i _ _ \<Rightarrow> i = in_id (fst s)))"

lemma own_none: "none_only m \<Longrightarrow> own_action env n m"
  unfolding own_action_def none_only_def by (metis post_lock_action.simps(4))

lemma own_steady:
  assumes "keeps (steady env n) m" and "\<And>x. own_action env n (f x)"
  shows "own_action env n (bindE m f)"
  unfolding own_action_def
proof (intro allI impI)
  fix s x t
  assume a: "in_course env s \<and> \<not> ended (fst s) n \<and> bindE m f s = (Inr x, t)"
  then obtain y u where m: "m s = (Inr y, u)" and f: "f y u = (Inr x, t)" by (auto simp: bindE_Inr_iff)
  from keepsD [OF assms(1) m] a have "moved env s u" "\<not> ended (fst u) n" by (auto simp: steady_def)
  moreover from this have "in_course env u" "in_id (fst u) = in_id (fst s)" by (simp_all add: moved_def)
  ultimately show "case x of PostNone \<Rightarrow> True | PostDispatchRetry i _ _ \<Rightarrow> i = in_id (fst s)"
    using assms(2) f unfolding own_action_def by metis
qed

lemma own_steady_seq: "keeps (steady env n) m \<Longrightarrow> own_action env n m' \<Longrightarrow> own_action env n (seqE m m')"
  by (simp add: seqE_def own_steady)

lemma none_only_save_and_clean: "none_only (save_and_clean env)"
  unfolding save_and_clean_def by (intro none_only_seqE none_only_basic)

lemma none_only_success: "none_only (handle_success env w r now)"
proof -
  have "none_only (advance env w)"
    unfolding advance_def by (intro none_only_bindE) (simp add: none_only_basic none_only_bindE none_only_seqE none_only_save_and_clean)
  then have "none_only (case x of Some reason \<Rightarrow> fail_budget env reason
      | None \<Rightarrow> seqE (upd_inst f) (seqE (log_event env 0 ev) (advance env w)))" for x f ev
    by (cases x) (simp_all add: fail_budget_def none_only_seqE none_only_save_and_clean)
  then show ?thesis unfolding handle_success_def Let_def by (intro none_only_bindE none_only_seqE)
qed

context engine_store
begin

lemma own_requeue: "own_action env (rm_node_id r) (requeue env r now d)"
proof -
  have "own_action env n (bindE get_inst (\<lambda>inst. ret (PostDispatchRetry (in_id inst) i d)))" for n i
    by (simp add: own_action_def)
  then show ?thesis
    unfolding requeue_def by (intro own_steady_seq upd_node_steady steady_parts fields_steady) simp_all
qed

lemma own_failure: "own_action env (rm_node_id r) (handle_failure env w r attempt now msg)"
proof (cases "retry_of w (rm_node_id r) attempt")
  case None
  have "none_only (bindE get_inst (\<lambda>inst. if has_compensation w inst
      then seqE (start_compensation env w i) (ret PostNone) else fail_instance env i msg))" for i
    by (intro none_only_bindE)
       (simp add: none_only_seqE none_only_basic fail_instance_def none_only_bindE none_only_save_and_clean)
  then show ?thesis
    unfolding handle_failure_def Let_def None option.simps by (intro own_none none_only_seqE)
next
  case (Some retry)
  then show ?thesis by (simp add: handle_failure_def own_requeue)
qed

lemma result_body_action:
  assumes "in_course env (inst, g)" and "handle_result_body env r (inst, g) = (Inr (PostDispatchRetry i n d), t)"
  shows "i = in_id inst"
proof -
  have act: "own_action env (rm_node_id r) (bindE (port (ee_get_workflow env i)) (\<lambda>w.
      bindE (get_node (rm_node_id r) e) (\<lambda>ns. bindE (nowE env) (\<lambda>now. case rm_error r of
         Some error_msg \<Rightarrow> handle_failure env w r (st_attempt ns) now error_msg
       | None \<Rightarrow> handle_success env w r now))))" for i e
    by (intro own_steady steady_parts) (simp add: own_failure own_none none_only_success split: option.split)
  have "none_only (seqE m (ret PostNone))" for m :: "('w, unit) handler"
    by (intro none_only_seqE none_only_basic)
  then have nope: "\<not> seqE m (ret PostNone) s = (Inr (PostDispatchRetry i n d), t)" for m :: "('w, unit) handler" and s
    unfolding none_only_def by blast
  have nope2: "\<not> seqE m' (seqE m (ret PostNone)) s = (Inr (PostDispatchRetry i n d), t)"
    for m m' :: "('w, unit) handler" and s
    by (auto simp: seqE_Inr_iff)
  from assms(2) nope nope2 have "\<not> is_expected_compensation_result inst r" "\<not> inst_terminal inst"
    by (auto simp: handle_result_body_def split: if_splits sum.splits)
  moreover from this assms(2) obtain u where v: "validate_node_result_identity inst r = Inr u"
    by (cases "validate_node_result_identity inst r") (auto simp: handle_result_body_def)
  moreover from v have "\<not> ended inst (rm_node_id r)" using validate_live [of inst r] by simp
  ultimately show ?thesis
    using act assms unfolding own_action_def by (fastforce simp: handle_result_body_def)
qed

text \<open>The durable part, then the retry it may ask for.\<close>

lemma durable_run:
  "evolves env (rm_instance_id r) g (snd (handle_node_result_durable env r g))"
  unfolding handle_node_result_durable_def by (rule keeps_at [OF evolves_get_with]) (rule keeps_at [OF course_result_body])

lemma durable_action:
  assumes "keyed env g" and "handle_node_result_durable env r g = (Inr (PostDispatchRetry i n d), g')"
  shows "i = rm_instance_id r"
proof -
  from assms(2) obtain inst where inst: "stored_at env g (rm_instance_id r) = Inr inst"
    and w: "with_inst inst (handle_result_body env r) g = (Inr (PostDispatchRetry i n d), g')"
    by (auto simp: handle_node_result_durable_def bindE_Inr_iff get_instance_run)
  from w obtain t where b: "handle_result_body env r (inst, g) = (Inr (PostDispatchRetry i n d), t)"
    by (cases "handle_result_body env r (inst, g)") (auto simp: with_inst_def)
  from inst assms(1) have id: "in_id inst = rm_instance_id r" by (simp add: keyed_def)
  with inst have "in_course env (inst, g)" by (simp add: in_course_def)
  from result_body_action [OF this b] id show ?thesis by simp
qed

lemma evolves_durable_then:
  assumes "\<And>a. keeps (evolves env (rm_instance_id r)) (m a)"
  shows "keeps (evolves env (rm_instance_id r))
    (bindE (handle_node_result_durable env r) (\<lambda>action. seqE (m action) (run_post_lock env action)))"
proof (rule keepsI)
  fix g
  show "evolves env (rm_instance_id r) g (snd (bindE (handle_node_result_durable env r)
      (\<lambda>action. seqE (m action) (run_post_lock env action)) g))"
  proof (cases "keyed env g")
    case False
    then show ?thesis by (simp add: evolves_def)
  next
    case True
    show ?thesis
    proof (rule evolves.at_bindE [OF durable_run])
      fix a h assume d: "handle_node_result_durable env r g = (Inr a, h)"
      have "keeps (evolves env (rm_instance_id r)) (run_post_lock env a)"
      proof (cases a)
        case PostNone
        then show ?thesis by (simp add: run_post_lock_def evolves.keeps_ret)
      next
        case (PostDispatchRetry i n x)
        with durable_action [OF True] d have "i = rm_instance_id r" by blast
        with PostDispatchRetry show ?thesis by (simp add: run_post_lock_def evolves_retry)
      qed
      from keeps_at [OF evolves.keeps_seqE [OF assms this]]
      show "evolves env (rm_instance_id r) h (snd (seqE (m a) (run_post_lock env a) h))" .
    qed
  qed
qed

lemma evolves_result: "keeps (evolves env (rm_instance_id r)) (handle_node_result env r)"
proof -
  have run: "bindE (handle_node_result_durable env r) (run_post_lock env) =
      bindE (handle_node_result_durable env r) (\<lambda>action. seqE (ret ()) (run_post_lock env action))"
    by (simp add: seqE_def bindE_def ret_def fun_eq_iff)
  have c: "keeps (evolves env (rm_instance_id r)) (if seen then ret () else bindE (handle_node_result_durable env r)
      (\<lambda>action. seqE (modifyE (record_processed (rm_instance_id r) rid)) (run_post_lock env action)))" for seen rid
    by (cases seen) (simp_all add: evolves.keeps_ret evolves_durable_then evolves_modify record_processed_def split: option.split)
  show ?thesis
  proof (cases "result_id_of r")
    case None
    then show ?thesis
      unfolding handle_node_result_def None option.simps run
      by (intro evolves.keeps_seqE evolves_lock evolves_durable_then evolves.keeps_ret)
  next
    case (Some rid)
    show ?thesis
      unfolding handle_node_result_def Some option.simps
      by (intro evolves.keeps_seqE evolves.keeps_bindE evolves_lock evolves_modify evolves.keeps_getsE c)
         (simp add: ensure_processed_def)
  qed
qed

end

text \<open>
  One operation on instance \<open>i\<close>: a decoded result, a retry that is due, a cancellation, an
  approval, a rejection, a resumption after a crash.
\<close>

inductive engine_step :: "'w engine_env \<Rightarrow> string \<Rightarrow> 'w engine \<Rightarrow> 'w engine \<Rightarrow> bool" for env where
  message: "ee_decode_result env d = Inr r \<Longrightarrow>
    engine_step env (rm_instance_id r) g (snd (handle_result_message env d g))"
| result: "engine_step env (rm_instance_id r) g (snd (handle_node_result env r g))"
| retry: "engine_step env i g (snd (dispatch_retry_after_lock env i n g))"
| cancel: "engine_step env i g (snd (cancel_instance env i g))"
| approve: "engine_step env i g (snd (approve_node env i n u g))"
| reject: "engine_step env i g (snd (reject_node env i n m u g))"
| resume: "engine_step env (in_id x) g (snd (resume_one env x g))"

inductive engine_run :: "'w engine_env \<Rightarrow> 'w engine \<Rightarrow> 'w engine \<Rightarrow> bool" for env where
  start: "engine_run env g g"
| step: "engine_run env g h \<Longrightarrow> engine_step env i h k \<Longrightarrow> engine_run env g k"

context engine_store
begin

lemma step_evolves: "engine_step env i g g' \<Longrightarrow> evolves env i g g'"
proof (induction rule: engine_step.induct)
  case (message d r g)
  then show ?case
    using keeps_at [OF evolves_result, of r g] by (simp add: handle_result_message_def evolves.refl)
qed (simp_all add: keeps_at [OF evolves_result] keeps_at [OF evolves_retry] keeps_at [OF evolves_cancel]
    keeps_at [OF evolves_approve] keeps_at [OF evolves_reject] keeps_at [OF evolves_resume])

end

lemma run_course:
  assumes "engine_store env" and "engine_run env g g'" and "keyed env g" and "stored_at env g i = Inr old"
  shows "keyed env g' \<and> (\<exists>new. stored_at env g' i = Inr new \<and> same_course old new \<and> in_version old \<le> in_version new)"
  using assms(2,3,4)
proof (induction rule: engine_run.induct)
  case (start g)
  then show ?case by simp
next
  case (step g h j k)
  then obtain m where m: "keyed env h" "stored_at env h i = Inr m" "same_course old m" "in_version old \<le> in_version m"
    by blast
  have e: "evolves env j h k" using engine_store.step_evolves [OF assms(1) step.hyps(2)] .
  show ?case
  proof (cases "j = i")
    case True
    with e m obtain new where "stored_at env k i = Inr new" "same_course m new" "in_version m \<le> in_version new"
      unfolding evolves_def by blast
    with m e show ?thesis unfolding evolves_def by (meson order_trans same_course_trans)
  next
    case False
    with e m show ?thesis by (simp add: evolves_def)
  qed
qed

text \<open>
  C10. Isolation. An operation on one instance leaves what is stored of every other instance as it
  was, whatever the ports answer.
\<close>

theorem operation_isolated:
  assumes "engine_store env" and "keyed env g" and "engine_step env i g g'" and "j \<noteq> i"
  shows "stored_at env g' j = stored_at env g j"
  using engine_store.step_evolves [OF assms(1,3)] assms(2,4) by (simp add: evolves_def)

text \<open>
  C6. History. Over any sequence of operations a stored instance stays, under an unchanged owner
  and workflow, with the same set of nodes, a version and attempt counters that never go back;
  and a node that has ended (completed, failed, skipped or cancelled) keeps its status: no late
  result, retry, approval or recovery revives it.
\<close>

theorem history_kept:
  assumes "engine_store env" and "keyed env g" and "engine_run env g g'" and "stored_at env g i = Inr old"
  shows "\<exists>new. stored_at env g' i = Inr new \<and> in_owner_id new = in_owner_id old \<and>
    in_workflow_id new = in_workflow_id old \<and> fmdom (in_node_states new) = fmdom (in_node_states old) \<and>
    in_version old \<le> in_version new \<and> later_attempt old new \<and>
    (\<forall>n t. status_of (in_node_states old) n = Some t \<and> node_terminal t \<longrightarrow>
       status_of (in_node_states new) n = Some t)"
proof -
  from run_course [OF assms(1,3,2,4)] obtain new where
    "stored_at env g' i = Inr new" "same_course old new" "in_version old \<le> in_version new" by blast
  then show ?thesis by (auto simp: same_course_def ended_def)
qed

text \<open>Two instances in the store, one of them with a finished and a waiting node.\<close>

definition two_instances :: "mem_world engine" where
  "two_instances = engine_new (mem_world_of (mem_store_new\<lparr>ms_instances :=
     fmap_of_list [(''inst-1'', sample_instance [(''a'', NCompleted), (''b'', NQueued)]),
       (''inst-2'', (sample_instance [(''a'', NPending)])\<lparr>in_id := ''inst-2''\<rparr>)]\<rparr>))"

lemma two_instances_stored:
  "stored_at mem_env two_instances ''inst-1'' = Inr (sample_instance [(''a'', NCompleted), (''b'', NQueued)])"
  "stored_at mem_env two_instances ''inst-2'' = Inr ((sample_instance [(''a'', NPending)])\<lparr>in_id := ''inst-2''\<rparr>)"
  "keyed mem_env two_instances"
  by (auto simp: stored_at_def two_instances_def engine_new_def mem_world_of_def keyed_def fmlookup_of_list
      split: if_splits)

theorem operation_isolated_witness:
  "stored_at mem_env (snd (cancel_instance mem_env ''inst-1'' two_instances)) ''inst-2'' =
     Inr ((sample_instance [(''a'', NPending)])\<lparr>in_id := ''inst-2''\<rparr>)"
  using operation_isolated [where j = "''inst-2''", OF mem_engine.engine_store_axioms two_instances_stored(3)
      engine_step.cancel [of _ "''inst-1''"]]
  by (simp add: two_instances_stored)

theorem history_kept_witness:
  "\<exists>new. stored_at mem_env (snd (cancel_instance mem_env ''inst-1'' two_instances)) ''inst-1'' = Inr new \<and>
     status_of (in_node_states new) ''a'' = Some NCompleted \<and> in_version new \<ge> 1"
  using history_kept [OF mem_engine.engine_store_axioms two_instances_stored(3)
      engine_run.step [OF engine_run.start engine_step.cancel] two_instances_stored(1)]
  by fastforce

end
