(* ===== verification/Results.thy ===== *)
theory Results
  imports History
begin

text \<open>
  Which results the engine accepts, and how often: a result counts once, for the dispatch it
  answers. The checks of \<open>crates/orbflow-engine/src/engine.rs\<close> are compared with a plain
  description, and the effect of an accepted result is followed into the store.
\<close>

section \<open>The answer to a dispatch\<close>

text \<open>
  The result names the attempt and dispatch id the node was last sent out with, or it is the
  answer of a worker of the first wire version to the first attempt.
\<close>

definition answers :: "wf_instance \<Rightarrow> result_message \<Rightarrow> bool" where
  "answers inst r \<longleftrightarrow> (\<exists>ns. fmlookup (in_node_states inst) (rm_node_id r) = Some ns \<and>
     (st_status ns = NQueued \<or> st_status ns = NRunning) \<and>
     (rm_attempt r = st_attempt ns \<and>
        rm_dispatch_id r = Some (dispatch_identity (rm_instance_id r) (rm_node_id r) (st_attempt ns)) \<or>
      rm_dispatch_id r = None \<and> rm_result_id r = None \<and> rm_v r = 1 \<and> st_attempt ns = 1 \<and>
        (rm_attempt r = 0 \<or> rm_attempt r = 1)))"

lemma validate_dispatch_identity_iff:
  "validate_dispatch_identity r n = Inr () \<longleftrightarrow>
     rm_attempt r = n \<and> rm_dispatch_id r = Some (dispatch_identity (rm_instance_id r) (rm_node_id r) n) \<or>
     rm_dispatch_id r = None \<and> rm_result_id r = None \<and> rm_v r = 1 \<and> n = 1 \<and> (rm_attempt r = 0 \<or> rm_attempt r = 1)"
  by (auto simp: validate_dispatch_identity_def Let_def split: option.splits)

lemma validate_iff_answers: "validate_node_result_identity inst r = Inr () \<longleftrightarrow> answers inst r"
  by (auto simp: validate_node_result_identity_def answers_def validate_dispatch_identity_iff split: option.splits)

lemma answers_live: "answers inst r \<Longrightarrow> \<not> ended inst (rm_node_id r)"
  by (auto simp: answers_def ended_def status_of_def)

text \<open>After the node has ended or gone on to a later attempt, the result answers nothing.\<close>

lemma answers_once:
  assumes "answers old r" and "ended new (rm_node_id r) \<or>
    (\<exists>a b. attempt_of old (rm_node_id r) = Some a \<and> attempt_of new (rm_node_id r) = Some b \<and> a < b)"
  shows "\<not> answers new r"
  using assms by (auto simp: answers_def ended_def status_of_def attempt_of_def)

lemma answers_later:
  assumes "same_course old new" and "ended old i \<or> (\<exists>a. attempt_of old i = Some a \<and> c < a)"
  shows "ended new i \<or> (\<exists>a. attempt_of new i = Some a \<and> c < a)"
proof -
  have "ended new i" if "ended old i"
    using that assms(1) by (simp add: same_course_def ended_def)
  moreover have "\<exists>b. attempt_of new i = Some b \<and> c < b" if "attempt_of old i = Some a" "c < a" for a
    using that assms(1) unfolding same_course_def later_attempt_def by (meson order_less_le_trans)
  ultimately show ?thesis using assms(2) by blast
qed

section \<open>Rejected results\<close>

text \<open>The node id is not that of a compensation task.\<close>

definition plain_result :: "result_message \<Rightarrow> bool" where
  "plain_result r = (strip_prefix ''_compensate_'' (rm_node_id r) = None)"

lemma plain_not_expected: "plain_result r \<Longrightarrow> \<not> is_expected_compensation_result inst r"
  by (simp add: plain_result_def is_expected_compensation_result_def)

context engine_store
begin

lemma durable_eq:
  "stored_at env g (rm_instance_id r) = Inr inst \<Longrightarrow>
     handle_node_result_durable env r g = with_inst inst (handle_result_body env r) g"
  by (simp add: handle_node_result_durable_def bindE_def get_instance_run)

end

text \<open>
  C9. Let a result be plain, that is, not of a compensation task (those are dropped without an
  error when they are stale). If it does not answer the current dispatch of a running instance (unknown node,
  node not in flight, other attempt, other or missing dispatch id), it is refused with an error, and
  nothing changes, neither the store nor the engine. A plain result for an instance that has ended
  is dropped without an error; only the engine's own tables forget the instance.
\<close>

theorem stale_result_refused:
  assumes "engine_store env" and "plain_result r" and "stored_at env g (rm_instance_id r) = Inr inst"
    and "inst_terminal inst \<or> \<not> answers inst r"
  shows "if inst_terminal inst
    then handle_node_result_durable env r g = (Inr PostNone, forget_instance (in_id inst) g)
    else \<exists>e. handle_node_result_durable env r g = (Inl e, g)"
proof (cases "inst_terminal inst")
  case True
  then show ?thesis
    using assms(2) by (simp add: engine_store.durable_eq [OF assms(1,3)] with_inst_def handle_result_body_def
        plain_not_expected seqE_def bindE_def cleanup_instance_def)
next
  case False
  with assms(4) validate_iff_answers [of inst r] obtain e where "validate_node_result_identity inst r = Inl e"
    by (cases "validate_node_result_identity inst r") auto
  with False show ?thesis
    using assms(2) by (simp add: engine_store.durable_eq [OF assms(1,3)] with_inst_def handle_result_body_def
        plain_not_expected)
qed

section \<open>Accepted results\<close>

text \<open>
  \<open>settles env n q m\<close>: if \<open>m\<close> succeeds where node \<open>n\<close> has ended with status \<open>q\<close> in the instance
  in hand, the store has recorded it.
\<close>

definition at_end :: "wf_instance \<Rightarrow> string \<Rightarrow> node_status \<Rightarrow> bool" where
  "at_end inst n u \<longleftrightarrow> status_of (in_node_states inst) n = Some u \<and> node_terminal u"

definition stored_end :: "'w engine_env \<Rightarrow> string \<Rightarrow> 'w engine \<Rightarrow> string \<Rightarrow> node_status \<Rightarrow> bool" where
  "stored_end env i g n u \<longleftrightarrow> (\<exists>x. stored_at env g i = Inr x \<and> at_end x n u)"

lemma at_end_ended: "at_end inst n u \<Longrightarrow> ended inst n"
  by (auto simp: at_end_def ended_def)

lemma moved_at_end: "moved env s t \<Longrightarrow> at_end (fst s) n u \<Longrightarrow> at_end (fst t) n u"
  unfolding moved_def at_end_def ended_def by metis

lemma moved_facts:
  assumes "moved env s t" and "at_end (fst s) n q"
  shows "in_course env t" and "at_end (fst t) n q" and "in_id (fst t) = in_id (fst s)"
  using moved_at_end [OF assms] assms(1) by (simp_all add: moved_def)

definition settles :: "'w engine_env \<Rightarrow> string \<Rightarrow> node_status \<Rightarrow> ('w, 'a) handler \<Rightarrow> bool" where
  "settles env n q m \<longleftrightarrow> (\<forall>s x t. in_course env s \<and> at_end (fst s) n q \<and> m s = (Inr x, t) \<longrightarrow>
     stored_end env (in_id (fst s)) (snd t) n q)"

lemma settlesD:
  "settles env n q m \<Longrightarrow> m s = (Inr x, t) \<Longrightarrow> in_course env s \<Longrightarrow> at_end (fst s) n q \<Longrightarrow>
     stored_end env (in_id (fst s)) (snd t) n q"
  unfolding settles_def by blast

lemma settles_raise: "settles env n q (raise e)"
  by (simp add: settles_def)

lemma moved_stored_end: "moved env s t \<Longrightarrow> stored_end env (in_id (fst s)) (snd s) n q \<Longrightarrow> stored_end env (in_id (fst s)) (snd t) n q"
  unfolding moved_def stored_end_def same_course_def ended_def at_end_def by metis

lemma settles_bindE:
  assumes "keeps (course env) m" and "\<And>x. settles env n q (f x)"
  shows "settles env n q (bindE m f)"
  unfolding settles_def
proof (intro allI impI)
  fix s x t
  assume a: "in_course env s \<and> at_end (fst s) n q \<and> bindE m f s = (Inr x, t)"
  then obtain y u where m: "m s = (Inr y, u)" and f: "f y u = (Inr x, t)" by (auto simp: bindE_Inr_iff)
  from keepsD [OF assms(1) m] a have mv: "moved env s u" by (simp add: course_def)
  from a have "at_end (fst s) n q" by simp
  from moved_facts [OF mv this] have u: "in_course env u" "at_end (fst u) n q" "in_id (fst u) = in_id (fst s)" .
  from u(1,2) f assms(2) [of y, unfolded settles_def] have "stored_end env (in_id (fst u)) (snd t) n q" by blast
  with u(3) show "stored_end env (in_id (fst s)) (snd t) n q" by simp
qed

lemma settles_first:
  assumes "settles env n q m" and "keeps (course env) m" and "\<And>x. keeps (course env) (f x)"
  shows "settles env n q (bindE m f)"
  unfolding settles_def
proof (intro allI impI)
  fix s x t
  assume a: "in_course env s \<and> at_end (fst s) n q \<and> bindE m f s = (Inr x, t)"
  then obtain y u where m: "m s = (Inr y, u)" and f: "f y u = (Inr x, t)" by (auto simp: bindE_Inr_iff)
  from keepsD [OF assms(2) m] a have mv: "moved env s u" by (simp add: course_def)
  from a m assms(1) [unfolded settles_def] have se: "stored_end env (in_id (fst s)) (snd u) n q" by blast
  from mv have "in_course env u" "in_id (fst u) = in_id (fst s)" by (simp_all add: moved_def)
  with keepsD [OF assms(3) f] have "moved env u t" by (simp add: course_def)
  with se \<open>in_id (fst u) = in_id (fst s)\<close> show "stored_end env (in_id (fst s)) (snd t) n q"
    using moved_stored_end by metis
qed

lemma settles_seq: "keeps (course env) m \<Longrightarrow> settles env n q m' \<Longrightarrow> settles env n q (seqE m m')"
  by (simp add: seqE_def settles_bindE)

lemma settles_first_seq:
  "settles env n q m \<Longrightarrow> keeps (course env) m \<Longrightarrow> keeps (course env) m' \<Longrightarrow> settles env n q (seqE m m')"
  by (simp add: seqE_def settles_first)

context engine_store
begin

lemma settles_save: "settles env n q (save_instance env)"
  unfolding settles_def
proof (intro allI impI)
  fix s and x :: unit and t
  assume a: "in_course env s \<and> at_end (fst s) n q \<and> save_instance env s = (Inr x, t)"
  obtain inst g where s: "s = (inst, g)" by (cases s)
  from a s have e: "at_end inst n q" and sv: "save_instance env (inst, g) = (Inr x, t)" by simp_all
  obtain old where old: "stored_at env g (in_id inst) = Inr old" "same_course old inst"
    using a s by (auto simp: in_course_def)
  then have id: "in_id old = in_id inst" by (simp add: same_course_def)
  consider "in_version inst = in_version old"
    | "in_version inst \<noteq> in_version old" "needs_merge (in_node_states inst) (in_node_states old)"
    | "in_version inst \<noteq> in_version old" "\<not> needs_merge (in_node_states inst) (in_node_states old)" by blast
  then have "stored_end env (in_id inst) (snd t) n q"
  proof cases
    case 1
    from save_synced [OF old(1) 1] sv e show ?thesis by (auto simp: stored_end_def at_end_def)
  next
    case 2
    from save_merges [OF old(1) 2(1) id 2(2)] obtain t1 t2 g' where
      m: "save_instance env (inst, g) = (Inr (), (merge_instance (inst\<lparr>in_updated_at := t1\<rparr>) old)
         \<lparr>in_version := in_version old + 1, in_updated_at := t2\<rparr>, g')"
      "stored_at env g' = (stored_at env g)(in_id inst := Inr ((merge_instance (inst\<lparr>in_updated_at := t1\<rparr>) old)
         \<lparr>in_version := in_version old + 1, in_updated_at := t2\<rparr>))" by blast
    from merged_status [OF old(2) at_end_ended [OF e]] e
    have "at_end ((merge_instance (inst\<lparr>in_updated_at := t1\<rparr>) old)\<lparr>in_version := in_version old + 1, in_updated_at := t2\<rparr>) n q"
      by (simp add: at_end_def)
    moreover have "snd t = g'" using sv unfolding m(1) by (metis snd_conv)
    ultimately show ?thesis using m(2) by (simp add: stored_end_def)
  next
    case 3
    from e obtain ns where ns: "fmlookup (in_node_states inst) n = Some ns" "node_terminal (st_status ns)"
      by (auto simp: at_end_def status_of_Some)
    from ns(1) 3(2) have "\<not> (case status_of (in_node_states old) n of None \<Rightarrow> True
        | Some u \<Rightarrow> node_terminal (st_status ns) \<and> \<not> node_terminal u)"
      unfolding needs_merge_iff by blast
    with ns(2) have eo: "ended old n" by (cases "status_of (in_node_states old) n") (simp_all add: ended_def)
    with old(2) have "status_of (in_node_states inst) n = status_of (in_node_states old) n" by (simp add: same_course_def)
    with e have "at_end old n q" by (simp add: at_end_def)
    moreover from save_drops [OF old(1) 3] sv have "stored_at env (snd t) (in_id inst) = Inr old"
      using old(1) by (metis snd_conv)
    ultimately show ?thesis by (simp add: stored_end_def)
  qed
  with s show "stored_end env (in_id (fst s)) (snd t) n q" by simp
qed

lemma settles_save_and_clean: "settles env n q (save_and_clean env)"
  unfolding save_and_clean_def
  by (intro settles_first_seq settles_save course_save course.keeps_seqE course_cleanup course.keeps_ret)

lemma settles_start_compensation: "settles env n q (start_compensation env w i)"
proof -
  have t: "settles env n q (if plan = [] then seqE (finalize_compensation env) (save_instance env)
      else seqE (save_instance env) (dispatch_pending_compensations env w))" for plan :: "string list"
    by (simp add: settles_seq course_finalize settles_save settles_first_seq course_save course_dispatch_pending)
  show ?thesis
    unfolding start_compensation_def Let_def
    by (intro settles_bindE settles_seq course_parts fields_course t) simp_all
qed

text \<open>A failed dispatch is saved too.\<close>

lemma error_settles:
  assumes "in_course env s" and "\<not> ended (fst s) i" and "at_end (fst s) n q"
    and "dispatch_error_and_save env w i e s = (Inr x, t)"
  shows "stored_end env (in_id (fst s)) (snd t) n q"
proof -
  from assms(4) obtain y u where h: "handle_node_dispatch_error env w i e s = (Inr y, u)"
    and v: "seqE (save_instance env) cleanup_instance u = (Inr x, t)"
    by (auto simp: dispatch_error_and_save_def seqE_Inr_iff)
  have "course env s u" using keeps_live_at [OF live_dispatch_error assms(2), of w e] h by simp
  then have mv: "moved env s u" using assms(1) by (simp add: course_def)
  then have u: "in_course env u" "at_end (fst u) n q" "in_id (fst u) = in_id (fst s)"
    using moved_facts [OF mv assms(3)] by simp_all
  have "settles env n q (seqE (save_instance env) cleanup_instance)"
    by (intro settles_first_seq settles_save course_save course_cleanup)
  with u v have "stored_end env (in_id (fst u)) (snd t) n q" unfolding settles_def by blast
  with u(3) show ?thesis by simp
qed

lemma dispatch_each_settles:
  assumes "dispatch_each env w (dispatch_error_and_save env w) ns s = (Inr False, t)"
    and "in_course env s" and "at_end (fst s) n q" and "\<And>n'. n' \<in> set ns \<Longrightarrow> \<not> ended (fst s) (n_id n')"
  shows "stored_end env (in_id (fst s)) (snd t) n q"
  using assms
proof (induction ns arbitrary: s)
  case Nil
  then show ?case by simp
next
  case (Cons m ns)
  obtain r u where d: "dispatch_node env w m s = (r, u)" by (cases "dispatch_node env w m s")
  have "\<not> ended (fst s) (n_id m)" using Cons.prems(4) by simp
  with keepsD [OF steady_dispatch d] Cons.prems(2) have mv: "moved env s u" "\<And>i. ended (fst u) i \<Longrightarrow> ended (fst s) i"
    by (auto simp: steady_def)
  then have u: "in_course env u" "at_end (fst u) n q" "in_id (fst u) = in_id (fst s)"
    using moved_facts [OF mv(1) Cons.prems(3)] by simp_all
  show ?case
  proof (cases r)
    case (Inl e)
    with Cons.prems(1) d obtain x where "dispatch_error_and_save env w (n_id m) e u = (Inr x, t)"
      by (auto simp: tryE_def seqE_Inr_iff)
    from error_settles [OF u(1) _ u(2) this] mv(2) Cons.prems(4) u(3) show ?thesis by auto
  next
    case (Inr x)
    with Cons.prems(1) d have "dispatch_each env w (dispatch_error_and_save env w) ns u = (Inr False, t)"
      by (simp add: tryE_def)
    from Cons.IH [OF this u(1,2)] mv(2) Cons.prems(4) u(3) show ?thesis by auto
  qed
qed

lemma settles_advance: "settles env n q (advance env w)"
  unfolding settles_def
proof (intro allI impI)
  fix s x t
  assume a: "in_course env s \<and> at_end (fst s) n q \<and> advance env w s = (Inr x, t)"
  obtain inst g where s: "s = (inst, g)" by (cases s)
  from ready_nodes_run obtain ns y where r: "ready_nodes env w (inst, g) = (Inr ns, y, g)" "same_course inst y"
    "\<forall>n \<in> set ns. \<not> ended y (n_id n)" by blast
  have "moved env s (y, g)" using a moved_local [of env s y g] r(2) s by simp
  with a have y: "in_course env (y, g)" "at_end y n q" "in_id y = in_id inst"
    using s moved_at_end [of env s "(y, g)" n q] by (simp_all add: moved_def)
  let ?rest = "\<lambda>ok. if \<not> ok then ret PostNone else bindE get_inst (\<lambda>inst.
      seqE (if all_nodes_terminal inst then finish_instance env else ret ()) (save_and_clean env))"
  from a s obtain ok u where d: "dispatch_each env w (dispatch_error_and_save env w) ns (y, g) = (Inr ok, u)"
    and f: "?rest ok u = (Inr x, t)"
    by (auto simp: advance_def r(1) bindE_Inr_iff)
  have each: "course env (y, g) u"
  proof -
    have "course env (y, g) (snd (dispatch_each env w (dispatch_error_and_save env w) ns (y, g)))"
      by (rule course_dispatch_each) (use r(3) in \<open>simp_all add: live_error_and_save\<close>)
    with d show ?thesis by simp
  qed
  show "stored_end env (in_id (fst s)) (snd t) n q"
  proof (cases ok)
    case False
    with f have "u = t" by simp
    with dispatch_each_settles [of w ns "(y, g)" t n] d False y r(3) s show ?thesis by simp
  next
    case True
    from each y have mv: "moved env (y, g) u" by (simp add: course_def)
    have "settles env n q (bindE get_inst (\<lambda>inst.
        seqE (if all_nodes_terminal inst then finish_instance env else ret ()) (save_and_clean env)))"
      by (auto intro!: settles_bindE settles_seq course_parts course_finish course.keeps_ret settles_save_and_clean)
    moreover from f True have "bindE get_inst (\<lambda>inst.
        seqE (if all_nodes_terminal inst then finish_instance env else ret ()) (save_and_clean env)) u = (Inr x, t)"
      by (simp only: not_True_eq_False if_False)
    moreover from mv y have "in_course env u" "at_end (fst u) n q"
      using moved_at_end [of env "(y, g)" u n q] by (simp_all add: moved_def)
    ultimately have "stored_end env (in_id (fst u)) (snd t) n q" by (rule settlesD)
    with mv y s show ?thesis by (simp add: moved_def)
  qed
qed

text \<open>The three ways in which an accepted result is recorded.\<close>

lemma success_recorded:
  assumes "in_course env (inst, g)" and "\<not> ended inst (rm_node_id r)"
    and "fmlookup (in_node_states inst) (rm_node_id r) = Some ns"
    and "handle_success env w r now (inst, g) = (Inr x, t)"
  shows "stored_end env (in_id inst) (snd t) (rm_node_id r) NCompleted"
proof -
  let ?n = "rm_node_id r"
  let ?out = "map_option (fmdrop ''_metrics'') (rm_output r)"
  let ?wm = "Option.bind (Option.bind (rm_output r) (\<lambda>m. fmlookup m ''_metrics'')) (ee_parse_metrics env)"
  let ?x = "inst\<lparr>in_node_states := fm_alter ?n (\<lambda>ns. ns\<lparr>st_status := NCompleted, st_output := ?out, st_ended_at := Some now\<rparr>)
      (in_node_states inst)\<rparr>"
  define m where "m = seqE (spawn_node_metrics env w ?n ''completed'' ?wm)
      (bindE (meter env ?n ?out ?wm) (\<lambda>exceeded. case exceeded of
        Some reason \<Rightarrow> fail_budget env reason
      | None \<Rightarrow> seqE (upd_inst (\<lambda>x. x\<lparr>in_context := (case ?out of None \<Rightarrow> in_context x
            | Some out \<Rightarrow> (in_context x)\<lparr>cx_node_outputs := fmupd ?n out (cx_node_outputs (in_context x))\<rparr>),
            in_updated_at := now\<rparr>))
          (seqE (log_event env 0 (\<lambda>b. EvNodeCompleted b ?n (map_option redact_output ?out))) (advance env w))))"
  have run: "m (?x, g) = (Inr x, t)"
    using assms(4) unfolding handle_success_def Let_def m_def by simp
  have f: "settles env n q (fail_budget env reason)" for n q reason
    unfolding fail_budget_def by (intro settles_seq fields_course course_parts settles_save_and_clean) simp_all
  have c: "settles env n q (case z of Some reason \<Rightarrow> fail_budget env reason
      | None \<Rightarrow> seqE (upd_inst u) (seqE (log_event env 0 ev) (advance env w)))"
    if "keeps (course env) (upd_inst u)" for n q z u ev
    using that by (cases z) (simp_all add: f settles_seq course_parts settles_advance)
  have st: "settles env ?n NCompleted m"
    unfolding m_def by (intro settles_seq settles_bindE course_parts course_meter c fields_course) simp_all
  have "same_course inst ?x" using assms(2) by (rule alter_course) simp
  with assms(1) moved_local [of env "(inst, g)" ?x g] have mv: "moved env (inst, g) (?x, g)" by simp
  have "at_end ?x ?n NCompleted" using assms(3) by (simp add: at_end_def status_of_def fm_alter_lookup)
  with settlesD [OF st run] mv show ?thesis by (simp add: moved_def)
qed

lemma failure_recorded:
  assumes "in_course env (inst, g)" and "\<not> ended inst (rm_node_id r)"
    and "fmlookup (in_node_states inst) (rm_node_id r) = Some ns" and "retry_of w (rm_node_id r) attempt = None"
    and "handle_failure env w r attempt now msg (inst, g) = (Inr x, t)"
  shows "stored_end env (in_id inst) (snd t) (rm_node_id r) NFailed"
proof -
  let ?n = "rm_node_id r"
  let ?wm = "Option.bind (Option.bind (rm_output r) (\<lambda>m. fmlookup m ''_metrics'')) (ee_parse_metrics env)"
  let ?x = "inst\<lparr>in_node_states := fm_alter ?n (\<lambda>ns. ns\<lparr>st_status := NFailed, st_error := Some msg, st_ended_at := Some now\<rparr>)
      (in_node_states inst)\<rparr>"
  define m where "m = seqE (upd_inst (\<lambda>x. x\<lparr>in_updated_at := now\<rparr>))
      (seqE (spawn_node_metrics env w ?n ''failed'' ?wm)
      (seqE (case ?wm of None \<Rightarrow> ret () | Some m \<Rightarrow> record_metrics ?n m)
      (seqE (log_event env 0 (\<lambda>b. EvNodeFailed b ?n msg))
      (bindE get_inst (\<lambda>inst. if has_compensation w inst then seqE (start_compensation env w ?n) (ret PostNone)
         else fail_instance env ?n msg)))))"
  have run: "m (?x, g) = (Inr x, t)"
    using assms(5) unfolding handle_failure_def Let_def assms(4) option.simps m_def by (simp only: seqE_upd_node)
  have rm: "keeps (course env) (case wm of None \<Rightarrow> ret () | Some m \<Rightarrow> record_metrics n m)" for wm n
    by (cases wm) (simp_all add: course.keeps_ret course_record_metrics)
  have f: "settles env n q (fail_instance env i msg)" for n q i
    unfolding fail_instance_def
    by (intro settles_seq settles_bindE fields_course course_parts settles_save_and_clean) simp_all
  have c: "settles env n q (bindE get_inst (\<lambda>inst. if has_compensation w inst
      then seqE (start_compensation env w i) (ret PostNone) else fail_instance env i msg))" for n q i
    by (intro settles_bindE course_parts)
       (simp add: f settles_first_seq settles_start_compensation course_start_compensation course.keeps_ret)
  have st: "settles env ?n NFailed m"
    unfolding m_def by (intro settles_seq course_parts rm c fields_course) simp_all
  have "same_course inst ?x" using assms(2) by (rule alter_course) simp
  with assms(1) moved_local [of env "(inst, g)" ?x g] have mv: "moved env (inst, g) (?x, g)" by simp
  have "at_end ?x ?n NFailed" using assms(3) by (simp add: at_end_def status_of_def fm_alter_lookup)
  with settlesD [OF st run] mv show ?thesis by (simp add: moved_def)
qed

lemma requeue_recorded:
  assumes "synced env (inst, g)" and "fmlookup (in_node_states inst) (rm_node_id r) = Some ns"
  shows "\<exists>inst' g'. requeue env r now d (inst, g) = (Inr (PostDispatchRetry (in_id inst) (rm_node_id r) d), inst', g') \<and>
    stored_at env g' (in_id inst) = Inr inst' \<and>
    fmlookup (in_node_states inst') (rm_node_id r) = Some (ns\<lparr>st_attempt := st_attempt ns + 1, st_status := NQueued,
       st_started_at := None, st_ended_at := None, st_error := None\<rparr>)"
proof -
  let ?f = "\<lambda>ns. ns\<lparr>st_attempt := st_attempt ns + 1, st_status := NQueued, st_started_at := None, st_ended_at := None, st_error := None\<rparr>"
  let ?x = "inst\<lparr>in_node_states := fm_alter (rm_node_id r) ?f (in_node_states inst), in_updated_at := now\<rparr>"
  have "synced env (?x, g)" using assms(1) by (simp add: synced_def)
  from save_run [OF this] obtain t g' where
    s: "save_instance env (?x, g) = (Inr (), ?x\<lparr>in_version := in_version ?x + 1, in_updated_at := t\<rparr>, g')"
    "stored_at env g' = (stored_at env g)(in_id ?x := Inr (?x\<lparr>in_version := in_version ?x + 1, in_updated_at := t\<rparr>))"
    by blast
  have "requeue env r now d (inst, g) = (Inr (PostDispatchRetry (in_id inst) (rm_node_id r) d),
      ?x\<lparr>in_version := in_version ?x + 1, in_updated_at := t\<rparr>, g')"
    using s(1) by (simp add: requeue_def seq_save)
  then show ?thesis using s(2) assms(2) by (simp add: fm_alter_lookup)
qed

lemma body_run:
  assumes "plain_result r" and "\<not> inst_terminal inst" and "answers inst r"
    and "handle_result_body env r (inst, g) = (Inr x, t)"
  obtains w ns now g1 where "fmlookup (in_node_states inst) (rm_node_id r) = Some ns"
    and "quiet env (inst, g) (inst, g1)"
    and "fst (ee_get_workflow env (in_workflow_id inst) (eg_world g)) = Inr w"
    and "(case rm_error r of Some msg \<Rightarrow> handle_failure env w r (st_attempt ns) now msg
       | None \<Rightarrow> handle_success env w r now) (inst, g1) = (Inr x, t)"
proof -
  obtain ns where ns: "fmlookup (in_node_states inst) (rm_node_id r) = Some ns"
    using assms(3) by (auto simp: answers_def)
  obtain rw g1 where p: "port (ee_get_workflow env (in_workflow_id inst)) (inst, g) = (rw, inst, g1)"
    "quiet env (inst, g) (inst, g1)" using quiet_run [OF quiet_workflow] by blast
  obtain now g2 where n: "nowE env (inst, g1) = (Inr now, inst, g2)" "quiet env (inst, g1) (inst, g2)"
    using now_run by blast
  have v: "validate_node_result_identity inst r = Inr ()" using assms(3) by (simp add: validate_iff_answers)
  obtain w where w: "rw = Inr w"
  proof (cases rw)
    case (Inl e)
    then show ?thesis
      using assms(4) v assms(2)
      by (simp add: handle_result_body_def plain_not_expected [OF assms(1)] bind_port_Inl [OF p(1) [unfolded Inl]])
  qed (use that in blast)
  have "(case rm_error r of Some msg \<Rightarrow> handle_failure env w r (st_attempt ns) now msg
       | None \<Rightarrow> handle_success env w r now) (inst, g2) = (Inr x, t)"
    using assms(4) v assms(2) ns
    by (simp add: handle_result_body_def plain_not_expected [OF assms(1)] bind_port [OF p(1) [unfolded w]]
        bindE_get_node bind_now [OF n(1)] split: option.splits)
  moreover from p(1) w have "fst (ee_get_workflow env (in_workflow_id inst) (eg_world g)) = Inr w"
    by (simp add: port_def eng_def portG_def split_beta prod_eq_iff)
  moreover have "quiet env (inst, g) (inst, g2)" using p(2) n(2) by (rule quiet.trans)
  ultimately show thesis using that ns by blast
qed

text \<open>
  What an accepted result leaves in the store: a success, the node completed; a failure with
  retries left, the node queued under the next attempt; any other failure, the node failed.
\<close>

lemma accepted_recorded:
  assumes "keyed env g" and "plain_result r" and "stored_at env g (rm_instance_id r) = Inr inst"
    and "\<not> inst_terminal inst" and "answers inst r"
    and "handle_node_result_durable env r g = (Inr a, g')"
  shows "\<exists>w ns new ns'. fst (ee_get_workflow env (in_workflow_id inst) (eg_world g)) = Inr w \<and>
    fmlookup (in_node_states inst) (rm_node_id r) = Some ns \<and>
    stored_at env g' (rm_instance_id r) = Inr new \<and> fmlookup (in_node_states new) (rm_node_id r) = Some ns' \<and>
    (if rm_error r = None then st_status ns' = NCompleted
     else case retry_of w (rm_node_id r) (st_attempt ns) of
       None \<Rightarrow> st_status ns' = NFailed
     | Some rp \<Rightarrow> st_status ns' = NQueued \<and> st_started_at ns' = None \<and> st_attempt ns' = st_attempt ns + 1 \<and>
         a = PostDispatchRetry (rm_instance_id r) (rm_node_id r) (retry_delay (ee_powi env) rp (st_attempt ns)))"
proof -
  from assms(6) obtain inst' where b: "handle_result_body env r (inst, g) = (Inr a, inst', g')"
    by (cases "handle_result_body env r (inst, g)") (auto simp: durable_eq [OF assms(3)] with_inst_def)
  from body_run [OF assms(2,4,5) b] obtain w ns now g1 where ns: "fmlookup (in_node_states inst) (rm_node_id r) = Some ns"
    and q: "quiet env (inst, g) (inst, g1)"
    and w: "fst (ee_get_workflow env (in_workflow_id inst) (eg_world g)) = Inr w"
    and h: "(case rm_error r of Some msg \<Rightarrow> handle_failure env w r (st_attempt ns) now msg
       | None \<Rightarrow> handle_success env w r now) (inst, g1) = (Inr a, inst', g')" by metis
  have id: "in_id inst = rm_instance_id r" using assms(1,3) by (simp add: keyed_def)
  then have c: "in_course env (inst, g1)" "synced env (inst, g1)"
    using q assms(3) by (simp_all add: in_course_def synced_def quiet_def)
  have live: "\<not> ended inst (rm_node_id r)" using assms(5) by (rule answers_live)
  have fin: "\<exists>new ns'. stored_at env g' (rm_instance_id r) = Inr new \<and>
      fmlookup (in_node_states new) (rm_node_id r) = Some ns' \<and> st_status ns' = u"
    if "stored_end env (in_id inst) (snd (inst', g')) (rm_node_id r) u" for u
    using that id by (auto simp: stored_end_def at_end_def status_of_Some)
  show ?thesis
  proof (cases "rm_error r")
    case None
    with h have "handle_success env w r now (inst, g1) = (Inr a, inst', g')" by simp
    from fin [OF success_recorded [OF c(1) live ns this]] w ns None show ?thesis by auto
  next
    case (Some msg)
    with h have f: "handle_failure env w r (st_attempt ns) now msg (inst, g1) = (Inr a, inst', g')" by simp
    show ?thesis
    proof (cases "retry_of w (rm_node_id r) (st_attempt ns)")
      case None
      from fin [OF failure_recorded [OF c(1) live ns None f]] w ns None Some show ?thesis by auto
    next
      case rp: (Some rp)
      from requeue_recorded [OF c(2) ns, of now "retry_delay (ee_powi env) rp (st_attempt ns)"] f rp id ns w Some
      show ?thesis by (auto simp: handle_failure_def)
    qed
  qed
qed

lemma accepted_moves_on:
  assumes "keyed env g" and "plain_result r" and "stored_at env g (rm_instance_id r) = Inr inst"
    and "\<not> inst_terminal inst" and "answers inst r"
    and "handle_node_result_durable env r g = (Inr a, g')"
  shows "\<exists>new c. stored_at env g' (rm_instance_id r) = Inr new \<and> attempt_of inst (rm_node_id r) = Some c \<and>
    (ended new (rm_node_id r) \<or> (\<exists>b. attempt_of new (rm_node_id r) = Some b \<and> c < b))"
proof -
  from accepted_recorded [OF assms] obtain w ns new ns' where
    s: "fmlookup (in_node_states inst) (rm_node_id r) = Some ns" "stored_at env g' (rm_instance_id r) = Inr new"
      "fmlookup (in_node_states new) (rm_node_id r) = Some ns'"
    and c: "if rm_error r = None then st_status ns' = NCompleted
     else case retry_of w (rm_node_id r) (st_attempt ns) of
       None \<Rightarrow> st_status ns' = NFailed
     | Some rp \<Rightarrow> st_status ns' = NQueued \<and> st_started_at ns' = None \<and> st_attempt ns' = st_attempt ns + 1 \<and>
         a = PostDispatchRetry (rm_instance_id r) (rm_node_id r) (retry_delay (ee_powi env) rp (st_attempt ns))"
    by blast
  have "node_terminal (st_status ns') \<or> st_attempt ns < st_attempt ns'"
    using c by (cases "retry_of w (rm_node_id r) (st_attempt ns)") (simp_all split: if_splits)
  with s show ?thesis by (auto simp: ended_def status_of_def attempt_of_def)
qed

end

text \<open>
  C7. The effect of an accepted result. If it is processed without an error, then a success
  leaves the node completed in the store; a failure below the node's retry limit leaves it
  queued, not started, under the next attempt, which is within the limit, and asks for a dispatch
  after the policy's delay; every other failure leaves it failed.
\<close>

theorem accepted_result_effect:
  assumes "engine_store env" and "keyed env g" and "plain_result r"
    and "stored_at env g (rm_instance_id r) = Inr inst" and "\<not> inst_terminal inst" and "answers inst r"
    and "handle_node_result_durable env r g = (Inr a, g')"
  shows "\<exists>w ns new ns'. fst (ee_get_workflow env (in_workflow_id inst) (eg_world g)) = Inr w \<and>
    fmlookup (in_node_states inst) (rm_node_id r) = Some ns \<and>
    stored_at env g' (rm_instance_id r) = Inr new \<and> fmlookup (in_node_states new) (rm_node_id r) = Some ns' \<and>
    (if rm_error r = None then st_status ns' = NCompleted
     else case Option.bind (node_by_id w (rm_node_id r)) n_retry of
       None \<Rightarrow> st_status ns' = NFailed
     | Some rp \<Rightarrow>
         if st_attempt ns < rp_max_attempts rp
         then st_status ns' = NQueued \<and> st_started_at ns' = None \<and> st_attempt ns' = st_attempt ns + 1 \<and>
           st_attempt ns' \<le> rp_max_attempts rp \<and>
           a = PostDispatchRetry (rm_instance_id r) (rm_node_id r) (retry_delay (ee_powi env) rp (st_attempt ns))
         else st_status ns' = NFailed)"
proof -
  have eq: "retry_of w n c = (case Option.bind (node_by_id w n) n_retry of None \<Rightarrow> None
      | Some rp \<Rightarrow> if c < rp_max_attempts rp then Some rp else None)" for w n c
    by (simp add: retry_of_def split: bind_split option.split)
  from engine_store.accepted_recorded [OF assms, unfolded eq] obtain w ns new ns' where
    s: "fst (ee_get_workflow env (in_workflow_id inst) (eg_world g)) = Inr w"
      "fmlookup (in_node_states inst) (rm_node_id r) = Some ns"
      "stored_at env g' (rm_instance_id r) = Inr new" "fmlookup (in_node_states new) (rm_node_id r) = Some ns'"
    and c: "if rm_error r = None then st_status ns' = NCompleted
      else case (case Option.bind (node_by_id w (rm_node_id r)) n_retry of None \<Rightarrow> None
        | Some rp \<Rightarrow> if st_attempt ns < rp_max_attempts rp then Some rp else None) of
       None \<Rightarrow> st_status ns' = NFailed
     | Some rp \<Rightarrow> st_status ns' = NQueued \<and> st_started_at ns' = None \<and> st_attempt ns' = st_attempt ns + 1 \<and>
         a = PostDispatchRetry (rm_instance_id r) (rm_node_id r) (retry_delay (ee_powi env) rp (st_attempt ns))"
    by blast
  have "if rm_error r = None then st_status ns' = NCompleted
     else case Option.bind (node_by_id w (rm_node_id r)) n_retry of
       None \<Rightarrow> st_status ns' = NFailed
     | Some rp \<Rightarrow>
         if st_attempt ns < rp_max_attempts rp
         then st_status ns' = NQueued \<and> st_started_at ns' = None \<and> st_attempt ns' = st_attempt ns + 1 \<and>
           st_attempt ns' \<le> rp_max_attempts rp \<and>
           a = PostDispatchRetry (rm_instance_id r) (rm_node_id r) (retry_delay (ee_powi env) rp (st_attempt ns))
         else st_status ns' = NFailed"
    using c by (cases "Option.bind (node_by_id w (rm_node_id r)) n_retry") (simp_all split: if_splits)
  with s show ?thesis by blast
qed


section \<open>A node in flight\<close>

text \<open>The diamond with its first node sent out once and a second node waiting for it.\<close>

definition in_flight :: wf_instance where
  "in_flight = (sample_instance [])\<lparr>in_node_states :=
     fmap_of_list [(''a'', (sample_state ''a'' NQueued)\<lparr>st_attempt := 1, st_started_at := Some 0\<rparr>),
       (''b'', sample_state ''b'' NPending), (''c'', sample_state ''c'' NPending), (''d'', sample_state ''d'' NPending)]\<rparr>"

definition serving :: "workflow \<Rightarrow> wf_instance \<Rightarrow> mem_world engine" where
  "serving w inst = engine_new (mem_world_of (mem_store_new\<lparr>
     ms_instances := fmupd (in_id inst) inst fmempty, ms_workflows := fmupd (wf_id w) w fmempty\<rparr>))"

definition answer_of :: "wf_instance \<Rightarrow> string \<Rightarrow> int \<Rightarrow> string option \<Rightarrow> result_message" where
  "answer_of inst n attempt err =
     \<lparr>rm_result_id = Some ''r-1'', rm_instance_id = in_id inst, rm_node_id = n, rm_attempt = attempt,
      rm_dispatch_id = Some (dispatch_identity (in_id inst) n attempt), rm_output = None, rm_error = err,
      rm_trace_context = None, rm_v = 1\<rparr>"

lemma serving_stored: "stored_at mem_env (serving w inst) j = (if j = in_id inst then Inr inst else Inl NotFound)"
  by (simp add: stored_at_def serving_def engine_new_def mem_world_of_def)

lemma serving_keyed: "keyed mem_env (serving w inst)"
  by (simp add: keyed_def serving_stored)

abbreviation (input) flight_answer :: result_message where
  "flight_answer \<equiv> answer_of in_flight ''a'' 1 None"

lemma in_flight_run:
  "fst (handle_node_result_durable mem_env flight_answer (serving diamond in_flight)) = Inr PostNone"
  by code_simp

lemma in_flight_facts:
  "plain_result (answer_of in_flight ''a'' k err)" "rm_instance_id (answer_of in_flight ''a'' k err) = ''inst-1''"
  "rm_node_id (answer_of in_flight ''a'' k err) = ''a''" "rm_error (answer_of in_flight ''a'' k err) = err"
  "stored_at mem_env (serving w in_flight) ''inst-1'' = Inr in_flight" "\<not> inst_terminal in_flight"
  "answers in_flight (answer_of in_flight ''a'' k err) \<longleftrightarrow> k = 1" "in_id in_flight = ''inst-1''"
  by (auto simp: plain_result_def strip_prefix_def starts_with_def answer_of_def serving_stored in_flight_def
      inst_terminal_def answers_def sample_state_def fmlookup_of_list)

theorem stale_result_refused_witness:
  "\<exists>e. handle_node_result_durable mem_env (answer_of in_flight ''a'' 2 None) (serving diamond in_flight) =
     (Inl e, serving diamond in_flight)"
  using stale_result_refused [OF mem_engine.engine_store_axioms in_flight_facts(1), of "serving diamond in_flight" 2 None in_flight]
  by (simp add: in_flight_facts)

lemma in_flight_step:
  "handle_node_result_durable mem_env flight_answer (serving diamond in_flight) =
     (Inr PostNone, snd (handle_node_result_durable mem_env flight_answer (serving diamond in_flight)))"
  using in_flight_run by (simp add: prod_eq_iff)

theorem accepted_result_effect_witness:
  "\<exists>g' new ns'. handle_node_result_durable mem_env flight_answer (serving diamond in_flight) = (Inr PostNone, g') \<and>
     stored_at mem_env g' ''inst-1'' = Inr new \<and> fmlookup (in_node_states new) ''a'' = Some ns' \<and>
     st_status ns' = NCompleted"
proof -
  obtain g' where step: "handle_node_result_durable mem_env flight_answer (serving diamond in_flight) = (Inr PostNone, g')"
    using in_flight_step by blast
  have a: "stored_at mem_env (serving diamond in_flight) (rm_instance_id flight_answer) = Inr in_flight"
    by (simp only: in_flight_facts)
  have b: "answers in_flight flight_answer" by (simp only: in_flight_facts)
  note e = accepted_result_effect [OF mem_engine.engine_store_axioms serving_keyed in_flight_facts(1) a in_flight_facts(6) b step]
  have "\<exists>new ns'. stored_at mem_env g' ''inst-1'' = Inr new \<and> fmlookup (in_node_states new) ''a'' = Some ns' \<and>
      st_status ns' = NCompleted"
    using e unfolding in_flight_facts by auto
  with step show ?thesis by blast
qed


end
