(* ===== verification/Compensation.thy ===== *)
theory Compensation
  imports Results
begin

text \<open>
  What saga compensation promises (\<open>crates/orbflow-engine/src/saga.rs\<close>): the plan holds the nodes
  to undo, each before the nodes it depends on; it is stored before anything is undone;
  each accepted answer takes one node off and the last one ends the instance. And one case in
  which the plan is lost.
\<close>

section \<open>The order of the plan\<close>

lemma preds_first_trancl:
  assumes "preds_first E xs"
  shows "xs = us @ x # vs \<Longrightarrow> (p, x) \<in> E\<^sup>+ \<Longrightarrow> p \<in> set us"
proof (induction us arbitrary: x vs rule: length_induct)
  case (1 us)
  from 1(3) show ?case
  proof (cases rule: tranclE)
    case base
    with assms 1(2) show ?thesis by (auto simp: preds_first_def)
  next
    case (step y)
    with assms 1(2) have "y \<in> set us" by (auto simp: preds_first_def)
    then obtain us1 us2 where us: "us = us1 @ y # us2" by (meson split_list)
    with 1(2) have "xs = us1 @ y # (us2 @ x # vs)" by simp
    with 1(1) us step(1) have "p \<in> set us1" by auto
    with us show ?thesis by simp
  qed
qed

lemma later_in_split: "us @ j # vs = ys @ i # xs \<Longrightarrow> distinct (ys @ i # xs) \<Longrightarrow> i \<in> set us \<Longrightarrow> j \<in> set xs"
proof (induction ys arbitrary: us)
  case Nil
  then show ?case by (cases us) auto
next
  case (Cons y ys)
  then obtain us' where "us = y # us'" by (cases us) auto
  with Cons show ?case by auto
qed

text \<open>
  C13. The plan of a compensation lists, once each, exactly the completed nodes that declare a
  compensation, and a node is undone only after every planned node that depends on it, directly
  or through others.
\<close>

theorem compensation_plan_correct:
  assumes "distinct (map n_id (wf_nodes w))"
    and "edge_rel (wf_edges w) \<subseteq> n_id ` set (wf_nodes w) \<times> n_id ` set (wf_nodes w)"
    and "acyclic (edge_rel (wf_edges w))"
  shows "distinct (to_compensate w inst) \<and>
    set (to_compensate w inst) = {n_id n | n. n \<in> set (wf_nodes w) \<and> n_compensate n \<noteq> None \<and>
       status_of (in_node_states inst) (n_id n) = Some NCompleted} \<and>
    (\<forall>xs i ys j. to_compensate w inst = xs @ i # ys \<and> j \<in> set (to_compensate w inst) \<and>
       (i, j) \<in> (edge_rel (wf_edges w))\<^sup>+ \<longrightarrow> j \<in> set xs)"
proof -
  let ?E = "edge_rel (wf_edges w)"
  let ?P = "\<lambda>i. status_of (in_node_states inst) i = Some NCompleted \<and>
      (case node_by_id w i of None \<Rightarrow> False | Some n \<Rightarrow> n_compensate n \<noteq> None)"
  from topological_order_spec [OF assms(1,2)] assms(3) obtain order where
    o: "topological_order w = Some order" "distinct order" "preds_first ?E order" "set order = n_id ` set (wf_nodes w)"
    by blast
  have plan: "to_compensate w inst = rev (filter ?P order)" by (simp add: to_compensate_def o(1))
  have "i \<in> set (to_compensate w inst) \<longleftrightarrow> (\<exists>n. i = n_id n \<and> n \<in> set (wf_nodes w) \<and> n_compensate n \<noteq> None \<and>
      status_of (in_node_states inst) (n_id n) = Some NCompleted)" for i
    using node_by_id_distinct [OF assms(1)] unfolding plan set_rev set_filter o(4) by (auto split: option.splits)
  then have set: "set (to_compensate w inst) = {n_id n | n. n \<in> set (wf_nodes w) \<and> n_compensate n \<noteq> None \<and>
      status_of (in_node_states inst) (n_id n) = Some NCompleted}"
    by blast
  have "j \<in> set xs" if s: "to_compensate w inst = xs @ i # ys" "j \<in> set (to_compensate w inst)" "(i, j) \<in> ?E\<^sup>+" for xs i ys j
  proof -
    from s(2) have j: "j \<in> set order" "?P j" unfolding plan by simp_all
    have "i \<in> set (to_compensate w inst)" unfolding s(1) by simp
    then have i: "?P i" unfolding plan by simp
    from j obtain us vs where order: "order = us @ j # vs" by (meson split_list)
    from preds_first_trancl [OF o(3) order s(3)] have "i \<in> set us" .
    with i have iu: "i \<in> set (filter ?P us)" by simp
    have f: "filter ?P order = filter ?P us @ j # filter ?P vs" using order j(2) by simp
    have "rev (to_compensate w inst) = rev ys @ i # rev xs" using s(1) by simp
    then have r: "filter ?P us @ j # filter ?P vs = rev ys @ i # rev xs" unfolding plan rev_rev_ident f .
    have d: "distinct (rev ys @ i # rev xs)" using o(2) unfolding r [symmetric] f [symmetric] by simp
    from later_in_split [OF r d iu] show "j \<in> set xs" by simp
  qed
  moreover have "distinct (to_compensate w inst)" unfolding plan using o(2) by simp
  ultimately show ?thesis using set by blast
qed

text \<open>Two nodes in a row, both with a compensation.\<close>

definition undoable_node :: "string \<Rightarrow> wf_node" where
  "undoable_node i = (sample_node KAction i)\<lparr>n_compensate := Some \<lparr>cc_plugin_ref = ''undo'', cc_input_mapping = None\<rparr>\<rparr>"

definition undoable :: workflow where
  "undoable = sample_workflow [undoable_node ''a'', undoable_node ''b'', undoable_node ''c'']
     [sample_edge ''a'' ''b'', sample_edge ''b'' ''c'']"

lemma undoable_node_simps [simp]: "n_id (undoable_node i) = i" "n_compensate (undoable_node i) \<noteq> None"
  by (simp_all add: undoable_node_def)

lemma undoable_graph:
  "wf_nodes undoable = [undoable_node ''a'', undoable_node ''b'', undoable_node ''c'']"
  "edge_rel (wf_edges undoable) = {(''a'', ''b''), (''b'', ''c'')}" "acyclic (edge_rel (wf_edges undoable))"
proof -
  show e: "edge_rel (wf_edges undoable) = {(''a'', ''b''), (''b'', ''c'')}"
    by (auto simp: undoable_def edge_rel_def)
  show "acyclic (edge_rel (wf_edges undoable))"
    by (rule acyclic_rank [where f = "\<lambda>x. if x = ''a'' then 0 else if x = ''c'' then 2 else 1"]) (auto simp: e)
qed (simp add: undoable_def)

abbreviation (input) half_done :: wf_instance where
  "half_done \<equiv> sample_instance [(''a'', NCompleted), (''b'', NCompleted), (''c'', NPending)]"

lemma undoable_plan: "to_compensate undoable half_done = [''b'', ''a'']"
  by code_simp

theorem compensation_plan_correct_witness:
  "to_compensate undoable half_done = [''b'', ''a''] \<and> distinct (to_compensate undoable half_done) \<and>
   ''b'' \<in> set (take 1 (to_compensate undoable half_done))"
proof -
  have "distinct (map n_id (wf_nodes undoable))"
    "edge_rel (wf_edges undoable) \<subseteq> n_id ` set (wf_nodes undoable) \<times> n_id ` set (wf_nodes undoable)"
    by (auto simp: undoable_graph)
  from compensation_plan_correct [OF this undoable_graph(3), of half_done] undoable_plan show ?thesis by simp
qed

section \<open>Starting\<close>

lemmas seq_touch = seqE_Inr [where m = "touch env" for env]
lemmas seq_finalize = seqE_Inr [where m = "finalize_compensation env" for env]

context engine_store
begin

text \<open>Sending compensation tasks does not change what is stored.\<close>

lemma quiet_dispatch_pending:
  assumes "in_saga inst = Some sg" and "pending_compensations sg \<noteq> [] \<or> \<not> sg_compensating sg"
  shows "quiet env (inst, g) (snd (dispatch_pending_compensations env w (inst, g)))"
proof (cases "pending_compensations sg")
  case Nil
  with assms show ?thesis by (simp add: dispatch_pending_compensations_def quiet.refl)
next
  case (Cons i rest)
  then show ?thesis
    using keeps_at [OF quiet.keeps_logE [OF quiet_dispatch_compensation], of "(inst, g)" w i] assms(1)
    by (simp add: dispatch_pending_compensations_def quiet.refl)
qed

lemma finalize_run:
  "\<exists>t g'. finalize_compensation env (inst, g) = (Inr (), (end_compensation inst)\<lparr>in_updated_at := t\<rparr>, g') \<and>
     stored_at env g' = stored_at env g"
proof -
  obtain t g1 where n: "nowE env (end_compensation inst, g) = (Inr t, end_compensation inst, g1)"
    "quiet env (end_compensation inst, g) (end_compensation inst, g1)" using now_run by blast
  let ?x = "(end_compensation inst)\<lparr>in_updated_at := t\<rparr>"
  obtain g2 where l1: "log_event env 0 EvCompensationCompleted (?x, g1) = (Inr (), ?x, g2)"
    "quiet env (?x, g1) (?x, g2)" using log_event_run by blast
  let ?ev = "\<lambda>b. EvInstanceFailed b (''node '' @ saga_failed_node inst @ '' failed; compensation completed'')"
  obtain g3 where l2: "log_event env 0 ?ev (?x, g2) = (Inr (), ?x, g3)" "quiet env (?x, g2) (?x, g3)"
    using log_event_run by blast
  have touch: "touch env (end_compensation inst, g) = (Inr (), ?x, g1)"
    by (simp add: touch_def bind_now [OF n(1)])
  have "finalize_compensation env (inst, g) = (Inr (), ?x, g3)"
    using l2(1) by (simp add: finalize_compensation_def seq_touch [OF touch] seq_log [OF l1(1)])
  moreover have "stored_at env g3 = stored_at env g" using n(2) l1(2) l2(2) by (simp add: quiet_def)
  ultimately show ?thesis by blast
qed

end

text \<open>
Starting a compensation in step with the store records it before anything is undone: if
  there is something to undo, the stored instance is running with the whole plan pending;
  if not, it has failed and the saga is closed.
\<close>

theorem compensation_started:
  assumes "engine_store env" and "synced env (inst, g)"
  shows "\<exists>new. stored_at env (snd (snd (start_compensation env w n (inst, g)))) (in_id inst) = Inr new \<and>
    (if to_compensate w inst = []
     then in_status new = IFailed \<and> in_saga new = Some \<lparr>sg_compensating = False, sg_completed_nodes = [],
       sg_compensated_nodes = [], sg_failed_node = Some n\<rparr>
     else in_status new = IRunning \<and> in_saga new = Some \<lparr>sg_compensating = True,
       sg_completed_nodes = to_compensate w inst, sg_compensated_nodes = [], sg_failed_node = Some n\<rparr>)"
proof -
  let ?plan = "to_compensate w inst"
  let ?sg = "\<lparr>sg_compensating = True, sg_completed_nodes = ?plan, sg_compensated_nodes = [], sg_failed_node = Some n\<rparr>"
  let ?x = "inst\<lparr>in_status := IRunning, in_saga := Some ?sg\<rparr>"
  obtain g1 where l: "log_event env 0 (\<lambda>b. EvCompensationStarted b n) (?x, g) = (Inr (), ?x, g1)" "quiet env (?x, g) (?x, g1)"
    using engine_store.log_event_run [OF assms(1)] by blast
  show ?thesis
  proof (cases "?plan = []")
    case True
    obtain t g2 where f: "finalize_compensation env (?x, g1) = (Inr (), (end_compensation ?x)\<lparr>in_updated_at := t\<rparr>, g2)"
      "stored_at env g2 = stored_at env g1" using engine_store.finalize_run [OF assms(1)] by blast
    let ?y = "(end_compensation ?x)\<lparr>in_updated_at := t\<rparr>"
    have "synced env (?y, g2)" using assms(2) l(2) f(2) by (simp add: synced_def quiet_def end_compensation_def)
    from engine_store.save_run [OF assms(1) this] obtain t' g3 where
      s: "save_instance env (?y, g2) = (Inr (), ?y\<lparr>in_version := in_version ?y + 1, in_updated_at := t'\<rparr>, g3)"
      "stored_at env g3 = (stored_at env g2)(in_id ?y := Inr (?y\<lparr>in_version := in_version ?y + 1, in_updated_at := t'\<rparr>))"
      by blast
    have "start_compensation env w n (inst, g) = (Inr (), ?y\<lparr>in_version := in_version ?y + 1, in_updated_at := t'\<rparr>, g3)"
      using True by (simp add: start_compensation_def Let_def seq_log [OF l(1)[unfolded True]] seq_finalize [OF f(1)[unfolded True]] s(1)[unfolded True])
    then show ?thesis using s(2) True by (simp add: end_compensation_def)
  next
    case False
    have "synced env (?x, g1)" using assms(2) l(2) by (simp add: synced_def quiet_def)
    from engine_store.save_run [OF assms(1) this] obtain t g2 where
      s: "save_instance env (?x, g1) = (Inr (), ?x\<lparr>in_version := in_version ?x + 1, in_updated_at := t\<rparr>, g2)"
      "stored_at env g2 = (stored_at env g1)(in_id ?x := Inr (?x\<lparr>in_version := in_version ?x + 1, in_updated_at := t\<rparr>))"
      by blast
    let ?y = "?x\<lparr>in_version := in_version ?x + 1, in_updated_at := t\<rparr>"
    have "start_compensation env w n (inst, g) = dispatch_pending_compensations env w (?y, g2)"
      using False by (simp add: start_compensation_def Let_def seq_log [OF l(1)] seq_save [OF s(1)])
    moreover have "quiet env (?y, g2) (snd (dispatch_pending_compensations env w (?y, g2)))"
      by (rule engine_store.quiet_dispatch_pending [OF assms(1), where sg = ?sg])
         (use False in \<open>simp_all add: pending_compensations_def\<close>)
    ultimately show ?thesis using s(2) False by (simp add: quiet_def)
  qed
qed

theorem compensation_started_witness:
  "\<exists>new. stored_at mem_env (snd (snd (start_compensation mem_env undoable ''c'' (half_done, holding half_done))))
     ''inst-1'' = Inr new \<and> in_status new = IRunning \<and> map_option sg_completed_nodes (in_saga new) = Some [''b'', ''a'']"
  using compensation_started [OF mem_engine.engine_store_axioms synced_holding, of undoable "''c''" half_done]
  by (auto simp: undoable_plan)

section \<open>One answer\<close>

lemma end_compensation_id [simp]: "in_id (end_compensation inst) = in_id inst"
  by (simp add: end_compensation_def)

lemma saga_progress:
  assumes "engine_store env" and "synced env (inst, g)" and "in_saga inst = Some sg" and "sg_compensating sg"
    and "saga_ok sg" and "rm_error r = None" and "orig_node_id r \<in> set (pending_compensations sg)"
  shows "\<exists>new sg'. stored_at env (snd (snd (handle_compensation_result env r (inst, g)))) (in_id inst) = Inr new \<and>
    in_saga new = Some sg' \<and> saga_ok sg' \<and>
    pending_compensations sg' = filter (\<lambda>i. i \<noteq> orig_node_id r) (pending_compensations sg) \<and>
    length (pending_compensations sg') < length (pending_compensations sg) \<and>
    (if pending_compensations sg' = [] then in_status new = IFailed \<and> \<not> sg_compensating sg'
     else in_status new = in_status inst \<and> sg_compensating sg')"
proof -
  let ?i = "orig_node_id r"
  let ?sg = "sg\<lparr>sg_compensated_nodes := sg_compensated_nodes sg @ [?i]\<rparr>"
  have nc: "note_compensated r sg = Inr ?sg" using assms(7) by (simp add: note_compensated_Inr)
  have ok: "saga_ok ?sg" using saga_ok_note [OF assms(5) nc] .
  have ne: "sg_completed_nodes ?sg \<noteq> []" using assms(7) by (auto simp: pending_compensations_def)
  have pend: "pending_compensations ?sg = filter (\<lambda>i. i \<noteq> ?i) (pending_compensations sg)"
    by (auto simp: pending_compensations_def intro: filter_cong)
  have less: "length (pending_compensations ?sg) < length (pending_compensations sg)"
    unfolding pend using assms(7) by (auto intro: length_filter_less)
  let ?x = "inst\<lparr>in_saga := Some ?sg\<rparr>"
  obtain t g1 where n: "nowE env (?x, g) = (Inr t, ?x, g1)" "quiet env (?x, g) (?x, g1)"
    using engine_store.now_run [OF assms(1)] by blast
  let ?y = "?x\<lparr>in_updated_at := t\<rparr>"
  have touch: "touch env (?x, g) = (Inr (), ?y, g1)" by (simp add: touch_def bind_now [OF n(1)])
  have run: "handle_compensation_result env r (inst, g) =
      (if all_compensated ?sg then seqE (finalize_compensation env) (save_instance env)
       else seqE (save_instance env) (bindE (port (ee_get_workflow env (in_workflow_id inst)))
         (dispatch_pending_compensations env))) (?y, g1)"
    using assms(3,4,6) nc by (simp add: handle_compensation_result_def active_saga_def seq_touch [OF touch])
  have sy: "synced env (?y, g1)" using assms(2) n(2) by (simp add: synced_def quiet_def)
  show ?thesis
  proof (cases "pending_compensations ?sg = []")
    case True
    then have all: "all_compensated ?sg" using all_compensated_iff [OF ok ne] by simp
    obtain t2 g2 where f: "finalize_compensation env (?y, g1) = (Inr (), (end_compensation ?y)\<lparr>in_updated_at := t2\<rparr>, g2)"
      "stored_at env g2 = stored_at env g1" using engine_store.finalize_run [OF assms(1)] by blast
    let ?z = "(end_compensation ?y)\<lparr>in_updated_at := t2\<rparr>"
    have "synced env (?z, g2)" using sy f(2) by (simp add: synced_def end_compensation_def)
    from engine_store.save_run [OF assms(1) this] obtain t3 g3 where
      s: "save_instance env (?z, g2) = (Inr (), ?z\<lparr>in_version := in_version ?z + 1, in_updated_at := t3\<rparr>, g3)"
      "stored_at env g3 = (stored_at env g2)(in_id ?z := Inr (?z\<lparr>in_version := in_version ?z + 1, in_updated_at := t3\<rparr>))"
      by blast
    have st: "stored_at env (snd (snd (handle_compensation_result env r (inst, g)))) (in_id inst) =
        Inr (?z\<lparr>in_version := in_version ?z + 1, in_updated_at := t3\<rparr>)"
      unfolding run using all s(2) by (simp add: seq_finalize [OF f(1)] s(1))
    have "saga_ok (?sg\<lparr>sg_compensating := False\<rparr>)" "pending_compensations (?sg\<lparr>sg_compensating := False\<rparr>) = pending_compensations ?sg"
      using ok by (simp_all add: saga_ok_def pending_compensations_def)
    then show ?thesis
      by (intro exI [of _ "?z\<lparr>in_version := in_version ?z + 1, in_updated_at := t3\<rparr>"] exI [of _ "?sg\<lparr>sg_compensating := False\<rparr>"] conjI st)
         (use True pend less in \<open>simp_all add: end_compensation_def\<close>)
  next
    case False
    then have all: "\<not> all_compensated ?sg" using all_compensated_iff [OF ok ne] by simp
    from engine_store.save_run [OF assms(1) sy] obtain t2 g2 where
      s: "save_instance env (?y, g1) = (Inr (), ?y\<lparr>in_version := in_version ?y + 1, in_updated_at := t2\<rparr>, g2)"
      "stored_at env g2 = (stored_at env g1)(in_id ?y := Inr (?y\<lparr>in_version := in_version ?y + 1, in_updated_at := t2\<rparr>))"
      by blast
    let ?z = "?y\<lparr>in_version := in_version ?y + 1, in_updated_at := t2\<rparr>"
    obtain rw g3 where p: "port (ee_get_workflow env (in_workflow_id inst)) (?z, g2) = (rw, ?z, g3)"
      "quiet env (?z, g2) (?z, g3)" using quiet_run [OF engine_store.quiet_workflow [OF assms(1)]] by blast
    have tail: "handle_compensation_result env r (inst, g) = bindE (port (ee_get_workflow env (in_workflow_id inst)))
         (dispatch_pending_compensations env) (?z, g2)"
      unfolding run using all by (simp add: seq_save [OF s(1)])
    have "quiet env (?z, g2) (snd (bindE (port (ee_get_workflow env (in_workflow_id inst))) (dispatch_pending_compensations env) (?z, g2)))"
    proof (rule quiet.at_bindE)
      show "quiet env (?z, g2) (snd (port (ee_get_workflow env (in_workflow_id inst)) (?z, g2)))" using p by simp
      fix w u assume "port (ee_get_workflow env (in_workflow_id inst)) (?z, g2) = (Inr w, u)"
      with p(1) have u: "u = (?z, g3)" by simp
      show "quiet env u (snd (dispatch_pending_compensations env w u))"
        unfolding u by (rule engine_store.quiet_dispatch_pending [OF assms(1), where sg = ?sg]) (use False in simp_all)
    qed
    then have "stored_at env (snd (snd (handle_compensation_result env r (inst, g)))) = stored_at env g2"
      unfolding tail by (simp add: quiet_def)
    then have st: "stored_at env (snd (snd (handle_compensation_result env r (inst, g)))) (in_id inst) = Inr ?z"
      using s(2) by simp
    show ?thesis
      by (intro exI [of _ ?z] exI [of _ ?sg] conjI st) (use False ok pend less assms(4) in simp_all)
  qed
qed

text \<open>
  C14. Progress of a compensation. The successful answer to a pending compensation task takes
  that node off the pending ones and is stored. While others are pending the saga goes on;
  when none is left the instance has failed and the saga is closed. So a saga that is answered
  ends after as many answers as its plan has nodes.
\<close>

theorem compensation_progress:
  assumes "engine_store env" and "synced env (inst, g)" and "in_saga inst = Some sg" and "sg_compensating sg"
    and "saga_ok sg" and "rm_error r = None" and "orig_node_id r \<in> set (pending_compensations sg)"
  shows "\<exists>new sg'. stored_at env (snd (snd (handle_compensation_result env r (inst, g)))) (in_id inst) = Inr new \<and>
    in_saga new = Some sg' \<and> saga_ok sg' \<and>
    pending_compensations sg' = filter (\<lambda>i. i \<noteq> orig_node_id r) (pending_compensations sg) \<and>
    length (pending_compensations sg') < length (pending_compensations sg) \<and>
    (if pending_compensations sg' = [] then in_status new = IFailed \<and> \<not> sg_compensating sg'
     else in_status new = in_status inst \<and> sg_compensating sg')"
  using assms by (rule saga_progress)

text \<open>The saga of the two nodes, the second already undone.\<close>

definition undoing :: wf_instance where
  "undoing = half_done\<lparr>in_saga := Some \<lparr>sg_compensating = True, sg_completed_nodes = [''b'', ''a''],
     sg_compensated_nodes = [''b''], sg_failed_node = Some ''c''\<rparr>\<rparr>"

theorem compensation_progress_witness:
  "\<exists>new. stored_at mem_env (snd (snd (handle_compensation_result mem_env (answer_of undoing ''_compensate_a'' 1 None)
     (undoing, holding undoing)))) ''inst-1'' = Inr new \<and> in_status new = IFailed"
proof -
  have "orig_node_id (answer_of undoing ''_compensate_a'' 1 None) = ''a''"
    "rm_error (answer_of undoing ''_compensate_a'' 1 None) = None"
    by (simp_all add: answer_of_def orig_node_id_def strip_prefix_def starts_with_def)
  moreover from this obtain sg where "in_saga undoing = Some sg" "sg_compensating sg" "saga_ok sg"
    "pending_compensations sg = [''a'']" "in_id undoing = ''inst-1''"
    by (simp add: undoing_def saga_ok_def pending_compensations_def)
  ultimately show ?thesis
    using compensation_progress [OF mem_engine.engine_store_axioms synced_holding, of undoing sg
        "answer_of undoing ''_compensate_a'' 1 None"] by auto
qed

section \<open>A lost plan\<close>

context engine_store
begin

lemma mark_failed_run:
  assumes "mark_node_dispatch_failed env n e (inst, g) = (Inr (), inst', g')"
  shows "\<exists>t. inst' = inst\<lparr>in_node_states := fm_alter n (\<lambda>ns. ns\<lparr>st_status := NFailed, st_error := Some (error_str e),
      st_started_at := Some t, st_ended_at := Some t\<rparr>) (in_node_states inst),
      in_status := IFailed, in_updated_at := t, in_version := in_version inst + 1\<rparr> \<and>
    stored_at env g' = stored_at env g"
proof -
  obtain t g1 where n: "nowE env (inst, g) = (Inr t, inst, g1)" "quiet env (inst, g) (inst, g1)"
    using now_run by blast
  let ?x = "inst\<lparr>in_node_states := fm_alter n (\<lambda>ns. ns\<lparr>st_status := NFailed, st_error := Some (error_str e),
      st_started_at := Some t, st_ended_at := Some t\<rparr>) (in_node_states inst), in_status := IFailed, in_updated_at := t\<rparr>"
  let ?y = "?x\<lparr>in_version := in_version ?x + 1\<rparr>"
  obtain r2 g2 where w: "world (ee_sla_failure env (in_workflow_id ?x)) (?x, g1) = (r2, ?x, g2)" "quiet env (?x, g1) (?x, g2)"
    using quiet_run [OF quiet_sla_failure] by blast
  let ?e3 = "append_event env 0 (\<lambda>b. EvNodeFailed b n (error_str e))"
  obtain r3 g3 where e3: "?e3 (?x, g2) = (r3, ?x, g3)" "quiet env (?x, g2) (?x, g3)"
    using quiet_run [OF quiet_append_event] by blast
  let ?e4 = "append_event env 0 (\<lambda>b. EvInstanceFailed b (''node '' @ n @ '' failed to dispatch: '' @ error_str e))"
  obtain r4 g4 where e4: "?e4 (?y, g3) = (r4, ?y, g4)" "quiet env (?y, g3) (?y, g4)"
    using quiet_run [OF quiet_append_event] by blast
  have "mark_node_dispatch_failed env n e (inst, g) =
      seqE (world (ee_sla_failure env (in_workflow_id ?x))) (seqE ?e3 (seqE (upd_inst (\<lambda>i. i\<lparr>in_version := in_version i + 1\<rparr>)) ?e4)) (?x, g1)"
    by (simp add: mark_node_dispatch_failed_def Let_def bind_now [OF n(1)])
  with assms w(1) e3(1) e4(1) have "inst' = ?y \<and> g' = g4"
    by (auto simp: seqE_def bindE_def split: sum.splits)
  moreover have "stored_at env g4 = stored_at env g"
    using n(2) w(2) e3(2) e4(2) by (simp add: quiet_def)
  ultimately show ?thesis by auto
qed

end

text \<open>
  C15. A dispatch that fails where completed nodes ought to be compensated. The version is
  counted up for the second event before anything is saved, so the save of the saga meets a
  conflict and the merge takes the stored saga: the plan is not stored, no task is sent, and
  the instance is left running with a failed node and nothing to carry it on.
\<close>

theorem dispatch_failure_loses_saga:
  assumes "engine_store env" and "stored_at env g (in_id inst) = Inr old" and "in_id old = in_id inst"
    and "in_version old = in_version inst" and "in_saga old = None" and "in_status old = IRunning"
    and "status_of (in_node_states old) n = Some s" and "\<not> node_terminal s"
    and "fmlookup (in_node_states inst) n = Some ns"
    and "i \<in> set (to_compensate w inst)" and "i \<noteq> n"
    and "fmlookup (in_node_states inst) i = Some c" and "st_node_id c = i"
    and "handle_node_dispatch_error env w n e (inst, g) = (Inr (), inst', g')"
  shows "\<exists>new. stored_at env g' (in_id inst) = Inr new \<and> in_saga new = None \<and> in_status new = IRunning \<and>
    status_of (in_node_states new) n = Some NFailed \<and> inst' = new"
proof -
  obtain x1 g1 where m: "mark_node_dispatch_failed env n e (inst, g) = (Inr (), x1, g1)"
    using assms(14) by (auto simp: handle_node_dispatch_error_def seqE_Inr_iff)
  from engine_store.mark_failed_run [OF assms(1) m] obtain t where
    x1: "x1 = inst\<lparr>in_node_states := fm_alter n (\<lambda>ns. ns\<lparr>st_status := NFailed, st_error := Some (error_str e),
      st_started_at := Some t, st_ended_at := Some t\<rparr>) (in_node_states inst),
      in_status := IFailed, in_updated_at := t, in_version := in_version inst + 1\<rparr>"
    and g1: "stored_at env g1 = stored_at env g" by blast
  have st1: "in_id x1 = in_id inst" "in_version x1 = in_version inst + 1" "status_of (in_node_states x1) n = Some NFailed"
    "fmlookup (in_node_states x1) i = Some c" using assms(9,11,12) by (simp_all add: x1 status_of_def fm_alter_lookup)
  from assms(10,12) have c: "st_status c = NCompleted" "case node_by_id w i of None \<Rightarrow> False | Some n \<Rightarrow> n_compensate n \<noteq> None"
    by (auto simp: to_compensate_def status_of_def split: option.splits)
  with st1(4) assms(13) have comp: "has_compensation w x1" by (auto simp: has_compensation_def fm_any_iff)
  from assms(10) st1(4) c have plan: "to_compensate w x1 \<noteq> []"
    by (auto simp: to_compensate_def status_of_def filter_empty_conv)
  let ?sg = "\<lparr>sg_compensating = True, sg_completed_nodes = to_compensate w x1, sg_compensated_nodes = [], sg_failed_node = Some n\<rparr>"
  let ?x = "x1\<lparr>in_status := IRunning, in_saga := Some ?sg\<rparr>"
  obtain g2 where l: "log_event env 0 (\<lambda>b. EvCompensationStarted b n) (?x, g1) = (Inr (), ?x, g2)" "quiet env (?x, g1) (?x, g2)"
    using engine_store.log_event_run [OF assms(1)] by blast
  have g2: "stored_at env g2 (in_id ?x) = Inr old" using l(2) g1 assms(2) st1(1) by (simp add: quiet_def)
  have v: "in_version ?x \<noteq> in_version old" using st1(2) assms(4) by simp
  have nm: "needs_merge (in_node_states ?x) (in_node_states old)"
  proof -
    from st1(3) obtain ms where "fmlookup (in_node_states x1) n = Some ms" "st_status ms = NFailed" by (auto simp: status_of_Some)
    then show ?thesis unfolding needs_merge_iff by (intro exI [of _ n] exI [of _ ms]) (simp add: assms(7,8))
  qed
  have io: "in_id old = in_id ?x" using assms(3) st1(1) by simp
  from engine_store.save_merges [OF assms(1) g2 v io nm] obtain t1 t2 g3 where
    sv: "save_instance env (?x, g2) = (Inr (), (merge_instance (?x\<lparr>in_updated_at := t1\<rparr>) old)
       \<lparr>in_version := in_version old + 1, in_updated_at := t2\<rparr>, g3)"
    "stored_at env g3 = (stored_at env g2)(in_id ?x := Inr ((merge_instance (?x\<lparr>in_updated_at := t1\<rparr>) old)
       \<lparr>in_version := in_version old + 1, in_updated_at := t2\<rparr>))" by blast
  let ?z = "(merge_instance (?x\<lparr>in_updated_at := t1\<rparr>) old)\<lparr>in_version := in_version old + 1, in_updated_at := t2\<rparr>"
  have saga: "in_saga ?z = None" "in_status ?z = IRunning" using assms(5,6) by (simp_all add: merge_instance_status_def)
  have "handle_node_dispatch_error env w n e (inst, g) = start_compensation env w n (x1, g1)"
    using comp by (simp add: handle_node_dispatch_error_def seqE_Inr [where m = "mark_node_dispatch_failed env n e", OF m])
  also have "\<dots> = dispatch_pending_compensations env w (?z, g3)"
    using plan by (simp add: start_compensation_def Let_def seq_log [OF l(1)] seq_save [OF sv(1)])
  also have "\<dots> = (Inr (), ?z, g3)" using saga(1) by (simp add: dispatch_pending_compensations_def)
  finally have "inst' = ?z" "g' = g3" using assms(14) by simp_all
  moreover have "status_of (in_node_states ?z) n = Some NFailed"
  proof -
    from st1(3) obtain ms where "fmlookup (in_node_states x1) n = Some ms" "st_status ms = NFailed" by (auto simp: status_of_Some)
    with assms(7,8) show ?thesis by (auto simp: status_of_def merge_nodes_lookup takes_local_def)
  qed
  ultimately show ?thesis using sv(2) saga st1(1) by auto
qed

lemma undoable_dispatch_error:
  "fst (handle_node_dispatch_error mem_env undoable ''c'' NodeNotFound (half_done, holding half_done)) = Inr ()"
  by code_simp

theorem dispatch_failure_loses_saga_witness:
  "\<exists>inst' g' new. handle_node_dispatch_error mem_env undoable ''c'' NodeNotFound (half_done, holding half_done) =
      (Inr (), inst', g') \<and> stored_at mem_env g' ''inst-1'' = Inr new \<and> in_saga new = None \<and> in_status new = IRunning"
proof -
  obtain inst' g' where h: "handle_node_dispatch_error mem_env undoable ''c'' NodeNotFound (half_done, holding half_done) =
      (Inr (), inst', g')"
    using undoable_dispatch_error
    by (cases "handle_node_dispatch_error mem_env undoable ''c'' NodeNotFound (half_done, holding half_done)") auto
  have "\<exists>new. stored_at mem_env g' (in_id half_done) = Inr new \<and> in_saga new = None \<and> in_status new = IRunning \<and>
      status_of (in_node_states new) ''c'' = Some NFailed \<and> inst' = new"
    by (rule dispatch_failure_loses_saga [OF mem_engine.engine_store_axioms stored_holding _ _ _ _ _ _ _ _ _ _ _ h,
          of NPending "sample_state ''c'' NPending" "''a''" "sample_state ''a'' NCompleted"])
       (simp_all add: undoable_plan sample_lookup, simp_all add: sample_state_def)
  with h show ?thesis by auto
qed

end
