(* ===== verification/Control.thy ===== *)
theory Control
  imports Compensation
begin

text \<open>
  What the operations of the \<open>Engine\<close> trait promise (\<open>crates/orbflow-engine/src/engine.rs\<close>):
  cancellation, approval and rejection, the creation and update of workflows, the start of a run;
  and bounds on retry delays and on the attempts of a save.
\<close>

section \<open>Cancelling\<close>

lemma all_nodes_terminal_cancelled: "in_node_states x = fmmap cancel_node m \<Longrightarrow> all_nodes_terminal x"
proof -
  have "node_terminal (st_status (cancel_node ns))" for ns
    by (cases "st_status ns") (simp_all add: cancel_node_def)
  then show "in_node_states x = fmmap cancel_node m \<Longrightarrow> all_nodes_terminal x"
    by (auto simp: all_nodes_terminal_iff status_of_def)
qed

lemma cancel_run:
  assumes "engine_store env" and "keyed env g" and "stored_at env g i = Inr inst" and "\<not> inst_terminal inst"
  shows "fst (cancel_instance env i g) = Inr () \<and> (\<exists>new. stored_at env (snd (cancel_instance env i g)) i = Inr new \<and>
    in_id new = i \<and> in_status new = ICancelled \<and> in_saga new = in_saga inst \<and>
    in_node_states new = fmmap cancel_node (in_node_states inst))"
proof -
  have id: "in_id inst = i" using assms(2,3) by (simp add: keyed_def)
  let ?g = "eg_mu_update (insert i) g"
  have st: "stored_at env ?g = stored_at env g" by (simp add: stored_at_def fun_eq_iff)
  have run: "cancel_instance env i g = with_inst inst (cancel_body env) ?g"
    using assms(3) st by (simp add: cancel_instance_def lock_instance_def seqE_def bindE_def modifyE_def
        engine_store.get_instance_run [OF assms(1)])
  obtain t g1 where n: "nowE env (inst, ?g) = (Inr t, inst, g1)" "quiet env (inst, ?g) (inst, g1)"
    using engine_store.now_run [OF assms(1)] by blast
  let ?x = "inst\<lparr>in_status := ICancelled, in_updated_at := t, in_node_states := fmmap cancel_node (in_node_states inst)\<rparr>"
  have "synced env (?x, g1)" using n(2) st assms(3) id by (simp add: synced_def quiet_def)
  from engine_store.save_run [OF assms(1) this] obtain t2 g2 where
    s: "save_instance env (?x, g1) = (Inr (), ?x\<lparr>in_version := in_version ?x + 1, in_updated_at := t2\<rparr>, g2)"
    "stored_at env g2 = (stored_at env g1)(in_id ?x := Inr (?x\<lparr>in_version := in_version ?x + 1, in_updated_at := t2\<rparr>))"
    by blast
  let ?y = "?x\<lparr>in_version := in_version ?x + 1, in_updated_at := t2\<rparr>"
  obtain g3 where l: "log_event env 0 EvInstanceCancelled (?y, g2) = (Inr (), ?y, g3)" "quiet env (?y, g2) (?y, g3)"
    using engine_store.log_event_run [OF assms(1)] by blast
  have "cancel_body env (inst, ?g) = (Inr (), ?y, g3)"
    using assms(4) l(1) by (simp add: cancel_body_def bind_now [OF n(1)] seq_save [OF s(1)])
  moreover have "stored_at env g3 i = Inr ?y" using l(2) s(2) id by (simp add: quiet_def)
  ultimately show ?thesis using id by (simp add: run with_inst_def)
qed

text \<open>
Cancelling an instance that has ended is refused and changes nothing that is stored. Any
  other instance is cancelled: the request succeeds, and in the store the instance is cancelled,
  no node is pending, in flight or waiting any more, and the nodes that had ended are as they were.
\<close>

theorem cancel_effect:
  assumes "engine_store env" and "keyed env g" and "stored_at env g i = Inr inst"
  shows "if inst_terminal inst
    then fst (cancel_instance env i g) = Inl InvalidStatus \<and>
      stored_at env (snd (cancel_instance env i g)) = stored_at env g
    else fst (cancel_instance env i g) = Inr () \<and>
      (\<exists>new. stored_at env (snd (cancel_instance env i g)) i = Inr new \<and> in_status new = ICancelled \<and>
         in_node_states new = fmmap cancel_node (in_node_states inst) \<and> all_nodes_terminal new)"
proof (cases "inst_terminal inst")
  case True
  have st: "stored_at env (eg_mu_update (insert i) g) = stored_at env g" by (simp add: stored_at_def fun_eq_iff)
  have "cancel_instance env i g = with_inst inst (cancel_body env) (eg_mu_update (insert i) g)"
    using assms(3) st by (simp add: cancel_instance_def lock_instance_def seqE_def bindE_def modifyE_def
        engine_store.get_instance_run [OF assms(1)])
  with True st show ?thesis by (simp add: with_inst_def cancel_body_def)
next
  case False
  from cancel_run [OF assms False] False show ?thesis using all_nodes_terminal_cancelled by auto
qed

theorem cancel_effect_witness:
  "\<exists>new. stored_at mem_env (snd (cancel_instance mem_env ''inst-1'' (serving diamond in_flight))) ''inst-1'' = Inr new \<and>
     in_status new = ICancelled \<and> all_nodes_terminal new"
  using cancel_effect [OF mem_engine.engine_store_axioms serving_keyed in_flight_facts(5)] in_flight_facts(6) by auto

text \<open>
Cancelling does not close a saga. When an instance is cancelled while one compensation is
  pending, the cancelled instance still accepts the answer to that compensation task, and the
  answer turns it into a failed one.
\<close>

theorem cancelled_saga_goes_on:
  assumes "engine_store env" and "keyed env g" and "stored_at env g (rm_instance_id r) = Inr inst" and "\<not> inst_terminal inst"
    and "in_saga inst = Some sg" and "sg_compensating sg" and "saga_ok sg" and "pending_compensations sg = [i]"
    and "rm_node_id r = compensation_task_node_id i" and "rm_error r = None" and "rm_attempt r = 1"
    and "rm_dispatch_id r = Some (dispatch_identity (rm_instance_id r) (rm_node_id r) 1)"
  shows "\<exists>cancelled ended. let g1 = snd (cancel_instance env (rm_instance_id r) g);
        g2 = snd (handle_node_result_durable env r g1) in
     stored_at env g1 (rm_instance_id r) = Inr cancelled \<and> in_status cancelled = ICancelled \<and>
     stored_at env g2 (rm_instance_id r) = Inr ended \<and> in_status ended = IFailed"
proof -
  let ?g1 = "snd (cancel_instance env (rm_instance_id r) g)"
  from cancel_run [OF assms(1-4)] obtain new where
    n: "stored_at env ?g1 (rm_instance_id r) = Inr new" "in_id new = rm_instance_id r" "in_status new = ICancelled"
      "in_saga new = Some sg" using assms(5) by auto
  have "strip_prefix ''_compensate_'' (rm_node_id r) = Some i"
    by (simp add: assms(9) strip_prefix_def compensation_task_node_id_def starts_with_def)
  then have o: "orig_node_id r = i" and x: "is_expected_compensation_result new r"
    using n(4) assms(6,8) by (auto simp: orig_node_id_def is_expected_compensation_result_def list_ex_iff
        pending_compensations_def filter_eq_Cons_iff)
  have "i \<in> set (sg_completed_nodes sg)" "i \<notin> set (sg_compensated_nodes sg)"
  proof -
    have "i \<in> set (pending_compensations sg)" by (simp add: assms(8))
    then show "i \<in> set (sg_completed_nodes sg)" "i \<notin> set (sg_compensated_nodes sg)"
      by (simp_all add: pending_compensations_def)
  qed
  then have v: "validate_compensation_result_identity new r = Inr ()"
    using n(4) o assms(6,11,12) by (simp add: validate_compensation_result_identity_def validate_dispatch_identity_def Let_def)
  have sy: "synced env (new, ?g1)" using n by (simp add: synced_def)
  have p: "orig_node_id r \<in> set (pending_compensations sg)" using o assms(8) by simp
  from saga_progress [OF assms(1) sy n(4) assms(6,7,10) p] obtain new' where
    s: "stored_at env (snd (snd (handle_compensation_result env r (new, ?g1)))) (in_id new) = Inr new'" "in_status new' = IFailed"
    using o assms(8) by auto
  have forget: "stored_at env (forget_instance j h) = stored_at env h" for j h
    by (simp add: stored_at_def forget_instance_def fun_eq_iff)
  have "stored_at env (snd (handle_node_result_durable env r ?g1)) =
      stored_at env (snd (snd (handle_compensation_result env r (new, ?g1))))"
    unfolding engine_store.durable_eq [OF assms(1) n(1)]
    using x v by (cases "handle_compensation_result env r (new, ?g1)")
      (auto simp: with_inst_def handle_result_body_def seqE_def bindE_def cleanup_instance_def forget split: sum.splits)
  with s n show ?thesis unfolding Let_def by auto
qed

theorem cancelled_saga_goes_on_witness:
  "\<exists>ended. stored_at mem_env (snd (handle_node_result_durable mem_env (answer_of undoing ''_compensate_a'' 1 None)
      (snd (cancel_instance mem_env ''inst-1'' (serving undoable undoing))))) ''inst-1'' = Inr ended \<and> in_status ended = IFailed"
proof -
  let ?r = "answer_of undoing ''_compensate_a'' 1 None"
  obtain sg where sg: "in_saga undoing = Some sg" "sg_compensating sg" "saga_ok sg" "pending_compensations sg = [''a'']"
    by (simp add: undoing_def saga_ok_def pending_compensations_def)
  have r: "rm_instance_id ?r = ''inst-1''" "rm_node_id ?r = compensation_task_node_id ''a''" "rm_error ?r = None"
    "rm_attempt ?r = 1" "rm_dispatch_id ?r = Some (dispatch_identity (rm_instance_id ?r) (rm_node_id ?r) 1)"
    by (simp_all add: answer_of_def undoing_def compensation_task_node_id_def)
  have i: "stored_at mem_env (serving undoable undoing) (rm_instance_id ?r) = Inr undoing" "\<not> inst_terminal undoing"
    unfolding r(1) by (simp_all add: serving_stored undoing_def inst_terminal_def)
  from cancelled_saga_goes_on [OF mem_engine.engine_store_axioms serving_keyed i sg r(2-5)] show ?thesis
    unfolding r(1) Let_def by blast
qed

section \<open>Decisions\<close>

definition awaits_decision :: "wf_instance \<Rightarrow> string \<Rightarrow> bool" where
  "awaits_decision inst n \<longleftrightarrow> \<not> inst_terminal inst \<and> status_of (in_node_states inst) n = Some NWaitingApproval"

lemma require_waiting_refused:
  "\<not> awaits_decision inst n \<Longrightarrow> \<exists>e. require_waiting n (inst, g) = (Inl e, inst, g)"
  by (auto simp: require_waiting_def bindE_get_node awaits_decision_def status_of_def split: option.splits)

lemma require_waiting_ok: "awaits_decision inst n \<Longrightarrow> require_waiting n (inst, g) = (Inr (), inst, g)"
  by (auto simp: require_waiting_def bindE_get_node awaits_decision_def status_of_def split: option.splits)

text \<open>
Approving or rejecting a node that is not waiting for approval, or whose instance has
  ended, is refused with an error and nothing is stored or published.
\<close>

theorem decision_refused:
  assumes "engine_store env" and "stored_at env g i = Inr inst" and "\<not> awaits_decision inst n"
  shows "(\<exists>e. approve_node env i n who g = (Inl e, eg_mu_update (insert i) g)) \<and>
    (\<exists>e. reject_node env i n reason who g = (Inl e, eg_mu_update (insert i) g))"
proof -
  let ?g = "eg_mu_update (insert i) g"
  have st: "stored_at env ?g = stored_at env g" by (simp add: stored_at_def fun_eq_iff)
  obtain e where e: "require_waiting n (inst, ?g) = (Inl e, inst, ?g)" using require_waiting_refused [OF assms(3)] by blast
  have "approve_node env i n who g = with_inst inst (approve_body env n who) ?g"
    "reject_node env i n reason who g = with_inst inst (reject_body env n reason who) ?g"
    using assms(2) st by (simp_all add: approve_node_def reject_node_def lock_instance_def seqE_def bindE_def modifyE_def
        engine_store.get_instance_run [OF assms(1)])
  then show ?thesis using e by (simp add: with_inst_def approve_body_def reject_body_def seqE_def bindE_def)
qed

theorem decision_refused_witness:
  "\<exists>e. approve_node mem_env ''inst-1'' ''b'' None (serving diamond in_flight) =
     (Inl e, eg_mu_update (insert ''inst-1'') (serving diamond in_flight))"
proof -
  have "\<not> awaits_decision in_flight ''b''"
    by (simp add: awaits_decision_def in_flight_def sample_state_def status_of_def fmlookup_of_list)
  from decision_refused [OF mem_engine.engine_store_axioms in_flight_facts(5) this] show ?thesis by blast
qed

text \<open>
Rejecting a waiting node succeeds; the stored instance has failed, the node has failed with
  the reviewer's reason, and the other nodes are as they were.
\<close>

theorem rejection_effect:
  assumes "engine_store env" and "keyed env g" and "stored_at env g i = Inr inst" and "awaits_decision inst n"
  shows "\<exists>new ns. fst (reject_node env i n reason who g) = Inr () \<and>
    stored_at env (snd (reject_node env i n reason who g)) i = Inr new \<and> in_status new = IFailed \<and>
    fmlookup (in_node_states new) n = Some ns \<and> st_status ns = NFailed \<and>
    st_error ns = Some (case reason of None \<Rightarrow> ''rejected by reviewer'' | Some m \<Rightarrow> m) \<and>
    (\<forall>j. j \<noteq> n \<longrightarrow> fmlookup (in_node_states new) j = fmlookup (in_node_states inst) j)"
proof -
  have id: "in_id inst = i" using assms(2,3) by (simp add: keyed_def)
  obtain ns0 where ns0: "fmlookup (in_node_states inst) n = Some ns0"
    using assms(4) by (auto simp: awaits_decision_def status_of_Some)
  let ?g = "eg_mu_update (insert i) g"
  let ?msg = "case reason of None \<Rightarrow> ''rejected by reviewer'' | Some m \<Rightarrow> m"
  have st: "stored_at env ?g = stored_at env g" by (simp add: stored_at_def fun_eq_iff)
  obtain g1 where l1: "log_event env 1 (\<lambda>b. EvNodeRejected b n reason who) (inst, ?g) = (Inr (), inst, g1)"
    "quiet env (inst, ?g) (inst, g1)" using engine_store.log_event_run [OF assms(1)] by blast
  obtain t g2 where n: "nowE env (inst, g1) = (Inr t, inst, g2)" "quiet env (inst, g1) (inst, g2)"
    using engine_store.now_run [OF assms(1)] by blast
  let ?f = "\<lambda>ns. ns\<lparr>st_status := NFailed, st_error := Some ?msg, st_ended_at := Some t\<rparr>"
  let ?x = "inst\<lparr>in_node_states := fm_alter n ?f (in_node_states inst), in_status := IFailed\<rparr>"
  let ?ev = "\<lambda>b. EvInstanceFailed b (''node '' @ n @ '' rejected: '' @ ?msg)"
  obtain g3 where l2: "log_event env 1 ?ev (?x, g2) = (Inr (), ?x, g3)" "quiet env (?x, g2) (?x, g3)"
    using engine_store.log_event_run [OF assms(1)] by blast
  have sy: "synced env (?x, g3)" using l1(2) n(2) l2(2) st assms(3) id by (simp add: synced_def quiet_def)
  from engine_store.save_run [OF assms(1) sy] obtain t2 g4 where
    s: "save_instance env (?x, g3) = (Inr (), ?x\<lparr>in_version := in_version ?x + 1, in_updated_at := t2\<rparr>, g4)"
    "stored_at env g4 = (stored_at env g3)(in_id ?x := Inr (?x\<lparr>in_version := in_version ?x + 1, in_updated_at := t2\<rparr>))"
    by blast
  let ?y = "?x\<lparr>in_version := in_version ?x + 1, in_updated_at := t2\<rparr>"
  have "reject_body env n reason who (inst, ?g) = seqE (log_event env 1 ?ev) (seqE (save_instance env) cleanup_instance) (?x, g2)"
    by (simp add: reject_body_def Let_def seqE_Inr [where m = "require_waiting n", OF require_waiting_ok [OF assms(4)]]
        seq_log [OF l1(1)] bind_now [OF n(1)])
  also have "\<dots> = cleanup_instance (?y, g4)" unfolding seq_log [OF l2(1)] seq_save [OF s(1)] ..
  also have "\<dots> = (Inr (), ?y, forget_instance i g4)" using id by (simp add: cleanup_instance_def inst_terminal_def)
  finally have b: "reject_body env n reason who (inst, ?g) = (Inr (), ?y, forget_instance i g4)" .
  have "reject_node env i n reason who g = with_inst inst (reject_body env n reason who) ?g"
    using assms(3) st by (simp add: reject_node_def lock_instance_def seqE_def bindE_def modifyE_def
        engine_store.get_instance_run [OF assms(1)])
  then have r: "reject_node env i n reason who g = (Inr (), forget_instance i g4)" using b by (simp add: with_inst_def)
  have "stored_at env (forget_instance i g4) i = Inr ?y"
    using s(2) id by (simp add: stored_at_def forget_instance_def fun_eq_iff)
  then show ?thesis
    unfolding r by (intro exI [of _ ?y] exI [of _ "?f ns0"]) (simp add: fm_alter_lookup ns0)
qed

theorem rejection_effect_witness:
  "\<exists>new. stored_at mem_env (snd (reject_node mem_env ''inst-1'' ''a'' None None
      (serving diamond (sample_instance [(''a'', NWaitingApproval)])))) ''inst-1'' = Inr new \<and> in_status new = IFailed"
proof -
  let ?i = "sample_instance [(''a'', NWaitingApproval)]"
  have "stored_at mem_env (serving diamond ?i) ''inst-1'' = Inr ?i" "awaits_decision ?i ''a''"
    by (simp_all add: serving_stored awaits_decision_def inst_terminal_def)
  from rejection_effect [OF mem_engine.engine_store_axioms serving_keyed this] show ?thesis by blast
qed

section \<open>Definitions of workflows\<close>

text \<open>What \<open>well_formed\<close> depends on.\<close>

lemma well_formed_cong:
  "wf_nodes w' = wf_nodes w \<Longrightarrow> wf_edges w' = wf_edges w \<Longrightarrow> wf_capability_edges w' = wf_capability_edges w \<Longrightarrow>
     well_formed w' = well_formed w"
  by (simp add: well_formed_def node_by_id_def)

lemma check_definition_wf:
  "check_definition schemas w = Inr () \<longleftrightarrow> well_formed w \<and>
     (\<forall>ce \<in> set (wf_capability_edges w). capability_edge_typed schemas w ce) \<and>
     (\<forall>n \<in> set (wf_nodes w). \<forall>p \<in> set (n_capability_ports n). cp_required p \<longrightarrow> port_connected w n p)"
  by (auto simp: check_definition_def bindR_Inr_iff validate_workflow_wf validate_capability_types_def
      validate_required_capabilities_def list_all_iff)

lemma portG_Inr: "portG m g = (Inr x, g') \<longleftrightarrow> (\<exists>w'. m (eg_world g) = (Inr x, w') \<and> g' = g\<lparr>eg_world := w'\<rparr>)"
  by (auto simp: portG_def split: prod.split)

text \<open>A definition that may be stored: well-formed, its capability edges of the types their ports ask for, its
  required ports connected. The last edit of the engine, to version, status and dates, does not matter to it.\<close>

definition admissible :: "(string, node_schema) fmap \<Rightarrow> workflow \<Rightarrow> bool" where
  "admissible schemas w \<longleftrightarrow> well_formed w \<and>
     (\<forall>ce \<in> set (wf_capability_edges w). capability_edge_typed schemas w ce) \<and>
     (\<forall>n \<in> set (wf_nodes w). \<forall>p \<in> set (n_capability_ports n). cp_required p \<longrightarrow> port_connected w n p)"

definition first_version :: "int \<Rightarrow> workflow \<Rightarrow> workflow" where
  "first_version now w = w\<lparr>wf_version := 1, wf_status := (if wf_status w = Draft then Active else wf_status w),
     wf_created_at := now, wf_updated_at := now\<rparr>"

lemma check_definition_admissible: "check_definition schemas w = Inr () \<longleftrightarrow> admissible schemas w"
  unfolding admissible_def by (rule check_definition_wf)

lemma first_version_simps [simp]:
  "wf_version (first_version now w) = 1" "wf_status (first_version now w) \<noteq> Draft" "wf_nodes (first_version now w) = wf_nodes w"
  "wf_edges (first_version now w) = wf_edges w" "wf_capability_edges (first_version now w) = wf_capability_edges w"
  by (simp_all add: first_version_def)

lemma first_version_admissible [simp]: "admissible schemas (first_version now w) = admissible schemas w"
proof -
  have nb: "node_by_id (first_version now w) = node_by_id w" by (simp add: node_by_id_def fun_eq_iff)
  have "well_formed (first_version now w) = well_formed w" by (rule well_formed_cong) simp_all
  moreover have "capability_edge_typed schemas (first_version now w) ce = capability_edge_typed schemas w ce"
    "port_connected (first_version now w) n p = port_connected w n p" for ce n p
    unfolding capability_edge_typed_def port_connected_def nb first_version_simps by (rule refl)+
  ultimately show ?thesis by (simp add: admissible_def)
qed

text \<open>
  C35. A workflow without an id gets a fresh one and is migrated. If the outcome is admissible, the last thing
  that happens is one call of the store with its first version, which is admissible too, and the store's answer
  is the answer. Otherwise the answer is an error and nothing has happened but that an id was handed out: the
  store is not called.
\<close>

theorem create_workflow_checked:
  "\<exists>i h. (i, h) = (if wf_id w0 = [] then case ee_uuid env (eg_world g) of (j, x) \<Rightarrow> (j, g\<lparr>eg_world := x\<rparr>)
                     else (wf_id w0, g)) \<and>
    (let w = migrate_legacy_triggers (w0\<lparr>wf_id := i\<rparr>) in
     if admissible (eg_schemas g) w
     then \<exists>now x. ee_now env (eg_world h) = (now, x) \<and> admissible (eg_schemas g) (first_version now w) \<and>
       create_workflow env w0 g =
         (case ee_create_workflow env (first_version now w) x of (r, y) \<Rightarrow> (r, h\<lparr>eg_world := y\<rparr>))
     else \<exists>e. create_workflow env w0 g = (Inl e, h))"
proof -
  obtain i h where ih: "(i, h) = (if wf_id w0 = [] then case ee_uuid env (eg_world g) of (j, x) \<Rightarrow> (j, g\<lparr>eg_world := x\<rparr>)
      else (wf_id w0, g))" by (metis surj_pair)
  let ?w = "migrate_legacy_triggers (w0\<lparr>wf_id := i\<rparr>)"
  have "(if wf_id w0 = [] then bindE (uuidG env) (\<lambda>i. ret (w0\<lparr>wf_id := i\<rparr>)) else ret w0) g = (Inr (w0\<lparr>wf_id := i\<rparr>), h)"
    and sc: "eg_schemas h = eg_schemas g"
    using ih by (auto simp: bindE_def uuidG_def portG_def ret_def split: if_splits prod.splits)
  then have run: "create_workflow env w0 g = bindE (liftR (check_definition (eg_schemas g) ?w)) (\<lambda>_.
      bindE (nowG env) (\<lambda>now. portG (ee_create_workflow env (first_version now ?w)))) h"
    by (simp add: create_workflow_def bindE_def getsE_def Let_def first_version_def)
  have "if admissible (eg_schemas g) ?w
     then \<exists>now x. ee_now env (eg_world h) = (now, x) \<and> admissible (eg_schemas g) (first_version now ?w) \<and>
       create_workflow env w0 g =
         (case ee_create_workflow env (first_version now ?w) x of (r, y) \<Rightarrow> (r, h\<lparr>eg_world := y\<rparr>))
     else \<exists>e. create_workflow env w0 g = (Inl e, h)"
    unfolding run
    by (cases "check_definition (eg_schemas g) ?w")
       (auto simp: check_definition_admissible [symmetric, of _ ?w] bindE_def liftR_def nowG_def portG_def split: prod.split)
  with ih show ?thesis unfolding Let_def by blast
qed

definition empty_engine :: "mem_world engine" where
  "empty_engine = engine_new (mem_world_of mem_store_new)"

lemma create_diamond: "fst (create_workflow mem_env diamond empty_engine) = Inr ()"
  by code_simp

theorem create_workflow_checked_witness:
  "\<exists>x w y. wf_version w = 1 \<and> admissible (eg_schemas empty_engine) w \<and> ee_create_workflow mem_env w x = (Inr (), y) \<and>
     create_workflow mem_env diamond empty_engine = (Inr (), empty_engine\<lparr>eg_world := y\<rparr>)"
proof -
  have id: "wf_id diamond \<noteq> []" "diamond\<lparr>wf_id := wf_id diamond\<rparr> = diamond"
    by (simp_all add: diamond_def sample_workflow_def)
  let ?m = "migrate_legacy_triggers diamond"
  from create_workflow_checked [of diamond empty_engine mem_env] create_diamond
  obtain now x where a: "admissible (eg_schemas empty_engine) (first_version now ?m)"
    and c: "create_workflow mem_env diamond empty_engine =
       (case ee_create_workflow mem_env (first_version now ?m) x of (r, y) \<Rightarrow> (r, empty_engine\<lparr>eg_world := y\<rparr>))"
    unfolding Let_def by (auto simp: id split: if_splits)
  obtain r y where e: "ee_create_workflow mem_env (first_version now ?m) x = (r, y)" by fastforce
  with c create_diamond have "r = Inr ()" by simp
  with a c e show ?thesis by (intro exI [of _ x] exI [of _ "first_version now ?m"] exI [of _ y]) simp
qed

text \<open>
An update keeps the past. On the in-memory store, a successful update appends the definition
  it replaces, under its version, to the history of the workflow, loses no earlier entry of any
  workflow, and stores a well-formed definition under the next version with the creation time
  kept. An update that fails changes nothing.
\<close>

theorem update_keeps_history:
  "case update_workflow mem_env w g of
     (Inl e, g') \<Rightarrow> mw_store (eg_world g') = mw_store (eg_world g)
   | (Inr _, g') \<Rightarrow> \<exists>old new v.
       fmlookup (ms_workflows (mw_store (eg_world g))) (wf_id w) = Some old \<and>
       ms_versions (mw_store (eg_world g')) = push_at (wf_id old) v (ms_versions (mw_store (eg_world g))) \<and>
       wv_version v = wf_version old \<and> wv_workflow_id v = wf_id old \<and> wv_created_at v = wf_updated_at old \<and>
       ms_workflows (mw_store (eg_world g')) = fmupd (wf_id w) new (ms_workflows (mw_store (eg_world g))) \<and>
       wf_id new = wf_id w \<and> wf_version new = wf_version old + 1 \<and> wf_created_at new = wf_created_at old \<and>
       well_formed new"
proof -
  let ?s = "mw_store (eg_world g)"
  let ?m = "migrate_legacy_triggers w"
  show ?thesis
  proof (cases "fmlookup (ms_workflows ?s) (wf_id w)")
    case None
    then show ?thesis
      by (simp add: update_workflow_def bindE_def portG_def mem_env_def on_store_def ms_get_workflow_def)
  next
    case (Some old)
    show ?thesis
    proof (cases "check_definition (eg_schemas g) ?m")
      case (Inl e)
      with Some show ?thesis
        by (simp add: update_workflow_def bindE_def portG_def mem_env_def on_store_def ms_get_workflow_def getsE_def
            liftR_def Let_def)
    next
      case (Inr u)
      let ?v = "\<lparr>wv_version = wf_version old, wv_workflow_id = wf_id old, wv_definition = JString (wf_id old),
        wv_author = None, wv_message = None, wv_created_at = wf_updated_at old\<rparr>"
      let ?n = "?m\<lparr>wf_version := wf_version old + 1, wf_created_at := wf_created_at old, wf_updated_at := mw_clock (eg_world g)\<rparr>"
      have u: "update_workflow mem_env w g = (Inr (), g\<lparr>eg_world := (eg_world g)
          \<lparr>mw_store := ?s\<lparr>ms_versions := push_at (wf_id old) ?v (ms_versions ?s),
             ms_workflows := fmupd (wf_id w) ?n (ms_workflows ?s)\<rparr>, mw_clock := mw_clock (eg_world g) + 1\<rparr>\<rparr>)"
        using Some Inr
        by (simp add: update_workflow_def bindE_def seqE_def portG_def mem_env_def on_store_def ms_get_workflow_def getsE_def
            liftR_def Let_def nowG_def ms_save_workflow_version_def ms_update_workflow_def)
      have "well_formed ?n" using Inr well_formed_cong [of ?n ?m] by (simp add: check_definition_wf)
      then show ?thesis
        unfolding u by (simp, intro exI [of _ old] exI [of _ ?n] exI [of _ ?v] conjI) (simp_all add: Some)
    qed
  qed
qed

section \<open>Refused starts\<close>

text \<open>
A run is refused, before an instance exists, when the owner is blank, the workflow is
  unknown or its node configurations do not fit the registered schemas: the store is as it was.
\<close>

theorem start_refused:
  assumes "(case owner of None \<Rightarrow> False | Some o' \<Rightarrow> blank o') \<or>
    (case fmlookup (ms_workflows (mw_store (eg_world g))) i of None \<Rightarrow> True
     | Some w \<Rightarrow> validate_node_configs (ee_json_str mem_env) w (eg_schemas g) \<noteq> Inr ())"
  shows "\<exists>e. start_workflow_with_owner mem_env i input owner g = (Inl e, g)"
proof (cases "case owner of None \<Rightarrow> False | Some o' \<Rightarrow> blank o'")
  case True
  then show ?thesis by (simp add: start_workflow_with_owner_def raise_def)
next
  case False
  show ?thesis
  proof (cases "fmlookup (ms_workflows (mw_store (eg_world g))) i")
    case None
    with False show ?thesis
      by (simp add: start_workflow_with_owner_def bindE_def portG_def on_store_def ms_get_workflow_def)
  next
    case (Some w)
    with False assms obtain e where "validate_node_configs (ee_json_str mem_env) w (eg_schemas g) = Inl e"
      by (cases "validate_node_configs (ee_json_str mem_env) w (eg_schemas g)") auto
    with False Some show ?thesis
      by (simp add: start_workflow_with_owner_def bindE_def portG_def on_store_def ms_get_workflow_def getsE_def liftR_def)
  qed
qed

theorem start_refused_witness:
  "\<exists>e. start_workflow_with_owner mem_env ''wf-9'' fmempty None (serving diamond in_flight) = (Inl e, serving diamond in_flight)"
  by (rule start_refused) (simp add: serving_def engine_new_def mem_world_of_def diamond_def sample_workflow_def)

section \<open>Bounds\<close>

text \<open>
A retry delay always fits an unsigned 64-bit number of milliseconds, whatever the policy,
  the attempt and the rounding of powers; it is zero without a base delay; and a multiplier that
  is not a positive finite number counts as one.
\<close>

theorem retry_delay_bounds:
  "0 \<le> retry_delay pow_i rp n \<and> retry_delay pow_i rp n \<le> 2 ^ 64 - 1 \<and>
   (rp_delay rp = 0 \<longrightarrow> retry_delay pow_i rp n = 0) \<and>
   (\<not> (f64_lt (F 0) (rp_multiplier rp) \<and> f64_lt (rp_multiplier rp) F_PosInf) \<longrightarrow>
      retry_delay pow_i rp n = retry_delay pow_i (rp\<lparr>rp_multiplier := F 1\<rparr>) n)"
proof -
  have "0 \<le> retry_delay pow_i rp n \<and> retry_delay pow_i rp n \<le> U64_MAX"
    using f64_to_int_range [of 0 U64_MAX] by (simp add: retry_delay_def Let_def U64_MAX_def)
  moreover have "retry_delay pow_i rp n = retry_delay pow_i (rp\<lparr>rp_multiplier := F 1\<rparr>) n"
    if "\<not> (f64_lt (F 0) (rp_multiplier rp) \<and> f64_lt (rp_multiplier rp) F_PosInf)"
  proof -
    have "\<not> (f64_lt F_NegInf (rp_multiplier rp) \<and> f64_lt (rp_multiplier rp) F_PosInf \<and> f64_lt (F 0) (rp_multiplier rp))"
      using that by blast
    then have "(if f64_lt F_NegInf (rp_multiplier rp) \<and> f64_lt (rp_multiplier rp) F_PosInf \<and> f64_lt (F 0) (rp_multiplier rp)
        then rp_multiplier rp else F 1) = F 1" by (rule if_not_P)
    then show ?thesis unfolding retry_delay_def Let_def by simp
  qed
  ultimately show ?thesis by (simp add: retry_delay_def U64_MAX_def)
qed

text \<open>The last statement has a premise; here it holds, for a policy with a negative multiplier.\<close>

theorem retry_delay_bounds_witness:
  "retry_delay (\<lambda>x _. x) \<lparr>rp_max_attempts = 3, rp_delay = 100, rp_multiplier = F (-2)\<rparr> 2 =
   retry_delay (\<lambda>x _. x) \<lparr>rp_max_attempts = 3, rp_delay = 100, rp_multiplier = F 1\<rparr> 2"
  using retry_delay_bounds [of "\<lambda>x _. x" "\<lparr>rp_max_attempts = 3, rp_delay = 100, rp_multiplier = F (-2)\<rparr>" 2] by simp

subsection \<open>Attempts of a save\<close>

text \<open>\<open>costs f k m\<close>: the quantity \<open>f\<close> of the world grows by at most \<open>k\<close>.\<close>

definition costs :: "('w \<Rightarrow> nat) \<Rightarrow> nat \<Rightarrow> ('w, 'a) handler \<Rightarrow> bool" where
  "costs f k m \<longleftrightarrow> (\<forall>s. f (eg_world (snd (snd (m s)))) \<le> f (eg_world (snd s)) + k)"

lemma costs_bindE: "costs f k m \<Longrightarrow> (\<And>x. costs f l (h x)) \<Longrightarrow> costs f (k + l) (bindE m h)"
proof -
  assume m: "costs f k m" and h: "\<And>x. costs f l (h x)"
  have "f (eg_world (snd (snd (bindE m h s)))) \<le> f (eg_world (snd s)) + (k + l)" for s
  proof -
    obtain r t where r: "m s = (r, t)" by (cases "m s")
    with m [unfolded costs_def, rule_format, of s] have 1: "f (eg_world (snd t)) \<le> f (eg_world (snd s)) + k" by simp
    show ?thesis
    proof (cases r)
      case (Inl e)
      with r 1 show ?thesis by (simp add: bindE_def)
    next
      case (Inr x)
      from h [of x, unfolded costs_def, rule_format, of t] 1 show ?thesis by (simp add: bindE_def r Inr)
    qed
  qed
  then show ?thesis unfolding costs_def by blast
qed

lemma costs_tryE: "costs f k m \<Longrightarrow> (\<And>r. costs f l (h r)) \<Longrightarrow> costs f (k + l) (tryE m h)"
proof -
  assume m: "costs f k m" and h: "\<And>x. costs f l (h x)"
  have "tryE m h = bindE (tryE m ret) h"
    by (simp add: tryE_def bindE_def ret_def fun_eq_iff split: prod.split)
  moreover have "costs f k (tryE m ret)"
    using m by (simp add: costs_def tryE_def ret_def split_beta)
  ultimately show ?thesis using costs_bindE [OF _ h] by simp
qed

lemma costs_seqE: "costs f k m \<Longrightarrow> costs f l m' \<Longrightarrow> costs f (k + l) (seqE m m')"
  by (simp add: seqE_def costs_bindE)

lemma costs_mono: "costs f k m \<Longrightarrow> k \<le> l \<Longrightarrow> costs f l m"
  unfolding costs_def by (meson add_left_mono order_trans)

lemma costs_free:
  "costs f 0 (ret x)" "costs f 0 (raise e)" "costs f 0 get_inst" "costs f 0 (upd_inst h)" "costs f k m \<Longrightarrow> costs f k (logE m)"
  by (simp_all add: costs_def ret_def raise_def get_inst_def getsE_def upd_inst_def modifyE_def logE_def split_beta)

lemma costs_port: "(\<And>w. f (snd (m w)) \<le> f w + k) \<Longrightarrow> costs f k (port m)"
  by (simp add: costs_def port_def eng_def portG_def split_beta)

text \<open>
A save ends after a bounded number of writes, also against a store that answers every write
  with a conflict: whatever counts the writes of instances grows by at most five in one save,
  four attempts and the write that marks the instance failed.
\<close>

theorem save_writes_bounded:
  fixes f :: "'w \<Rightarrow> nat"
  assumes "\<And>x w. f (snd (ee_update_instance env x w)) \<le> f w + 1"
    and "\<And>i w. f (snd (ee_get_instance env i w)) \<le> f w" and "\<And>w. f (snd (ee_now env w)) \<le> f w"
    and "\<And>x w. f (snd (ee_save_snapshot env x w)) \<le> f w"
  shows "f (eg_world (snd (snd (save_instance env s)))) \<le> f (eg_world (snd s)) + 5"
proof -
  have now: "costs f 0 (nowE env)"
    unfolding nowE_def by (rule costs_port) (use assms(3) in \<open>simp add: split_beta\<close>)
  have get: "costs f 0 (port (ee_get_instance env i))" for i by (rule costs_port) (simp add: assms(2))
  have put: "costs f 1 (port (ee_update_instance env x))" for x by (rule costs_port) (use assms(1) in simp)
  have snap: "costs f 0 (take_snapshot env)"
    unfolding take_snapshot_def
    using costs_bindE [OF costs_free(3), of f 0 "\<lambda>inst. if ee_snapshot_interval env > 0 \<and> in_version inst mod ee_snapshot_interval env = 0
       then logE (port (ee_save_snapshot env inst)) else ret ()"]
    by (simp add: costs_free costs_port assms(4))
  have bump: "costs f 0 (bump env)"
    unfolding bump_def using costs_bindE [OF now costs_free(4)] by simp
  have attempt: "costs f (1 + k) (save_attempt env c)" if c: "costs f k c" for k c
  proof -
    have "costs f k (case r of Inr _ \<Rightarrow> take_snapshot env | Inl e \<Rightarrow> if is_conflict e then c else raise e)" for r :: "unit result"
      using c snap by (cases r) (auto intro: costs_mono [where k = 0] costs_free)
    then have "costs f (0 + (0 + (1 + k))) (save_attempt env c)"
      unfolding save_attempt_def by (intro costs_seqE bump costs_bindE costs_free(3) costs_tryE put)
    then show ?thesis by simp
  qed
  have give: "costs f 1 (give_up env)"
  proof -
    have "costs f 1 (bindE (nowE env) (\<lambda>t. logE (port (ee_update_instance env (h t)))))" for h
      using costs_bindE [OF now costs_free(5) [OF put]] by simp
    then have "costs f 1 (case r of Inl _ \<Rightarrow> ret () | Inr latest \<Rightarrow> if inst_terminal latest then ret ()
        else bindE (nowE env) (\<lambda>t. logE (port (ee_update_instance env (latest\<lparr>in_status := IFailed,
          in_version := in_version latest + 1, in_updated_at := t\<rparr>)))))" for r :: "wf_instance result"
      by (cases r) (auto intro: costs_mono [where k = 0] costs_free)
    then have "costs f (0 + ((0 + 1) + 0)) (give_up env)"
      unfolding give_up_def by (intro costs_bindE costs_free(2,3) costs_seqE costs_tryE get)
    then show ?thesis by simp
  qed
  have again: "costs f k (reread env c)" if c: "costs f k c" for k c
  proof -
    have "costs f k (if \<not> needs_merge a b then ret () else seqE (upd_inst h) c)" for a b h
      using costs_seqE [OF costs_free(4) c] by (auto intro: costs_mono [where k = 0] costs_free)
    then have "costs f (0 + (0 + k)) (reread env c)"
      unfolding reread_def by (intro costs_bindE costs_free(3) get)
    then show ?thesis by simp
  qed
  have "costs f (k + 2) (save_loop env k)" for k
    by (induction k) (use attempt [OF give] attempt [OF again] in \<open>simp_all add: numeral_2_eq_2\<close>)
  from this [of 3] have "costs f 5 (save_instance env)"
    by (simp add: save_instance_def SAVE_INSTANCE_MAX_RETRIES_def)
  then show ?thesis unfolding costs_def by blast
qed

theorem save_writes_bounded_witness:
  "nat (case fmlookup (ms_instances (mw_store (eg_world (snd (snd (save_instance mem_env (in_flight, holding in_flight))))))) ''inst-1''
      of None \<Rightarrow> 0 | Some x \<Rightarrow> in_version x) \<le> 6"
proof -
  define f where "f w = nat (case fmlookup (ms_instances (mw_store w)) ''inst-1'' of None \<Rightarrow> 0 | Some x \<Rightarrow> in_version x)" for w :: mem_world
  have "f (eg_world (snd (snd (save_instance mem_env (in_flight, holding in_flight))))) \<le>
      f (eg_world (snd (in_flight, holding in_flight))) + 5"
    by (rule save_writes_bounded)
       (auto simp: f_def ms_update_instance_def ms_save_snapshot_def split: option.splits)
  moreover have "f (eg_world (snd (in_flight, holding in_flight))) = 1"
    by (simp add: f_def holding_def engine_new_def mem_world_of_def in_flight_facts in_flight_def sample_instance_def)
  ultimately show ?thesis unfolding f_def by simp
qed

end
