(* ===== verification/Ancestors.thy ===== *)
theory Ancestors
  imports Samples Graph
begin

text \<open>
  \<open>Workflow::ancestors_of\<close> of \<open>crates/orbflow-core/src/workflow.rs\<close>: a depth-first walk
  over the predecessor lists, used to run the ancestors of a node before the node itself.
  The inner recursive function \<open>dfs\<close> and the loops that call it are one function over the
  list of ids still to visit; its state is the set of visited ids and the result list.
\<close>

definition edge_points :: "edge list \<Rightarrow> string set" where
  "edge_points es = e_source ` set es \<union> e_target ` set es"

lemma finite_edge_points [simp]: "finite (edge_points es)"
  by (simp add: edge_points_def)

lemma predecessors_outside: "p \<notin> edge_points es \<Longrightarrow> predecessors es p = []"
  by (auto simp: edge_points_def predecessors_def filter_empty_conv)

function anc_dfs :: "edge list \<Rightarrow> string list \<Rightarrow> string set \<times> string list \<Rightarrow> string set \<times> string list" where
  "anc_dfs es [] (vis, res) = (vis, res)"
| "anc_dfs es (p # ps) (vis, res) =
     (if p \<in> vis then anc_dfs es ps (vis, res)
      else
        (case anc_dfs es (predecessors es p) (insert p vis, res) of
           (vis', res') \<Rightarrow> anc_dfs es ps (vis', res' @ [p])))"
  by pat_completeness auto

lemma anc_dfs_dom_mono: "anc_dfs_dom (es, ps, st) \<Longrightarrow> fst st \<subseteq> fst (anc_dfs es ps st)"
  by (induction es ps st rule: anc_dfs.pinduct)
     (fastforce simp: anc_dfs.psimps split: prod.split)+

termination anc_dfs
proof (relation "inv_image (finite_psubset <*lex*> less_than)
    (\<lambda>(es, ps, (vis, res)). (edge_points es - vis, length ps))", goal_cases)
  case 1
  then show ?case by auto
next
  case (2 es p ps vis res)
  then show ?case by simp
next
  case (3 es p ps vis res)
  then show ?case
    by (cases "p \<in> edge_points es") (auto simp: finite_psubset_def predecessors_outside)
next
  case (4 es p ps vis res vis' res')
  from anc_dfs_dom_mono [OF 4(3)] 4(2) [symmetric] have "insert p vis \<subseteq> vis'"
    by simp
  then show ?case by (auto simp: finite_psubset_def)
qed

definition ancestors_of :: "workflow \<Rightarrow> string \<Rightarrow> string list" where
  "ancestors_of w i = snd (anc_dfs (wf_edges w) (predecessors (wf_edges w) i) ({}, []))"

section \<open>What one walk visits\<close>

lemma anc_dfs_mono: "anc_dfs es ps (vis, res) = (vis', res') \<Longrightarrow> vis \<subseteq> vis' \<and> set ps \<subseteq> vis'"
proof (induction es ps "(vis, res)" arbitrary: vis res vis' res' rule: anc_dfs.induct)
  case (1 es vis res)
  then show ?case by simp
next
  case (2 es p ps vis res)
  show ?case
  proof (cases "p \<in> vis")
    case True
    with 2 show ?thesis by fastforce
  next
    case False
    obtain v1 r1 where d: "anc_dfs es (predecessors es p) (insert p vis, res) = (v1, r1)"
      by fastforce
    with 2(2) [OF False d] have "insert p vis \<subseteq> v1" by simp
    moreover from 2(3) [OF False d [symmetric]] 2(4) False d
    have "v1 \<subseteq> vis' \<and> set ps \<subseteq> vis'" by simp
    ultimately show ?thesis by auto
  qed
qed

text \<open>
  The new ids are the ones appended to the result, each once; all of them are reached
  backwards from the list, and every predecessor of a new id has been visited.
\<close>

lemma anc_dfs_new:
  "anc_dfs es ps (vis, res) = (vis', res') \<Longrightarrow>
     \<exists>new. res' = res @ new \<and> distinct new \<and> set new = vis' - vis \<and>
       (\<forall>x \<in> set new. \<exists>q \<in> set ps. (x, q) \<in> (edge_rel es)\<^sup>*) \<and>
       (\<forall>x \<in> set new. set (predecessors es x) \<subseteq> vis')"
proof (induction es ps "(vis, res)" arbitrary: vis res vis' res' rule: anc_dfs.induct)
  case (1 es vis res)
  then show ?case by simp
next
  case (2 es p ps vis res)
  show ?case
  proof (cases "p \<in> vis")
    case True
    with 2(1) [OF True, of vis' res'] 2(4) show ?thesis by fastforce
  next
    case False
    obtain v1 r1 where d: "anc_dfs es (predecessors es p) (insert p vis, res) = (v1, r1)"
      by fastforce
    from 2(4) False d have rest: "anc_dfs es ps (v1, r1 @ [p]) = (vis', res')" by simp
    from 2(2) [OF False d] obtain n1 where n1: "r1 = res @ n1" "distinct n1"
      "set n1 = v1 - insert p vis"
      "\<forall>x \<in> set n1. \<exists>q \<in> set (predecessors es p). (x, q) \<in> (edge_rel es)\<^sup>*"
      "\<forall>x \<in> set n1. set (predecessors es x) \<subseteq> v1" by blast
    from 2(3) [OF False d [symmetric] rest] obtain n2 where n2: "res' = r1 @ [p] @ n2"
      "distinct n2" "set n2 = vis' - v1"
      "\<forall>x \<in> set n2. \<exists>q \<in> set ps. (x, q) \<in> (edge_rel es)\<^sup>*"
      "\<forall>x \<in> set n2. set (predecessors es x) \<subseteq> vis'" by auto
    from anc_dfs_mono [OF d] have v1: "insert p vis \<subseteq> v1" "set (predecessors es p) \<subseteq> v1" by auto
    from anc_dfs_mono [OF rest] have v2: "v1 \<subseteq> vis'" by simp
    have p1: "\<forall>x \<in> set n1. (x, p) \<in> (edge_rel es)\<^sup>*"
      using n1(4) by (auto simp: set_predecessors intro: rtrancl_into_rtrancl)
    let ?new = "n1 @ p # n2"
    have "res' = res @ ?new" using n1(1) n2(1) by simp
    moreover have "distinct ?new" using n1(2,3) n2(2,3) v1(1) by auto
    moreover have "set ?new = vis' - vis" using n1(3) n2(3) v1(1) v2 False by auto
    moreover have "\<forall>x \<in> set ?new. \<exists>q \<in> set (p # ps). (x, q) \<in> (edge_rel es)\<^sup>*"
      using p1 n2(4) by auto
    moreover have "\<forall>x \<in> set ?new. set (predecessors es x) \<subseteq> vis'"
    proof -
      have "\<forall>x \<in> set n1. set (predecessors es x) \<subseteq> vis'" using n1(5) v2 by (meson order_trans)
      with n2(5) order_trans [OF v1(2) v2] show ?thesis by (simp add: ball_Un)
    qed
    ultimately show ?thesis by blast
  qed
qed

section \<open>Order\<close>

text \<open>
  On an acyclic graph the ids on the recursion stack (visited, not yet in the result) are
  descendants of whatever is visited next, so they are never predecessors of an id that is
  appended.
\<close>

lemma anc_dfs_order:
  assumes "acyclic (edge_rel es)"
  shows "anc_dfs es ps (vis, res) = (vis', res') \<Longrightarrow> preds_first (edge_rel es) res \<Longrightarrow>
     (\<forall>g \<in> vis - set res. \<forall>p \<in> set ps. (p, g) \<in> (edge_rel es)\<^sup>+) \<Longrightarrow> set res \<subseteq> vis \<Longrightarrow>
     preds_first (edge_rel es) res' \<and> vis' - set res' = vis - set res \<and> set res' \<subseteq> vis'"
  using assms
proof (induction es ps "(vis, res)" arbitrary: vis res vis' res' rule: anc_dfs.induct)
  case (1 es vis res)
  then show ?case by simp
next
  case (2 es p ps vis res)
  show ?case
  proof (cases "p \<in> vis")
    case True
    with 2(1) [OF True, of vis' res'] 2(4-) show ?thesis by fastforce
  next
    case False
    let ?E = "edge_rel es"
    obtain v1 r1 where d: "anc_dfs es (predecessors es p) (insert p vis, res) = (v1, r1)"
      by fastforce
    from 2(4) False d have rest: "anc_dfs es ps (v1, r1 @ [p]) = (vis', res')" by simp
    have gray: "\<forall>g \<in> insert p vis - set res. \<forall>q \<in> set (predecessors es p). (q, g) \<in> ?E\<^sup>+"
      using 2(6) by (auto simp: set_predecessors intro: trancl_into_trancl2)
    from 2(2) [OF False d 2(5) gray _ 2(8)] 2(7) have o1: "preds_first ?E r1"
      "v1 - set r1 = insert p vis - set res" "set r1 \<subseteq> v1" by auto
    have pres: "\<forall>q. (q, p) \<in> ?E \<longrightarrow> q \<in> set r1"
    proof (intro allI impI)
      fix q assume q: "(q, p) \<in> ?E"
      with anc_dfs_mono [OF d] have "q \<in> v1" by (auto simp: set_predecessors)
      moreover have "q \<notin> insert p vis - set res"
      proof
        assume "q \<in> insert p vis - set res"
        with gray q have "(q, q) \<in> ?E\<^sup>+" by (simp add: set_predecessors)
        with 2(8) show False by (simp add: acyclic_def)
      qed
      ultimately show "q \<in> set r1" using o1(2) by blast
    qed
    have pv: "p \<in> v1" using anc_dfs_mono [OF d] by simp
    have g2: "v1 - set (r1 @ [p]) = vis - set res" using o1(2) pv False 2(7) by auto
    have "preds_first ?E res' \<and> vis' - set res' = v1 - set (r1 @ [p]) \<and> set res' \<subseteq> vis'"
    proof (rule 2(3) [OF False d [symmetric] rest])
      show "preds_first ?E (r1 @ [p])" using o1(1) pres by (simp add: preds_first_snoc)
      show "\<forall>g \<in> v1 - set (r1 @ [p]). \<forall>q \<in> set ps. (q, g) \<in> ?E\<^sup>+" using 2(6) unfolding g2 by simp
      show "set (r1 @ [p]) \<subseteq> v1" using o1(3) pv by simp
      show "acyclic ?E" by (rule 2(8))
    qed
    with g2 show ?thesis by simp
  qed
qed

text \<open>
\<open>ancestors_of\<close> lists exactly the nodes from which the given node can be reached by
  one edge or more, each once; on an acyclic graph every one of them comes after all its own
  predecessors, so running the list in order never meets a missing input.
\<close>

theorem ancestors_of_correct:
  "set (ancestors_of w i) = {a. (a, i) \<in> (edge_rel (wf_edges w))\<^sup>+} \<and> distinct (ancestors_of w i) \<and>
   (acyclic (edge_rel (wf_edges w)) \<longrightarrow> preds_first (edge_rel (wf_edges w)) (ancestors_of w i))"
proof -
  let ?E = "edge_rel (wf_edges w)" and ?ps = "predecessors (wf_edges w) i"
  obtain v r where d: "anc_dfs (wf_edges w) ?ps ({}, []) = (v, r)" by fastforce
  from anc_dfs_new [OF d] have n: "distinct r" "set r = v"
    "\<forall>x \<in> set r. \<exists>q \<in> set ?ps. (x, q) \<in> ?E\<^sup>*" "\<forall>x \<in> set r. set (predecessors (wf_edges w) x) \<subseteq> v"
    by auto
  have "set r \<subseteq> {a. (a, i) \<in> ?E\<^sup>+}"
    using n(3) by (auto simp: set_predecessors intro: rtrancl_into_trancl1)
  moreover have "a \<in> set r" if "(a, i) \<in> ?E\<^sup>+" for a
    using that
  proof (induction rule: converse_trancl_induct)
    case (base a)
    with anc_dfs_mono [OF d] n(2) show ?case by (auto simp: set_predecessors)
  next
    case (step a b)
    with n(2,4) show ?case by (auto simp: set_predecessors)
  qed
  moreover have "preds_first ?E r" if "acyclic ?E"
    using anc_dfs_order [OF that d] by simp
  ultimately show ?thesis using n(1) d by (auto simp: ancestors_of_def)
qed

theorem ancestors_of_correct_witness:
  "''a'' \<in> set (ancestors_of diamond ''d'') \<and>
   preds_first (edge_rel (wf_edges diamond)) (ancestors_of diamond ''d'')"
proof -
  have "(''a'', ''b'') \<in> edge_rel (wf_edges diamond)" "(''b'', ''d'') \<in> edge_rel (wf_edges diamond)"
    by (simp_all add: diamond_edge_rel)
  then have "(''a'', ''d'') \<in> (edge_rel (wf_edges diamond))\<^sup>+"
    by (blast intro: trancl_into_trancl)
  with ancestors_of_correct [of diamond "''d''"] diamond_acyclic show ?thesis by blast
qed

end
