(* ===== verification/TestNode.thy ===== *)
theory TestNode
  imports Dispatch Ancestors
begin

text \<open>
  Running one node inline, \<open>crates/orbflow-engine/src/testnode.rs\<close>: the ancestors without a
  cached output are executed first, in the order of \<open>ancestors_of\<close>; the first failure ends the
  run with what was reached. Nothing is stored and nothing is published. \<open>timed\<close> is the
  30-second limit of the runtime around an execution: the executor's answer, or \<open>Timeout\<close>.
\<close>

definition run_inline ::
  "'w engine_env \<Rightarrow> (('w, node_output) act \<Rightarrow> ('w, node_output) act) \<Rightarrow> wf_node \<Rightarrow> execution_context \<Rightarrow>
     workflow \<Rightarrow> string option \<Rightarrow> 'w executor \<Rightarrow> ('w engine, node_state) act" where
  "run_inline env timed node ec w owner executor =
     bindE (liftR (resolve_input_mapping (ee_cel env) (n_input_mapping node) ec)) (\<lambda>input.
     let params = node_parameters env node ec in
     bindE (portG (resolve_credentials_deduped (ee_credential_for_owner env) (n_config node) params owner)) (\<lambda>creds.
     bindE (portG (\<lambda>x. case ee_now env x of (t, x') \<Rightarrow> (Inr t, x'))) (\<lambda>started.
     bindE (portG (timed (executor
       \<lparr>ni_instance_id = [], ni_node_id = n_id node, ni_plugin_ref = n_plugin_ref node,
        ni_config = map_option (inject_credential creds) (n_config node), ni_input = Some input,
        ni_parameters = map_option (inject_credential creds) params,
        ni_capabilities = (if n_capability_ports node \<noteq> []
                           then resolve_capability_edges_from_context ec w node else None),
        ni_attempt = 1\<rparr>))) (\<lambda>output.
     bindE (portG (\<lambda>x. case ee_now env x of (t, x') \<Rightarrow> (Inr t, x'))) (\<lambda>ended.
     case no_error output of
       Some err \<Rightarrow> raise (Internal (''node error: '' @ err))
     | None \<Rightarrow> ret
         \<lparr>st_node_id = n_id node, st_status = NCompleted, st_input = None, st_output = no_data output,
          st_parameters = None, st_error = None, st_attempt = 1, st_started_at = Some started,
          st_ended_at = Some ended\<rparr>)))))"

definition execute_node_inline ::
  "'w engine_env \<Rightarrow> (('w, node_output) act \<Rightarrow> ('w, node_output) act) \<Rightarrow> wf_node \<Rightarrow> execution_context \<Rightarrow>
     workflow \<Rightarrow> string option \<Rightarrow> ('w engine, node_state) act" where
  "execute_node_inline env timed node ec w owner =
     (if n_kind node = KTrigger
      then bindE (portG (\<lambda>x. case ee_now env x of (t, x') \<Rightarrow> (Inr t, x'))) (\<lambda>now. ret
         \<lparr>st_node_id = n_id node, st_status = NCompleted, st_input = None, st_output = Some fmempty,
          st_parameters = None, st_error = None, st_attempt = 1, st_started_at = Some now,
          st_ended_at = Some now\<rparr>)
      else bindE (getsE (\<lambda>g. fmlookup (eg_nodes g) (n_plugin_ref node))) (\<lambda>found.
        case found of
          None \<Rightarrow> raise NodeNotFound
        | Some executor \<Rightarrow> run_inline env timed node ec w owner executor))"

definition failed_state :: "string \<Rightarrow> orbflow_error \<Rightarrow> node_state" where
  "failed_state i e =
     \<lparr>st_node_id = i, st_status = NFailed, st_input = None, st_output = None, st_parameters = None,
      st_error = Some (error_str e), st_attempt = 0, st_started_at = None, st_ended_at = None\<rparr>"

definition note_state :: "string \<Rightarrow> node_state \<Rightarrow> test_node_result \<Rightarrow> test_node_result" where
  "note_state i ns res = res\<lparr>tr_node_outputs := fmupd i ns (tr_node_outputs res)\<rparr>"

definition add_output :: "string \<Rightarrow> jmap option \<Rightarrow> execution_context \<Rightarrow> execution_context" where
  "add_output i out ec = (case out of
       None \<Rightarrow> ec | Some o' \<Rightarrow> ec\<lparr>cx_node_outputs := fmupd i o' (cx_node_outputs ec)\<rparr>)"

definition double_quoted :: "string \<Rightarrow> string" where
  "double_quoted s = char_of (34 :: nat) # s @ [char_of (34 :: nat)]"

text \<open>
  The loop over the ancestors: the context and result so far, and whether all succeeded. The
  \<open>Debug\<close> text of an id is the id in double quotes (ids need no escapes).
\<close>

fun run_ancestors ::
  "'w engine_env \<Rightarrow> (('w, node_output) act \<Rightarrow> ('w, node_output) act) \<Rightarrow> workflow \<Rightarrow> string option \<Rightarrow> string list \<Rightarrow>
     execution_context \<Rightarrow> test_node_result \<Rightarrow> ('w engine, execution_context \<times> test_node_result \<times> bool) act" where
  "run_ancestors env timed w owner [] ec res = ret (ec, res, True)"
| "run_ancestors env timed w owner (i # is) ec res =
     (if fmlookup (cx_node_outputs ec) i \<noteq> None then run_ancestors env timed w owner is ec res
      else case node_by_id w i of
        None \<Rightarrow> run_ancestors env timed w owner is ec res
      | Some node \<Rightarrow>
          tryE (execute_node_inline env timed node ec w owner) (\<lambda>r.
            case r of
              Inr ns \<Rightarrow> run_ancestors env timed w owner is (add_output i (st_output ns) ec) (note_state i ns res)
            | Inl e \<Rightarrow> ret (ec, (note_state i (failed_state i e) res)
                \<lparr>tr_warnings := tr_warnings res @
                   [''ancestor node '' @ double_quoted i @ '' failed: '' @ error_str e]\<rparr>, False)))"

definition test_node ::
  "'w engine_env \<Rightarrow> (('w, node_output) act \<Rightarrow> ('w, node_output) act) \<Rightarrow> string \<Rightarrow> string \<Rightarrow>
     (string, jmap) fmap \<Rightarrow> string option \<Rightarrow> ('w engine, test_node_result) act" where
  "test_node env timed workflow_id node_id cached owner =
     bindE (portG (ee_get_workflow env workflow_id)) (\<lambda>w.
     case node_by_id w node_id of
       None \<Rightarrow> raise (Internal (''test node: node '' @ double_quoted node_id @ '' not found in workflow''))
     | Some target \<Rightarrow>
         bindE (run_ancestors env timed w owner (ancestors_of w node_id)
             ((context_new fmempty)\<lparr>cx_node_outputs := cached\<rparr>)
             \<lparr>tr_node_outputs = fmempty, tr_target_node = node_id, tr_warnings = []\<rparr>) (\<lambda>(ec, res, ok).
         if \<not> ok then ret res
         else tryE (execute_node_inline env timed target ec w owner) (\<lambda>r.
           ret (note_state node_id (case r of Inr ns \<Rightarrow> ns | Inl e \<Rightarrow> failed_state node_id e) res))))"

end
