(* ===== verification/Ssrf.thy ===== *)
theory Ssrf
  imports Prelude "HOL-Library.Word"
begin

unbundle bit_operations_syntax

text \<open>
  The address filter against server-side request forgery, \<open>crates/orbflow-core/src/ssrf.rs\<close>.
  An IPv4 address is its four octets, an IPv6 address its eight segments. The predicates of
  \<open>std::net\<close> the code calls are written out: \<open>is_loopback\<close>, \<open>is_private\<close> (10/8, 172.16/12,
  192.168/16), \<open>is_link_local\<close> (169.254/16), \<open>is_broadcast\<close>, \<open>to_ipv4_mapped\<close>, \<open>to_ipv4\<close>.
\<close>

datatype ip =
    V4 "8 word" "8 word" "8 word" "8 word"
  | V6 "16 word" "16 word" "16 word" "16 word" "16 word" "16 word" "16 word" "16 word"

definition seg_hi :: "16 word \<Rightarrow> 8 word" where
  "seg_hi s = ucast (drop_bit 8 s)"

definition seg_lo :: "16 word \<Rightarrow> 8 word" where
  "seg_lo s = ucast s"

definition octets_seg :: "8 word \<Rightarrow> 8 word \<Rightarrow> 16 word" where
  "octets_seg a b = push_bit 8 (ucast a) OR ucast b"

fun to_ipv4_mapped :: "ip \<Rightarrow> ip option" where
  "to_ipv4_mapped (V6 s0 s1 s2 s3 s4 s5 s6 s7) =
     (if s0 = 0 \<and> s1 = 0 \<and> s2 = 0 \<and> s3 = 0 \<and> s4 = 0 \<and> s5 = 0xffff
      then Some (V4 (seg_hi s6) (seg_lo s6) (seg_hi s7) (seg_lo s7)) else None)"
| "to_ipv4_mapped _ = None"

fun to_ipv4 :: "ip \<Rightarrow> ip option" where
  "to_ipv4 (V6 s0 s1 s2 s3 s4 s5 s6 s7) =
     (if s0 = 0 \<and> s1 = 0 \<and> s2 = 0 \<and> s3 = 0 \<and> s4 = 0 \<and> (s5 = 0 \<or> s5 = 0xffff)
      then Some (V4 (seg_hi s6) (seg_lo s6) (seg_hi s7) (seg_lo s7)) else None)"
| "to_ipv4 _ = None"

fun is_loopback :: "ip \<Rightarrow> bool" where
  "is_loopback (V4 a b c d) = (a = 127)"
| "is_loopback (V6 s0 s1 s2 s3 s4 s5 s6 s7) =
     (s0 = 0 \<and> s1 = 0 \<and> s2 = 0 \<and> s3 = 0 \<and> s4 = 0 \<and> s5 = 0 \<and> s6 = 0 \<and> s7 = 1)"

definition v4_is_private :: "8 word \<Rightarrow> 8 word \<Rightarrow> bool" where
  "v4_is_private a b = (a = 10 \<or> a = 172 \<and> 16 \<le> b \<and> b \<le> 31 \<or> a = 192 \<and> b = 168)"

text \<open>The rewriting of IPv6 addresses that embed an IPv4 address, with its exceptions for \<open>::1\<close> and \<open>::\<close>.\<close>

definition normalize_ip :: "ip \<Rightarrow> ip" where
  "normalize_ip ip = (case ip of
       V4 _ _ _ _ \<Rightarrow> ip
     | V6 s0 s1 s2 s3 s4 s5 s6 s7 \<Rightarrow>
         (case to_ipv4_mapped ip of
            Some v4 \<Rightarrow> v4
          | None \<Rightarrow>
              (case to_ipv4 ip of
                 Some v4 \<Rightarrow>
                   if s0 = 0 \<and> s1 = 0 \<and> s2 = 0 \<and> s3 = 0 \<and> s4 = 0 \<and> s5 = 0 then
                     if s6 = 0 \<and> s7 = 1 then ip
                     else if s6 = 0 \<and> s7 = 0 then ip
                     else v4
                   else ip
               | None \<Rightarrow> ip)))"

definition is_private_ip :: "ip \<Rightarrow> bool \<Rightarrow> string option" where
  "is_private_ip ip0 allow_localhost =
     (let ip = normalize_ip ip0 in
      if is_loopback ip \<and> \<not> allow_localhost then Some ''loopback address''
      else case ip of
        V4 a b c d \<Rightarrow>
          if v4_is_private a b then Some ''private IPv4 address''
          else if a = 169 \<and> b = 254 then Some ''link-local address''
          else if a = 100 \<and> b AND 0xC0 = 0x40 then Some ''shared address space (CGNAT)''
          else if a = 255 \<and> b = 255 \<and> c = 255 \<and> d = 255 \<or> a = 0 then Some ''non-routable address''
          else None
      | V6 s0 s1 s2 s3 s4 s5 s6 s7 \<Rightarrow>
          if is_loopback ip \<and> \<not> allow_localhost then Some ''loopback address''
          else if s0 AND 0xfe00 = 0xfc00 then Some ''private IPv6 (ULA) address''
          else if s0 AND 0xffc0 = 0xfe80 then Some ''link-local IPv6 address''
          else if s0 = 0xfd00 \<and> s1 = 0x0ec2 \<and> s2 = 0 \<and> s3 = 0 \<and> s4 = 0 \<and> s5 = 0 \<and> s6 = 0 \<and> s7 = 0x0254
          then Some ''cloud metadata IPv6 address''
          else None)"

section \<open>Embedded IPv4 addresses\<close>

lemma seg_hi_octets [simp]: "seg_hi (octets_seg a b) = a"
  unfolding seg_hi_def octets_seg_def
  by (rule bit_word_eqI) (auto simp: bit_simps dest: bit_imp_le_length)

lemma seg_lo_octets [simp]: "seg_lo (octets_seg a b) = b"
  unfolding seg_lo_def octets_seg_def
  by (rule bit_word_eqI) (auto simp: bit_simps dest: bit_imp_le_length)

text \<open>
  No address escapes the filter by being written as IPv6: the IPv4-mapped form of any IPv4
  address gets the same verdict as the address itself, and so does the IPv4-compatible form,
  except for the two addresses \<open>::\<close> and \<open>::1\<close>.
\<close>

theorem embedded_v4_same_verdict:
  "is_private_ip (V6 0 0 0 0 0 0xffff (octets_seg a b) (octets_seg c d)) allow = is_private_ip (V4 a b c d) allow \<and>
   (octets_seg a b = 0 \<and> (octets_seg c d = 0 \<or> octets_seg c d = 1) \<or>
    is_private_ip (V6 0 0 0 0 0 0 (octets_seg a b) (octets_seg c d)) allow = is_private_ip (V4 a b c d) allow)"
  by (auto simp: is_private_ip_def normalize_ip_def)

text \<open>
  Without the localhost exception, an IPv4 address passes exactly when it lies in none of
  the ranges 127/8, 10/8, 172.16/12, 192.168/16, 169.254/16, 100.64/10 and 0/8 and is not the
  broadcast address.
\<close>

theorem v4_passes_iff:
  "is_private_ip (V4 a b c d) False = None \<longleftrightarrow>
     a \<notin> {0, 10, 127} \<and> \<not> (a = 172 \<and> 16 \<le> b \<and> b \<le> 31) \<and> (a, b) \<noteq> (192, 168) \<and> (a, b) \<noteq> (169, 254) \<and>
     \<not> (a = 100 \<and> b AND 0xC0 = 0x40) \<and> (a, b, c, d) \<noteq> (255, 255, 255, 255)"
  by (auto simp: is_private_ip_def normalize_ip_def v4_is_private_def Let_def)

text \<open>
  The unspecified IPv6 address \<open>::\<close> passes the filter, while its IPv4 counterpart \<open>0.0.0.0\<close>
  is refused as non-routable: connecting to either reaches the local host.
\<close>

theorem unspecified_v6_passes:
  "is_private_ip (V6 0 0 0 0 0 0 0 0) False = None \<and>
   is_private_ip (V4 0 0 0 0) False = Some ''non-routable address''"
  by (simp add: is_private_ip_def normalize_ip_def v4_is_private_def)

section \<open>The ranges of the filter\<close>

text \<open>
  The specification of the filter, in numbers: an IPv4 address is one number, and the internal ones are those in the
  ranges of a table of prefixes (base and length). An IPv6 address is internal if it is \<open>::1\<close>, in \<open>fc00::/7\<close> or in
  \<open>fe80::/10\<close>, or embeds an internal IPv4 address. The one internal address that is missing is \<open>::\<close>.
\<close>

definition dotted :: "nat \<Rightarrow> nat \<Rightarrow> nat \<Rightarrow> nat \<Rightarrow> nat" where
  "dotted a b c d = ((a * 256 + b) * 256 + c) * 256 + d"

definition INTERNAL_V4 :: "(nat \<times> nat) list" where
  "INTERNAL_V4 =
     [(dotted 0 0 0 0, 8), (dotted 10 0 0 0, 8), (dotted 100 64 0 0, 10), (dotted 127 0 0 0, 8), (dotted 169 254 0 0, 16),
      (dotted 172 16 0 0, 12), (dotted 192 168 0 0, 16), (dotted 255 255 255 255, 32)]"

definition internal_v4 :: "nat \<Rightarrow> bool" where
  "internal_v4 n = list_ex (\<lambda>(base, len). n div 2 ^ (32 - len) = base div 2 ^ (32 - len)) INTERNAL_V4"

fun internal_ip :: "ip \<Rightarrow> bool" where
  "internal_ip (V4 a b c d) = internal_v4 (dotted (unat a) (unat b) (unat c) (unat d))"
| "internal_ip (V6 s0 s1 s2 s3 s4 s5 s6 s7) =
     (let low = unat s6 * 65536 + unat s7 in
      if s0 = 0 \<and> s1 = 0 \<and> s2 = 0 \<and> s3 = 0 \<and> s4 = 0 \<and> s5 = 0 \<and> low < 2 then low = 1
      else if s0 = 0 \<and> s1 = 0 \<and> s2 = 0 \<and> s3 = 0 \<and> s4 = 0 \<and> (s5 = 0 \<or> s5 = 0xffff) then internal_v4 low
      else unat s0 div 2 ^ 9 = 0xfc00 div 2 ^ 9 \<or> unat s0 div 2 ^ 6 = 0xfe80 div 2 ^ 6)"

lemma and_prefix:
  fixes w :: "'a::len word"
  shows "w AND push_bit k (- 1) = push_bit k v \<longleftrightarrow> drop_bit k w = drop_bit k (push_bit k v)"
proof
  assume "w AND push_bit k (- 1) = push_bit k v"
  then have "drop_bit k (w AND push_bit k (- 1)) = drop_bit k (push_bit k v)" by simp
  moreover have "drop_bit k (w AND push_bit k (- 1)) = drop_bit k w"
    by (rule bit_word_eqI) (auto simp: bit_simps dest: bit_imp_le_length)
  ultimately show "drop_bit k w = drop_bit k (push_bit k v)" by simp
next
  assume d: "drop_bit k w = drop_bit k (push_bit k v)"
  have "w AND push_bit k (- 1) = push_bit k (drop_bit k w)" by (rule bit_word_eqI) (auto simp: bit_simps)
  also have "\<dots> = push_bit k v" unfolding d by (rule bit_word_eqI) (auto simp: bit_simps)
  finally show "w AND push_bit k (- 1) = push_bit k v" .
qed

lemma prefix_masks:
  "(0xC0 :: 8 word) = push_bit 6 (- 1)" "(0xfe00 :: 16 word) = push_bit 9 (- 1)" "(0xffc0 :: 16 word) = push_bit 6 (- 1)"
  "(0x40 :: 8 word) = push_bit 6 1" "(0xfc00 :: 16 word) = push_bit 9 126" "(0xfe80 :: 16 word) = push_bit 6 1018"
  by code_simp+

lemma prefix_tests:
  "(b :: 8 word) AND 0xC0 = 0x40 \<longleftrightarrow> unat b div 64 = 1"
  "(s :: 16 word) AND 0xfe00 = 0xfc00 \<longleftrightarrow> unat s div 512 = 126"
  "(s :: 16 word) AND 0xffc0 = 0xfe80 \<longleftrightarrow> unat s div 64 = 1018"
  unfolding prefix_masks and_prefix by (simp_all add: word_unat_eq_iff unat_drop_bit_eq drop_bit_eq_div unat_div)

lemma dotted_div:
  assumes "b < 256" and "c < 256" and "d < 256"
  shows "dotted a b c d div 16777216 = a" "dotted a b c d div 65536 = a * 256 + b"
    "dotted a b c d div 1048576 = a * 16 + b div 16" "dotted a b c d div 4194304 = a * 4 + b div 64"
  using assms by (simp_all add: dotted_def)

lemma internal_v4_prefixes:
  "internal_v4 n \<longleftrightarrow> n div 16777216 \<in> {0, 10, 127} \<or> n div 4194304 = 401 \<or> n div 65536 \<in> {43518, 49320} \<or>
     n div 1048576 = 2753 \<or> n = 4294967295"
  by (auto simp: internal_v4_def INTERNAL_V4_def dotted_def)

lemma last_digit: "y < k \<Longrightarrow> x * k + y = n \<longleftrightarrow> x = n div k \<and> y = n mod k" for n :: nat
  by (auto simp: div_mult_mod_eq)

lemma prefix_digits:
  fixes a b :: nat
  shows "b < 256 \<Longrightarrow> a * 256 + b = 43518 \<longleftrightarrow> a = 169 \<and> b = 254" "b < 256 \<Longrightarrow> a * 256 + b = 49320 \<longleftrightarrow> a = 192 \<and> b = 168"
    "b < 16 \<Longrightarrow> a * 16 + b = 2753 \<longleftrightarrow> a = 172 \<and> b = 1" "b < 4 \<Longrightarrow> a * 4 + b = 401 \<longleftrightarrow> a = 100 \<and> b = 1"
  by (simp_all add: last_digit)

lemma dotted_broadcast:
  "b < 256 \<Longrightarrow> c < 256 \<Longrightarrow> d < 256 \<Longrightarrow> dotted a b c d = 4294967295 \<longleftrightarrow> a = 255 \<and> b = 255 \<and> c = 255 \<and> d = 255"
  unfolding dotted_def by (simp only: last_digit) simp

lemma internal_v4_iff:
  assumes "b < 256" and "c < 256" and "d < 256"
  shows "internal_v4 (dotted a b c d) \<longleftrightarrow>
    a \<in> {0, 10, 127} \<or> a = 100 \<and> b div 64 = 1 \<or> (a, b) = (169, 254) \<or> (a, b) = (192, 168) \<or> a = 172 \<and> b div 16 = 1 \<or>
    a = 255 \<and> b = 255 \<and> c = 255 \<and> d = 255"
proof -
  have "b div 16 < 16" "b div 64 < 4" using assms(1) by auto
  with assms show ?thesis
    unfolding internal_v4_prefixes dotted_div [OF assms] dotted_broadcast [OF assms] by (auto simp: prefix_digits)
qed

text \<open>The filter passes exactly the addresses that are not internal.\<close>

lemma filter_v4: "is_private_ip (V4 a b c d) False = None \<longleftrightarrow> \<not> internal_ip (V4 a b c d)"
proof -
  have bound: "unat b < 256" "unat c < 256" "unat d < 256"
    using unsigned_less [of b, where 'a = nat] unsigned_less [of c, where 'a = nat] unsigned_less [of d, where 'a = nat] by simp_all
  have "16 \<le> b \<and> b \<le> 31 \<longleftrightarrow> unat b div 16 = 1" by (simp add: word_le_nat_alt) presburger
  moreover have "(x = k) = (unat x = unat k)" for x k :: "8 word" by (rule word_unat_eq_iff)
  ultimately show ?thesis
    unfolding v4_passes_iff internal_ip.simps internal_v4_iff [OF bound] prefix_tests by (auto simp: word_unat_eq_iff)
qed

lemma unat_seg_hi: "unat (seg_hi x) = unat x div 256"
  using unsigned_less [of x, where 'a = nat]
  by (simp add: seg_hi_def unsigned_ucast_eq unsigned_take_bit_eq take_bit_eq_mod unat_drop_bit_eq drop_bit_eq_div unat_div)

lemma segs_dotted:
  "unat s * 65536 + unat t = dotted (unat (seg_hi s)) (unat (seg_lo s)) (unat (seg_hi t)) (unat (seg_lo t))"
proof -
  have lo: "unat (seg_lo x) = unat x mod 256" for x :: "16 word" by (simp add: seg_lo_def unsigned_ucast_eq unsigned_take_bit_eq take_bit_eq_mod)
  have "x * 65536 + (q * 256 + r) = (x * 256 + q) * 256 + r" for x q r :: nat by simp
  from this [of "unat s" "unat t div 256" "unat t mod 256"] show ?thesis unfolding dotted_def unat_seg_hi lo div_mult_mod_eq .
qed

lemma low_segs:
  fixes s t :: "16 word"
  shows "unat s * 65536 + unat t = 0 \<longleftrightarrow> s = 0 \<and> t = 0" "unat s * 65536 + unat t = 1 \<longleftrightarrow> s = 0 \<and> t = 1"
proof -
  have one: "w = 1 \<longleftrightarrow> unat w = 1" for w :: "16 word" unfolding word_unat_eq_iff unsigned_1 by (rule refl)
  have zero: "w = 0 \<longleftrightarrow> unat w = 0" for w :: "16 word" unfolding word_unat_eq_iff unsigned_0 by (rule refl)
  have "x * 65536 + y = 0 \<longleftrightarrow> x = 0 \<and> y = 0" "x * 65536 + y = 1 \<longleftrightarrow> x = 0 \<and> y = 1" for x y :: nat
    by (cases x; simp)+
  then show "unat s * 65536 + unat t = 0 \<longleftrightarrow> s = 0 \<and> t = 0" "unat s * 65536 + unat t = 1 \<longleftrightarrow> s = 0 \<and> t = 1"
    unfolding one zero .
qed

lemma plain_v6:
  assumes "\<not> (s0 = 0 \<and> s1 = 0 \<and> s2 = 0 \<and> s3 = 0 \<and> s4 = 0 \<and> (s5 = 0 \<or> s5 = 0xffff))"
  shows "is_private_ip (V6 s0 s1 s2 s3 s4 s5 s6 s7) False = None \<longleftrightarrow> \<not> internal_ip (V6 s0 s1 s2 s3 s4 s5 s6 s7)"
proof -
  let ?ip = "V6 s0 s1 s2 s3 s4 s5 s6 s7"
  have n: "normalize_ip ?ip = ?ip" "\<not> is_loopback ?ip" using assms by (auto simp: normalize_ip_def)
  have m: "s0 AND 0xfe00 = 0xfc00" if "s0 = 0xfd00" unfolding that by simp
  have "internal_ip ?ip \<longleftrightarrow> unat s0 div 512 = 126 \<or> unat s0 div 64 = 1018"
    unfolding internal_ip.simps Let_def using assms by (simp; blast)
  with m show ?thesis unfolding is_private_ip_def n Let_def ip.case prefix_tests by (auto simp: n)
qed

theorem filter_exact: "is_private_ip ip False = None \<longleftrightarrow> \<not> internal_ip ip"
proof (cases ip)
  case (V6 s0 s1 s2 s3 s4 s5 s6 s7)
  let ?low = "unat s6 * 65536 + unat s7"
  note low = low_segs [of s6 s7]
  let ?v4 = "V4 (seg_hi s6) (seg_lo s6) (seg_hi s7) (seg_lo s7)"
  have emb: "is_private_ip ?v4 False = None \<longleftrightarrow> \<not> internal_v4 ?low" unfolding filter_v4 by (simp add: segs_dotted)
  show ?thesis
  proof (cases "s0 = 0 \<and> s1 = 0 \<and> s2 = 0 \<and> s3 = 0 \<and> s4 = 0 \<and> (s5 = 0 \<or> s5 = 0xffff)")
    case False
    then show ?thesis unfolding V6 by (rule plain_v6)
  next
    case True
    show ?thesis
    proof (cases "s5 = 0 \<and> s6 = 0 \<and> (s7 = 0 \<or> s7 = 1)")
      case short: True
      with True show ?thesis unfolding V6 by (auto simp: is_private_ip_def normalize_ip_def)
    next
      case False
      with True have "normalize_ip ip = normalize_ip ?v4" unfolding V6 by (auto simp: normalize_ip_def)
      then have "is_private_ip ip False = is_private_ip ?v4 False" by (simp only: is_private_ip_def)
      moreover have "internal_ip ip = internal_v4 ?low"
      proof -
        have "\<not> (s5 = 0 \<and> ?low < 2)"
          using low False by (cases "?low = 0"; cases "?low = 1") auto
        with True show ?thesis unfolding V6 internal_ip.simps Let_def by auto
      qed
      ultimately show ?thesis using emb by simp
    qed
  qed
qed (simp add: filter_v4)

text \<open>With the exception for the local host, the loopback addresses 127/8 and \<open>::1\<close> pass as well, embedded ones included.\<close>

fun loopback_ip :: "ip \<Rightarrow> bool" where
  "loopback_ip (V4 a b c d) = (unat a = 127)"
| "loopback_ip (V6 s0 s1 s2 s3 s4 s5 s6 s7) =
     (s0 = 0 \<and> s1 = 0 \<and> s2 = 0 \<and> s3 = 0 \<and> s4 = 0 \<and>
      (s5 = 0 \<and> s6 = 0 \<and> s7 = 1 \<or> (s5 = 0 \<or> s5 = 0xffff) \<and> unat s6 div 256 = 127))"

lemma loopback_normalized: "is_loopback (normalize_ip ip) = loopback_ip ip"
proof (cases ip)
  case (V4 a b c d)
  then show ?thesis by (simp add: normalize_ip_def word_unat_eq_iff)
next
  case (V6 s0 s1 s2 s3 s4 s5 s6 s7)
  have h: "seg_hi s = 127 \<longleftrightarrow> unat s div 256 = 127" for s by (simp add: word_unat_eq_iff unat_seg_hi)
  show ?thesis
  proof (cases "s0 = 0 \<and> s1 = 0 \<and> s2 = 0 \<and> s3 = 0 \<and> s4 = 0 \<and> (s5 = 0 \<or> s5 = 0xffff)")
    case False
    then show ?thesis unfolding V6 by (auto simp: normalize_ip_def)
  next
    case True
    then show ?thesis unfolding V6 by (cases "s6 = 0"; auto simp: normalize_ip_def h)
  qed
qed

theorem filter_exact_localhost: "is_private_ip ip True = None \<longleftrightarrow> \<not> internal_ip ip \<or> loopback_ip ip"
proof (cases "loopback_ip ip")
  case True
  then have l: "is_loopback (normalize_ip ip)" by (simp add: loopback_normalized)
  then show ?thesis
    using True by (cases "normalize_ip ip") (simp_all add: is_private_ip_def v4_is_private_def Let_def)
next
  case False
  then have "\<not> is_loopback (normalize_ip ip)" by (simp add: loopback_normalized)
  then have "is_private_ip ip True = is_private_ip ip False"
    by (cases "normalize_ip ip") (simp_all add: is_private_ip_def Let_def)
  with False filter_exact [of ip] show ?thesis by simp
qed

text \<open>The metadata branch is never reached: that address is a unique local address.\<close>

lemma metadata_branch_unreachable: "is_private_ip ip allow \<noteq> Some ''cloud metadata IPv6 address''"
proof -
  have "(0xfd00 :: 16 word) AND 0xfe00 = 0xfc00" by simp
  then show ?thesis by (auto simp: is_private_ip_def Let_def split: ip.split)
qed

end
