(* ===== verification/AuditTrail.thy ===== *)
theory AuditTrail
  imports Subjects Json
begin

text \<open>
  The audit trail, \<open>crates/orbflow-core/src/audit.rs\<close>: the hash chain over the event log, the
  check of hex-encoded signatures, and Merkle trees with inclusion proofs. \<open>sha\<close> is SHA-256 (crate
  \<open>sha2\<close>) from bytes to bytes and \<open>ed_verify\<close> the signature check of the Ed25519 crate; nothing
  is assumed of them.
\<close>

section \<open>Hexadecimal\<close>

definition hex_encode :: "string \<Rightarrow> string" where
  "hex_encode bs = concat (map (\<lambda>b. let n = of_char b :: nat in [hex_digit (n div 16), hex_digit (n mod 16)]) bs)"

definition hex_val :: "char \<Rightarrow> nat option" where
  "hex_val c = (let n = of_char c :: nat in
     if 48 \<le> n \<and> n \<le> 57 then Some (n - 48)
     else if 97 \<le> n \<and> n \<le> 102 then Some (n - 87)
     else if 65 \<le> n \<and> n \<le> 70 then Some (n - 55)
     else None)"

text \<open>\<open>u8::from_str_radix(s, 16)\<close> on two bytes; a leading plus sign is accepted.\<close>

definition parse_hex_byte :: "char \<Rightarrow> char \<Rightarrow> char option" where
  "parse_hex_byte a b =
     (if a = CHR ''+'' then map_option char_of (hex_val b)
      else Option.bind (hex_val a) (\<lambda>x. map_option (\<lambda>y. char_of (16 * x + y)) (hex_val b)))"

text \<open>Inside a multi-byte character of UTF-8, where a string slice must not begin or end.\<close>

definition utf8_continuation :: "char \<Rightarrow> bool" where
  "utf8_continuation c = (let n = of_char c :: nat in 128 \<le> n \<and> n < 192)"

datatype 'a checked = Panics | Returns 'a

text \<open>The loop over the two-byte slices; \<open>collect\<close> stops at the first invalid one.\<close>

fun hex_pairs :: "string \<Rightarrow> string option checked" where
  "hex_pairs (a # b # cs) =
     (if utf8_continuation a \<or> (case cs of [] \<Rightarrow> False | c # _ \<Rightarrow> utf8_continuation c) then Panics
      else (case parse_hex_byte a b of
              None \<Rightarrow> Returns None
            | Some x \<Rightarrow> (case hex_pairs cs of
                Panics \<Rightarrow> Panics | Returns r \<Rightarrow> Returns (map_option (\<lambda>xs. x # xs) r))))"
| "hex_pairs _ = Returns (Some [])"

definition hex_decode :: "string \<Rightarrow> string option checked" where
  "hex_decode s = (if odd (length s) then Returns None else hex_pairs s)"

text \<open>\<open>Ed25519Signer::verify\<close>\<close>

definition verify_signature :: "(string \<Rightarrow> string \<Rightarrow> bool) \<Rightarrow> string \<Rightarrow> string \<Rightarrow> bool checked" where
  "verify_signature ed_verify data signature =
     (case hex_decode signature of
        Panics \<Rightarrow> Panics
      | Returns None \<Rightarrow> Returns False
      | Returns (Some bs) \<Rightarrow> Returns (length bs = 64 \<and> ed_verify data bs))"

section \<open>The chain\<close>

record audit_record =
  ar_prev_hash :: string
  ar_event_hash :: string
  ar_event_data :: string
  ar_seq :: nat

definition GENESIS_HASH :: string where
  "GENESIS_HASH = replicate 64 CHR ''0''"

definition u64_le_bytes :: "nat \<Rightarrow> string" where
  "u64_le_bytes n = map (\<lambda>k. char_of (n div 256 ^ k mod 256)) [0..<8]"

definition compute_event_hash :: "(string \<Rightarrow> string) \<Rightarrow> string \<Rightarrow> string \<Rightarrow> string" where
  "compute_event_hash sha event_data prev_hash =
     hex_encode (sha (u64_le_bytes (length event_data) @ event_data @ prev_hash))"

definition create_audit_record :: "(string \<Rightarrow> string) \<Rightarrow> string \<Rightarrow> string \<Rightarrow> nat \<Rightarrow> audit_record" where
  "create_audit_record sha event_data prev_hash seq =
     \<lparr>ar_prev_hash = prev_hash, ar_event_hash = compute_event_hash sha event_data prev_hash,
      ar_event_data = event_data, ar_seq = seq\<rparr>"

definition verify_record :: "(string \<Rightarrow> string) \<Rightarrow> audit_record \<Rightarrow> bool" where
  "verify_record sha r = (ar_event_hash r = compute_event_hash sha (ar_event_data r) (ar_prev_hash r))"

datatype audit_chain_error =
    InvalidGenesis
  | TamperedRecord nat
  | BrokenChain nat
  | InvalidSequence nat nat nat

text \<open>The loop from record \<open>i\<close> on; \<open>last\<close> is the hash of the record before, if there is one.\<close>

fun verify_from :: "(string \<Rightarrow> string) \<Rightarrow> nat \<Rightarrow> string option \<Rightarrow> audit_record list \<Rightarrow> audit_chain_error + unit" where
  "verify_from sha i prev [] = Inr ()"
| "verify_from sha i prev (r # rs) =
     (if \<not> verify_record sha r then Inl (TamperedRecord i)
      else if (case prev of None \<Rightarrow> False | Some h \<Rightarrow> ar_prev_hash r \<noteq> h) then Inl (BrokenChain i)
      else if ar_seq r \<noteq> i then Inl (InvalidSequence i i (ar_seq r))
      else verify_from sha (i + 1) (Some (ar_event_hash r)) rs)"

definition verify_chain :: "(string \<Rightarrow> string) \<Rightarrow> audit_record list \<Rightarrow> audit_chain_error + unit" where
  "verify_chain sha rs = (case rs of
       [] \<Rightarrow> Inr ()
     | r # _ \<Rightarrow> if ar_prev_hash r \<noteq> GENESIS_HASH then Inl InvalidGenesis else verify_from sha 0 None rs)"

section \<open>Merkle trees\<close>

definition hash_pair :: "(string \<Rightarrow> string) \<Rightarrow> string \<Rightarrow> string \<Rightarrow> string" where
  "hash_pair sha left right = hex_encode (sha (left @ right))"

text \<open>One layer from the one below; an odd element is paired with itself.\<close>

fun next_layer :: "(string \<Rightarrow> string) \<Rightarrow> string list \<Rightarrow> string list" where
  "next_layer sha [] = []"
| "next_layer sha [a] = [hash_pair sha a a]"
| "next_layer sha (a # b # xs) = hash_pair sha a b # next_layer sha xs"

lemma length_next_layer [simp]: "length (next_layer sha xs) = (length xs + 1) div 2"
  by (induction sha xs rule: next_layer.induct) auto

function layers_from :: "(string \<Rightarrow> string) \<Rightarrow> string list \<Rightarrow> string list list" where
  "layers_from sha xs = xs # (if length xs > 1 then layers_from sha (next_layer sha xs) else [])"
  by auto

termination
  by (relation "measure (\<lambda>(sha, xs). length xs)") auto

declare layers_from.simps [simp del]

definition merkle_build :: "(string \<Rightarrow> string) \<Rightarrow> string list \<Rightarrow> string list list" where
  "merkle_build sha hashes = (if hashes = [] then [[GENESIS_HASH]] else layers_from sha hashes)"

definition merkle_root :: "string list list \<Rightarrow> string" where
  "merkle_root layers = (if layers = [] \<or> last layers = [] then GENESIS_HASH else hd (last layers))"

datatype merkle_position = MLeft | MRight

record merkle_proof_node =
  mp_hash :: string
  mp_position :: merkle_position

fun merkle_path :: "nat \<Rightarrow> string list list \<Rightarrow> merkle_proof_node list" where
  "merkle_path idx [] = []"
| "merkle_path idx (layer # rest) =
     (let sibling_idx = (if even idx then idx + 1 else idx - 1) in
      \<lparr>mp_hash = (if sibling_idx < length layer then layer ! sibling_idx else layer ! idx),
       mp_position = (if even idx then MRight else MLeft)\<rparr> # merkle_path (idx div 2) rest)"

definition merkle_proof :: "string list list \<Rightarrow> nat \<Rightarrow> merkle_proof_node list" where
  "merkle_proof layers index =
     (if layers = [] \<or> length (hd layers) \<le> index then []
      else if length (hd layers) = 1 then []
      else merkle_path index (butlast layers))"

definition proof_step :: "(string \<Rightarrow> string) \<Rightarrow> merkle_proof_node \<Rightarrow> string \<Rightarrow> string" where
  "proof_step sha node current = (case mp_position node of
       MLeft \<Rightarrow> hash_pair sha (mp_hash node) current
     | MRight \<Rightarrow> hash_pair sha current (mp_hash node))"

definition verify_proof :: "(string \<Rightarrow> string) \<Rightarrow> string \<Rightarrow> merkle_proof_node list \<Rightarrow> string \<Rightarrow> bool" where
  "verify_proof sha leaf proof root_hash = (fold (proof_step sha) proof leaf = root_hash)"


section \<open>The audit columns of the event table\<close>

text \<open>
  What \<open>append_event\<close> and \<open>create_instance_tx\<close> of \<open>crates/orbflow-postgres/src\<close> write to the table
  \<open>events\<close> and \<open>load_audit_records\<close> reads back; \<open>to_vec\<close> serialises JSON and \<open>signer\<close> is the
  optional pair of \<open>sign\<close> and \<open>verify\<close> of an \<open>AuditSigner\<close>. Both writers take the hash of the newest
  row of the instance, or the genesis hash, as the previous one.
\<close>

record event_row =
  er_data :: json
  er_event_hash :: "string option"
  er_prev_hash :: "string option"
  er_signature :: "string option"

type_synonym audit_signer = "(string \<Rightarrow> string) \<times> (string \<Rightarrow> string \<Rightarrow> bool)"

definition audited_row :: "(string \<Rightarrow> string) \<Rightarrow> (json \<Rightarrow> string) \<Rightarrow> audit_signer option \<Rightarrow> string \<Rightarrow> json \<Rightarrow> event_row" where
  "audited_row sha to_vec signer prev_hash d =
     (let event_hash = compute_event_hash sha (to_vec d) prev_hash in
      \<lparr>er_data = d, er_event_hash = Some event_hash, er_prev_hash = Some prev_hash,
       er_signature = map_option (\<lambda>sg. fst sg event_hash) signer\<rparr>)"

definition pg_create_event_tx ::
    "(string \<Rightarrow> string) \<Rightarrow> (json \<Rightarrow> string) \<Rightarrow> audit_signer option \<Rightarrow> json \<Rightarrow> event_row list" where
  "pg_create_event_tx sha to_vec signer d = [audited_row sha to_vec signer GENESIS_HASH d]"

definition pg_append_event ::
    "(string \<Rightarrow> string) \<Rightarrow> (json \<Rightarrow> string) \<Rightarrow> audit_signer option \<Rightarrow> json \<Rightarrow> event_row list \<Rightarrow> event_row list" where
  "pg_append_event sha to_vec signer d rows =
     (let prev_hash = (if rows = [] then GENESIS_HASH
                       else (case er_event_hash (last rows) of None \<Rightarrow> GENESIS_HASH | Some h \<Rightarrow> h)) in
      rows @ [audited_row sha to_vec signer prev_hash d])"

text \<open>The loop of \<open>load_audit_records\<close>; the answer \<open>Inl\<close> is the error of an invalid signature.\<close>

fun load_audit_from :: "(json \<Rightarrow> string) \<Rightarrow> audit_signer option \<Rightarrow> nat \<Rightarrow> event_row list \<Rightarrow> nat + audit_record list" where
  "load_audit_from to_vec signer seq [] = Inr []"
| "load_audit_from to_vec signer seq (row # rows) =
     (let event_hash = (case er_event_hash row of None \<Rightarrow> [] | Some h \<Rightarrow> h) in
      if (case (er_signature row, signer) of
            (Some s, Some sg) \<Rightarrow> \<not> snd sg event_hash s | _ \<Rightarrow> False)
      then Inl seq
      else map_sum id (\<lambda>rs.
        \<lparr>ar_prev_hash = (case er_prev_hash row of None \<Rightarrow> GENESIS_HASH | Some h \<Rightarrow> h),
         ar_event_hash = event_hash, ar_event_data = to_vec (er_data row), ar_seq = seq\<rparr> # rs)
       (load_audit_from to_vec signer (seq + 1) rows))"

definition load_audit_records :: "(json \<Rightarrow> string) \<Rightarrow> audit_signer option \<Rightarrow> event_row list \<Rightarrow> nat + audit_record list" where
  "load_audit_records to_vec signer rows = load_audit_from to_vec signer 0 rows"

text \<open>The endpoint \<open>get_audit_proof\<close>: leaf, root, proof and its check.\<close>

definition get_audit_proof ::
    "(string \<Rightarrow> string) \<Rightarrow> audit_record list \<Rightarrow> nat \<Rightarrow> (string \<times> string \<times> merkle_proof_node list \<times> bool) option" where
  "get_audit_proof sha records event_index =
     (if length records \<le> event_index then None
      else let hashes = map ar_event_hash records; layers = merkle_build sha hashes;
               prf = merkle_proof layers event_index; root_hash = merkle_root layers; leaf = hashes ! event_index
           in Some (leaf, root_hash, prf, verify_proof sha leaf prf root_hash))"

section \<open>Facts about hexadecimal\<close>

lemma hex_encode_simps [simp]:
  "hex_encode [] = []"
  "hex_encode (b # bs) = hex_digit (of_char b div 16) # hex_digit (of_char b mod 16) # hex_encode bs"
  by (simp_all add: hex_encode_def Let_def)

lemma hex_val_digit: "n < 16 \<Longrightarrow> hex_val (hex_digit n) = Some n"
  by (auto simp: hex_val_def hex_digit_def Let_def)

lemma hex_digit_plain:
  "n < 16 \<Longrightarrow> \<not> utf8_continuation (hex_digit n)" "n < 16 \<Longrightarrow> hex_digit n \<noteq> CHR ''+''"
  by (auto simp: utf8_continuation_def hex_digit_def Let_def dest: arg_cong [where f = "of_char :: char \<Rightarrow> nat"])

lemma byte_halves: "(of_char b :: nat) div 16 < 16" "(of_char b :: nat) mod 16 < 16"
proof -
  have "(of_char b :: nat) < 256" by (metis nat_of_char_less_256)
  then show "(of_char b :: nat) div 16 < 16" by presburger
  show "(of_char b :: nat) mod 16 < 16" by simp
qed

lemma parse_hex_encoded:
  "parse_hex_byte (hex_digit (of_char b div 16)) (hex_digit (of_char b mod 16)) = Some b"
  by (simp add: parse_hex_byte_def hex_digit_plain hex_val_digit byte_halves)

lemma hex_pairs_encode: "hex_pairs (hex_encode bs) = Returns (Some bs)"
proof (induction bs)
  case (Cons b bs)
  have "\<not> (case hex_encode bs of [] \<Rightarrow> False | c # _ \<Rightarrow> utf8_continuation c)"
    by (cases bs) (simp_all add: hex_digit_plain byte_halves)
  with Cons show ?case by (simp add: parse_hex_encoded hex_digit_plain byte_halves)
qed simp

lemma length_hex_encode: "length (hex_encode bs) = 2 * length bs"
  by (induction bs) auto

lemma hex_decode_encode: "hex_decode (hex_encode bs) = Returns (Some bs)"
  by (simp add: hex_decode_def length_hex_encode hex_pairs_encode)

lemma hex_encode_inject: "hex_encode xs = hex_encode ys \<longleftrightarrow> xs = ys"
  by (metis hex_decode_encode checked.inject option.inject)

section \<open>Facts about chains\<close>

text \<open>The hash the next record has to carry, and the producer's loop over the data of the events.\<close>

definition tip :: "audit_record list \<Rightarrow> string" where
  "tip rs = (if rs = [] then GENESIS_HASH else ar_event_hash (last rs))"

definition recorded :: "(string \<Rightarrow> string) \<Rightarrow> string list \<Rightarrow> audit_record list" where
  "recorded sha ds = foldl (\<lambda>rs d. rs @ [create_audit_record sha d (tip rs) (length rs)]) [] ds"

definition hash_input :: "audit_record \<Rightarrow> string" where
  "hash_input r = u64_le_bytes (length (ar_event_data r)) @ ar_event_data r @ ar_prev_hash r"

lemma verify_from_snoc:
  "verify_from sha i prev (rs @ [r]) =
     (case verify_from sha i prev rs of
        Inl e \<Rightarrow> Inl e
      | Inr _ \<Rightarrow> verify_from sha (i + length rs) (if rs = [] then prev else Some (ar_event_hash (last rs))) [r])"
  by (induction sha i prev rs rule: verify_from.induct) (auto cong: sum.case_cong)

lemma verify_chain_snoc:
  "verify_chain sha (rs @ [r]) =
     (if rs = [] \<and> ar_prev_hash r \<noteq> GENESIS_HASH then Inl InvalidGenesis
      else case verify_chain sha rs of
        Inl e \<Rightarrow> Inl e
      | Inr _ \<Rightarrow>
          if \<not> verify_record sha r then Inl (TamperedRecord (length rs))
          else if ar_prev_hash r \<noteq> tip rs then Inl (BrokenChain (length rs))
          else if ar_seq r \<noteq> length rs then Inl (InvalidSequence (length rs) (length rs) (ar_seq r))
          else Inr ())"
  by (cases rs)
     (auto simp: verify_chain_def tip_def verify_from_snoc [of _ _ _ "_ # _", simplified] split: sum.splits)

lemma verify_chain_Nil [simp]: "verify_chain sha [] = Inr ()"
  by (simp add: verify_chain_def)

lemma accepted_snoc:
  "verify_chain sha (rs @ [r]) = Inr () \<longleftrightarrow>
     verify_chain sha rs = Inr () \<and> r = create_audit_record sha (ar_event_data r) (tip rs) (length rs)"
  by (cases r) (auto simp: verify_chain_snoc verify_record_def create_audit_record_def tip_def split: sum.splits)

lemma recorded_simps [simp]:
  "recorded sha [] = []"
  "recorded sha (ds @ [d]) = recorded sha ds @ [create_audit_record sha d (tip (recorded sha ds)) (length (recorded sha ds))]"
  by (simp_all add: recorded_def)

lemma recorded_accepted: "verify_chain sha (recorded sha ds) = Inr ()"
  by (induction ds rule: rev_induct) (auto simp: accepted_snoc create_audit_record_def)

lemma recorded_data: "map ar_event_data (recorded sha ds) = ds"
  by (induction ds rule: rev_induct) (auto simp: create_audit_record_def)

lemma accepted_is_recorded: "verify_chain sha rs = Inr () \<Longrightarrow> rs = recorded sha (map ar_event_data rs)"
  by (induction rs rule: rev_induct) (auto simp: accepted_snoc)

lemma accepted_take: "verify_chain sha rs = Inr () \<Longrightarrow> verify_chain sha (take n rs) = Inr ()"
proof (induction rs rule: rev_induct)
  case (snoc r rs)
  then show ?case by (cases "n \<le> length rs") (auto simp: accepted_snoc)
qed simp

lemma u64_le_bytes_inject:
  assumes "u64_le_bytes m = u64_le_bytes n" "m < 2 ^ 64" "n < 2 ^ 64"
  shows "m = n"
proof -
  have digit: "m div 256 ^ k mod 256 = n div 256 ^ k mod 256" if "k < 8" for k
    using assms(1) that by (auto simp: u64_le_bytes_def dest!: arg_cong [where f = of_char])
  have "m mod 256 ^ k = n mod 256 ^ k" if "k \<le> 8" for k
    using that
  proof (induction k)
    case (Suc k)
    then show ?case using digit [of k] by (simp add: mod_mult2_eq power_Suc2 del: power_Suc)
  qed simp
  from this [of 8] assms(2,3) show ?thesis by simp
qed

text \<open>Two accepted chains with the same tip have the same records, or show how to break the hash function.\<close>

definition hash_broken :: "(string \<Rightarrow> string) \<Rightarrow> audit_record list \<Rightarrow> audit_record list \<Rightarrow> bool" where
  "hash_broken sha rs rs' =
     ((\<exists>r\<in>set rs. \<exists>r'\<in>set rs'. hash_input r \<noteq> hash_input r' \<and> sha (hash_input r) = sha (hash_input r')) \<or>
      (\<exists>r\<in>set rs \<union> set rs'. hex_encode (sha (hash_input r)) = GENESIS_HASH))"

lemma hash_broken_mono:
  "hash_broken sha rs rs' \<Longrightarrow> hash_broken sha (rs @ [r]) (rs' @ [r'])"
  by (auto simp: hash_broken_def)

lemma created_hash: "ar_event_hash (create_audit_record sha d p n) = hex_encode (sha (hash_input (create_audit_record sha d p n)))"
  by (simp add: create_audit_record_def compute_event_hash_def hash_input_def)

lemma created_fields [simp]:
  "ar_event_data (create_audit_record sha d p n) = d" "ar_prev_hash (create_audit_record sha d p n) = p"
  "ar_seq (create_audit_record sha d p n) = n"
  by (simp_all add: create_audit_record_def)

lemma hash_input_inject:
  assumes "hash_input r = hash_input r'" "length (ar_event_data r) < 2 ^ 64" "length (ar_event_data r') < 2 ^ 64"
  shows "ar_event_data r = ar_event_data r' \<and> ar_prev_hash r = ar_prev_hash r'"
proof -
  have "length (u64_le_bytes n) = 8" for n by (simp add: u64_le_bytes_def)
  then have "u64_le_bytes (length (ar_event_data r)) = u64_le_bytes (length (ar_event_data r'))"
    and rest: "ar_event_data r @ ar_prev_hash r = ar_event_data r' @ ar_prev_hash r'"
    using assms(1) by (auto simp: hash_input_def)
  then have "length (ar_event_data r) = length (ar_event_data r')"
    using u64_le_bytes_inject assms(2,3) by blast
  with rest show ?thesis by simp
qed

lemma same_tip:
  assumes "verify_chain sha rs = Inr ()" "verify_chain sha rs' = Inr ()" "tip rs = tip rs'"
    and "\<forall>r\<in>set rs \<union> set rs'. length (ar_event_data r) < 2 ^ 64"
  shows "rs = rs' \<or> hash_broken sha rs rs'"
  using assms
proof (induction rs arbitrary: rs' rule: rev_induct)
  case Nil
  show ?case
  proof (cases rs' rule: rev_cases)
    case (snoc ss' s')
    with Nil(2) obtain d p n where "s' = create_audit_record sha d p n" by (auto simp: accepted_snoc)
    with Nil(3) snoc show ?thesis by (auto simp: tip_def hash_broken_def created_hash)
  qed simp
next
  case (snoc r rs)
  obtain d where r: "r = create_audit_record sha d (tip rs) (length rs)"
    using snoc.prems(1) by (auto simp: accepted_snoc)
  show ?case
  proof (cases rs' rule: rev_cases)
    case Nil
    with snoc.prems(3) r show ?thesis by (auto simp: tip_def hash_broken_def created_hash)
  next
    case (snoc ss' s')
    obtain d' where s': "s' = create_audit_record sha d' (tip ss') (length ss')"
      using snoc.prems(2) snoc by (auto simp: accepted_snoc)
    have same: "sha (hash_input r) = sha (hash_input s')"
      using snoc.prems(3) snoc by (simp add: tip_def r s' created_hash hex_encode_inject)
    show ?thesis
    proof (cases "hash_input r = hash_input s'")
      case True
      then have "d = d'" "tip rs = tip ss'"
        using hash_input_inject [OF True] snoc.prems(4) snoc by (auto simp: r s')
      moreover have "rs = ss' \<or> hash_broken sha rs ss'"
        using snoc.prems snoc \<open>tip rs = tip ss'\<close> by (intro snoc.IH) (auto simp: accepted_snoc)
      ultimately show ?thesis using hash_broken_mono snoc by (auto simp: r s')
    next
      case False
      with same snoc show ?thesis by (auto simp: hash_broken_def)
    qed
  qed
qed

section \<open>Facts about the event table\<close>

text \<open>The rows of an instance after its creation with the data \<open>d\<close> and the appends \<open>ds\<close>.\<close>

definition logged :: "(string \<Rightarrow> string) \<Rightarrow> (json \<Rightarrow> string) \<Rightarrow> audit_signer option \<Rightarrow> json \<Rightarrow> json list \<Rightarrow> event_row list" where
  "logged sha to_vec signer d ds =
     foldl (\<lambda>rows x. pg_append_event sha to_vec signer x rows) (pg_create_event_tx sha to_vec signer d) ds"

definition row_record :: "(json \<Rightarrow> string) \<Rightarrow> nat \<Rightarrow> event_row \<Rightarrow> audit_record" where
  "row_record to_vec seq row =
     \<lparr>ar_prev_hash = (case er_prev_hash row of None \<Rightarrow> GENESIS_HASH | Some h \<Rightarrow> h),
      ar_event_hash = (case er_event_hash row of None \<Rightarrow> [] | Some h \<Rightarrow> h),
      ar_event_data = to_vec (er_data row), ar_seq = seq\<rparr>"

definition sound_signer :: "audit_signer option \<Rightarrow> bool" where
  "sound_signer signer = (case signer of None \<Rightarrow> True | Some sg \<Rightarrow> (\<forall>x. snd sg x (fst sg x)))"

lemma load_audit_from_snoc:
  "load_audit_from to_vec signer seq (rows @ [row]) =
     (case load_audit_from to_vec signer seq rows of
        Inl e \<Rightarrow> Inl e
      | Inr rs \<Rightarrow> map_sum id (\<lambda>r. rs @ r) (load_audit_from to_vec signer (seq + length rows) [row]))"
  by (induction to_vec signer seq rows rule: load_audit_from.induct)
     (auto simp: Let_def split: sum.splits option.splits)

lemma load_audited_row:
  "sound_signer signer \<Longrightarrow> load_audit_from to_vec signer n [audited_row sha to_vec signer p d] =
     Inr [create_audit_record sha (to_vec d) p n]"
  by (auto simp: audited_row_def create_audit_record_def sound_signer_def Let_def split: option.splits)

lemma load_logged:
  assumes "sound_signer signer"
  shows "load_audit_records to_vec signer (logged sha to_vec signer d ds) = Inr (recorded sha (map to_vec (d # ds))) \<and>
    length (logged sha to_vec signer d ds) = length (d # ds) \<and>
    er_event_hash (last (logged sha to_vec signer d ds)) = Some (tip (recorded sha (map to_vec (d # ds))))"
proof (induction ds rule: rev_induct)
  case Nil
  have "recorded sha [to_vec d] = [create_audit_record sha (to_vec d) GENESIS_HASH 0]"
    using recorded_simps(2) [of sha "[]"] by (simp add: tip_def)
  then show ?case
    by (simp add: logged_def pg_create_event_tx_def load_audit_records_def load_audited_row [OF assms] tip_def
        del: load_audit_from.simps) (simp add: audited_row_def create_audit_record_def Let_def)
next
  case (snoc x ds)
  let ?rows = "logged sha to_vec signer d ds" and ?rs = "recorded sha (map to_vec (d # ds))"
  have rows: "?rows \<noteq> []" using snoc by auto
  have step: "logged sha to_vec signer d (ds @ [x]) = ?rows @ [audited_row sha to_vec signer (tip ?rs) x]"
    using snoc rows by (simp add: logged_def pg_append_event_def Let_def)
  have more: "recorded sha (map to_vec (d # ds @ [x])) = ?rs @ [create_audit_record sha (to_vec x) (tip ?rs) (length ?rs)]"
    using recorded_simps(2) [of sha "map to_vec (d # ds)"] by simp
  have "length ?rs = length (d # ds)" using recorded_data [of sha "map to_vec (d # ds)"] by (metis length_map)
  then have "load_audit_records to_vec signer (logged sha to_vec signer d (ds @ [x])) =
      Inr (?rs @ [create_audit_record sha (to_vec x) (tip ?rs) (length ?rs)])"
    using snoc by (simp add: step load_audit_records_def load_audit_from_snoc load_audited_row [OF assms]
        del: load_audit_from.simps)
  moreover have "er_event_hash (audited_row sha to_vec signer (tip ?rs) x) =
      Some (tip (?rs @ [create_audit_record sha (to_vec x) (tip ?rs) (length ?rs)]))"
    by (simp add: audited_row_def create_audit_record_def tip_def Let_def)
  ultimately show ?case using snoc more by (simp add: step)
qed

section \<open>Facts about Merkle trees\<close>

definition sibling_node :: "string list \<Rightarrow> nat \<Rightarrow> merkle_proof_node" where
  "sibling_node layer i = hd (merkle_path i [layer])"

lemma next_layer_nth:
  "i < length xs \<Longrightarrow> next_layer sha xs ! (i div 2) = proof_step sha (sibling_node xs i) (xs ! i)"
proof (induction sha xs arbitrary: i rule: next_layer.induct)
  case (3 sha a b xs)
  show ?case
  proof (cases "i < 2")
    case True
    then have "i = 0 \<or> i = 1" by auto
    then show ?thesis by (auto simp: sibling_node_def proof_step_def Let_def)
  next
    case False
    then obtain j where j: "i = Suc (Suc j)" by (metis add_2_eq_Suc le_Suc_ex not_less)
    moreover have "sibling_node (a # b # xs) i = sibling_node xs j"
      by (cases j) (auto simp: j sibling_node_def Let_def)
    ultimately show ?thesis using 3 by simp
  qed
qed (auto simp: sibling_node_def proof_step_def Let_def)

lemma layers_from_ne [simp]: "layers_from sha xs \<noteq> []"
  by (subst layers_from.simps) simp

lemma layers_path:
  "i < length xs \<Longrightarrow>
   fold (proof_step sha) (merkle_path i (butlast (layers_from sha xs))) (xs ! i) = hd (last (layers_from sha xs))"
proof (induction sha xs arbitrary: i rule: layers_from.induct)
  case (1 sha xs)
  show ?case
  proof (cases "length xs > 1")
    case True
    have half: "i div 2 < length (next_layer sha xs)" using 1(2) by simp
    have up: "merkle_path i (xs # ls) = sibling_node xs i # merkle_path (i div 2) ls" for ls
      by (simp add: sibling_node_def Let_def)
    show ?thesis
      using 1(1) [OF True half] True 1(2)
      by (subst (1 2) layers_from.simps) (simp add: up next_layer_nth del: merkle_path.simps)
  next
    case False
    with 1(2) obtain x where "xs = [x]" "i = 0" by (cases xs) auto
    then show ?thesis by (subst (1 2) layers_from.simps) simp
  qed
qed

lemma layers_last: "xs \<noteq> [] \<Longrightarrow> last (layers_from sha xs) \<noteq> []"
proof (induction sha xs rule: layers_from.induct)
  case (1 sha xs)
  then show ?case by (subst layers_from.simps) (cases xs; auto simp flip: length_greater_0_conv)
qed

lemma inclusion:
  assumes "i < length xs"
  shows "verify_proof sha (xs ! i) (merkle_proof (merkle_build sha xs) i) (merkle_root (merkle_build sha xs))"
proof -
  have ne: "xs \<noteq> []" and first: "hd (layers_from sha xs) = xs"
    using assms by (auto simp: layers_from.simps)
  have root_hash: "merkle_root (merkle_build sha xs) = hd (last (layers_from sha xs))"
    using ne layers_last [OF ne] by (simp add: merkle_root_def merkle_build_def)
  have "merkle_proof (merkle_build sha xs) i = merkle_path i (butlast (layers_from sha xs))"
    using assms ne first by (auto simp: merkle_proof_def merkle_build_def layers_from.simps [of sha xs])
  then show ?thesis by (simp add: verify_proof_def root_hash layers_path assms)
qed

section \<open>Properties\<close>

definition error_index :: "audit_chain_error \<Rightarrow> nat" where
  "error_index e = (case e of InvalidGenesis \<Rightarrow> 0 | TamperedRecord i \<Rightarrow> i | BrokenChain i \<Rightarrow> i | InvalidSequence i _ _ \<Rightarrow> i)"

lemma rejected_at:
  "verify_chain sha rs = Inl e \<Longrightarrow> error_index e < length rs \<and> verify_chain sha (take (error_index e) rs) = Inr () \<and>
     verify_chain sha (take (Suc (error_index e)) rs) = Inl e"
proof (induction rs rule: rev_induct)
  case (snoc r rs)
  show ?case
  proof (cases "verify_chain sha rs")
    case (Inl e')
    with snoc have "e' = e" by (auto simp: verify_chain_snoc split: if_splits)
    with snoc Inl show ?thesis by simp
  next
    case (Inr u)
    with snoc.prems have "error_index e = length rs"
      by (auto simp: verify_chain_snoc error_index_def split: if_splits)
    with Inr snoc.prems show ?thesis by simp
  qed
qed simp

text \<open>\<open>verify_chain\<close> accepts exactly the chains that \<open>create_audit_record\<close> makes of their event data. It
  answers an error for the first record that does not continue such a chain. A chain that lost its
  newest records is still accepted.\<close>

theorem audit_chain_exact:
  "(verify_chain sha rs = Inr () \<longleftrightarrow> rs = recorded sha (map ar_event_data rs)) \<and>
   (verify_chain sha rs = Inl e \<longrightarrow>
      error_index e < length rs \<and> verify_chain sha (take (error_index e) rs) = Inr () \<and>
      verify_chain sha (take (Suc (error_index e)) rs) = Inl e) \<and>
   (verify_chain sha rs = Inr () \<longrightarrow> verify_chain sha (take n rs) = Inr ())"
  using accepted_is_recorded recorded_accepted rejected_at accepted_take by metis

definition toy_sha :: "string \<Rightarrow> string" where
  "toy_sha s = [char_of (length s)]"

definition forged_chain :: "audit_record list" where
  "forged_chain = [create_audit_record toy_sha ''one'' GENESIS_HASH 0, create_audit_record toy_sha ''two'' [] 1]"

lemma verify_created [simp]: "verify_record sha (create_audit_record sha d p n)"
  by (simp add: verify_record_def create_audit_record_def)

lemma forged_rejected: "verify_chain toy_sha forged_chain = Inl (BrokenChain 1)"
proof -
  have "[] \<noteq> ar_event_hash (create_audit_record toy_sha d p n)" for d p n
    by (simp add: created_hash toy_sha_def)
  then show ?thesis by (auto simp: forged_chain_def verify_chain_def)
qed

theorem audit_chain_exact_witness:
  "verify_chain toy_sha forged_chain = Inl (BrokenChain 1) \<and>
   verify_chain toy_sha (take 1 forged_chain) = Inr () \<and> verify_chain toy_sha (take 2 forged_chain) = Inl (BrokenChain 1)"
  using audit_chain_exact [of toy_sha forged_chain "BrokenChain 1"] forged_rejected
  by (simp add: error_index_def numeral_2_eq_2)

text \<open>C32. Of two accepted chains with the same newest hash, either all records are the same or they contain
  an explicit collision of the hash function or a hash equal to the genesis hash.\<close>

theorem audit_tamper_evident:
  assumes "verify_chain sha rs = Inr ()" and "verify_chain sha rs' = Inr ()"
    and "ar_event_hash (last rs) = ar_event_hash (last rs')" and "rs \<noteq> []" and "rs' \<noteq> []"
    and "\<forall>r\<in>set rs \<union> set rs'. length (ar_event_data r) < 2 ^ 64"
  shows "rs = rs' \<or> hash_broken sha rs rs'"
  using same_tip [OF assms(1,2) _ assms(6)] assms(3-5) by (simp add: tip_def)

theorem audit_tamper_evident_witness:
  "recorded toy_sha [''one''] \<noteq> recorded toy_sha [''two''] \<and>
   hash_broken toy_sha (recorded toy_sha [''one'']) (recorded toy_sha [''two''])"
proof -
  have eqs: "recorded toy_sha [''one''] = [create_audit_record toy_sha ''one'' GENESIS_HASH 0]"
    "recorded toy_sha [''two''] = [create_audit_record toy_sha ''two'' GENESIS_HASH 0]"
    using recorded_simps(2) [of toy_sha "[]"] by (simp_all add: tip_def)
  have "length (u64_le_bytes n) = 8" for n by (simp add: u64_le_bytes_def)
  then have hash: "ar_event_hash (create_audit_record toy_sha ''one'' p 0) = ar_event_hash (create_audit_record toy_sha ''two'' p 0)"
    for p by (simp add: create_audit_record_def compute_event_hash_def toy_sha_def)
  have "recorded toy_sha [''one''] = recorded toy_sha [''two''] \<or>
      hash_broken toy_sha (recorded toy_sha [''one'']) (recorded toy_sha [''two''])"
    by (rule audit_tamper_evident) (simp_all add: recorded_accepted, simp_all add: eqs hash)
  then show ?thesis by (simp add: eqs create_audit_record_def)
qed

text \<open>The audit records loaded from the events an instance was created with and that were appended to
  it pass \<open>verify_chain\<close> and carry the serialised events in order, whatever the hash function, if the signer
  accepts its own signatures.\<close>

theorem audit_log_verifies:
  assumes "sound_signer signer"
  shows "\<exists>rs. load_audit_records to_vec signer (logged sha to_vec signer d ds) = Inr rs \<and>
    verify_chain sha rs = Inr () \<and> map ar_event_data rs = map to_vec (d # ds)"
  using load_logged [OF assms, of to_vec sha d ds] recorded_accepted recorded_data by metis

theorem audit_log_verifies_witness:
  "\<exists>rs. load_audit_records (\<lambda>_. ''event'') (Some (rev, \<lambda>x s. s = rev x))
      (logged toy_sha (\<lambda>_. ''event'') (Some (rev, \<lambda>x s. s = rev x)) JNull [JNull]) = Inr rs \<and>
    verify_chain toy_sha rs = Inr () \<and> map ar_event_data rs = [''event'', ''event'']"
  using audit_log_verifies [of "Some (rev, \<lambda>x s. s = rev x)" "\<lambda>_. ''event''" toy_sha JNull "[JNull]"]
  by (simp add: sound_signer_def)

text \<open>The inclusion proof of the Merkle tree verifies for every leaf of every non-empty list of hashes,
  so the endpoint answers a valid proof for every event it has and nothing for any other index.\<close>

theorem merkle_proof_verifies:
  "case get_audit_proof sha records i of
     None \<Rightarrow> length records \<le> i
   | Some (leaf, root_hash, proof, valid) \<Rightarrow>
       i < length records \<and> leaf = ar_event_hash (records ! i) \<and> valid \<and> verify_proof sha leaf proof root_hash \<and>
       root_hash = merkle_root (merkle_build sha (map ar_event_hash records))"
  using inclusion [of i "map ar_event_hash records" sha]
  by (auto simp: get_audit_proof_def Let_def)

end
