(* ===== verification/Rbac.thy ===== *)
theory Rbac
  imports Prelude
begin

text \<open>
  Role-based access control, \<open>crates/orbflow-core/src/rbac.rs\<close>: roles, scoped bindings, the decision
  \<open>has_permission\<close>, the check of a policy update, and the operations on a policy. The lemmas
  characterise the decision and show what a checked policy can grant. Error texts are reduced to their
  fixed part.
\<close>

section \<open>Roles and policies\<close>

datatype permission = View | Edit | Execute | Approve | Delete | ManageCredentials | Admin

definition all_permissions :: "permission list" where
  "all_permissions = [View, Edit, Execute, Approve, Delete, ManageCredentials, Admin]"

record role =
  r_id :: string
  r_name :: string
  r_permissions :: "permission list"
  r_description :: "string option"
  r_builtin :: bool

datatype policy_scope = GlobalScope | WorkflowScope string | NodeScope string string

record policy_binding =
  b_subject :: string
  b_role_id :: string
  b_scope :: policy_scope

record rbac_policy =
  p_roles :: "role list"
  p_bindings :: "policy_binding list"

definition BUILTIN_ROLE_IDS :: "string list" where
  "BUILTIN_ROLE_IDS = [''viewer'', ''editor'', ''operator'', ''admin'']"

definition rbac_new :: rbac_policy where
  "rbac_new = \<lparr>p_roles = [], p_bindings = []\<rparr>"

definition rbac_with_defaults :: rbac_policy where
  "rbac_with_defaults =
     \<lparr>p_roles =
        [\<lparr>r_id = ''viewer'', r_name = ''Viewer'', r_permissions = [View],
          r_description = Some ''Can view workflows and execution results'', r_builtin = True\<rparr>,
         \<lparr>r_id = ''editor'', r_name = ''Editor'', r_permissions = [View, Edit],
          r_description = Some ''Can view and edit workflow definitions'', r_builtin = True\<rparr>,
         \<lparr>r_id = ''operator'', r_name = ''Operator'', r_permissions = [View, Execute, Approve],
          r_description = Some ''Can view, execute workflows, and approve nodes'', r_builtin = True\<rparr>,
         \<lparr>r_id = ''admin'', r_name = ''Admin'', r_permissions = all_permissions,
          r_description = Some ''Full access to all operations'', r_builtin = True\<rparr>],
      p_bindings = []\<rparr>"

definition ensure_role :: "role \<Rightarrow> rbac_policy \<Rightarrow> rbac_policy" where
  "ensure_role builtin p =
     (if list_ex (\<lambda>r. r_id r = r_id builtin) (p_roles p) then p else p\<lparr>p_roles := builtin # p_roles p\<rparr>)"

definition ensure_defaults :: "rbac_policy \<Rightarrow> rbac_policy" where
  "ensure_defaults p = fold ensure_role (rev (p_roles rbac_with_defaults)) p"

definition get_role :: "rbac_policy \<Rightarrow> string \<Rightarrow> role option" where
  "get_role p role_id = find (\<lambda>r. r_id r = role_id) (p_roles p)"

section \<open>Decisions\<close>

definition binding_applies :: "string \<Rightarrow> string option \<Rightarrow> policy_binding \<Rightarrow> bool" where
  "binding_applies workflow_id node_id b = (case b_scope b of
       NodeScope wid nid \<Rightarrow> wid = workflow_id \<and> node_id = Some nid
     | WorkflowScope wid \<Rightarrow> wid = workflow_id
     | GlobalScope \<Rightarrow> True)"

definition specificity :: "policy_binding \<Rightarrow> nat" where
  "specificity b = (case b_scope b of NodeScope _ _ \<Rightarrow> 0 | WorkflowScope _ \<Rightarrow> 1 | GlobalScope \<Rightarrow> 2)"

definition role_grants :: "rbac_policy \<Rightarrow> permission \<Rightarrow> policy_binding \<Rightarrow> bool" where
  "role_grants p perm b = (case get_role p (b_role_id b) of
       None \<Rightarrow> False | Some r \<Rightarrow> perm \<in> set (r_permissions r))"

definition rbac_has_permission :: "rbac_policy \<Rightarrow> string \<Rightarrow> permission \<Rightarrow> string \<Rightarrow> string option \<Rightarrow> bool" where
  "rbac_has_permission p subject perm workflow_id node_id =
     list_ex (role_grants p perm)
       (sort_key specificity
         (filter (\<lambda>b. b_subject b = subject \<and> binding_applies workflow_id node_id b) (p_bindings p)))"

definition has_admin_binding :: "rbac_policy \<Rightarrow> bool" where
  "has_admin_binding p = list_ex (role_grants p Admin) (p_bindings p)"

definition effective_permissions :: "rbac_policy \<Rightarrow> string \<Rightarrow> string \<Rightarrow> string option \<Rightarrow> permission list" where
  "effective_permissions p subject workflow_id node_id =
     filter (\<lambda>perm. rbac_has_permission p subject perm workflow_id node_id) all_permissions"

section \<open>Updates\<close>

definition add_binding :: "rbac_policy \<Rightarrow> policy_binding \<Rightarrow> rbac_policy result" where
  "add_binding p b =
     (if get_role p (b_role_id b) = None
      then Inl (InvalidPolicy ''rbac: role does not exist; create the role before binding it'')
      else Inr (p\<lparr>p_bindings := p_bindings p @ [b]\<rparr>))"

text \<open>The loop over the builtin roles of the defaults.\<close>

fun check_builtin_roles :: "rbac_policy \<Rightarrow> role list \<Rightarrow> unit result" where
  "check_builtin_roles p [] = Inr ()"
| "check_builtin_roles p (d # ds) = (case get_role p (r_id d) of
       None \<Rightarrow> Inl (InvalidPolicy ''rbac: builtin role must not be removed'')
     | Some r \<Rightarrow>
         if \<not> r_builtin r then Inl (InvalidPolicy ''rbac: builtin role must have builtin = true'')
         else if r_permissions r \<noteq> r_permissions d
         then Inl (InvalidPolicy ''rbac: permissions for builtin role cannot be modified'')
         else check_builtin_roles p ds)"

text \<open>The pattern \<open>^[a-z0-9-]+$\<close>\<close>

definition role_id_char :: "char \<Rightarrow> bool" where
  "role_id_char c = (let n = of_char c :: nat in 97 \<le> n \<and> n \<le> 122 \<or> 48 \<le> n \<and> n \<le> 57 \<or> n = 45)"

definition role_id_regex :: "string \<Rightarrow> bool" where
  "role_id_regex s = (s \<noteq> [] \<and> list_all role_id_char s)"

text \<open>One round of the loop over all roles; \<open>seen\<close> is the set \<open>seen_ids\<close>.\<close>

definition check_role :: "role \<Rightarrow> string set \<Rightarrow> string set result" where
  "check_role r seen =
     (if r_id r \<notin> set BUILTIN_ROLE_IDS \<and> (r_id r = [] \<or> length (r_id r) > 64 \<or> \<not> role_id_regex (r_id r))
      then Inl (InvalidPolicy ''rbac: custom role ID must be 1-64 characters matching [a-z0-9-]'')
      else if r_id r \<notin> set BUILTIN_ROLE_IDS \<and> r_builtin r
      then Inl (InvalidPolicy ''rbac: custom role must not have builtin = true'')
      else if r_id r \<notin> set BUILTIN_ROLE_IDS \<and> Admin \<in> set (r_permissions r)
      then Inl (InvalidPolicy ''rbac: custom role may not include the Admin permission'')
      else if r_id r \<in> seen then Inl (InvalidPolicy ''rbac: duplicate role ID'')
      else if r_permissions r = [] then Inl (InvalidPolicy ''rbac: role must have at least one permission'')
      else Inr (insert (r_id r) seen))"

fun check_roles :: "role list \<Rightarrow> string set \<Rightarrow> string set result" where
  "check_roles [] seen = Inr seen"
| "check_roles (r # rs) seen = (case check_role r seen of Inl e \<Rightarrow> Inl e | Inr seen' \<Rightarrow> check_roles rs seen')"

fun check_bindings :: "string set \<Rightarrow> policy_binding list \<Rightarrow> unit result" where
  "check_bindings seen [] = Inr ()"
| "check_bindings seen (b # bs) =
     (if b_role_id b \<notin> seen then Inl (InvalidPolicy ''rbac: binding references non-existent role'')
      else check_bindings seen bs)"

definition validate_update :: "rbac_policy \<Rightarrow> unit result" where
  "validate_update p = (case check_builtin_roles p (p_roles rbac_with_defaults) of
       Inl e \<Rightarrow> Inl e
     | Inr _ \<Rightarrow> (case check_roles (p_roles p) {} of
         Inl e \<Rightarrow> Inl e
       | Inr seen \<Rightarrow> check_bindings seen (p_bindings p)))"

section \<open>Facts\<close>

lemma get_role_Some: "get_role p i = Some r \<Longrightarrow> r \<in> set (p_roles p) \<and> r_id r = i"
  by (auto simp: get_role_def find_Some_iff)

lemma get_role_None: "get_role p i = None \<longleftrightarrow> i \<notin> r_id ` set (p_roles p)"
  by (auto simp: get_role_def find_None_iff)

lemma has_permission_union:
  "rbac_has_permission p s perm w n \<longleftrightarrow>
     (\<exists>b\<in>set (p_bindings p). b_subject b = s \<and> binding_applies w n b \<and> role_grants p perm b)"
  by (auto simp: rbac_has_permission_def list_ex_iff)

lemma binding_applies_workflow: "binding_applies w None b \<longleftrightarrow> b_scope b = GlobalScope \<or> b_scope b = WorkflowScope w"
  by (cases "b_scope b") (auto simp: binding_applies_def)

lemma check_roles_Inr:
  "check_roles rs seen = Inr seen' \<longleftrightarrow>
     seen' = seen \<union> r_id ` set rs \<and> distinct (map r_id rs) \<and> seen \<inter> r_id ` set rs = {} \<and>
     (\<forall>r\<in>set rs. r_permissions r \<noteq> [] \<and>
        (r_id r \<notin> set BUILTIN_ROLE_IDS \<longrightarrow>
           length (r_id r) \<le> 64 \<and> role_id_regex (r_id r) \<and> \<not> r_builtin r \<and> Admin \<notin> set (r_permissions r)))"
proof (induction rs arbitrary: seen)
  case (Cons r rs)
  show ?case
    by (cases "r_id r \<in> set BUILTIN_ROLE_IDS") (auto simp: check_role_def Cons role_id_regex_def)
qed auto

lemma check_bindings_Inr: "check_bindings seen bs = Inr () \<longleftrightarrow> (\<forall>b\<in>set bs. b_role_id b \<in> seen)"
  by (induction bs) auto

lemma check_builtin_Inr:
  "check_builtin_roles p ds = Inr () \<longleftrightarrow>
     (\<forall>d\<in>set ds. \<exists>r. get_role p (r_id d) = Some r \<and> r_builtin r \<and> r_permissions r = r_permissions d)"
  by (induction ds) (auto split: option.splits)

section \<open>Checked policies\<close>

text \<open>What an accepted update promises, stated over the roles and bindings.\<close>

definition custom_role_ok :: "role \<Rightarrow> bool" where
  "custom_role_ok r \<longleftrightarrow> length (r_id r) \<le> 64 \<and> role_id_regex (r_id r) \<and> \<not> r_builtin r \<and> Admin \<notin> set (r_permissions r)"

definition policy_ok :: "rbac_policy \<Rightarrow> bool" where
  "policy_ok p \<longleftrightarrow>
     distinct (map r_id (p_roles p)) \<and>
     (\<forall>d\<in>set (p_roles rbac_with_defaults). \<exists>r\<in>set (p_roles p). r_id r = r_id d \<and> r_builtin r \<and> r_permissions r = r_permissions d) \<and>
     (\<forall>r\<in>set (p_roles p). r_permissions r \<noteq> [] \<and> (r_id r \<in> set BUILTIN_ROLE_IDS \<or> custom_role_ok r)) \<and>
     (\<forall>b\<in>set (p_bindings p). b_role_id b \<in> r_id ` set (p_roles p))"

lemma get_role_distinct:
  assumes "distinct (map r_id (p_roles p))"
  shows "get_role p i = Some r \<longleftrightarrow> r \<in> set (p_roles p) \<and> r_id r = i"
proof
  assume r: "r \<in> set (p_roles p) \<and> r_id r = i"
  then obtain r' where "get_role p i = Some r'" by (metis get_role_None image_eqI not_None_eq)
  with r show "get_role p i = Some r"
    using get_role_Some assms by (metis distinct_map inj_onD)
qed (rule get_role_Some)

lemma validate_update_Inr:
  "validate_update p = Inr () \<longleftrightarrow>
     check_builtin_roles p (p_roles rbac_with_defaults) = Inr () \<and>
     (\<exists>seen. check_roles (p_roles p) {} = Inr seen \<and> check_bindings seen (p_bindings p) = Inr ())"
  by (auto simp: validate_update_def split: sum.splits)

lemma validate_update_ok: "validate_update p = Inr () \<longleftrightarrow> policy_ok p"
proof (cases "distinct (map r_id (p_roles p))")
  case True
  then show ?thesis
    by (simp add: validate_update_Inr policy_ok_def custom_role_ok_def check_roles_Inr check_bindings_Inr
        check_builtin_Inr get_role_distinct Bex_def) blast
next
  case False
  then show ?thesis by (simp add: validate_update_Inr policy_ok_def check_roles_Inr)
qed

lemma defaults_ids: "r_id ` set (p_roles rbac_with_defaults) = set BUILTIN_ROLE_IDS"
  by (simp add: rbac_with_defaults_def BUILTIN_ROLE_IDS_def)

lemma admin_grants:
  assumes "policy_ok p"
  shows "role_grants p Admin b \<longleftrightarrow> b_role_id b = ''admin''"
proof -
  have dist: "distinct (map r_id (p_roles p))" using assms by (simp add: policy_ok_def)
  have builtin: "\<exists>d\<in>set (p_roles rbac_with_defaults). r_id d = r_id r \<and> r_permissions r = r_permissions d"
    if "r \<in> set (p_roles p)" "r_id r \<in> set BUILTIN_ROLE_IDS" for r
  proof -
    from that(2) obtain d where d: "d \<in> set (p_roles rbac_with_defaults)" "r_id d = r_id r"
      by (metis defaults_ids imageE)
    with assms obtain r' where "r' \<in> set (p_roles p)" "r_id r' = r_id d" "r_permissions r' = r_permissions d"
      by (auto simp: policy_ok_def)
    with d dist that(1) show ?thesis by (metis distinct_map inj_onD)
  qed
  have default: "r_id d = ''admin'' \<longleftrightarrow> Admin \<in> set (r_permissions d)" if "d \<in> set (p_roles rbac_with_defaults)" for d
    using that by (auto simp: rbac_with_defaults_def all_permissions_def)
  have only: "r_id r = ''admin'' \<longleftrightarrow> Admin \<in> set (r_permissions r)" if "r \<in> set (p_roles p)" for r
  proof (cases "r_id r \<in> set BUILTIN_ROLE_IDS")
    case True
    with builtin [OF that] default show ?thesis by metis
  next
    case False
    then have "r_id r \<noteq> ''admin''" by (auto simp: BUILTIN_ROLE_IDS_def)
    moreover have "Admin \<notin> set (r_permissions r)"
      using assms that False by (auto simp: policy_ok_def custom_role_ok_def)
    ultimately show ?thesis by simp
  qed
  have "''admin'' \<in> r_id ` set (p_roles p)"
    using assms by (auto simp: policy_ok_def rbac_with_defaults_def image_iff eq_commute [of "''admin''"])
  then show ?thesis
  proof (cases "get_role p (b_role_id b)")
    case None
    then have "b_role_id b \<noteq> ''admin''" using \<open>''admin'' \<in> r_id ` set (p_roles p)\<close> by (auto simp: get_role_None)
    with None show ?thesis by (simp add: role_grants_def)
  next
    case (Some r)
    with get_role_Some [OF Some] only [of r] show ?thesis by (simp add: role_grants_def)
  qed
qed

lemma ensure_defaults_ok: "policy_ok p \<Longrightarrow> ensure_defaults p = p"
  by (auto simp: policy_ok_def ensure_defaults_def ensure_role_def rbac_with_defaults_def list_ex_iff)

lemma ensure_role_ids: "r_id ` set (p_roles (ensure_role d p)) = insert (r_id d) (r_id ` set (p_roles p))"
proof (cases "list_ex (\<lambda>r. r_id r = r_id d) (p_roles p)")
  case True
  then have "r_id d \<in> r_id ` set (p_roles p)" by (auto simp: list_ex_iff image_iff Bex_def eq_commute)
  with True show ?thesis by (simp add: ensure_role_def insert_absorb)
qed (simp add: ensure_role_def)

lemma ensure_roles_ids: "r_id ` set (p_roles (fold ensure_role ds p)) = r_id ` set (p_roles p) \<union> r_id ` set ds"
  by (induction ds arbitrary: p) (simp_all add: ensure_role_ids)

lemma ensure_defaults_ids:
  "r_id ` set (p_roles (ensure_defaults p)) = r_id ` set (p_roles p) \<union> set BUILTIN_ROLE_IDS"
  by (simp add: ensure_defaults_def ensure_roles_ids defaults_ids)

text \<open>Roles that a policy defines keep their meaning when defaults are put in front of them.\<close>

lemma ensure_role_get: "get_role p i = Some r \<Longrightarrow> get_role (ensure_role d p) i = Some r"
  using get_role_None [of p i] by (auto simp: ensure_role_def get_role_def list_ex_iff)

lemma ensure_defaults_get: "get_role p i = Some r \<Longrightarrow> get_role (ensure_defaults p) i = Some r"
  by (simp add: ensure_defaults_def rbac_with_defaults_def ensure_role_get)

lemma add_binding_ok: "policy_ok p \<Longrightarrow> add_binding p b = Inr p' \<Longrightarrow> policy_ok p'"
  by (auto simp: add_binding_def policy_ok_def get_role_None split: if_splits)

lemma add_binding_grants:
  assumes "add_binding p b = Inr p'"
  shows "rbac_has_permission p' s perm w n \<longleftrightarrow>
    rbac_has_permission p s perm w n \<or> b_subject b = s \<and> binding_applies w n b \<and> role_grants p perm b"
proof -
  have "p' = p\<lparr>p_bindings := p_bindings p @ [b]\<rparr>" using assms by (auto simp: add_binding_def split: if_splits)
  moreover have "role_grants (p\<lparr>p_bindings := bs\<rparr>) = role_grants p" for bs
    by (simp add: fun_eq_iff role_grants_def get_role_def)
  ultimately show ?thesis by (auto simp: has_permission_union)
qed

section \<open>Properties\<close>

text \<open>A subject has a permission in a workflow and node exactly if one of its bindings at the node, the
  workflow or globally names a role with the permission, so a specific binding never restricts a more general one;
  \<open>effective_permissions\<close> lists exactly these permissions, and adding a binding only adds what it grants.\<close>

theorem has_permission_exact:
  "(rbac_has_permission p s perm w n \<longleftrightarrow>
      (\<exists>b\<in>set (p_bindings p). b_subject b = s \<and>
         (b_scope b = GlobalScope \<or> b_scope b = WorkflowScope w \<or> (\<exists>i. n = Some i \<and> b_scope b = NodeScope w i)) \<and>
         role_grants p perm b)) \<and>
   set (effective_permissions p s w n) = {perm. rbac_has_permission p s perm w n} \<and>
   (case add_binding p b of
      Inl e \<Rightarrow> get_role p (b_role_id b) = None
    | Inr p' \<Rightarrow> rbac_has_permission p' s perm w n =
        (rbac_has_permission p s perm w n \<or> b_subject b = s \<and> binding_applies w n b \<and> role_grants p perm b))"
proof (intro conjI)
  have "binding_applies w n b \<longleftrightarrow>
      b_scope b = GlobalScope \<or> b_scope b = WorkflowScope w \<or> (\<exists>i. n = Some i \<and> b_scope b = NodeScope w i)" for b
    by (auto simp: binding_applies_def split: policy_scope.splits)
  then show "rbac_has_permission p s perm w n \<longleftrightarrow>
      (\<exists>b\<in>set (p_bindings p). b_subject b = s \<and>
         (b_scope b = GlobalScope \<or> b_scope b = WorkflowScope w \<or> (\<exists>i. n = Some i \<and> b_scope b = NodeScope w i)) \<and>
         role_grants p perm b)"
    by (simp add: has_permission_union)
  have "perm \<in> set all_permissions" for perm by (cases perm) (simp_all add: all_permissions_def)
  then show "set (effective_permissions p s w n) = {perm. rbac_has_permission p s perm w n}"
    by (auto simp: effective_permissions_def)
  show "case add_binding p b of
      Inl e \<Rightarrow> get_role p (b_role_id b) = None
    | Inr p' \<Rightarrow> rbac_has_permission p' s perm w n =
        (rbac_has_permission p s perm w n \<or> b_subject b = s \<and> binding_applies w n b \<and> role_grants p perm b)"
    using add_binding_grants [of p b]
    by (cases "add_binding p b") (auto simp: add_binding_def split: if_splits)
qed

text \<open>An update is accepted exactly if the role ids are distinct, the builtin roles have their default
  permissions, every custom role is well-formed and without the Admin permission, and every binding names a role;
  then Admin is granted by bindings to the builtin role admin only.\<close>

theorem validate_update_exact:
  "(validate_update p = Inr () \<longleftrightarrow> policy_ok p) \<and>
   (validate_update p = Inr () \<longrightarrow>
      ensure_defaults p = p \<and>
      (\<forall>s w n. rbac_has_permission p s Admin w n \<longleftrightarrow>
         (\<exists>b\<in>set (p_bindings p). b_subject b = s \<and> binding_applies w n b \<and> b_role_id b = ''admin'')))"
  by (auto simp: validate_update_ok has_permission_union admin_grants ensure_defaults_ok)

theorem validate_update_exact_witness:
  "policy_ok rbac_with_defaults \<and> ensure_defaults rbac_with_defaults = rbac_with_defaults \<and>
   \<not> rbac_has_permission rbac_with_defaults ''eve'' Admin ''wf-1'' None"
proof -
  have "validate_update rbac_with_defaults = Inr ()" by code_simp
  moreover have "p_bindings rbac_with_defaults = []" by (simp add: rbac_with_defaults_def)
  ultimately show ?thesis using validate_update_exact [of rbac_with_defaults] by simp
qed

end
