(* ===== verification/Http.thy ===== *)
theory Http
  imports Rbac Pagination
begin

text \<open>
  The frame of the HTTP interface, \<open>crates/orbflow-httpapi/src\<close>: responses and the mapping of errors to
  them (\<open>errors.rs\<close>), authentication, the permission check and the limiter of workflow starts
  (\<open>middleware.rs\<close>), and paging (\<open>handlers.rs\<close>).

  An endpoint is a function from a state to a response and the state it leaves; \<open>'d\<close> is what it answers
  on success. A \<open>return\<close> in the middle of a handler is the branch that does not go on to the rest, which
  \<open>reject_when\<close>, \<open>permitted\<close> and \<open>on_result\<close> take as their last argument.
\<close>

section \<open>Responses\<close>

datatype 'd response = Data nat 'd | Fail nat string

primrec http_status :: "'d response \<Rightarrow> nat" where
  "http_status (Data st _) = st"
| "http_status (Fail st _) = st"

primrec is_data :: "'d response \<Rightarrow> bool" where
  "is_data (Data _ _) = True"
| "is_data (Fail _ _) = False"

definition error_to_status :: "orbflow_error \<Rightarrow> nat" where
  "error_to_status e =
     (if is_validation_error e then 400
      else case e of
        NotFound \<Rightarrow> 404
      | NodeNotFound \<Rightarrow> 404
      | Conflict \<Rightarrow> 409
      | AlreadyExists \<Rightarrow> 409
      | InvalidStatus \<Rightarrow> 422
      | CancelledError \<Rightarrow> 410
      | Timeout \<Rightarrow> 504
      | Forbidden _ \<Rightarrow> 403
      | BudgetExceeded _ \<Rightarrow> 429
      | _ \<Rightarrow> 500)"

definition sanitize_client_error :: "orbflow_error \<Rightarrow> string" where
  "sanitize_client_error e = (case e of
       Forbidden _ \<Rightarrow> ''orbflow: forbidden''
     | BudgetExceeded _ \<Rightarrow> ''orbflow: budget exceeded''
     | _ \<Rightarrow> error_str e)"

definition write_safe_error :: "orbflow_error \<Rightarrow> 'd response" where
  "write_safe_error e =
     (let st = error_to_status e in
      if 500 \<le> st \<and> st < 600 then Fail st ''internal server error''
      else Fail st (sanitize_client_error e))"

section \<open>Endpoints\<close>

type_synonym ('s, 'd) endpoint = "'s \<Rightarrow> 'd response \<times> 's"

definition answer :: "'d response \<Rightarrow> ('s, 'd) endpoint" where
  "answer r = (\<lambda>s. (r, s))"

definition reject_when :: "bool \<Rightarrow> 'd response \<Rightarrow> ('s, 'd) endpoint \<Rightarrow> ('s, 'd) endpoint" where
  "reject_when b r k = (if b then answer r else k)"

definition on_result :: "('s, 'a) act \<Rightarrow> ('a result \<Rightarrow> ('s, 'd) endpoint) \<Rightarrow> ('s, 'd) endpoint" where
  "on_result m k = (\<lambda>s. case m s of (r, s') \<Rightarrow> k r s')"

named_theorems endpoint_simps

lemmas endpoint_basics [endpoint_simps] = answer_def reject_when_def on_result_def

section \<open>Authentication\<close>

definition PUBLIC_PATHS :: "string list" where
  "PUBLIC_PATHS = [''/health'', ''/api/v1/health'', ''/node-types'', ''/api/v1/node-types'',
     ''/credential-types'', ''/api/v1/credential-types'']"

text \<open>A request, as far as the middleware reads it; a header is what \<open>to_str().ok()\<close> gives.\<close>

record http_request =
  rq_path :: string
  rq_authorization :: "string option"
  rq_user_id :: "string option"

definition user_id_char :: "char \<Rightarrow> bool" where
  "user_id_char c = (ascii_alnum c \<or> c = CHR ''-'' \<or> c = CHR ''_'' \<or> c = CHR ''.'')"

definition user_identity :: "http_request \<Rightarrow> bool \<Rightarrow> string" where
  "user_identity req trust_x_user_id =
     (if trust_x_user_id then
        (case rq_user_id req of
           None \<Rightarrow> ''anonymous''
         | Some v \<Rightarrow> if v \<noteq> [] \<and> length v \<le> 128 \<and> list_all user_id_char v then v else ''anonymous'')
      else ''anonymous'')"

text \<open>The identity the request goes on with, or \<open>None\<close> for the response 401.\<close>

definition auth_middleware :: "string option \<Rightarrow> bool \<Rightarrow> http_request \<Rightarrow> string option" where
  "auth_middleware token trust_x_user_id req =
     (case token of
        None \<Rightarrow> Some (user_identity req trust_x_user_id)
      | Some expected \<Rightarrow>
          if rq_path req \<in> set PUBLIC_PATHS then Some (user_identity req trust_x_user_id)
          else (case Option.bind (rq_authorization req) (strip_prefix ''Bearer '') of
              None \<Rightarrow> None
            | Some tok \<Rightarrow> if tok = expected then Some (user_identity req trust_x_user_id) else None))"

section \<open>Permissions\<close>

text \<open>The lock of the policy is never poisoned, since nothing panics while holding it.\<close>

definition http_has_permission ::
  "rbac_policy option \<Rightarrow> string \<Rightarrow> permission \<Rightarrow> string \<Rightarrow> string option \<Rightarrow> string option \<Rightarrow> bool" where
  "http_has_permission rbac user perm workflow_id node_id bootstrap_admin =
     (case rbac of
        None \<Rightarrow> True
      | Some policy \<Rightarrow>
          if p_bindings policy = [] then bootstrap_admin = Some user
          else rbac_has_permission policy user perm workflow_id node_id)"

definition check_permission ::
  "rbac_policy option \<Rightarrow> string \<Rightarrow> permission \<Rightarrow> string \<Rightarrow> string option \<Rightarrow> string option \<Rightarrow> 'd response option" where
  "check_permission rbac user perm workflow_id node_id bootstrap_admin =
     (if http_has_permission rbac user perm workflow_id node_id bootstrap_admin then None
      else Some (Fail 403 ''Forbidden: insufficient permissions''))"

text \<open>\<open>if let Err(resp) = check_permission(...) { return resp; }\<close>\<close>

definition permitted :: "'d response option \<Rightarrow> ('s, 'd) endpoint \<Rightarrow> ('s, 'd) endpoint" where
  "permitted refusal k = (case refusal of Some resp \<Rightarrow> answer resp | None \<Rightarrow> k)"

lemma permitted_check [endpoint_simps]:
  "permitted (check_permission rbac u perm w n ba) k =
     (if http_has_permission rbac u perm w n ba then k
      else answer (Fail 403 ''Forbidden: insufficient permissions''))"
  by (simp add: permitted_def check_permission_def)

section \<open>Callers\<close>

text \<open>The policy in force and the bootstrap administrator, and the caller.\<close>

record caller =
  ca_policy :: "rbac_policy option"
  ca_bootstrap :: "string option"
  ca_user :: string

definition may :: "caller \<Rightarrow> permission \<Rightarrow> string \<Rightarrow> string option \<Rightarrow> bool" where
  "may c perm wid nid = http_has_permission (ca_policy c) (ca_user c) perm wid nid (ca_bootstrap c)"

definition require :: "caller \<Rightarrow> permission \<Rightarrow> string \<Rightarrow> string option \<Rightarrow> ('w, 'd) endpoint \<Rightarrow> ('w, 'd) endpoint" where
  "require c perm wid nid k =
     permitted (check_permission (ca_policy c) (ca_user c) perm wid nid (ca_bootstrap c)) k"

lemma require_simp [endpoint_simps]:
  "require c perm wid nid k =
     (if may c perm wid nid then k else answer (Fail 403 ''Forbidden: insufficient permissions''))"
  by (simp add: require_def may_def permitted_check)

definition with_value :: "('w \<Rightarrow> 'a \<times> 'w) \<Rightarrow> ('a \<Rightarrow> ('w, 'd) endpoint) \<Rightarrow> ('w, 'd) endpoint" where
  "with_value f k = (\<lambda>w. case f w of (x, w') \<Rightarrow> k x w')"

declare with_value_def [endpoint_simps]

section \<open>Paging\<close>

record pagination_params =
  pp_offset :: "int option"
  pp_limit :: "int option"

definition to_list_options :: "pagination_params \<Rightarrow> list_options" where
  "to_list_options p =
     (let offset = max (case pp_offset p of None \<Rightarrow> 0 | Some x \<Rightarrow> x) 0;
          limit = (case pp_limit p of None \<Rightarrow> DEFAULT_PAGE_SIZE | Some x \<Rightarrow> x);
          limit = (if limit \<le> 0 then DEFAULT_PAGE_SIZE else limit);
          limit = (if limit > 100 then 100 else limit) in
      \<lparr>lo_offset = offset, lo_limit = limit\<rparr>)"

section \<open>The limiter of workflow starts\<close>

text \<open>
  \<open>StartRateLimiter::check\<close> on the map from workflows to the time of their last start, in milliseconds
  of the monotonic clock. A refusal is \<open>False\<close>.
\<close>

definition START_RATE_LIMIT_WINDOW :: int where
  "START_RATE_LIMIT_WINDOW = 2000"

definition EVICTION_THRESHOLD :: nat where
  "EVICTION_THRESHOLD = 10000"

definition limiter_check :: "string \<Rightarrow> int \<Rightarrow> (string, int) fmap \<Rightarrow> bool \<times> (string, int) fmap" where
  "limiter_check workflow_id now m0 =
     (let m = (if fcard (fmdom m0) > EVICTION_THRESHOLD
               then fmfilter (\<lambda>k. case fmlookup m0 k of None \<Rightarrow> False | Some t \<Rightarrow> now - t < START_RATE_LIMIT_WINDOW * 2) m0
               else m0) in
      if (case fmlookup m workflow_id of None \<Rightarrow> False | Some t \<Rightarrow> now - t < START_RATE_LIMIT_WINDOW)
      then (False, m)
      else (True, fmupd workflow_id now m))"

section \<open>The limiter counts exactly the recent starts\<close>

text \<open>The decisions over a sequence of start requests, and what they should be: a start is refused if an
  accepted start of the same workflow lies less than the window back.\<close>

fun limiter_run :: "(string, int) fmap \<Rightarrow> (string \<times> int) list \<Rightarrow> bool list" where
  "limiter_run m [] = []"
| "limiter_run m ((w, t) # rs) = (case limiter_check w t m of (ok, m') \<Rightarrow> ok # limiter_run m' rs)"

fun spaced_run :: "(string \<times> int) list \<Rightarrow> (string \<times> int) list \<Rightarrow> bool list" where
  "spaced_run accepted [] = []"
| "spaced_run accepted ((w, t) # rs) =
     (if list_ex (\<lambda>(w', t'). w' = w \<and> t - t' < START_RATE_LIMIT_WINDOW) accepted
      then False # spaced_run accepted rs
      else True # spaced_run ((w, t) # accepted) rs)"

definition limiter_inv :: "(string, int) fmap \<Rightarrow> (string \<times> int) list \<Rightarrow> int \<Rightarrow> bool" where
  "limiter_inv m acc now \<longleftrightarrow>
     (\<forall>w t. fmlookup m w = Some t \<longrightarrow> (w, t) \<in> set acc) \<and>
     (\<forall>w t. (w, t) \<in> set acc \<longrightarrow> t \<le> now \<and>
        (case fmlookup m w of None \<Rightarrow> START_RATE_LIMIT_WINDOW \<le> now - t | Some t' \<Rightarrow> t \<le> t'))"

lemma limiter_inv_later: "limiter_inv m acc now \<Longrightarrow> now \<le> now' \<Longrightarrow> limiter_inv m acc now'"
  by (fastforce simp: limiter_inv_def split: option.splits)

lemma limiter_inv_evict:
  "limiter_inv m acc now \<Longrightarrow>
   limiter_inv (fmfilter (\<lambda>k. case fmlookup m k of None \<Rightarrow> False | Some t \<Rightarrow> now - t < START_RATE_LIMIT_WINDOW * 2) m) acc now"
  by (fastforce simp: limiter_inv_def START_RATE_LIMIT_WINDOW_def split: option.splits)

lemma limiter_inv_decides:
  assumes "limiter_inv m acc now"
  shows "(case fmlookup m w of None \<Rightarrow> False | Some t \<Rightarrow> now - t < START_RATE_LIMIT_WINDOW) \<longleftrightarrow>
    list_ex (\<lambda>(w', t'). w' = w \<and> now - t' < START_RATE_LIMIT_WINDOW) acc"
  using assms by (fastforce simp: limiter_inv_def list_ex_iff split: option.splits)

lemma limiter_inv_accept: "limiter_inv m acc now \<Longrightarrow> limiter_inv (fmupd w now m) ((w, now) # acc) now"
  by (auto simp: limiter_inv_def)

lemma limiter_runs_spaced:
  assumes "limiter_inv m acc now" "sorted (now # map snd rs)"
  shows "limiter_run m rs = spaced_run acc rs"
  using assms
proof (induction rs arbitrary: m acc now)
  case (Cons r rs)
  obtain w t where r: "r = (w, t)" by force
  let ?m = "if fcard (fmdom m) > EVICTION_THRESHOLD
    then fmfilter (\<lambda>k. case fmlookup m k of None \<Rightarrow> False | Some t' \<Rightarrow> t - t' < START_RATE_LIMIT_WINDOW * 2) m else m"
  have inv: "limiter_inv ?m acc t"
    using Cons.prems r limiter_inv_later [of m acc now t] limiter_inv_evict by simp
  have rest: "sorted (t # map snd rs)" using Cons.prems(2) r by simp
  have "limiter_check w t m =
      (if list_ex (\<lambda>(w', t'). w' = w \<and> t - t' < START_RATE_LIMIT_WINDOW) acc
       then (False, ?m) else (True, fmupd w t ?m))"
    by (simp only: limiter_check_def Let_def limiter_inv_decides [OF inv])
  then show ?case
    using Cons.IH [OF inv rest] Cons.IH [OF limiter_inv_accept [OF inv] rest] by (simp add: r)
qed simp

section \<open>Properties\<close>

text \<open>Whatever it evicts in between, the limiter refuses a start exactly when it accepted one of the
  same workflow less than two seconds before.\<close>

theorem limiter_refines_window:
  assumes "sorted (map snd rs)"
  shows "limiter_run fmempty rs = spaced_run [] rs"
proof (cases rs)
  case (Cons r rs')
  have "limiter_inv fmempty [] (snd r)" by (simp add: limiter_inv_def)
  with Cons assms show ?thesis by (intro limiter_runs_spaced [of _ _ "snd r"]) auto
qed simp

theorem limiter_refines_window_witness:
  "limiter_run fmempty [(''a'', 0), (''b'', 5), (''a'', 1999), (''a'', 2000)] = [True, True, False, True]"
  by (subst limiter_refines_window) (simp_all add: START_RATE_LIMIT_WINDOW_def)

text \<open>With a token configured, a request beyond the public paths passes exactly with that bearer token.
  Its identity is anonymous, or a trusted header of at most 128 safe characters; without a policy every identity has
  every permission, and with a policy that binds nobody only the bootstrap administrator has any.\<close>

theorem auth_exact:
  "(auth_middleware token trust req \<noteq> None \<longleftrightarrow>
      token = None \<or> rq_path req \<in> set PUBLIC_PATHS \<or>
      (\<exists>tok. token = Some tok \<and> rq_authorization req = Some (''Bearer '' @ tok))) \<and>
   (case auth_middleware token trust req of
      None \<Rightarrow> True
    | Some u \<Rightarrow> u = ''anonymous'' \<or>
        trust \<and> rq_user_id req = Some u \<and> 1 \<le> length u \<and> length u \<le> 128 \<and> list_all user_id_char u) \<and>
   http_has_permission None u perm w n ba \<and>
   (http_has_permission (Some \<lparr>p_roles = roles, p_bindings = []\<rparr>) u perm w n ba \<longleftrightarrow> ba = Some u)"
proof (intro conjI)
  show "auth_middleware token trust req \<noteq> None \<longleftrightarrow>
      token = None \<or> rq_path req \<in> set PUBLIC_PATHS \<or>
      (\<exists>tok. token = Some tok \<and> rq_authorization req = Some (''Bearer '' @ tok))"
    by (cases "rq_authorization req")
       (auto simp: auth_middleware_def strip_prefix_def starts_with_iff split: option.split)
  have "user_identity req trust = ''anonymous'' \<or>
      trust \<and> rq_user_id req = Some (user_identity req trust) \<and> 1 \<le> length (user_identity req trust) \<and>
      length (user_identity req trust) \<le> 128 \<and> list_all user_id_char (user_identity req trust)"
    by (auto simp: user_identity_def Suc_le_eq split: option.split)
  then show "case auth_middleware token trust req of
      None \<Rightarrow> True
    | Some u \<Rightarrow> u = ''anonymous'' \<or>
        trust \<and> rq_user_id req = Some u \<and> 1 \<le> length u \<and> length u \<le> 128 \<and> list_all user_id_char u"
    by (auto simp: auth_middleware_def split: option.splits)
qed (simp_all add: http_has_permission_def)

text \<open>The paging of the interface asks for 1 to 100 items from a non-negative offset, and \<open>paginate\<close> never
  panics on it: it answers that page of the list.\<close>

theorem http_page:
  assumes "length xs < 2 ^ 62"
  shows "\<exists>o' l. to_list_options p = \<lparr>lo_offset = o', lo_limit = l\<rparr> \<and> 0 \<le> o' \<and> 1 \<le> l \<and> l \<le> 100 \<and>
    paginate xs (to_list_options p) = Some (take (nat l) (drop (nat o') xs))"
proof -
  obtain o' l where opts: "to_list_options p = \<lparr>lo_offset = o', lo_limit = l\<rparr>" "0 \<le> o'" "1 \<le> l" "l \<le> 100"
    by (auto simp: to_list_options_def Let_def DEFAULT_PAGE_SIZE_def)
  have n: "int (length xs) < 2 ^ 62" using assms by (metis of_nat_less_iff of_nat_numeral of_nat_power)
  have "paginate xs (to_list_options p) = Some (take (nat l) (drop (nat o') xs))"
  proof (cases "o' < 2 ^ 62")
    case True
    with opts n show ?thesis by (simp add: paginate_page)
  next
    case False
    with n have "min (max o' 0) (int (length xs)) = int (length xs)" and "length xs \<le> nat o'" by auto
    with opts n show ?thesis by (simp add: paginate_def Let_def)
  qed
  with opts show ?thesis by blast
qed

theorem http_page_witness:
  "\<exists>o' l. to_list_options \<lparr>pp_offset = Some 1, pp_limit = Some 500\<rparr> = \<lparr>lo_offset = o', lo_limit = l\<rparr> \<and>
     0 \<le> o' \<and> 1 \<le> l \<and> l \<le> 100 \<and>
     paginate [1, 2, 3 :: nat] (to_list_options \<lparr>pp_offset = Some 1, pp_limit = Some 500\<rparr>)
       = Some (take (nat l) (drop (nat o') [1, 2, 3]))"
  by (rule http_page) simp

end
