(* ===== verification/PolicyApi.thy ===== *)
theory PolicyApi
  imports Http
begin

text \<open>
  Management of the access policy: the endpoints of \<open>crates/orbflow-httpapi/src/handlers.rs\<close> that read and
  replace it, and its set-up and periodic reload in \<open>crates/orbflow-server/src/main.rs\<close>. The policy in
  memory is part of the state, the rest of the world an arbitrary type; \<open>save_policy\<close> and
  \<open>list_subjects\<close> are the optional \<open>RbacStore\<close>.
\<close>

record 'w policy_api =
  pa_policy :: "rbac_policy option"
  pa_world :: 'w

record 'w rbac_store =
  rb_save_policy :: "rbac_policy \<Rightarrow> ('w, unit) act"
  rb_list_subjects :: "('w, string list) act"

definition on_world :: "('w, 'a) act \<Rightarrow> ('w policy_api, 'a) act" where
  "on_world m = (\<lambda>s. case m (pa_world s) of (r, w) \<Rightarrow> (r, s\<lparr>pa_world := w\<rparr>))"

section \<open>Endpoints\<close>

text \<open>The guard all three endpoints begin with.\<close>

definition policy_guard :: "string option \<Rightarrow> string \<Rightarrow> ('w policy_api, 'd) endpoint \<Rightarrow> ('w policy_api, 'd) endpoint" where
  "policy_guard bootstrap_admin user k =
     (\<lambda>s. permitted (check_permission (pa_policy s) user Admin ''*'' None bootstrap_admin) k s)"

definition get_rbac_policy :: "string option \<Rightarrow> string \<Rightarrow> ('w policy_api, rbac_policy) endpoint" where
  "get_rbac_policy bootstrap_admin user =
     policy_guard bootstrap_admin user (\<lambda>s. case pa_policy s of
         Some policy \<Rightarrow> (Data 200 (ensure_defaults policy), s)
       | None \<Rightarrow> (Data 200 rbac_with_defaults, s))"

definition caller_retains_admin :: "string option \<Rightarrow> string \<Rightarrow> rbac_policy \<Rightarrow> bool" where
  "caller_retains_admin bootstrap_admin user p =
     (bootstrap_admin = Some user \<or>
      list_ex (\<lambda>b. b_subject b = user \<and> b_scope b = GlobalScope \<and> role_grants p Admin b) (p_bindings p))"

definition save_policy :: "'w rbac_store option \<Rightarrow> rbac_policy \<Rightarrow> ('w policy_api, unit) act" where
  "save_policy store p = (case store of None \<Rightarrow> ret () | Some st \<Rightarrow> on_world (rb_save_policy st p))"

definition update_rbac_policy ::
  "'w rbac_store option \<Rightarrow> string option \<Rightarrow> string \<Rightarrow> rbac_policy \<Rightarrow> ('w policy_api, rbac_policy) endpoint" where
  "update_rbac_policy store bootstrap_admin user new_policy =
     policy_guard bootstrap_admin user
     (reject_when (\<not> has_admin_binding new_policy) (Fail 422 ''Policy must contain at least one admin binding'')
     (case validate_update new_policy of
        Inl e \<Rightarrow> answer (Fail 422 (error_str e))
      | Inr _ \<Rightarrow>
          reject_when (\<not> caller_retains_admin bootstrap_admin user new_policy)
            (Fail 422 ''Policy update would remove your own admin access'')
          (\<lambda>s. case pa_policy s of
             None \<Rightarrow> (Fail 501 ''RBAC is not enabled on this server'', s)
           | Some _ \<Rightarrow> on_result (save_policy store new_policy) (\<lambda>r s'. case r of
                 Inl _ \<Rightarrow> (Fail 500 ''Failed to persist RBAC policy'', s')
               | Inr _ \<Rightarrow> (Data 200 new_policy, s'\<lparr>pa_policy := Some new_policy\<rparr>)) s)))"

text \<open>Sorted and without duplicates; of the in-memory policy through a hash set.\<close>

definition list_rbac_subjects :: "'w rbac_store option \<Rightarrow> string option \<Rightarrow> string \<Rightarrow> ('w policy_api, string list) endpoint" where
  "list_rbac_subjects store bootstrap_admin user =
     policy_guard bootstrap_admin user
     (case store of
        Some st \<Rightarrow> on_result (on_world (rb_list_subjects st)) (\<lambda>r. case r of
            Inr subjects \<Rightarrow> answer (Data 200 (remdups_adj (sort subjects)))
          | Inl _ \<Rightarrow> answer (Fail 500 ''Failed to list subjects''))
      | None \<Rightarrow> (\<lambda>s. case pa_policy s of
            Some policy \<Rightarrow> (Data 200 (sort (remdups (map b_subject (p_bindings policy)))), s)
          | None \<Rightarrow> (Data 200 [], s)))"

section \<open>Set-up and reload\<close>

definition setup_rbac :: "rbac_policy result \<Rightarrow> bool \<Rightarrow> rbac_policy option" where
  "setup_rbac loaded auth_enabled = (case loaded of
       Inl _ \<Rightarrow> Some rbac_with_defaults
     | Inr policy \<Rightarrow>
         if p_roles policy \<noteq> [] \<or> p_bindings policy \<noteq> [] then Some policy
         else if auth_enabled then Some rbac_with_defaults else None)"

text \<open>One tick of the background task, which runs only if the set-up gave a policy.\<close>

definition reload_rbac :: "rbac_policy result \<Rightarrow> bool \<Rightarrow> rbac_policy option \<Rightarrow> rbac_policy option" where
  "reload_rbac loaded auth_enabled current = (case current of
       None \<Rightarrow> None
     | Some old \<Rightarrow> (case loaded of
           Inl _ \<Rightarrow> Some old
         | Inr new \<Rightarrow>
             if auth_enabled \<and> p_roles new = [] \<and> p_bindings new = [] then Some rbac_with_defaults else Some new))"

section \<open>Facts\<close>

definition guard_passes :: "rbac_policy option \<Rightarrow> string \<Rightarrow> string option \<Rightarrow> bool" where
  "guard_passes policy user bootstrap_admin = http_has_permission policy user Admin ''*'' None bootstrap_admin"

lemma policy_guard_simp:
  "policy_guard ba user k s =
     (if guard_passes (pa_policy s) user ba then k s else (Fail 403 ''Forbidden: insufficient permissions'', s))"
  by (simp add: policy_guard_def guard_passes_def endpoint_simps)

lemma guard_passes_iff:
  "guard_passes policy user ba \<longleftrightarrow> (case policy of
       None \<Rightarrow> True
     | Some p \<Rightarrow> if p_bindings p = [] then ba = Some user
         else \<exists>b\<in>set (p_bindings p). b_subject b = user \<and> (b_scope b = GlobalScope \<or> b_scope b = WorkflowScope ''*'') \<and>
           role_grants p Admin b)"
  by (auto simp: guard_passes_def http_has_permission_def has_permission_union binding_applies_workflow
      split: option.split)

definition update_ok :: "string option \<Rightarrow> string \<Rightarrow> rbac_policy option \<Rightarrow> rbac_policy \<Rightarrow> bool" where
  "update_ok ba user current new \<longleftrightarrow>
     current \<noteq> None \<and> guard_passes current user ba \<and> has_admin_binding new \<and> policy_ok new \<and>
     caller_retains_admin ba user new"

lemma update_policy_cases:
  "update_rbac_policy store ba user new s =
     (if update_ok ba user (pa_policy s) new then
        (case save_policy store new s of
           (Inl _, s') \<Rightarrow> (Fail 500 ''Failed to persist RBAC policy'', s')
         | (Inr _, s') \<Rightarrow> (Data 200 new, s'\<lparr>pa_policy := Some new\<rparr>))
      else (fst (update_rbac_policy store ba user new s), s))"
  by (auto simp: update_rbac_policy_def update_ok_def policy_guard_simp endpoint_simps validate_update_ok [symmetric]
      split: sum.splits option.splits prod.splits)

lemma update_policy_refused:
  "\<not> update_ok ba user (pa_policy s) new \<Longrightarrow> http_status (fst (update_rbac_policy store ba user new s)) \<in> {403, 422, 501}"
  by (auto simp: update_rbac_policy_def update_ok_def policy_guard_simp endpoint_simps validate_update_ok [symmetric]
      split: sum.splits option.splits prod.splits)

lemma update_policy_guarded:
  "\<not> guard_passes (pa_policy s) user ba \<Longrightarrow>
   update_rbac_policy store ba user new s = (Fail 403 ''Forbidden: insufficient permissions'', s)"
  by (simp add: update_rbac_policy_def policy_guard_simp)

text \<open>The policies the server can have after any sequence of update requests.\<close>

definition policy_step :: "'w rbac_store option \<Rightarrow> string option \<Rightarrow> string \<times> rbac_policy \<Rightarrow> 'w policy_api \<Rightarrow> 'w policy_api" where
  "policy_step store ba req s = snd (update_rbac_policy store ba (fst req) (snd req) s)"

lemma save_policy_memory: "pa_policy (snd (save_policy store p s)) = pa_policy s"
  by (auto simp: save_policy_def on_world_def ret_def split: option.split prod.splits)

lemma save_policy_world:
  "pa_world (snd (save_policy store p s)) =
     (case store of None \<Rightarrow> pa_world s | Some st \<Rightarrow> snd (rb_save_policy st p (pa_world s)))"
  by (auto simp: save_policy_def on_world_def ret_def split: option.split prod.splits)

lemma policy_after:
  "pa_policy (snd (update_rbac_policy store ba user new s)) =
     (if http_status (fst (update_rbac_policy store ba user new s)) = 200 then Some new else pa_policy s)"
proof (cases "update_ok ba user (pa_policy s) new")
  case True
  then show ?thesis
    using save_policy_memory [of store new s] by (auto simp: update_policy_cases split: prod.splits sum.splits)
next
  case False
  then have "snd (update_rbac_policy store ba user new s) = s" by (metis snd_conv update_policy_cases)
  moreover have "http_status (fst (update_rbac_policy store ba user new s)) \<noteq> 200"
    using update_policy_refused [OF False, of store] by auto
  ultimately show ?thesis by simp
qed

lemma policy_step_memory:
  "pa_policy (policy_step store ba r s) =
     (if http_status (fst (update_rbac_policy store ba (fst r) (snd r) s)) = 200 then Some (snd r) else pa_policy s)"
  by (simp add: policy_step_def policy_after)

lemma accepted_update:
  "http_status (fst (update_rbac_policy store ba user new s)) = 200 \<Longrightarrow> update_ok ba user (pa_policy s) new"
  using update_policy_refused [of ba user s new store] by force

section \<open>Properties\<close>

text \<open>C23. An update is answered 200 exactly for a caller who passes the guard, with a well-formed policy that has an
  admin binding and keeps the caller's global admin role (unless it is the bootstrap administrator), on a server with a
  policy and a store that saves it. Then the new policy is the one in force; after any other answer the old one is. The
  store is called with the new policy when all checks are passed, and not otherwise. The guard is passed by an admin
  binding, global or to a workflow named by a single asterisk, and while there are no bindings by the bootstrap
  administrator. After any sequence of updates the policy is the initial one or a
  well-formed one with an admin binding.\<close>

theorem policy_updates_exact:
  "(http_status (fst (update_rbac_policy store ba user new s)) = 200 \<longleftrightarrow>
      update_ok ba user (pa_policy s) new \<and> (\<exists>s'. save_policy store new s = (Inr (), s'))) \<and>
   pa_policy (snd (update_rbac_policy store ba user new s)) =
     (if http_status (fst (update_rbac_policy store ba user new s)) = 200 then Some new else pa_policy s) \<and>
   pa_world (snd (update_rbac_policy store ba user new s)) =
     (if update_ok ba user (pa_policy s) new
      then (case store of None \<Rightarrow> pa_world s | Some st \<Rightarrow> snd (rb_save_policy st new (pa_world s)))
      else pa_world s) \<and>
   (guard_passes (Some p) user ba \<longleftrightarrow>
      (if p_bindings p = [] then ba = Some user
       else \<exists>b\<in>set (p_bindings p). b_subject b = user \<and>
         (b_scope b = GlobalScope \<or> b_scope b = WorkflowScope ''*'') \<and> role_grants p Admin b)) \<and>
   pa_policy (fold (policy_step store ba) reqs s) \<in>
     {pa_policy s} \<union> Some ` {q. policy_ok q \<and> has_admin_binding q}"
proof (intro conjI)
  show "http_status (fst (update_rbac_policy store ba user new s)) = 200 \<longleftrightarrow>
      update_ok ba user (pa_policy s) new \<and> (\<exists>s'. save_policy store new s = (Inr (), s'))"
    using update_policy_cases [of store ba user new s] update_policy_refused [of ba user s new store]
    by (cases "update_ok ba user (pa_policy s) new") (auto split: prod.splits sum.splits)
  show "pa_world (snd (update_rbac_policy store ba user new s)) =
     (if update_ok ba user (pa_policy s) new
      then (case store of None \<Rightarrow> pa_world s | Some st \<Rightarrow> snd (rb_save_policy st new (pa_world s)))
      else pa_world s)"
  proof (cases "update_ok ba user (pa_policy s) new")
    case True
    then show ?thesis
      using save_policy_world [of store new s] by (auto simp: update_policy_cases split: prod.splits sum.splits)
  next
    case False
    then have "snd (update_rbac_policy store ba user new s) = s" by (metis snd_conv update_policy_cases)
    with False show ?thesis by simp
  qed
  show "pa_policy (fold (policy_step store ba) reqs s) \<in>
     {pa_policy s} \<union> Some ` {q. policy_ok q \<and> has_admin_binding q}"
  proof (induction reqs rule: rev_induct)
    case (snoc r rs)
    let ?t = "fold (policy_step store ba) rs s"
    show ?case
    proof (cases "http_status (fst (update_rbac_policy store ba (fst r) (snd r) ?t)) = 200")
      case True
      with accepted_update [OF True] show ?thesis by (simp add: policy_step_memory update_ok_def)
    next
      case False
      with snoc show ?thesis by (simp add: policy_step_memory)
    qed
  qed simp
qed (simp_all add: guard_passes_iff policy_after)

text \<open>The bootstrap administrator can lock everybody out: a well-formed policy whose admin bindings are all
  limited to workflows or nodes is accepted from it, and from then on no user, itself included, can read or
  replace the policy.\<close>

theorem bootstrap_lockout:
  assumes "pa_policy s = Some p" and "p_bindings p = []" and "policy_ok new" and "has_admin_binding new"
    and "\<forall>b\<in>set (p_bindings new). b_role_id b = ''admin'' \<longrightarrow> b_scope b \<noteq> GlobalScope \<and> b_scope b \<noteq> WorkflowScope ''*''"
  shows "fst (update_rbac_policy None (Some ba) ba new s) = Data 200 new \<and>
    (\<forall>user newer. update_rbac_policy None (Some ba) user newer (snd (update_rbac_policy None (Some ba) ba new s)) =
       (Fail 403 ''Forbidden: insufficient permissions'', snd (update_rbac_policy None (Some ba) ba new s)))"
proof -
  have "update_ok (Some ba) ba (pa_policy s) new"
    using assms(1-4) by (simp add: update_ok_def guard_passes_iff caller_retains_admin_def)
  then have upd: "update_rbac_policy None (Some ba) ba new s = (Data 200 new, s\<lparr>pa_policy := Some new\<rparr>)"
    by (simp add: update_policy_cases(1) save_policy_def ret_def)
  have "p_bindings new \<noteq> []" using assms(4) by (auto simp: has_admin_binding_def)
  then have "\<not> guard_passes (Some new) user (Some ba)" for user
    using assms(5) by (auto simp: guard_passes_iff admin_grants [OF assms(3)])
  then show ?thesis unfolding upd by (simp add: update_policy_guarded)
qed

definition workflow_admin_only :: rbac_policy where
  "workflow_admin_only = rbac_with_defaults\<lparr>p_bindings :=
     [\<lparr>b_subject = ''root'', b_role_id = ''admin'', b_scope = WorkflowScope ''wf-1''\<rparr>]\<rparr>"

theorem bootstrap_lockout_witness:
  "fst (update_rbac_policy None (Some ''root'') ''root'' workflow_admin_only
      \<lparr>pa_policy = setup_rbac (Inr rbac_new) True, pa_world = ()\<rparr>) = Data 200 workflow_admin_only"
proof -
  have "validate_update workflow_admin_only = Inr ()" by code_simp
  then have ok: "policy_ok workflow_admin_only" by (simp add: validate_update_ok)
  have bs: "p_bindings workflow_admin_only =
      [\<lparr>b_subject = ''root'', b_role_id = ''admin'', b_scope = WorkflowScope ''wf-1''\<rparr>]"
    by (simp add: workflow_admin_only_def)
  have "fst (update_rbac_policy None (Some ''root'') ''root'' workflow_admin_only
        \<lparr>pa_policy = setup_rbac (Inr rbac_new) True, pa_world = ()\<rparr>) = Data 200 workflow_admin_only \<and> (\<forall>user newer.
      update_rbac_policy None (Some ''root'') user newer (snd (update_rbac_policy None (Some ''root'') ''root'' workflow_admin_only
        \<lparr>pa_policy = setup_rbac (Inr rbac_new) True, pa_world = ()\<rparr>)) = (Fail 403 ''Forbidden: insufficient permissions'',
      snd (update_rbac_policy None (Some ''root'') ''root'' workflow_admin_only
        \<lparr>pa_policy = setup_rbac (Inr rbac_new) True, pa_world = ()\<rparr>)))"
    by (rule bootstrap_lockout [where p = rbac_with_defaults])
       (simp_all add: setup_rbac_def rbac_new_def ok bs has_admin_binding_def admin_grants,
        simp_all add: rbac_with_defaults_def)
  then show ?thesis by blast
qed

text \<open>With authentication enabled there is always a policy; after an empty or failed load only the bootstrap
  administrator has any permission, and a reload never switches the enforcement off.\<close>

theorem setup_fails_closed:
  "(setup_rbac loaded True \<noteq> None) \<and>
   (loaded = Inr rbac_new \<or> loaded = Inl e \<longrightarrow>
      http_has_permission (setup_rbac loaded True) user perm w n ba = (ba = Some user)) \<and>
   (reload_rbac loaded' auth (setup_rbac loaded True) \<noteq> None)"
  by (auto simp: setup_rbac_def reload_rbac_def http_has_permission_def rbac_new_def rbac_with_defaults_def
      split: sum.split)

theorem setup_fails_closed_witness:
  "http_has_permission (setup_rbac (Inr rbac_new) True) ''root'' Admin ''*'' None (Some ''root'') \<and>
   \<not> http_has_permission (setup_rbac (Inr rbac_new) True) ''eve'' View ''wf-1'' None (Some ''root'')"
  using setup_fails_closed [of "Inr rbac_new" NotFound _ _ _ _ "Some ''root''"] by simp

end
