(* ===== verification/ReviewApi.thy ===== *)
theory ReviewApi
  imports Http MemStore
begin

text \<open>
  Change requests, the endpoints of \<open>crates/orbflow-httpapi/src/handlers.rs\<close> under
  \<open>/workflows/{id}/change-requests\<close>: create, list, get, update, submit, approve, reject, rebase, merge,
  comment and resolve. The store and the engine are ports on a world of an arbitrary type; serde's
  conversion of a JSON value to a workflow and back is \<open>rv_parse\<close> and \<open>rv_encode\<close>. A request runs
  without another between its calls; what happens when one does is stated separately for the update.
\<close>

section \<open>Ports and requests\<close>

record 'w review_env =
  rv_enabled :: bool
  rv_create :: "change_request \<Rightarrow> ('w, unit) act"
  rv_get :: "string \<Rightarrow> ('w, change_request) act"
  rv_list :: "string \<Rightarrow> change_request_status option \<Rightarrow> list_options \<Rightarrow> ('w, change_request list \<times> int) act"
  rv_update :: "change_request \<Rightarrow> ('w, unit) act"
  rv_merge :: "string \<Rightarrow> int \<Rightarrow> json \<Rightarrow> ('w, unit) act"
  rv_add_comment :: "string \<Rightarrow> review_comment \<Rightarrow> ('w, unit) act"
  rv_resolve_comment :: "string \<Rightarrow> string \<Rightarrow> bool \<Rightarrow> ('w, unit) act"
  rv_get_workflow :: "string \<Rightarrow> ('w, workflow) act"
  rv_refresh :: "(workflow \<Rightarrow> ('w, unit) act) option"
  rv_parse :: "json \<Rightarrow> string + workflow"
  rv_encode :: "workflow \<Rightarrow> json option"
  rv_now :: "'w \<Rightarrow> int \<times> 'w"
  rv_uuid :: "'w \<Rightarrow> string \<times> 'w"

record create_cr_body =
  cb_title :: string
  cb_description :: "string option"
  cb_definition :: json
  cb_base_version :: int
  cb_reviewers :: "string list"

record update_cr_body =
  ub_title :: "string option"
  ub_description :: "string option"
  ub_definition :: "json option"
  ub_reviewers :: "string list option"

record comment_body =
  mb_body :: string
  mb_node_id :: "string option"
  mb_edge_ref :: "(string \<times> string) option"

text \<open>What the endpoints answer on success.\<close>

datatype review_reply =
    RvRequest change_request
  | RvPage "change_request list" int int int
  | RvStatus string
  | RvUpToDate int
  | RvRebased int change_request_status
  | RvComment review_comment

type_synonym 'w review_endpoint = "('w, review_reply) endpoint"

definition enabled :: "'w review_env \<Rightarrow> 'w review_endpoint \<Rightarrow> 'w review_endpoint" where
  "enabled env k = reject_when (\<not> rv_enabled env) (Fail 404 ''change requests API not enabled'') k"

section \<open>Shared steps\<close>

text \<open>\<open>{:?}\<close> of a status\<close>

definition cr_status_debug :: "change_request_status \<Rightarrow> string" where
  "cr_status_debug st = (case st of CrDraft \<Rightarrow> ''Draft'' | CrOpen \<Rightarrow> ''Open'' | CrApproved \<Rightarrow> ''Approved''
     | CrRejected \<Rightarrow> ''Rejected'' | CrMerged \<Rightarrow> ''Merged'')"

definition normalize_change_request_definition :: "'w review_env \<Rightarrow> string \<Rightarrow> json \<Rightarrow> review_reply response + json" where
  "normalize_change_request_definition env wid d =
     (case rv_parse env d of
        Inl e \<Rightarrow> Inl (Fail 400 (''proposed_definition must be a backend workflow definition: '' @ e))
      | Inr w0 \<Rightarrow>
          if wf_id w0 \<noteq> [] \<and> wf_id w0 \<noteq> wid
          then Inl (Fail 400 ''proposed_definition workflow id does not match path'')
          else
            let w = (if wf_id w0 = [] then w0\<lparr>wf_id := wid\<rparr> else w0) in
            if blank (wf_name w) then Inl (Fail 400 ''proposed_definition workflow name must not be empty'')
            else (case rv_encode env w of
                None \<Rightarrow> Inl (Fail 500 ''failed to normalize proposed_definition'')
              | Some v \<Rightarrow> Inr v))"

definition normalized :: "'w review_env \<Rightarrow> string \<Rightarrow> json \<Rightarrow> (json \<Rightarrow> 'w review_endpoint) \<Rightarrow> 'w review_endpoint" where
  "normalized env wid d k = (case normalize_change_request_definition env wid d of
       Inl resp \<Rightarrow> answer resp | Inr v \<Rightarrow> k v)"

text \<open>The request is looked up and must belong to the workflow of the path.\<close>

definition load_cr :: "'w review_env \<Rightarrow> string \<Rightarrow> string \<Rightarrow> (change_request \<Rightarrow> 'w review_endpoint) \<Rightarrow> 'w review_endpoint" where
  "load_cr env wid i k = on_result (rv_get env i) (\<lambda>r. case r of
       Inl e \<Rightarrow> answer (if e = NotFound then Fail 404 ''change request not found''
                       else Fail 500 ''failed to get change request'')
     | Inr cr \<Rightarrow> reject_when (cr_workflow_id cr \<noteq> wid) (Fail 404 ''change request not found'') (k cr))"

definition store_cr :: "'w review_env \<Rightarrow> change_request \<Rightarrow> review_reply \<Rightarrow> string \<Rightarrow> 'w review_endpoint" where
  "store_cr env cr reply failure = on_result (rv_update env cr) (\<lambda>r. case r of
       Inr _ \<Rightarrow> answer (Data 200 reply) | Inl _ \<Rightarrow> answer (Fail 500 failure))"

definition check_title :: "string \<Rightarrow> 'w review_endpoint \<Rightarrow> 'w review_endpoint" where
  "check_title t k =
     reject_when (blank t) (Fail 400 ''title must not be empty'')
     (reject_when (length t > 200) (Fail 400 ''title must not exceed 200 characters'') k)"

definition check_description :: "string option \<Rightarrow> 'w review_endpoint \<Rightarrow> 'w review_endpoint" where
  "check_description d k =
     reject_when (case d of None \<Rightarrow> False | Some s \<Rightarrow> length s > 5000)
       (Fail 400 ''description must not exceed 5000 characters'') k"

section \<open>Endpoints\<close>

definition create_change_request :: "'w review_env \<Rightarrow> caller \<Rightarrow> string \<Rightarrow> create_cr_body \<Rightarrow> 'w review_endpoint" where
  "create_change_request env c wid body =
     require c Edit wid None
     (enabled env
     (check_title (cb_title body)
     (check_description (cb_description body)
     (normalized env wid (cb_definition body) (\<lambda>d.
      with_value (rv_uuid env) (\<lambda>i.
      with_value (rv_now env) (\<lambda>created.
      with_value (rv_now env) (\<lambda>updated.
        let cr = \<lparr>cr_id = i, cr_workflow_id = wid, cr_title = cb_title body, cr_description = cb_description body,
                  cr_proposed_definition = d, cr_base_version = cb_base_version body, cr_status = CrDraft,
                  cr_author = ca_user c, cr_reviewers = cb_reviewers body, cr_comments = [],
                  cr_created_at = created, cr_updated_at = updated\<rparr> in
        on_result (rv_create env cr) (\<lambda>r. case r of
            Inr _ \<Rightarrow> answer (Data 201 (RvRequest cr))
          | Inl _ \<Rightarrow> answer (Fail 500 ''failed to create change request''))))))))))"

definition list_change_requests ::
  "'w review_env \<Rightarrow> caller \<Rightarrow> string \<Rightarrow> pagination_params \<Rightarrow> string option \<Rightarrow> 'w review_endpoint" where
  "list_change_requests env c wid params status =
     require c View wid None
     (enabled env
     (let opts = to_list_options params in
      on_result (rv_list env wid (Option.bind status cr_status_parse) opts) (\<lambda>r. case r of
          Inr (crs, n) \<Rightarrow> answer (Data 200 (RvPage crs n (lo_offset opts) (lo_limit opts)))
        | Inl _ \<Rightarrow> answer (Fail 500 ''failed to list change requests''))))"

definition get_change_request :: "'w review_env \<Rightarrow> caller \<Rightarrow> string \<Rightarrow> string \<Rightarrow> 'w review_endpoint" where
  "get_change_request env c wid i =
     require c View wid None (enabled env (load_cr env wid i (\<lambda>cr. answer (Data 200 (RvRequest cr)))))"

text \<open>The part of the update that follows the look-up: it works on the request as it was read.\<close>

definition update_loaded :: "'w review_env \<Rightarrow> string \<Rightarrow> update_cr_body \<Rightarrow> change_request \<Rightarrow> 'w review_endpoint" where
  "update_loaded env wid body cr =
     (case ub_title body of None \<Rightarrow> id | Some t \<Rightarrow> check_title t)
     (check_description (ub_description body)
     (reject_when (cr_status cr \<noteq> CrDraft \<and> cr_status cr \<noteq> CrOpen)
        (Fail 409 (''cannot update a change request in status '' @ cr_status_debug (cr_status cr)))
     ((case ub_definition body of
         Some d \<Rightarrow> normalized env wid d
       | None \<Rightarrow> (\<lambda>k. k (cr_proposed_definition cr))) (\<lambda>d.
      with_value (rv_now env) (\<lambda>now.
        let updated = cr\<lparr>
              cr_title := (case ub_title body of None \<Rightarrow> cr_title cr | Some t \<Rightarrow> t),
              cr_description := (case ub_description body of None \<Rightarrow> cr_description cr | Some s \<Rightarrow> Some s),
              cr_proposed_definition := d,
              cr_reviewers := (case ub_reviewers body of None \<Rightarrow> cr_reviewers cr | Some rs \<Rightarrow> rs),
              cr_updated_at := now\<rparr> in
        store_cr env updated (RvRequest updated) ''failed to update change request'')))))"

definition update_change_request :: "'w review_env \<Rightarrow> caller \<Rightarrow> string \<Rightarrow> string \<Rightarrow> update_cr_body \<Rightarrow> 'w review_endpoint" where
  "update_change_request env c wid i body =
     require c Edit wid None (enabled env (load_cr env wid i (update_loaded env wid body)))"

definition submit_change_request :: "'w review_env \<Rightarrow> caller \<Rightarrow> string \<Rightarrow> string \<Rightarrow> 'w review_endpoint" where
  "submit_change_request env c wid i =
     require c Edit wid None (enabled env (load_cr env wid i (\<lambda>cr.
       reject_when (cr_status cr \<noteq> CrDraft) (Fail 409 ''change request is not in draft status'')
       (with_value (rv_now env) (\<lambda>now.
          store_cr env (cr\<lparr>cr_status := CrOpen, cr_updated_at := now\<rparr>) (RvStatus ''open'')
            ''failed to submit change request'')))))"

definition approve_change_request :: "'w review_env \<Rightarrow> caller \<Rightarrow> string \<Rightarrow> string \<Rightarrow> 'w review_endpoint" where
  "approve_change_request env c wid i =
     require c Approve wid None (enabled env (load_cr env wid i (\<lambda>cr.
       reject_when (cr_status cr \<noteq> CrOpen) (Fail 409 ''change request is not in open status'')
       (reject_when (cr_author cr = ca_user c) (Fail 403 ''cannot approve your own change request'')
       (with_value (rv_now env) (\<lambda>now.
          store_cr env (cr\<lparr>cr_status := CrApproved, cr_updated_at := now\<rparr>) (RvStatus ''approved'')
            ''failed to approve change request''))))))"

definition reject_change_request :: "'w review_env \<Rightarrow> caller \<Rightarrow> string \<Rightarrow> string \<Rightarrow> 'w review_endpoint" where
  "reject_change_request env c wid i =
     require c Approve wid None (enabled env (load_cr env wid i (\<lambda>cr.
       reject_when (cr_status cr \<noteq> CrOpen) (Fail 409 ''change request is not in open status'')
       (reject_when (cr_author cr = ca_user c) (Fail 403 ''cannot reject your own change request'')
       (with_value (rv_now env) (\<lambda>now.
          store_cr env (cr\<lparr>cr_status := CrRejected, cr_updated_at := now\<rparr>) (RvStatus ''rejected'')
            ''failed to reject change request''))))))"

definition rebase_change_request :: "'w review_env \<Rightarrow> caller \<Rightarrow> string \<Rightarrow> string \<Rightarrow> 'w review_endpoint" where
  "rebase_change_request env c wid i =
     require c Edit wid None (enabled env (load_cr env wid i (\<lambda>cr.
       reject_when (cr_status cr = CrMerged \<or> cr_status cr = CrRejected)
         (Fail 409 (''cannot rebase a change request in status '' @ cr_status_debug (cr_status cr)))
       (on_result (rv_get_workflow env wid) (\<lambda>r. case r of
            Inl e \<Rightarrow> answer (if e = NotFound then Fail 404 ''workflow not found'' else Fail 500 ''failed to get workflow'')
          | Inr w \<Rightarrow>
              if cr_base_version cr = wf_version w then answer (Data 200 (RvUpToDate (wf_version w)))
              else
                let new_status = (if cr_status cr = CrApproved then CrOpen else cr_status cr) in
                with_value (rv_now env) (\<lambda>now.
                  store_cr env (cr\<lparr>cr_base_version := wf_version w, cr_status := new_status, cr_updated_at := now\<rparr>)
                    (RvRebased (wf_version w) new_status) ''failed to rebase change request''))))))"

definition refresh_triggers :: "'w review_env \<Rightarrow> workflow \<Rightarrow> 'w review_endpoint \<Rightarrow> 'w review_endpoint" where
  "refresh_triggers env w k = (case rv_refresh env of
       None \<Rightarrow> k
     | Some refresh \<Rightarrow> on_result (refresh w) (\<lambda>r. case r of
           Inl _ \<Rightarrow> answer (Fail 500 ''failed to refresh workflow triggers'') | Inr _ \<Rightarrow> k))"

text \<open>The workflow is read back and its triggers are refreshed.\<close>

definition finish_merge :: "'w review_env \<Rightarrow> string \<Rightarrow> 'w review_endpoint" where
  "finish_merge env wid = on_result (rv_get_workflow env wid) (\<lambda>r. case r of
       Inl _ \<Rightarrow> answer (Fail 500 ''failed to reload merged workflow'')
     | Inr w \<Rightarrow> refresh_triggers env w (answer (Data 200 (RvStatus ''merged''))))"

definition merge_change_request :: "'w review_env \<Rightarrow> caller \<Rightarrow> string \<Rightarrow> string \<Rightarrow> 'w review_endpoint" where
  "merge_change_request env c wid i =
     require c Edit wid None (enabled env (load_cr env wid i (\<lambda>cr.
       reject_when (cr_status cr \<noteq> CrApproved) (Fail 409 ''change request is not in approved status'')
       (normalized env wid (cr_proposed_definition cr) (\<lambda>d.
          on_result (rv_merge env i (cr_base_version cr) d) (\<lambda>r. case r of
            Inl e \<Rightarrow> answer (case e of
                NotFound \<Rightarrow> Fail 404 ''workflow or change request not found''
              | Conflict \<Rightarrow> Fail 409 (''change request status changed during merge '' @ em_dash @ '' reload and retry'')
              | _ \<Rightarrow> Fail 500 ''failed to merge change request'')
          | Inr _ \<Rightarrow> finish_merge env wid))))))"

definition add_cr_comment :: "'w review_env \<Rightarrow> caller \<Rightarrow> string \<Rightarrow> string \<Rightarrow> comment_body \<Rightarrow> 'w review_endpoint" where
  "add_cr_comment env c wid i body =
     require c View wid None
     (enabled env
     (reject_when (blank (mb_body body)) (Fail 400 ''comment body must not be empty'')
     (reject_when (length (mb_body body) > 5000) (Fail 400 ''comment body must not exceed 5000 characters'')
     (load_cr env wid i (\<lambda>_.
      with_value (rv_uuid env) (\<lambda>ci.
      with_value (rv_now env) (\<lambda>now.
        let comment = \<lparr>rc_id = ci, rc_author = ca_user c, rc_body = mb_body body, rc_node_id = mb_node_id body,
                       rc_edge_ref = mb_edge_ref body, rc_resolved = False, rc_created_at = now\<rparr> in
        on_result (rv_add_comment env i comment) (\<lambda>r. case r of
            Inr _ \<Rightarrow> answer (Data 201 (RvComment comment))
          | Inl e \<Rightarrow> answer (if e = NotFound then Fail 404 ''change request not found''
                            else Fail 500 ''failed to add comment'')))))))))"

definition resolve_cr_comment :: "'w review_env \<Rightarrow> caller \<Rightarrow> string \<Rightarrow> string \<Rightarrow> string \<Rightarrow> 'w review_endpoint" where
  "resolve_cr_comment env c wid i ci =
     require c Edit wid None (enabled env (load_cr env wid i (\<lambda>_.
       on_result (rv_resolve_comment env i ci True) (\<lambda>r. case r of
           Inr _ \<Rightarrow> answer (Data 200 (RvStatus ''resolved''))
         | Inl e \<Rightarrow> answer (if e = NotFound then Fail 404 ''comment not found'' else Fail 500 ''failed to resolve comment'')))))"

section \<open>Requests\<close>

datatype review_request =
    CreateCr create_cr_body
  | ListCrs pagination_params "string option"
  | GetCr string
  | UpdateCr string update_cr_body
  | SubmitCr string
  | ApproveCr string
  | RejectCr string
  | RebaseCr string
  | MergeCr string
  | CommentCr string comment_body
  | ResolveCr string string

definition serve_review :: "'w review_env \<Rightarrow> caller \<Rightarrow> string \<Rightarrow> review_request \<Rightarrow> 'w review_endpoint" where
  "serve_review env c wid rq = (case rq of
       CreateCr body \<Rightarrow> create_change_request env c wid body
     | ListCrs params status \<Rightarrow> list_change_requests env c wid params status
     | GetCr i \<Rightarrow> get_change_request env c wid i
     | UpdateCr i body \<Rightarrow> update_change_request env c wid i body
     | SubmitCr i \<Rightarrow> submit_change_request env c wid i
     | ApproveCr i \<Rightarrow> approve_change_request env c wid i
     | RejectCr i \<Rightarrow> reject_change_request env c wid i
     | RebaseCr i \<Rightarrow> rebase_change_request env c wid i
     | MergeCr i \<Rightarrow> merge_change_request env c wid i
     | CommentCr i body \<Rightarrow> add_cr_comment env c wid i body
     | ResolveCr i ci \<Rightarrow> resolve_cr_comment env c wid i ci)"

text \<open>A sequence of requests, each of some caller to some workflow, one after the other.\<close>

definition serve_all :: "'w review_env \<Rightarrow> (caller \<times> string \<times> review_request) list \<Rightarrow> 'w \<Rightarrow> 'w" where
  "serve_all env rqs w = fold (\<lambda>(c, wid, rq) w. snd (serve_review env c wid rq w)) rqs w"

lemma serve_all_simps [simp]:
  "serve_all env [] w = w"
  "serve_all env (rqs @ [(c, wid, rq)]) w = snd (serve_review env c wid rq (serve_all env rqs w))"
  by (simp_all add: serve_all_def)

end
