(* ===== verification/Review.thy ===== *)
theory Review
  imports ReviewApi MemWorld
begin

text \<open>
  The review process behind the change-request endpoints (\<open>ReviewApi\<close>): what the endpoints need of a
  store is the locale \<open>review_store\<close>, every request is one step \<open>review_step\<close> of a request's life cycle, and
  the properties follow for the in-memory store, which provides the contract.
\<close>

section \<open>The life cycle\<close>

text \<open>A store has written \<open>cr\<close> over \<open>old\<close>. Columns that never change may be taken from either.\<close>

definition written :: "change_request \<Rightarrow> change_request \<Rightarrow> change_request \<Rightarrow> bool" where
  "written cr old new \<longleftrightarrow>
     cr_id new = cr_id old \<and> cr_title new = cr_title cr \<and> cr_description new = cr_description cr \<and>
     cr_proposed_definition new = cr_proposed_definition cr \<and> cr_status new = cr_status cr \<and>
     cr_reviewers new = cr_reviewers cr \<and>
     cr_workflow_id new \<in> {cr_workflow_id cr, cr_workflow_id old} \<and>
     cr_author new \<in> {cr_author cr, cr_author old} \<and>
     cr_created_at new \<in> {cr_created_at cr, cr_created_at old} \<and>
     cr_base_version new \<in> {cr_base_version cr, cr_base_version old}"

definition same_identity :: "change_request \<Rightarrow> change_request \<Rightarrow> bool" where
  "same_identity cr cr' \<longleftrightarrow>
     cr_id cr' = cr_id cr \<and> cr_workflow_id cr' = cr_workflow_id cr \<and> cr_author cr' = cr_author cr \<and>
     cr_created_at cr' = cr_created_at cr"

definition same_content :: "change_request \<Rightarrow> change_request \<Rightarrow> bool" where
  "same_content cr cr' \<longleftrightarrow>
     same_identity cr cr' \<and> cr_title cr' = cr_title cr \<and> cr_description cr' = cr_description cr \<and>
     cr_proposed_definition cr' = cr_proposed_definition cr \<and> cr_reviewers cr' = cr_reviewers cr"

definition editable :: "change_request_status \<Rightarrow> bool" where
  "editable st \<longleftrightarrow> st = CrDraft \<or> st = CrOpen"

definition closed_status :: "change_request_status \<Rightarrow> bool" where
  "closed_status st \<longleftrightarrow> st = CrMerged \<or> st = CrRejected"

text \<open>All but the comments.\<close>

definition uncommented :: "change_request \<Rightarrow> change_request" where
  "uncommented cr = cr\<lparr>cr_comments := []\<rparr>"

lemma uncommented_simp [simp]: "uncommented (cr\<lparr>cr_comments := cs\<rparr>) = uncommented cr"
  by (simp add: uncommented_def)

lemma own_comments [simp]: "\<exists>cs. cr = cr\<lparr>cr_comments := cs\<rparr>"
  by (rule exI [of _ "cr_comments cr"]) simp

lemma uncommented_fields:
  assumes "uncommented cr' = uncommented cr"
  shows "same_content cr cr'" "same_identity cr cr'" "cr_status cr' = cr_status cr"
  using assms by (cases cr; cases cr'; simp add: uncommented_def same_content_def same_identity_def)+

text \<open>What the request \<open>rq\<close> of the caller \<open>c\<close> may do to a change request that exists.\<close>

definition review_moves :: "caller \<Rightarrow> review_request \<Rightarrow> change_request \<Rightarrow> change_request \<Rightarrow> bool" where
  "review_moves c rq cr cr' =
     (let i = cr_id cr; wid = cr_workflow_id cr; st = cr_status cr; st' = cr_status cr' in
      case rq of
        UpdateCr j _ \<Rightarrow> j = i \<and> may c Edit wid None \<and> editable st \<and> st' = st \<and> same_identity cr cr'
      | SubmitCr j \<Rightarrow> j = i \<and> may c Edit wid None \<and> st = CrDraft \<and> st' = CrOpen \<and> same_content cr cr'
      | ApproveCr j \<Rightarrow> j = i \<and> may c Approve wid None \<and> ca_user c \<noteq> cr_author cr \<and> st = CrOpen \<and> st' = CrApproved \<and>
          same_content cr cr'
      | RejectCr j \<Rightarrow> j = i \<and> may c Approve wid None \<and> ca_user c \<noteq> cr_author cr \<and> st = CrOpen \<and> st' = CrRejected \<and>
          same_content cr cr'
      | RebaseCr j \<Rightarrow> j = i \<and> may c Edit wid None \<and> \<not> closed_status st \<and>
          st' = (if st = CrApproved then CrOpen else st) \<and> same_content cr cr'
      | MergeCr j \<Rightarrow> j = i \<and> may c Edit wid None \<and> st = CrApproved \<and> st' = CrMerged \<and> same_content cr cr'
      | CommentCr j _ \<Rightarrow> j = i \<and> may c View wid None \<and> uncommented cr' = uncommented cr
      | ResolveCr j _ \<Rightarrow> j = i \<and> may c Edit wid None \<and> uncommented cr' = uncommented cr
      | _ \<Rightarrow> False)"

definition review_step :: "caller \<Rightarrow> string \<Rightarrow> review_request \<Rightarrow> string \<Rightarrow> change_request option \<Rightarrow> change_request option \<Rightarrow> bool" where
  "review_step c wid rq i old new \<longleftrightarrow>
     new = old \<or>
     (case (old, new) of
        (None, Some cr) \<Rightarrow> (\<exists>body. rq = CreateCr body) \<and> may c Edit wid None \<and> cr_id cr = i \<and> cr_workflow_id cr = wid \<and>
          cr_status cr = CrDraft \<and> cr_author cr = ca_user c
      | (Some cr, Some cr') \<Rightarrow> cr_id cr = i \<and> cr_workflow_id cr = wid \<and> review_moves c rq cr cr'
      | _ \<Rightarrow> False)"

text \<open>What any number of steps keeps.\<close>

definition review_course :: "change_request \<Rightarrow> change_request \<Rightarrow> bool" where
  "review_course cr cr' \<longleftrightarrow>
     same_identity cr cr' \<and> (cr_status cr' = CrDraft \<longrightarrow> cr_status cr = CrDraft) \<and>
     (closed_status (cr_status cr) \<longrightarrow> uncommented cr' = uncommented cr)"

lemma review_course_refl: "review_course cr cr"
  by (simp add: review_course_def same_identity_def)

lemma review_course_trans:
  assumes "review_course a b" "review_course b c"
  shows "review_course a c"
proof -
  have "same_identity a c" using assms by (simp add: review_course_def same_identity_def)
  moreover have "uncommented c = uncommented a" if "closed_status (cr_status a)"
  proof -
    have "uncommented b = uncommented a" using assms(1) that by (simp add: review_course_def)
    from uncommented_fields(3) [OF this] that have "closed_status (cr_status b)" by simp
    then show ?thesis using assms(2) \<open>uncommented b = uncommented a\<close> by (simp add: review_course_def)
  qed
  ultimately show ?thesis using assms by (simp add: review_course_def)
qed

lemma review_moves_course: "review_moves c rq cr cr' \<Longrightarrow> review_course cr cr'"
  using uncommented_fields [of cr' cr]
  by (cases rq)
     (auto simp: review_moves_def review_course_def same_content_def editable_def closed_status_def Let_def split: if_splits)

lemma review_step_course:
  "review_step c wid rq i (Some cr) new \<Longrightarrow> \<exists>cr'. new = Some cr' \<and> review_course cr cr'"
  using review_course_refl [of cr] review_moves_course [of c rq cr]
  by (auto simp: review_step_def split: option.splits)

text \<open>A request that is approved or merged after a step was so before, with the same proposal, unless the step
  approved it.\<close>

definition settled_cr :: "change_request \<Rightarrow> bool" where
  "settled_cr cr \<longleftrightarrow> cr_status cr = CrApproved \<or> cr_status cr = CrMerged"

lemma review_moves_settled:
  assumes "review_moves c rq cr cr'" and "settled_cr cr'"
  shows "same_content cr cr' \<and>
    (settled_cr cr \<or> (rq = ApproveCr (cr_id cr) \<and> cr_status cr = CrOpen \<and> may c Approve (cr_workflow_id cr) None \<and>
       ca_user c \<noteq> cr_author cr))"
  using assms uncommented_fields [of cr' cr]
  by (cases rq) (auto simp: review_moves_def editable_def settled_cr_def Let_def split: if_splits)

lemma review_step_settled:
  assumes "review_step c wid rq i old (Some cr')" and "settled_cr cr'"
  shows "\<exists>cr. old = Some cr \<and> same_content cr cr' \<and>
    (settled_cr cr \<or> (rq = ApproveCr i \<and> cr_status cr = CrOpen \<and> may c Approve (cr_workflow_id cr') None \<and>
       ca_user c \<noteq> cr_author cr' \<and> wid = cr_workflow_id cr'))"
proof (cases old)
  case None
  with assms show ?thesis by (auto simp: review_step_def settled_cr_def)
next
  case (Some cr)
  show ?thesis
  proof (cases "cr' = cr")
    case True
    with assms(2) Some show ?thesis by (simp add: same_content_def same_identity_def)
  next
    case False
    with assms(1) Some have "cr_id cr = i" "cr_workflow_id cr = wid" and mv: "review_moves c rq cr cr'"
      by (auto simp: review_step_def)
    with review_moves_settled [OF mv assms(2)] Some show ?thesis by (auto simp: same_content_def same_identity_def)
  qed
qed

section \<open>The contract of a store of change requests\<close>

locale review_store =
  fixes env :: "'w review_env"
    and cr_of :: "'w \<Rightarrow> string \<Rightarrow> change_request option"
    and ok :: "'w \<Rightarrow> bool"
  assumes cr_id_of: "ok w \<Longrightarrow> cr_of w i = Some cr \<Longrightarrow> cr_id cr = i"
    and get_pure: "ok w \<Longrightarrow> ok (snd (rv_get env i w)) \<and> cr_of (snd (rv_get env i w)) = cr_of w"
    and get_found: "ok w \<Longrightarrow> fst (rv_get env i w) = Inr cr \<Longrightarrow> cr_of w i = Some cr"
    and create_ok: "ok w \<Longrightarrow> ok (snd (rv_create env cr w))"
    and create_new: "ok w \<Longrightarrow> fst (rv_create env cr w) = Inr () \<Longrightarrow> cr_comments cr = [] \<Longrightarrow>
      cr_of (snd (rv_create env cr w)) (cr_id cr) = Some cr"
    and create_other: "ok w \<Longrightarrow> j \<noteq> cr_id cr \<or> fst (rv_create env cr w) \<noteq> Inr () \<Longrightarrow>
      cr_of (snd (rv_create env cr w)) j = cr_of w j"
    and create_fresh: "ok w \<Longrightarrow> fst (rv_create env cr w) = Inr () \<Longrightarrow> cr_of w (cr_id cr) = None"
    and update_ok: "ok w \<Longrightarrow> ok (snd (rv_update env cr w))"
    and update_other: "ok w \<Longrightarrow> j \<noteq> cr_id cr \<or> fst (rv_update env cr w) \<noteq> Inr () \<Longrightarrow>
      cr_of (snd (rv_update env cr w)) j = cr_of w j"
    and update_written: "ok w \<Longrightarrow> fst (rv_update env cr w) = Inr () \<Longrightarrow>
      \<exists>old new. cr_of w (cr_id cr) = Some old \<and> cr_of (snd (rv_update env cr w)) (cr_id cr) = Some new \<and> written cr old new"
    and merge_ok: "ok w \<Longrightarrow> ok (snd (rv_merge env i v d w))"
    and merge_other: "ok w \<Longrightarrow> j \<noteq> i \<or> fst (rv_merge env i v d w) \<noteq> Inr () \<Longrightarrow>
      cr_of (snd (rv_merge env i v d w)) j = cr_of w j"
    and merge_merged: "ok w \<Longrightarrow> fst (rv_merge env i v d w) = Inr () \<Longrightarrow>
      \<exists>cr t. cr_of w i = Some cr \<and> cr_status cr = CrApproved \<and>
        cr_of (snd (rv_merge env i v d w)) i = Some (cr\<lparr>cr_status := CrMerged, cr_updated_at := t\<rparr>)"
    and comment_other: "ok w \<Longrightarrow> j \<noteq> i \<Longrightarrow> cr_of (snd (rv_add_comment env i cm w)) j = cr_of w j"
    and comment_only: "ok w \<Longrightarrow> ok (snd (rv_add_comment env i cm w)) \<and>
      (\<exists>cs. cr_of (snd (rv_add_comment env i cm w)) i = map_option (cr_comments_update (\<lambda>_. cs)) (cr_of w i))"
    and resolve_other: "ok w \<Longrightarrow> j \<noteq> i \<Longrightarrow> cr_of (snd (rv_resolve_comment env i ci b w)) j = cr_of w j"
    and resolve_only: "ok w \<Longrightarrow> ok (snd (rv_resolve_comment env i ci b w)) \<and>
      (\<exists>cs. cr_of (snd (rv_resolve_comment env i ci b w)) i = map_option (cr_comments_update (\<lambda>_. cs)) (cr_of w i))"
    and list_pure: "ok w \<Longrightarrow> ok (snd (rv_list env wid st opts w)) \<and> cr_of (snd (rv_list env wid st opts w)) = cr_of w"
    and workflow_pure: "ok w \<Longrightarrow> ok (snd (rv_get_workflow env wid w)) \<and> cr_of (snd (rv_get_workflow env wid w)) = cr_of w"
    and refresh_pure: "ok w \<Longrightarrow> rv_refresh env = Some f \<Longrightarrow> ok (snd (f wfl w)) \<and> cr_of (snd (f wfl w)) = cr_of w"
    and now_pure: "ok w \<Longrightarrow> ok (snd (rv_now env w)) \<and> cr_of (snd (rv_now env w)) = cr_of w"
    and uuid_pure: "ok w \<Longrightarrow> ok (snd (rv_uuid env w)) \<and> cr_of (snd (rv_uuid env w)) = cr_of w"
begin

text \<open>\<open>ensures old i m Q\<close>: run where the request \<open>i\<close> is \<open>old\<close>, the endpoint leaves it satisfying \<open>Q\<close>.\<close>

definition ensures :: "change_request option \<Rightarrow> string \<Rightarrow> ('w, 'd) endpoint \<Rightarrow> (change_request option \<Rightarrow> bool) \<Rightarrow> bool" where
  "ensures old i m Q \<longleftrightarrow> (\<forall>w. ok w \<longrightarrow> cr_of w i = old \<longrightarrow> ok (snd (m w)) \<and> Q (cr_of (snd (m w)) i))"

lemma ensures_answer: "Q old \<Longrightarrow> ensures old i (answer r) Q"
  by (simp add: ensures_def answer_def)

lemma ensures_reject: "Q old \<Longrightarrow> (\<not> b \<Longrightarrow> ensures old i k Q) \<Longrightarrow> ensures old i (reject_when b r k) Q"
  by (simp add: reject_when_def ensures_answer)

lemma ensures_require: "Q old \<Longrightarrow> (may c p wid n \<Longrightarrow> ensures old i k Q) \<Longrightarrow> ensures old i (require c p wid n k) Q"
  by (simp add: require_simp ensures_answer)

lemma ensures_enabled: "Q old \<Longrightarrow> ensures old i k Q \<Longrightarrow> ensures old i (enabled env k) Q"
  by (simp add: enabled_def ensures_reject)

lemma ensures_title: "Q old \<Longrightarrow> ensures old i k Q \<Longrightarrow> ensures old i (check_title t k) Q"
  by (simp add: check_title_def ensures_reject)

lemma ensures_description: "Q old \<Longrightarrow> ensures old i k Q \<Longrightarrow> ensures old i (check_description t k) Q"
  by (simp add: check_description_def ensures_reject)

lemma ensures_normalized: "Q old \<Longrightarrow> (\<And>v. ensures old i (k v) Q) \<Longrightarrow> ensures old i (normalized env wid d k) Q"
  by (simp add: normalized_def ensures_answer split: sum.split)

lemma ensures_now: "(\<And>x. ensures old i (k x) Q) \<Longrightarrow> ensures old i (with_value (rv_now env) k) Q"
  by (auto simp: ensures_def with_value_def split_beta now_pure)

lemma ensures_uuid: "(\<And>x. ensures old i (k x) Q) \<Longrightarrow> ensures old i (with_value (rv_uuid env) k) Q"
  by (auto simp: ensures_def with_value_def split_beta uuid_pure)

lemma ensures_pure:
  "(\<And>w. ok w \<Longrightarrow> ok (snd (m w)) \<and> cr_of (snd (m w)) = cr_of w) \<Longrightarrow> (\<And>r. ensures old i (k r) Q) \<Longrightarrow> ensures old i (on_result m k) Q"
  by (auto simp: ensures_def on_result_def split_beta)

lemma ensures_load:
  assumes "Q old"
    and "\<And>cr. cr_id cr = j \<Longrightarrow> cr_workflow_id cr = wid \<Longrightarrow> (i = j \<Longrightarrow> old = Some cr) \<Longrightarrow> ensures old i (k cr) Q"
  shows "ensures old i (load_cr env wid j k) Q"
  unfolding ensures_def
proof (intro allI impI)
  fix w assume ok: "ok w" and w: "cr_of w i = old"
  show "ok (snd (load_cr env wid j k w)) \<and> Q (cr_of (snd (load_cr env wid j k w)) i)"
  proof (cases "rv_get env j w")
    case (Pair r w')
    then have w': "cr_of w' i = old" and ok': "ok w'" using w ok get_pure [of w j] by simp_all
    show ?thesis
    proof (cases r)
      case (Inl e)
      with Pair w' ok' assms(1) show ?thesis by (simp add: load_cr_def on_result_def answer_def)
    next
      case (Inr cr)
      with Pair have cr: "cr_of w j = Some cr" using get_found [of w j] ok by simp
      then have "cr_id cr = j" by (rule cr_id_of [OF ok])
      then have "cr_workflow_id cr = wid \<Longrightarrow> ensures old i (k cr) Q" using assms(2) cr w by blast
      then show ?thesis using Pair Inr w' ok' assms(1)
        by (auto simp: load_cr_def on_result_def answer_def reject_when_def ensures_def)
    qed
  qed
qed

lemma ensures_store:
  assumes "Q old"
    and "\<And>o' new. cr_id cr = i \<Longrightarrow> old = Some o' \<Longrightarrow> written cr o' new \<Longrightarrow> Q (Some new)"
  shows "ensures old i (store_cr env cr reply failure) Q"
  unfolding ensures_def
proof (intro allI impI)
  fix w assume ok: "ok w" and w: "cr_of w i = old"
  have st: "snd (store_cr env cr reply failure w) = snd (rv_update env cr w)"
    by (auto simp: store_cr_def on_result_def answer_def split_beta split: sum.split)
  show "ok (snd (store_cr env cr reply failure w)) \<and> Q (cr_of (snd (store_cr env cr reply failure w)) i)"
    unfolding st using assms w update_ok [OF ok] update_other [OF ok, of i cr] update_written [OF ok, of cr] by (cases "fst (rv_update env cr w) = Inr ()"; cases "i = cr_id cr") auto
qed

lemma ensures_comment:
  assumes "Q old" and "\<And>o' cs. i = j \<Longrightarrow> old = Some o' \<Longrightarrow> Q (Some (o'\<lparr>cr_comments := cs\<rparr>))"
    and "\<And>r. \<exists>resp. k r = answer resp"
  shows "ensures old i (on_result (rv_add_comment env j cm) k) Q"
  unfolding ensures_def
proof (intro allI impI)
  fix w assume ok: "ok w" and w: "cr_of w i = old"
  have k: "snd (k r w') = w'" for r w' using assms(3) [of r] by (auto simp: answer_def)
  show "ok (snd (on_result (rv_add_comment env j cm) k w)) \<and> Q (cr_of (snd (on_result (rv_add_comment env j cm) k w)) i)"
    using assms(1,2) w comment_other [OF ok, of i j cm] comment_only [OF ok, of j cm]
    by (cases "i = j"; cases old) (auto simp: on_result_def split_beta k)
qed

lemma ensures_resolve:
  assumes "Q old" and "\<And>o' cs. i = j \<Longrightarrow> old = Some o' \<Longrightarrow> Q (Some (o'\<lparr>cr_comments := cs\<rparr>))"
    and "\<And>r. \<exists>resp. k r = answer resp"
  shows "ensures old i (on_result (rv_resolve_comment env j ci b) k) Q"
  unfolding ensures_def
proof (intro allI impI)
  fix w assume ok: "ok w" and w: "cr_of w i = old"
  have k: "snd (k r w') = w'" for r w' using assms(3) [of r] by (auto simp: answer_def)
  show "ok (snd (on_result (rv_resolve_comment env j ci b) k w)) \<and> Q (cr_of (snd (on_result (rv_resolve_comment env j ci b) k w)) i)"
    using assms(1,2) w resolve_other [OF ok, of i j ci b] resolve_only [OF ok, of j ci b]
    by (cases "i = j"; cases old) (auto simp: on_result_def split_beta k)
qed

lemma ensures_merge:
  assumes "Q old"
    and "\<And>cr t. i = j \<Longrightarrow> old = Some cr \<Longrightarrow> cr_status cr = CrApproved \<Longrightarrow> Q (Some (cr\<lparr>cr_status := CrMerged, cr_updated_at := t\<rparr>))"
    and "\<And>r w. ok w \<Longrightarrow> ok (snd (k r w)) \<and> cr_of (snd (k r w)) = cr_of w"
  shows "ensures old i (on_result (rv_merge env j v d) k) Q"
  unfolding ensures_def
proof (intro allI impI)
  fix w assume ok: "ok w" and "cr_of w i = old"
  then show "ok (snd (on_result (rv_merge env j v d) k w)) \<and> Q (cr_of (snd (on_result (rv_merge env j v d) k w)) i)"
    using assms merge_ok [OF ok, of j v d] merge_other [OF ok, of i j v d] merge_merged [OF ok, of j v d]
    by (cases "i = j"; cases "fst (rv_merge env j v d w) = Inr ()") (auto simp: on_result_def split_beta)
qed

lemma ensures_create:
  assumes "Q old" and "i = cr_id cr \<Longrightarrow> old = None \<Longrightarrow> Q (Some cr)" and "cr_comments cr = []"
    and "\<And>r. \<exists>resp. k r = answer resp"
  shows "ensures old i (on_result (rv_create env cr) k) Q"
  unfolding ensures_def
proof (intro allI impI)
  fix w assume ok: "ok w" and w: "cr_of w i = old"
  have k: "snd (k r w') = w'" for r w' using assms(4) [of r] by (auto simp: answer_def)
  show "ok (snd (on_result (rv_create env cr) k w)) \<and> Q (cr_of (snd (on_result (rv_create env cr) k w)) i)"
    using assms(1,2) w create_ok [OF ok, of cr] create_new [OF ok, of cr] create_other [OF ok, of i cr] create_fresh [OF ok, of cr] assms(3)
    by (cases "fst (rv_create env cr w) = Inr () \<and> i = cr_id cr") (auto simp: on_result_def split_beta k)
qed

lemma answers_only: "\<exists>resp. (case r of Inl e \<Rightarrow> answer (f e) | Inr x \<Rightarrow> answer (g x)) = answer resp"
  by (cases r) auto

lemma finish_merge_pure: "ok w \<Longrightarrow> ok (snd (finish_merge env wid w)) \<and> cr_of (snd (finish_merge env wid w)) = cr_of w"
  using workflow_pure [of w wid] refresh_pure
  by (auto simp: finish_merge_def refresh_triggers_def on_result_def answer_def split_beta split: sum.split option.split)

lemmas ensures_intros =
  ensures_require ensures_enabled ensures_title ensures_description ensures_normalized ensures_now ensures_uuid
  ensures_load ensures_store ensures_reject ensures_answer

section \<open>Every endpoint is a step\<close>

lemma step_refl: "review_step c wid rq i old old"
  by (simp add: review_step_def)

lemma create_step: "ensures old i (create_change_request env c wid body) (review_step c wid (CreateCr body) i old)"
  unfolding create_change_request_def Let_def
  by (intro ensures_intros ensures_create step_refl answers_only) (auto simp: review_step_def split: sum.split)

lemma list_step: "ensures old i (list_change_requests env c wid params st) (review_step c wid rq i old)"
  unfolding list_change_requests_def Let_def
  by (intro ensures_intros ensures_pure step_refl list_pure) (auto split: sum.split intro: ensures_answer step_refl)

lemma get_step: "ensures old i (get_change_request env c wid j) (review_step c wid rq i old)"
  unfolding get_change_request_def by (intro ensures_intros step_refl)

lemma update_loaded_step:
  assumes "may c Edit wid None" "cr_id cr = j" "cr_workflow_id cr = wid" "i = j \<Longrightarrow> old = Some cr"
  shows "ensures old i (update_loaded env wid body cr) (review_step c wid (UpdateCr j body) i old)"
proof -
  have store: "ensures old i (store_cr env cr' rp f) (review_step c wid (UpdateCr j body) i old)"
    if "editable (cr_status cr)" "same_identity cr cr'" "cr_status cr' = cr_status cr" for cr' rp f
    by (intro ensures_store step_refl)
       (use assms that in \<open>auto simp: review_step_def review_moves_def written_def same_identity_def Let_def\<close>)
  have tail: "ensures old i ((case ub_definition body of Some d \<Rightarrow> normalized env wid d | None \<Rightarrow> (\<lambda>k. k (cr_proposed_definition cr))) k)
      (review_step c wid (UpdateCr j body) i old)"
    if "\<And>d. ensures old i (k d) (review_step c wid (UpdateCr j body) i old)" for k
    using that by (cases "ub_definition body") (auto intro: ensures_intros step_refl)
  show ?thesis
    unfolding update_loaded_def Let_def
    by (cases "ub_title body")
       (auto intro!: ensures_require ensures_title ensures_description ensures_reject ensures_now tail store step_refl
          simp: editable_def same_identity_def)
qed

lemma update_step: "ensures old i (update_change_request env c wid j body) (review_step c wid (UpdateCr j body) i old)"
  unfolding update_change_request_def
  by (intro ensures_require ensures_enabled ensures_load step_refl update_loaded_step)

lemma submit_step: "ensures old i (submit_change_request env c wid j) (review_step c wid (SubmitCr j) i old)"
  unfolding submit_change_request_def
  by (intro ensures_intros step_refl)
     (auto simp: review_step_def review_moves_def written_def same_content_def same_identity_def Let_def)

lemma approve_step: "ensures old i (approve_change_request env c wid j) (review_step c wid (ApproveCr j) i old)"
  unfolding approve_change_request_def
  by (intro ensures_intros step_refl)
     (auto simp: review_step_def review_moves_def written_def same_content_def same_identity_def Let_def)

lemma reject_step: "ensures old i (reject_change_request env c wid j) (review_step c wid (RejectCr j) i old)"
  unfolding reject_change_request_def
  by (intro ensures_intros step_refl)
     (auto simp: review_step_def review_moves_def written_def same_content_def same_identity_def Let_def)

lemma rebase_step: "ensures old i (rebase_change_request env c wid j) (review_step c wid (RebaseCr j) i old)"
  unfolding rebase_change_request_def
proof (intro ensures_require ensures_enabled ensures_load ensures_reject ensures_pure workflow_pure step_refl)
  fix cr r
  assume cr: "may c Edit wid None" "cr_id cr = j" "cr_workflow_id cr = wid" "i = j \<Longrightarrow> old = Some cr"
    "\<not> (cr_status cr = CrMerged \<or> cr_status cr = CrRejected)"
  then have "ensures old i (store_cr env (cr\<lparr>cr_base_version := v, cr_status := (if cr_status cr = CrApproved then CrOpen else cr_status cr),
      cr_updated_at := now\<rparr>) rp f) (review_step c wid (RebaseCr j) i old)" for v now rp f
    by (intro ensures_store step_refl)
       (auto simp: review_step_def review_moves_def written_def same_content_def same_identity_def closed_status_def Let_def)
  then show "ensures old i (case r of
      Inl e \<Rightarrow> answer (if e = NotFound then Fail 404 ''workflow not found'' else Fail 500 ''failed to get workflow'')
    | Inr w \<Rightarrow> if cr_base_version cr = wf_version w then answer (Data 200 (RvUpToDate (wf_version w)))
        else let new_status = (if cr_status cr = CrApproved then CrOpen else cr_status cr) in
          with_value (rv_now env) (\<lambda>now.
            store_cr env (cr\<lparr>cr_base_version := wf_version w, cr_status := new_status, cr_updated_at := now\<rparr>)
              (RvRebased (wf_version w) new_status) ''failed to rebase change request'')) (review_step c wid (RebaseCr j) i old)"
    unfolding Let_def by (cases r) (auto intro!: ensures_answer ensures_now step_refl)
qed

lemma merge_step: "ensures old i (merge_change_request env c wid j) (review_step c wid (MergeCr j) i old)"
  unfolding merge_change_request_def
  by (intro ensures_require ensures_enabled ensures_load ensures_reject ensures_normalized step_refl, intro ensures_merge step_refl)
     (auto simp: review_step_def review_moves_def same_content_def same_identity_def Let_def finish_merge_pure answer_def
       split: sum.split)

lemma comment_step: "ensures old i (add_cr_comment env c wid j body) (review_step c wid (CommentCr j body) i old)"
  unfolding add_cr_comment_def Let_def
  by (intro ensures_intros ensures_comment step_refl answers_only)
     (auto simp: review_step_def review_moves_def Let_def split: sum.split)

lemma resolve_step: "ensures old i (resolve_cr_comment env c wid j ci) (review_step c wid (ResolveCr j ci) i old)"
  unfolding resolve_cr_comment_def
  by (intro ensures_intros ensures_resolve step_refl answers_only)
     (auto simp: review_step_def review_moves_def Let_def split: sum.split)

lemma serve_step:
  "ok w \<Longrightarrow> ok (snd (serve_review env c wid rq w)) \<and>
    review_step c wid rq i (cr_of w i) (cr_of (snd (serve_review env c wid rq w)) i)"
  using create_step list_step get_step update_step submit_step approve_step reject_step rebase_step merge_step
    comment_step resolve_step
  by (cases rq) (auto simp: serve_review_def ensures_def)

section \<open>Sequences of requests\<close>

lemma serve_all_ok: "ok w \<Longrightarrow> ok (serve_all env rqs w)"
proof (induction rqs rule: rev_induct)
  case (snoc r rqs)
  then show ?case using serve_step by (cases r) simp
qed simp

lemma lifecycle:
  assumes "ok w" "cr_of w i = Some cr"
  shows "\<exists>cr'. cr_of (serve_all env rqs w) i = Some cr' \<and> review_course cr cr'"
proof (induction rqs rule: rev_induct)
  case Nil
  show ?case using assms(2) review_course_refl by simp
next
  case (snoc r rqs)
  obtain c wid rq where r: "r = (c, wid, rq)" by (cases r)
  from snoc obtain mid where mid: "cr_of (serve_all env rqs w) i = Some mid" "review_course cr mid" by blast
  have "review_step c wid rq i (Some mid) (cr_of (serve_all env (rqs @ [r]) w) i)"
    using serve_step [OF serve_all_ok [OF assms(1)], of c wid rq rqs i] mid(1) by (simp add: r)
  from review_step_course [OF this] show ?case using mid(2) review_course_trans by blast
qed

lemma settled_was_approved:
  assumes "ok w" and "\<And>cr. cr_of w i = Some cr \<Longrightarrow> \<not> settled_cr cr"
    and "cr_of (serve_all env rqs w) i = Some cr'" and "settled_cr cr'"
  shows "\<exists>pre c post cr. rqs = pre @ (c, cr_workflow_id cr', ApproveCr i) # post \<and>
    may c Approve (cr_workflow_id cr') None \<and> ca_user c \<noteq> cr_author cr' \<and>
    cr_of (serve_all env pre w) i = Some cr \<and> cr_status cr = CrOpen \<and>
    cr_proposed_definition cr = cr_proposed_definition cr'"
  using assms(3,4)
proof (induction rqs arbitrary: cr' rule: rev_induct)
  case Nil
  then show ?case using assms(2) by simp
next
  case (snoc r rqs)
  obtain c wid rq where r: "r = (c, wid, rq)" by (cases r)
  have "review_step c wid rq i (cr_of (serve_all env rqs w) i) (Some cr')"
    using serve_step [OF serve_all_ok [OF assms(1)], of c wid rq rqs i] snoc.prems(1) by (simp add: r)
  from review_step_settled [OF this snoc.prems(2)] obtain cr where
    cr: "cr_of (serve_all env rqs w) i = Some cr" "same_content cr cr'" and
    how: "settled_cr cr \<or> (rq = ApproveCr i \<and> cr_status cr = CrOpen \<and> may c Approve (cr_workflow_id cr') None \<and>
      ca_user c \<noteq> cr_author cr' \<and> wid = cr_workflow_id cr')" by blast
  have same: "cr_workflow_id cr' = cr_workflow_id cr" "cr_author cr' = cr_author cr"
      "cr_proposed_definition cr' = cr_proposed_definition cr"
    using cr(2) by (simp_all add: same_content_def same_identity_def)
  show ?case
  proof (cases "settled_cr cr")
    case True
    from snoc.IH [OF cr(1) True] obtain pre c' post cr0 where
      "rqs = pre @ (c', cr_workflow_id cr, ApproveCr i) # post" "may c' Approve (cr_workflow_id cr) None"
      "ca_user c' \<noteq> cr_author cr" "cr_of (serve_all env pre w) i = Some cr0" "cr_status cr0 = CrOpen"
      "cr_proposed_definition cr0 = cr_proposed_definition cr" by blast
    then show ?thesis using same
      by - (rule exI [of _ pre], rule exI [of _ c'], rule exI [of _ "post @ [r]"], rule exI [of _ cr0], simp)
  next
    case False
    with how cr(1) same show ?thesis
      by - (rule exI [of _ rqs], rule exI [of _ c], rule exI [of _ "[]"], rule exI [of _ cr], simp add: r)
  qed
qed

end

end
