(* ===== verification/ReviewRuns.thy ===== *)
theory ReviewRuns
  imports Review Validate
begin

text \<open>
  The review process on the in-memory store: the store provides the contract \<open>review_store\<close>, and the
  properties of sequences of requests, of the merge and of what the process lets through.
\<close>

section \<open>The in-memory store behind the endpoints\<close>

text \<open>\<open>parse\<close> and \<open>encode\<close> are serde's conversions of a workflow, \<open>pn\<close> and \<open>pe\<close> those of node and edge lists.
  A panic of \<open>paginate\<close>, which these endpoints never cause, would be an error.\<close>

definition mem_review_env ::
  "(json \<Rightarrow> string + workflow) \<Rightarrow> (workflow \<Rightarrow> json option) \<Rightarrow> (json \<Rightarrow> wf_node list option) \<Rightarrow> (json \<Rightarrow> edge list option) \<Rightarrow>
   mem_world review_env" where
  "mem_review_env parse encode pn pe =
     \<lparr>rv_enabled = True,
      rv_create = (\<lambda>cr. on_store (ms_create_change_request cr)),
      rv_get = (\<lambda>i. on_store (ms_get_change_request i)),
      rv_list = (\<lambda>wid st opts. on_store (\<lambda>s. case ms_list_change_requests wid st opts s of
          None \<Rightarrow> (Inl (Internal ''panic''), s) | Some r \<Rightarrow> (Inr r, s))),
      rv_update = (\<lambda>cr. on_store (ms_update_change_request cr)),
      rv_merge = (\<lambda>i v d w. on_store (ms_merge_change_request pn pe (mw_clock w) i v d) w),
      rv_add_comment = (\<lambda>i c. on_store (ms_add_comment i c)),
      rv_resolve_comment = (\<lambda>i ci b. on_store (ms_resolve_comment i ci b)),
      rv_get_workflow = (\<lambda>i. on_store (ms_get_workflow i)),
      rv_refresh = None, rv_parse = parse, rv_encode = encode,
      rv_now = ee_now mem_env, rv_uuid = ee_uuid mem_env\<rparr>"

definition mem_cr :: "mem_world \<Rightarrow> string \<Rightarrow> change_request option" where
  "mem_cr w = fmlookup (ms_change_requests (mw_store w))"

text \<open>Change requests are stored under their ids.\<close>

definition keyed :: "mem_world \<Rightarrow> bool" where
  "keyed w \<longleftrightarrow> (\<forall>i cr. mem_cr w i = Some cr \<longrightarrow> cr_id cr = i)"

lemma mem_review_simps [simp]:
  "rv_enabled (mem_review_env pa en pn pe) = True"
  "rv_get (mem_review_env pa en pn pe) i = on_store (ms_get_change_request i)"
  "rv_update (mem_review_env pa en pn pe) cr = on_store (ms_update_change_request cr)"
  "rv_merge (mem_review_env pa en pn pe) i v d w = on_store (ms_merge_change_request pn pe (mw_clock w) i v d) w"
  "rv_get_workflow (mem_review_env pa en pn pe) i = on_store (ms_get_workflow i)"
  "rv_refresh (mem_review_env pa en pn pe) = None"
  "rv_now (mem_review_env pa en pn pe) w = (mw_clock w, w\<lparr>mw_clock := mw_clock w + 1\<rparr>)"
  "rv_parse (mem_review_env pa en pn pe) = pa" "rv_encode (mem_review_env pa en pn pe) = en"
  by (simp_all add: mem_review_env_def)

lemma mem_cr_pure:
  "mem_cr (snd (on_store m w)) = fmlookup (ms_change_requests (snd (m (mw_store w))))"
  by (simp add: mem_cr_def)

lemma ms_merge_cases:
  "ms_merge_change_request pn pe t i v d s =
     (case (reject_reactflow_change_definition d, fmlookup (ms_change_requests s) i) of
        (Inl e, _) \<Rightarrow> (Inl e, s)
      | (_, None) \<Rightarrow> (Inl NotFound, s)
      | (_, Some cr) \<Rightarrow>
          if cr_status cr \<noteq> CrApproved then (Inl Conflict, s)
          else (case fmlookup (ms_workflows s) (cr_workflow_id cr) of
              None \<Rightarrow> (Inl NotFound, s)
            | Some w \<Rightarrow> (Inr (), s\<lparr>ms_workflows := fmupd (cr_workflow_id cr) (apply_definition pn pe t d w) (ms_workflows s),
                ms_change_requests := fmupd i (cr\<lparr>cr_status := CrMerged, cr_updated_at := t\<rparr>) (ms_change_requests s)\<rparr>)))"
  by (auto simp: ms_merge_change_request_def split: sum.split option.split)

interpretation mem_reviews: review_store "mem_review_env pa en pn pe" mem_cr keyed for pa en pn pe
proof unfold_locales
  fix w :: mem_world and i v d
  assume k: "keyed w"
  show "keyed (snd (rv_merge (mem_review_env pa en pn pe) i v d w))"
    using k by (auto simp: keyed_def mem_cr_def ms_merge_cases split: sum.splits option.splits if_splits)
  show "fst (rv_merge (mem_review_env pa en pn pe) i v d w) = Inr () \<Longrightarrow>
      \<exists>cr t. mem_cr w i = Some cr \<and> cr_status cr = CrApproved \<and>
        mem_cr (snd (rv_merge (mem_review_env pa en pn pe) i v d w)) i = Some (cr\<lparr>cr_status := CrMerged, cr_updated_at := t\<rparr>)"
    by (auto simp: mem_cr_def ms_merge_cases split: sum.splits option.splits if_splits)
  show "j \<noteq> i \<or> fst (rv_merge (mem_review_env pa en pn pe) i v d w) \<noteq> Inr () \<Longrightarrow>
      mem_cr (snd (rv_merge (mem_review_env pa en pn pe) i v d w)) j = mem_cr w j" for j
    by (auto simp: mem_cr_def ms_merge_cases split: sum.splits option.splits if_splits)
qed (auto simp: mem_review_env_def mem_cr_def keyed_def written_def ms_create_change_request_def ms_get_change_request_def
      ms_update_change_request_def ms_add_comment_def ms_resolve_comment_def mem_env_def
      split: option.splits if_splits)

section \<open>Single requests\<close>

text \<open>The permission each request asks for, and what a merge needs.\<close>

definition asked_permission :: "review_request \<Rightarrow> permission" where
  "asked_permission rq = (case rq of
       ListCrs _ _ \<Rightarrow> View
     | GetCr _ \<Rightarrow> View
     | CommentCr _ _ \<Rightarrow> View
     | ApproveCr _ \<Rightarrow> Approve
     | RejectCr _ \<Rightarrow> Approve
     | _ \<Rightarrow> Edit)"

lemma unpermitted: "\<not> may c (asked_permission rq) wid None \<Longrightarrow>
    serve_review env c wid rq w = (Fail 403 ''Forbidden: insufficient permissions'', w)"
  by (cases rq)
     (simp_all add: asked_permission_def serve_review_def endpoint_simps create_change_request_def list_change_requests_def
       get_change_request_def update_change_request_def submit_change_request_def approve_change_request_def
       reject_change_request_def rebase_change_request_def merge_change_request_def add_cr_comment_def resolve_cr_comment_def)

definition mergeable ::
  "mem_world review_env \<Rightarrow> mem_world \<Rightarrow> string \<Rightarrow> string \<Rightarrow> change_request \<Rightarrow> json \<Rightarrow> workflow \<Rightarrow> bool" where
  "mergeable env w wid i cr d old \<longleftrightarrow>
     mem_cr w i = Some cr \<and> cr_workflow_id cr = wid \<and> cr_status cr = CrApproved \<and>
     normalize_change_request_definition env wid (cr_proposed_definition cr) = Inr d \<and>
     reject_reactflow_change_definition d = Inr () \<and> fmlookup (ms_workflows (mw_store w)) wid = Some old"

definition merged_world ::
  "(json \<Rightarrow> wf_node list option) \<Rightarrow> (json \<Rightarrow> edge list option) \<Rightarrow> string \<Rightarrow> string \<Rightarrow> change_request \<Rightarrow> json \<Rightarrow> workflow \<Rightarrow>
   mem_world \<Rightarrow> mem_world" where
  "merged_world pn pe wid i cr d old w = w\<lparr>mw_store := (mw_store w)\<lparr>
     ms_workflows := fmupd wid (apply_definition pn pe (mw_clock w) d old) (ms_workflows (mw_store w)),
     ms_change_requests := fmupd i (cr\<lparr>cr_status := CrMerged, cr_updated_at := mw_clock w\<rparr>)
       (ms_change_requests (mw_store w))\<rparr>\<rparr>"

lemma load_cr_mem:
  "load_cr (mem_review_env pa en pn pe) wid i k w =
     (case mem_cr w i of
        None \<Rightarrow> (Fail 404 ''change request not found'', w)
      | Some cr \<Rightarrow> if cr_workflow_id cr = wid then k cr w else (Fail 404 ''change request not found'', w))"
  by (auto simp: load_cr_def mem_cr_def endpoint_simps on_store_def ms_get_change_request_def split: option.split)

lemma store_cr_mem:
  "mem_cr w (cr_id cr) \<noteq> None \<Longrightarrow>
   store_cr (mem_review_env pa en pn pe) cr rp f w =
     (Data 200 rp, w\<lparr>mw_store := (mw_store w)\<lparr>ms_change_requests := fmupd (cr_id cr) cr (ms_change_requests (mw_store w))\<rparr>\<rparr>)"
  by (auto simp: store_cr_def mem_cr_def endpoint_simps on_store_def ms_update_change_request_def split: option.split)

lemma enabled_mem: "enabled (mem_review_env pa en pn pe) k = k"
  by (simp add: enabled_def reject_when_def)

lemmas review_mem_simps = load_cr_mem enabled_mem endpoint_simps

lemma merge_done:
  assumes "mergeable (mem_review_env pa en pn pe) w wid i cr d old" and "may c Edit wid None"
  shows "merge_change_request (mem_review_env pa en pn pe) c wid i w =
    (Data 200 (RvStatus ''merged''), merged_world pn pe wid i cr d old w)"
  using assms
  by (auto simp: merge_change_request_def review_mem_simps mergeable_def normalized_def on_store_def mem_cr_def
      ms_merge_cases finish_merge_def refresh_triggers_def ms_get_workflow_def merged_world_def)

lemma normalize_refusal: "normalize_change_request_definition env wid d = Inl resp \<Longrightarrow> \<not> is_data resp"
  by (auto simp: normalize_change_request_definition_def Let_def split: sum.splits option.splits if_splits)

text \<open>The merge step by step, after the request was found.\<close>

lemma merge_found:
  assumes "may c Edit wid None" "mem_cr w i = Some cr" "cr_workflow_id cr = wid" "cr_status cr = CrApproved"
    and "normalize_change_request_definition (mem_review_env pa en pn pe) wid (cr_proposed_definition cr) = Inr d"
    and "reject_reactflow_change_definition d \<noteq> Inr () \<or> fmlookup (ms_workflows (mw_store w)) wid = None"
  shows "snd (merge_change_request (mem_review_env pa en pn pe) c wid i w) = w \<and>
    \<not> is_data (fst (merge_change_request (mem_review_env pa en pn pe) c wid i w))"
proof -
  have "\<exists>e. rv_merge (mem_review_env pa en pn pe) i (cr_base_version cr) d w = (Inl e, w)"
    using assms(2-4,6)
    by (cases "reject_reactflow_change_definition d") (auto simp: on_store_def mem_cr_def ms_merge_cases)
  then obtain e where e: "rv_merge (mem_review_env pa en pn pe) i (cr_base_version cr) d w = (Inl e, w)" ..
  show ?thesis using assms(1-5) e
    by (cases e) (simp_all add: merge_change_request_def review_mem_simps normalized_def del: mem_review_simps)
qed

lemma merge_refused:
  assumes "\<not> may c Edit wid None \<or> (\<nexists>cr d old. mergeable (mem_review_env pa en pn pe) w wid i cr d old)"
  shows "snd (merge_change_request (mem_review_env pa en pn pe) c wid i w) = w \<and>
    \<not> is_data (fst (merge_change_request (mem_review_env pa en pn pe) c wid i w))"
proof (cases "\<exists>cr. may c Edit wid None \<and> mem_cr w i = Some cr \<and> cr_workflow_id cr = wid \<and> cr_status cr = CrApproved")
  case False
  then show ?thesis by (auto simp: merge_change_request_def review_mem_simps split: option.split)
next
  case True
  then obtain cr where cr: "may c Edit wid None" "mem_cr w i = Some cr" "cr_workflow_id cr = wid" "cr_status cr = CrApproved"
    by blast
  show ?thesis
  proof (cases "normalize_change_request_definition (mem_review_env pa en pn pe) wid (cr_proposed_definition cr)")
    case (Inl resp)
    with cr normalize_refusal [OF Inl] show ?thesis by (simp add: merge_change_request_def review_mem_simps normalized_def)
  next
    case (Inr d)
    have "\<not> mergeable (mem_review_env pa en pn pe) w wid i cr d old" for old using assms cr(1) by blast
    then have "reject_reactflow_change_definition d \<noteq> Inr () \<or> fmlookup (ms_workflows (mw_store w)) wid = None"
      using cr Inr by (cases "fmlookup (ms_workflows (mw_store w)) wid") (auto simp: mergeable_def)
    then show ?thesis by (rule merge_found [OF cr Inr])
  qed
qed

section \<open>An edit and an approval of an open request\<close>

definition replace_proposal :: "json \<Rightarrow> update_cr_body" where
  "replace_proposal d = \<lparr>ub_title = None, ub_description = None, ub_definition = Some d, ub_reviewers = None\<rparr>"

definition put_cr :: "change_request \<Rightarrow> mem_world \<Rightarrow> mem_world" where
  "put_cr cr w = w\<lparr>mw_store := (mw_store w)\<lparr>ms_change_requests := fmupd (cr_id cr) cr (ms_change_requests (mw_store w))\<rparr>,
     mw_clock := mw_clock w + 1\<rparr>"

lemma put_cr_simps [simp]:
  "mem_cr (put_cr cr w) = (mem_cr w)(cr_id cr \<mapsto> cr)"
  "ms_workflows (mw_store (put_cr cr w)) = ms_workflows (mw_store w)"
  by (auto simp: put_cr_def mem_cr_def fun_eq_iff)

lemma update_proposal_mem:
  assumes "mem_cr w i = Some cr" "cr_id cr = i" "cr_workflow_id cr = wid" "cr_status cr = CrOpen" "may c Edit wid None"
    and "normalize_change_request_definition (mem_review_env pa en pn pe) wid d = Inr v"
  shows "snd (serve_review (mem_review_env pa en pn pe) c wid (UpdateCr i (replace_proposal d)) w) =
    put_cr (cr\<lparr>cr_proposed_definition := v, cr_updated_at := mw_clock w\<rparr>) w"
  using assms
  by (simp add: serve_review_def update_change_request_def review_mem_simps update_loaded_def replace_proposal_def
      check_description_def normalized_def store_cr_mem mem_cr_def put_cr_def Let_def)

lemma approve_mem:
  assumes "mem_cr w i = Some cr" "cr_id cr = i" "cr_workflow_id cr = wid" "cr_status cr = CrOpen" "may c Approve wid None"
    and "cr_author cr \<noteq> ca_user c"
  shows "snd (serve_review (mem_review_env pa en pn pe) c wid (ApproveCr i) w) =
    put_cr (cr\<lparr>cr_status := CrApproved, cr_updated_at := mw_clock w\<rparr>) w"
  using assms
  by (simp add: serve_review_def approve_change_request_def review_mem_simps store_cr_mem mem_cr_def put_cr_def)

section \<open>Samples\<close>

definition empty_proposal :: json where
  "empty_proposal = JObject (fmap_of_list [(''nodes'', JArray []), (''edges'', JArray [])])"

definition sample_review_env :: "mem_world review_env" where
  "sample_review_env =
     mem_review_env (\<lambda>_. Inr (sample_workflow [] [])) (\<lambda>_. Some empty_proposal) (\<lambda>_. Some []) (\<lambda>_. Some [])"

definition sample_cr :: "change_request_status \<Rightarrow> change_request" where
  "sample_cr st = \<lparr>cr_id = ''cr-1'', cr_workflow_id = ''wf-1'', cr_title = ''t'', cr_description = None,
     cr_proposed_definition = empty_proposal, cr_base_version = 1, cr_status = st, cr_author = ''alice'',
     cr_reviewers = [], cr_comments = [], cr_created_at = 0, cr_updated_at = 0\<rparr>"

definition reviewing :: "change_request_status \<Rightarrow> mem_world" where
  "reviewing st = mem_world_of (mem_store_new
     \<lparr>ms_workflows := fmupd ''wf-1'' (sample_workflow [sample_node KAction ''a''] []) fmempty,
      ms_change_requests := fmupd ''cr-1'' (sample_cr st) fmempty\<rparr>)"

definition plain_caller :: "string \<Rightarrow> caller" where
  "plain_caller u = \<lparr>ca_policy = None, ca_bootstrap = None, ca_user = u\<rparr>"

lemma plain_caller_may [simp]: "may (plain_caller u) p wid n" "ca_user (plain_caller u) = u"
  by (simp_all add: may_def plain_caller_def http_has_permission_def)

lemma reviewing_simps [simp]:
  "mem_cr (reviewing st) = (\<lambda>_. None)(''cr-1'' \<mapsto> sample_cr st)"
  "fmlookup (ms_workflows (mw_store (reviewing st))) ''wf-1'' = Some (sample_workflow [sample_node KAction ''a''] [])"
  "keyed (reviewing st)"
  by (auto simp: reviewing_def mem_world_of_def mem_store_new_def mem_cr_def keyed_def sample_cr_def)

lemma sample_cr_simps [simp]:
  "cr_id (sample_cr st) = ''cr-1''" "cr_workflow_id (sample_cr st) = ''wf-1''" "cr_status (sample_cr st) = st"
  "cr_author (sample_cr st) = ''alice''" "cr_proposed_definition (sample_cr st) = empty_proposal"
  by (simp_all add: sample_cr_def)

lemma sample_normalize:
  "normalize_change_request_definition (mem_review_env (\<lambda>_. Inr (sample_workflow [] [])) (\<lambda>_. Some empty_proposal) pn pe)
     ''wf-1'' d = Inr empty_proposal"
  by (simp add: normalize_change_request_definition_def sample_workflow_def space_len_def Let_def)

lemma empty_proposal_plain: "reject_reactflow_change_definition empty_proposal = Inr ()"
  by (simp add: reject_reactflow_change_definition_def empty_proposal_def json_list_field_def rejectR_def)

lemma sample_mergeable:
  "mergeable (mem_review_env (\<lambda>_. Inr (sample_workflow [] [])) (\<lambda>_. Some empty_proposal) pn pe) (reviewing CrApproved)
     ''wf-1'' ''cr-1'' (sample_cr CrApproved) empty_proposal (sample_workflow [sample_node KAction ''a''] [])"
  by (simp add: mergeable_def sample_normalize empty_proposal_plain)

section \<open>Properties\<close>

text \<open>C16. Over any sequence of requests by any callers a stored change request keeps its id, workflow, author and
  date, never returns to draft, and once merged or rejected only its comments change; a request without the
  permission it asks for is answered 403 and changes nothing.\<close>

theorem review_lifecycle:
  assumes "keyed w" and "mem_cr w i = Some cr"
  shows "(\<exists>cr'. mem_cr (serve_all (mem_review_env pa en pn pe) rqs w) i = Some cr' \<and> same_identity cr cr' \<and>
      (cr_status cr' = CrDraft \<longrightarrow> cr_status cr = CrDraft) \<and>
      (cr_status cr = CrMerged \<or> cr_status cr = CrRejected \<longrightarrow> uncommented cr' = uncommented cr)) \<and>
    (\<not> may c (asked_permission rq) wid None \<longrightarrow> serve_review (mem_review_env pa en pn pe) c wid rq w =
       (Fail 403 ''Forbidden: insufficient permissions'', w))"
  using mem_reviews.lifecycle [OF assms, of pa en pn pe rqs] unpermitted
  by (auto simp: review_course_def closed_status_def)

theorem review_lifecycle_witness:
  "(\<exists>cr'. mem_cr (serve_all sample_review_env [(plain_caller ''bob'', ''wf-1'', MergeCr ''cr-1'')] (reviewing CrMerged)) ''cr-1''
      = Some cr' \<and> uncommented cr' = uncommented (sample_cr CrMerged)) \<and>
   serve_review sample_review_env \<lparr>ca_policy = Some rbac_with_defaults, ca_bootstrap = None, ca_user = ''eve''\<rparr> ''wf-1''
     (ApproveCr ''cr-1'') (reviewing CrOpen) = (Fail 403 ''Forbidden: insufficient permissions'', reviewing CrOpen)"
proof -
  have "\<not> may \<lparr>ca_policy = Some rbac_with_defaults, ca_bootstrap = None, ca_user = ''eve''\<rparr> (asked_permission (ApproveCr ''cr-1'')) ''wf-1'' None"
    by (simp add: may_def asked_permission_def http_has_permission_def rbac_with_defaults_def)
  then have refused: "serve_review sample_review_env \<lparr>ca_policy = Some rbac_with_defaults, ca_bootstrap = None, ca_user = ''eve''\<rparr> ''wf-1''
     (ApproveCr ''cr-1'') (reviewing CrOpen) = (Fail 403 ''Forbidden: insufficient permissions'', reviewing CrOpen)"
    using review_lifecycle [of "reviewing CrOpen" "''cr-1''" "sample_cr CrOpen"] unfolding sample_review_env_def by simp
  have "keyed (reviewing CrMerged)" "mem_cr (reviewing CrMerged) ''cr-1'' = Some (sample_cr CrMerged)" by simp_all
  note kept = review_lifecycle [OF this, THEN conjunct1, of "\<lambda>_. Inr (sample_workflow [] [])" "\<lambda>_. Some empty_proposal"
      "\<lambda>_. Some []" "\<lambda>_. Some []" "[(plain_caller ''bob'', ''wf-1'', MergeCr ''cr-1'')]"]
  show ?thesis
    by (intro conjI refused) (use kept in \<open>auto simp: sample_review_env_def\<close>)
qed

text \<open>C17. A change request that is approved or merged after a sequence of requests was approved in it by a user
  other than its author who had the permission to approve, while it was open and already had the
  proposal it has now.\<close>

theorem merged_was_approved:
  assumes "keyed w" and "mem_cr w i = None \<or> (\<exists>cr. mem_cr w i = Some cr \<and> \<not> settled_cr cr)"
    and "mem_cr (serve_all (mem_review_env pa en pn pe) rqs w) i = Some cr'"
    and "cr_status cr' = CrApproved \<or> cr_status cr' = CrMerged"
  shows "\<exists>pre c post cr. rqs = pre @ (c, cr_workflow_id cr', ApproveCr i) # post \<and>
    may c Approve (cr_workflow_id cr') None \<and> ca_user c \<noteq> cr_author cr' \<and>
    mem_cr (serve_all (mem_review_env pa en pn pe) pre w) i = Some cr \<and> cr_status cr = CrOpen \<and>
    cr_proposed_definition cr = cr_proposed_definition cr'"
  using mem_reviews.settled_was_approved [OF assms(1) _ assms(3)] assms(2,4) by (auto simp: settled_cr_def)

theorem merged_was_approved_witness:
  "\<exists>pre c post cr. [(plain_caller ''bob'', ''wf-1'', ApproveCr ''cr-1'')] = pre @ (c, ''wf-1'', ApproveCr ''cr-1'') # post \<and>
     ca_user c \<noteq> ''alice'' \<and> mem_cr (serve_all sample_review_env pre (reviewing CrOpen)) ''cr-1'' = Some cr \<and>
     cr_status cr = CrOpen"
proof -
  let ?cr' = "(sample_cr CrOpen)\<lparr>cr_status := CrApproved, cr_updated_at := 0\<rparr>"
  have clock: "mw_clock (reviewing st) = 0" for st by (simp add: reviewing_def mem_world_of_def)
  have "mem_cr (serve_all sample_review_env [(plain_caller ''bob'', ''wf-1'', ApproveCr ''cr-1'')] (reviewing CrOpen)) ''cr-1'' = Some ?cr'"
    unfolding sample_review_env_def by (simp add: serve_all_def, subst approve_mem [where cr = "sample_cr CrOpen"]) (simp_all add: clock)
  then show ?thesis
    using merged_was_approved [of "reviewing CrOpen" "''cr-1''", where cr' = ?cr'] unfolding sample_review_env_def
    by (simp add: settled_cr_def) blast
qed



section \<open>What the process lets through\<close>

text \<open>The merge does not validate: an approved proposal whose resulting workflow \<open>validate_workflow\<close> refuses
  is installed all the same.\<close>

theorem merge_skips_validation:
  assumes "mergeable (mem_review_env pa en pn pe) w wid i cr d old" and "may c Edit wid None"
    and "validate_workflow (apply_definition pn pe (mw_clock w) d old) = Inl e"
  shows "http_status (fst (merge_change_request (mem_review_env pa en pn pe) c wid i w)) = 200 \<and>
    (\<exists>bad. fmlookup (ms_workflows (mw_store (snd (merge_change_request (mem_review_env pa en pn pe) c wid i w)))) wid = Some bad \<and>
       validate_workflow bad = Inl e)"
  using assms(3) merge_done [OF assms(1,2)] by (simp add: merged_world_def)

theorem merge_skips_validation_witness:
  "\<exists>bad. fmlookup (ms_workflows (mw_store (snd (merge_change_request sample_review_env (plain_caller ''bob'') ''wf-1'' ''cr-1''
     (reviewing CrApproved))))) ''wf-1'' = Some bad \<and> validate_workflow bad = Inl NoEntryNodes"
proof -
  have "validate_workflow (apply_definition (\<lambda>_. Some []) (\<lambda>_. Some []) (mw_clock (reviewing CrApproved)) empty_proposal
      (sample_workflow [sample_node KAction ''a''] [])) = Inl NoEntryNodes"
    by (simp add: apply_definition_def empty_proposal_def sample_workflow_def validate_workflow_def rejectR_def)
  from merge_skips_validation [OF sample_mergeable _ this, of "plain_caller ''bob''"] show ?thesis
    unfolding sample_review_env_def by simp
qed

text \<open>The rule that nobody approves their own change can be evaded: a user who did not write an open request
  may replace its proposal, approve the request and merge it, and the workflow gets the proposal no one else has seen.\<close>

theorem editor_approves_own_edit:
  assumes "mem_cr w i = Some cr" and "cr_id cr = i" and "cr_workflow_id cr = wid" and "cr_status cr = CrOpen"
    and "cr_author cr \<noteq> ca_user c" and "may c Edit wid None" and "may c Approve wid None"
    and "normalize_change_request_definition (mem_review_env pa en pn pe) wid d = Inr v"
    and "normalize_change_request_definition (mem_review_env pa en pn pe) wid v = Inr v"
    and "reject_reactflow_change_definition v = Inr ()" and "fmlookup (ms_workflows (mw_store w)) wid = Some old"
  shows "\<exists>t. fmlookup (ms_workflows (mw_store (serve_all (mem_review_env pa en pn pe)
      [(c, wid, UpdateCr i (replace_proposal d)), (c, wid, ApproveCr i), (c, wid, MergeCr i)] w))) wid =
    Some (apply_definition pn pe t v old)"
proof -
  let ?env = "mem_review_env pa en pn pe"
  let ?cr1 = "cr\<lparr>cr_proposed_definition := v, cr_updated_at := mw_clock w\<rparr>"
  let ?w1 = "put_cr ?cr1 w"
  let ?cr2 = "?cr1\<lparr>cr_status := CrApproved, cr_updated_at := mw_clock ?w1\<rparr>"
  have "snd (serve_review ?env c wid (UpdateCr i (replace_proposal d)) w) = ?w1"
    by (rule update_proposal_mem) (use assms in simp_all)
  moreover have "snd (serve_review ?env c wid (ApproveCr i) ?w1) = put_cr ?cr2 ?w1"
    by (rule approve_mem) (use assms in simp_all)
  moreover have "mergeable ?env (put_cr ?cr2 ?w1) wid i ?cr2 v old"
    using assms by (simp add: mergeable_def)
  from merge_done [OF this assms(6)] have "snd (serve_review ?env c wid (MergeCr i) (put_cr ?cr2 ?w1)) =
      merged_world pn pe wid i ?cr2 v old (put_cr ?cr2 ?w1)"
    by (simp add: serve_review_def)
  ultimately have "serve_all ?env [(c, wid, UpdateCr i (replace_proposal d)), (c, wid, ApproveCr i), (c, wid, MergeCr i)] w =
      merged_world pn pe wid i ?cr2 v old (put_cr ?cr2 ?w1)"
    by (simp add: serve_all_def)
  then show ?thesis
    by (intro exI [of _ "mw_clock (put_cr ?cr2 ?w1)"]) (simp add: merged_world_def)
qed

theorem editor_approves_own_edit_witness:
  "\<exists>t. fmlookup (ms_workflows (mw_store (serve_all sample_review_env
      [(plain_caller ''bob'', ''wf-1'', UpdateCr ''cr-1'' (replace_proposal JNull)),
       (plain_caller ''bob'', ''wf-1'', ApproveCr ''cr-1''), (plain_caller ''bob'', ''wf-1'', MergeCr ''cr-1'')]
      (reviewing CrOpen)))) ''wf-1'' =
    Some (apply_definition (\<lambda>_. Some []) (\<lambda>_. Some []) t empty_proposal (sample_workflow [sample_node KAction ''a''] []))"
  unfolding sample_review_env_def
  by (rule editor_approves_own_edit [where cr = "sample_cr CrOpen"]) (simp_all add: sample_normalize empty_proposal_plain)

text \<open>An update that read the request before it was merged and writes after it reopens it: the merged request
  is again open and can be approved and merged once more.\<close>

theorem stale_update_reopens:
  assumes "mem_cr w i = Some (cr\<lparr>cr_status := CrMerged, cr_updated_at := t\<rparr>)" and "cr_id cr = i" and "cr_status cr = CrOpen"
    and "normalize_change_request_definition (mem_review_env pa en pn pe) wid d = Inr v"
  shows "\<exists>cr'. mem_cr (snd (update_loaded (mem_review_env pa en pn pe) wid (replace_proposal d) cr w)) i = Some cr' \<and>
    cr_status cr' = CrOpen \<and> cr_proposed_definition cr' = v"
  using assms
  by (simp add: update_loaded_def replace_proposal_def check_description_def normalized_def store_cr_mem mem_cr_def
      endpoint_simps Let_def)

theorem stale_update_reopens_witness:
  "\<exists>cr'. mem_cr (snd (update_loaded sample_review_env ''wf-1'' (replace_proposal JNull) (sample_cr CrOpen)
      (reviewing CrMerged))) ''cr-1'' = Some cr' \<and> cr_status cr' = CrOpen \<and> cr_proposed_definition cr' = empty_proposal"
  unfolding sample_review_env_def
  by (rule stale_update_reopens [where t = 0]) (simp_all add: sample_normalize, simp add: sample_cr_def)

end
