(* ===== verification/Worker.thy ===== *)
theory Worker
  imports Results
begin

text \<open>
  The worker, \<open>crates/orbflow-worker/src/worker.rs\<close> with the chunks of
  \<open>crates/orbflow-core/src/streaming.rs\<close>: it decodes a task, runs the executor registered for the
  plugin in a task of its own with a time limit, and publishes one result.

  An executor is a function of the input and the world. How its spawned task ends is part of its
  answer: it finishes, the time limit elapses, or it panics. A streaming executor also yields the
  chunks it sends. Clock readings that only feed log lines are left out, as is the semaphore that
  bounds how many tasks of one worker run at the same time.
\<close>

section \<open>Executors, messages, ports\<close>

datatype 'a joined = Finished 'a | Elapsed | Panicked string

datatype stream_chunk = ChunkData json | ChunkDone node_output | ChunkError string

record stream_message =
  sm_instance_id :: string
  sm_node_id :: string
  sm_chunk :: stream_chunk
  sm_seq :: u64
  sm_v :: nat

type_synonym 'w node_executor = "node_input \<Rightarrow> 'w \<Rightarrow> node_output result joined \<times> 'w"
type_synonym 'w streaming_executor = "node_input \<Rightarrow> 'w \<Rightarrow> (stream_chunk list \<times> unit result joined) \<times> 'w"

text \<open>The bus, the clock (an \<open>Instant\<close> in nanoseconds), the id generator and serde's conversions.\<close>

record 'w worker_env =
  wk_publish :: "string \<Rightarrow> string \<Rightarrow> ('w, unit) act"
  wk_instant :: "'w \<Rightarrow> int \<times> 'w"
  wk_uuid :: "'w \<Rightarrow> string \<times> 'w"
  wk_decode_task :: "string \<Rightarrow> string + task_message"
  wk_encode_result :: "result_message \<Rightarrow> string + string"
  wk_encode_chunk :: "stream_message \<Rightarrow> string option"
  wk_metrics_json :: "node_metrics \<Rightarrow> json option"
  wk_json_str :: "json \<Rightarrow> string"

record worker_options =
  wp_pool_name :: string
  wp_task_timeout :: nat
  wp_concurrency :: nat

definition worker_options_default :: worker_options where
  "worker_options_default = \<lparr>wp_pool_name = ''default'', wp_task_timeout = 300, wp_concurrency = 4\<rparr>"

record 'w worker =
  wo_executors :: "(string, 'w node_executor) fmap"
  wo_streaming_executors :: "(string, 'w streaming_executor) fmap"
  wo_pool :: string
  wo_task_timeout :: nat
  wo_concurrency :: nat

definition worker_new :: "worker_options \<Rightarrow> 'w worker" where
  "worker_new options =
     \<lparr>wo_executors = fmempty, wo_streaming_executors = fmempty, wo_pool = wp_pool_name options,
      wo_task_timeout = wp_task_timeout options, wo_concurrency = max (wp_concurrency options) 1\<rparr>"

definition worker_register_node :: "string \<Rightarrow> 'w node_executor \<Rightarrow> 'w worker \<Rightarrow> 'w worker" where
  "worker_register_node name ex wk = wk\<lparr>wo_executors := fmupd name ex (wo_executors wk)\<rparr>"

definition register_streaming :: "string \<Rightarrow> 'w streaming_executor \<Rightarrow> 'w worker \<Rightarrow> 'w worker" where
  "register_streaming name ex wk = wk\<lparr>wo_streaming_executors := fmupd name ex (wo_streaming_executors wk)\<rparr>"

definition has_executor :: "'w worker \<Rightarrow> string \<Rightarrow> bool" where
  "has_executor wk name = (fmlookup (wo_executors wk) name \<noteq> None)"

definition instantE :: "'w worker_env \<Rightarrow> ('w, int) act" where
  "instantE env = (\<lambda>w. case wk_instant env w of (t, w') \<Rightarrow> (Inr t, w'))"

text \<open>\<open>start.elapsed().as_millis() as u64\<close>\<close>

definition elapsed_ms :: "'w worker_env \<Rightarrow> int \<Rightarrow> ('w, u64) act" where
  "elapsed_ms env start = bindE (instantE env) (\<lambda>t. ret (word_of_int (max 0 (t - start) div 1000000)))"

section \<open>Results\<close>

definition METRICS_KEY :: string where
  "METRICS_KEY = ''_metrics''"

definition inject_metrics :: "'w worker_env \<Rightarrow> jmap option \<Rightarrow> u64 \<Rightarrow> jmap option" where
  "inject_metrics env output wall_time_ms =
     (let base = (case output of None \<Rightarrow> fmempty | Some m \<Rightarrow> m) in
      Some (case wk_metrics_json env (extract_metrics_from_output (wk_json_str env) base wall_time_ms) of
              Some v \<Rightarrow> fmupd METRICS_KEY v base
            | None \<Rightarrow> base))"

definition result_of ::
  "'w worker_env \<Rightarrow> node_input \<Rightarrow> string option \<Rightarrow> u64 \<Rightarrow> jmap option \<Rightarrow> string option \<Rightarrow> ('w, result_message) act" where
  "result_of env input dispatch_id wall_time_ms output err = (\<lambda>w. case wk_uuid env w of (i, w') \<Rightarrow>
     (Inr \<lparr>rm_result_id = Some i, rm_instance_id = ni_instance_id input, rm_node_id = ni_node_id input,
       rm_attempt = ni_attempt input, rm_dispatch_id = dispatch_id,
       rm_output = inject_metrics env output wall_time_ms, rm_error = err, rm_trace_context = None,
       rm_v = WIRE_VERSION\<rparr>, w'))"

definition build_result_message ::
  "'w worker_env \<Rightarrow> node_input \<Rightarrow> string option \<Rightarrow> node_output result \<Rightarrow> u64 \<Rightarrow> ('w, result_message) act" where
  "build_result_message env input dispatch_id exec_result wall_time_ms =
     (case exec_result of
        Inr output \<Rightarrow> (case no_error output of
            Some err_msg \<Rightarrow> result_of env input dispatch_id wall_time_ms (no_data output) (Some err_msg)
          | None \<Rightarrow> result_of env input dispatch_id wall_time_ms (no_data output) None)
      | Inl e \<Rightarrow> result_of env input dispatch_id wall_time_ms None (Some (error_str e)))"

definition publish_result :: "'w worker_env \<Rightarrow> string \<Rightarrow> result_message \<Rightarrow> ('w, unit) act" where
  "publish_result env subject r = (case wk_encode_result env r of
       Inl e \<Rightarrow> raise (Internal (''marshal result: '' @ e))
     | Inr data \<Rightarrow> wk_publish env subject data)"

section \<open>Execution\<close>

definition execute_sandboxed :: "'w node_executor option \<Rightarrow> node_input \<Rightarrow> ('w, node_output) act" where
  "execute_sandboxed executor input = (case executor of
       None \<Rightarrow> raise NodeNotFound
     | Some ex \<Rightarrow> (\<lambda>w. case ex input w of
           (Finished r, w') \<Rightarrow> (r, w')
         | (Elapsed, w') \<Rightarrow> (Inl Timeout, w')
         | (Panicked e, w') \<Rightarrow> (Inl (Internal (''task panicked: '' @ e)), w')))"

definition REDACTED_CREDENTIAL_SECRET_KEYS :: "string list" where
  "REDACTED_CREDENTIAL_SECRET_KEYS =
     [''api_key'', ''token'', ''access_token'', ''refresh_token'', ''client_secret'', ''password'', ''secret'',
      ''private_key'']"

definition redacted_credential_secret_key :: "jmap option \<Rightarrow> string option" where
  "redacted_credential_secret_key m = Option.bind m (\<lambda>m.
     List.find (\<lambda>k. fmlookup m k = Some JNull) REDACTED_CREDENTIAL_SECRET_KEYS)"

fun is_terminal :: "stream_chunk \<Rightarrow> bool" where
  "is_terminal (ChunkData _) = False"
| "is_terminal _ = True"

text \<open>
  The relay loop: every chunk up to the first terminal one is published, whatever comes of it, and the
  terminal one is remembered as the final output or error.
\<close>

definition relay_one :: "'w worker_env \<Rightarrow> string \<Rightarrow> node_input \<Rightarrow> u64 \<Rightarrow> stream_chunk \<Rightarrow> ('w, unit) act" where
  "relay_one env subject input sq chunk =
     (case wk_encode_chunk env \<lparr>sm_instance_id = ni_instance_id input, sm_node_id = ni_node_id input, sm_chunk = chunk,
             sm_seq = sq, sm_v = WIRE_VERSION\<rparr> of
        None \<Rightarrow> ret ()
      | Some data \<Rightarrow> logE (wk_publish env subject data))"

fun relay_chunks ::
  "'w worker_env \<Rightarrow> string \<Rightarrow> node_input \<Rightarrow> u64 \<Rightarrow> stream_chunk list \<Rightarrow> ('w, node_output option \<times> string option) act" where
  "relay_chunks env subject input sq [] = ret (None, None)"
| "relay_chunks env subject input sq (c # cs) =
     seqE (relay_one env subject input sq c)
       (case c of
          ChunkDone output \<Rightarrow> ret (Some output, None)
        | ChunkError message \<Rightarrow> ret (None, Some message)
        | ChunkData _ \<Rightarrow> relay_chunks env subject input (sq + 1) cs)"

definition join_error :: "unit result joined \<Rightarrow> string option" where
  "join_error j = (case j of
       Finished (Inr _) \<Rightarrow> None
     | Finished (Inl e) \<Rightarrow> Some (error_str e)
     | Elapsed \<Rightarrow> Some ''streaming task timed out''
     | Panicked e \<Rightarrow> Some (''streaming task panicked: '' @ e))"

definition handle_streaming_task ::
  "'w worker_env \<Rightarrow> 'w streaming_executor \<Rightarrow> node_input \<Rightarrow> string option \<Rightarrow> string \<Rightarrow> ('w, unit) act" where
  "handle_streaming_task env ex input dispatch_id result_subj =
     bindE (instantE env) (\<lambda>start.
     bindE (\<lambda>w. case ex input w of (x, w') \<Rightarrow> (Inr x, w')) (\<lambda>(chunks, joined).
     bindE (relay_chunks env (stream_subject (ni_instance_id input) (ni_node_id input)) input 0 chunks) (\<lambda>(out, err).
     let final_error = (case err of Some e \<Rightarrow> Some e | None \<Rightarrow> join_error joined) in
     bindE (elapsed_ms env start) (\<lambda>ms.
     bindE (case final_error of
              Some e \<Rightarrow> result_of env input dispatch_id ms None (Some e)
            | None \<Rightarrow> (case out of
                Some output \<Rightarrow> (case no_error output of
                    Some e \<Rightarrow> result_of env input dispatch_id ms (no_data output) (Some e)
                  | None \<Rightarrow> result_of env input dispatch_id ms (no_data output) None)
              | None \<Rightarrow> result_of env input dispatch_id ms None (Some ''streaming executor did not send terminal chunk'')))
       (\<lambda>r. publish_result env result_subj r)))))"

section \<open>Tasks\<close>

definition task_input :: "task_message \<Rightarrow> node_input" where
  "task_input t = \<lparr>ni_instance_id = tm_instance_id t, ni_node_id = tm_node_id t, ni_plugin_ref = tm_plugin_ref t,
     ni_config = tm_config t, ni_input = tm_input t, ni_parameters = tm_parameters t,
     ni_capabilities = tm_capabilities t, ni_attempt = tm_attempt t\<rparr>"

definition task_dispatch_id :: "task_message \<Rightarrow> string option" where
  "task_dispatch_id t = (case tm_dispatch_id t of
       Some d \<Rightarrow> Some d
     | None \<Rightarrow> Some (dispatch_identity (tm_instance_id t) (tm_node_id t) (tm_attempt t)))"

definition redacted_key :: "task_message \<Rightarrow> string option" where
  "redacted_key t = (case redacted_credential_secret_key (tm_config t) of
       Some k \<Rightarrow> Some k | None \<Rightarrow> redacted_credential_secret_key (tm_parameters t))"

definition answer_task ::
  "'w worker_env \<Rightarrow> string \<Rightarrow> task_message \<Rightarrow> int \<Rightarrow> node_output result \<Rightarrow> ('w, unit) act" where
  "answer_task env result_subj t start r =
     bindE (elapsed_ms env start) (\<lambda>ms.
     bindE (build_result_message env (task_input t) (task_dispatch_id t) r ms) (publish_result env result_subj))"

definition handle_task :: "'w worker_env \<Rightarrow> 'w worker \<Rightarrow> string \<Rightarrow> ('w, unit) act" where
  "handle_task env wk data = (case wk_decode_task env data of
       Inl e \<Rightarrow> raise (Internal (''unmarshal task: '' @ e))
     | Inr t \<Rightarrow>
         if tm_v t > WIRE_VERSION
         then raise (Internal (''task wire version '' @ nat_str (tm_v t) @
           '' is newer than supported version '' @ nat_str WIRE_VERSION))
         else
           let result_subj = result_subject (wo_pool wk) in
           bindE (instantE env) (\<lambda>start.
           case redacted_key t of
             Some key \<Rightarrow> answer_task env result_subj t start (Inl (InvalidNodeConfig
               (''credential secret '' @ quoted key @ '' was redacted before worker execution; configure a proxy-capable node or explicitly allow raw credential access'')))
           | None \<Rightarrow> (case fmlookup (wo_streaming_executors wk) (tm_plugin_ref t) of
               Some ex \<Rightarrow> handle_streaming_task env ex (task_input t) (task_dispatch_id t) result_subj
             | None \<Rightarrow> (case fmlookup (wo_executors wk) (tm_plugin_ref t) of
                 None \<Rightarrow> answer_task env result_subj t start (Inl (InvalidNodeConfig
                   (''Plugin '' @ quoted (tm_plugin_ref t) @ '' is not available. The plugin process may have failed to start '' @
                    em_dash @
                    '' check server logs for details, or try restarting the server.'')))
               | Some ex \<Rightarrow> bindE (tryE (execute_sandboxed (Some ex) (task_input t)) ret)
                   (answer_task env result_subj t start)))))"

section \<open>Every task is answered\<close>

definition identifies :: "task_message \<Rightarrow> result_message \<Rightarrow> bool" where
  "identifies t r \<longleftrightarrow> rm_instance_id r = tm_instance_id t \<and> rm_node_id r = tm_node_id t \<and>
     rm_attempt r = tm_attempt t \<and> rm_dispatch_id r = task_dispatch_id t \<and> rm_result_id r \<noteq> None \<and>
     rm_v r = WIRE_VERSION"

text \<open>\<open>publishes\<close>: the last thing the computation does is to publish a result with the property.\<close>

definition publishes ::
  "'w worker_env \<Rightarrow> string \<Rightarrow> (result_message \<Rightarrow> bool) \<Rightarrow> ('w, unit) act \<Rightarrow> bool" where
  "publishes env subject P m \<longleftrightarrow> (\<forall>w. \<exists>r data w1. P r \<and> wk_encode_result env r = Inr data \<and>
     m w = wk_publish env subject data w1)"

definition succeeds :: "('w, 'a) act \<Rightarrow> bool" where
  "succeeds m \<longleftrightarrow> (\<forall>w. \<exists>x w'. m w = (Inr x, w'))"

lemma succeedsI: "(\<And>w. fst (m w) = Inr (f w)) \<Longrightarrow> succeeds m"
  unfolding succeeds_def by (metis prod.collapse)

lemma publishes_bind:
  assumes "succeeds m" and "\<And>x w w'. m w = (Inr x, w') \<Longrightarrow> publishes env subject P (f x)"
  shows "publishes env subject P (bindE m f)"
  unfolding publishes_def
proof
  fix w
  obtain x w' where m: "m w = (Inr x, w')" using assms(1) unfolding succeeds_def by blast
  with assms(2) show "\<exists>r data w1. P r \<and> wk_encode_result env r = Inr data \<and> bindE m f w = wk_publish env subject data w1"
    unfolding publishes_def bindE_Inr [of m, OF m] by blast
qed

lemma publishes_result:
  "\<exists>data. wk_encode_result env r = Inr data \<Longrightarrow> P r \<Longrightarrow> publishes env subject P (publish_result env subject r)"
  unfolding publishes_def publish_result_def by force

lemma succeeds_intros [intro, simp]:
  "succeeds (instantE env)" "succeeds (elapsed_ms env s)" "succeeds (result_of env i d ms out e)"
  "succeeds (tryE m ret)" "succeeds (\<lambda>w. (Inr (f w), h w))"
  by (simp_all add: succeeds_def instantE_def elapsed_ms_def bindE_def result_of_def tryE_def split_beta)

lemma relay_one_run: "relay_one env subject input sq c w = (Inr (), snd (relay_one env subject input sq c w))"
  by (auto simp: relay_one_def logE_def split: option.split)

section \<open>Streaming\<close>

text \<open>What a stream amounts to: the chunks up to the first terminal one, and its output and error.\<close>

fun up_to_terminal :: "stream_chunk list \<Rightarrow> stream_chunk list" where
  "up_to_terminal [] = []"
| "up_to_terminal (c # cs) = (if is_terminal c then [c] else c # up_to_terminal cs)"

definition verdict :: "stream_chunk list \<Rightarrow> node_output option \<times> string option" where
  "verdict cs = (case List.find is_terminal cs of
       Some (ChunkDone output) \<Rightarrow> (Some output, None)
     | Some (ChunkError message) \<Rightarrow> (None, Some message)
     | _ \<Rightarrow> (None, None))"

definition relayed :: "'w worker_env \<Rightarrow> string \<Rightarrow> node_input \<Rightarrow> u64 \<Rightarrow> stream_chunk list \<Rightarrow> 'w \<Rightarrow> 'w" where
  "relayed env subject input sq cs w =
     fold (\<lambda>(k, c) w. snd (relay_one env subject input (sq + of_nat k) c w)) (enumerate 0 cs) w"

lemma relayed_shift:
  "fold (\<lambda>(k, c) w. snd (relay_one env subject input (sq + of_nat k) c w)) (enumerate (Suc n) cs) w =
   fold (\<lambda>(k, c) w. snd (relay_one env subject input (sq + 1 + of_nat k) c w)) (enumerate n cs) w"
  by (induction cs arbitrary: n w) (simp_all add: algebra_simps)

lemma relayed_simps [simp]:
  "relayed env subject input sq [] w = w"
  "relayed env subject input sq (c # cs) w =
     relayed env subject input (sq + 1) cs (snd (relay_one env subject input sq c w))"
  using relayed_shift [of env subject input sq 0] by (simp_all add: relayed_def)

lemma relay_chunks_run:
  "relay_chunks env subject input sq cs w = (Inr (verdict cs), relayed env subject input sq (up_to_terminal cs) w)"
proof (induction cs arbitrary: sq w)
  case (Cons c cs)
  then show ?case
    by (cases c) (simp_all add: seqE_Inr [OF relay_one_run] verdict_def)
qed (simp add: verdict_def)

lemma succeeds_relay [intro, simp]: "succeeds (relay_chunks env subject input sq cs)"
  by (rule succeedsI) (simp add: relay_chunks_run)

lemma result_of_identifies:
  assumes "result_of env (task_input t) (task_dispatch_id t) ms out e w = (Inr r, w')"
  shows "identifies t r"
  using assms by (auto simp: result_of_def identifies_def task_input_def split: prod.splits)

lemma result_of_error: "result_of env i d ms out e w = (Inr r, w') \<Longrightarrow> rm_error r = e"
  by (auto simp: result_of_def split: prod.splits)

lemma answer_publishes:
  assumes "\<And>r. \<exists>data. wk_encode_result env r = Inr data"
  shows "publishes env subject (identifies t) (answer_task env subject t start r)"
  unfolding answer_task_def build_result_message_def
  by (intro publishes_bind succeeds_intros publishes_result assms)
     (auto split: sum.splits option.splits dest: result_of_identifies)

lemma streaming_publishes:
  assumes "\<And>r. \<exists>data. wk_encode_result env r = Inr data"
  shows "publishes env subject (identifies t)
    (handle_streaming_task env ex (task_input t) (task_dispatch_id t) subject)"
  unfolding handle_streaming_task_def Let_def split_beta
  by (intro publishes_bind succeeds_relay succeeds_intros publishes_result assms)
     (auto simp: split_beta split: option.splits dest: result_of_identifies)

lemma handle_task_publishes:
  assumes "\<And>r. \<exists>data. wk_encode_result env r = Inr data"
    and "wk_decode_task env data = Inr t" and "tm_v t \<le> WIRE_VERSION"
  shows "publishes env (result_subject (wo_pool wk)) (identifies t) (handle_task env wk data)"
  using assms(2,3) unfolding handle_task_def
  by (auto simp: Let_def intro!: publishes_bind answer_publishes streaming_publishes assms(1)
      split: option.split)

section \<open>Properties\<close>

text \<open>What becomes of a node when a result is processed: it ends, or it waits for its next attempt.\<close>

definition moved_on :: "'w engine_env \<Rightarrow> 'w engine \<Rightarrow> string \<Rightarrow> string \<Rightarrow> int \<Rightarrow> bool" where
  "moved_on env g i n attempt \<longleftrightarrow> (\<exists>new ns. stored_at env g i = Inr new \<and> fmlookup (in_node_states new) n = Some ns \<and>
     (st_status ns = NCompleted \<or> st_status ns = NFailed \<or>
      st_status ns = NQueued \<and> st_started_at ns = None \<and> st_attempt ns = attempt + 1))"

lemma answer_moves_on:
  assumes "engine_store env" and "keyed env h" and "plain_result r" and "stored_at env h (rm_instance_id r) = Inr inst"
    and "\<not> inst_terminal inst" and "answers inst r" and "fmlookup (in_node_states inst) (rm_node_id r) = Some ns"
    and "handle_node_result_durable env r h = (Inr a, h')"
  shows "moved_on env h' (rm_instance_id r) (rm_node_id r) (st_attempt ns)"
  using engine_store.accepted_recorded [OF assms(1-6,8)] assms(7) unfolding moved_on_def
  by (fastforce split: if_splits option.splits)

text \<open>C8. The engine and the worker agree. Let an ungated dispatch of a node (whose id is not that of a
  compensation task) succeed for an instance in step with the store. Any worker that decodes the published task and
  can encode results, whichever executors it has and however they end, ends its work on it by publishing a result. Let this
  result reach an engine whose store still holds the instance as the dispatch left it, not ended. Then it passes the
  identity check, and if the engine processes it without an error, the store holds the node completed, failed, or
  queued under the next attempt.\<close>

theorem worker_answer_accepted:
  assumes "engine_store env" and "synced env (inst, g)" and "\<not> gated node inst"
    and "strip_prefix ''_compensate_'' (n_id node) = None"
    and "dispatch_node env w node (inst, g) = (Inr (), inst', g')"
  shows "\<exists>task data g1. ee_encode_task env task = Inr data \<and>
    ee_publish env (task_subject (ee_pool_name env)) data (eg_world g1) = (Inr (), eg_world g') \<and>
    stored_at env g1 (in_id inst) = Inr inst' \<and>
    (\<forall>wenv wk. wk_decode_task wenv data = Inr task \<and> (\<forall>r. \<exists>d. wk_encode_result wenv r = Inr d) \<longrightarrow>
       publishes wenv (result_subject (wo_pool wk))
         (\<lambda>r. rm_instance_id r = in_id inst \<and> rm_node_id r = n_id node \<and> rm_v r = WIRE_VERSION \<and>
            validate_node_result_identity inst' r = Inr () \<and>
            (\<forall>h a h'. keyed env h \<and> stored_at env h (in_id inst) = Inr inst' \<and> \<not> inst_terminal inst' \<and>
               handle_node_result_durable env r h = (Inr a, h') \<longrightarrow>
               moved_on env h' (in_id inst) (n_id node) (tm_attempt task))) (handle_task wenv wk data))"
proof -
  from ungated_dispatch [OF assms(1-3,5)] obtain ns and task :: task_message and data g1 where
    t: "stored_at env g1 (in_id inst) = Inr inst'" "fmlookup (in_node_states inst') (n_id node) = Some ns"
      "st_status ns = NQueued" "tm_instance_id task = in_id inst" "tm_node_id task = n_id node"
      "tm_attempt task = st_attempt ns" "tm_v task = WIRE_VERSION"
      "tm_dispatch_id task = Some (dispatch_identity (in_id inst) (n_id node) (st_attempt ns))"
    and d: "ee_encode_task env task = Inr data"
      "ee_publish env (task_subject (ee_pool_name env)) data (eg_world g1) = (Inr (), eg_world g')" by blast
  let ?P = "\<lambda>r. rm_instance_id r = in_id inst \<and> rm_node_id r = n_id node \<and> rm_v r = WIRE_VERSION \<and>
      validate_node_result_identity inst' r = Inr () \<and>
      (\<forall>h a h'. keyed env h \<and> stored_at env h (in_id inst) = Inr inst' \<and> \<not> inst_terminal inst' \<and>
         handle_node_result_durable env r h = (Inr a, h') \<longrightarrow>
         moved_on env h' (in_id inst) (n_id node) (tm_attempt task))"
  have P: "?P r" if r: "identifies task r" for r
  proof -
    from r t(4,5) have f: "rm_instance_id r = in_id inst" "rm_node_id r = n_id node" "rm_v r = WIRE_VERSION"
      by (simp_all add: identifies_def)
    from r t f have an: "answers inst' r" by (auto simp: identifies_def answers_def task_dispatch_id_def)
    have "plain_result r" using assms(4) f(2) by (simp add: plain_result_def)
    from answer_moves_on [OF assms(1) _ this _ _ an] t(2,6) f an validate_iff_answers [of inst' r] show ?thesis
      by auto
  qed
  have "publishes wenv (result_subject (wo_pool wk)) ?P (handle_task wenv wk data)"
    if "wk_decode_task wenv data = Inr task" "\<forall>r. \<exists>d. wk_encode_result wenv r = Inr d" for wenv and wk :: "'x worker"
    using handle_task_publishes [of wenv data task wk] that t(7) P unfolding publishes_def by (metis order_refl)
  with d t(1) show ?thesis by blast
qed

text \<open>The result of a streaming task is determined by the first terminal chunk and the way the executor ends.
  An error chunk fails it; otherwise an executor that fails, panics or runs out of time does; otherwise the final
  output decides, and a stream without a terminal chunk fails. Exactly the chunks up to the first terminal one are
  relayed, numbered from zero.\<close>

definition streaming_outcome :: "stream_chunk list \<Rightarrow> unit result joined \<Rightarrow> jmap option \<times> string option" where
  "streaming_outcome cs joined =
     (case List.find is_terminal cs of
        Some (ChunkError message) \<Rightarrow> (None, Some message)
      | c \<Rightarrow> (case join_error joined of
          Some e \<Rightarrow> (None, Some e)
        | None \<Rightarrow> (case c of
            Some (ChunkDone output) \<Rightarrow> (no_data output, no_error output)
          | _ \<Rightarrow> (None, Some ''streaming executor did not send terminal chunk''))))"

theorem streaming_answer_exact:
  assumes "wk_instant env w = (t0, w1)" and "ex input w1 = ((cs, joined), w2)"
  shows "\<exists>r ms w3. w3 = relayed env (stream_subject (ni_instance_id input) (ni_node_id input)) input 0 (up_to_terminal cs) w2 \<and>
    handle_streaming_task env ex input d subject w =
      publish_result env subject r (snd (wk_uuid env (snd (wk_instant env w3)))) \<and>
    rm_output r = inject_metrics env (fst (streaming_outcome cs joined)) ms \<and>
    rm_error r = snd (streaming_outcome cs joined)"
proof -
  let ?w3 = "relayed env (stream_subject (ni_instance_id input) (ni_node_id input)) input 0 (up_to_terminal cs) w2"
  obtain t1 wa where t: "wk_instant env ?w3 = (t1, wa)" by fastforce
  obtain i wb where i: "wk_uuid env wa = (i, wb)" by fastforce
  define ms :: u64 where "ms = word_of_int (max 0 (t1 - t0) div 1000000)"
  have "\<exists>r. handle_streaming_task env ex input d subject w = publish_result env subject r wb \<and>
      rm_output r = inject_metrics env (fst (streaming_outcome cs joined)) ms \<and>
      rm_error r = snd (streaming_outcome cs joined)"
    by (cases "List.find is_terminal cs"; cases "join_error joined")
       (auto simp: handle_streaming_task_def bindE_def instantE_def assms relay_chunks_run elapsed_ms_def t result_of_def i
         ms_def verdict_def streaming_outcome_def Let_def split: stream_chunk.split option.split)
  with t i show ?thesis by auto
qed

definition sample_task :: task_message where
  "sample_task =
    \<lparr>tm_instance_id = ''i'', tm_node_id = ''n'', tm_dispatch_id = None, tm_plugin_ref = ''p'', tm_config = None,
    tm_input = None, tm_parameters = Some (fmupd ''token'' JNull fmempty), tm_capabilities = None, tm_attempt = 1,
    tm_trace_context = None, tm_v = 1\<rparr>"

definition sample_worker_env :: "task_message \<Rightarrow> mem_world worker_env" where
  "sample_worker_env t =
     \<lparr>wk_publish = ee_publish mem_env, wk_instant = ee_now mem_env, wk_uuid = ee_uuid mem_env,
      wk_decode_task = (\<lambda>_. Inr t), wk_encode_result = (\<lambda>r. Inr (rm_node_id r)),
      wk_encode_chunk = (\<lambda>m. Some (nat_str (unat (sm_seq m)))), wk_metrics_json = (\<lambda>_. None),
      wk_json_str = (\<lambda>_. [])\<rparr>"

lemma sample_worker_simps [simp]:
  "wk_decode_task (sample_worker_env t) data = Inr t" "wk_encode_result (sample_worker_env t) r = Inr (rm_node_id r)"
  "wk_instant (sample_worker_env t) = ee_now mem_env"
  by (simp_all add: sample_worker_env_def)

theorem worker_answer_accepted_witness:
  "\<exists>inst' g' data task r d w1. dispatch_node mem_env diamond (sample_node KAction ''a'')
     (sample_instance [(''a'', NPending)], holding (sample_instance [(''a'', NPending)])) = (Inr (), inst', g') \<and>
   handle_task (sample_worker_env task) (worker_new worker_options_default) data (eg_world g') =
     wk_publish (sample_worker_env task) (result_subject ''default'') d w1 \<and>
   validate_node_result_identity inst' r = Inr () \<and>
   (\<forall>h a h'. keyed mem_env h \<and> stored_at mem_env h ''inst-1'' = Inr inst' \<and> \<not> inst_terminal inst' \<and>
      handle_node_result_durable mem_env r h = (Inr a, h') \<longrightarrow> moved_on mem_env h' ''inst-1'' ''a'' (tm_attempt task))"
proof -
  let ?i = "sample_instance [(''a'', NPending)]"
  let ?n = "sample_node KAction ''a''"
  let ?P = "\<lambda>inst' task r. rm_instance_id r = in_id ?i \<and> rm_node_id r = n_id ?n \<and> rm_v r = WIRE_VERSION \<and>
      validate_node_result_identity inst' r = Inr () \<and>
      (\<forall>h a h'. keyed mem_env h \<and> stored_at mem_env h (in_id ?i) = Inr inst' \<and> \<not> inst_terminal inst' \<and>
         handle_node_result_durable mem_env r h = (Inr a, h') \<longrightarrow> moved_on mem_env h' (in_id ?i) (n_id ?n) (tm_attempt task))"
  obtain inst' g' where d: "dispatch_node mem_env diamond ?n (?i, holding ?i) = (Inr (), inst', g')"
    using mem_dispatch_sample by blast
  have g: "\<not> gated ?n ?i" by (simp add: gated_def)
  have p: "strip_prefix ''_compensate_'' (n_id ?n) = None" by (simp add: strip_prefix_def starts_with_def)
  from worker_answer_accepted [OF mem_engine.engine_store_axioms synced_holding g p d]
  obtain task data where a: "\<forall>(wenv :: mem_world worker_env) wk. wk_decode_task wenv data = Inr task \<and> (\<forall>r. \<exists>d. wk_encode_result wenv r = Inr d) \<longrightarrow>
       publishes wenv (result_subject (wo_pool wk)) (?P inst' task) (handle_task wenv wk data)"
    by blast
  have "publishes (sample_worker_env task) (result_subject ''default'') (?P inst' task)
      (handle_task (sample_worker_env task) (worker_new worker_options_default) data)"
    using a [rule_format, of "sample_worker_env task" "worker_new worker_options_default"]
    by (simp add: worker_new_def worker_options_default_def)
  then obtain r e w1 where "?P inst' task r"
    "handle_task (sample_worker_env task) (worker_new worker_options_default) data (eg_world g') =
       wk_publish (sample_worker_env task) (result_subject ''default'') e w1"
    unfolding publishes_def by blast
  with d show ?thesis by (simp only: sample_instance_simps sample_node_simps) blast
qed

theorem streaming_answer_exact_witness:
  "\<exists>r w'. handle_streaming_task (sample_worker_env sample_task)
       (\<lambda>_ w. (([ChunkData JNull, ChunkDone \<lparr>no_data = None, no_error = None\<rparr>, ChunkError ''late''], Finished (Inr ())), w))
       (task_input sample_task) None ''s'' (mem_world_of mem_store_new) = publish_result (sample_worker_env sample_task) ''s'' r w' \<and> rm_error r = None"
proof -
  let ?cs = "[ChunkData JNull, ChunkDone \<lparr>no_data = None, no_error = None\<rparr>, ChunkError ''late'']"
  have o: "snd (streaming_outcome ?cs (Finished (Inr ()))) = None" by (simp add: streaming_outcome_def join_error_def)
  have "wk_instant (sample_worker_env sample_task) (mem_world_of mem_store_new) =
      (0, (mem_world_of mem_store_new)\<lparr>mw_clock := 1\<rparr>)" by (simp add: mem_world_of_def)
  from streaming_answer_exact [OF this, where ex = "\<lambda>_ w. ((?cs, Finished (Inr ())), w)", OF refl] o
  show ?thesis by metis
qed

section \<open>Nulls that look redacted\<close>

text \<open>The engine never has anything to redact: what it resolves holds secrets in the raw tier only.\<close>

lemma redaction_idle:
  assumes "fst (resolve_credentials_deduped cred_store config params owner w) = Inr creds"
  shows "redact_wire creds m = m"
proof (rule fmap_ext)
  fix k
  have raw: "fst (snd v) = TierRaw \<or> \<not> secret_of v k" if "fmlookup creds i = Some v" for i v
  proof -
    obtain ty tier data where v: "v = (ty, tier, data)" by (cases v)
    with resolved_secrets_raw [OF assms, of i ty tier data k] that show ?thesis unfolding secret_of_def v by auto
  qed
  show "fmlookup (redact_wire creds m) k = fmlookup m k"
    unfolding redaction_exact [THEN conjunct2] using raw by (metis (no_types))
qed

text \<open>A task whose configuration or parameters have a null under one of eight names (an optional \<open>token\<close> or
  \<open>password\<close>, say) is refused with an error result, whatever executors are registered, although the engine sends such
  nulls only where the workflow has them.\<close>

theorem null_option_refused:
  assumes "wk_decode_task env data = Inr t" and "tm_v t \<le> WIRE_VERSION" and "\<forall>r. \<exists>d. wk_encode_result env r = Inr d"
    and "tm_config t = Some m \<or> tm_parameters t = Some m" and "k \<in> set REDACTED_CREDENTIAL_SECRET_KEYS"
    and "fmlookup m k = Some JNull"
  shows "publishes env (result_subject (wo_pool wk)) (\<lambda>r. identifies t r \<and> rm_error r \<noteq> None) (handle_task env wk data) \<and>
    handle_task env (wk\<lparr>wo_executors := ex, wo_streaming_executors := sx\<rparr>) data = handle_task env wk data"
proof -
  have "redacted_credential_secret_key (Some m) \<noteq> None"
    using assms(5,6) by (auto simp: redacted_credential_secret_key_def find_None_iff)
  with assms(4) obtain k' where k: "redacted_key t = Some k'"
    by (cases "redacted_credential_secret_key (tm_config t)") (auto simp: redacted_key_def)
  have "publishes env (result_subject (wo_pool wk)) (\<lambda>r. identifies t r \<and> rm_error r \<noteq> None)
      (answer_task env (result_subject (wo_pool wk)) t start (Inl e))" for start e
    unfolding answer_task_def build_result_message_def sum.case
    by (intro publishes_bind succeeds_intros publishes_result assms(3) [rule_format])
       (auto dest: result_of_identifies result_of_error)
  then show ?thesis
    using assms(1,2) k by (auto simp: handle_task_def Let_def intro!: publishes_bind)
qed

theorem null_option_refused_witness:
  "\<exists>t. publishes (sample_worker_env t) (result_subject ''default'') (\<lambda>r. rm_error r \<noteq> None)
     (handle_task (sample_worker_env t) (worker_new worker_options_default) ''data'') \<and>
     tm_parameters t = Some (fmupd ''token'' JNull fmempty)"
proof -
  have "publishes (sample_worker_env sample_task) (result_subject ''default'') (\<lambda>r. identifies sample_task r \<and> rm_error r \<noteq> None)
     (handle_task (sample_worker_env sample_task) (worker_new worker_options_default) ''data'')"
    using null_option_refused [of "sample_worker_env sample_task" "''data''" sample_task "fmupd ''token'' JNull fmempty" "''token''"
        "worker_new worker_options_default"]
    by (simp add: sample_task_def WIRE_VERSION_def REDACTED_CREDENTIAL_SECRET_KEYS_def worker_new_def worker_options_default_def)
  then have "publishes (sample_worker_env sample_task) (result_subject ''default'') (\<lambda>r. rm_error r \<noteq> None)
     (handle_task (sample_worker_env sample_task) (worker_new worker_options_default) ''data'')"
    unfolding publishes_def by blast
  moreover have "tm_parameters sample_task = Some (fmupd ''token'' JNull fmempty)" by (simp add: sample_task_def)
  ultimately show ?thesis by blast
qed

end
