(* ===== verification/WorkflowApi.thy ===== *)
theory WorkflowApi
  imports Http Lifecycle TestNode Results
begin

text \<open>
  The endpoints on workflows, instances and approvals, \<open>crates/orbflow-httpapi/src/handlers.rs\<close>. The state is
  the engine with its world, and the limiter of starts; the policy does not change here and is
  part of the caller.
\<close>

section \<open>Ports and state\<close>

text \<open>The trigger registry (\<open>refresh_workflow\<close>, \<open>unregister_workflow\<close>, \<open>emit_event\<close>).\<close>

record 'w registry_port =
  rg_refresh :: "workflow \<Rightarrow> ('w, unit) act"
  rg_unregister :: "string \<Rightarrow> ('w, unit) act"
  rg_emit :: "string \<Rightarrow> jmap \<Rightarrow> ('w, unit) act"

text \<open>The engine's ports, the store operations the engine passes through, the clock of the limiter and the
  30-second limit of \<open>test_node\<close>.\<close>

record 'w api_env =
  ae_engine :: "'w engine_env"
  ae_list_workflows :: "list_options \<Rightarrow> ('w, workflow list \<times> int) act"
  ae_delete_workflow :: "string \<Rightarrow> ('w, unit) act"
  ae_list_instances :: "list_options \<Rightarrow> ('w, wf_instance list \<times> int) act"
  ae_registry :: "'w registry_port option"
  ae_instant :: "'w \<Rightarrow> int \<times> 'w"
  ae_timed :: "('w, node_output) act \<Rightarrow> ('w, node_output) act"

record 'w api =
  ap_engine :: "'w engine"
  ap_limiter :: "(string, int) fmap"

datatype api_reply =
    RpSchemas "node_schema list"
  | RpWorkflow workflow
  | RpWorkflows "workflow list" int int int
  | RpInstance wf_instance
  | RpInstances "wf_instance list" int int int
  | RpTest test_node_result
  | RpStatus string
  | RpDeleted
  | RpAccepted string

type_synonym 'w api_endpoint = "('w api, api_reply) endpoint"

definition on_engine :: "('w engine, 'a) act \<Rightarrow> ('w api, 'a) act" where
  "on_engine m = (\<lambda>s. case m (ap_engine s) of (r, g) \<Rightarrow> (r, s\<lparr>ap_engine := g\<rparr>))"

definition on_port :: "('w, 'a) act \<Rightarrow> ('w api, 'a) act" where
  "on_port m = on_engine (portG m)"

definition refresh_workflow_triggers :: "'w api_env \<Rightarrow> workflow \<Rightarrow> 'w api_endpoint \<Rightarrow> 'w api_endpoint" where
  "refresh_workflow_triggers env w k = (case ae_registry env of
       None \<Rightarrow> k
     | Some registry \<Rightarrow> on_result (on_port (rg_refresh registry w)) (\<lambda>r. case r of
           Inl _ \<Rightarrow> answer (Fail 500 ''failed to refresh workflow triggers'') | Inr _ \<Rightarrow> k))"

definition unregister_workflow_triggers :: "'w api_env \<Rightarrow> string \<Rightarrow> 'w api_endpoint \<Rightarrow> 'w api_endpoint" where
  "unregister_workflow_triggers env wid k = (case ae_registry env of
       None \<Rightarrow> k
     | Some registry \<Rightarrow> on_result (on_port (rg_unregister registry wid)) (\<lambda>r. case r of
           Inl _ \<Rightarrow> answer (Fail 500 ''failed to unregister workflow triggers'') | Inr _ \<Rightarrow> k))"

text \<open>The instance is looked up first, its workflow is what the permission is checked on.\<close>

definition load_instance_for_permission :: "'w api_env \<Rightarrow> string \<Rightarrow> (wf_instance \<Rightarrow> 'w api_endpoint) \<Rightarrow> 'w api_endpoint" where
  "load_instance_for_permission env i k = on_result (on_port (ee_get_instance (ae_engine env) i)) (\<lambda>r. case r of
       Inr inst \<Rightarrow> k inst
     | Inl e \<Rightarrow> answer (if e = NotFound then Fail 404 ''instance not found'' else Fail 500 ''failed to get instance''))"

definition authorize_instance ::
  "'w api_env \<Rightarrow> caller \<Rightarrow> string \<Rightarrow> permission \<Rightarrow> string option \<Rightarrow> (wf_instance \<Rightarrow> 'w api_endpoint) \<Rightarrow> 'w api_endpoint" where
  "authorize_instance env c i perm nid k =
     load_instance_for_permission env i (\<lambda>inst. require c perm (in_workflow_id inst) nid (k inst))"

text \<open>\<open>rate_limiter.check\<close>\<close>

definition limited :: "'w api_env \<Rightarrow> string \<Rightarrow> 'w api_endpoint \<Rightarrow> 'w api_endpoint" where
  "limited env wid k = (\<lambda>s. case ae_instant env (eg_world (ap_engine s)) of (now, w) \<Rightarrow>
     (case limiter_check wid now (ap_limiter s) of (ok, m) \<Rightarrow>
        let s' = s\<lparr>ap_engine := (ap_engine s)\<lparr>eg_world := w\<rparr>, ap_limiter := m\<rparr> in
        if ok then k s' else (Fail 429 ''rate limit: workflow was started recently, please wait'', s')))"

text \<open>The last arms of most error matches: the text of a validation error, a plain 500 for the rest.\<close>

definition validation_or :: "string \<Rightarrow> orbflow_error \<Rightarrow> 'd response" where
  "validation_or failure e = (if is_validation_error e then Fail 400 (error_str e) else Fail 500 failure)"

section \<open>Workflows\<close>

definition list_node_types :: "'w api_endpoint" where
  "list_node_types = (\<lambda>s. (Data 200 (RpSchemas (node_schemas (ap_engine s))), s))"

definition http_create_workflow :: "'w api_env \<Rightarrow> caller \<Rightarrow> workflow \<Rightarrow> 'w api_endpoint" where
  "http_create_workflow env c w0 =
     require c Edit ''*'' None
     (with_value (\<lambda>s. if wf_id w0 = [] then (case ee_uuid (ae_engine env) (eg_world (ap_engine s)) of (i, w) \<Rightarrow>
          (i, s\<lparr>ap_engine := (ap_engine s)\<lparr>eg_world := w\<rparr>\<rparr>)) else (wf_id w0, s)) (\<lambda>i.
      with_value (\<lambda>s. case ee_now (ae_engine env) (eg_world (ap_engine s)) of (t, w) \<Rightarrow>
          (t, s\<lparr>ap_engine := (ap_engine s)\<lparr>eg_world := w\<rparr>\<rparr>)) (\<lambda>now.
      let w1 = w0\<lparr>wf_id := i, wf_created_at := now, wf_updated_at := now\<rparr> in
      on_result (on_engine (create_workflow (ae_engine env) w1)) (\<lambda>r. case r of
          Inr _ \<Rightarrow> on_result (on_port (ee_get_workflow (ae_engine env) i)) (\<lambda>r. case r of
              Inl _ \<Rightarrow> answer (Fail 500 ''failed to reload created workflow'')
            | Inr created \<Rightarrow> refresh_workflow_triggers env created (answer (Data 201 (RpWorkflow created))))
        | Inl e \<Rightarrow> answer (validation_or ''failed to create workflow'' e)))))"

definition all_items :: list_options where
  "all_items = \<lparr>lo_offset = 0, lo_limit = 2 ^ 63 - 1\<rparr>"

text \<open>
  Both list endpoints: the page of the store for a caller who may view everything, else the page of the
  items the caller may view. A panic of \<open>paginate\<close>, for which the list would have to be longer than
  memory, is written as a 500.
\<close>

definition list_visible ::
  "caller \<Rightarrow> pagination_params \<Rightarrow> (list_options \<Rightarrow> ('w api, 'x list \<times> int) act) \<Rightarrow> ('x \<Rightarrow> string) \<Rightarrow>
     ('x list \<Rightarrow> int \<Rightarrow> int \<Rightarrow> int \<Rightarrow> api_reply) \<Rightarrow> string \<Rightarrow> 'w api_endpoint" where
  "list_visible c params fetch wid_of reply failure =
     (let opts = to_list_options params; can_view_all = may c View ''*'' None in
      on_result (fetch (if can_view_all then opts else all_items)) (\<lambda>r. case r of
          Inl _ \<Rightarrow> answer (Fail 500 failure)
        | Inr (xs, n) \<Rightarrow>
            if can_view_all then answer (Data 200 (reply xs n (lo_offset opts) (lo_limit opts)))
            else
              let visible = filter (\<lambda>x. may c View (wid_of x) None) xs in
              (case paginate visible opts of
                 None \<Rightarrow> answer (Fail 500 ''panic'')
               | Some page \<Rightarrow> answer (Data 200 (reply page (int (length visible)) (lo_offset opts) (lo_limit opts))))))"

definition http_list_workflows :: "'w api_env \<Rightarrow> caller \<Rightarrow> pagination_params \<Rightarrow> 'w api_endpoint" where
  "http_list_workflows env c params =
     list_visible c params (\<lambda>opts. on_port (ae_list_workflows env opts)) wf_id RpWorkflows ''failed to list workflows''"

definition http_get_workflow :: "'w api_env \<Rightarrow> caller \<Rightarrow> string \<Rightarrow> 'w api_endpoint" where
  "http_get_workflow env c wid =
     require c View wid None
     (on_result (on_port (ee_get_workflow (ae_engine env) wid)) (\<lambda>r. case r of
         Inr w \<Rightarrow> answer (Data 200 (RpWorkflow w))
       | Inl e \<Rightarrow> answer (if e = NotFound then Fail 404 ''workflow not found'' else Fail 500 ''failed to get workflow'')))"

definition http_update_workflow :: "'w api_env \<Rightarrow> caller \<Rightarrow> string \<Rightarrow> workflow \<Rightarrow> 'w api_endpoint" where
  "http_update_workflow env c wid w0 =
     require c Edit wid None
     (on_result (on_engine (update_workflow (ae_engine env) (w0\<lparr>wf_id := wid\<rparr>))) (\<lambda>r. case r of
         Inr _ \<Rightarrow> on_result (on_port (ee_get_workflow (ae_engine env) wid)) (\<lambda>r. case r of
             Inl _ \<Rightarrow> answer (Fail 500 ''failed to reload updated workflow'')
           | Inr updated \<Rightarrow> refresh_workflow_triggers env updated (answer (Data 200 (RpWorkflow updated))))
       | Inl e \<Rightarrow> answer (
           if e = NotFound then Fail 404 ''workflow not found''
           else if e = Conflict then Fail 409 (''version conflict '' @ em_dash @ '' reload and retry'')
           else validation_or ''failed to update workflow'' e)))"

definition http_delete_workflow :: "'w api_env \<Rightarrow> caller \<Rightarrow> string \<Rightarrow> 'w api_endpoint" where
  "http_delete_workflow env c wid =
     require c Delete wid None
     (on_result (on_port (ae_delete_workflow env wid)) (\<lambda>r. case r of
         Inr _ \<Rightarrow> unregister_workflow_triggers env wid (answer (Data 200 RpDeleted))
       | Inl e \<Rightarrow> answer (if e = NotFound then Fail 404 ''workflow not found'' else Fail 500 ''failed to delete workflow'')))"

definition http_start_workflow :: "'w api_env \<Rightarrow> caller \<Rightarrow> string \<Rightarrow> jmap \<Rightarrow> 'w api_endpoint" where
  "http_start_workflow env c wid input =
     require c Execute wid None
     (limited env wid
     (on_result (on_engine (start_workflow_for_owner (ae_engine env) wid input (ca_user c))) (\<lambda>r. case r of
         Inr inst \<Rightarrow> answer (Data 200 (RpInstance inst))
       | Inl NotFound \<Rightarrow> answer (Fail 404 ''workflow not found'')
       | Inl (Forbidden msg) \<Rightarrow> answer (Fail 403 msg)
       | Inl e \<Rightarrow> answer (validation_or ''failed to start workflow'' e))))"

record test_node_request =
  tq_node_id :: string
  tq_cached_outputs :: "(string, jmap) fmap"

definition http_test_node :: "'w api_env \<Rightarrow> caller \<Rightarrow> string \<Rightarrow> test_node_request \<Rightarrow> 'w api_endpoint" where
  "http_test_node env c wid req =
     require c Execute wid None
     (reject_when (tq_node_id req = []) (Fail 400 ''node_id is required'')
     (limited env wid
     (on_result (on_engine (test_node (ae_engine env) (ae_timed env) wid (tq_node_id req) (tq_cached_outputs req)
          (Some (ca_user c)))) (\<lambda>r. case r of
         Inr res \<Rightarrow> answer (Data 200 (RpTest res))
       | Inl NotFound \<Rightarrow> answer (Fail 404 ''workflow not found'')
       | Inl NodeNotFound \<Rightarrow> answer (Fail 422 ''node executor not found'')
       | Inl _ \<Rightarrow> answer (Fail 500 ''failed to test node'')))))"

definition emit_event_trigger :: "'w api_env \<Rightarrow> caller \<Rightarrow> string \<Rightarrow> jmap \<Rightarrow> 'w api_endpoint" where
  "emit_event_trigger env c name payload =
     (let event_name = trim name in
      reject_when (event_name = []) (Fail 400 ''event_name is required'')
      (reject_when (length event_name > 256) (Fail 400 ''event_name must not exceed 256 characters'')
      (require c Execute ''*'' None
      (case ae_registry env of
         None \<Rightarrow> answer (Fail 503 ''trigger manager not available'')
       | Some registry \<Rightarrow> on_result (on_port (rg_emit registry event_name payload)) (\<lambda>r. case r of
             Inr _ \<Rightarrow> answer (Data 202 (RpAccepted event_name))
           | Inl _ \<Rightarrow> answer (Fail 500 ''failed to emit event''))))))"

section \<open>Instances\<close>

definition http_list_instances :: "'w api_env \<Rightarrow> caller \<Rightarrow> pagination_params \<Rightarrow> 'w api_endpoint" where
  "http_list_instances env c params =
     list_visible c params (\<lambda>opts. on_port (ae_list_instances env opts)) in_workflow_id RpInstances
       ''failed to list instances''"

definition http_get_instance :: "'w api_env \<Rightarrow> caller \<Rightarrow> string \<Rightarrow> 'w api_endpoint" where
  "http_get_instance env c i = authorize_instance env c i View None (\<lambda>inst. answer (Data 200 (RpInstance inst)))"

definition http_cancel_instance :: "'w api_env \<Rightarrow> caller \<Rightarrow> string \<Rightarrow> 'w api_endpoint" where
  "http_cancel_instance env c i = authorize_instance env c i Execute None (\<lambda>_.
     on_result (on_engine (cancel_instance (ae_engine env) i)) (\<lambda>r. case r of
         Inr _ \<Rightarrow> answer (Data 200 (RpStatus ''cancelled''))
       | Inl e \<Rightarrow> answer (if e = NotFound then Fail 404 ''instance not found'' else Fail 500 ''failed to cancel instance'')))"

text \<open>The identity of the reviewer is that of the caller; the one in the body is ignored.\<close>

record reject_request =
  rj_reason :: "string option"
  rj_rejected_by :: "string option"

definition http_approve_node :: "'w api_env \<Rightarrow> caller \<Rightarrow> string \<Rightarrow> string \<Rightarrow> string option \<Rightarrow> 'w api_endpoint" where
  "http_approve_node env c i nid approved_by = authorize_instance env c i Approve (Some nid) (\<lambda>_.
     on_result (on_engine (approve_node (ae_engine env) i nid (Some (ca_user c)))) (\<lambda>r. case r of
         Inr _ \<Rightarrow> answer (Data 200 (RpStatus ''approved''))
       | Inl e \<Rightarrow> answer (if e = NotFound then Fail 404 ''instance or node not found''
                         else validation_or ''failed to approve node'' e)))"

definition http_reject_node :: "'w api_env \<Rightarrow> caller \<Rightarrow> string \<Rightarrow> string \<Rightarrow> reject_request \<Rightarrow> 'w api_endpoint" where
  "http_reject_node env c i nid body = authorize_instance env c i Approve (Some nid) (\<lambda>_.
     on_result (on_engine (reject_node (ae_engine env) i nid (rj_reason body) (Some (ca_user c)))) (\<lambda>r. case r of
         Inr _ \<Rightarrow> answer (Data 200 (RpStatus ''rejected''))
       | Inl e \<Rightarrow> answer (if e = NotFound then Fail 404 ''instance or node not found''
                         else validation_or ''failed to reject node'' e)))"

section \<open>Requests\<close>

datatype api_request =
    CreateWorkflow workflow
  | ListWorkflows pagination_params
  | GetWorkflow string
  | UpdateWorkflow string workflow
  | DeleteWorkflow string
  | StartWorkflow string jmap
  | TestNodeRq string test_node_request
  | EmitEvent string jmap
  | ListInstances pagination_params
  | GetInstance string
  | CancelInstance string
  | ApproveNode string string "string option"
  | RejectNode string string reject_request

definition serve_api :: "'w api_env \<Rightarrow> caller \<Rightarrow> api_request \<Rightarrow> 'w api_endpoint" where
  "serve_api env c rq = (case rq of
       CreateWorkflow w \<Rightarrow> http_create_workflow env c w
     | ListWorkflows p \<Rightarrow> http_list_workflows env c p
     | GetWorkflow wid \<Rightarrow> http_get_workflow env c wid
     | UpdateWorkflow wid w \<Rightarrow> http_update_workflow env c wid w
     | DeleteWorkflow wid \<Rightarrow> http_delete_workflow env c wid
     | StartWorkflow wid input \<Rightarrow> http_start_workflow env c wid input
     | TestNodeRq wid req \<Rightarrow> http_test_node env c wid req
     | EmitEvent name payload \<Rightarrow> emit_event_trigger env c name payload
     | ListInstances p \<Rightarrow> http_list_instances env c p
     | GetInstance i \<Rightarrow> http_get_instance env c i
     | CancelInstance i \<Rightarrow> http_cancel_instance env c i
     | ApproveNode i nid by' \<Rightarrow> http_approve_node env c i nid by'
     | RejectNode i nid body \<Rightarrow> http_reject_node env c i nid body)"

section \<open>Permissions\<close>

text \<open>What a request needs: the permission, workflow and node. The list endpoints need none, a request for an unknown
  instance is answered before its permission is known.\<close>

definition needs :: "'w api_env \<Rightarrow> 'w api \<Rightarrow> api_request \<Rightarrow> (permission \<times> string \<times> string option) option" where
  "needs env s rq =
     (let on_inst = (\<lambda>i p nid. case stored_at (ae_engine env) (ap_engine s) i of
                  Inl _ \<Rightarrow> None | Inr inst \<Rightarrow> Some (p, in_workflow_id inst, nid)) in
      case rq of
        CreateWorkflow _ \<Rightarrow> Some (Edit, ''*'', None)
      | ListWorkflows _ \<Rightarrow> None
      | GetWorkflow wid \<Rightarrow> Some (View, wid, None)
      | UpdateWorkflow wid _ \<Rightarrow> Some (Edit, wid, None)
      | DeleteWorkflow wid \<Rightarrow> Some (Delete, wid, None)
      | StartWorkflow wid _ \<Rightarrow> Some (Execute, wid, None)
      | TestNodeRq wid _ \<Rightarrow> Some (Execute, wid, None)
      | EmitEvent _ _ \<Rightarrow> Some (Execute, ''*'', None)
      | ListInstances _ \<Rightarrow> None
      | GetInstance i \<Rightarrow> on_inst i View None
      | CancelInstance i \<Rightarrow> on_inst i Execute None
      | ApproveNode i nid _ \<Rightarrow> on_inst i Approve (Some nid)
      | RejectNode i nid _ \<Rightarrow> on_inst i Approve (Some nid))"

lemma load_instance_run:
  assumes "engine_store (ae_engine env)"
  shows "load_instance_for_permission env i k s =
    (case stored_at (ae_engine env) (ap_engine s) i of
       Inr inst \<Rightarrow> k inst s
     | Inl e \<Rightarrow> (if e = NotFound then Fail 404 ''instance not found'' else Fail 500 ''failed to get instance'', s))"
proof -
  have "snd (ee_get_instance (ae_engine env) i w) = w" for w
    by (rule instance_store.get_pure [OF engine_store.axioms(1) [OF assms]])
  then have "on_port (ee_get_instance (ae_engine env) i) s = (stored_at (ae_engine env) (ap_engine s) i, s)"
    by (simp add: on_port_def on_engine_def portG_def stored_at_def split_beta)
  then show ?thesis by (simp add: load_instance_for_permission_def endpoint_simps split: sum.split)
qed

text \<open>The one check that comes before the permission: an event must have a name of at most 256 characters.\<close>

definition nameless_event :: "api_request \<Rightarrow> bool" where
  "nameless_event rq = (case rq of
       EmitEvent name _ \<Rightarrow> trim name = [] \<or> length (trim name) > 256
     | _ \<Rightarrow> False)"

text \<open>C24. A request that needs a permission its caller lacks has no effect: neither the engine, the world nor the
  limiter changes. The answer is 403 with one message for all routes; only an event without a proper name is
  answered 400.\<close>

theorem unpermitted_no_effect:
  assumes "engine_store (ae_engine env)" and "needs env s rq = Some (p, wid, nid)" and "\<not> may c p wid nid"
  shows "snd (serve_api env c rq s) = s \<and>
    (if nameless_event rq then http_status (fst (serve_api env c rq s)) = 400
     else fst (serve_api env c rq s) = Fail 403 ''Forbidden: insufficient permissions'')"
  using assms(2,3)
  by (cases rq)
     (auto simp: needs_def nameless_event_def serve_api_def Let_def endpoint_simps authorize_instance_def
       load_instance_run [OF assms(1)] emit_event_trigger_def
       http_create_workflow_def http_get_workflow_def http_update_workflow_def http_delete_workflow_def
       http_start_workflow_def http_test_node_def http_get_instance_def http_cancel_instance_def
       http_approve_node_def http_reject_node_def split: sum.splits)

section \<open>Lists\<close>

lemma paginate_in: "paginate xs opts = Some ys \<Longrightarrow> y \<in> set ys \<Longrightarrow> y \<in> set xs"
  by (auto simp: paginate_def Let_def split: if_splits dest!: in_set_takeD in_set_dropD)

lemma list_visible_data:
  assumes "list_visible c params fetch wid_of reply failure s = (Data st rp, s')" and "\<not> may c View ''*'' None"
  shows "\<exists>xs n page. fetch all_items s = (Inr (xs, n), s') \<and>
    rp = reply page (int (length (filter (\<lambda>x. may c View (wid_of x) None) xs)))
           (lo_offset (to_list_options params)) (lo_limit (to_list_options params)) \<and>
    (\<forall>x \<in> set page. may c View (wid_of x) None)"
proof -
  let ?opts = "to_list_options params" and ?seen = "filter (\<lambda>x. may c View (wid_of x) None)"
  from assms obtain xs n page where p: "fetch all_items s = (Inr (xs, n), s')" "paginate (?seen xs) ?opts = Some page"
    "rp = reply page (int (length (?seen xs))) (lo_offset ?opts) (lo_limit ?opts)"
    by (auto simp: list_visible_def Let_def endpoint_simps split: prod.splits sum.splits option.splits)
  from paginate_in [OF p(2)] have "\<forall>x \<in> set page. may c View (wid_of x) None" by auto
  with p(1,3) show ?thesis by blast
qed

text \<open>The lists show a caller who may not view everything nothing but workflows, and instances of workflows, that
  the caller may view, and the total counts exactly those.\<close>

theorem lists_only_visible:
  assumes "\<not> may c View ''*'' None"
  shows "(serve_api env c (ListWorkflows params) s = (Data st (RpWorkflows ws n off l), s') \<longrightarrow>
      (\<forall>w \<in> set ws. may c View (wf_id w) None) \<and>
      (\<exists>all m. on_port (ae_list_workflows env all_items) s = (Inr (all, m), s') \<and>
         n = int (length (filter (\<lambda>w. may c View (wf_id w) None) all)))) \<and>
    (serve_api env c (ListInstances params) s = (Data st (RpInstances is n off l), s') \<longrightarrow>
      (\<forall>i \<in> set is. may c View (in_workflow_id i) None) \<and>
      (\<exists>all m. on_port (ae_list_instances env all_items) s = (Inr (all, m), s') \<and>
         n = int (length (filter (\<lambda>i. may c View (in_workflow_id i) None) all))))"
  using assms
  by (auto simp: serve_api_def http_list_workflows_def http_list_instances_def dest!: list_visible_data)

section \<open>Statuses\<close>

lemma cancel_ended:
  assumes "engine_store env" and "stored_at env g i = Inr inst" and "inst_terminal inst"
  shows "fst (cancel_instance env i g) = Inl InvalidStatus"
proof -
  have "snd (ee_get_instance env i w) = w" for w
    by (rule instance_store.get_pure [OF engine_store.axioms(1) [OF assms(1)]])
  then have "portG (ee_get_instance env i) (eg_mu_update (insert i) g) = (Inr inst, eg_mu_update (insert i) g)"
    using assms(2) by (simp add: portG_def stored_at_def split_beta)
  with assms(3) show ?thesis
    by (simp add: cancel_instance_def lock_instance_def seqE_def bindE_def modifyE_def with_inst_def cancel_body_def get_inst_def
        getsE_def raise_def)
qed

text \<open>Two errors that the interface has statuses for are answered 500: the cancellation of an ended instance
  (InvalidStatus, 422) and a start over budget (BudgetExceeded, 429).\<close>

theorem known_errors_as_500:
  assumes "engine_store (ae_engine env)" and "stored_at (ae_engine env) (ap_engine s) i = Inr inst" and "inst_terminal inst"
    and "may c Execute (in_workflow_id inst) None"
    and "may c Execute wid None" and "ae_instant env (eg_world (ap_engine s)) = (now, w)"
    and "fst (limiter_check wid now (ap_limiter s))"
    and "fst (start_workflow_for_owner (ae_engine env) wid input (ca_user c) ((ap_engine s)\<lparr>eg_world := w\<rparr>)) = Inl (BudgetExceeded m)"
  shows "http_status (fst (serve_api env c (CancelInstance i) s)) = 500 \<and> error_to_status InvalidStatus = 422 \<and>
    http_status (fst (serve_api env c (StartWorkflow wid input) s)) = 500 \<and> error_to_status (BudgetExceeded m) = 429"
proof (intro conjI)
  show "http_status (fst (serve_api env c (CancelInstance i) s)) = 500"
    using assms(2,4) cancel_ended [OF assms(1-3)]
    by (auto simp: serve_api_def http_cancel_instance_def authorize_instance_def load_instance_run [OF assms(1)] endpoint_simps
        on_engine_def split: prod.split)
  obtain m' where l: "limiter_check wid now (ap_limiter s) = (True, m')"
    using assms(7) by (cases "limiter_check wid now (ap_limiter s)") simp
  show "http_status (fst (serve_api env c (StartWorkflow wid input) s)) = 500"
    using assms(5,6,8) l
    by (auto simp: serve_api_def http_start_workflow_def limited_def endpoint_simps on_engine_def Let_def validation_or_def
        is_validation_error_def split: prod.split)
qed (simp_all add: error_to_status_def is_validation_error_def)

section \<open>Examples\<close>

definition paged_port :: "(mem_store \<Rightarrow> 'a option) \<Rightarrow> (mem_world, 'a) act" where
  "paged_port f = on_store (\<lambda>s. case f s of None \<Rightarrow> (Inl (Internal ''panic''), s) | Some x \<Rightarrow> (Inr x, s))"

definition mem_api_env :: "mem_world api_env" where
  "mem_api_env =
     \<lparr>ae_engine = mem_env\<lparr>ee_check_budget := Some (\<lambda>_ w. (Inr (Some \<lparr>ab_id = ''b'', ab_workflow_id = None, ab_team = None,
        ab_period = Daily, ab_limit_usd = F 0, ab_current_usd = F 0, ab_reset_at = 0, ab_created_at = 0\<rparr>), w))\<rparr>,
      ae_list_workflows = (\<lambda>opts. paged_port (ms_list_workflows opts)),
      ae_delete_workflow = (\<lambda>i. on_store (ms_delete_workflow i)),
      ae_list_instances = (\<lambda>opts. paged_port (ms_list_instances opts)),
      ae_registry = None, ae_instant = ee_now mem_env, ae_timed = id\<rparr>"

lemma mem_api_store: "engine_store (ae_engine mem_api_env)"
  using mem_engine.engine_store_axioms
  unfolding engine_store_def engine_store_axioms_def mem_api_env_def by simp

definition api_of :: "mem_world engine \<Rightarrow> mem_world api" where
  "api_of g = \<lparr>ap_engine = g, ap_limiter = fmempty\<rparr>"

definition stranger :: caller where
  "stranger = \<lparr>ca_policy = Some rbac_with_defaults, ca_bootstrap = None, ca_user = ''eve''\<rparr>"

definition anyone :: caller where
  "anyone = \<lparr>ca_policy = None, ca_bootstrap = None, ca_user = ''bob''\<rparr>"

lemma stranger_may [simp]: "\<not> may stranger p wid nid"
  by (simp add: stranger_def may_def http_has_permission_def rbac_with_defaults_def)

lemma anyone_may [simp]: "may anyone p wid nid"
  by (simp add: anyone_def may_def http_has_permission_def)

lemma mem_api_stored [simp]: "stored_at (ae_engine mem_api_env) g i = stored_at mem_env g i"
  by (simp add: stored_at_def mem_api_env_def)

theorem unpermitted_no_effect_witness:
  "serve_api mem_api_env stranger (CancelInstance ''inst-1'') (api_of (serving diamond in_flight)) =
     (Fail 403 ''Forbidden: insufficient permissions'', api_of (serving diamond in_flight))"
proof -
  have "needs mem_api_env (api_of (serving diamond in_flight)) (CancelInstance ''inst-1'') =
      Some (Execute, in_workflow_id in_flight, None)"
    by (simp add: needs_def Let_def api_of_def in_flight_facts)
  from unpermitted_no_effect [OF mem_api_store this, of stranger] show ?thesis
    by (simp add: nameless_event_def prod_eq_iff)
qed

lemma stranger_list:
  "serve_api mem_api_env stranger (ListWorkflows \<lparr>pp_offset = None, pp_limit = None\<rparr>) (api_of (serving diamond in_flight)) =
     (Data 200 (RpWorkflows [] 0 0 20), api_of (serving diamond in_flight))"
  by (simp add: serve_api_def http_list_workflows_def list_visible_def endpoint_simps to_list_options_def all_items_def
      mem_api_env_def paged_port_def on_port_def on_engine_def portG_def on_store_def ms_list_workflows_def api_of_def
      paged_def paginate_def DEFAULT_PAGE_SIZE_def)

theorem lists_only_visible_witness:
  "\<exists>all m. on_port (ae_list_workflows mem_api_env all_items) (api_of (serving diamond in_flight)) =
     (Inr (all, m), api_of (serving diamond in_flight)) \<and> length (filter (\<lambda>w. may stranger View (wf_id w) None) all) = 0"
  using lists_only_visible [of stranger mem_api_env, OF stranger_may, THEN conjunct1, rule_format, OF stranger_list] by auto

theorem known_errors_as_500_witness:
  "http_status (fst (serve_api mem_api_env anyone (StartWorkflow ''wf-1'' fmempty)
     (api_of (serving diamond (in_flight\<lparr>in_status := ICompleted\<rparr>))))) = 500"
proof -
  let ?i = "in_flight\<lparr>in_status := ICompleted\<rparr>" and ?g = "serving diamond (in_flight\<lparr>in_status := ICompleted\<rparr>)"
  have i: "in_id ?i = ''inst-1''" "inst_terminal ?i" by (simp_all add: in_flight_facts inst_terminal_def)
  have st: "stored_at (ae_engine mem_api_env) (ap_engine (api_of ?g)) ''inst-1'' = Inr ?i"
    using serving_stored [of diamond ?i] i(1) by (simp add: api_of_def)
  have t: "ae_instant mem_api_env (eg_world (ap_engine (api_of ?g))) = (0, (eg_world ?g)\<lparr>mw_clock := 1\<rparr>)"
    by (simp add: mem_api_env_def api_of_def serving_def engine_new_def mem_world_of_def)
  have b: "fst (start_workflow_for_owner (ae_engine mem_api_env) ''wf-1'' fmempty (ca_user anyone)
      ((ap_engine (api_of ?g))\<lparr>eg_world := (eg_world ?g)\<lparr>mw_clock := 1\<rparr>\<rparr>)) =
    Inl (BudgetExceeded ''Budget exceeded for workflow'')"
    by code_simp
  have l: "fst (limiter_check ''wf-1'' 0 (ap_limiter (api_of ?g)))"
    by (simp add: limiter_check_def api_of_def EVICTION_THRESHOLD_def)
  show ?thesis
    using known_errors_as_500 [OF mem_api_store st i(2) anyone_may anyone_may t l b] by blast
qed

end
