(* ===== verification/CredentialApi.thy ===== *)
theory CredentialApi
  imports Http MemStore CredentialSchemas MemWorld
begin

text \<open>
  The credential endpoints, \<open>crates/orbflow-httpapi/src/handlers.rs\<close>. The secrets of a stored credential never
  leave the server (an answer carries a summary), so an update must keep the secrets that a client
  sends back redacted.
\<close>

section \<open>Ports and requests\<close>

record 'w credential_port =
  kp_create :: "credential \<Rightarrow> ('w, unit) act"
  kp_list_for_owner :: "string option \<Rightarrow> ('w, credential_summary list) act"
  kp_get_for_owner :: "string \<Rightarrow> string option \<Rightarrow> ('w, credential) act"
  kp_update :: "credential \<Rightarrow> ('w, unit) act"
  kp_delete :: "string \<Rightarrow> string option \<Rightarrow> ('w, unit) act"

text \<open>\<open>ser_len\<close> is the length of the serialised data, if it can be serialised.\<close>

record 'w credential_api_env =
  ke_store :: "'w credential_port option"
  ke_ser_len :: "jmap \<Rightarrow> nat option"
  ke_now :: "'w \<Rightarrow> int \<times> 'w"
  ke_uuid :: "'w \<Rightarrow> string \<times> 'w"

text \<open>An update may leave out any field; the description is an option of an option.\<close>

record update_credential_request =
  uq_name :: "string option"
  uq_type :: "string option"
  uq_data :: "jmap option"
  uq_description :: "string option option"

datatype credential_reply = RkSummary credential_summary | RkSummaries "credential_summary list" | RkStatus string

type_synonym 'w credential_endpoint = "('w, credential_reply) endpoint"

section \<open>Redacted values\<close>

text \<open>Asterisks, bullets, black circles and middle dots, in UTF-8.\<close>

definition mask_len :: "string \<Rightarrow> nat" where
  "mask_len s = (case map of_char (take 3 s) :: nat list of
       a # xs \<Rightarrow>
         if a = 0x2A then 1
         else if a = 0xC2 then (case xs of b # _ \<Rightarrow> if b = 0xB7 then 2 else 0 | [] \<Rightarrow> 0)
         else if a = 0xE2 \<and> (xs = [0x80, 0xA2] \<or> xs = [0x97, 0x8F]) then 3 else 0
     | [] \<Rightarrow> 0)"

fun only_mask :: "string \<Rightarrow> bool" where
  "only_mask [] = True"
| "only_mask (c # cs) = (mask_len (c # cs) \<noteq> 0 \<and> only_mask (drop (mask_len (c # cs) - 1) cs))"

definition is_redacted_secret_value :: "json \<Rightarrow> bool" where
  "is_redacted_secret_value v = (case v of
       JNull \<Rightarrow> True
     | JString s \<Rightarrow>
         let trimmed = trim s in
         trimmed = [] \<or> eq_ignore_ascii_case trimmed ''[redacted]'' \<or> eq_ignore_ascii_case trimmed ''redacted'' \<or>
         only_mask trimmed
     | _ \<Rightarrow> False)"

text \<open>Of a type with a schema its secrets are protected; of another type everything that is stored.\<close>

definition protected_key :: "credential \<Rightarrow> string \<Rightarrow> string \<Rightarrow> bool" where
  "protected_key existing credential_type key =
     (if schema_of credential_type \<noteq> None then key \<in> secret_keys credential_type
      else fmlookup (cd_data existing) key \<noteq> None)"

definition merge_credential_data :: "credential \<Rightarrow> jmap option \<Rightarrow> string \<Rightarrow> jmap" where
  "merge_credential_data existing new_data credential_type =
     (case new_data of
        None \<Rightarrow> cd_data existing
      | Some m \<Rightarrow>
          if m = fmempty then cd_data existing
          else fold (\<lambda>(key, value) merged.
                 if protected_key existing credential_type key \<and> is_redacted_secret_value value then merged
                 else fmupd key value merged)
               (fm_items m) (cd_data existing))"

section \<open>Endpoints\<close>

text \<open>What all of them begin with.\<close>

definition with_credentials :: "'w credential_api_env \<Rightarrow> caller \<Rightarrow> ('w credential_port \<Rightarrow> 'w credential_endpoint) \<Rightarrow> 'w credential_endpoint" where
  "with_credentials env c k =
     require c ManageCredentials ''*'' None
     (case ke_store env of
        None \<Rightarrow> answer (Fail 404 ''credentials API not enabled'')
      | Some st \<Rightarrow> k st)"

definition create_credential :: "'w credential_api_env \<Rightarrow> caller \<Rightarrow> create_credential_request \<Rightarrow> 'w credential_endpoint" where
  "create_credential env c req = with_credentials env c (\<lambda>st.
     with_value (ke_uuid env) (\<lambda>i.
     with_value (ke_now env) (\<lambda>now.
     case into_credential (ke_ser_len env) i now req of
       Inl e \<Rightarrow> answer (write_safe_error e)
     | Inr cred0 \<Rightarrow>
         let cred = cred0\<lparr>cd_owner_id := Some (ca_user c)\<rparr> in
         on_result (kp_create st cred) (\<lambda>r. case r of
             Inr _ \<Rightarrow> answer (Data 201 (RkSummary (summary_of cred)))
           | Inl e \<Rightarrow> answer (if e = AlreadyExists then Fail 409 ''credential already exists''
                             else Fail 500 ''failed to create credential'')))))"

definition list_credentials :: "'w credential_api_env \<Rightarrow> caller \<Rightarrow> 'w credential_endpoint" where
  "list_credentials env c = with_credentials env c (\<lambda>st.
     on_result (kp_list_for_owner st (Some (ca_user c))) (\<lambda>r. case r of
         Inr creds \<Rightarrow> answer (Data 200 (RkSummaries creds))
       | Inl _ \<Rightarrow> answer (Fail 500 ''failed to list credentials'')))"

definition with_id :: "string \<Rightarrow> (string \<Rightarrow> 'w credential_endpoint) \<Rightarrow> 'w credential_endpoint" where
  "with_id i k = (case credential_id_new i of Inl e \<Rightarrow> answer (write_safe_error e) | Inr j \<Rightarrow> k j)"

definition get_credential :: "'w credential_api_env \<Rightarrow> caller \<Rightarrow> string \<Rightarrow> 'w credential_endpoint" where
  "get_credential env c i = with_credentials env c (\<lambda>st. with_id i (\<lambda>cred_id.
     on_result (kp_get_for_owner st cred_id (Some (ca_user c))) (\<lambda>r. case r of
         Inr cred \<Rightarrow> answer (Data 200 (RkSummary (summary_of cred)))
       | Inl e \<Rightarrow> answer (if e = NotFound then Fail 404 ''credential not found'' else Fail 500 ''failed to get credential''))))"

text \<open>The data of an update: new data for a new type, else the merge with the stored data.\<close>

definition updated_data :: "credential \<Rightarrow> update_credential_request \<Rightarrow> string \<Rightarrow> credential_reply response + jmap" where
  "updated_data existing req credential_type =
     (if credential_type \<noteq> cd_type existing then
        (case uq_data req of
           None \<Rightarrow> Inl (Fail 400 ''credential type change requires explicit credential data'')
         | Some m \<Rightarrow>
             if m = fmempty \<or> fm_any is_redacted_secret_value m
             then Inl (Fail 400 ''credential type change requires explicit secret values'')
             else Inr m)
      else Inr (merge_credential_data existing (uq_data req) credential_type))"

definition update_credential :: "'w credential_api_env \<Rightarrow> caller \<Rightarrow> string \<Rightarrow> update_credential_request \<Rightarrow> 'w credential_endpoint" where
  "update_credential env c i req = with_credentials env c (\<lambda>st. with_id i (\<lambda>cred_id.
     on_result (kp_get_for_owner st cred_id (Some (ca_user c))) (\<lambda>r. case r of
         Inl e \<Rightarrow> answer (if e = NotFound then Fail 404 ''credential not found'' else Fail 500 ''failed to update credential'')
       | Inr existing \<Rightarrow>
           let name = (case uq_name req of None \<Rightarrow> cd_name existing | Some n \<Rightarrow> n);
               credential_type = (case uq_type req of None \<Rightarrow> cd_type existing | Some t \<Rightarrow> t);
               description = (case uq_description req of None \<Rightarrow> cd_description existing | Some d \<Rightarrow> d) in
           (case updated_data existing req credential_type of
              Inl resp \<Rightarrow> answer resp
            | Inr data \<Rightarrow>
                (case validate_credential_request (ke_ser_len env)
                        \<lparr>cq_name = name, cq_type = credential_type, cq_data = data, cq_description = description,
                         cq_access_tier = Some (cd_access_tier existing), cq_policy = cd_policy existing\<rparr> of
                   Inl e \<Rightarrow> answer (write_safe_error e)
                 | Inr _ \<Rightarrow>
                     with_value (ke_now env) (\<lambda>now.
                     let cred = \<lparr>cd_id = cred_id, cd_name = name, cd_type = credential_type, cd_data = data,
                           cd_description = description,
                           cd_owner_id = (case cd_owner_id existing of Some o' \<Rightarrow> Some o' | None \<Rightarrow> Some (ca_user c)),
                           cd_access_tier = cd_access_tier existing, cd_policy = cd_policy existing,
                           cd_created_at = cd_created_at existing, cd_updated_at = now\<rparr> in
                     on_result (kp_update st cred) (\<lambda>r. case r of
                         Inr _ \<Rightarrow> answer (Data 200 (RkSummary (summary_of cred)))
                       | Inl e \<Rightarrow> answer (if e = NotFound then Fail 404 ''credential not found''
                                         else Fail 500 ''failed to update credential''))))))))"

definition delete_credential :: "'w credential_api_env \<Rightarrow> caller \<Rightarrow> string \<Rightarrow> 'w credential_endpoint" where
  "delete_credential env c i = with_credentials env c (\<lambda>st. with_id i (\<lambda>cred_id.
     on_result (kp_delete st cred_id (Some (ca_user c))) (\<lambda>r. case r of
         Inr _ \<Rightarrow> answer (Data 200 (RkStatus ''deleted''))
       | Inl e \<Rightarrow> answer (if e = NotFound then Fail 404 ''credential not found'' else Fail 500 ''failed to delete credential''))))"

datatype credential_rq =
    CreateCredential create_credential_request
  | ListCredentials
  | GetCredential string
  | UpdateCredential string update_credential_request
  | DeleteCredential string

definition serve_credentials :: "'w credential_api_env \<Rightarrow> caller \<Rightarrow> credential_rq \<Rightarrow> 'w credential_endpoint" where
  "serve_credentials env c rq = (case rq of
       CreateCredential req \<Rightarrow> create_credential env c req
     | ListCredentials \<Rightarrow> list_credentials env c
     | GetCredential i \<Rightarrow> get_credential env c i
     | UpdateCredential i req \<Rightarrow> update_credential env c i req
     | DeleteCredential i \<Rightarrow> delete_credential env c i)"

section \<open>The endpoints on the in-memory store\<close>

definition mem_credential_env :: "(jmap \<Rightarrow> nat option) \<Rightarrow> mem_world credential_api_env" where
  "mem_credential_env ser_len =
     \<lparr>ke_store = Some
        \<lparr>kp_create = (\<lambda>c. on_store (ms_create_credential c)),
         kp_list_for_owner = (\<lambda>owner. on_store (getsE (ms_list_credentials_for_owner owner))),
         kp_get_for_owner = (\<lambda>i owner. on_store (ms_get_credential_for_owner i owner)),
         kp_update = (\<lambda>c. on_store (ms_update_credential c)),
         kp_delete = (\<lambda>i owner. on_store (ms_delete_credential i owner))\<rparr>,
      ke_ser_len = ser_len, ke_now = ee_now mem_env, ke_uuid = ee_uuid mem_env\<rparr>"

lemma mem_uuid [simp]: "ee_uuid mem_env w = (nat_str (mw_ids w), w\<lparr>mw_ids := mw_ids w + 1\<rparr>)"
  by (simp add: mem_env_def)

lemma safe_error_fails [simp]: "write_safe_error e \<noteq> Data n r" "Data n r \<noteq> write_safe_error e"
  by (auto simp: write_safe_error_def Let_def)

lemma updated_data_fails [simp]: "updated_data existing req t \<noteq> Inl (Data n r)"
  by (auto simp: updated_data_def split: option.split)

lemma credential_id_kept: "credential_id_new i = Inr j \<Longrightarrow> j = i"
  by (simp add: credential_id_new_def split: if_splits)

lemma merge_items:
  assumes "distinct (map fst kvs)"
  shows "fmlookup (fold (\<lambda>(key, value) merged. if P key \<and> R value then merged else fmupd key value merged) kvs m) k =
    (case map_of kvs k of None \<Rightarrow> fmlookup m k | Some v \<Rightarrow> if P k \<and> R v then fmlookup m k else Some v)"
  using assms
proof (induction kvs arbitrary: m)
  case (Cons kv kvs)
  obtain j v where kv: "kv = (j, v)" by force
  with Cons.prems have "map_of kvs j = None" by (simp add: map_of_eq_None_iff)
  with Cons kv show ?case by (auto split: option.split)
qed simp

lemma merged_data:
  "fmlookup (merge_credential_data existing (Some m) t) k =
     (case fmlookup m k of
        None \<Rightarrow> fmlookup (cd_data existing) k
      | Some v \<Rightarrow> if protected_key existing t k \<and> is_redacted_secret_value v then fmlookup (cd_data existing) k else Some v)"
  by (auto simp: merge_credential_data_def merge_items)

lemmas credential_simps = with_credentials_def with_id_def mem_credential_env_def ms_get_credential_for_owner_def
  ms_update_credential_def ms_delete_credential_def ms_create_credential_def wrong_owner_def on_store_def getsE_def
  ms_list_credentials_for_owner_def endpoint_simps

section \<open>Properties\<close>

text \<open>C30. A successful update writes one credential and no other. Its name, type and description are those sent, or
  the stored ones; identity, tier, policy, creation time and owner stay as they are. If the type is unchanged, each key
  gets the value sent, unless that is a redacted value under a protected key; then, and for keys not sent, the stored
  value stays. If the type changes, the data are exactly those sent, none of them redacted and at least one, so nothing
  of the old type's secrets stays.\<close>

theorem update_keeps_secrets:
  assumes "fmlookup (ms_credentials (mw_store w)) i = Some old"
    and "update_credential (mem_credential_env ser_len) c i req w = (Data n r, w')"
  shows "\<exists>new. ms_credentials (mw_store w') = fmupd i new (ms_credentials (mw_store w)) \<and>
    cd_name new = (case uq_name req of None \<Rightarrow> cd_name old | Some x \<Rightarrow> x) \<and>
    cd_type new = (case uq_type req of None \<Rightarrow> cd_type old | Some x \<Rightarrow> x) \<and>
    cd_description new = (case uq_description req of None \<Rightarrow> cd_description old | Some x \<Rightarrow> x) \<and>
    cd_id new = i \<and> cd_owner_id new = cd_owner_id old \<and>
    cd_access_tier new = cd_access_tier old \<and> cd_policy new = cd_policy old \<and> cd_created_at new = cd_created_at old \<and>
    (if cd_type new = cd_type old
     then \<forall>k. fmlookup (cd_data new) k =
       (case uq_data req of None \<Rightarrow> fmlookup (cd_data old) k | Some m \<Rightarrow>
          (case fmlookup m k of
             None \<Rightarrow> fmlookup (cd_data old) k
           | Some v \<Rightarrow> if protected_key old (cd_type old) k \<and> is_redacted_secret_value v
                       then fmlookup (cd_data old) k else Some v))
     else uq_data req = Some (cd_data new) \<and> cd_data new \<noteq> fmempty \<and>
       (\<forall>k v. fmlookup (cd_data new) k = Some v \<longrightarrow> \<not> is_redacted_secret_value v))"
proof -
  have i: "credential_id_new i = Inr i"
    using assms(2) by (auto simp: update_credential_def credential_simps split: if_splits sum.splits dest: credential_id_kept)
  define t where "t = (case uq_type req of None \<Rightarrow> cd_type old | Some x \<Rightarrow> x)"
  obtain data where d: "updated_data old req t = Inr data"
    using assms by (cases "updated_data old req t")
      (auto simp: update_credential_def credential_simps i Let_def t_def [symmetric] split: if_splits)
  have same: "\<forall>k. fmlookup data k = (case uq_data req of None \<Rightarrow> fmlookup (cd_data old) k | Some m \<Rightarrow>
          (case fmlookup m k of
             None \<Rightarrow> fmlookup (cd_data old) k
           | Some v \<Rightarrow> if protected_key old (cd_type old) k \<and> is_redacted_secret_value v
                       then fmlookup (cd_data old) k else Some v))" if "t = cd_type old"
    using d that by (auto simp: updated_data_def merged_data merge_credential_data_def [of _ None] split: option.split)
  have other: "uq_data req = Some data \<and> data \<noteq> fmempty \<and>
      (\<forall>k v. fmlookup data k = Some v \<longrightarrow> \<not> is_redacted_secret_value v)" if "t \<noteq> cd_type old"
    using d that by (auto simp: updated_data_def fm_any_iff split: option.splits if_splits)
  define new where "new = \<lparr>cd_id = i, cd_name = (case uq_name req of None \<Rightarrow> cd_name old | Some x \<Rightarrow> x), cd_type = t, cd_data = data,
      cd_description = (case uq_description req of None \<Rightarrow> cd_description old | Some x \<Rightarrow> x), cd_owner_id = cd_owner_id old,
      cd_access_tier = cd_access_tier old, cd_policy = cd_policy old, cd_created_at = cd_created_at old, cd_updated_at = mw_clock w\<rparr>"
  have "ms_credentials (mw_store w') = fmupd i new (ms_credentials (mw_store w))"
    using assms d unfolding new_def
    by (auto simp: update_credential_def credential_simps i Let_def t_def [symmetric] split: if_splits sum.splits)
  with same other show ?thesis by (intro exI [of _ new]) (simp add: new_def t_def)
qed

text \<open>C29. Whatever a caller sends to the credential endpoints, every credential that the caller does not own stays
  as it is, and the answer describes only credentials that the caller owns.\<close>

theorem credential_api_isolated:
  assumes "serve_credentials (mem_credential_env ser_len) c rq w = (resp, w')"
  shows "(\<forall>i old. fmlookup (ms_credentials (mw_store w)) i = Some old \<and> cd_owner_id old \<noteq> Some (ca_user c) \<longrightarrow>
      fmlookup (ms_credentials (mw_store w')) i = Some old) \<and>
    (\<forall>n s. resp = Data n (RkSummary s) \<longrightarrow>
      (\<exists>i cred. cd_owner_id cred = Some (ca_user c) \<and> summary_of cred = s \<and>
         fmlookup (ms_credentials (mw_store w')) i = Some cred)) \<and>
    (\<forall>n ss. resp = Data n (RkSummaries ss) \<longrightarrow>
      (\<forall>s \<in> set ss. \<exists>i cred. cd_owner_id cred = Some (ca_user c) \<and> summary_of cred = s \<and>
         fmlookup (ms_credentials (mw_store w')) i = Some cred))"
proof (cases rq)
  case (CreateCredential req)
  then show ?thesis using assms
    by (auto simp: serve_credentials_def create_credential_def credential_simps Let_def
        intro!: exI [of _ "cd_id cred" for cred] exI [of _ "cred\<lparr>cd_owner_id := Some u\<rparr>" for cred u]
        split: if_splits option.splits sum.splits prod.splits)
next
  case ListCredentials
  then show ?thesis using assms
    by (auto simp: serve_credentials_def list_credentials_def credential_simps set_fm_values split: if_splits; blast)
next
  case (GetCredential i)
  then show ?thesis using assms
    by (auto simp: serve_credentials_def get_credential_def credential_simps
        split: if_splits option.splits sum.splits)
next
  case (UpdateCredential i req)
  then show ?thesis using assms
    by (auto simp: serve_credentials_def update_credential_def credential_simps Let_def
        split: if_splits option.splits sum.splits)
next
  case (DeleteCredential i)
  then show ?thesis using assms
    by (auto simp: serve_credentials_def delete_credential_def credential_simps
        split: if_splits option.splits sum.splits)
qed

text \<open>A password credential of alice: she renames its user and sends the password back masked.\<close>

definition pw_credential :: credential where
  "pw_credential =
     \<lparr>cd_id = ''k'', cd_name = ''mail'', cd_type = ''smtp'',
      cd_data = fmap_of_list [(''username'', JString ''a''), (''password'', JString ''s3cret'')], cd_description = None,
      cd_owner_id = Some ''alice'', cd_access_tier = TierProxy, cd_policy = None, cd_created_at = 0, cd_updated_at = 0\<rparr>"

definition pw_world :: mem_world where
  "pw_world = mem_world_of (mem_store_new\<lparr>ms_credentials := fmupd ''k'' pw_credential fmempty\<rparr>)"

definition masked_update :: update_credential_request where
  "masked_update =
     \<lparr>uq_name = None, uq_type = None,
      uq_data = Some (fmap_of_list [(''username'', JString ''b''), (''password'', JString ''*** '')]), uq_description = None\<rparr>"

definition caller_of :: "string \<Rightarrow> caller" where
  "caller_of u = \<lparr>ca_policy = None, ca_bootstrap = None, ca_user = u\<rparr>"

lemma may_without_policy: "may (caller_of u) p w n"
  by (simp add: may_def caller_of_def http_has_permission_def)

lemma masked_update_succeeds:
  "\<exists>r w'. update_credential (mem_credential_env (\<lambda>_. Some 20)) (caller_of ''alice'') ''k'' masked_update pw_world = (Data 200 r, w')"
  by (simp add: update_credential_def credential_simps may_without_policy [unfolded caller_of_def] pw_world_def mem_world_of_def mem_store_new_def
      credential_id_new_def cred_id_char_def ascii_alnum_def pw_credential_def masked_update_def updated_data_def caller_of_def
      validate_credential_request_def MAX_CREDENTIAL_NAME_LEN_def MAX_CREDENTIAL_DATA_SIZE_def rejectR_def Let_def)

theorem update_keeps_secrets_witness:
  "\<exists>n r w' new. update_credential (mem_credential_env (\<lambda>_. Some 20)) (caller_of ''alice'') ''k'' masked_update pw_world = (Data n r, w') \<and>
     fmlookup (ms_credentials (mw_store w')) ''k'' = Some new \<and>
     fmlookup (cd_data new) ''username'' = Some (JString ''b'') \<and>
     fmlookup (cd_data new) ''password'' = Some (JString ''s3cret'')"
proof -
  obtain r w' where u: "update_credential (mem_credential_env (\<lambda>_. Some 20)) (caller_of ''alice'') ''k'' masked_update pw_world = (Data 200 r, w')"
    using masked_update_succeeds by blast
  have s: "fmlookup (ms_credentials (mw_store pw_world)) ''k'' = Some pw_credential"
    by (simp add: pw_world_def mem_world_of_def)
  have "trim ''*** '' = ''***''" by code_simp
  then have red: "is_redacted_secret_value (JString ''*** '')"
    by (simp add: is_redacted_secret_value_def mask_len_def numeral_2_eq_2 numeral_3_eq_3)
  have p: "protected_key pw_credential ''smtp'' ''password''" "\<not> protected_key pw_credential ''smtp'' ''username''"
    by (simp_all add: protected_key_def secret_keys_builtin schema_of_def CREDENTIAL_SCHEMAS_def)
  from update_keeps_secrets [OF s u]
  obtain new where n: "ms_credentials (mw_store w') = fmupd ''k'' new (ms_credentials (mw_store pw_world))"
    and "\<And>k. fmlookup (cd_data new) k =
       (case uq_data masked_update of None \<Rightarrow> fmlookup (cd_data pw_credential) k | Some m \<Rightarrow>
          (case fmlookup m k of
             None \<Rightarrow> fmlookup (cd_data pw_credential) k
           | Some v \<Rightarrow> if protected_key pw_credential (cd_type pw_credential) k \<and> is_redacted_secret_value v
                       then fmlookup (cd_data pw_credential) k else Some v))"
    by (auto simp: masked_update_def)
  moreover from n have "fmlookup (ms_credentials (mw_store w')) ''k'' = Some new" by simp
  ultimately have "fmlookup (ms_credentials (mw_store w')) ''k'' = Some new \<and>
     fmlookup (cd_data new) ''username'' = Some (JString ''b'') \<and> fmlookup (cd_data new) ''password'' = Some (JString ''s3cret'')"
    using red p by (simp add: masked_update_def pw_credential_def)
  with u show ?thesis by blast
qed

theorem credential_api_isolated_witness:
  "fmlookup (ms_credentials (mw_store (snd (serve_credentials (mem_credential_env (\<lambda>_. Some 20)) (caller_of ''bob'')
     (DeleteCredential ''k'') pw_world)))) ''k'' = Some pw_credential"
proof -
  obtain resp w' where s: "serve_credentials (mem_credential_env (\<lambda>_. Some 20)) (caller_of ''bob'') (DeleteCredential ''k'') pw_world = (resp, w')"
    by force
  have "fmlookup (ms_credentials (mw_store pw_world)) ''k'' = Some pw_credential \<and> cd_owner_id pw_credential \<noteq> Some (ca_user (caller_of ''bob''))"
    by (simp add: pw_world_def mem_world_of_def pw_credential_def caller_of_def)
  with credential_api_isolated [OF s] have "fmlookup (ms_credentials (mw_store w')) ''k'' = Some pw_credential" by blast
  with s show ?thesis by simp
qed

end
