(* ===== verification/PgStore.thy ===== *)
theory PgStore
  imports MemStore AuditTrail Rbac
begin

text \<open>
  The PostgreSQL store, \<open>crates/orbflow-postgres/src\<close>. The state is the tables of \<open>migrate.rs\<close>, an
  operation the effect of its SQL statements on them: primary keys, foreign keys and checks are those of the
  migrations, a statement may also fail on its own (\<open>pe_fault\<close>, by the purpose the code gives in the
  error), and what a transaction did is undone unless it commits. Row locks make an operation one step. Rows
  of equal sort key come in the order of their keys. serde's conversions, the cipher, the hash and the signer
  are parameters.
\<close>

section \<open>Tables\<close>

record workflow_row =
  wr_name :: string
  wr_description :: string
  wr_version :: int
  wr_status :: string
  wr_definition :: json
  wr_created_at :: int
  wr_updated_at :: int

record version_row =
  vr_definition :: json
  vr_author :: "string option"
  vr_message :: "string option"
  vr_created_at :: int

record instance_row =
  ir_workflow_id :: string
  ir_status :: string
  ir_data :: json
  ir_version :: int
  ir_created_at :: int
  ir_updated_at :: int

record pg_event =
  pv_event_type :: string
  pv_created_at :: int
  pv_row :: event_row

record snapshot_row =
  sr_data :: json
  sr_version :: int
  sr_created_at :: int

record change_request_row =
  qr_workflow_id :: string
  qr_title :: string
  qr_description :: "string option"
  qr_proposed_definition :: json
  qr_base_version :: int
  qr_status :: string
  qr_author :: string
  qr_reviewers :: json
  qr_created_at :: int
  qr_updated_at :: int

record comment_row =
  mr_change_request_id :: string
  mr_author :: string
  mr_body :: string
  mr_node_id :: "string option"
  mr_edge_source :: "string option"
  mr_edge_target :: "string option"
  mr_resolved :: bool
  mr_created_at :: int

text \<open>The versions of a workflow are keyed by number, as \<open>UNIQUE(workflow_id, version)\<close> says; the events of an
  instance are listed by id.\<close>

record pg =
  pg_workflows :: "(string, workflow_row) fmap"
  pg_versions :: "string \<Rightarrow> (int, version_row) fmap"
  pg_instances :: "(string, instance_row) fmap"
  pg_events :: "(string, pg_event list) fmap"
  pg_snapshots :: "(string, snapshot_row) fmap"
  pg_change_requests :: "(string, change_request_row) fmap"
  pg_comments :: "(string, comment_row) fmap"

definition pg_empty :: pg where
  "pg_empty =
     \<lparr>pg_workflows = fmempty, pg_versions = (\<lambda>_. fmempty), pg_instances = fmempty, pg_events = fmempty,
      pg_snapshots = fmempty, pg_change_requests = fmempty, pg_comments = fmempty\<rparr>"

datatype db_error = UniqueViolation | ForeignKeyViolation | CheckViolation | OtherDbError string

text \<open>\<open>is_unique_violation\<close>\<close>

fun is_unique_violation :: "db_error \<Rightarrow> bool" where
  "is_unique_violation UniqueViolation = True"
| "is_unique_violation _ = False"

record pg_env =
  pe_fault :: "string \<Rightarrow> db_error option"
  pe_db_str :: "db_error \<Rightarrow> string"
  pe_now :: int
  pe_workflow_json :: "workflow \<Rightarrow> string + json"
  pe_workflow_of :: "json \<Rightarrow> string + workflow"
  pe_instance_json :: "wf_instance \<Rightarrow> string + json"
  pe_instance_of :: "json \<Rightarrow> string + wf_instance"
  pe_event_json :: "domain_event \<Rightarrow> string + json"
  pe_event_of :: "json \<Rightarrow> string + domain_event"
  pe_time_json :: "int \<Rightarrow> json"
  pe_to_vec :: "json \<Rightarrow> string"
  pe_sha :: "string \<Rightarrow> string"
  pe_signer :: "audit_signer option"

section \<open>Statements and transactions\<close>

definition db_failed :: "pg_env \<Rightarrow> string \<Rightarrow> db_error \<Rightarrow> orbflow_error" where
  "db_failed env what e = Database (''postgres: '' @ what @ '': '' @ pe_db_str env e)"

definition or_exists :: "pg_env \<Rightarrow> string \<Rightarrow> db_error \<Rightarrow> orbflow_error" where
  "or_exists env what e = (if is_unique_violation e then AlreadyExists else db_failed env what e)"

text \<open>One statement, with the conversion of its error. It changes nothing when it fails.\<close>

definition pg_exec ::
  "pg_env \<Rightarrow> (pg_env \<Rightarrow> string \<Rightarrow> db_error \<Rightarrow> orbflow_error) \<Rightarrow> string \<Rightarrow> (pg \<Rightarrow> db_error + 'a \<times> pg) \<Rightarrow> (pg, 'a) act" where
  "pg_exec env conv what body = (\<lambda>s. case pe_fault env what of
       Some e \<Rightarrow> (Inl (conv env what e), s)
     | None \<Rightarrow> (case body s of Inl e \<Rightarrow> (Inl (conv env what e), s) | Inr (x, s') \<Rightarrow> (Inr x, s')))"

definition pg_query :: "pg_env \<Rightarrow> string \<Rightarrow> (pg \<Rightarrow> 'a) \<Rightarrow> (pg, 'a) act" where
  "pg_query env what f = pg_exec env db_failed what (\<lambda>s. Inr (f s, s))"

definition pg_tx :: "pg_env \<Rightarrow> string \<Rightarrow> string \<Rightarrow> (pg, 'a) act \<Rightarrow> (pg, 'a) act" where
  "pg_tx env start commit body = (\<lambda>s. case pe_fault env start of
       Some e \<Rightarrow> (Inl (db_failed env start e), s)
     | None \<Rightarrow> (case body s of
         (Inl e, _) \<Rightarrow> (Inl e, s)
       | (Inr x, s') \<Rightarrow> (case pe_fault env commit of
           Some e \<Rightarrow> (Inl (db_failed env commit e), s)
         | None \<Rightarrow> (Inr x, s'))))"

definition serialized :: "string \<Rightarrow> string + 'a \<Rightarrow> ('s, 'a) act" where
  "serialized what r = (case r of Inl e \<Rightarrow> raise (Database (''postgres: serialize '' @ what @ '': '' @ e)) | Inr x \<Rightarrow> ret x)"

definition deserialized :: "string \<Rightarrow> string + 'a \<Rightarrow> 'a result" where
  "deserialized what r = (case r of Inl e \<Rightarrow> Inl (Database (''postgres: deserialize '' @ what @ '': '' @ e)) | Inr x \<Rightarrow> Inr x)"

definition found :: "'a option \<Rightarrow> ('s, 'a) act" where
  "found r = (case r of None \<Rightarrow> raise NotFound | Some x \<Rightarrow> ret x)"

fun all_results :: "'a result list \<Rightarrow> 'a list result" where
  "all_results [] = Inr []"
| "all_results (r # rs) = bindR r (\<lambda>x. bindR (all_results rs) (\<lambda>xs. Inr (x # xs)))"

text \<open>\<open>LIMIT\<close> and \<open>OFFSET\<close> with the total of a window function, which is lost with an empty page.\<close>

definition pg_page :: "list_options \<Rightarrow> 'r list \<Rightarrow> 'r list \<times> int" where
  "pg_page opts rows =
     (let limit = (if lo_limit opts > 0 then lo_limit opts else DEFAULT_PAGE_SIZE);
          page = take (nat limit) (drop (nat (max (lo_offset opts) 0)) rows) in
      (page, if page = [] then 0 else int (length rows)))"

section \<open>Workflows\<close>

definition definition_status_str :: "definition_status \<Rightarrow> string" where
  "definition_status_str st = (case st of Draft \<Rightarrow> ''draft'' | Active \<Rightarrow> ''active'' | Archived \<Rightarrow> ''archived'')"

definition json_or_insert :: "string \<Rightarrow> json \<Rightarrow> jmap \<Rightarrow> jmap" where
  "json_or_insert k v m = (if fmlookup m k = None then fmupd k v m else m)"

definition merge_row_into_definition :: "pg_env \<Rightarrow> string \<Rightarrow> workflow_row \<Rightarrow> json" where
  "merge_row_into_definition env i row = (case wr_definition row of
       JObject m \<Rightarrow> JObject
         (json_or_insert ''updated_at'' (pe_time_json env (wr_updated_at row))
         (json_or_insert ''created_at'' (pe_time_json env (wr_created_at row))
         (json_or_insert ''status'' (JString (wr_status row))
         (json_or_insert ''version'' (JNumber (num_of_i64 (wr_version row)))
         (json_or_insert ''description'' (JString (wr_description row))
         (json_or_insert ''name'' (JString (wr_name row))
         (json_or_insert ''id'' (JString i) m)))))))
     | d \<Rightarrow> d)"

definition row_to_workflow :: "pg_env \<Rightarrow> string \<Rightarrow> workflow_row \<Rightarrow> workflow result" where
  "row_to_workflow env i row =
     deserialized (''workflow '' @ i) (pe_workflow_of env (merge_row_into_definition env i row))"

definition workflow_row_of :: "workflow \<Rightarrow> json \<Rightarrow> workflow_row" where
  "workflow_row_of w d =
     \<lparr>wr_name = wf_name w, wr_description = (case wf_description w of None \<Rightarrow> [] | Some s \<Rightarrow> s), wr_version = wf_version w,
      wr_status = definition_status_str (wf_status w), wr_definition = d, wr_created_at = wf_created_at w,
      wr_updated_at = wf_updated_at w\<rparr>"

definition pg_create_workflow :: "pg_env \<Rightarrow> workflow \<Rightarrow> (pg, unit) act" where
  "pg_create_workflow env w =
     bindE (serialized ''workflow'' (pe_workflow_json env w)) (\<lambda>d.
     pg_exec env or_exists (''create workflow '' @ wf_id w) (\<lambda>s.
       if fmlookup (pg_workflows s) (wf_id w) \<noteq> None then Inl UniqueViolation
       else Inr ((), s\<lparr>pg_workflows := fmupd (wf_id w) (workflow_row_of w d) (pg_workflows s)\<rparr>)))"

definition pg_get_workflow :: "pg_env \<Rightarrow> string \<Rightarrow> (pg, workflow) act" where
  "pg_get_workflow env i =
     bindE (pg_query env (''get workflow '' @ i) (\<lambda>s. fmlookup (pg_workflows s) i)) (\<lambda>r.
     bindE (found r) (\<lambda>row. liftR (row_to_workflow env i row)))"

text \<open>\<open>INSERT INTO workflow_versions \<dots> ON CONFLICT DO NOTHING\<close>\<close>

definition insert_version :: "string \<Rightarrow> int \<Rightarrow> version_row \<Rightarrow> pg \<Rightarrow> db_error + unit \<times> pg" where
  "insert_version i v row s =
     (if fmlookup (pg_versions s i) v \<noteq> None then Inr ((), s)
      else if fmlookup (pg_workflows s) i = None then Inl ForeignKeyViolation
      else Inr ((), s\<lparr>pg_versions := (pg_versions s)(i := fmupd v row (pg_versions s i))\<rparr>))"

definition snapshot_row_of :: "pg_env \<Rightarrow> json \<Rightarrow> version_row" where
  "snapshot_row_of env d = \<lparr>vr_definition = d, vr_author = None, vr_message = None, vr_created_at = pe_now env\<rparr>"

definition update_workflow_row :: "workflow \<Rightarrow> json \<Rightarrow> pg \<Rightarrow> db_error + bool \<times> pg" where
  "update_workflow_row w d s = (case fmlookup (pg_workflows s) (wf_id w) of
       Some row \<Rightarrow>
         if wr_version row = wf_version w - 1
         then Inr (True, s\<lparr>pg_workflows := fmupd (wf_id w) ((workflow_row_of w d)\<lparr>wr_created_at := wr_created_at row\<rparr>) (pg_workflows s)\<rparr>)
         else Inr (False, s)
     | None \<Rightarrow> Inr (False, s))"

definition pg_update_workflow :: "pg_env \<Rightarrow> workflow \<Rightarrow> (pg, unit) act" where
  "pg_update_workflow env w =
     bindE (serialized ''workflow'' (pe_workflow_json env w)) (\<lambda>d.
     pg_tx env (''begin transaction for workflow '' @ wf_id w) (''commit workflow update '' @ wf_id w)
     (bindE (pg_query env (''fetch workflow for snapshot '' @ wf_id w) (\<lambda>s. fmlookup (pg_workflows s) (wf_id w))) (\<lambda>existing_row.
      bindE (case existing_row of
               None \<Rightarrow> ret ()
             | Some row \<Rightarrow> pg_exec env db_failed (''snapshot workflow version '' @ wf_id w)
                 (insert_version (wf_id w) (wr_version row) (snapshot_row_of env (wr_definition row)))) (\<lambda>_.
      bindE (pg_exec env db_failed (''update workflow '' @ wf_id w) (update_workflow_row w d)) (\<lambda>updated.
      if updated then ret ()
      else bindE (pg_query env (''check workflow '' @ wf_id w) (\<lambda>s. fmlookup (pg_workflows s) (wf_id w) \<noteq> None)) (\<lambda>exists.
        raise (if exists then Conflict else NotFound))))))) "

text \<open>Instances refer to their workflow without \<open>CASCADE\<close>; versions and change requests go with it.\<close>

definition pg_delete_workflow :: "pg_env \<Rightarrow> string \<Rightarrow> (pg, unit) act" where
  "pg_delete_workflow env i =
     bindE (pg_exec env db_failed (''delete workflow '' @ i) (\<lambda>s.
       if fmlookup (pg_workflows s) i = None then Inr (False, s)
       else if \<exists>j \<in> fset (fmdom (pg_instances s)). map_option ir_workflow_id (fmlookup (pg_instances s) j) = Some i
       then Inl ForeignKeyViolation
       else let crs = fmfilter (\<lambda>j. map_option qr_workflow_id (fmlookup (pg_change_requests s) j) \<noteq> Some i) (pg_change_requests s) in
         Inr (True, s\<lparr>pg_workflows := fmdrop i (pg_workflows s), pg_versions := (pg_versions s)(i := fmempty),
           pg_change_requests := crs,
           pg_comments := fmfilter (\<lambda>j. case fmlookup (pg_comments s) j of None \<Rightarrow> False
             | Some c \<Rightarrow> fmlookup crs (mr_change_request_id c) \<noteq> None) (pg_comments s)\<rparr>))) (\<lambda>deleted.
     if deleted then ret () else raise NotFound)"

definition newest_first :: "('r \<Rightarrow> int) \<Rightarrow> (string, 'r) fmap \<Rightarrow> (string \<times> 'r) list" where
  "newest_first created m = sort_key (\<lambda>(_, r). - created r) (fm_items m)"

definition pg_list_workflows :: "pg_env \<Rightarrow> list_options \<Rightarrow> (pg, workflow list \<times> int) act" where
  "pg_list_workflows env opts =
     bindE (pg_query env ''list workflows'' (\<lambda>s. pg_page opts (newest_first wr_created_at (pg_workflows s)))) (\<lambda>(rows, n).
     bindE (liftR (all_results (map (\<lambda>(i, row). row_to_workflow env i row) rows))) (\<lambda>ws. ret (ws, n)))"

section \<open>Versions\<close>

definition pg_save_workflow_version :: "pg_env \<Rightarrow> workflow_version \<Rightarrow> (pg, unit) act" where
  "pg_save_workflow_version env v =
     pg_exec env db_failed (''snapshot workflow version '' @ wv_workflow_id v @ ''@v'' @ int_str (wv_version v))
       (insert_version (wv_workflow_id v) (wv_version v) (snapshot_row_of env (wv_definition v)))"

definition row_to_version :: "string \<Rightarrow> int \<Rightarrow> version_row \<Rightarrow> workflow_version" where
  "row_to_version i v row =
     \<lparr>wv_version = v, wv_workflow_id = i, wv_definition = vr_definition row, wv_author = vr_author row,
      wv_message = vr_message row, wv_created_at = vr_created_at row\<rparr>"

definition pg_list_versions :: "pg_env \<Rightarrow> string \<Rightarrow> list_options \<Rightarrow> (pg, workflow_version list \<times> int) act" where
  "pg_list_versions env i opts =
     bindE (pg_query env (''list workflow versions '' @ i)
       (\<lambda>s. pg_page opts (rev (sorted_list_of_fmap (pg_versions s i))))) (\<lambda>(rows, n).
     ret (map (\<lambda>(v, row). row_to_version i v row) rows, n))"

definition pg_get_version :: "pg_env \<Rightarrow> string \<Rightarrow> int \<Rightarrow> (pg, workflow_version) act" where
  "pg_get_version env i v =
     bindE (pg_query env (''get workflow version '' @ i @ ''@v'' @ int_str v) (\<lambda>s. fmlookup (pg_versions s i) v)) (\<lambda>r.
     bindE (found r) (\<lambda>row. ret (row_to_version i v row)))"

section \<open>Instances and events\<close>

definition instance_status_str :: "instance_status \<Rightarrow> string" where
  "instance_status_str st = (case st of IPending \<Rightarrow> ''pending'' | IRunning \<Rightarrow> ''running'' | ICompleted \<Rightarrow> ''completed''
     | IFailed \<Rightarrow> ''failed'' | ICancelled \<Rightarrow> ''cancelled'')"

definition row_to_instance :: "pg_env \<Rightarrow> string \<Rightarrow> instance_row \<Rightarrow> wf_instance result" where
  "row_to_instance env i row = deserialized (''instance '' @ i) (pe_instance_of env (ir_data row))"

definition instance_row_of :: "wf_instance \<Rightarrow> json \<Rightarrow> instance_row" where
  "instance_row_of x d =
     \<lparr>ir_workflow_id = in_workflow_id x, ir_status = instance_status_str (in_status x), ir_data = d,
      ir_version = in_version x, ir_created_at = in_created_at x, ir_updated_at = in_updated_at x\<rparr>"

definition insert_instance :: "wf_instance \<Rightarrow> json \<Rightarrow> pg \<Rightarrow> db_error + unit \<times> pg" where
  "insert_instance x d s =
     (if fmlookup (pg_instances s) (in_id x) \<noteq> None then Inl UniqueViolation
      else if fmlookup (pg_workflows s) (in_workflow_id x) = None then Inl ForeignKeyViolation
      else Inr ((), s\<lparr>pg_instances := fmupd (in_id x) (instance_row_of x d) (pg_instances s)\<rparr>))"

definition pg_create_instance :: "pg_env \<Rightarrow> wf_instance \<Rightarrow> (pg, unit) act" where
  "pg_create_instance env x =
     bindE (serialized ''instance'' (pe_instance_json env x)) (\<lambda>d.
     pg_exec env db_failed (''create instance '' @ in_id x) (insert_instance x d))"

definition pg_get_instance :: "pg_env \<Rightarrow> string \<Rightarrow> (pg, wf_instance) act" where
  "pg_get_instance env i =
     bindE (pg_query env (''get instance '' @ i) (\<lambda>s. fmlookup (pg_instances s) i)) (\<lambda>r.
     bindE (found r) (\<lambda>row. liftR (row_to_instance env i row)))"

definition update_instance_row :: "wf_instance \<Rightarrow> json \<Rightarrow> pg \<Rightarrow> db_error + bool \<times> pg" where
  "update_instance_row x d s = (case fmlookup (pg_instances s) (in_id x) of
       Some row \<Rightarrow>
         if ir_version row = in_version x - 1
         then Inr (True, s\<lparr>pg_instances := fmupd (in_id x)
           ((instance_row_of x d)\<lparr>ir_workflow_id := ir_workflow_id row, ir_created_at := ir_created_at row\<rparr>) (pg_instances s)\<rparr>)
         else Inr (False, s)
     | None \<Rightarrow> Inr (False, s))"

definition pg_update_instance :: "pg_env \<Rightarrow> wf_instance \<Rightarrow> (pg, unit) act" where
  "pg_update_instance env x =
     bindE (serialized ''instance'' (pe_instance_json env x)) (\<lambda>d.
     bindE (pg_exec env db_failed (''update instance '' @ in_id x) (update_instance_row x d)) (\<lambda>updated.
     if updated then ret () else raise Conflict))"

definition pg_list_instances :: "pg_env \<Rightarrow> list_options \<Rightarrow> (pg, wf_instance list \<times> int) act" where
  "pg_list_instances env opts =
     bindE (pg_query env ''list instances'' (\<lambda>s. pg_page opts (newest_first ir_created_at (pg_instances s)))) (\<lambda>(rows, n).
     bindE (liftR (all_results (map (\<lambda>(i, row). row_to_instance env i row) rows))) (\<lambda>xs. ret (xs, n)))"

definition pg_list_running_instances :: "pg_env \<Rightarrow> (pg, wf_instance list) act" where
  "pg_list_running_instances env =
     bindE (pg_query env ''list running instances'' (\<lambda>s. filter (\<lambda>(_, row). ir_status row = ''running'') (fm_items (pg_instances s)))) (\<lambda>rows.
     liftR (all_results (map (\<lambda>(i, row). row_to_instance env i row) rows)))"

text \<open>serde's names of the event types\<close>

definition event_type_wire :: "event_type \<Rightarrow> string" where
  "event_type_wire t = (case t of
       EtInstanceStarted \<Rightarrow> ''instance.started'' | EtNodeQueued \<Rightarrow> ''node.queued'' | EtNodeStarted \<Rightarrow> ''node.started''
     | EtNodeCompleted \<Rightarrow> ''node.completed'' | EtNodeFailed \<Rightarrow> ''node.failed''
     | EtInstanceCompleted \<Rightarrow> ''instance.completed'' | EtInstanceFailed \<Rightarrow> ''instance.failed''
     | EtInstanceCancelled \<Rightarrow> ''instance.cancelled'' | EtNodeApprovalRequested \<Rightarrow> ''node.approval_requested''
     | EtNodeApproved \<Rightarrow> ''node.approved'' | EtNodeRejected \<Rightarrow> ''node.rejected''
     | EtCompensationStarted \<Rightarrow> ''compensation.started'' | EtCompensationCompleted \<Rightarrow> ''compensation.completed''
     | EtAnomalyDetected \<Rightarrow> ''anomaly.detected'' | EtChangeRequestStateChanged \<Rightarrow> ''change_request.state_changed''
     | EtPolicyChanged \<Rightarrow> ''policy.changed'' | EtVersionCreated \<Rightarrow> ''version.created'')"

definition events_of :: "pg \<Rightarrow> string \<Rightarrow> pg_event list" where
  "events_of s i = (case fmlookup (pg_events s) i of None \<Rightarrow> [] | Some rows \<Rightarrow> rows)"

definition insert_event :: "string \<Rightarrow> pg_event \<Rightarrow> pg \<Rightarrow> db_error + unit \<times> pg" where
  "insert_event i row s =
     (if fmlookup (pg_instances s) i = None then Inl ForeignKeyViolation
      else Inr ((), s\<lparr>pg_events := fmupd i (events_of s i @ [row]) (pg_events s)\<rparr>))"

text \<open>The row chained to the rows there are, and the first row of a new instance.\<close>

definition chained_event :: "pg_env \<Rightarrow> domain_event \<Rightarrow> json \<Rightarrow> pg_event list \<Rightarrow> pg_event" where
  "chained_event env ev d rows =
     \<lparr>pv_event_type = event_type_wire (event_type_of ev), pv_created_at = event_timestamp ev,
      pv_row = last (pg_append_event (pe_sha env) (pe_to_vec env) (pe_signer env) d (map pv_row rows))\<rparr>"

definition genesis_event :: "pg_env \<Rightarrow> domain_event \<Rightarrow> json \<Rightarrow> pg_event" where
  "genesis_event env ev d =
     \<lparr>pv_event_type = event_type_wire (event_type_of ev), pv_created_at = event_timestamp ev,
      pv_row = hd (pg_create_event_tx (pe_sha env) (pe_to_vec env) (pe_signer env) d)\<rparr>"

definition pg_create_instance_tx :: "pg_env \<Rightarrow> wf_instance \<Rightarrow> domain_event \<Rightarrow> (pg, unit) act" where
  "pg_create_instance_tx env x ev =
     bindE (serialized ''instance'' (pe_instance_json env x)) (\<lambda>d.
     bindE (serialized ''event'' (pe_event_json env ev)) (\<lambda>ed.
     pg_tx env ''begin tx'' ''commit tx''
     (bindE (pg_exec env db_failed (''create instance tx '' @ in_id x) (insert_instance x d)) (\<lambda>_.
      pg_exec env db_failed (''insert event tx '' @ in_id x) (insert_event (in_id x) (genesis_event env ev ed))))))"

definition pg_append_domain_event :: "pg_env \<Rightarrow> domain_event \<Rightarrow> (pg, unit) act" where
  "pg_append_domain_event env ev =
     (let i = event_instance_id ev in
      bindE (serialized ''event'' (pe_event_json env ev)) (\<lambda>d.
      bindE (pg_query env ''acquire connection'' (\<lambda>_. ())) (\<lambda>_.
      pg_tx env ''begin transaction'' ''commit event append''
      (bindE (pg_query env (''lock instance '' @ i @ '' for event append'') (\<lambda>_. ())) (\<lambda>_.
       bindE (pg_query env (''fetch prev hash for instance '' @ i) (\<lambda>s. events_of s i)) (\<lambda>rows.
       pg_exec env db_failed (''append event '' @ event_type_wire (event_type_of ev) @ '' for instance '' @ i)
         (insert_event i (chained_event env ev d rows))))))))"

definition event_row_version :: "pg_event \<Rightarrow> int option" where
  "event_row_version row = Option.bind (json_get (er_data (pv_row row)) ''version'') json_as_i64"

definition pg_load_events :: "pg_env \<Rightarrow> string \<Rightarrow> int \<Rightarrow> (pg, domain_event list) act" where
  "pg_load_events env i after_version =
     bindE (pg_query env (''load events for instance '' @ i) (\<lambda>s.
       sort_key (\<lambda>row. the (event_row_version row))
         (filter (\<lambda>row. case event_row_version row of None \<Rightarrow> False | Some v \<Rightarrow> v > after_version) (events_of s i)))) (\<lambda>rows.
     liftR (all_results (map (\<lambda>row. deserialized (''event type '' @ pv_event_type row @ '' for instance '' @ i)
       (pe_event_of env (er_data (pv_row row)))) rows)))"

definition pg_save_snapshot :: "pg_env \<Rightarrow> wf_instance \<Rightarrow> (pg, unit) act" where
  "pg_save_snapshot env x =
     bindE (serialized ''snapshot'' (pe_instance_json env x)) (\<lambda>d.
     pg_exec env db_failed (''save snapshot for instance '' @ in_id x) (\<lambda>s.
       if fmlookup (pg_instances s) (in_id x) = None then Inl ForeignKeyViolation
       else if (case fmlookup (pg_snapshots s) (in_id x) of None \<Rightarrow> False | Some row \<Rightarrow> \<not> sr_version row < in_version x)
       then Inr ((), s)
       else Inr ((), s\<lparr>pg_snapshots := fmupd (in_id x)
         \<lparr>sr_data = d, sr_version = in_version x, sr_created_at = pe_now env\<rparr> (pg_snapshots s)\<rparr>)))"

definition pg_load_snapshot :: "pg_env \<Rightarrow> string \<Rightarrow> (pg, wf_instance option) act" where
  "pg_load_snapshot env i =
     bindE (pg_query env (''load snapshot for instance '' @ i) (\<lambda>s. fmlookup (pg_snapshots s) i)) (\<lambda>r.
     case r of
       None \<Rightarrow> ret None
     | Some row \<Rightarrow> bindE (liftR (deserialized (''snapshot for instance '' @ i) (pe_instance_of env (sr_data row)))) (\<lambda>x. ret (Some x)))"

section \<open>Change requests\<close>

text \<open>serde's conversion of a list of strings; a value of another shape gives the empty list.\<close>

definition reviewers_of :: "json \<Rightarrow> string list" where
  "reviewers_of v = (case v of
       JArray xs \<Rightarrow> if list_all (\<lambda>x. json_as_str x \<noteq> None) xs then map (\<lambda>x. the (json_as_str x)) xs else []
     | _ \<Rightarrow> [])"

definition map_change_request_fields :: "string \<Rightarrow> change_request_row \<Rightarrow> change_request result" where
  "map_change_request_fields i row = (case cr_status_parse (qr_status row) of
       None \<Rightarrow> Inl (Database (''postgres: invalid change request status '' @ [CHR 0x27] @ qr_status row @ [CHR 0x27]))
     | Some st \<Rightarrow> Inr
         \<lparr>cr_id = i, cr_workflow_id = qr_workflow_id row, cr_title = qr_title row, cr_description = qr_description row,
          cr_proposed_definition = qr_proposed_definition row, cr_base_version = qr_base_version row, cr_status = st,
          cr_author = qr_author row, cr_reviewers = reviewers_of (qr_reviewers row), cr_comments = [],
          cr_created_at = qr_created_at row, cr_updated_at = qr_updated_at row\<rparr>)"

definition row_to_comment :: "string \<Rightarrow> comment_row \<Rightarrow> review_comment" where
  "row_to_comment i row =
     \<lparr>rc_id = i, rc_author = mr_author row, rc_body = mr_body row, rc_node_id = mr_node_id row,
      rc_edge_ref = (case (mr_edge_source row, mr_edge_target row) of (Some s, Some t) \<Rightarrow> Some (s, t) | _ \<Rightarrow> None),
      rc_resolved = mr_resolved row, rc_created_at = mr_created_at row\<rparr>"

definition change_request_row_of :: "change_request \<Rightarrow> change_request_row" where
  "change_request_row_of cr =
     \<lparr>qr_workflow_id = cr_workflow_id cr, qr_title = cr_title cr, qr_description = cr_description cr,
      qr_proposed_definition = cr_proposed_definition cr, qr_base_version = cr_base_version cr,
      qr_status = cr_status_str (cr_status cr), qr_author = cr_author cr,
      qr_reviewers = JArray (map JString (cr_reviewers cr)), qr_created_at = cr_created_at cr,
      qr_updated_at = cr_updated_at cr\<rparr>"

definition pg_create_change_request :: "pg_env \<Rightarrow> change_request \<Rightarrow> (pg, unit) act" where
  "pg_create_change_request env cr =
     pg_exec env db_failed (''create change request '' @ cr_id cr) (\<lambda>s.
       if cr_base_version cr < 1 then Inl CheckViolation
       else if fmlookup (pg_change_requests s) (cr_id cr) \<noteq> None then Inl UniqueViolation
       else if fmlookup (pg_workflows s) (cr_workflow_id cr) = None then Inl ForeignKeyViolation
       else Inr ((), s\<lparr>pg_change_requests := fmupd (cr_id cr) (change_request_row_of cr) (pg_change_requests s)\<rparr>))"

definition comments_of :: "pg \<Rightarrow> string \<Rightarrow> review_comment list" where
  "comments_of s i = map (\<lambda>(j, row). row_to_comment j row)
     (sort_key (\<lambda>(_, row). mr_created_at row) (filter (\<lambda>(_, row). mr_change_request_id row = i) (fm_items (pg_comments s))))"

definition pg_get_change_request :: "pg_env \<Rightarrow> string \<Rightarrow> (pg, change_request) act" where
  "pg_get_change_request env i =
     bindE (pg_query env (''get change request '' @ i) (\<lambda>s. fmlookup (pg_change_requests s) i)) (\<lambda>r.
     bindE (found r) (\<lambda>row.
     bindE (pg_query env (''get comments for change request '' @ i) (\<lambda>s. comments_of s i)) (\<lambda>cs.
     bindE (liftR (map_change_request_fields i row)) (\<lambda>cr. ret (cr\<lparr>cr_comments := cs\<rparr>)))))"

definition pg_list_change_requests ::
  "pg_env \<Rightarrow> string \<Rightarrow> change_request_status option \<Rightarrow> list_options \<Rightarrow> (pg, change_request list \<times> int) act" where
  "pg_list_change_requests env wid status opts =
     bindE (pg_query env (''list change requests for '' @ wid) (\<lambda>s. pg_page opts
       (filter (\<lambda>(_, row). qr_workflow_id row = wid \<and> (case status of None \<Rightarrow> True | Some st \<Rightarrow> qr_status row = cr_status_str st))
         (newest_first qr_created_at (pg_change_requests s))))) (\<lambda>(rows, n).
     bindE (liftR (all_results (map (\<lambda>(i, row). map_change_request_fields i row) rows))) (\<lambda>crs. ret (crs, n)))"

definition update_change_request_row :: "change_request \<Rightarrow> pg \<Rightarrow> db_error + bool \<times> pg" where
  "update_change_request_row cr s = (case fmlookup (pg_change_requests s) (cr_id cr) of
       None \<Rightarrow> Inr (False, s)
     | Some row \<Rightarrow> Inr (True, s\<lparr>pg_change_requests := fmupd (cr_id cr)
         (row\<lparr>qr_title := cr_title cr, qr_description := cr_description cr,
            qr_proposed_definition := cr_proposed_definition cr, qr_status := cr_status_str (cr_status cr),
            qr_reviewers := JArray (map JString (cr_reviewers cr)), qr_updated_at := cr_updated_at cr\<rparr>)
         (pg_change_requests s)\<rparr>))"

definition pg_update_change_request :: "pg_env \<Rightarrow> change_request \<Rightarrow> (pg, unit) act" where
  "pg_update_change_request env cr =
     bindE (pg_exec env db_failed (''update change request '' @ cr_id cr) (update_change_request_row cr)) (\<lambda>updated.
     if updated then ret () else raise NotFound)"

definition comment_row_of :: "string \<Rightarrow> review_comment \<Rightarrow> comment_row" where
  "comment_row_of i c =
     \<lparr>mr_change_request_id = i, mr_author = rc_author c, mr_body = rc_body c, mr_node_id = rc_node_id c,
      mr_edge_source = map_option fst (rc_edge_ref c), mr_edge_target = map_option snd (rc_edge_ref c),
      mr_resolved = rc_resolved c, mr_created_at = rc_created_at c\<rparr>"

definition pg_add_comment :: "pg_env \<Rightarrow> string \<Rightarrow> review_comment \<Rightarrow> (pg, unit) act" where
  "pg_add_comment env i c =
     pg_exec env db_failed (''add comment '' @ rc_id c @ '' to change request '' @ i) (\<lambda>s.
       if fmlookup (pg_comments s) (rc_id c) \<noteq> None then Inl UniqueViolation
       else if fmlookup (pg_change_requests s) i = None then Inl ForeignKeyViolation
       else Inr ((), s\<lparr>pg_comments := fmupd (rc_id c) (comment_row_of i c) (pg_comments s)\<rparr>))"

definition pg_resolve_comment :: "pg_env \<Rightarrow> string \<Rightarrow> string \<Rightarrow> bool \<Rightarrow> (pg, unit) act" where
  "pg_resolve_comment env i cid resolved =
     bindE (pg_exec env db_failed (''resolve comment '' @ cid @ '' on change request '' @ i) (\<lambda>s.
       case fmlookup (pg_comments s) cid of
         Some row \<Rightarrow>
           if mr_change_request_id row = i
           then Inr (True, s\<lparr>pg_comments := fmupd cid (row\<lparr>mr_resolved := resolved\<rparr>) (pg_comments s)\<rparr>)
           else Inr (False, s)
       | None \<Rightarrow> Inr (False, s))) (\<lambda>updated.
     if updated then ret () else raise NotFound)"

definition pg_merge_change_request :: "pg_env \<Rightarrow> string \<Rightarrow> int \<Rightarrow> json \<Rightarrow> (pg, unit) act" where
  "pg_merge_change_request env i expected_version d =
     bindE (liftR (reject_reactflow_change_definition d)) (\<lambda>_.
     pg_tx env ''begin merge transaction'' ''commit merge transaction''
     (bindE (pg_query env (''lock change request '' @ i) (\<lambda>s. fmlookup (pg_change_requests s) i)) (\<lambda>r.
      bindE (found r) (\<lambda>cr.
      let wid = qr_workflow_id cr in
      if qr_status cr \<noteq> ''approved'' then raise Conflict
      else bindE (pg_query env (''lock workflow '' @ wid) (\<lambda>s. fmlookup (pg_workflows s) wid)) (\<lambda>w.
      bindE (found w) (\<lambda>row.
      let new_version = wr_version row + 1 in
      bindE (pg_exec env db_failed (''update workflow '' @ wid @ '' during merge'') (\<lambda>s. Inr ((), s\<lparr>pg_workflows :=
        fmupd wid (row\<lparr>wr_definition := d, wr_version := new_version, wr_updated_at := pe_now env\<rparr>) (pg_workflows s)\<rparr>))) (\<lambda>_.
      bindE (pg_exec env db_failed ''snapshot version during merge'' (insert_version wid new_version
        \<lparr>vr_definition = d, vr_author = Some (''merge-cr-'' @ i), vr_message = Some (''Merged change request '' @ i),
         vr_created_at = pe_now env\<rparr>)) (\<lambda>_.
      pg_exec env db_failed ''update CR status to merged'' (\<lambda>s. Inr ((), s\<lparr>pg_change_requests :=
        fmupd i (cr\<lparr>qr_status := ''merged'', qr_updated_at := pe_now env\<rparr>) (pg_change_requests s)\<rparr>))))))))))"

end
