(* ===== verification/PgLaws.thy ===== *)
theory PgLaws
  imports PgStore
begin

text \<open>
  What the PostgreSQL store promises: an operation that fails changes nothing, versions are kept, the
  instance operations do what the in-memory store does, and what a merge does to later updates.
\<close>

section \<open>Failures\<close>

text \<open>The operations that write.\<close>

datatype pg_write =
    PwCreateWorkflow workflow
  | PwUpdateWorkflow workflow
  | PwDeleteWorkflow string
  | PwSaveVersion workflow_version
  | PwCreateInstance wf_instance
  | PwCreateInstanceTx wf_instance domain_event
  | PwUpdateInstance wf_instance
  | PwAppendEvent domain_event
  | PwSaveSnapshot wf_instance
  | PwCreateCr change_request
  | PwUpdateCr change_request
  | PwAddComment string review_comment
  | PwResolveComment string string bool
  | PwMergeCr string int json

definition pg_do :: "pg_env \<Rightarrow> pg_write \<Rightarrow> (pg, unit) act" where
  "pg_do env op = (case op of
       PwCreateWorkflow w \<Rightarrow> pg_create_workflow env w
     | PwUpdateWorkflow w \<Rightarrow> pg_update_workflow env w
     | PwDeleteWorkflow i \<Rightarrow> pg_delete_workflow env i
     | PwSaveVersion v \<Rightarrow> pg_save_workflow_version env v
     | PwCreateInstance x \<Rightarrow> pg_create_instance env x
     | PwCreateInstanceTx x ev \<Rightarrow> pg_create_instance_tx env x ev
     | PwUpdateInstance x \<Rightarrow> pg_update_instance env x
     | PwAppendEvent ev \<Rightarrow> pg_append_domain_event env ev
     | PwSaveSnapshot x \<Rightarrow> pg_save_snapshot env x
     | PwCreateCr cr \<Rightarrow> pg_create_change_request env cr
     | PwUpdateCr cr \<Rightarrow> pg_update_change_request env cr
     | PwAddComment i c \<Rightarrow> pg_add_comment env i c
     | PwResolveComment i cid b \<Rightarrow> pg_resolve_comment env i cid b
     | PwMergeCr i v d \<Rightarrow> pg_merge_change_request env i v d)"

text \<open>\<open>clean m\<close>: if \<open>m\<close> fails the tables are as before; \<open>unwritten m\<close>: they are in any case.\<close>

definition clean :: "('s, 'a) act \<Rightarrow> bool" where
  "clean m \<longleftrightarrow> (\<forall>s e s'. m s = (Inl e, s') \<longrightarrow> s' = s)"

definition unwritten :: "('s, 'a) act \<Rightarrow> bool" where
  "unwritten m \<longleftrightarrow> (\<forall>s. snd (m s) = s)"

named_theorems clean_intros

lemma unwritten_clean: "unwritten m \<Longrightarrow> clean m"
  by (auto simp: unwritten_def clean_def) (metis snd_conv)

lemma clean_bind [clean_intros]: "unwritten m \<Longrightarrow> (\<And>x. clean (f x)) \<Longrightarrow> clean (bindE m f)"
  unfolding clean_def unwritten_def bindE_def by (auto split: prod.splits sum.splits) (metis snd_conv)+

lemma clean_tx [clean_intros]: "clean (pg_tx env a b m)"
  by (auto simp: clean_def pg_tx_def split: option.splits prod.splits sum.splits)

lemma clean_exec [clean_intros]: "clean (pg_exec env conv what body)"
  by (auto simp: clean_def pg_exec_def split: option.splits prod.splits sum.splits)

lemma unwritten_simps [clean_intros]:
  "unwritten (ret x)" "unwritten (raise e)" "unwritten (serialized what r)" "unwritten (liftR q)" "unwritten (found p)"
  "unwritten (pg_query env what' f)"
  by (auto simp: unwritten_def ret_def raise_def serialized_def liftR_def found_def pg_query_def pg_exec_def
      split: sum.split option.split)

lemma clean_simps [clean_intros]: "clean (ret x)" "clean (raise e)"
  by (auto simp: clean_def ret_def raise_def)

text \<open>A statement that reports whether it changed a row.\<close>

lemma clean_exec_flag [clean_intros]:
  assumes "\<And>s s'. body s = Inr (False, s') \<Longrightarrow> s' = s"
  shows "clean (bindE (pg_exec env conv what body) (\<lambda>updated. if updated then ret () else raise e))"
  using assms
  by (auto simp: clean_def bindE_def pg_exec_def ret_def raise_def split: option.splits prod.splits sum.splits if_splits)

lemma pg_do_clean: "clean (pg_do env op)"
proof (cases op)
  case (PwDeleteWorkflow i)
  then show ?thesis
    unfolding pg_do_def pg_delete_workflow_def by (auto intro!: clean_intros simp: Let_def split: if_splits)
next
  case (PwUpdateInstance x)
  then show ?thesis unfolding pg_do_def pg_update_instance_def
    by (auto intro!: clean_intros simp: update_instance_row_def split: option.splits if_splits)
next
  case (PwUpdateCr cr)
  then show ?thesis unfolding pg_do_def pg_update_change_request_def
    by (auto intro!: clean_intros simp: update_change_request_row_def split: option.splits)
next
  case (PwResolveComment i cid b)
  then show ?thesis unfolding pg_do_def pg_resolve_comment_def
    by (auto intro!: clean_intros split: option.splits if_splits)
qed (auto simp: pg_do_def pg_create_workflow_def pg_update_workflow_def pg_save_workflow_version_def pg_create_instance_def
    pg_create_instance_tx_def pg_append_domain_event_def pg_save_snapshot_def pg_create_change_request_def pg_add_comment_def
    pg_merge_change_request_def Let_def intro!: clean_intros)

lemma outcome: "fst (m s) = Inr () \<Longrightarrow> m s = (Inr (), snd (m s))"
  by (simp add: prod_eq_iff)

lemma failed_outcome: "fst (m s) \<noteq> Inr () \<Longrightarrow> \<exists>e s'. m s = (Inl e, s')"
  by (cases "m s"; cases "fst (m s)") auto

section \<open>Versions\<close>

text \<open>A run of writes, each with its own environment: its time, its faults.\<close>

definition pg_run :: "(pg_env \<times> pg_write) list \<Rightarrow> pg \<Rightarrow> pg" where
  "pg_run ops s = foldl (\<lambda>s (env, op). snd (pg_do env op s)) s ops"

lemma pg_run_simps [simp]:
  "pg_run [] s = s" "pg_run ((env, op) # ops) s = pg_run ops (snd (pg_do env op s))"
  by (simp_all add: pg_run_def)

lemma pg_run_append: "pg_run (xs @ ys) s = pg_run ys (pg_run xs s)"
  by (simp add: pg_run_def)

text \<open>Versions are kept, except those of a deleted workflow.\<close>

definition versions_kept :: "string \<Rightarrow> pg \<Rightarrow> pg \<Rightarrow> bool" where
  "versions_kept i s s' \<longleftrightarrow> (\<forall>v row. fmlookup (pg_versions s i) v = Some row \<longrightarrow> fmlookup (pg_versions s' i) v = Some row)"

interpretation kept: preorder_rel "versions_kept i" for i
  by unfold_locales (auto simp: versions_kept_def)

lemma kept_exec [keeps_intros]:
  assumes "\<And>s x s'. body s = Inr (x, s') \<Longrightarrow> versions_kept i s s'"
  shows "keeps (versions_kept i) (pg_exec env conv what body)"
  using assms by (auto simp: keeps_def pg_exec_def kept.refl split: option.splits sum.splits)

lemma kept_tx [keeps_intros]: "keeps (versions_kept i) m \<Longrightarrow> keeps (versions_kept i) (pg_tx env a b m)"
  by (auto simp: keeps_def pg_tx_def kept.refl split: option.splits sum.splits prod.splits) (metis snd_conv)

lemma kept_unwritten: "unwritten m \<Longrightarrow> keeps (versions_kept i) m"
  by (simp add: keeps_def unwritten_def kept.refl)

lemma kept_insert_version: "insert_version j v row s = Inr (x, s') \<Longrightarrow> versions_kept i s s'"
  by (auto simp: insert_version_def versions_kept_def split: if_splits)

lemma kept_pg_do:
  assumes "op \<noteq> PwDeleteWorkflow i"
  shows "keeps (versions_kept i) (pg_do env op)"
proof (cases op)
  case (PwUpdateWorkflow w)
  have "keeps (versions_kept i) (pg_update_workflow env w)"
    unfolding pg_update_workflow_def
    by (intro kept.keeps_bindE kept_tx kept_unwritten [OF unwritten_simps(3)] kept_unwritten [OF unwritten_simps(6)])
       (auto intro!: kept.keeps_rules kept_exec kept_unwritten [OF unwritten_simps(6)] dest: kept_insert_version
         simp: update_workflow_row_def versions_kept_def split: option.split option.splits if_splits)
  with PwUpdateWorkflow show ?thesis by (simp add: pg_do_def)
next
  case (PwMergeCr j v d)
  have "keeps (versions_kept i) (pg_merge_change_request env j v d)"
    unfolding pg_merge_change_request_def
    by (intro kept.keeps_bindE kept_tx kept.keeps_liftR kept_unwritten [OF unwritten_simps(6)] kept_unwritten [OF unwritten_simps(5)])
       (auto simp: Let_def versions_kept_def intro!: kept.keeps_rules kept_exec kept_unwritten [OF unwritten_simps(6)]
         kept_unwritten [OF unwritten_simps(5)] dest: kept_insert_version [unfolded versions_kept_def])
  with PwMergeCr show ?thesis by (simp add: pg_do_def)
qed (use assms in \<open>auto simp: pg_do_def pg_create_workflow_def pg_delete_workflow_def pg_save_workflow_version_def
    pg_create_instance_def pg_create_instance_tx_def pg_update_instance_def pg_append_domain_event_def pg_save_snapshot_def
    pg_create_change_request_def pg_update_change_request_def pg_add_comment_def pg_resolve_comment_def insert_instance_def
    insert_event_def update_instance_row_def update_change_request_row_def Let_def versions_kept_def
    intro!: kept.keeps_rules kept_exec kept_tx kept_unwritten [OF unwritten_simps(6)] kept_unwritten [OF unwritten_simps(3)]
    dest: kept_insert_version [unfolded versions_kept_def] split: if_splits option.splits\<close>)

lemma kept_pg_run:
  "\<forall>(env, op) \<in> set ops. op \<noteq> PwDeleteWorkflow i \<Longrightarrow> versions_kept i s (pg_run ops s)"
proof (induction ops arbitrary: s)
  case Nil
  then show ?case by (simp add: kept.refl)
next
  case (Cons a ops)
  obtain env op where a: "a = (env, op)" by force
  with Cons.prems kept_pg_do [of op i env] have "versions_kept i s (snd (pg_do env op s))" by (simp add: keeps_def)
  with Cons a show ?case by (auto intro: kept.trans)
qed

text \<open>What the parts of a successful operation did.\<close>

lemma exec_done: "pg_exec env conv what body s = (Inr x, s') \<longleftrightarrow> pe_fault env what = None \<and> body s = Inr (x, s')"
  by (auto simp: pg_exec_def split: option.split sum.split)

lemma query_done: "pg_query env what f s = (Inr x, s') \<longleftrightarrow> pe_fault env what = None \<and> x = f s \<and> s' = s"
  by (auto simp: pg_query_def exec_done)

lemma tx_done: "pg_tx env a b m s = (Inr x, s') \<longleftrightarrow> pe_fault env a = None \<and> pe_fault env b = None \<and> m s = (Inr x, s')"
  by (auto simp: pg_tx_def split: option.split sum.split prod.split)

lemma serialized_done: "serialized what r s = (Inr x, s') \<longleftrightarrow> r = Inr x \<and> s' = s"
  by (auto simp: serialized_def raise_def ret_def split: sum.split)

lemma found_done: "found r s = (Inr x, s') \<longleftrightarrow> r = Some x \<and> s' = s"
  by (auto simp: found_def raise_def ret_def split: option.split)

lemma ret_done: "ret x s = (Inr y, s') \<longleftrightarrow> x = y \<and> s' = s" "\<not> raise e s = (Inr y, s')" "liftR r s = (Inr y, s') \<longleftrightarrow> r = Inr y \<and> s' = s"
  by (auto simp: ret_def raise_def liftR_def)

lemmas pg_done = bindE_Inr_iff exec_done query_done tx_done serialized_done found_done ret_done

text \<open>A successful update, in full.\<close>

lemma pg_update_workflow_done:
  assumes "pg_update_workflow env w s = (Inr (), s')"
  shows "\<exists>d row. pe_workflow_json env w = Inr d \<and> fmlookup (pg_workflows s) (wf_id w) = Some row \<and>
    wr_version row = wf_version w - 1 \<and>
    pg_workflows s' = fmupd (wf_id w) ((workflow_row_of w d)\<lparr>wr_created_at := wr_created_at row\<rparr>) (pg_workflows s) \<and>
    (\<exists>vr. fmlookup (pg_versions s' (wf_id w)) (wr_version row) = Some vr \<and>
       (fmlookup (pg_versions s (wf_id w)) (wr_version row) = None \<longrightarrow> vr_definition vr = wr_definition row))"
proof -
  from assms obtain d s1 updated where d: "pe_workflow_json env w = Inr d"
    and snap: "(case fmlookup (pg_workflows s) (wf_id w) of None \<Rightarrow> ret ()
        | Some row \<Rightarrow> pg_exec env db_failed (''snapshot workflow version '' @ wf_id w)
            (insert_version (wf_id w) (wr_version row) (snapshot_row_of env (wr_definition row)))) s = (Inr (), s1)"
    and upd: "update_workflow_row w d s1 = Inr (updated, s')" and updated
    by (auto simp: pg_update_workflow_def pg_done split: if_splits)
  have "pg_workflows s1 = pg_workflows s"
    using snap by (auto simp: pg_done insert_version_def split: option.splits if_splits)
  with upd \<open>updated\<close> obtain row where row: "fmlookup (pg_workflows s) (wf_id w) = Some row" "wr_version row = wf_version w - 1"
    "s' = s1\<lparr>pg_workflows := fmupd (wf_id w) ((workflow_row_of w d)\<lparr>wr_created_at := wr_created_at row\<rparr>) (pg_workflows s)\<rparr>"
    by (auto simp: update_workflow_row_def split: option.splits if_splits)
  with snap d show ?thesis
    by (auto simp: pg_done insert_version_def snapshot_row_of_def split: if_splits)
qed

section \<open>Instances\<close>

text \<open>A database whose statements succeed unless they violate a constraint.\<close>

definition healthy :: "pg_env \<Rightarrow> bool" where
  "healthy env \<longleftrightarrow> (\<forall>what. pe_fault env what = None)"

lemma healthy_exec: "healthy env \<Longrightarrow> pg_exec env conv what body s =
    (case body s of Inl e \<Rightarrow> (Inl (conv env what e), s) | Inr (x, s') \<Rightarrow> (Inr x, s'))"
  by (simp add: pg_exec_def healthy_def)

lemma healthy_query: "healthy env \<Longrightarrow> pg_query env what f s = (Inr (f s), s)"
  by (simp add: pg_query_def healthy_exec)

lemma healthy_tx: "healthy env \<Longrightarrow> pg_tx env a b m s = (case m s of (Inl e, _) \<Rightarrow> (Inl e, s) | (Inr x, s') \<Rightarrow> (Inr x, s'))"
  by (simp add: pg_tx_def healthy_def split: prod.split sum.split)

lemmas healthy_simps = healthy_exec healthy_query healthy_tx

text \<open>An instance that serde can write and read back.\<close>

definition faithful_instance :: "pg_env \<Rightarrow> wf_instance \<Rightarrow> bool" where
  "faithful_instance env x \<longleftrightarrow> (\<exists>d. pe_instance_json env x = Inr d \<and> pe_instance_of env d = Inr x)"

text \<open>A row and the instance it stands for.\<close>

definition row_stands_for :: "pg_env \<Rightarrow> instance_row \<Rightarrow> wf_instance \<Rightarrow> bool" where
  "row_stands_for env row x \<longleftrightarrow> pe_instance_of env (ir_data row) = Inr x \<and> ir_version row = in_version x \<and>
     ir_status row = instance_status_str (in_status x)"

definition instances_match :: "pg_env \<Rightarrow> pg \<Rightarrow> mem_store \<Rightarrow> bool" where
  "instances_match env s m \<longleftrightarrow> fmrel (row_stands_for env) (pg_instances s) (ms_instances m)"

text \<open>The operations on instances, with all their answers as lists. The pages of \<open>list_instances\<close> are left out: they
  are ordered by creation on PostgreSQL only, and an empty page has no total there. The order of the running instances,
  which neither store promises, is that of their ids in both models.\<close>

datatype instance_op =
    IoGet string
  | IoRunning
  | IoUpdate wf_instance
  | IoInsert wf_instance
  | IoCreate wf_instance domain_event

definition mem_instance_op :: "instance_op \<Rightarrow> (mem_store, wf_instance list) act" where
  "mem_instance_op op = (case op of
       IoGet i \<Rightarrow> bindE (ms_get_instance i) (\<lambda>x. ret [x])
     | IoRunning \<Rightarrow> getsE ms_list_running_instances
     | IoUpdate x \<Rightarrow> bindE (ms_update_instance x) (\<lambda>_. ret [])
     | IoInsert x \<Rightarrow> bindE (ms_create_instance x) (\<lambda>_. ret [])
     | IoCreate x ev \<Rightarrow> bindE (ms_create_instance_tx x ev) (\<lambda>_. ret []))"

definition pg_instance_op :: "pg_env \<Rightarrow> instance_op \<Rightarrow> (pg, wf_instance list) act" where
  "pg_instance_op env op = (case op of
       IoGet i \<Rightarrow> bindE (pg_get_instance env i) (\<lambda>x. ret [x])
     | IoRunning \<Rightarrow> pg_list_running_instances env
     | IoUpdate x \<Rightarrow> bindE (pg_update_instance env x) (\<lambda>_. ret [])
     | IoInsert x \<Rightarrow> bindE (pg_create_instance env x) (\<lambda>_. ret [])
     | IoCreate x ev \<Rightarrow> bindE (pg_create_instance_tx env x ev) (\<lambda>_. ret []))"

text \<open>Two errors have other names: an update of an unknown instance is a conflict, a second creation a database error.\<close>

fun agree :: "'a result \<Rightarrow> 'a result \<Rightarrow> bool" where
  "agree (Inl AlreadyExists) r = (\<exists>e. r = Inl (Database e))"
| "agree (Inl NotFound) r = (r = Inl NotFound \<or> r = Inl Conflict)"
| "agree r r' = (r' = r)"

fun answers_of :: "('op \<Rightarrow> ('s, 'a) act) \<Rightarrow> 'op list \<Rightarrow> 's \<Rightarrow> 'a result list" where
  "answers_of f [] s = []"
| "answers_of f (op # ops) s = (case f op s of (r, s') \<Rightarrow> r # answers_of f ops s')"

definition state_after :: "('op \<Rightarrow> ('s, 'a) act) \<Rightarrow> 'op list \<Rightarrow> 's \<Rightarrow> 's" where
  "state_after f ops s = fold (\<lambda>op s. snd (f op s)) ops s"

lemma instance_status_str_inj: "instance_status_str a = instance_status_str b \<Longrightarrow> a = b"
  by (cases a; cases b) (simp_all add: instance_status_str_def)

lemma running_status [simp]: "instance_status_str st = ''running'' \<longleftrightarrow> st = IRunning"
  by (cases st) (simp_all add: instance_status_str_def)

lemma all_results_map: "(\<And>x. x \<in> set xs \<Longrightarrow> f x = Inr (g x)) \<Longrightarrow> all_results (map f xs) = Inr (map g xs)"
  by (induction xs) simp_all

lemma stands_for_some:
  assumes "instances_match env s m"
  shows "fmlookup (ms_instances m) i = None \<longleftrightarrow> fmlookup (pg_instances s) i = None"
    and "fmlookup (pg_instances s) i = Some row \<Longrightarrow> \<exists>x. fmlookup (ms_instances m) i = Some x \<and> row_stands_for env row x"
  using fmrelD [OF assms [unfolded instances_match_def], of i] by (auto elim: option.rel_cases)

lemma running_match:
  assumes "instances_match env s m"
  shows "all_results (map (\<lambda>(i, row). row_to_instance env i row)
      (filter (\<lambda>(_, row). ir_status row = ''running'') (fm_items (pg_instances s)))) = Inr (ms_list_running_instances m)"
proof -
  have d: "fmdom (pg_instances s) = fmdom (ms_instances m)"
    using stands_for_some(1) [OF assms] by (intro fset_eqI) (metis fmdom_notD fmdom_notI)
  have *: "map (\<lambda>(i, row). row_to_instance env i row) (filter (\<lambda>(_, row). ir_status row = ''running'') (map (\<lambda>k. (k, the (fmlookup (pg_instances s) k))) ks)) =
      map Inr (filter (\<lambda>x. in_status x = IRunning) (map (\<lambda>k. the (fmlookup (ms_instances m) k)) ks))"
    if "\<forall>k \<in> set ks. fmlookup (pg_instances s) k \<noteq> None" for ks
    using that
  proof (induction ks)
    case (Cons k ks)
    then obtain row where r: "fmlookup (pg_instances s) k = Some row" by auto
    from stands_for_some(2) [OF assms this] obtain x where "fmlookup (ms_instances m) k = Some x" "row_stands_for env row x" by blast
    with r Cons show ?case by (simp add: row_stands_for_def row_to_instance_def deserialized_def)
  qed simp
  have "\<forall>k \<in> set (sorted_list_of_fset (fmdom (pg_instances s))). fmlookup (pg_instances s) k \<noteq> None"
    by (simp add: fmlookup_dom_iff sorted_list_of_fset.rep_eq)
  from * [OF this] have "map (\<lambda>(i, row). row_to_instance env i row)
      (filter (\<lambda>(_, row). ir_status row = ''running'') (fm_items (pg_instances s))) = map Inr (ms_list_running_instances m)"
    by (simp add: fm_items_def sorted_list_of_fmap_def ms_list_running_instances_def fm_values_def d comp_def)
  moreover have "all_results (map Inr xs) = Inr xs" for xs :: "wf_instance list" by (induction xs) simp_all
  ultimately show ?thesis by simp
qed

text \<open>One operation on both stores.\<close>

lemma op_get:
  assumes "healthy env" and "instances_match env s m"
  shows "pg_instance_op env (IoGet i) s = (fst (mem_instance_op (IoGet i) m), s) \<and> snd (mem_instance_op (IoGet i) m) = m"
  using stands_for_some [OF assms(2), of i]
  by (cases "fmlookup (pg_instances s) i")
     (fastforce simp: pg_instance_op_def mem_instance_op_def pg_get_instance_def ms_get_instance_def bindE_def found_def raise_def
       ret_def liftR_def healthy_query [OF assms(1)] row_to_instance_def deserialized_def row_stands_for_def)+

lemma op_running:
  assumes "healthy env" and "instances_match env s m"
  shows "pg_instance_op env IoRunning s = (fst (mem_instance_op IoRunning m), s) \<and> snd (mem_instance_op IoRunning m) = m"
  by (simp add: pg_instance_op_def mem_instance_op_def pg_list_running_instances_def bindE_def healthy_query [OF assms(1)]
      running_match [OF assms(2)] liftR_def getsE_def)

lemma match_upd:
  "instances_match env s m \<Longrightarrow> row_stands_for env row x \<Longrightarrow>
   instances_match env (s\<lparr>pg_instances := fmupd i row (pg_instances s)\<rparr>) (m\<lparr>ms_instances := fmupd i x (ms_instances m)\<rparr>)"
  by (simp add: instances_match_def fmrel_upd)

lemma op_update:
  assumes "healthy env" and "instances_match env s m" and "faithful_instance env x"
  shows "agree (fst (mem_instance_op (IoUpdate x) m)) (fst (pg_instance_op env (IoUpdate x) s)) \<and>
    instances_match env (snd (pg_instance_op env (IoUpdate x) s)) (snd (mem_instance_op (IoUpdate x) m))"
proof -
  obtain d where d: "pe_instance_json env x = Inr d" "pe_instance_of env d = Inr x"
    using assms(3) by (auto simp: faithful_instance_def)
  then have stands: "row_stands_for env ((instance_row_of x d)\<lparr>ir_workflow_id := a, ir_created_at := b\<rparr>) x" for a b
    by (simp add: row_stands_for_def instance_row_of_def)
  show ?thesis
  proof (cases "fmlookup (pg_instances s) (in_id x)")
    case None
    with stands_for_some(1) [OF assms(2), of "in_id x"] assms(2) d show ?thesis
      by (simp add: pg_instance_op_def mem_instance_op_def pg_update_instance_def ms_update_instance_def bindE_def serialized_def
          ret_def raise_def healthy_exec [OF assms(1)] update_instance_row_def)
  next
    case (Some row)
    from stands_for_some(2) [OF assms(2) this] obtain y where y: "fmlookup (ms_instances m) (in_id x) = Some y" "ir_version row = in_version y"
      by (auto simp: row_stands_for_def)
    show ?thesis
    proof (cases "in_version y = in_version x - 1")
      case True
      with Some y d match_upd [OF assms(2) stands] show ?thesis
        by (simp add: pg_instance_op_def mem_instance_op_def pg_update_instance_def ms_update_instance_def bindE_def serialized_def
            ret_def raise_def healthy_exec [OF assms(1)] update_instance_row_def)
    next
      case False
      with Some y d assms(2) show ?thesis
        by (simp add: pg_instance_op_def mem_instance_op_def pg_update_instance_def ms_update_instance_def bindE_def serialized_def
            ret_def raise_def healthy_exec [OF assms(1)] update_instance_row_def)
    qed
  qed
qed

lemma op_create:
  assumes "healthy env" and "instances_match env s m" and "faithful_instance env x" and "\<exists>d. pe_event_json env ev = Inr d"
    and "fmlookup (pg_workflows s) (in_workflow_id x) \<noteq> None"
  shows "agree (fst (mem_instance_op (IoCreate x ev) m)) (fst (pg_instance_op env (IoCreate x ev) s)) \<and>
    instances_match env (snd (pg_instance_op env (IoCreate x ev) s)) (snd (mem_instance_op (IoCreate x ev) m))"
proof -
  obtain d ed where d: "pe_instance_json env x = Inr d" "pe_instance_of env d = Inr x" "pe_event_json env ev = Inr ed"
    using assms(3,4) by (auto simp: faithful_instance_def)
  then have stands: "row_stands_for env (instance_row_of x d) x"
    by (simp add: row_stands_for_def instance_row_of_def)
  show ?thesis
  proof (cases "fmlookup (pg_instances s) (in_id x)")
    case None
    with stands_for_some(1) [OF assms(2), of "in_id x"] match_upd [OF assms(2) stands, of "in_id x"] d assms(5) show ?thesis
      by (simp add: pg_instance_op_def mem_instance_op_def pg_create_instance_tx_def ms_create_instance_tx_def bindE_def serialized_def
          ret_def raise_def healthy_simps [OF assms(1)] insert_instance_def insert_event_def instances_match_def)
  next
    case (Some row)
    with stands_for_some(2) [OF assms(2) this] d assms(2) show ?thesis
      by (auto simp: pg_instance_op_def mem_instance_op_def pg_create_instance_tx_def ms_create_instance_tx_def bindE_def serialized_def
          ret_def raise_def healthy_simps [OF assms(1)] insert_instance_def db_failed_def)
  qed
qed

lemma op_insert:
  assumes "healthy env" and "instances_match env s m" and "faithful_instance env x"
    and "fmlookup (pg_workflows s) (in_workflow_id x) \<noteq> None"
  shows "agree (fst (mem_instance_op (IoInsert x) m)) (fst (pg_instance_op env (IoInsert x) s)) \<and>
    instances_match env (snd (pg_instance_op env (IoInsert x) s)) (snd (mem_instance_op (IoInsert x) m))"
proof -
  obtain d where d: "pe_instance_json env x = Inr d" "pe_instance_of env d = Inr x"
    using assms(3) by (auto simp: faithful_instance_def)
  then have stands: "row_stands_for env (instance_row_of x d) x"
    by (simp add: row_stands_for_def instance_row_of_def)
  show ?thesis
  proof (cases "fmlookup (pg_instances s) (in_id x)")
    case None
    with stands_for_some(1) [OF assms(2), of "in_id x"] match_upd [OF assms(2) stands, of "in_id x"] d assms(4) show ?thesis
      by (simp add: pg_instance_op_def mem_instance_op_def pg_create_instance_def ms_create_instance_def bindE_def serialized_def
          ret_def raise_def healthy_simps [OF assms(1)] insert_instance_def)
  next
    case (Some row)
    with stands_for_some(2) [OF assms(2) this] d assms(2) show ?thesis
      by (auto simp: pg_instance_op_def mem_instance_op_def pg_create_instance_def ms_create_instance_def bindE_def serialized_def
          ret_def raise_def healthy_simps [OF assms(1)] insert_instance_def db_failed_def)
  qed
qed

text \<open>What an operation needs to find: instances and events that serde writes, instances also that it reads back, and
  the workflow of an instance that is created.\<close>

definition op_ready :: "pg_env \<Rightarrow> pg \<Rightarrow> instance_op \<Rightarrow> bool" where
  "op_ready env s op = (case op of
       IoUpdate x \<Rightarrow> faithful_instance env x
     | IoInsert x \<Rightarrow> faithful_instance env x \<and> fmlookup (pg_workflows s) (in_workflow_id x) \<noteq> None
     | IoCreate x ev \<Rightarrow> faithful_instance env x \<and> (\<exists>d. pe_event_json env ev = Inr d) \<and>
         fmlookup (pg_workflows s) (in_workflow_id x) \<noteq> None
     | _ \<Rightarrow> True)"

lemma agree_refl [simp]: "agree r r \<longleftrightarrow> r \<noteq> Inl AlreadyExists"
  by (cases "(r, r)" rule: agree.cases) auto

lemma mem_get_error: "fst (mem_instance_op (IoGet i) m) \<noteq> Inl AlreadyExists" "fst (mem_instance_op IoRunning m) \<noteq> Inl AlreadyExists"
  by (simp_all add: mem_instance_op_def bindE_def ms_get_instance_def getsE_def ret_def split: option.split)

lemma instance_op_simulates:
  assumes "healthy env" and "instances_match env s m" and "op_ready env s op"
  shows "agree (fst (mem_instance_op op m)) (fst (pg_instance_op env op s)) \<and>
    instances_match env (snd (pg_instance_op env op s)) (snd (mem_instance_op op m))"
  using assms op_get [OF assms(1,2)] op_running [OF assms(1,2)] op_update [OF assms(1,2)] op_insert [OF assms(1,2)] op_create [OF assms(1,2)]
    mem_get_error
  by (cases op) (simp_all add: op_ready_def)

lemma instance_op_workflows: "pg_workflows (snd (pg_instance_op env op s)) = pg_workflows s"
  by (cases op)
     (auto simp: pg_instance_op_def pg_get_instance_def pg_list_running_instances_def pg_update_instance_def
       pg_create_instance_def pg_create_instance_tx_def bindE_def serialized_def ret_def raise_def found_def liftR_def pg_query_def pg_exec_def pg_tx_def
       update_instance_row_def insert_instance_def insert_event_def split: sum.split option.split prod.split if_splits)

lemma op_ready_workflows: "pg_workflows s' = pg_workflows s \<Longrightarrow> op_ready env s' op = op_ready env s op"
  by (simp add: op_ready_def split: instance_op.split)

section \<open>Properties\<close>

text \<open>C20. A write that fails, by a constraint, a lost connection at any statement or a failed commit, leaves every
  table as it was.\<close>

theorem pg_failure_changes_nothing:
  assumes "pg_do env op s = (Inl e, s')"
  shows "s' = s"
  using assms pg_do_clean [of env op] by (simp add: clean_def)

text \<open>C21. Whatever is written, by whom and with whatever faults, as long as workflow \<open>i\<close> is not deleted, every row of
  its table of versions stays as it is. An update of \<open>i\<close> among these writes succeeds only over the version before its
  own, and from then on the table has the replaced definition under that version (or what it already had there).\<close>

theorem pg_versions_kept:
  assumes "\<forall>(env, op) \<in> set ops. op \<noteq> PwDeleteWorkflow i"
  shows "versions_kept i s (pg_run ops s) \<and>
    (\<forall>pre env w post. ops = pre @ (env, PwUpdateWorkflow w) # post \<and> wf_id w = i \<and>
        fst (pg_do env (PwUpdateWorkflow w) (pg_run pre s)) = Inr () \<longrightarrow>
      (\<exists>row vr. fmlookup (pg_workflows (pg_run pre s)) i = Some row \<and> wr_version row = wf_version w - 1 \<and>
         fmlookup (pg_versions (pg_run ops s) i) (wr_version row) = Some vr \<and>
         (fmlookup (pg_versions (pg_run pre s) i) (wr_version row) = None \<longrightarrow> vr_definition vr = wr_definition row)))"
proof (intro conjI allI impI kept_pg_run [OF assms])
  fix pre env w post
  let ?s = "pg_run pre s"
  assume a: "ops = pre @ (env, PwUpdateWorkflow w) # post \<and> wf_id w = i \<and> fst (pg_do env (PwUpdateWorkflow w) ?s) = Inr ()"
  then obtain s' where u: "pg_update_workflow env w ?s = (Inr (), s')"
    using outcome [of "pg_update_workflow env w" ?s] by (auto simp: pg_do_def)
  have end': "pg_run ops s = pg_run post s'" using a u by (simp add: pg_run_append pg_do_def)
  have post: "versions_kept i s' (pg_run post s')" using assms a by (intro kept_pg_run) auto
  from a have i: "wf_id w = i" by simp
  from pg_update_workflow_done [OF u, unfolded i] obtain row vr where row: "fmlookup (pg_workflows ?s) i = Some row"
    "wr_version row = wf_version w - 1" "fmlookup (pg_versions s' i) (wr_version row) = Some vr"
    "fmlookup (pg_versions ?s i) (wr_version row) = None \<longrightarrow> vr_definition vr = wr_definition row" by (elim exE conjE)
  with post have "fmlookup (pg_versions (pg_run ops s) i) (wr_version row) = Some vr"
    by (simp add: versions_kept_def end')
  with row show "\<exists>row vr. fmlookup (pg_workflows ?s) i = Some row \<and> wr_version row = wf_version w - 1 \<and>
      fmlookup (pg_versions (pg_run ops s) i) (wr_version row) = Some vr \<and>
      (fmlookup (pg_versions ?s i) (wr_version row) = None \<longrightarrow> vr_definition vr = wr_definition row)" by (intro exI conjI)
qed

text \<open>C19. Take a database that refuses a statement only for a violated constraint, and tables that stand for the
  in-memory store. Over any sequence of look-ups, listings of the running instances, updates and creations (with or
  without a first event) of instances that serde writes and reads back, of workflows that exist, both stores give the
  same answers, but for the names of two errors (see \<open>agree\<close>), and the tables stand for the in-memory store again.\<close>

theorem pg_instances_refine_mem:
  assumes "healthy env" and "instances_match env s m" and "\<forall>op \<in> set ops. op_ready env s op"
  shows "list_all2 agree (answers_of mem_instance_op ops m) (answers_of (pg_instance_op env) ops s) \<and>
    instances_match env (state_after (pg_instance_op env) ops s) (state_after mem_instance_op ops m)"
  using assms
proof (induction ops arbitrary: s m)
  case (Cons op ops)
  obtain r s' where p: "pg_instance_op env op s = (r, s')" by force
  obtain q m' where q: "mem_instance_op op m = (q, m')" by force
  have w: "pg_workflows s' = pg_workflows s" using instance_op_workflows [of env op s] p by simp
  have "agree q r" "instances_match env s' m'"
    using instance_op_simulates [OF Cons.prems(1,2), of op] Cons.prems(3) p q by auto
  moreover have "\<forall>op \<in> set ops. op_ready env s' op" using Cons.prems(3) op_ready_workflows [OF w] by simp
  ultimately show ?case using Cons.IH [OF Cons.prems(1)] by (simp add: p q state_after_def)
qed (simp add: state_after_def)

section \<open>Samples\<close>

text \<open>serde for samples: a workflow is known by its version, an instance is the sample instance.\<close>

definition plain_pg_env :: "(string \<Rightarrow> db_error option) \<Rightarrow> pg_env" where
  "plain_pg_env fault =
     \<lparr>pe_fault = fault, pe_db_str = (\<lambda>_. ''down''), pe_now = 0,
      pe_workflow_json = (\<lambda>w. Inr (JObject (fmupd ''version'' (JNumber (num_of_i64 (wf_version w))) fmempty))),
      pe_workflow_of = (\<lambda>j. case json_get j ''version'' of
          Some (JNumber n) \<Rightarrow> (case num_as_i64 n of
              Some v \<Rightarrow> if n = num_of_i64 v then Inr ((sample_workflow [sample_node KAction ''a''] [])\<lparr>wf_version := v\<rparr>) else Inl []
            | None \<Rightarrow> Inl [])
        | _ \<Rightarrow> Inl []),
      pe_instance_json = (\<lambda>_. Inr JNull), pe_instance_of = (\<lambda>_. Inr (sample_instance [])),
      pe_event_json = (\<lambda>_. Inr JNull), pe_event_of = (\<lambda>_. Inl []), pe_time_json = (\<lambda>_. JNull), pe_to_vec = (\<lambda>_. []),
      pe_sha = (\<lambda>s. s), pe_signer = None\<rparr>"

definition stocked :: pg where
  "stocked = pg_empty\<lparr>pg_workflows := fmupd ''wf-1'' (workflow_row_of (sample_workflow [sample_node KAction ''a''] [])
     (JObject (fmupd ''version'' (JNumber (num_of_i64 1)) fmempty))) fmempty\<rparr>"

definition started_event :: domain_event where
  "started_event = EvInstanceStarted \<lparr>be_instance_id = ''inst-1'', be_version = 1, be_timestamp = 0\<rparr> fmempty"

lemma plain_pg_simps [simp]:
  "pe_fault (plain_pg_env f) = f" "pe_instance_json (plain_pg_env f) x = Inr JNull"
  "pe_instance_of (plain_pg_env f) d = Inr (sample_instance [])" "pe_event_json (plain_pg_env f) ev = Inr JNull"
  "pe_now (plain_pg_env f) = 0"
  "pe_workflow_json (plain_pg_env f) w = Inr (JObject (fmupd ''version'' (JNumber (num_of_i64 (wf_version w))) fmempty))"
  by (simp_all add: plain_pg_env_def)

lemma stocked_simps [simp]:
  "fmlookup (pg_workflows stocked) ''wf-1'' = Some (workflow_row_of (sample_workflow [sample_node KAction ''a''] [])
     (JObject (fmupd ''version'' (JNumber (num_of_i64 1)) fmempty)))"
  "pg_instances stocked = fmempty" "pg_versions stocked i = fmempty" "pg_events stocked = fmempty"
  by (simp_all add: stocked_def pg_empty_def)

theorem pg_failure_changes_nothing_witness:
  "snd (pg_do (plain_pg_env (\<lambda>what. if what = ''commit tx'' then Some (OtherDbError ''gone'') else None))
     (PwCreateInstanceTx (sample_instance []) started_event) stocked) = stocked"
proof -
  have "fst (pg_do (plain_pg_env (\<lambda>what. if what = ''commit tx'' then Some (OtherDbError ''gone'') else None))
     (PwCreateInstanceTx (sample_instance []) started_event) stocked) \<noteq> Inr ()"
    by (simp add: pg_do_def pg_create_instance_tx_def bindE_def serialized_def ret_def pg_tx_def pg_exec_def insert_instance_def
        insert_event_def sample_instance_def split: sum.split prod.split)
  then obtain e s' where "pg_do (plain_pg_env (\<lambda>what. if what = ''commit tx'' then Some (OtherDbError ''gone'') else None))
     (PwCreateInstanceTx (sample_instance []) started_event) stocked = (Inl e, s')"
    using failed_outcome [of "pg_do (plain_pg_env (\<lambda>what. if what = ''commit tx'' then Some (OtherDbError ''gone'') else None))
      (PwCreateInstanceTx (sample_instance []) started_event)"] by blast
  with pg_failure_changes_nothing [OF this] show ?thesis by simp
qed

lemma plain_healthy: "healthy (plain_pg_env (\<lambda>_. None))"
  by (simp add: healthy_def)

theorem pg_versions_kept_witness:
  "\<exists>vr. fmlookup (pg_versions (pg_run [(plain_pg_env (\<lambda>_. None), PwUpdateWorkflow ((sample_workflow [] [])\<lparr>wf_version := 2\<rparr>))] stocked)
     ''wf-1'') 1 = Some vr \<and> vr_definition vr = JObject (fmupd ''version'' (JNumber (num_of_i64 1)) fmempty)"
proof -
  let ?w = "(sample_workflow [] [])\<lparr>wf_version := 2\<rparr>"
  let ?ops = "[(plain_pg_env (\<lambda>_. None), PwUpdateWorkflow ?w)]"
  have id: "wf_id ?w = ''wf-1''" "wf_version ?w = 2" by (simp_all add: sample_workflow_def)
  have "fst (pg_do (plain_pg_env (\<lambda>_. None)) (PwUpdateWorkflow ?w) (pg_run [] stocked)) = Inr ()"
    by (simp add: pg_do_def pg_update_workflow_def bindE_def serialized_def healthy_simps [OF plain_healthy] ret_def insert_version_def
        update_workflow_row_def id workflow_row_of_def sample_workflow_def)
  moreover have "\<forall>(env, op) \<in> set ?ops. op \<noteq> PwDeleteWorkflow ''wf-1''" by simp
  note pg_versions_kept [OF this, of stocked, THEN conjunct2, rule_format, of "[]" "plain_pg_env (\<lambda>_. None)" ?w "[]"]
  ultimately obtain row vr where "fmlookup (pg_workflows (pg_run [] stocked)) ''wf-1'' = Some row" "wr_version row = 2 - 1"
    "fmlookup (pg_versions (pg_run ?ops stocked) ''wf-1'') (wr_version row) = Some vr"
    "fmlookup (pg_versions (pg_run [] stocked) ''wf-1'') (wr_version row) = None \<longrightarrow> vr_definition vr = wr_definition row"
    using id by (metis append_Nil)
  then show ?thesis by (auto simp: workflow_row_of_def simp del: pg_run_simps(2))
qed

theorem pg_instances_refine_mem_witness:
  "list_all2 agree
     (answers_of mem_instance_op
        [IoGet ''inst-1'', IoCreate (sample_instance []) started_event, IoInsert (sample_instance []),
         IoUpdate (sample_instance []), IoRunning] mem_store_new)
     (answers_of (pg_instance_op (plain_pg_env (\<lambda>_. None)))
        [IoGet ''inst-1'', IoCreate (sample_instance []) started_event, IoInsert (sample_instance []),
         IoUpdate (sample_instance []), IoRunning] stocked)"
proof (rule pg_instances_refine_mem [OF plain_healthy, THEN conjunct1])
  show "instances_match (plain_pg_env (\<lambda>_. None)) stocked mem_store_new"
    unfolding instances_match_def by (intro fmrelI) (simp add: mem_store_new_def)
  have "faithful_instance (plain_pg_env (\<lambda>_. None)) (sample_instance [])" by (simp add: faithful_instance_def)
  then show "\<forall>op \<in> set [IoGet ''inst-1'', IoCreate (sample_instance []) started_event, IoInsert (sample_instance []),
      IoUpdate (sample_instance []), IoRunning]. op_ready (plain_pg_env (\<lambda>_. None)) stocked op"
    by (simp add: op_ready_def) (simp add: sample_instance_def)
qed

end
