(* ===== verification/PgReview.thy ===== *)
theory PgReview
  imports PgLaws ReviewRuns Lifecycle
begin

text \<open>
  The review process on the PostgreSQL store, which provides the contract \<open>review_store\<close> whatever fails, and
  what the store makes of a rebase and of a merge.
\<close>

section \<open>The PostgreSQL store behind the endpoints\<close>

record pg_world =
  pw_pg :: pg
  pw_clock :: int
  pw_ids :: nat

text \<open>The database at the time of the clock.\<close>

definition on_pg :: "pg_env \<Rightarrow> (pg_env \<Rightarrow> (pg, 'a) act) \<Rightarrow> (pg_world, 'a) act" where
  "on_pg env m = (\<lambda>w. case m (env\<lparr>pe_now := pw_clock w\<rparr>) (pw_pg w) of (r, s) \<Rightarrow> (r, w\<lparr>pw_pg := s\<rparr>))"

definition pg_review_env ::
  "pg_env \<Rightarrow> (json \<Rightarrow> string + workflow) \<Rightarrow> (workflow \<Rightarrow> json option) \<Rightarrow> pg_world review_env" where
  "pg_review_env env parse encode =
     \<lparr>rv_enabled = True,
      rv_create = (\<lambda>cr. on_pg env (\<lambda>e. pg_create_change_request e cr)),
      rv_get = (\<lambda>i. on_pg env (\<lambda>e. pg_get_change_request e i)),
      rv_list = (\<lambda>wid st opts. on_pg env (\<lambda>e. pg_list_change_requests e wid st opts)),
      rv_update = (\<lambda>cr. on_pg env (\<lambda>e. pg_update_change_request e cr)),
      rv_merge = (\<lambda>i v d. on_pg env (\<lambda>e. pg_merge_change_request e i v d)),
      rv_add_comment = (\<lambda>i c. on_pg env (\<lambda>e. pg_add_comment e i c)),
      rv_resolve_comment = (\<lambda>i ci b. on_pg env (\<lambda>e. pg_resolve_comment e i ci b)),
      rv_get_workflow = (\<lambda>i. on_pg env (\<lambda>e. pg_get_workflow e i)),
      rv_refresh = None, rv_parse = parse, rv_encode = encode,
      rv_now = (\<lambda>w. (pw_clock w, w\<lparr>pw_clock := pw_clock w + 1\<rparr>)),
      rv_uuid = (\<lambda>w. (nat_str (pw_ids w), w\<lparr>pw_ids := pw_ids w + 1\<rparr>))\<rparr>"

text \<open>The change request that the rows of two tables stand for.\<close>

definition pg_cr :: "pg \<Rightarrow> string \<Rightarrow> change_request option" where
  "pg_cr s i = (case fmlookup (pg_change_requests s) i of
       None \<Rightarrow> None
     | Some row \<Rightarrow> (case map_change_request_fields i row of
         Inl _ \<Rightarrow> None | Inr cr \<Rightarrow> Some (cr\<lparr>cr_comments := comments_of s i\<rparr>)))"

text \<open>Statuses are the five of the check constraint, and comments belong to change requests.\<close>

definition pg_reviews_ok :: "pg \<Rightarrow> bool" where
  "pg_reviews_ok s \<longleftrightarrow>
     (\<forall>i row. fmlookup (pg_change_requests s) i = Some row \<longrightarrow> cr_status_parse (qr_status row) \<noteq> None) \<and>
     (\<forall>j c. fmlookup (pg_comments s) j = Some c \<longrightarrow> fmlookup (pg_change_requests s) (mr_change_request_id c) \<noteq> None)"

lemma reviewers_of_strings [simp]: "reviewers_of (JArray (map JString rs)) = rs"
  by (simp add: reviewers_of_def list_all_iff comp_def)

lemma map_row_of [simp]: "map_change_request_fields (cr_id cr) (change_request_row_of cr) = Inr (cr\<lparr>cr_comments := []\<rparr>)"
  by (simp add: map_change_request_fields_def change_request_row_of_def)

lemma ok_status: "pg_reviews_ok s \<Longrightarrow> fmlookup (pg_change_requests s) i = Some row \<Longrightarrow> \<exists>st. cr_status_parse (qr_status row) = Some st"
  and ok_comment: "pg_reviews_ok s \<Longrightarrow> fmlookup (pg_comments s) j = Some c \<Longrightarrow>
    \<exists>row. fmlookup (pg_change_requests s) (mr_change_request_id c) = Some row"
  unfolding pg_reviews_ok_def by (metis not_None_eq)+

lemma comments_of_cong:
  assumes "\<And>j. (case fmlookup (pg_comments s) j of None \<Rightarrow> None | Some c \<Rightarrow> if mr_change_request_id c = i then Some c else None) =
    (case fmlookup (pg_comments s') j of None \<Rightarrow> None | Some c \<Rightarrow> if mr_change_request_id c = i then Some c else None)"
  shows "comments_of s i = comments_of s' i"
proof -
  let ?P = "\<lambda>(_, row). mr_change_request_id row = i"
  have "fmfilter (\<lambda>k. ?P (k, the (fmlookup (pg_comments s) k))) (pg_comments s) =
      fmfilter (\<lambda>k. ?P (k, the (fmlookup (pg_comments s') k))) (pg_comments s')"
  proof (rule fmap_ext)
    fix j
    show "fmlookup (fmfilter (\<lambda>k. ?P (k, the (fmlookup (pg_comments s) k))) (pg_comments s)) j =
        fmlookup (fmfilter (\<lambda>k. ?P (k, the (fmlookup (pg_comments s') k))) (pg_comments s')) j"
      using assms [of j] by (auto split: option.splits if_splits)
  qed
  then show ?thesis by (simp only: comments_of_def filter_fm_items)
qed

lemma no_comments_yet:
  assumes "pg_reviews_ok s" and "fmlookup (pg_change_requests s) i = None"
  shows "comments_of s i = []"
proof -
  have "filter (\<lambda>(_, row). mr_change_request_id row = i) (fm_items (pg_comments s)) = []"
    using ok_comment [OF assms(1)] assms(2) by (fastforce simp: filter_empty_conv fm_items_iff)
  then show ?thesis by (simp add: comments_of_def)
qed

lemmas pg_step_simps =
  on_pg_def pg_review_env_def pg_exec_def pg_query_def bindE_def ret_def raise_def found_def liftR_def pg_tx_def

lemma pg_get_cr_found:
  "fst (pg_get_change_request env i s) = Inr cr \<Longrightarrow> pg_cr s i = Some cr"
  by (auto simp: pg_get_change_request_def pg_step_simps pg_cr_def split: option.splits sum.splits)

lemma pg_cr_cong:
  "fmlookup (pg_change_requests s') i = fmlookup (pg_change_requests s) i \<Longrightarrow> pg_comments s' = pg_comments s \<Longrightarrow> pg_cr s' i = pg_cr s i"
  by (simp add: pg_cr_def comments_of_def split: option.split sum.split)

lemma pg_unwritten:
  "snd (pg_get_change_request env i s) = s" "snd (pg_list_change_requests env wid st opts s) = s"
  "snd (pg_get_workflow env wid s) = s"
  by (auto simp: pg_get_change_request_def pg_list_change_requests_def pg_get_workflow_def pg_step_simps
      split: option.splits sum.splits prod.splits)

lemma pg_pure:
  "pg_get_change_request env i s = (r, s') \<Longrightarrow> s' = s" "pg_get_workflow env wid s = (q, s') \<Longrightarrow> s' = s"
  using pg_unwritten by (metis snd_conv)+

lemma pg_create_cr_cases:
  "pg_create_change_request env cr s = (Inr (), s') \<Longrightarrow>
     fmlookup (pg_change_requests s) (cr_id cr) = None \<and>
     s' = s\<lparr>pg_change_requests := fmupd (cr_id cr) (change_request_row_of cr) (pg_change_requests s)\<rparr>"
  by (auto simp: pg_create_change_request_def exec_done split: if_splits)

lemma pg_update_cr_cases:
  "pg_update_change_request env cr s = (Inr (), s') \<Longrightarrow>
     \<exists>row. fmlookup (pg_change_requests s) (cr_id cr) = Some row \<and>
     s' = s\<lparr>pg_change_requests := fmupd (cr_id cr)
         (row\<lparr>qr_title := cr_title cr, qr_description := cr_description cr,
            qr_proposed_definition := cr_proposed_definition cr, qr_status := cr_status_str (cr_status cr),
            qr_reviewers := JArray (map JString (cr_reviewers cr)), qr_updated_at := cr_updated_at cr\<rparr>)
         (pg_change_requests s)\<rparr>"
  by (auto simp: pg_update_change_request_def pg_done update_change_request_row_def split: if_splits option.splits)

lemma pg_merge_cases:
  "pg_merge_change_request env i v d s = (Inr (), s') \<Longrightarrow>
     \<exists>cr row. fmlookup (pg_change_requests s) i = Some cr \<and> qr_status cr = ''approved'' \<and>
     fmlookup (pg_workflows s) (qr_workflow_id cr) = Some row \<and>
     pg_workflows s' = fmupd (qr_workflow_id cr)
       (row\<lparr>wr_definition := d, wr_version := wr_version row + 1, wr_updated_at := pe_now env\<rparr>) (pg_workflows s) \<and>
     pg_change_requests s' = fmupd i (cr\<lparr>qr_status := ''merged'', qr_updated_at := pe_now env\<rparr>) (pg_change_requests s) \<and>
     pg_comments s' = pg_comments s"
  by (auto simp: pg_merge_change_request_def pg_done Let_def insert_version_def split: if_splits)

lemma pg_add_comment_cases:
  "pg_add_comment env i c s = (Inr (), s') \<Longrightarrow>
     fmlookup (pg_comments s) (rc_id c) = None \<and> fmlookup (pg_change_requests s) i \<noteq> None \<and>
       s' = s\<lparr>pg_comments := fmupd (rc_id c) (comment_row_of i c) (pg_comments s)\<rparr>"
  by (auto simp: pg_add_comment_def exec_done split: if_splits)

lemma pg_resolve_cases:
  "pg_resolve_comment env i cid b s = (Inr (), s') \<Longrightarrow>
     \<exists>row. fmlookup (pg_comments s) cid = Some row \<and> mr_change_request_id row = i \<and>
       s' = s\<lparr>pg_comments := fmupd cid (row\<lparr>mr_resolved := b\<rparr>) (pg_comments s)\<rparr>"
  by (auto simp: pg_resolve_comment_def pg_done split: if_splits option.splits)

lemma pg_failed_unchanged:
  "fst (pg_create_change_request env cr s) \<noteq> Inr () \<Longrightarrow> snd (pg_create_change_request env cr s) = s"
  "fst (pg_update_change_request env cr s) \<noteq> Inr () \<Longrightarrow> snd (pg_update_change_request env cr s) = s"
  "fst (pg_merge_change_request env i v d s) \<noteq> Inr () \<Longrightarrow> snd (pg_merge_change_request env i v d s) = s"
  "fst (pg_add_comment env i c s) \<noteq> Inr () \<Longrightarrow> snd (pg_add_comment env i c s) = s"
  "fst (pg_resolve_comment env i ci b s) \<noteq> Inr () \<Longrightarrow> snd (pg_resolve_comment env i ci b s) = s"
proof -
  have clean: "fst (pg_do env op s) \<noteq> Inr () \<Longrightarrow> snd (pg_do env op s) = s" for op
    using pg_do_clean [of env op] unfolding clean_def by (cases "pg_do env op s"; cases "fst (pg_do env op s)") auto
  from clean [of "PwCreateCr cr"] clean [of "PwUpdateCr cr"] clean [of "PwMergeCr i v d"] clean [of "PwAddComment i c"]
    clean [of "PwResolveComment i ci b"]
  show "fst (pg_create_change_request env cr s) \<noteq> Inr () \<Longrightarrow> snd (pg_create_change_request env cr s) = s"
    "fst (pg_update_change_request env cr s) \<noteq> Inr () \<Longrightarrow> snd (pg_update_change_request env cr s) = s"
    "fst (pg_merge_change_request env i v d s) \<noteq> Inr () \<Longrightarrow> snd (pg_merge_change_request env i v d s) = s"
    "fst (pg_add_comment env i c s) \<noteq> Inr () \<Longrightarrow> snd (pg_add_comment env i c s) = s"
    "fst (pg_resolve_comment env i ci b s) \<noteq> Inr () \<Longrightarrow> snd (pg_resolve_comment env i ci b s) = s"
    by (simp_all add: pg_do_def)
qed

lemma comments_of_simps [simp]:
  "comments_of (s\<lparr>pg_change_requests := a\<rparr>) i = comments_of s i"
  by (simp add: comments_of_def)

lemma reviews_ok_upd:
  assumes "pg_reviews_ok s" and "cr_status_parse (qr_status row) \<noteq> None"
  shows "pg_reviews_ok (s\<lparr>pg_change_requests := fmupd i row (pg_change_requests s)\<rparr>)"
  using assms by (simp add: pg_reviews_ok_def)

lemma reviews_ok_cong: "pg_change_requests s' = pg_change_requests s \<Longrightarrow> pg_comments s' = pg_comments s \<Longrightarrow>
    pg_reviews_ok s' = pg_reviews_ok s"
  by (simp add: pg_reviews_ok_def)

text \<open>A write fails and nothing changes, or it is one of the cases above.\<close>

lemma pg_create_cr_effect:
  assumes "pg_reviews_ok s"
  shows "pg_reviews_ok (snd (pg_create_change_request env cr s))"
    and "fst (pg_create_change_request env cr s) = Inr () \<Longrightarrow> cr_comments cr = [] \<Longrightarrow>
      pg_cr (snd (pg_create_change_request env cr s)) (cr_id cr) = Some cr"
    and "j \<noteq> cr_id cr \<or> fst (pg_create_change_request env cr s) \<noteq> Inr () \<Longrightarrow>
      pg_cr (snd (pg_create_change_request env cr s)) j = pg_cr s j"
    and "fst (pg_create_change_request env cr s) = Inr () \<Longrightarrow> pg_cr s (cr_id cr) = None"
proof -
  note cases = pg_create_cr_cases [OF outcome [of "pg_create_change_request env cr"], of s]
  note failed = pg_failed_unchanged(1) [of env cr s]
  show "pg_reviews_ok (snd (pg_create_change_request env cr s))"
    using cases failed assms
    by (cases "fst (pg_create_change_request env cr s) = Inr ()") (auto simp: change_request_row_of_def intro!: reviews_ok_upd)
  show "pg_cr (snd (pg_create_change_request env cr s)) (cr_id cr) = Some cr"
    if "fst (pg_create_change_request env cr s) = Inr ()" "cr_comments cr = []"
  proof -
    have "cr\<lparr>cr_comments := []\<rparr> = cr" using that(2) by (cases cr) simp
    with cases [OF that(1)] no_comments_yet [OF assms, of "cr_id cr"] show ?thesis by (simp add: pg_cr_def)
  qed
  show "pg_cr (snd (pg_create_change_request env cr s)) j = pg_cr s j"
    if "j \<noteq> cr_id cr \<or> fst (pg_create_change_request env cr s) \<noteq> Inr ()"
    using cases failed that
    by (cases "fst (pg_create_change_request env cr s) = Inr ()") (auto intro: pg_cr_cong)
  show "pg_cr s (cr_id cr) = None" if "fst (pg_create_change_request env cr s) = Inr ()"
    using cases [OF that] by (simp add: pg_cr_def)
qed

lemma pg_update_cr_effect:
  assumes "pg_reviews_ok s"
  shows "pg_reviews_ok (snd (pg_update_change_request env cr s))"
    and "j \<noteq> cr_id cr \<or> fst (pg_update_change_request env cr s) \<noteq> Inr () \<Longrightarrow>
      pg_cr (snd (pg_update_change_request env cr s)) j = pg_cr s j"
    and "fst (pg_update_change_request env cr s) = Inr () \<Longrightarrow>
      \<exists>old new. pg_cr s (cr_id cr) = Some old \<and> pg_cr (snd (pg_update_change_request env cr s)) (cr_id cr) = Some new \<and>
        written cr old new \<and> cr_base_version new = cr_base_version old"
proof -
  note cases = pg_update_cr_cases [OF outcome [of "pg_update_change_request env cr"], of s]
  note failed = pg_failed_unchanged(2) [of env cr s]
  show "pg_reviews_ok (snd (pg_update_change_request env cr s))"
    using cases failed assms
    by (cases "fst (pg_update_change_request env cr s) = Inr ()") (auto intro!: reviews_ok_upd)
  show "pg_cr (snd (pg_update_change_request env cr s)) j = pg_cr s j"
    if "j \<noteq> cr_id cr \<or> fst (pg_update_change_request env cr s) \<noteq> Inr ()"
    using cases failed that
    by (cases "fst (pg_update_change_request env cr s) = Inr ()") (auto intro: pg_cr_cong)
  show "\<exists>old new. pg_cr s (cr_id cr) = Some old \<and> pg_cr (snd (pg_update_change_request env cr s)) (cr_id cr) = Some new \<and>
      written cr old new \<and> cr_base_version new = cr_base_version old"
    if u: "fst (pg_update_change_request env cr s) = Inr ()"
  proof -
    obtain row where row: "fmlookup (pg_change_requests s) (cr_id cr) = Some row" using cases [OF u] by blast
    from ok_status [OF assms row] obtain st where "cr_status_parse (qr_status row) = Some st" ..
    with cases [OF u] row show ?thesis
      by (auto simp: pg_cr_def map_change_request_fields_def written_def)
  qed
qed

lemma merged_parse [simp]: "cr_status_parse ''merged'' = Some CrMerged" "cr_status_parse ''approved'' = Some CrApproved"
  by (simp_all add: cr_status_parse_def)

lemma pg_merge_effect:
  assumes "pg_reviews_ok s"
  shows "pg_reviews_ok (snd (pg_merge_change_request env i v d s))"
    and "j \<noteq> i \<or> fst (pg_merge_change_request env i v d s) \<noteq> Inr () \<Longrightarrow>
      pg_cr (snd (pg_merge_change_request env i v d s)) j = pg_cr s j"
    and "fst (pg_merge_change_request env i v d s) = Inr () \<Longrightarrow>
      \<exists>cr t. pg_cr s i = Some cr \<and> cr_status cr = CrApproved \<and>
        pg_cr (snd (pg_merge_change_request env i v d s)) i = Some (cr\<lparr>cr_status := CrMerged, cr_updated_at := t\<rparr>)"
proof -
  note cases = pg_merge_cases [OF outcome [of "pg_merge_change_request env i v d"], of s]
  note failed = pg_failed_unchanged(3) [of env i v d s]
  show "pg_reviews_ok (snd (pg_merge_change_request env i v d s))"
  proof (cases "fst (pg_merge_change_request env i v d s) = Inr ()")
    case True
    from cases [OF True] obtain cr where
      c: "pg_change_requests (snd (pg_merge_change_request env i v d s)) =
            fmupd i (cr\<lparr>qr_status := ''merged'', qr_updated_at := pe_now env\<rparr>) (pg_change_requests s)"
        "pg_comments (snd (pg_merge_change_request env i v d s)) = pg_comments s" by blast
    have "pg_reviews_ok (s\<lparr>pg_change_requests := fmupd i (cr\<lparr>qr_status := ''merged'', qr_updated_at := pe_now env\<rparr>) (pg_change_requests s)\<rparr>)"
      by (rule reviews_ok_upd [OF assms]) simp
    with c show ?thesis by (simp add: reviews_ok_cong [where s' = "snd (pg_merge_change_request env i v d s)"
        and s = "s\<lparr>pg_change_requests := fmupd i (cr\<lparr>qr_status := ''merged'', qr_updated_at := pe_now env\<rparr>) (pg_change_requests s)\<rparr>"])
  qed (use failed assms in simp)
  show "pg_cr (snd (pg_merge_change_request env i v d s)) j = pg_cr s j"
    if "j \<noteq> i \<or> fst (pg_merge_change_request env i v d s) \<noteq> Inr ()"
    using cases failed that
    by (cases "fst (pg_merge_change_request env i v d s) = Inr ()") (auto intro: pg_cr_cong)
  show "\<exists>cr t. pg_cr s i = Some cr \<and> cr_status cr = CrApproved \<and>
      pg_cr (snd (pg_merge_change_request env i v d s)) i = Some (cr\<lparr>cr_status := CrMerged, cr_updated_at := t\<rparr>)"
    if "fst (pg_merge_change_request env i v d s) = Inr ()"
    using cases [OF that] by (auto simp: pg_cr_def map_change_request_fields_def comments_of_def)
qed

lemma pg_cr_comments:
  assumes "pg_change_requests s' = pg_change_requests s"
  shows "pg_cr s' i = map_option (cr_comments_update (\<lambda>_. comments_of s' i)) (pg_cr s i)"
  using assms by (simp add: pg_cr_def split: option.split sum.split)

text \<open>A write to one comment row of change request \<open>i\<close>.\<close>

lemma pg_comment_write:
  assumes ok: "pg_reviews_ok s" and s': "s' = s\<lparr>pg_comments := fmupd ci row (pg_comments s)\<rparr>"
    and row: "mr_change_request_id row = i" "fmlookup (pg_change_requests s) i \<noteq> None"
    and old: "\<And>c. fmlookup (pg_comments s) ci = Some c \<Longrightarrow> mr_change_request_id c = i"
  shows "pg_reviews_ok s' \<and> (j \<noteq> i \<longrightarrow> pg_cr s' j = pg_cr s j) \<and>
    (\<exists>cs. pg_cr s' i = map_option (cr_comments_update (\<lambda>_. cs)) (pg_cr s i))"
proof (intro conjI impI)
  show "pg_reviews_ok s'" using ok s' row by (simp add: pg_reviews_ok_def)
  show "pg_cr s' j = pg_cr s j" if "j \<noteq> i"
  proof -
    have "comments_of s' j = comments_of s j"
      using old that by (intro comments_of_cong) (auto simp: s' row(1) split: option.split)
    then show ?thesis using s' by (simp add: pg_cr_def split: option.split sum.split)
  qed
  show "\<exists>cs. pg_cr s' i = map_option (cr_comments_update (\<lambda>_. cs)) (pg_cr s i)"
    using pg_cr_comments [of s' s i] s' by auto
qed

lemma map_option_comments_id: "\<exists>cs. x = map_option (cr_comments_update (\<lambda>_. cs)) x"
proof (cases x)
  case (Some cr)
  then have "x = map_option (cr_comments_update (\<lambda>_. cr_comments cr)) x" by simp
  then show ?thesis ..
qed simp

lemma pg_add_comment_effect:
  assumes "pg_reviews_ok s"
  shows "pg_reviews_ok (snd (pg_add_comment env i c s))" and "j \<noteq> i \<Longrightarrow> pg_cr (snd (pg_add_comment env i c s)) j = pg_cr s j"
    and "\<exists>cs. pg_cr (snd (pg_add_comment env i c s)) i = map_option (cr_comments_update (\<lambda>_. cs)) (pg_cr s i)"
proof -
  note failed = pg_failed_unchanged(4) [of env i c s]
  have "pg_reviews_ok (snd (pg_add_comment env i c s)) \<and> (j \<noteq> i \<longrightarrow> pg_cr (snd (pg_add_comment env i c s)) j = pg_cr s j) \<and>
    (\<exists>cs. pg_cr (snd (pg_add_comment env i c s)) i = map_option (cr_comments_update (\<lambda>_. cs)) (pg_cr s i))" for j
  proof (cases "fst (pg_add_comment env i c s) = Inr ()")
    case True
    from pg_add_comment_cases [OF outcome [of "pg_add_comment env i c", OF True]]
    show ?thesis
      using pg_comment_write [OF assms, of "snd (pg_add_comment env i c s)" "rc_id c" "comment_row_of i c" i j]
      by (simp add: comment_row_of_def)
  qed (use failed assms map_option_comments_id in simp)
  then show "pg_reviews_ok (snd (pg_add_comment env i c s))"
    "j \<noteq> i \<Longrightarrow> pg_cr (snd (pg_add_comment env i c s)) j = pg_cr s j"
    "\<exists>cs. pg_cr (snd (pg_add_comment env i c s)) i = map_option (cr_comments_update (\<lambda>_. cs)) (pg_cr s i)" by auto
qed

lemma pg_resolve_effect:
  assumes "pg_reviews_ok s"
  shows "pg_reviews_ok (snd (pg_resolve_comment env i ci b s))"
    and "j \<noteq> i \<Longrightarrow> pg_cr (snd (pg_resolve_comment env i ci b s)) j = pg_cr s j"
    and "\<exists>cs. pg_cr (snd (pg_resolve_comment env i ci b s)) i = map_option (cr_comments_update (\<lambda>_. cs)) (pg_cr s i)"
proof -
  note failed = pg_failed_unchanged(5) [of env i ci b s]
  have "pg_reviews_ok (snd (pg_resolve_comment env i ci b s)) \<and>
    (j \<noteq> i \<longrightarrow> pg_cr (snd (pg_resolve_comment env i ci b s)) j = pg_cr s j) \<and>
    (\<exists>cs. pg_cr (snd (pg_resolve_comment env i ci b s)) i = map_option (cr_comments_update (\<lambda>_. cs)) (pg_cr s i))" for j
  proof (cases "fst (pg_resolve_comment env i ci b s) = Inr ()")
    case True
    from pg_resolve_cases [OF outcome [of "pg_resolve_comment env i ci b", OF True]] obtain row
      where r: "fmlookup (pg_comments s) ci = Some row" "mr_change_request_id row = i"
        "snd (pg_resolve_comment env i ci b s) = s\<lparr>pg_comments := fmupd ci (row\<lparr>mr_resolved := b\<rparr>) (pg_comments s)\<rparr>" by blast
    with ok_comment [OF assms r(1)] show ?thesis
      using pg_comment_write [OF assms r(3), of i j] by simp
  qed (use failed assms map_option_comments_id in simp)
  then show "pg_reviews_ok (snd (pg_resolve_comment env i ci b s))"
    "j \<noteq> i \<Longrightarrow> pg_cr (snd (pg_resolve_comment env i ci b s)) j = pg_cr s j"
    "\<exists>cs. pg_cr (snd (pg_resolve_comment env i ci b s)) i = map_option (cr_comments_update (\<lambda>_. cs)) (pg_cr s i)" by auto
qed

lemma on_pg_simps [simp]:
  "fst (on_pg env m w) = fst (m (env\<lparr>pe_now := pw_clock w\<rparr>) (pw_pg w))"
  "pw_pg (snd (on_pg env m w)) = snd (m (env\<lparr>pe_now := pw_clock w\<rparr>) (pw_pg w))"
  by (simp_all add: on_pg_def split_beta)

lemma pg_review_simps [simp]:
  "rv_create (pg_review_env env pa en) cr = on_pg env (\<lambda>e. pg_create_change_request e cr)"
  "rv_get (pg_review_env env pa en) i = on_pg env (\<lambda>e. pg_get_change_request e i)"
  "rv_list (pg_review_env env pa en) wid st opts = on_pg env (\<lambda>e. pg_list_change_requests e wid st opts)"
  "rv_update (pg_review_env env pa en) cr = on_pg env (\<lambda>e. pg_update_change_request e cr)"
  "rv_merge (pg_review_env env pa en) i v d = on_pg env (\<lambda>e. pg_merge_change_request e i v d)"
  "rv_add_comment (pg_review_env env pa en) i c = on_pg env (\<lambda>e. pg_add_comment e i c)"
  "rv_resolve_comment (pg_review_env env pa en) i ci b = on_pg env (\<lambda>e. pg_resolve_comment e i ci b)"
  "rv_get_workflow (pg_review_env env pa en) i = on_pg env (\<lambda>e. pg_get_workflow e i)"
  "rv_refresh (pg_review_env env pa en) = None" "rv_enabled (pg_review_env env pa en)"
  "rv_now (pg_review_env env pa en) w = (pw_clock w, w\<lparr>pw_clock := pw_clock w + 1\<rparr>)"
  "rv_uuid (pg_review_env env pa en) w = (nat_str (pw_ids w), w\<lparr>pw_ids := pw_ids w + 1\<rparr>)"
  by (simp_all add: pg_review_env_def)

lemma pg_cr_id: "pg_cr s i = Some cr \<Longrightarrow> cr_id cr = i"
  by (auto simp: pg_cr_def map_change_request_fields_def split: option.splits sum.splits)

interpretation pg_reviews:
  review_store "pg_review_env env pa en" "\<lambda>w. pg_cr (pw_pg w)" "\<lambda>w. pg_reviews_ok (pw_pg w)" for env pa en
proof unfold_locales
  fix w :: pg_world and cr i v d
  assume ok: "pg_reviews_ok (pw_pg w)"
  show "\<exists>old new. pg_cr (pw_pg w) (cr_id cr) = Some old \<and>
      pg_cr (pw_pg (snd (rv_update (pg_review_env env pa en) cr w))) (cr_id cr) = Some new \<and> written cr old new"
    if "fst (rv_update (pg_review_env env pa en) cr w) = Inr ()"
    using pg_update_cr_effect(3) [OF ok, of "env\<lparr>pe_now := pw_clock w\<rparr>" cr] that by auto
  show "\<exists>cr t. pg_cr (pw_pg w) i = Some cr \<and> cr_status cr = CrApproved \<and>
      pg_cr (pw_pg (snd (rv_merge (pg_review_env env pa en) i v d w))) i = Some (cr\<lparr>cr_status := CrMerged, cr_updated_at := t\<rparr>)"
    if "fst (rv_merge (pg_review_env env pa en) i v d w) = Inr ()"
    using pg_merge_effect(3) [OF ok, of "env\<lparr>pe_now := pw_clock w\<rparr>" i v d] that by simp
qed (simp_all add: pg_unwritten pg_create_cr_effect pg_update_cr_effect(1,2) pg_merge_effect(1,2) pg_add_comment_effect
       pg_resolve_effect pg_cr_id pg_get_cr_found)

section \<open>Updates after a merge\<close>

lemma merged_row_version:
  assumes "wr_definition row = JObject d" and "fmlookup d ''version'' = Some n"
  shows "\<exists>m. merge_row_into_definition env i row = JObject m \<and> fmlookup m ''version'' = Some n"
  using assms by (simp add: merge_row_into_definition_def json_or_insert_def)

lemma save_version_tables: "pg_save_workflow_version env v s = (Inr (), s') \<Longrightarrow> pg_workflows s' = pg_workflows s"
  by (auto simp: pg_save_workflow_version_def exec_done insert_version_def split: if_splits)

lemma portG_Inr_iff: "portG m g = (Inr x, g') \<longleftrightarrow> (\<exists>t. m (eg_world g) = (Inr x, t) \<and> g' = g\<lparr>eg_world := t\<rparr>)"
  by (auto simp: portG_def split: prod.split)

lemma num_of_i64_inject [simp]: "num_of_i64 a = num_of_i64 b \<longleftrightarrow> a = b"
  by (auto simp: num_of_i64_def)

text \<open>A workflow that instances refer to cannot be deleted.\<close>

lemma pg_delete_blocked:
  assumes "fmlookup (pg_instances s) j = Some row" and "ir_workflow_id row = i"
  shows "fst (pg_delete_workflow env i s) \<noteq> Inr ()"
proof -
  have "j |\<in>| fmdom (pg_instances s)" using assms(1) by (rule fmdomI)
  with assms have "\<exists>j \<in> fset (fmdom (pg_instances s)). map_option ir_workflow_id (fmlookup (pg_instances s) j) = Some i"
    by (intro bexI [of _ j]) simp_all
  then show ?thesis
    by (simp add: pg_delete_workflow_def bindE_def pg_exec_def raise_def ret_def split: option.split)
qed

section \<open>Properties\<close>

text \<open>On PostgreSQL, whatever statements fail, a change request keeps its identity over any sequence of requests,
  never returns to draft and changes no more, comments apart, once merged or rejected; and what is approved or merged
  was approved by a permitted user other than its author, while open, with the proposal it has now.\<close>

theorem pg_review_process:
  assumes "pg_reviews_ok (pw_pg w)" and "pg_cr (pw_pg w) i = Some cr"
  shows "\<exists>cr'. pg_cr (pw_pg (serve_all (pg_review_env env pa en) rqs w)) i = Some cr' \<and> same_identity cr cr' \<and>
      (cr_status cr' = CrDraft \<longrightarrow> cr_status cr = CrDraft) \<and>
      (cr_status cr = CrMerged \<or> cr_status cr = CrRejected \<longrightarrow> uncommented cr' = uncommented cr) \<and>
      (cr_status cr' \<in> {CrApproved, CrMerged} \<and> cr_status cr \<notin> {CrApproved, CrMerged} \<longrightarrow>
        (\<exists>pre c post mid. rqs = pre @ (c, cr_workflow_id cr', ApproveCr i) # post \<and>
          may c Approve (cr_workflow_id cr') None \<and> ca_user c \<noteq> cr_author cr' \<and>
          pg_cr (pw_pg (serve_all (pg_review_env env pa en) pre w)) i = Some mid \<and> cr_status mid = CrOpen \<and>
          cr_proposed_definition mid = cr_proposed_definition cr'))"
proof -
  obtain cr' where cr': "pg_cr (pw_pg (serve_all (pg_review_env env pa en) rqs w)) i = Some cr'" and course: "review_course cr cr'"
    using pg_reviews.lifecycle [OF assms(1,2), of env pa en rqs] by auto
  have "\<exists>pre c post mid. rqs = pre @ (c, cr_workflow_id cr', ApproveCr i) # post \<and>
      may c Approve (cr_workflow_id cr') None \<and> ca_user c \<noteq> cr_author cr' \<and>
      pg_cr (pw_pg (serve_all (pg_review_env env pa en) pre w)) i = Some mid \<and> cr_status mid = CrOpen \<and>
      cr_proposed_definition mid = cr_proposed_definition cr'"
    if "cr_status cr' \<in> {CrApproved, CrMerged}" "cr_status cr \<notin> {CrApproved, CrMerged}"
    using pg_reviews.settled_was_approved [OF assms(1), of i env pa en rqs cr'] cr' assms(2) that
    by (auto simp: settled_cr_def)
  with cr' course show ?thesis by (auto simp: review_course_def closed_status_def)
qed

text \<open>A rebase that answers with the new base version has not changed the stored one.\<close>

theorem pg_rebase_lost:
  assumes "pg_reviews_ok (pw_pg w)"
    and "serve_review (pg_review_env env pa en) c wid (RebaseCr i) w = (Data 200 (RvRebased v st), w')"
  shows "\<exists>cr cr'. pg_cr (pw_pg w) i = Some cr \<and> pg_cr (pw_pg w') i = Some cr' \<and>
    cr_base_version cr' = cr_base_version cr \<and> cr_base_version cr \<noteq> v"
proof -
  let ?e = "env\<lparr>pe_now := pw_clock w\<rparr>"
  from assms(2) obtain cr r where cr: "pg_get_change_request ?e i (pw_pg w) = (Inr cr, r)" "cr_base_version cr \<noteq> v"
    and "\<exists>new e'. cr_id new = cr_id cr \<and> pg_update_change_request e' new (pw_pg w) = (Inr (), pw_pg w')"
    by (auto simp: serve_review_def rebase_change_request_def endpoint_simps load_cr_def enabled_def store_cr_def on_pg_def
        Let_def dest!: pg_pure split: if_splits sum.splits prod.splits; fastforce)
  then obtain new e' where new: "cr_id new = cr_id cr" "pg_update_change_request e' new (pw_pg w) = (Inr (), pw_pg w')" by blast
  from pg_get_cr_found [of ?e i "pw_pg w" cr] cr(1) have "pg_cr (pw_pg w) i = Some cr" "cr_id cr = i" by (auto dest: pg_cr_id)
  with pg_update_cr_effect(3) [OF assms(1), of e' new] new cr(2) show ?thesis by auto
qed

text \<open>C22. A merge installs the proposal with the version field the proposal has, if it has one. Unless that is the
  successor of the stored version, the workflow is read back under the wrong version, and an update by an engine on this
  store fails with every definition: it counts up from the version it reads, the store compares with its own. All that
  is asked of serde is that a version field it reads as a workflow's version is the number of that version; an object
  without the field may be read in any way.\<close>

theorem pg_merge_blocks_updates:
  assumes "pg_merge_change_request env i v (JObject d) s = (Inr (), s')"
    and "fmlookup (pg_change_requests s) i = Some cr" and "fmlookup (pg_workflows s) (qr_workflow_id cr) = Some row"
    and "fmlookup d ''version'' = Some (JNumber (num_of_i64 k))" and "k \<noteq> wr_version row + 1"
    and serde: "\<And>m x n. pe_workflow_of env (JObject m) = Inr x \<Longrightarrow> fmlookup m ''version'' = Some (JNumber n) \<Longrightarrow>
      n = num_of_i64 (wf_version x)"
    and ports: "ee_get_workflow eenv = pg_get_workflow env" "ee_update_workflow eenv = pg_update_workflow env"
      "ee_save_workflow_version eenv = pg_save_workflow_version env" "\<And>w. snd (ee_now eenv w) = w"
    and "wf_id w = qr_workflow_id cr" and "eg_world g = s'"
  shows "fst (update_workflow eenv w g) \<noteq> Inr () \<and>
    (\<forall>x. fst (pg_get_workflow env (wf_id w) s') = Inr x \<longrightarrow> wf_version x = k)"
proof -
  from pg_merge_cases [OF assms(1)] assms(2,3,11) have stored: "fmlookup (pg_workflows s') (wf_id w) =
      Some (row\<lparr>wr_definition := JObject d, wr_version := wr_version row + 1, wr_updated_at := pe_now env\<rparr>)"
    by auto
  obtain m where m: "merge_row_into_definition env (wf_id w)
      (row\<lparr>wr_definition := JObject d, wr_version := wr_version row + 1, wr_updated_at := pe_now env\<rparr>) = JObject m"
    "fmlookup m ''version'' = Some (JNumber (num_of_i64 k))"
    using merged_row_version [OF _ assms(4), of "row\<lparr>wr_definition := JObject d, wr_version := wr_version row + 1,
      wr_updated_at := pe_now env\<rparr>" env "wf_id w"] by auto
  have read: "wf_version x = k \<and> t = s'" if "pg_get_workflow env (wf_id w) s' = (Inr x, t)" for x t
    using that serde [of m x "num_of_i64 k"]
    by (auto simp: pg_get_workflow_def pg_done stored row_to_workflow_def m deserialized_def split: sum.splits)
  have now: "nowG eenv h = (Inr (fst (ee_now eenv (eg_world h))), h)" for h
    using ports(4) [of "eg_world h"] by (cases "ee_now eenv (eg_world h)") (simp add: nowG_def portG_def)
  have "fst (update_workflow eenv w g) \<noteq> Inr ()"
  proof
    assume "fst (update_workflow eenv w g) = Inr ()"
    then obtain g' where "update_workflow eenv w g = (Inr (), g')" by (metis prod.collapse)
    then obtain x t where x: "pg_get_workflow env (wf_id w) s' = (Inr x, t)"
      and rest: "(case ee_encode_workflow eenv x of
          Inl e \<Rightarrow> raise (Internal (''serialize workflow for version snapshot: '' @ e))
        | Inr d' \<Rightarrow> seqE (portG (ee_save_workflow_version eenv
            \<lparr>wv_version = wf_version x, wv_workflow_id = wf_id x, wv_definition = d', wv_author = None, wv_message = None,
             wv_created_at = wf_updated_at x\<rparr>))
          (bindE (nowG eenv) (\<lambda>now. portG (ee_update_workflow eenv (migrate_legacy_triggers w
            \<lparr>wf_version := wf_version x + 1, wf_created_at := wf_created_at x, wf_updated_at := now\<rparr>))))) (g\<lparr>eg_world := t\<rparr>)
        = (Inr (), g')"
      by (auto simp: update_workflow_def bindE_Inr_iff portG_Inr_iff ports(1) assms(12) ret_done Let_def getsE_def)
    from rest obtain d' t1 n t2 where
      sv: "pg_save_workflow_version env
        \<lparr>wv_version = wf_version x, wv_workflow_id = wf_id x, wv_definition = d', wv_author = None, wv_message = None,
         wv_created_at = wf_updated_at x\<rparr> t = (Inr (), t1)"
      and up: "pg_update_workflow env (migrate_legacy_triggers w
            \<lparr>wf_version := wf_version x + 1, wf_created_at := wf_created_at x, wf_updated_at := n\<rparr>) t1 = (Inr (), t2)"
      by (cases "ee_encode_workflow eenv x")
         (auto simp: bindE_Inr_iff seqE_Inr_iff portG_Inr_iff ports(2,3) now ret_done)
    from read [OF x] sv have "pg_workflows t1 = pg_workflows s'" "wf_version x = k" using save_version_tables by auto
    with pg_update_workflow_done [OF up] stored assms(5) show False by auto
  qed
  moreover have "\<forall>x. fst (pg_get_workflow env (wf_id w) s') = Inr x \<longrightarrow> wf_version x = k"
    using read by (metis prod.collapse)
  ultimately show ?thesis ..
qed

section \<open>Samples\<close>

definition pg_with_cr :: "change_request_status \<Rightarrow> pg" where
  "pg_with_cr st = stocked\<lparr>pg_change_requests := fmupd ''cr-1'' (change_request_row_of (sample_cr st)) fmempty\<rparr>"

definition pg_world_of :: "pg \<Rightarrow> pg_world" where
  "pg_world_of s = \<lparr>pw_pg = s, pw_clock = 0, pw_ids = 0\<rparr>"

definition calm_pg :: pg_env where
  "calm_pg = plain_pg_env (\<lambda>_. None)"

lemma stocked_no_comments: "comments_of stocked i = []"
  by (simp add: comments_of_def stocked_def pg_empty_def fm_items_def sorted_list_of_fmap_def sorted_list_of_fset.rep_eq)

lemma pg_with_cr_simps [simp]:
  "pg_reviews_ok (pg_with_cr st)" "pg_cr (pg_with_cr st) ''cr-1'' = Some (sample_cr st)" "pw_pg (pg_world_of s) = s"
proof -
  have "map_change_request_fields ''cr-1'' (change_request_row_of (sample_cr st)) = Inr (sample_cr st)"
    using map_row_of [of "sample_cr st"] by (simp add: sample_cr_def)
  then show "pg_cr (pg_with_cr st) ''cr-1'' = Some (sample_cr st)"
    by (simp add: pg_cr_def pg_with_cr_def stocked_no_comments) (simp add: sample_cr_def)
qed (auto simp: pg_reviews_ok_def pg_with_cr_def stocked_def pg_empty_def pg_world_of_def change_request_row_of_def)

theorem pg_review_process_witness:
  "\<exists>cr'. pg_cr (pw_pg (serve_all (pg_review_env calm_pg (\<lambda>_. Inl []) (\<lambda>_. None))
     [(plain_caller ''bob'', ''wf-1'', ApproveCr ''cr-1'')] (pg_world_of (pg_with_cr CrOpen)))) ''cr-1'' = Some cr' \<and>
     same_identity (sample_cr CrOpen) cr'"
  using pg_review_process [of "pg_world_of (pg_with_cr CrOpen)" "''cr-1''" "sample_cr CrOpen" calm_pg "\<lambda>_. Inl []" "\<lambda>_. None"
      "[(plain_caller ''bob'', ''wf-1'', ApproveCr ''cr-1'')]"] by auto

text \<open>The same tables with the workflow at version 2.\<close>

definition pg_moved_on :: "change_request_status \<Rightarrow> pg" where
  "pg_moved_on st = (pg_with_cr st)\<lparr>pg_workflows := fmupd ''wf-1'' (workflow_row_of
     ((sample_workflow [sample_node KAction ''a''] [])\<lparr>wf_version := 2\<rparr>)
     (JObject (fmupd ''version'' (JNumber (num_of_i64 2)) fmempty))) fmempty\<rparr>"

lemma pg_moved_on_simps:
  "pg_reviews_ok (pg_moved_on st)" "pg_cr (pg_moved_on st) i = pg_cr (pg_with_cr st) i"
  using pg_with_cr_simps(1) [of st]
  by (simp_all add: pg_moved_on_def pg_reviews_ok_def pg_cr_def comments_of_def cong: option.case_cong sum.case_cong)

lemma calm_get_cr: "pg_cr s i = Some cr \<Longrightarrow> pg_get_change_request (calm_pg\<lparr>pe_now := t\<rparr>) i s = (Inr cr, s)"
  by (auto simp: pg_get_change_request_def pg_step_simps calm_pg_def pg_cr_def plain_pg_env_def split: option.splits sum.splits)

lemma calm_get_workflow:
  "fst (pg_get_workflow (calm_pg\<lparr>pe_now := t\<rparr>) ''wf-1'' (pg_moved_on st)) =
     Inr ((sample_workflow [sample_node KAction ''a''] [])\<lparr>wf_version := 2\<rparr>)"
  by (simp add: pg_get_workflow_def pg_step_simps calm_pg_def plain_pg_env_def pg_moved_on_def row_to_workflow_def
      merge_row_into_definition_def workflow_row_of_def json_or_insert_def deserialized_def num_of_i64_def)

theorem pg_rebase_lost_witness:
  "\<exists>v st w' cr'. serve_review (pg_review_env calm_pg (\<lambda>_. Inl []) (\<lambda>_. None)) (plain_caller ''bob'') ''wf-1'' (RebaseCr ''cr-1'')
     (pg_world_of (pg_moved_on CrOpen)) = (Data 200 (RvRebased v st), w') \<and>
     pg_cr (pw_pg w') ''cr-1'' = Some cr' \<and> cr_base_version cr' \<noteq> v"
proof -
  let ?s = "pg_moved_on CrOpen"
  have cr: "pg_cr ?s ''cr-1'' = Some (sample_cr CrOpen)" by (simp add: pg_moved_on_simps)
  have wf: "pg_get_workflow (calm_pg\<lparr>pe_now := 0\<rparr>) ''wf-1'' ?s = (Inr ((sample_workflow [sample_node KAction ''a''] [])\<lparr>wf_version := 2\<rparr>), ?s)"
    using calm_get_workflow [of 0 CrOpen] pg_unwritten(3) [of "calm_pg\<lparr>pe_now := 0\<rparr>" "''wf-1''" ?s] by (metis prod.collapse)
  have up: "\<exists>s'. pg_update_change_request (calm_pg\<lparr>pe_now := 1\<rparr>) ((sample_cr CrOpen)\<lparr>cr_base_version := 2, cr_status := CrOpen, cr_updated_at := 0\<rparr>) ?s = (Inr (), s')"
    by (simp add: pg_update_change_request_def pg_step_simps calm_pg_def plain_pg_env_def update_change_request_row_def pg_moved_on_def
        pg_with_cr_def)
  have "\<exists>w'. serve_review (pg_review_env calm_pg (\<lambda>_. Inl []) (\<lambda>_. None)) (plain_caller ''bob'') ''wf-1'' (RebaseCr ''cr-1'')
     (pg_world_of ?s) = (Data 200 (RvRebased 2 CrOpen), w')"
    using up
    by (auto simp: serve_review_def rebase_change_request_def endpoint_simps load_cr_def enabled_def store_cr_def on_pg_def Let_def
        pg_world_of_def calm_get_cr [OF cr] wf sample_cr_def)
  then obtain w' where w': "serve_review (pg_review_env calm_pg (\<lambda>_. Inl []) (\<lambda>_. None)) (plain_caller ''bob'') ''wf-1'' (RebaseCr ''cr-1'')
     (pg_world_of ?s) = (Data 200 (RvRebased 2 CrOpen), w')" by blast
  have "pg_reviews_ok (pw_pg (pg_world_of ?s))" by (simp add: pg_moved_on_simps)
  from pg_rebase_lost [OF this w'] w' show ?thesis by fastforce
qed

text \<open>An engine on the PostgreSQL store, whose bus and monitors do nothing.\<close>

definition pg_engine_env :: "pg_env \<Rightarrow> pg engine_env" where
  "pg_engine_env env =
     \<lparr>ee_pool_name = ''default'', ee_snapshot_interval = 10, ee_budget = None, ee_cel = (\<lambda>e _. Inr (JString e)),
      ee_get_workflow = pg_get_workflow env, ee_create_workflow = pg_create_workflow env,
      ee_update_workflow = pg_update_workflow env, ee_save_workflow_version = pg_save_workflow_version env,
      ee_get_instance = pg_get_instance env, ee_update_instance = pg_update_instance env,
      ee_create_instance_tx = pg_create_instance_tx env, ee_list_running = pg_list_running_instances env,
      ee_append_event = pg_append_domain_event env, ee_save_snapshot = pg_save_snapshot env,
      ee_credential_for_owner = None, ee_check_budget = None, ee_publish = (\<lambda>_ _. ret ()),
      ee_sla_failure = (\<lambda>_ w. w), ee_sla_success = (\<lambda>_ w. w), ee_sla_check = (\<lambda>_ _ w. (SlaOk, w)),
      ee_spawn_node_metrics = None, ee_spawn_instance_metrics = None, ee_spawn_cost = None,
      ee_now = (\<lambda>w. (pe_now env, w)), ee_uuid = (\<lambda>w. ([], w)), ee_encode_task = (\<lambda>_. Inr []),
      ee_decode_result = (\<lambda>_. Inl []), ee_encode_workflow = pe_workflow_json env,
      ee_parse_metrics = (\<lambda>_. None), ee_json_str = (\<lambda>_. []), ee_fmt_f64 = (\<lambda>_ _. []),
      ee_powi = (\<lambda>x _. x), ee_trace_context = fmempty\<rparr>"

lemma calm_reads_version:
  "pe_workflow_of calm_pg (JObject m) = Inr x \<Longrightarrow> fmlookup m ''version'' = Some (JNumber n) \<Longrightarrow> n = num_of_i64 (wf_version x)"
  by (auto simp: calm_pg_def plain_pg_env_def split: option.splits json.splits if_splits)

text \<open>The proposal was edited from version 1 and is merged into version 1.\<close>

theorem pg_merge_blocks_updates_witness:
  "\<exists>s'. pg_merge_change_request calm_pg ''cr-1'' 1 (JObject (fmupd ''version'' (JNumber (num_of_i64 1)) fmempty))
      (pg_with_cr CrApproved) = (Inr (), s') \<and>
    fst (update_workflow (pg_engine_env calm_pg) (sample_workflow [sample_node KAction ''a''] []) (engine_new s')) \<noteq> Inr ()"
proof -
  let ?d = "fmupd ''version'' (JNumber (num_of_i64 1)) fmempty"
  let ?s = "pg_with_cr CrApproved"
  have "fst (pg_merge_change_request calm_pg ''cr-1'' 1 (JObject ?d) ?s) = Inr ()"
    by (simp add: pg_merge_change_request_def bindE_def liftR_def reject_reactflow_change_definition_def json_list_field_def rejectR_def
        calm_pg_def healthy_simps [OF plain_healthy] pg_with_cr_def change_request_row_of_def sample_cr_def cr_status_str_def
        found_def ret_def insert_version_def Let_def)
  note m = outcome [of "pg_merge_change_request calm_pg ''cr-1'' 1 (JObject ?d)", OF this]
  have rows: "fmlookup (pg_change_requests ?s) ''cr-1'' = Some (change_request_row_of (sample_cr CrApproved))"
    "fmlookup (pg_workflows ?s) (qr_workflow_id (change_request_row_of (sample_cr CrApproved))) =
       Some (workflow_row_of (sample_workflow [sample_node KAction ''a''] []) (JObject ?d))"
    by (simp_all add: pg_with_cr_def change_request_row_of_def)
  have "fst (update_workflow (pg_engine_env calm_pg) (sample_workflow [sample_node KAction ''a''] [])
      (engine_new (snd (pg_merge_change_request calm_pg ''cr-1'' 1 (JObject ?d) ?s)))) \<noteq> Inr ()"
    using pg_merge_blocks_updates [OF m rows, of 1 "pg_engine_env calm_pg" "sample_workflow [sample_node KAction ''a''] []"
        "engine_new (snd (pg_merge_change_request calm_pg ''cr-1'' 1 (JObject ?d) ?s))"] calm_reads_version
    by (simp add: pg_engine_env_def engine_new_def change_request_row_of_def) (simp add: sample_workflow_def workflow_row_of_def)
  with m show ?thesis by blast
qed

end
