(* ===== verification/Nodes.thy ===== *)
theory Nodes
  imports Dag Ports Metering AuditTrail "HOL-Library.Product_Lexorder" "HOL-Library.Multiset"
begin

text \<open>
  The built-in nodes that compute, \<open>crates/orbflow-builtins/src\<close>: \<open>util.rs\<close>, \<open>filter.rs\<close>, \<open>sort.rs\<close>,
  \<open>transform.rs\<close>, \<open>template.rs\<close>, \<open>encode.rs\<close>, \<open>delay.rs\<close>, \<open>log.rs\<close> and \<open>triggers.rs\<close>. A node is a function of
  its input and of \<open>node_env\<close>, which holds what the sources call: the CEL evaluator, serde's text of a
  value, the crates base64, url, sha2, md5 and tera, and the time. An error text is its fixed part where the
  code prints a value with \<open>{:?}\<close>.
\<close>

record node_env =
  nv_cel :: cel_fn
  nv_json_str :: "json \<Rightarrow> string"
  nv_base64_encode :: "string \<Rightarrow> string"
  nv_base64_decode :: "string \<Rightarrow> string + string"
  nv_from_utf8 :: "string \<Rightarrow> string + string"
  nv_form_serialize :: "string \<Rightarrow> string"
  nv_form_parse :: "string \<Rightarrow> (string \<times> string) list"
  nv_sha256 :: "string \<Rightarrow> string"
  nv_md5 :: "string \<Rightarrow> string"
  nv_tera_add :: "string \<Rightarrow> string option"
  nv_tera_context :: "json \<Rightarrow> string option"
  nv_tera_render :: "string \<Rightarrow> json \<Rightarrow> string + string"
  nv_now_str :: string

section \<open>Configuration\<close>

definition merge_config :: "jmap option \<Rightarrow> jmap option \<Rightarrow> jmap" where
  "merge_config base overlay =
     (case base of None \<Rightarrow> fmempty | Some b \<Rightarrow> b) ++\<^sub>f (case overlay of None \<Rightarrow> fmempty | Some over \<Rightarrow> over)"

definition resolve_config :: "node_input \<Rightarrow> jmap" where
  "resolve_config inp =
     (let cfg = merge_config (ni_config inp) (ni_input inp) in
      case ni_parameters inp of None \<Rightarrow> cfg | Some ps \<Rightarrow> merge_config (Some cfg) (Some ps))"

definition string_val :: "jmap \<Rightarrow> string \<Rightarrow> string \<Rightarrow> string" where
  "string_val m key fallback = (case fmlookup m key of Some (JString s) \<Rightarrow> s | _ \<Rightarrow> fallback)"

definition int_val :: "jmap \<Rightarrow> string \<Rightarrow> int \<Rightarrow> int" where
  "int_val m key fallback = (case fmlookup m key of
       Some (JNumber n) \<Rightarrow> (case num_as_i64 n of
           Some i \<Rightarrow> i
         | None \<Rightarrow> (case num_as_f64 n of Some f \<Rightarrow> f64_to_int (- (2 ^ 63)) (2 ^ 63 - 1) f | None \<Rightarrow> fallback))
     | _ \<Rightarrow> fallback)"

definition float_val :: "jmap \<Rightarrow> string \<Rightarrow> f64 \<Rightarrow> f64" where
  "float_val m key fallback = (case fmlookup m key of
       Some (JNumber n) \<Rightarrow> (case num_as_f64 n of Some f \<Rightarrow> f | None \<Rightarrow> fallback)
     | _ \<Rightarrow> fallback)"

definition bool_val :: "jmap \<Rightarrow> string \<Rightarrow> bool \<Rightarrow> bool" where
  "bool_val m key fallback = (case fmlookup m key of Some (JBool b) \<Rightarrow> b | _ \<Rightarrow> fallback)"

definition to_slice :: "json \<Rightarrow> json list option" where
  "to_slice v = json_as_array v"

definition make_output :: "(string \<times> json) list \<Rightarrow> jmap" where
  "make_output kvs = fold (\<lambda>(k, v). fmupd k v) kvs fmempty"

definition ok_output :: "(string \<times> json) list \<Rightarrow> node_output" where
  "ok_output kvs = \<lparr>no_data = Some (make_output kvs), no_error = None\<rparr>"

definition or_config_error :: "'a option \<Rightarrow> string \<Rightarrow> 'a result" where
  "or_config_error r msg = (case r of None \<Rightarrow> Inl (InvalidNodeConfig msg) | Some x \<Rightarrow> Inr x)"

lemma or_config_error_Inr [simp]: "or_config_error r msg = Inr x \<longleftrightarrow> r = Some x"
  by (simp add: or_config_error_def split: option.split)

lemma or_config_error_Some [simp]: "or_config_error (Some x) msg = Inr x"
  by (simp add: or_config_error_def)

lemma make_output_simps [simp]:
  "fmlookup (make_output [(k, v)]) x = (if x = k then Some v else None)"
  "fmlookup (make_output [(k, v), (k', v')]) x = (if x = k' then Some v' else if x = k then Some v else None)"
  "fmlookup (make_output [(k, v), (k', v'), (k'', v'')]) x =
     (if x = k'' then Some v'' else if x = k' then Some v' else if x = k then Some v else None)"
  by (simp_all add: make_output_def)

text \<open>Parameters override run-time inputs, which override the static configuration.\<close>

lemma resolve_config_lookup:
  "fmlookup (resolve_config inp) k =
     (case Option.bind (ni_parameters inp) (\<lambda>m. fmlookup m k) of
        Some v \<Rightarrow> Some v
      | None \<Rightarrow> (case Option.bind (ni_input inp) (\<lambda>m. fmlookup m k) of
          Some v \<Rightarrow> Some v
        | None \<Rightarrow> Option.bind (ni_config inp) (\<lambda>m. fmlookup m k)))"
  by (auto simp: resolve_config_def merge_config_def Let_def fmlookup_dom_iff split: option.split)

section \<open>Filter\<close>

definition MAX_ARRAY_ITEMS :: nat where
  "MAX_ARRAY_ITEMS = 10000"

definition item_context :: "nat \<Rightarrow> json \<Rightarrow> jmap" where
  "item_context i item = fmupd ''i'' (JNumber (num_of_i64 (int i))) (fmupd ''item'' item fmempty)"

fun filter_items :: "cel_fn \<Rightarrow> string \<Rightarrow> nat \<Rightarrow> json list \<Rightarrow> json list result" where
  "filter_items cel expr i [] = Inr []"
| "filter_items cel expr i (x # xs) = (case cel_bool cel expr (item_context i x) of
       Inl e \<Rightarrow> Inl (InvalidNodeConfig
         (''filter node: expression evaluation failed at item '' @ nat_str i @ '': '' @ error_str e))
     | Inr b \<Rightarrow> bindR (filter_items cel expr (Suc i) xs) (\<lambda>ys. Inr (if b then x # ys else ys)))"

definition filter_execute :: "node_env \<Rightarrow> node_input \<Rightarrow> node_output result" where
  "filter_execute env inp =
     (let cfg = resolve_config inp; expr = string_val cfg ''expression'' [] in
      bindR (rejectR (expr = []) (InvalidNodeConfig ''filter node: expression is required'')) (\<lambda>_.
      bindR (or_config_error (fmlookup cfg ''items'') ''filter node: items is required'') (\<lambda>raw_items.
      bindR (or_config_error (to_slice raw_items) ''filter node: items must be an array'') (\<lambda>items.
      bindR (rejectR (length items > MAX_ARRAY_ITEMS)
        (InvalidNodeConfig ''filter node: items array exceeds maximum of 10000 elements'')) (\<lambda>_.
      bindR (filter_items (nv_cel env) expr 0 items) (\<lambda>ys. Inr (ok_output
        [(''result'', JArray ys), (''count'', JNumber (num_of_u64 (length ys))),
         (''total'', JNumber (num_of_u64 (length items)))])))))))"

lemma filter_items_Inr:
  "filter_items cel expr i xs = Inr ys \<longleftrightarrow>
     (\<forall>k < length xs. \<exists>b. cel_bool cel expr (item_context (i + k) (xs ! k)) = Inr b) \<and>
     ys = map snd (filter (\<lambda>(k, x). cel_bool cel expr (item_context k x) = Inr True) (zip [i..<i + length xs] xs))"
proof (induction xs arbitrary: i ys)
  case (Cons x xs)
  have up: "[i..<i + length (x # xs)] = i # [Suc i..<Suc i + length xs]" by (subst upt_rec) simp
  show ?case
  proof (cases "cel_bool cel expr (item_context i x)")
    case (Inl e)
    then have "\<not> (\<forall>k < length (x # xs). \<exists>b. cel_bool cel expr (item_context (i + k) ((x # xs) ! k)) = Inr b)"
      by (auto intro!: exI [of _ 0])
    with Inl show ?thesis by simp
  next
    case (Inr b)
    then have "(\<forall>k < length (x # xs). \<exists>b. cel_bool cel expr (item_context (i + k) ((x # xs) ! k)) = Inr b) \<longleftrightarrow>
        (\<forall>k < length xs. \<exists>b. cel_bool cel expr (item_context (Suc i + k) (xs ! k)) = Inr b)"
      by (auto simp: less_Suc_eq_0_disj)
    with Inr show ?thesis
      unfolding up by (auto simp: bindR_Inr_iff Cons.IH)
  qed
qed auto

text \<open>The error names the first item whose evaluation fails.\<close>

lemma filter_items_Inl:
  "filter_items cel expr i xs = Inl e \<longleftrightarrow>
     (\<exists>k < length xs. \<exists>e'. (\<forall>j < k. \<exists>b. cel_bool cel expr (item_context (i + j) (xs ! j)) = Inr b) \<and>
       cel_bool cel expr (item_context (i + k) (xs ! k)) = Inl e' \<and>
       e = InvalidNodeConfig (''filter node: expression evaluation failed at item '' @ nat_str (i + k) @ '': '' @ error_str e'))"
  (is "?L i xs \<longleftrightarrow> ?R i xs")
proof (induction xs arbitrary: i)
  case (Cons x xs)
  show ?case
  proof (cases "cel_bool cel expr (item_context i x)")
    case (Inl d)
    have "?R i (x # xs) \<longleftrightarrow> e = InvalidNodeConfig
        (''filter node: expression evaluation failed at item '' @ nat_str i @ '': '' @ error_str d)"
    proof
      assume "?R i (x # xs)"
      then obtain k e' where k: "\<forall>j < k. \<exists>b. cel_bool cel expr (item_context (i + j) ((x # xs) ! j)) = Inr b"
        "cel_bool cel expr (item_context (i + k) ((x # xs) ! k)) = Inl e'"
        "e = InvalidNodeConfig (''filter node: expression evaluation failed at item '' @ nat_str (i + k) @ '': '' @ error_str e')"
        by blast
      have "k = 0" using k(1) Inl by (cases k) (auto dest!: spec [of _ 0])
      with k Inl show "e = InvalidNodeConfig
        (''filter node: expression evaluation failed at item '' @ nat_str i @ '': '' @ error_str d)" by simp
    qed (use Inl in \<open>intro exI [of _ 0] conjI exI [of _ d]; simp\<close>)
    with Inl show ?thesis by auto
  next
    case (Inr b)
    have "?R i (x # xs) \<longleftrightarrow> ?R (Suc i) xs"
    proof
      assume "?R i (x # xs)"
      then obtain k e' where k: "k < length (x # xs)" "\<forall>j < k. \<exists>b. cel_bool cel expr (item_context (i + j) ((x # xs) ! j)) = Inr b"
        "cel_bool cel expr (item_context (i + k) ((x # xs) ! k)) = Inl e'"
        "e = InvalidNodeConfig (''filter node: expression evaluation failed at item '' @ nat_str (i + k) @ '': '' @ error_str e')"
        by blast
      with Inr obtain k' where "k = Suc k'" by (cases k) auto
      with k show "?R (Suc i) xs" by (intro exI [of _ k']) fastforce
    next
      assume "?R (Suc i) xs"
      then obtain k e' where "k < length xs" "\<forall>j < k. \<exists>b. cel_bool cel expr (item_context (Suc i + j) (xs ! j)) = Inr b"
        "cel_bool cel expr (item_context (Suc i + k) (xs ! k)) = Inl e'"
        "e = InvalidNodeConfig (''filter node: expression evaluation failed at item '' @ nat_str (Suc i + k) @ '': '' @ error_str e')"
        by blast
      with Inr show "?R i (x # xs)" by (intro exI [of _ "Suc k"]) (auto simp: less_Suc_eq_0_disj)
    qed
    with Inr show ?thesis by (simp add: bindR_Inl_iff Cons.IH)
  qed
qed simp

section \<open>Sort\<close>

text \<open>\<open>std::cmp::Ordering\<close> and \<open>sort_by\<close>, the stable sort of the standard library.\<close>

datatype cmp_ordering = CmpLess | CmpEqual | CmpGreater

definition cmp_reverse :: "cmp_ordering \<Rightarrow> cmp_ordering" where
  "cmp_reverse c = (case c of CmpLess \<Rightarrow> CmpGreater | CmpEqual \<Rightarrow> CmpEqual | CmpGreater \<Rightarrow> CmpLess)"

definition cmp_ord :: "'a::linorder \<Rightarrow> 'a \<Rightarrow> cmp_ordering" where
  "cmp_ord a b = (if a < b then CmpLess else if b < a then CmpGreater else CmpEqual)"

definition f64_partial_cmp :: "f64 \<Rightarrow> f64 \<Rightarrow> cmp_ordering option" where
  "f64_partial_cmp x y =
     (if x = F_NaN \<or> y = F_NaN then None
      else Some (if f64_lt x y then CmpLess else if f64_lt y x then CmpGreater else CmpEqual))"

fun insert_by :: "('a \<Rightarrow> 'a \<Rightarrow> cmp_ordering) \<Rightarrow> 'a \<Rightarrow> 'a list \<Rightarrow> 'a list" where
  "insert_by cmp x [] = [x]"
| "insert_by cmp x (y # ys) = (if cmp x y = CmpGreater then y # insert_by cmp x ys else x # y # ys)"

definition sort_by :: "('a \<Rightarrow> 'a \<Rightarrow> cmp_ordering) \<Rightarrow> 'a list \<Rightarrow> 'a list" where
  "sort_by cmp xs = foldr (insert_by cmp) xs []"

definition extract_sort_value :: "json \<Rightarrow> string \<Rightarrow> json option" where
  "extract_sort_value item key = json_get item key"

fun compare_json_values :: "(json \<Rightarrow> string) \<Rightarrow> json \<Rightarrow> json \<Rightarrow> cmp_ordering" where
  "compare_json_values str (JNumber na) (JNumber nb) =
     (let fa = (case num_as_f64 na of Some f \<Rightarrow> f | None \<Rightarrow> F 0); fb = (case num_as_f64 nb of Some f \<Rightarrow> f | None \<Rightarrow> F 0) in
      case f64_partial_cmp fa fb of Some c \<Rightarrow> c | None \<Rightarrow> CmpEqual)"
| "compare_json_values str (JString sa) (JString sb) = cmp_ord sa sb"
| "compare_json_values str (JBool ba) (JBool bb) = cmp_ord ba bb"
| "compare_json_values str JNull JNull = CmpEqual"
| "compare_json_values str JNull _ = CmpLess"
| "compare_json_values str _ JNull = CmpGreater"
| "compare_json_values str a b = cmp_ord (str a) (str b)"

definition compare_values :: "(json \<Rightarrow> string) \<Rightarrow> json option \<Rightarrow> json option \<Rightarrow> cmp_ordering" where
  "compare_values str a b = (case (a, b) of
       (None, None) \<Rightarrow> CmpEqual
     | (None, Some _) \<Rightarrow> CmpLess
     | (Some _, None) \<Rightarrow> CmpGreater
     | (Some va, Some vb) \<Rightarrow> compare_json_values str va vb)"

definition item_order :: "(json \<Rightarrow> string) \<Rightarrow> string \<Rightarrow> string \<Rightarrow> json \<Rightarrow> json \<Rightarrow> cmp_ordering" where
  "item_order str key direction a b =
     (let ordering = compare_values str (extract_sort_value a key) (extract_sort_value b key) in
      if direction = ''desc'' then cmp_reverse ordering else ordering)"

definition sort_execute :: "node_env \<Rightarrow> node_input \<Rightarrow> node_output result" where
  "sort_execute env inp =
     (let cfg = resolve_config inp in
      bindR (or_config_error (fmlookup cfg ''items'') ''sort node: items field is required'') (\<lambda>raw_items.
      bindR (or_config_error (to_slice raw_items) ''sort node: items must be an array'') (\<lambda>items.
      bindR (rejectR (length items > MAX_ARRAY_ITEMS)
        (InvalidNodeConfig ''sort node: items array exceeds maximum of 10000 elements'')) (\<lambda>_.
      let key = string_val cfg ''key'' [] in
      bindR (rejectR (key = []) (InvalidNodeConfig ''sort node: sort key is required'')) (\<lambda>_.
      Inr (ok_output [(''items'', JArray (sort_by (item_order (nv_json_str env) key (string_val cfg ''direction'' ''asc'')) items))]))))))"

section \<open>Transform\<close>

definition value_type_name :: "json \<Rightarrow> string" where
  "value_type_name v = (case v of
       JNull \<Rightarrow> ''null''
     | JBool _ \<Rightarrow> ''bool''
     | JNumber n \<Rightarrow> (if num_as_i64 n \<noteq> None \<or> num_as_u64 n \<noteq> None then ''int'' else ''float'')
     | JString _ \<Rightarrow> ''string''
     | JArray _ \<Rightarrow> ''list''
     | JObject _ \<Rightarrow> ''map'')"

definition get_or :: "jmap \<Rightarrow> string \<Rightarrow> json \<Rightarrow> json" where
  "get_or cfg k v = (case fmlookup cfg k of Some x \<Rightarrow> x | None \<Rightarrow> v)"

definition map_err :: "(orbflow_error \<Rightarrow> orbflow_error) \<Rightarrow> 'a result \<Rightarrow> 'a result" where
  "map_err f r = map_sum f id r"

definition transform_execute :: "node_env \<Rightarrow> node_input \<Rightarrow> node_output result" where
  "transform_execute env inp =
     (let cfg = resolve_config inp; expr = string_val cfg ''expression'' [] in
      bindR (rejectR (expr = []) (InvalidNodeConfig ''transform node: expression is required'')) (\<lambda>_.
      bindR (map_err (\<lambda>e. InvalidNodeConfig (''transform node: eval expression: '' @ error_str e))
        (nv_cel env expr (fmupd ''input'' (get_or cfg ''data'' (JObject fmempty)) fmempty))) (\<lambda>v.
      Inr (ok_output [(''result'', v), (''type'', JString (value_type_name v))]))))"

section \<open>Template\<close>

text \<open>\<open>s.find(p)\<close>\<close>

fun find_str :: "string \<Rightarrow> string \<Rightarrow> nat option" where
  "find_str p [] = (if p = [] then Some 0 else None)"
| "find_str p (c # cs) = (if starts_with p (c # cs) then Some 0 else map_option Suc (find_str p cs))"

lemma find_str_less: "find_str p s = Some i \<Longrightarrow> p \<noteq> [] \<Longrightarrow> i + length p \<le> length s"
  by (induction s arbitrary: i) (auto simp: starts_with_iff split: if_splits dest: arg_cong [where f = length])

function convert_go_template :: "string \<Rightarrow> string" where
  "convert_go_template s = (case find_str ''{{'' s of
       None \<Rightarrow> s
     | Some i \<Rightarrow>
         let rest = drop (i + 2) s in
         (case find_str ''}}'' rest of
            None \<Rightarrow> s
          | Some j \<Rightarrow>
              let inner = trim (take j rest);
                  converted = (case strip_prefix ''.'' inner of Some t \<Rightarrow> t | None \<Rightarrow> inner) in
              take i s @ ''{{ '' @ converted @ '' }}'' @ convert_go_template (drop (j + 2) rest)))"
  by auto

termination
  by (relation "measure length") (auto dest!: find_str_less)

declare convert_go_template.simps [simp del]

definition MAX_TEMPLATE_SIZE :: nat where
  "MAX_TEMPLATE_SIZE = 64 * 1024"

definition MAX_VARIABLES_SIZE :: nat where
  "MAX_VARIABLES_SIZE = 256 * 1024"

definition template_execute :: "node_env \<Rightarrow> node_input \<Rightarrow> node_output result" where
  "template_execute env inp =
     (let cfg = resolve_config inp; tmpl = string_val cfg ''template'' [] in
      bindR (rejectR (tmpl = []) (InvalidNodeConfig ''template node: template is required'')) (\<lambda>_.
      bindR (rejectR (length tmpl > MAX_TEMPLATE_SIZE) (InvalidNodeConfig ''template node: template exceeds maximum size'')) (\<lambda>_.
      let vars = get_or cfg ''variables'' (JObject fmempty) in
      bindR (rejectR (length (nv_json_str env vars) > MAX_VARIABLES_SIZE)
        (InvalidNodeConfig ''template node: variables exceed maximum size'')) (\<lambda>_.
      let tera_template = convert_go_template tmpl in
      case nv_tera_add env tera_template of
        Some e \<Rightarrow> Inl (InvalidNodeConfig (''template node: invalid template: '' @ e))
      | None \<Rightarrow> (case nv_tera_context env vars of
          Some e \<Rightarrow> Inl (Internal (''template node: context error: '' @ e))
        | None \<Rightarrow> (case nv_tera_render env tera_template vars of
            Inl e \<Rightarrow> Inl (Internal (''template node: render failed: '' @ e))
          | Inr rendered \<Rightarrow> Inr (ok_output [(''result'', JString rendered)])))))))"

section \<open>Encode\<close>

definition MAX_ENCODE_INPUT_BYTES :: nat where
  "MAX_ENCODE_INPUT_BYTES = 1024 * 1024"

definition url_decode :: "node_env \<Rightarrow> string \<Rightarrow> string" where
  "url_decode env raw = join_str ''&'' (map (\<lambda>(k, v). if v = [] then k else k @ ''='' @ v) (nv_form_parse env raw))"

definition encode_operation :: "node_env \<Rightarrow> string \<Rightarrow> string \<Rightarrow> string result" where
  "encode_operation env op raw =
     (if op = ''base64-encode'' then Inr (nv_base64_encode env raw)
      else if op = ''base64-decode'' then
        (case nv_base64_decode env raw of
           Inl e \<Rightarrow> Inl (Internal (''encode node: base64 decode failed: '' @ e))
         | Inr decoded \<Rightarrow> (case nv_from_utf8 env decoded of
             Inl e \<Rightarrow> Inl (Internal (''encode node: base64 decode produced invalid UTF-8: '' @ e))
           | Inr s \<Rightarrow> Inr s))
      else if op = ''url-encode'' then Inr (nv_form_serialize env raw)
      else if op = ''url-decode'' then Inr (url_decode env raw)
      else if op = ''sha256'' then Inr (hex_encode (nv_sha256 env raw))
      else if op = ''md5'' then Inr (hex_encode (nv_md5 env raw))
      else Inl (InvalidNodeConfig ''encode node: unknown operation''))"

definition encode_execute :: "node_env \<Rightarrow> node_input \<Rightarrow> node_output result" where
  "encode_execute env inp =
     (let cfg = resolve_config inp; raw = string_val cfg ''input'' []; op = string_val cfg ''operation'' [] in
      bindR (rejectR (raw = [] \<or> op = []) (InvalidNodeConfig ''encode node: input and operation are required'')) (\<lambda>_.
      bindR (rejectR (length raw > MAX_ENCODE_INPUT_BYTES)
        (InvalidNodeConfig ''encode node: input exceeds maximum size of 1048576 bytes'')) (\<lambda>_.
      bindR (encode_operation env op raw) (\<lambda>r. Inr (ok_output [(''result'', JString r), (''operation'', JString op)])))))"

section \<open>Delay\<close>

text \<open>
  The parser counts characters and slices bytes with these counts; a slice that is out of range or cuts a
  character panics, the value \<open>None\<close>. The characters of a string are the byte groups of its UTF-8.
\<close>

definition utf8_len :: "char \<Rightarrow> nat" where
  "utf8_len c = (let n = of_char c :: nat in if 0xF0 \<le> n then 4 else if 0xE0 \<le> n then 3 else if 0xC0 \<le> n then 2 else 1)"

function utf8_chars :: "string \<Rightarrow> string list" where
  "utf8_chars [] = []"
| "utf8_chars (c # cs) = take (utf8_len c) (c # cs) # utf8_chars (drop (utf8_len c) (c # cs))"
  by pat_completeness auto
termination
  by (relation "measure length") (auto simp: utf8_len_def Let_def drop_Cons')

definition char_boundary :: "string \<Rightarrow> nat \<Rightarrow> bool" where
  "char_boundary s k \<longleftrightarrow> k = length s \<or>
     k < length s \<and> (k = 0 \<or> (let n = of_char (s ! k) :: nat in n < 0x80 \<or> 0xC0 \<le> n))"

definition str_slice :: "string \<Rightarrow> nat \<Rightarrow> nat \<Rightarrow> string option" where
  "str_slice s a b = (if a \<le> b \<and> char_boundary s a \<and> char_boundary s b then Some (take (b - a) (drop a s)) else None)"

text \<open>
  \<open>str::parse::<f64>\<close> on decimal notation. Exponents, \<open>inf\<close> and \<open>nan\<close> do not reach it: the slices hold no
  letters.
\<close>

definition decimal_val :: "string \<Rightarrow> rat option" where
  "decimal_val s =
     (let ip = takeWhile ascii_digit s; rest = dropWhile ascii_digit s in
      case rest of
        [] \<Rightarrow> if ip = [] then None else Some (of_nat (digits_val ip))
      | c # fp \<Rightarrow>
          if c = CHR ''.'' \<and> list_all ascii_digit fp \<and> (ip \<noteq> [] \<or> fp \<noteq> [])
          then Some (of_nat (digits_val (ip @ fp)) / 10 ^ length fp) else None)"

definition f64_parse :: "string \<Rightarrow> f64 option" where
  "f64_parse s = (case s of
       [] \<Rightarrow> None
     | c # cs \<Rightarrow>
         if c = CHR ''-'' then map_option (\<lambda>q. f64_of_rat (- q)) (decimal_val cs)
         else if c = CHR ''+'' then map_option f64_of_rat (decimal_val cs)
         else map_option f64_of_rat (decimal_val s))"

definition ascii_alpha :: "char \<Rightarrow> bool" where
  "ascii_alpha c = (let n = of_char c :: nat in 65 \<le> n \<and> n \<le> 90 \<or> 97 \<le> n \<and> n \<le> 122)"

definition alpha_char :: "string \<Rightarrow> bool" where
  "alpha_char c = (case c of [b] \<Rightarrow> ascii_alpha b | _ \<Rightarrow> False)"

definition number_char :: "string \<Rightarrow> bool" where
  "number_char c = (case c of [b] \<Rightarrow> ascii_digit b \<or> b = CHR ''.'' | _ \<Rightarrow> False)"

definition unit_ms :: "string \<Rightarrow> f64 \<Rightarrow> f64 option" where
  "unit_ms u num =
     (if u = ''ms'' then Some num
      else if u = ''s'' then Some (f64_mul num (F 1000))
      else if u = ''m'' then Some (f64_mul num (F 60000))
      else if u = ''h'' then Some (f64_mul num (F 3600000))
      else None)"

definition as_u64 :: "f64 \<Rightarrow> u64" where
  "as_u64 f = word_of_int (f64_to_int 0 U64_MAX f)"

definition delay_error :: "string \<Rightarrow> 'a result option" where
  "delay_error msg = Some (Inl (InvalidNodeConfig (''delay node: '' @ msg)))"

function duration_loop :: "string \<Rightarrow> string list \<Rightarrow> nat \<Rightarrow> nat option \<Rightarrow> u64 \<Rightarrow> (nat option \<times> u64) result option" where
  "duration_loop s cs i num_start total_ms =
     (if length cs \<le> i then Some (Inr (num_start, total_ms))
      else if number_char (cs ! i) then
        duration_loop s cs (i + 1) (if num_start = None then Some i else num_start) total_ms
      else if alpha_char (cs ! i) then
        (case num_start of
           None \<Rightarrow> delay_error ''invalid duration''
         | Some start \<Rightarrow> (case str_slice s start i of
             None \<Rightarrow> None
           | Some num_s \<Rightarrow> (case f64_parse num_s of
               None \<Rightarrow> delay_error ''invalid number in duration''
             | Some num \<Rightarrow>
                 let j = i + length (takeWhile alpha_char (drop i cs)) in
                 (case str_slice s i j of
                    None \<Rightarrow> None
                  | Some u \<Rightarrow> (case unit_ms u num of
                      None \<Rightarrow> delay_error ''unknown unit in duration''
                    | Some ms \<Rightarrow> duration_loop s cs j None (total_ms + as_u64 ms))))))
      else duration_loop s cs (i + 1) num_start total_ms)"
  by auto
termination
proof (relation "measure (\<lambda>(s, cs, i, _). length cs - i)")
  fix s :: string and cs :: "string list" and i start num_s num j u ms and num_start :: "nat option" and total_ms :: u64
  assume "\<not> length cs \<le> i" "alpha_char (cs ! i)" "j = i + length (takeWhile alpha_char (drop i cs))"
  then have "i < j" by (cases "drop i cs") (auto simp: nth_via_drop)
  with \<open>\<not> length cs \<le> i\<close> show "((s, cs, j, None, total_ms + as_u64 ms), s, cs, i, num_start, total_ms) \<in> measure (\<lambda>(s, cs, i, _). length cs - i)"
    by simp
qed auto

declare duration_loop.simps [simp del]

definition MAX_DELAY_MS :: u64 where
  "MAX_DELAY_MS = 24 * 60 * 60 * 1000"

definition parse_duration :: "string \<Rightarrow> nat result option" where
  "parse_duration raw =
     (let s = trim raw in
      if s = [] then delay_error ''empty duration string''
      else case duration_loop s (utf8_chars s) 0 None 0 of
        None \<Rightarrow> None
      | Some (Inl e) \<Rightarrow> Some (Inl e)
      | Some (Inr (num_start, total_ms)) \<Rightarrow>
          let checked = (\<lambda>ms. if ms = 0 then delay_error ''duration must be positive''
            else if ms > MAX_DELAY_MS then delay_error ''duration exceeds maximum of 24h''
            else Some (Inr (unat ms))) in
          (case num_start of
             None \<Rightarrow> checked total_ms
           | Some start \<Rightarrow> (case str_slice s start (length s) of
               None \<Rightarrow> None
             | Some num_s \<Rightarrow> (case f64_parse num_s of
                 None \<Rightarrow> delay_error ''invalid duration''
               | Some num \<Rightarrow> checked (total_ms + as_u64 (f64_mul num (F 1000)))))))"

definition format_duration :: "nat \<Rightarrow> string" where
  "format_duration total_ms =
     (if total_ms < 1000 then nat_str total_ms @ ''ms''
      else if total_ms mod 1000 = 0 then
        let secs = total_ms div 1000 in
        if secs < 60 then nat_str secs @ ''s''
        else if secs mod 60 = 0 then nat_str (secs div 60) @ ''m''
        else nat_str (secs div 60) @ ''m'' @ nat_str (secs mod 60) @ ''s''
      else nat_str total_ms @ ''ms'')"

text \<open>The answer after the sleep, and how long it sleeps.\<close>

definition delay_execute :: "node_input \<Rightarrow> (nat \<times> node_output) result option" where
  "delay_execute inp =
     (case parse_duration (string_val (resolve_config inp) ''duration'' ''1s'') of
        None \<Rightarrow> None
      | Some (Inl e) \<Rightarrow> Some (Inl e)
      | Some (Inr ms) \<Rightarrow> Some (Inr (ms, ok_output [(''delayed'', JString (format_duration ms))])))"

section \<open>Log and triggers\<close>

definition log_execute :: "node_input \<Rightarrow> node_output result" where
  "log_execute inp = Inr \<lparr>no_data = Some (resolve_config inp), no_error = None\<rparr>"

definition trigger_manual_execute :: "node_env \<Rightarrow> node_input \<Rightarrow> node_output result" where
  "trigger_manual_execute env inp = Inr (ok_output [(''triggered_at'', JString (nv_now_str env))])"

definition trigger_cron_execute :: "node_env \<Rightarrow> node_input \<Rightarrow> node_output result" where
  "trigger_cron_execute env inp = Inr (ok_output
     [(''scheduled_time'', JString (nv_now_str env)),
      (''cron_expression'', JString (string_val (resolve_config inp) ''cron'' []))])"

definition trigger_webhook_execute :: "node_input \<Rightarrow> node_output result" where
  "trigger_webhook_execute inp =
     (let cfg = resolve_config inp in Inr (ok_output
       [(''body'', get_or cfg ''body'' (JObject fmempty)), (''headers'', get_or cfg ''headers'' (JObject fmempty)),
        (''method'', get_or cfg ''method'' (JString ''POST'')), (''path'', get_or cfg ''path'' (JString []))]))"

definition trigger_event_execute :: "node_input \<Rightarrow> node_output result" where
  "trigger_event_execute inp =
     (let cfg = resolve_config inp in Inr (ok_output
       [(''event_name'', JString (string_val cfg ''event_name'' [])), (''payload'', get_or cfg ''payload'' (JObject fmempty))]))"

end
