(* ===== verification/NodeLaws.thy ===== *)
theory NodeLaws
  imports Nodes
begin

text \<open>
  Laws of the built-in nodes: the order of the sort node is one of keys, so that its answer is the stable sort;
  durations are parsed within bounds and as they are printed; what the conversion of templates does; which
  operations of the encode node undo each other.
\<close>

lemma json_as_array_Some [simp]: "json_as_array v = Some xs \<longleftrightarrow> v = JArray xs"
  by (cases v) auto

section \<open>Stable sorting\<close>

lemma mset_insert_by: "mset (insert_by cmp x ys) = add_mset x (mset ys)"
  by (induction ys) auto

lemma mset_sort_by [simp]: "mset (sort_by cmp xs) = mset xs"
  by (induction xs) (simp_all add: sort_by_def mset_insert_by)

lemma set_sort_by [simp]: "set (sort_by cmp xs) = set xs"
  by (metis mset_sort_by set_mset_mset)

lemma set_insert_by [simp]: "set (insert_by cmp x ys) = insert x (set ys)"
  by (metis mset_insert_by set_mset_add_mset_insert set_mset_mset)

lemma sort_by_simps [simp]:
  "sort_by cmp [] = []" "sort_by cmp (x # xs) = insert_by cmp x (sort_by cmp xs)"
  by (simp_all add: sort_by_def)

text \<open>
  The contract of a comparison function on the values \<open>A\<close> it is used on: it compares keys of a linear order,
  upwards or downwards. \<open>sort_by\<close> then sorts, and leaves values of equal keys in their order.
\<close>

locale sort_order =
  fixes A :: "'a set" and cmp :: "'a \<Rightarrow> 'a \<Rightarrow> cmp_ordering" and key :: "'a \<Rightarrow> 'k::linorder" and down :: bool
  assumes agrees: "x \<in> A \<Longrightarrow> y \<in> A \<Longrightarrow> cmp x y = (if down then cmp_ord (key y) (key x) else cmp_ord (key x) (key y))"
begin

definition before :: "'a \<Rightarrow> 'a \<Rightarrow> bool" where
  "before x y \<longleftrightarrow> (if down then key y \<le> key x else key x \<le> key y)"

lemma before_trans: "before x y \<Longrightarrow> before y z \<Longrightarrow> before x z"
  by (auto simp: before_def split: if_splits)

lemma cmp_before:
  "x \<in> A \<Longrightarrow> y \<in> A \<Longrightarrow> cmp x y = CmpGreater \<longleftrightarrow> \<not> before x y"
  "x \<in> A \<Longrightarrow> y \<in> A \<Longrightarrow> cmp x y = CmpEqual \<longleftrightarrow> key x = key y"
  by (auto simp: agrees before_def cmp_ord_def)

lemma sorted_insert_by:
  "sorted_wrt before ys \<Longrightarrow> insert x (set ys) \<subseteq> A \<Longrightarrow> sorted_wrt before (insert_by cmp x ys)"
proof (induction ys)
  case (Cons y ys)
  then have A: "x \<in> A" "y \<in> A" by auto
  show ?case
  proof (cases "before x y")
    case True
    with Cons A show ?thesis by (auto simp: cmp_before intro: before_trans)
  next
    case False
    then have "before y x" by (auto simp: before_def split: if_splits)
    with Cons A False show ?thesis by (auto simp: cmp_before)
  qed
qed simp

lemma sorted_sort_by: "set xs \<subseteq> A \<Longrightarrow> sorted_wrt before (sort_by cmp xs)"
  by (induction xs) (simp_all add: sorted_insert_by)

lemma insert_by_stable:
  "insert x (set ys) \<subseteq> A \<Longrightarrow> filter (\<lambda>y. key y = k) (insert_by cmp x ys) = filter (\<lambda>y. key y = k) (x # ys)"
  by (induction ys) (auto simp: cmp_before before_def split: if_splits)

lemma sort_by_stable: "set xs \<subseteq> A \<Longrightarrow> filter (\<lambda>y. key y = k) (sort_by cmp xs) = filter (\<lambda>y. key y = k) xs"
  by (induction xs) (simp_all add: insert_by_stable)

end

section \<open>The order of the sort node\<close>

text \<open>How serde prints: the first byte tells the variant of a value.\<close>

definition json_text :: "(json \<Rightarrow> string) \<Rightarrow> bool" where
  "json_text str \<longleftrightarrow> (\<forall>v. case v of
       JNull \<Rightarrow> True
     | JString _ \<Rightarrow> (\<exists>t. str v = CHR 0x22 # t)
     | JNumber _ \<Rightarrow> (\<exists>c t. str v = c # t \<and> (c = CHR ''-'' \<or> ascii_digit c))
     | JArray _ \<Rightarrow> (\<exists>t. str v = CHR ''['' # t)
     | JBool b \<Rightarrow> str v = (if b then ''true'' else ''false'')
     | JObject _ \<Rightarrow> (\<exists>t. str v = CHR ''{'' # t))"

definition finite_num :: "json \<Rightarrow> bool" where
  "finite_num v = (case v of JNumber n \<Rightarrow> (case num_as_f64 n of Some (F _) \<Rightarrow> True | None \<Rightarrow> True | _ \<Rightarrow> False) | _ \<Rightarrow> True)"

definition num_key :: "json_num \<Rightarrow> rat" where
  "num_key n = (case num_as_f64 n of Some (F q) \<Rightarrow> q | _ \<Rightarrow> 0)"

definition sort_rank :: "(json \<Rightarrow> string) \<Rightarrow> json option \<Rightarrow> nat \<times> rat \<times> string" where
  "sort_rank str v = (case v of
       None \<Rightarrow> (0, 0, [])
     | Some JNull \<Rightarrow> (1, 0, [])
     | Some (JString s) \<Rightarrow> (2, 0, s)
     | Some (JNumber n) \<Rightarrow> (3, num_key n, [])
     | Some (JArray xs) \<Rightarrow> (4, 0, str (JArray xs))
     | Some (JBool b) \<Rightarrow> (5, if b then 1 else 0, [])
     | Some (JObject m) \<Rightarrow> (6, 0, str (JObject m)))"

lemma digit_less_bracket: "ascii_digit c \<Longrightarrow> c < CHR ''[''" "ascii_digit c \<Longrightarrow> CHR 0x22 < c"
  "ascii_digit c \<Longrightarrow> c < CHR ''t''" "ascii_digit c \<Longrightarrow> c < CHR ''f''" "ascii_digit c \<Longrightarrow> c < CHR ''{''"
  by (auto simp: ascii_digit_def Let_def less_char_def)

lemma compare_json_values_rank:
  assumes "json_text str" and "finite_num a" and "finite_num b"
  shows "compare_json_values str a b = cmp_ord (sort_rank str (Some a)) (sort_rank str (Some b))"
  using assms(2,3) spec [OF assms(1) [unfolded json_text_def], of a] spec [OF assms(1) [unfolded json_text_def], of b]
  by (cases a; cases b)
     (auto simp: sort_rank_def cmp_ord_def num_key_def finite_num_def f64_partial_cmp_def digit_less_bracket less_char_def
       split: option.splits f64.splits dest: digit_less_bracket)

definition sortable :: "(json \<Rightarrow> string) \<Rightarrow> string \<Rightarrow> json set" where
  "sortable str key = {x. json_text str \<and> (case extract_sort_value x key of None \<Rightarrow> True | Some v \<Rightarrow> finite_num v)}"

lemma item_order_rank:
  assumes "x \<in> sortable str key" and "y \<in> sortable str key"
  shows "item_order str key dir x y =
    (if dir = ''desc'' then cmp_ord (sort_rank str (extract_sort_value y key)) (sort_rank str (extract_sort_value x key))
     else cmp_ord (sort_rank str (extract_sort_value x key)) (sort_rank str (extract_sort_value y key)))"
proof -
  have "compare_values str (extract_sort_value x key) (extract_sort_value y key) =
      cmp_ord (sort_rank str (extract_sort_value x key)) (sort_rank str (extract_sort_value y key))"
    using assms
    by (cases "extract_sort_value x key"; cases "extract_sort_value y key")
       (auto simp: sortable_def compare_values_def compare_json_values_rank, auto simp: sort_rank_def cmp_ord_def split: json.split)
  moreover have "cmp_reverse (cmp_ord a b) = cmp_ord b a" for a b :: "nat \<times> rat \<times> string"
    by (auto simp: cmp_ord_def cmp_reverse_def)
  ultimately show ?thesis by (simp add: item_order_def Let_def)
qed

interpretation items: sort_order "sortable str key" "item_order str key dir"
    "\<lambda>x. sort_rank str (extract_sort_value x key)" "dir = ''desc''" for str key dir
  by unfold_locales (rule item_order_rank)

lemma sort_execute_Inr:
  "sort_execute env inp = Inr out \<longleftrightarrow> (\<exists>xs. let cfg = resolve_config inp; key = string_val cfg ''key'' [] in
     fmlookup cfg ''items'' = Some (JArray xs) \<and> length xs \<le> MAX_ARRAY_ITEMS \<and> key \<noteq> [] \<and>
     out = ok_output [(''items'', JArray (sort_by (item_order (nv_json_str env) key (string_val cfg ''direction'' ''asc'')) xs))])"
  by (auto simp: sort_execute_def Let_def bindR_Inr_iff to_slice_def json_as_array_Some)

section \<open>Durations\<close>

lemma utf8_chars_ascii: "(\<And>c. c \<in> set s \<Longrightarrow> ascii_alnum c) \<Longrightarrow> utf8_chars s = map (\<lambda>c. [c]) s"
proof (induction s)
  case (Cons c s)
  have "utf8_len c = 1" using Cons.prems [of c] by (auto simp: utf8_len_def ascii_alnum_def Let_def)
  with Cons show ?case by simp
qed simp

lemma str_slice_ascii:
  assumes "\<And>c. c \<in> set s \<Longrightarrow> ascii_alnum c" and "a \<le> b" and "b \<le> length s"
  shows "str_slice s a b = Some (take (b - a) (drop a s))"
proof -
  have "char_boundary s k" if "k \<le> length s" for k
    using assms(1) [of "s ! k"] that by (auto simp: char_boundary_def ascii_alnum_def Let_def)
  with assms show ?thesis by (simp add: str_slice_def)
qed

lemma space_len_alnum:
  assumes "ascii_alnum c"
  shows "space_len (c # cs) = 0"
proof -
  have "\<not> (9 \<le> n \<and> n \<le> 13) \<and> n \<noteq> 32 \<and> n \<noteq> 0xC2 \<and> n \<noteq> 0xE1 \<and> n \<noteq> 0xE2 \<and> n \<noteq> 0xE3" if "n = of_char c" for n :: nat
    using assms that by (auto simp: ascii_alnum_def Let_def)
  then show ?thesis by (simp add: space_len_def split: list.split)
qed

lemma trim_alnum: "(\<And>c. c \<in> set s \<Longrightarrow> ascii_alnum c) \<Longrightarrow> trim s = s"
proof -
  assume s: "\<And>c. c \<in> set s \<Longrightarrow> ascii_alnum c"
  then have "trim_end s = s" by (induction s) (simp_all add: space_len_alnum)
  moreover have "trim_start s = s" using s by (cases s) (simp_all add: trim_start.simps space_len_alnum)
  ultimately show ?thesis by (simp add: trim_def)
qed

lemma decimal_val_nat_str: "decimal_val (nat_str n) = Some (of_nat n)"
  using nat_str_digits [of _ n]
  by (simp add: decimal_val_def Let_def takeWhile_eq_all_conv [THEN iffD2] dropWhile_eq_Nil_conv [THEN iffD2])

lemma f64_of_nat: "n < 2 ^ 53 \<Longrightarrow> f64_of_rat (of_nat n) = F (of_nat n)"
  using f64_of_rat_small_int [of "int n"] by simp

lemma f64_parse_nat_str: "n < 2 ^ 53 \<Longrightarrow> f64_parse (nat_str n) = Some (F (of_nat n))"
proof -
  assume n: "n < 2 ^ 53"
  obtain c cs where c: "nat_str n = c # cs" using nat_str_nonempty [of n] by (cases "nat_str n") auto
  then have "ascii_digit c" using nat_str_digits [of c n] by simp
  then have "c \<noteq> CHR ''-''" "c \<noteq> CHR ''+''" by (auto simp: ascii_digit_def)
  with c n decimal_val_nat_str [of n] show ?thesis by (simp add: f64_parse_def f64_of_nat)
qed

lemma as_u64_nat: "n < 2 ^ 64 \<Longrightarrow> as_u64 (F (of_nat n)) = of_nat n"
  by (simp add: as_u64_def f64_to_int_def U64_MAX_def)

lemma unit_ms_exact:
  "n < 2 ^ 40 \<Longrightarrow> unit_ms ''ms'' (F (of_nat n)) = Some (F (of_nat n))"
  "n < 2 ^ 40 \<Longrightarrow> unit_ms ''s'' (F (of_nat n)) = Some (F (of_nat (n * 1000)))"
  "n < 2 ^ 30 \<Longrightarrow> unit_ms ''m'' (F (of_nat n)) = Some (F (of_nat (n * 60000)))"
  using f64_of_nat [of "n * 1000"] f64_of_nat [of "n * 60000"] by (simp_all add: unit_ms_def)

lemma loop_digits:
  "list_all ascii_digit ds \<Longrightarrow> cs = map (\<lambda>c. [c]) (pre @ ds @ suf) \<Longrightarrow>
     duration_loop s cs (length pre) (Some a) acc = duration_loop s cs (length pre + length ds) (Some a) acc"
proof (induction ds arbitrary: pre)
  case (Cons d ds)
  have "duration_loop s cs (length pre) (Some a) acc = duration_loop s cs (length (pre @ [d])) (Some a) acc"
    using Cons.prems by (subst duration_loop.simps) (simp add: nth_append number_char_def)
  with Cons.IH [of "pre @ [d]"] Cons.prems show ?case by simp
qed simp

lemma ascii_alpha_alnum: "ascii_alpha c \<Longrightarrow> ascii_alnum c" "ascii_alpha c \<Longrightarrow> \<not> ascii_digit c \<and> c \<noteq> CHR ''.''"
  by (auto simp: ascii_alpha_def ascii_alnum_def ascii_digit_def Let_def)

lemma takeWhile_alpha:
  "list_all ascii_alpha u \<Longrightarrow> suf = [] \<or> ascii_digit (hd suf) \<Longrightarrow>
     takeWhile alpha_char (map (\<lambda>c. [c]) (u @ suf)) = map (\<lambda>c. [c]) u"
proof (induction u)
  case Nil
  then show ?case using ascii_alpha_alnum(2) by (cases suf) (auto simp: alpha_char_def)
qed (simp add: alpha_char_def)

text \<open>One number with its unit.\<close>

lemma loop_term:
  assumes s: "s = pre @ nat_str n @ u @ suf" "\<And>c. c \<in> set s \<Longrightarrow> ascii_alnum c" "n < 2 ^ 53"
    and u: "u \<noteq> []" "list_all ascii_alpha u" "suf = [] \<or> ascii_digit (hd suf)" and ms: "unit_ms u (F (of_nat n)) = Some ms"
  shows "duration_loop s (map (\<lambda>c. [c]) s) (length pre) None acc =
    duration_loop s (map (\<lambda>c. [c]) s) (length (pre @ nat_str n @ u)) None (acc + as_u64 ms)"
proof -
  let ?cs = "map (\<lambda>c. [c]) s"
  let ?j = "length pre + length (nat_str n)"
  obtain d ds where d: "nat_str n = d # ds" using nat_str_nonempty [of n] by (cases "nat_str n") auto
  have dig: "ascii_digit d" "list_all ascii_digit ds" using nat_str_digits [of _ n] d by (auto simp: list_all_iff)
  have first: "duration_loop s ?cs (length pre) None acc = duration_loop s ?cs (length (pre @ [d])) (Some (length pre)) acc"
    using s(1) d dig by (subst duration_loop.simps) (simp add: nth_append number_char_def)
  have digits: "duration_loop s ?cs (length (pre @ [d])) (Some (length pre)) acc = duration_loop s ?cs ?j (Some (length pre)) acc"
    using loop_digits [of ds ?cs "pre @ [d]" "u @ suf"] s(1) d dig by simp
  obtain v vs where v: "u = v # vs" using u(1) by (cases u) auto
  have at: "?j < length ?cs" "?cs ! ?j = [v]" using s(1) v by (simp_all add: nth_append)
  have "takeWhile alpha_char (drop ?j ?cs) = map (\<lambda>c. [c]) u"
    using takeWhile_alpha [OF u(2,3)] s(1) by (simp add: drop_map)
  moreover have "str_slice s (length pre) ?j = Some (nat_str n)" "str_slice s ?j (?j + length u) = Some u"
    using s(1) by (subst str_slice_ascii [OF s(2)]; simp)+
  moreover have "\<not> number_char [v]" "alpha_char [v]"
    using u(2) v ascii_alpha_alnum(2) by (auto simp: number_char_def alpha_char_def)
  ultimately have "duration_loop s ?cs ?j (Some (length pre)) acc = duration_loop s ?cs (?j + length u) None (acc + as_u64 ms)"
    using at s(3) ms by (subst duration_loop.simps) (simp add: f64_parse_nat_str Let_def)
  with first digits show ?thesis by (simp add: add.assoc)
qed

lemma loop_end: "duration_loop s cs (length cs) st acc = Some (Inr (st, acc))"
  by (subst duration_loop.simps) simp

text \<open>What is printed is digits and unit letters.\<close>

lemma loop_suffix:
  assumes "s = pre @ nat_str n @ u @ suf" "\<And>c. c \<in> set s \<Longrightarrow> ascii_alnum c" "n < 2 ^ 53" "u \<noteq> []" "list_all ascii_alpha u"
    "suf = [] \<or> ascii_digit (hd suf)" "unit_ms u (F (of_nat n)) = Some (F (of_nat k))" "k < 2 ^ 53"
  shows "duration_loop s (map (\<lambda>c. [c]) s) (length pre) None acc =
    duration_loop s (map (\<lambda>c. [c]) s) (length (pre @ nat_str n @ u)) None (acc + of_nat k)"
  using loop_term [OF assms(1-7)] as_u64_nat [of k] assms(8) by simp

lemma parse_duration_printed:
  assumes "s \<noteq> []" "\<And>c. c \<in> set s \<Longrightarrow> ascii_alnum c" "0 < ms" "ms \<le> 86400000"
    and "duration_loop s (map (\<lambda>c. [c]) s) 0 None 0 = Some (Inr (None, of_nat ms))"
  shows "parse_duration s = Some (Inr ms)"
proof -
  have "(of_nat ms :: u64) \<noteq> 0" "\<not> (of_nat ms :: u64) > MAX_DELAY_MS" "unat (of_nat ms :: u64) = ms"
    using assms(3,4) by (simp_all add: MAX_DELAY_MS_def unat_of_nat word_less_nat_alt unat_eq_zero [symmetric])
  with assms show ?thesis by (simp add: parse_duration_def trim_alnum utf8_chars_ascii Let_def)
qed

lemma one_term:
  assumes "list_all ascii_alpha u" "u \<noteq> []" "n < 2 ^ 53" "unit_ms u (F (of_nat n)) = Some (F (of_nat ms))" "0 < ms" "ms \<le> 86400000"
  shows "parse_duration (nat_str n @ u) = Some (Inr ms)"
proof -
  let ?s = "nat_str n @ u"
  have al: "\<And>c. c \<in> set ?s \<Longrightarrow> ascii_alnum c"
    using assms(1) nat_str_digits ascii_digit_alnum ascii_alpha_alnum(1) by (auto simp: list_all_iff)
  have "duration_loop ?s (map (\<lambda>c. [c]) ?s) 0 None 0 = Some (Inr (None, of_nat ms))"
    using loop_suffix [of ?s "[]" n u "[]" ms 0, OF _ al] loop_end [of ?s "map (\<lambda>c. [c]) ?s" None "of_nat ms"] assms by simp
  with parse_duration_printed [of ?s ms] al assms(5,6) show ?thesis by simp
qed

lemma two_terms:
  assumes "0 < m" "m < 2 ^ 20" "sec < 2 ^ 20" "ms = m * 60000 + sec * 1000" "ms \<le> 86400000"
  shows "parse_duration (nat_str m @ ''m'' @ nat_str sec @ ''s'') = Some (Inr ms)"
proof -
  let ?s = "nat_str m @ ''m'' @ nat_str sec @ ''s''"
  have al: "ascii_alnum c" if "c \<in> set ?s" for c
    using that nat_str_digits [of c m] nat_str_digits [of c sec] ascii_digit_alnum [of c] by (auto simp: ascii_alnum_def)
  have hd: "ascii_digit (hd (nat_str sec @ ''s''))"
    using nat_str_digits [of "hd (nat_str sec)" sec] by (simp add: hd_append)
  have "duration_loop ?s (map (\<lambda>c. [c]) ?s) 0 None 0 =
      duration_loop ?s (map (\<lambda>c. [c]) ?s) (length (nat_str m @ ''m'')) None (of_nat (m * 60000))"
    using loop_suffix [of ?s "[]" m "''m''" "nat_str sec @ ''s''" "m * 60000" 0, OF _ al] hd assms(2) unit_ms_exact(3) [of m]
    by (simp add: ascii_alpha_def)
  also have "\<dots> = duration_loop ?s (map (\<lambda>c. [c]) ?s) (length ?s) None (of_nat (m * 60000) + of_nat (sec * 1000))"
    using loop_suffix [of ?s "nat_str m @ ''m''" sec "''s''" "[]" "sec * 1000" "of_nat (m * 60000)", OF _ al] assms(3) unit_ms_exact(2) [of sec]
    by (simp add: ascii_alpha_def)
  also have "\<dots> = Some (Inr (None, of_nat ms))"
    using loop_end [of ?s "map (\<lambda>c. [c]) ?s"] by (simp add: assms(4))
  finally show ?thesis using parse_duration_printed [of ?s ms] al assms(1,4,5) by simp
qed

section \<open>Templates\<close>

lemma find_str_first:
  "\<not> str_contains p (pre @ butlast p) \<Longrightarrow> p \<noteq> [] \<Longrightarrow> find_str p (pre @ p @ post) = Some (length pre)"
proof (induction pre)
  case Nil
  then show ?case by (cases p) (auto simp: starts_with_iff)
next
  case (Cons c pre)
  have "\<not> starts_with p (c # pre @ p @ post)"
  proof
    assume "starts_with p (c # pre @ p @ post)"
    then have "take (length p) (c # pre @ p @ post) = p" by (simp add: starts_with_def)
    moreover have "take (length p) (c # pre @ p @ post) = take (length p) (c # pre @ butlast p)"
      using Cons.prems(2) by (cases p) (auto simp: take_Cons' take_append butlast_conv_take min_def)
    ultimately have "starts_with p (c # pre @ butlast p)" by (simp add: starts_with_def)
    with Cons.prems(1) show False by (simp del: butlast.simps)
  qed
  with Cons show ?case by simp
qed

lemma find_str_None: "\<not> str_contains p s \<Longrightarrow> find_str p s = None"
  by (induction s) auto

text \<open>A text without \<open>{{\<close> is left as it is; the first expression is stripped of blanks and its leading dot, and the
  conversion goes on behind it.\<close>

lemma convert_plain: "\<not> str_contains ''{{'' s \<Longrightarrow> convert_go_template s = s"
  by (simp add: convert_go_template.simps find_str_None)

lemma convert_expression:
  assumes "\<not> str_contains ''{{'' (pre @ ''{'')" and "\<not> str_contains ''}}'' (inner @ ''}'')"
  shows "convert_go_template (pre @ ''{{'' @ inner @ ''}}'' @ post) =
    pre @ ''{{ '' @ (case strip_prefix ''.'' (trim inner) of Some t \<Rightarrow> t | None \<Rightarrow> trim inner) @ '' }}'' @ convert_go_template post"
proof -
  have "find_str ''{{'' (pre @ ''{{'' @ inner @ ''}}'' @ post) = Some (length pre)"
    "find_str ''}}'' (inner @ ''}}'' @ post) = Some (length inner)"
    using find_str_first [of "''{{''" pre "inner @ ''}}'' @ post"] find_str_first [of "''}}''" inner post] assms by simp_all
  then show ?thesis by (subst convert_go_template.simps) (simp add: Let_def)
qed

section \<open>Encoding\<close>

text \<open>What the crates base64 and url document.\<close>

definition codecs_ok :: "node_env \<Rightarrow> bool" where
  "codecs_ok env \<longleftrightarrow> (\<forall>s. nv_base64_decode env (nv_base64_encode env s) = Inr s) \<and>
     (\<forall>s. s \<noteq> [] \<longrightarrow> nv_form_parse env (nv_form_serialize env s) = [(s, [])])"

lemma encode_decode:
  assumes "codecs_ok env" and "raw \<noteq> []" and "nv_from_utf8 env raw = Inr raw"
  shows "encode_operation env ''base64-encode'' raw = Inr t \<Longrightarrow> encode_operation env ''base64-decode'' t = Inr raw"
    and "encode_operation env ''url-encode'' raw = Inr t \<Longrightarrow> encode_operation env ''url-decode'' t = Inr raw"
  using assms by (auto simp: encode_operation_def codecs_ok_def url_decode_def)

section \<open>Properties\<close>

text \<open>The rank of an item under a key. An item without the key (or one that is no object) comes first, then null,
  strings, numbers, arrays, booleans and objects; strings are ordered by their bytes, numbers by their value as a double,
  false before true, arrays and objects by their text.\<close>

definition item_rank :: "(json \<Rightarrow> string) \<Rightarrow> string \<Rightarrow> json \<Rightarrow> nat \<times> rat \<times> string" where
  "item_rank str key x = sort_rank str (case x of JObject m \<Rightarrow> fmlookup m key | _ \<Rightarrow> None)"

lemma item_rank_sort_value: "item_rank str key x = sort_rank str (extract_sort_value x key)"
  by (cases x) (simp_all add: item_rank_def extract_sort_value_def)

text \<open>C31. On items whose values under the key are JSON as serde prints it, with finite numbers, the sort node answers a
  permutation of the items in which the ranks ascend, or descend when the direction is \<open>desc\<close>, and items of equal rank
  keep their order.\<close>

theorem sort_node_correct:
  assumes "sort_execute env inp = Inr out" and "fmlookup (resolve_config inp) ''items'' = Some (JArray xs)"
    and "set xs \<subseteq> sortable (nv_json_str env) (string_val (resolve_config inp) ''key'' [])"
  defines "rank \<equiv> item_rank (nv_json_str env) (string_val (resolve_config inp) ''key'' [])"
  shows "\<exists>ys. no_data out = Some (make_output [(''items'', JArray ys)]) \<and> mset ys = mset xs \<and>
    sorted_wrt (\<lambda>x y. if string_val (resolve_config inp) ''direction'' ''asc'' = ''desc''
                      then rank y \<le> rank x else rank x \<le> rank y) ys \<and>
    (\<forall>k. filter (\<lambda>y. rank y = k) ys = filter (\<lambda>y. rank y = k) xs)"
proof -
  let ?key = "string_val (resolve_config inp) ''key'' []" and ?dir = "string_val (resolve_config inp) ''direction'' ''asc''"
  let ?ys = "sort_by (item_order (nv_json_str env) ?key ?dir) xs"
  from assms(1,2) have "no_data out = Some (make_output [(''items'', JArray ?ys)])"
    by (auto simp: sort_execute_Inr Let_def ok_output_def)
  with items.sorted_sort_by [where dir = ?dir, OF assms(3)] items.sort_by_stable [where dir = ?dir, OF assms(3)] show ?thesis
    unfolding items.before_def rank_def item_rank_sort_value by (intro exI [of _ ?ys]) simp
qed

text \<open>A parsed delay is positive and at most a day.\<close>

theorem delay_bounded:
  assumes "delay_execute inp = Some (Inr (ms, out))"
  shows "0 < ms \<and> ms \<le> 24 * 60 * 60 * 1000"
proof -
  have "0 < unat x \<and> unat x \<le> 86400000" if "x \<noteq> 0" "\<not> x > MAX_DELAY_MS" for x
    using that by (simp add: MAX_DELAY_MS_def word_less_nat_alt unat_gt_0)
  with assms show ?thesis
    by (auto simp: delay_execute_def parse_duration_def delay_error_def Let_def split: option.splits sum.splits if_splits)
qed

text \<open>C40. What the delay node reports is parsed back to the delay: every duration up to a day is printed so that the
  parser reads the same number of milliseconds.\<close>

theorem duration_roundtrip:
  assumes "0 < ms" and "ms \<le> 24 * 60 * 60 * 1000"
  shows "parse_duration (format_duration ms) = Some (Inr ms)"
proof -
  have msu: "parse_duration (nat_str ms @ ''ms'') = Some (Inr ms)"
    using one_term [of "''ms''" ms ms] unit_ms_exact(1) [of ms] assms by (simp add: ascii_alpha_def)
  moreover have "parse_duration (nat_str (ms div 1000) @ ''s'') = Some (Inr ms)" if "ms mod 1000 = 0"
    using one_term [of "''s''" "ms div 1000" ms] unit_ms_exact(2) [of "ms div 1000"] assms that by (auto simp: ascii_alpha_def)
  moreover have "parse_duration (nat_str (ms div 1000 div 60) @ ''m'') = Some (Inr ms)"
    if "ms mod 1000 = 0" "ms div 1000 mod 60 = 0"
  proof -
    have "ms = ms div 1000 div 60 * 60000" using that div_mult_mod_eq [of ms 1000] div_mult_mod_eq [of "ms div 1000" 60] by linarith
    with one_term [of "''m''" "ms div 1000 div 60" ms] unit_ms_exact(3) [of "ms div 1000 div 60"] assms show ?thesis
      by (auto simp: ascii_alpha_def)
  qed
  moreover have "parse_duration (nat_str (ms div 1000 div 60) @ ''m'' @ nat_str (ms div 1000 mod 60) @ ''s'') = Some (Inr ms)"
    if "ms mod 1000 = 0" "\<not> ms div 1000 < 60"
  proof -
    have "ms = ms div 1000 div 60 * 60000 + ms div 1000 mod 60 * 1000"
      using that(1) div_mult_mod_eq [of ms 1000] div_mult_mod_eq [of "ms div 1000" 60] by linarith
    with that assms show ?thesis by (intro two_terms) auto
  qed
  ultimately show ?thesis by (simp add: format_duration_def Let_def)
qed

section \<open>Samples\<close>

fun plain_str :: "json \<Rightarrow> string" where
  "plain_str JNull = ''null''"
| "plain_str (JBool b) = (if b then ''true'' else ''false'')"
| "plain_str (JNumber n) = ''0''"
| "plain_str (JString s) = CHR 0x22 # s"
| "plain_str (JArray xs) = ''[]''"
| "plain_str (JObject m) = CHR ''{'' # ''}''"

definition plain_node_env :: node_env where
  "plain_node_env =
     \<lparr>nv_cel = (\<lambda>e _. Inr (JString e)), nv_json_str = plain_str, nv_base64_encode = id, nv_base64_decode = Inr,
      nv_from_utf8 = Inr, nv_form_serialize = id, nv_form_parse = (\<lambda>s. [(s, [])]), nv_sha256 = id, nv_md5 = id,
      nv_tera_add = (\<lambda>_. None), nv_tera_context = (\<lambda>_. None), nv_tera_render = (\<lambda>t _. Inr t), nv_now_str = []\<rparr>"

definition plain_node_input :: "(string \<times> json) list \<Rightarrow> node_input" where
  "plain_node_input kvs =
     \<lparr>ni_instance_id = ''i'', ni_node_id = ''n'', ni_plugin_ref = ''builtin:sort'', ni_config = Some (fmap_of_list kvs),
      ni_input = None, ni_parameters = None, ni_capabilities = None, ni_attempt = 1\<rparr>"

lemma plain_json_text: "json_text plain_str"
  by (auto simp: json_text_def ascii_digit_def split: json.split)

definition sort_sample :: "json list" where
  "sort_sample = [JObject (fmap_of_list [(''k'', JString ''b'')]), JNull, JObject (fmap_of_list [(''k'', JString ''a'')])]"

theorem sort_node_correct_witness:
  "\<exists>out ys. sort_execute plain_node_env (plain_node_input [(''items'', JArray sort_sample), (''key'', JString ''k'')]) = Inr out \<and>
     no_data out = Some (make_output [(''items'', JArray ys)]) \<and> mset ys = mset sort_sample \<and>
     sorted_wrt (\<lambda>x y. item_rank plain_str ''k'' x \<le> item_rank plain_str ''k'' y) ys"
proof -
  let ?inp = "plain_node_input [(''items'', JArray sort_sample), (''key'', JString ''k'')]"
  have cfg: "fmlookup (resolve_config ?inp) k = (if k = ''items'' then Some (JArray sort_sample) else if k = ''key'' then Some (JString ''k'') else None)" for k
    by (simp add: resolve_config_lookup plain_node_input_def fmlookup_of_list)
  have "length sort_sample \<le> MAX_ARRAY_ITEMS" by (simp add: sort_sample_def MAX_ARRAY_ITEMS_def)
  then obtain out where out: "sort_execute plain_node_env ?inp = Inr out"
    unfolding sort_execute_Inr by (auto simp: Let_def cfg string_val_def)
  have key: "string_val (resolve_config ?inp) ''key'' [] = ''k''" "string_val (resolve_config ?inp) ''direction'' ''asc'' \<noteq> ''desc''"
    by (simp_all add: string_val_def cfg)
  have "set sort_sample \<subseteq> sortable (nv_json_str plain_node_env) (string_val (resolve_config ?inp) ''key'' [])"
    by (auto simp: sort_sample_def sortable_def plain_json_text plain_node_env_def key extract_sort_value_def
        fmlookup_of_list finite_num_def)
  from sort_node_correct [OF out _ this] out cfg key show ?thesis by (auto simp: plain_node_env_def)
qed

theorem delay_bounded_witness: "\<exists>ms out. delay_execute (plain_node_input []) = Some (Inr (ms, out)) \<and> 0 < ms \<and> ms \<le> 86400000"
proof -
  have "nat_str 1 = ''1''" by code_simp
  then have "parse_duration ''1s'' = Some (Inr 1000)"
    using one_term [of "''s''" 1 1000] unit_ms_exact(2) [of 1] by (simp add: ascii_alpha_def)
  then have "delay_execute (plain_node_input []) = Some (Inr (1000, ok_output [(''delayed'', JString (format_duration 1000))]))"
    by (simp add: delay_execute_def string_val_def resolve_config_lookup plain_node_input_def)
  from this delay_bounded [OF this] show ?thesis by simp
qed

theorem duration_roundtrip_witness: "parse_duration (format_duration 90061) = Some (Inr 90061)"
  by (rule duration_roundtrip) simp_all

text \<open>A character of two bytes before the number makes the parser cut it; two saturated terms wrap around the bound.\<close>

lemma delay_panics: "parse_duration [CHR 0xC3, CHR 0xA9, CHR ''5'', CHR ''s''] = None"
proof -
  let ?s = "[CHR 0xC3, CHR 0xA9, CHR ''5'', CHR ''s'']"
  have "trim ?s = ?s" by (simp add: trim_def trim_start.simps space_len_def)
  moreover have cs: "utf8_chars ?s = [[CHR 0xC3, CHR 0xA9], ''5'', ''s'']" by (simp add: utf8_len_def)
  moreover have "duration_loop ?s (utf8_chars ?s) 0 None 0 = duration_loop ?s (utf8_chars ?s) 2 (Some 1) 0"
    unfolding cs by (subst duration_loop.simps, simp add: number_char_def alpha_char_def,
      subst duration_loop.simps, simp add: number_char_def ascii_digit_def numeral_2_eq_2)
  moreover have "duration_loop ?s (utf8_chars ?s) 2 (Some 1) 0 = None"
    unfolding cs by (subst duration_loop.simps) (simp add: number_char_def alpha_char_def ascii_digit_def ascii_alpha_def str_slice_def char_boundary_def)
  ultimately show ?thesis by (simp add: parse_duration_def Let_def)
qed

lemma delay_wraps: "parse_duration (nat_str 999999999999999 @ ''h'' @ nat_str 5001 @ ''ms'') = Some (Inr 5000)"
proof -
  let ?s = "nat_str 999999999999999 @ ''h'' @ nat_str 5001 @ ''ms''"
  have al: "ascii_alnum c" if "c \<in> set ?s" for c
    using that nat_str_digits [of c 999999999999999] nat_str_digits [of c 5001] ascii_digit_alnum [of c] by (auto simp: ascii_alnum_def)
  have hd: "ascii_digit (hd (nat_str 5001 @ ''ms''))"
    using nat_str_digits [of "hd (nat_str 5001)" 5001] by (simp add: hd_append)
  have "f64_of_rat 3599999999999996400000 = F 3599999999999996329984" by code_simp
  then have "unit_ms ''h'' (F (of_nat 999999999999999)) = Some (F 3599999999999996329984)" by (simp add: unit_ms_def)
  moreover have "as_u64 (F 3599999999999996329984) = - 1" by (simp add: as_u64_def f64_to_int_def U64_MAX_def)
  ultimately have "duration_loop ?s (map (\<lambda>c. [c]) ?s) 0 None 0 =
      duration_loop ?s (map (\<lambda>c. [c]) ?s) (length (nat_str 999999999999999 @ ''h'')) None (- 1)"
    using loop_term [of ?s "[]" 999999999999999 "''h''" "nat_str 5001 @ ''ms''" "F 3599999999999996329984" 0, OF _ al] hd
    by (simp add: ascii_alpha_def)
  also have "\<dots> = duration_loop ?s (map (\<lambda>c. [c]) ?s) (length ?s) None 5000"
    using loop_suffix [of ?s "nat_str 999999999999999 @ ''h''" 5001 "''ms''" "[]" 5001 "- 1", OF _ al] unit_ms_exact(1) [of 5001]
    by (simp add: ascii_alpha_def)
  also have "\<dots> = Some (Inr (None, of_nat 5000))"
    using loop_end [of ?s "map (\<lambda>c. [c]) ?s"] by simp
  finally show ?thesis by (intro parse_duration_printed al) simp_all
qed

end
