(* ===== verification/BuiltinSchemas.thy ===== *)
theory BuiltinSchemas
  imports Lifecycle Validate CredentialSchemas
begin

text \<open>
  The schemas of the built-in nodes, \<open>crates/orbflow-builtins/src/*.rs\<close> (every \<open>node_schema\<close>), and their registration
  with an engine, \<open>register.rs\<close>. What the nodes do is in \<open>Nodes\<close>; here an executor is a parameter.
\<close>

definition fld ::
  "string \<Rightarrow> string \<Rightarrow> field_type \<Rightarrow> bool \<Rightarrow> json option \<Rightarrow> string option \<Rightarrow> string list \<Rightarrow> string option \<Rightarrow> field_schema" where
  "fld key label ft required dflt description enum credential_type =
     \<lparr>fs_key = key, fs_label = label, fs_field_type = ft, fs_required = required, fs_default = dflt,
      fs_description = description, fs_enum = enum, fs_credential_type = credential_type\<rparr>"

section \<open>Schemas\<close>

definition ai_common_parameters :: "field_schema list" where
  "ai_common_parameters =
     [fld ''provider'' ''Provider'' FtString False (Some (JString ''openai'')) (Some ''LLM provider'') [''openai'', ''anthropic'', ''google_ai''] None,
     fld ''model'' ''Model'' FtString False (Some (JString ''gpt-4o-mini'')) (Some ''Model name to use'') [] None,
     fld ''credential_id'' ''Credential'' FtCredential False None (Some ''API credential for the selected provider'') [] (Some ''openai,anthropic,google_ai'')]"

definition ai_common_outputs :: "field_schema list" where
  "ai_common_outputs =
     [fld ''usage'' ''Usage'' FtObject False None (Some ''Token usage {prompt_tokens, completion_tokens, total_tokens}'') [] None,
     fld ''cost_usd'' ''Cost (USD)'' FtNumber False None (Some ''Estimated cost in USD'') [] None]"

definition log_schema :: node_schema where
  "log_schema =
     \<lparr>ns_plugin_ref = ''builtin:log'',
      ns_name = ''Log'',
      ns_description = ''Log a message and pass input through as output'',
      ns_category = ''builtin'',
      ns_node_kind = None,
      ns_icon = ''terminal'',
      ns_color = ''#22d3ee'',
      ns_docs = None,
      ns_image_url = Some ''/icons/terminal.svg'',
      ns_inputs = [fld ''message'' ''Message'' FtString False None (Some ''Message to log'') [] None],
      ns_outputs = [fld ''message'' ''Message'' FtString False None None [] None],
      ns_parameters = [],
      ns_capability_ports = [],
      ns_settings = [],
      ns_provides_capability = None\<rparr>"

definition http_schema :: node_schema where
  "http_schema =
     \<lparr>ns_plugin_ref = ''builtin:http'',
      ns_name = ''HTTP Request'',
      ns_description = ''Send an HTTP request to an external API'',
      ns_category = ''builtin'',
      ns_node_kind = None,
      ns_icon = ''globe'',
      ns_color = ''#3B82F6'',
      ns_docs = None,
      ns_image_url = Some ''/icons/globe.svg'',
      ns_inputs = [fld ''method'' ''Method'' FtString True (Some (JString ''GET'')) None [''GET'', ''POST'', ''PUT'', ''PATCH'', ''DELETE'', ''HEAD'', ''OPTIONS''] None,
     fld ''url'' ''URL'' FtString True None (Some ''The URL to send the request to'') [] None,
     fld ''body'' ''Body'' FtString False None (Some ''Request body (string or JSON)'') [] None,
     fld ''headers'' ''Headers'' FtObject False None (Some ''Request headers as key-value pairs'') [] None],
      ns_outputs = [fld ''status'' ''Status Code'' FtNumber False None None [] None,
     fld ''status_text'' ''Status Text'' FtString False None None [] None,
     fld ''body'' ''Response Body'' FtString False None None [] None,
     fld ''headers'' ''Response Headers'' FtObject False None None [] None],
      ns_parameters = [],
      ns_capability_ports = [],
      ns_settings = [],
      ns_provides_capability = None\<rparr>"

definition delay_schema :: node_schema where
  "delay_schema =
     \<lparr>ns_plugin_ref = ''builtin:delay'',
      ns_name = ''Delay'',
      ns_description = ''Pause execution for a specified duration'',
      ns_category = ''builtin'',
      ns_node_kind = None,
      ns_icon = ''clock'',
      ns_color = ''#f59e0b'',
      ns_docs = None,
      ns_image_url = Some ''/icons/clock.svg'',
      ns_inputs = [fld ''duration'' ''Duration'' FtString True (Some (JString ''1s'')) (Some ''Duration string (e.g. 5s, 1m, 500ms)'') [] None],
      ns_outputs = [fld ''delayed'' ''Delayed Duration'' FtString False None None [] None],
      ns_parameters = [],
      ns_capability_ports = [],
      ns_settings = [],
      ns_provides_capability = None\<rparr>"

definition transform_schema :: node_schema where
  "transform_schema =
     \<lparr>ns_plugin_ref = ''builtin:transform'',
      ns_name = ''Transform'',
      ns_description = ''Reshape data using a CEL expression'',
      ns_category = ''builtin'',
      ns_node_kind = None,
      ns_icon = ''zap'',
      ns_color = ''#8b5cf6'',
      ns_docs = None,
      ns_image_url = Some ''/icons/zap.svg'',
      ns_inputs = [fld ''expression'' ''Expression'' FtString True None (Some (''CEL expression to evaluate (use '' @ [CHR 0x27] @ ''input'' @ [CHR 0x27] @ '' to reference data)'')) [] None,
     fld ''data'' ''Input Data'' FtObject False None (Some (''Data available as '' @ [CHR 0x27] @ ''input'' @ [CHR 0x27] @ '' in the expression'')) [] None],
      ns_outputs = [fld ''result'' ''Result'' FtObject False None None [] None,
     fld ''type'' ''Result Type'' FtString False None None [] None],
      ns_parameters = [],
      ns_capability_ports = [],
      ns_settings = [],
      ns_provides_capability = None\<rparr>"

definition email_schema :: node_schema where
  "email_schema =
     \<lparr>ns_plugin_ref = ''builtin:email'',
      ns_name = ''Send Email'',
      ns_description = ''Send an email via SMTP'',
      ns_category = ''builtin'',
      ns_node_kind = None,
      ns_icon = ''mail'',
      ns_color = ''#ef4444'',
      ns_docs = None,
      ns_image_url = Some ''/icons/mail.svg'',
      ns_inputs = [fld ''to'' ''To'' FtString True None (Some ''Recipient email(s), comma-separated'') [] None,
     fld ''subject'' ''Subject'' FtString True None (Some ''Email subject line'') [] None,
     fld ''body'' ''Body'' FtString True None (Some ''Email body content'') [] None,
     fld ''from'' ''From'' FtString False None (Some ''Sender address (uses credential or server default if empty)'') [] None,
     fld ''content_type'' ''Content Type'' FtString False (Some (JString ''text/plain'')) (Some ''Email content format'') [''text/plain'', ''text/html''] None],
      ns_outputs = [fld ''sent'' ''Sent'' FtBoolean False None None [] None,
     fld ''message'' ''Status'' FtString False None None [] None],
      ns_parameters = [fld ''credential_id'' ''SMTP Credential'' FtCredential False None (Some ''Select an SMTP credential for connection settings'') [] (Some ''smtp'')],
      ns_capability_ports = [],
      ns_settings = [],
      ns_provides_capability = None\<rparr>"

definition template_schema :: node_schema where
  "template_schema =
     \<lparr>ns_plugin_ref = ''builtin:template'',
      ns_name = ''Template'',
      ns_description = ''Render a text template with variables'',
      ns_category = ''builtin'',
      ns_node_kind = None,
      ns_icon = ''file-text'',
      ns_color = ''#06b6d4'',
      ns_docs = None,
      ns_image_url = Some ''/icons/file-text.svg'',
      ns_inputs = [fld ''template'' ''Template'' FtString True None (Some (''Template syntax (e.g. '' @ [CHR 0x22] @ ''Hello {{ name }}'' @ [CHR 0x22] @ '' or '' @ [CHR 0x22] @ ''Hello {{.name}}'' @ [CHR 0x22] @ '')'')) [] None,
     fld ''variables'' ''Variables'' FtObject False None (Some ''Key-value pairs accessible in the template'') [] None],
      ns_outputs = [fld ''result'' ''Rendered Text'' FtString False None None [] None],
      ns_parameters = [],
      ns_capability_ports = [],
      ns_settings = [],
      ns_provides_capability = None\<rparr>"

definition encode_schema :: node_schema where
  "encode_schema =
     \<lparr>ns_plugin_ref = ''builtin:encode'',
      ns_name = ''Encode / Hash'',
      ns_description = ''Base64, URL encode/decode, or hash a string'',
      ns_category = ''builtin'',
      ns_node_kind = None,
      ns_icon = ''shield'',
      ns_color = ''#14b8a6'',
      ns_docs = None,
      ns_image_url = Some ''/icons/shield.svg'',
      ns_inputs = [fld ''input'' ''Input'' FtString True None (Some ''String to process'') [] None,
     fld ''operation'' ''Operation'' FtString True None (Some ''Which operation to perform'') [''base64-encode'', ''base64-decode'', ''url-encode'', ''url-decode'', ''sha256'', ''md5''] None],
      ns_outputs = [fld ''result'' ''Result'' FtString False None None [] None,
     fld ''operation'' ''Operation'' FtString False None None [] None],
      ns_parameters = [],
      ns_capability_ports = [],
      ns_settings = [],
      ns_provides_capability = None\<rparr>"

definition filter_schema :: node_schema where
  "filter_schema =
     \<lparr>ns_plugin_ref = ''builtin:filter'',
      ns_name = ''Filter'',
      ns_description = ''Filter an array using an expression'',
      ns_category = ''builtin'',
      ns_node_kind = None,
      ns_icon = ''filter'',
      ns_color = ''#ec4899'',
      ns_docs = None,
      ns_image_url = Some ''/icons/filter.svg'',
      ns_inputs = [fld ''items'' ''Items'' FtArray True None (Some ''The array to filter'') [] None,
     fld ''expression'' ''Condition'' FtString True None (Some (''CEL expression per item (e.g. item.status == '' @ [CHR 0x22] @ ''active'' @ [CHR 0x22] @ '')'')) [] None],
      ns_outputs = [fld ''result'' ''Filtered Items'' FtArray False None None [] None,
     fld ''count'' ''Match Count'' FtNumber False None None [] None,
     fld ''total'' ''Original Count'' FtNumber False None None [] None],
      ns_parameters = [],
      ns_capability_ports = [],
      ns_settings = [],
      ns_provides_capability = None\<rparr>"

definition trigger_manual_schema :: node_schema where
  "trigger_manual_schema =
     \<lparr>ns_plugin_ref = ''builtin:trigger-manual'',
      ns_name = ''Manual Trigger'',
      ns_description = ''Manually start a workflow'',
      ns_category = ''builtin'',
      ns_node_kind = Some KTrigger,
      ns_icon = ''play'',
      ns_color = ''#10B981'',
      ns_docs = None,
      ns_image_url = Some ''/icons/play.svg'',
      ns_inputs = [],
      ns_outputs = [fld ''triggered_at'' ''Triggered At'' FtString False None (Some ''ISO 8601 timestamp'') [] None],
      ns_parameters = [],
      ns_capability_ports = [],
      ns_settings = [],
      ns_provides_capability = None\<rparr>"

definition trigger_cron_schema :: node_schema where
  "trigger_cron_schema =
     \<lparr>ns_plugin_ref = ''builtin:trigger-cron'',
      ns_name = ''Schedule'',
      ns_description = ''Run on a time-based schedule'',
      ns_category = ''builtin'',
      ns_node_kind = Some KTrigger,
      ns_icon = ''clock'',
      ns_color = ''#F59E0B'',
      ns_docs = None,
      ns_image_url = Some ''/icons/clock.svg'',
      ns_inputs = [],
      ns_outputs = [fld ''scheduled_time'' ''Scheduled Time'' FtString False None (Some ''ISO 8601 timestamp of the scheduled run'') [] None,
     fld ''cron_expression'' ''Cron Expression'' FtString False None (Some ''The cron expression that triggered this run'') [] None],
      ns_parameters = [fld ''cron'' ''Cron Expression'' FtString True None (Some (''Cron schedule (e.g. '' @ [CHR 0x27] @ ''0 */5 * * *'' @ [CHR 0x27] @ '')'')) [] None],
      ns_capability_ports = [],
      ns_settings = [],
      ns_provides_capability = None\<rparr>"

definition trigger_webhook_schema :: node_schema where
  "trigger_webhook_schema =
     \<lparr>ns_plugin_ref = ''builtin:trigger-webhook'',
      ns_name = ''Webhook'',
      ns_description = ''Run when an HTTP request is received'',
      ns_category = ''builtin'',
      ns_node_kind = Some KTrigger,
      ns_icon = ''webhook'',
      ns_color = ''#6366F1'',
      ns_docs = None,
      ns_image_url = Some ''/icons/webhook.svg'',
      ns_inputs = [],
      ns_outputs = [fld ''body'' ''Request Body'' FtObject False None (Some ''HTTP request body'') [] None,
     fld ''headers'' ''Request Headers'' FtObject False None (Some ''HTTP request headers'') [] None,
     fld ''method'' ''HTTP Method'' FtString False None (Some ''HTTP method used'') [] None,
     fld ''path'' ''Path'' FtString False None (Some ''Webhook path'') [] None],
      ns_parameters = [fld ''path'' ''Webhook Path'' FtString False None (Some ''Custom webhook path'') [] None],
      ns_capability_ports = [],
      ns_settings = [],
      ns_provides_capability = None\<rparr>"

definition trigger_event_schema :: node_schema where
  "trigger_event_schema =
     \<lparr>ns_plugin_ref = ''builtin:trigger-event'',
      ns_name = ''Event'',
      ns_description = ''Run when a named event is published'',
      ns_category = ''builtin'',
      ns_node_kind = Some KTrigger,
      ns_icon = ''zap'',
      ns_color = ''#EF4444'',
      ns_docs = None,
      ns_image_url = Some ''/icons/zap.svg'',
      ns_inputs = [],
      ns_outputs = [fld ''event_name'' ''Event Name'' FtString False None (Some ''The event that was fired'') [] None,
     fld ''payload'' ''Event Payload'' FtObject False None (Some ''Event payload data'') [] None],
      ns_parameters = [fld ''event_name'' ''Event Name'' FtString True None (Some ''Name of the event to listen for'') [] None],
      ns_capability_ports = [],
      ns_settings = [],
      ns_provides_capability = None\<rparr>"

definition capability_postgres_schema :: node_schema where
  "capability_postgres_schema =
     \<lparr>ns_plugin_ref = ''builtin:capability-postgres'',
      ns_name = ''PostgreSQL'',
      ns_description = ''PostgreSQL database connection'',
      ns_category = ''builtin'',
      ns_node_kind = Some KCapability,
      ns_icon = ''database'',
      ns_color = ''#336791'',
      ns_docs = None,
      ns_image_url = Some ''/icons/database.svg'',
      ns_inputs = [],
      ns_outputs = [],
      ns_parameters = [fld ''credential_id'' ''PostgreSQL Credential'' FtCredential False None (Some ''Select a PostgreSQL credential for connection settings'') [] (Some ''postgres''),
     fld ''host'' ''Host'' FtString False (Some (JString ''localhost'')) (Some ''Database server hostname (overrides credential)'') [] None,
     fld ''port'' ''Port'' FtNumber False (Some (JNumber (num_of_i64 5432))) (Some ''Database server port (overrides credential)'') [] None,
     fld ''database'' ''Database'' FtString False None (Some ''Database name (overrides credential)'') [] None,
     fld ''user'' ''User'' FtString False None (Some ''Database user (overrides credential)'') [] None,
     fld ''password'' ''Password'' FtPassword False None (Some ''Database password (overrides credential)'') [] None,
     fld ''sslmode'' ''SSL Mode'' FtString False (Some (JString ''require'')) (Some ''SSL mode (overrides credential)'') [''disable'', ''require'', ''verify-ca'', ''verify-full''] None,
     fld ''pool_size'' ''Pool Size'' FtNumber False (Some (JNumber (num_of_i64 10))) (Some ''Connection pool size (overrides credential)'') [] None],
      ns_capability_ports = [],
      ns_settings = [],
      ns_provides_capability = Some ''database''\<rparr>"

definition sort_schema :: node_schema where
  "sort_schema =
     \<lparr>ns_plugin_ref = ''builtin:sort'',
      ns_name = ''Sort'',
      ns_description = ''Sort an array by a field'',
      ns_category = ''builtin'',
      ns_node_kind = None,
      ns_icon = ''arrow-up-down'',
      ns_color = ''#EC4899'',
      ns_docs = None,
      ns_image_url = Some ''/icons/arrow-up-down.svg'',
      ns_inputs = [fld ''items'' ''Items'' FtArray True None (Some ''Array of objects to sort'') [] None],
      ns_outputs = [fld ''items'' ''Sorted Items'' FtArray False None None [] None],
      ns_parameters = [fld ''key'' ''Sort Key'' FtString True None (Some ''Field name to sort by'') [] None,
     fld ''direction'' ''Direction'' FtString False (Some (JString ''asc'')) (Some ''Sort direction'') [''asc'', ''desc''] None],
      ns_capability_ports = [],
      ns_settings = [],
      ns_provides_capability = None\<rparr>"

definition ai_chat_schema :: node_schema where
  "ai_chat_schema =
     \<lparr>ns_plugin_ref = ''builtin:ai-chat'',
      ns_name = ''AI Chat'',
      ns_description = ''Generate text using an LLM (OpenAI, Anthropic, Google AI)'',
      ns_category = ''builtin'',
      ns_node_kind = None,
      ns_icon = ''message-circle'',
      ns_color = ''#A855F7'',
      ns_docs = None,
      ns_image_url = None,
      ns_inputs = [fld ''prompt'' ''Prompt'' FtString True None (Some ''The user message or prompt'') [] None,
     fld ''system_prompt'' ''System Prompt'' FtString False None (Some (''Instructions that define the AI'' @ [CHR 0x27] @ ''s behavior'')) [] None,
     fld ''context'' ''Context'' FtObject False None (Some ''Additional context data (appended as JSON)'') [] None],
      ns_outputs = ([fld ''content'' ''Content'' FtString False None (Some ''AI response text'') [] None,
     fld ''parsed_json'' ''Parsed JSON'' FtObject False None (Some ''Parsed JSON (when response_format is json)'') [] None,
     fld ''model'' ''Model'' FtString False None (Some ''Model used'') [] None,
     fld ''finish_reason'' ''Finish Reason'' FtString False None (Some ''Why the model stopped'') [] None]) @ ai_common_outputs,
      ns_parameters = ([fld ''temperature'' ''Temperature'' FtNumber False (Some (JNumber (JsonNum None None (Some (f64_of_rat (7 / 10)))))) (Some (''Sampling temperature (0.0'' @ [CHR 0xE2, CHR 0x80, CHR 0x93] @ ''2.0)'')) [] None,
     fld ''max_tokens'' ''Max Tokens'' FtNumber False (Some (JNumber (num_of_i64 1024))) (Some ''Maximum tokens to generate'') [] None,
     fld ''response_format'' ''Response Format'' FtString False (Some (JString ''text'')) (Some ''Output format: plain text or JSON'') [''text'', ''json''] None]) @ ai_common_parameters,
      ns_capability_ports = [],
      ns_settings = [],
      ns_provides_capability = None\<rparr>"

definition ai_extract_schema :: node_schema where
  "ai_extract_schema =
     \<lparr>ns_plugin_ref = ''builtin:ai-extract'',
      ns_name = ''AI Extract'',
      ns_description = ''Extract structured data from text using an LLM and a JSON schema'',
      ns_category = ''builtin'',
      ns_node_kind = None,
      ns_icon = ''sparkles'',
      ns_color = ''#C084FC'',
      ns_docs = None,
      ns_image_url = None,
      ns_inputs = [fld ''text'' ''Text'' FtString True None (Some ''The text to extract data from'') [] None,
     fld ''schema'' ''Schema'' FtString True None (Some ''JSON schema describing the structure to extract'') [] None,
     fld ''instructions'' ''Instructions'' FtString False None (Some ''Additional extraction instructions for the model'') [] None],
      ns_outputs = ([fld ''extracted'' ''Extracted'' FtObject False None (Some ''Extracted data matching the provided schema'') [] None,
     fld ''raw_response'' ''Raw Response'' FtString False None (Some ''Raw model response text'') [] None]) @ ai_common_outputs,
      ns_parameters = ai_common_parameters,
      ns_capability_ports = [],
      ns_settings = [],
      ns_provides_capability = None\<rparr>"

definition ai_classify_schema :: node_schema where
  "ai_classify_schema =
     \<lparr>ns_plugin_ref = ''builtin:ai-classify'',
      ns_name = ''AI Classify'',
      ns_description = ''Classify text into categories using an LLM'',
      ns_category = ''builtin'',
      ns_node_kind = None,
      ns_icon = ''brain'',
      ns_color = ''#9333EA'',
      ns_docs = None,
      ns_image_url = None,
      ns_inputs = [fld ''text'' ''Text'' FtString True None (Some ''The text to classify'') [] None,
     fld ''categories'' ''Categories'' FtString True None (Some ''Comma-separated list of categories'') [] None,
     fld ''instructions'' ''Instructions'' FtString False None (Some ''Additional classification instructions'') [] None],
      ns_outputs = ([fld ''category'' ''Category'' FtString False None (Some ''Top predicted category (single-label mode)'') [] None,
     fld ''categories'' ''Categories'' FtArray False None (Some ''All predicted categories with confidence scores (multi-label mode)'') [] None,
     fld ''confidence'' ''Confidence'' FtNumber False None (Some (''Confidence score (0.0'' @ [CHR 0xE2, CHR 0x80, CHR 0x93] @ ''1.0)'')) [] None,
     fld ''reasoning'' ''Reasoning'' FtString False None (Some ''Brief explanation of the classification'') [] None]) @ ai_common_outputs,
      ns_parameters = ([fld ''multi_label'' ''Multi-Label'' FtBoolean False (Some (JBool False)) (Some ''Allow multiple categories to be selected'') [] None]) @ ai_common_parameters,
      ns_capability_ports = [],
      ns_settings = [],
      ns_provides_capability = None\<rparr>"

definition ai_summarize_schema :: node_schema where
  "ai_summarize_schema =
     \<lparr>ns_plugin_ref = ''builtin:ai-summarize'',
      ns_name = ''AI Summarize'',
      ns_description = ''Summarize text using an LLM'',
      ns_category = ''builtin'',
      ns_node_kind = None,
      ns_icon = ''file-text'',
      ns_color = ''#A855F7'',
      ns_docs = None,
      ns_image_url = None,
      ns_inputs = [fld ''text'' ''Text'' FtString True None (Some ''The text to summarize'') [] None],
      ns_outputs = ([fld ''summary'' ''Summary'' FtString False None (Some ''The generated summary'') [] None,
     fld ''key_points'' ''Key Points'' FtArray False None (Some ''List of key points from the text'') [] None]) @ ai_common_outputs,
      ns_parameters = ([fld ''style'' ''Style'' FtString False (Some (JString ''brief'')) (Some ''Summarization style'') [''brief'', ''detailed'', ''bullet_points'', ''key_takeaways''] None,
     fld ''max_length'' ''Max Length'' FtString False (Some (JString ''1 paragraph'')) (Some ''Maximum length of the summary'') [''1-2 sentences'', ''1 paragraph'', ''3 paragraphs'', ''unlimited''] None]) @ ai_common_parameters,
      ns_capability_ports = [],
      ns_settings = [],
      ns_provides_capability = None\<rparr>"

definition ai_sentiment_schema :: node_schema where
  "ai_sentiment_schema =
     \<lparr>ns_plugin_ref = ''builtin:ai-sentiment'',
      ns_name = ''AI Sentiment'',
      ns_description = ''Analyze the sentiment of text using an LLM'',
      ns_category = ''builtin'',
      ns_node_kind = None,
      ns_icon = ''brain'',
      ns_color = ''#C084FC'',
      ns_docs = None,
      ns_image_url = None,
      ns_inputs = [fld ''text'' ''Text'' FtString True None (Some ''The text to analyze for sentiment'') [] None],
      ns_outputs = ([fld ''sentiment'' ''Sentiment'' FtString False None (Some ''Overall sentiment: positive, negative, neutral, or mixed'') [] None,
     fld ''score'' ''Score'' FtNumber False None (Some ''Sentiment score from -1.0 (negative) to 1.0 (positive)'') [] None,
     fld ''emotions'' ''Emotions'' FtObject False None (Some ''Detected emotions with intensity scores (0.0 to 1.0)'') [] None,
     fld ''reasoning'' ''Reasoning'' FtString False None (Some ''Explanation of the sentiment analysis'') [] None]) @ ai_common_outputs,
      ns_parameters = ai_common_parameters,
      ns_capability_ports = [],
      ns_settings = [],
      ns_provides_capability = None\<rparr>"

definition ai_translate_schema :: node_schema where
  "ai_translate_schema =
     \<lparr>ns_plugin_ref = ''builtin:ai-translate'',
      ns_name = ''AI Translate'',
      ns_description = ''Translate text to another language using an LLM'',
      ns_category = ''builtin'',
      ns_node_kind = None,
      ns_icon = ''globe'',
      ns_color = ''#9333EA'',
      ns_docs = None,
      ns_image_url = None,
      ns_inputs = [fld ''text'' ''Text'' FtString True None (Some ''The text to translate'') [] None],
      ns_outputs = ([fld ''translated'' ''Translated'' FtString False None (Some ''The translated text'') [] None,
     fld ''detected_language'' ''Detected Language'' FtString False None (Some ''The detected or specified source language'') [] None]) @ ai_common_outputs,
      ns_parameters = ([fld ''target_language'' ''Target Language'' FtString True (Some (JString ''English'')) (Some ''The language to translate into'') [] None,
     fld ''source_language'' ''Source Language'' FtString False (Some (JString ''auto'')) (Some (''The source language (use '' @ [CHR 0x27] @ ''auto'' @ [CHR 0x27] @ '' to detect automatically)'')) [] None,
     fld ''tone'' ''Tone'' FtString False (Some (JString ''formal'')) (Some ''Translation tone'') [''formal'', ''informal'', ''technical'', ''casual''] None]) @ ai_common_parameters,
      ns_capability_ports = [],
      ns_settings = [],
      ns_provides_capability = None\<rparr>"

definition mcp_tool_schema :: node_schema where
  "mcp_tool_schema =
     \<lparr>ns_plugin_ref = ''builtin:mcp_tool'',
      ns_name = ''MCP Tool'',
      ns_description = ''Call a tool on an external MCP server'',
      ns_category = ''AI & MCP'',
      ns_node_kind = None,
      ns_icon = ''plug'',
      ns_color = ''#8B5CF6'',
      ns_docs = None,
      ns_image_url = None,
      ns_inputs = [fld ''server_url'' ''MCP Server URL'' FtString True None (Some ''URL of the MCP server (HTTP transport)'') [] None,
     fld ''tool_name'' ''Tool Name'' FtString True None (Some ''Name of the MCP tool to call'') [] None],
      ns_outputs = [fld ''content'' ''Content'' FtString False None (Some ''Text content returned by the tool'') [] None,
     fld ''is_error'' ''Is Error'' FtBoolean False None (Some ''Whether the tool call returned an error'') [] None,
     fld ''raw_content'' ''Raw Content'' FtObject False None (Some ''Full MCP content blocks (text and images)'') [] None],
      ns_parameters = [],
      ns_capability_ports = [],
      ns_settings = [fld ''allow_localhost'' ''Allow Localhost'' FtBoolean False (Some (JBool False)) (Some ''Allow HTTP loopback MCP servers for local development'') [] None],
      ns_provides_capability = None\<rparr>"

lemmas schema_defs = fld_def ai_common_parameters_def ai_common_outputs_def
  log_schema_def http_schema_def delay_schema_def transform_schema_def email_schema_def template_schema_def encode_schema_def filter_schema_def trigger_manual_schema_def trigger_cron_schema_def trigger_webhook_schema_def trigger_event_schema_def capability_postgres_schema_def sort_schema_def ai_chat_schema_def ai_extract_schema_def ai_classify_schema_def ai_summarize_schema_def ai_sentiment_schema_def ai_translate_schema_def mcp_tool_schema_def

section \<open>Registration\<close>

definition builtin_nodes :: "(string \<times> node_schema) list" where
  "builtin_nodes =
     [(''builtin:log'', log_schema),
      (''builtin:http'', http_schema),
      (''builtin:delay'', delay_schema),
      (''builtin:transform'', transform_schema),
      (''builtin:email'', email_schema),
      (''builtin:template'', template_schema),
      (''builtin:encode'', encode_schema),
      (''builtin:filter'', filter_schema),
      (''builtin:trigger-manual'', trigger_manual_schema),
      (''builtin:trigger-cron'', trigger_cron_schema),
      (''builtin:trigger-webhook'', trigger_webhook_schema),
      (''builtin:trigger-event'', trigger_event_schema),
      (''builtin:capability-postgres'', capability_postgres_schema),
      (''builtin:sort'', sort_schema),
      (''builtin:ai-chat'', ai_chat_schema),
      (''builtin:ai-extract'', ai_extract_schema),
      (''builtin:ai-classify'', ai_classify_schema),
      (''builtin:ai-summarize'', ai_summarize_schema),
      (''builtin:ai-sentiment'', ai_sentiment_schema),
      (''builtin:ai-translate'', ai_translate_schema),
      (''builtin:mcp_tool'', mcp_tool_schema)]"

text \<open>\<open>register_builtins\<close> with an engine, and the variant with a callback.\<close>

definition register_builtins :: "(string \<Rightarrow> 'w executor) \<Rightarrow> ('w engine, unit) act" where
  "register_builtins node = forE builtin_nodes (\<lambda>(name, sc). register_node_with_schema name (node name) sc)"

definition register_builtins_with :: "(string \<Rightarrow> node_schema \<Rightarrow> 's \<Rightarrow> 's) \<Rightarrow> 's \<Rightarrow> 's" where
  "register_builtins_with register = fold (\<lambda>(name, sc). register name sc) builtin_nodes"

lemma register_new:
  "\<not> blank name \<Longrightarrow> fmlookup (eg_nodes g) name = None \<Longrightarrow> register_node_with_schema name ex sc g =
     (Inr (), g\<lparr>eg_nodes := fmupd name ex (eg_nodes g), eg_schemas := fmupd name sc (eg_schemas g)\<rparr>)"
  by (simp add: register_node_with_schema_def register_node_def register_schema_def seqE_def bindE_def modifyE_def)

lemma register_duplicate:
  "\<not> blank name \<Longrightarrow> fmlookup (eg_nodes g) name \<noteq> None \<Longrightarrow>
     register_node_with_schema name ex sc g = (Inl (DuplicateNodeKind name), g)"
  by (simp add: register_node_with_schema_def register_node_def seqE_def bindE_def)

text \<open>Any list of new names with different names registers completely.\<close>

lemma register_all:
  "distinct (map fst xs) \<Longrightarrow> (\<And>name sc. (name, sc) \<in> set xs \<Longrightarrow> \<not> blank name \<and> fmlookup (eg_nodes g) name = None) \<Longrightarrow>
     forE xs (\<lambda>(name, sc). register_node_with_schema name (node name) sc) g =
       (Inr (), g\<lparr>eg_nodes := fold (\<lambda>(name, _). fmupd name (node name)) xs (eg_nodes g),
                 eg_schemas := fold (\<lambda>(name, sc). fmupd name sc) xs (eg_schemas g)\<rparr>)"
proof (induction xs arbitrary: g)
  case (Cons x xs)
  obtain name sc where x: "x = (name, sc)" by force
  let ?g = "g\<lparr>eg_nodes := fmupd name (node name) (eg_nodes g), eg_schemas := fmupd name sc (eg_schemas g)\<rparr>"
  have "forE xs (\<lambda>(name, sc). register_node_with_schema name (node name) sc) ?g =
       (Inr (), ?g\<lparr>eg_nodes := fold (\<lambda>(name, _). fmupd name (node name)) xs (eg_nodes ?g),
                 eg_schemas := fold (\<lambda>(name, sc). fmupd name sc) xs (eg_schemas ?g)\<rparr>)"
    using Cons.prems x by (intro Cons.IH) (auto simp: image_iff)
  with Cons.prems(2) [of name sc] x show ?case by (simp add: bindE_def register_new)
qed (simp add: ret_def)

lemma fold_fmupd_of:
  "fmlookup (fold (\<lambda>(name, v). fmupd name (f name v)) xs m) k =
     (case map_of (rev xs) k of Some v \<Rightarrow> Some (f k v) | None \<Rightarrow> fmlookup m k)"
  by (induction xs arbitrary: m) (auto simp: map_add_def split: option.split)

lemma map_of_rev_distinct: "distinct (map fst xs) \<Longrightarrow> map_of (rev xs) = map_of xs"
  by (rule map_of_inject_set [THEN iffD2]) (simp_all flip: rev_map)

lemma builtin_names:
  "distinct (map fst builtin_nodes)" "list_all (\<lambda>(name, sc). \<not> blank name \<and> ns_plugin_ref sc = name) builtin_nodes"
  by (simp_all add: builtin_nodes_def space_len_def schema_defs)

lemma register_again:
  "fmlookup (eg_nodes h) ''builtin:log'' \<noteq> None \<Longrightarrow> register_builtins node h = (Inl (DuplicateNodeKind ''builtin:log''), h)"
  unfolding register_builtins_def builtin_nodes_def by (simp add: bindE_def register_duplicate space_len_def)

section \<open>Properties\<close>

text \<open>On an engine that knows none of them, registration of the built-in nodes succeeds and adds exactly them, each under its own
  name with its own schema; registering them again fails at the first and changes nothing.\<close>

theorem builtins_registered:
  assumes "\<forall>name \<in> fst ` set builtin_nodes. fmlookup (eg_nodes g) name = None"
  shows "\<exists>g'. register_builtins node g = (Inr (), g') \<and> eg_world g' = eg_world g \<and>
    (\<forall>name. fmlookup (eg_nodes g') name = (if name \<in> fst ` set builtin_nodes then Some (node name) else fmlookup (eg_nodes g) name)) \<and>
    (\<forall>name. fmlookup (eg_schemas g') name =
       (case map_of builtin_nodes name of Some sc \<Rightarrow> Some sc | None \<Rightarrow> fmlookup (eg_schemas g) name)) \<and>
    register_builtins node' g' = (Inl (DuplicateNodeKind ''builtin:log''), g')"
proof -
  let ?nodes = "fold (\<lambda>(name, _). fmupd name (node name)) builtin_nodes (eg_nodes g)"
  let ?g = "g\<lparr>eg_nodes := ?nodes, eg_schemas := fold (\<lambda>(name, sc). fmupd name sc) builtin_nodes (eg_schemas g)\<rparr>"
  have "register_builtins node g = (Inr (), ?g)"
    unfolding register_builtins_def
    using assms builtin_names by (intro register_all) (auto simp: list_all_iff split_beta)
  moreover have nodes: "fmlookup ?nodes name = (if name \<in> fst ` set builtin_nodes then Some (node name) else fmlookup (eg_nodes g) name)" for name
    using fold_fmupd_of [of "\<lambda>name _. node name" builtin_nodes "eg_nodes g" name] builtin_names(1)
    by (cases "map_of builtin_nodes name") (auto simp: map_of_rev_distinct map_of_eq_None_iff dest: map_of_SomeD intro: rev_image_eqI)
  moreover have "fmlookup (eg_schemas ?g) name =
      (case map_of builtin_nodes name of Some sc \<Rightarrow> Some sc | None \<Rightarrow> fmlookup (eg_schemas g) name)" for name
    using fold_fmupd_of [of "\<lambda>_ sc. sc" builtin_nodes "eg_schemas g" name] builtin_names(1)
    by (simp add: map_of_rev_distinct)
  moreover have "register_builtins node' ?g = (Inl (DuplicateNodeKind ''builtin:log''), ?g)"
    using nodes [of "''builtin:log''"] by (intro register_again) (simp add: builtin_nodes_def)
  ultimately show ?thesis by (intro exI [of _ ?g]) simp
qed

theorem builtins_registered_witness:
  "\<exists>g'. register_builtins (\<lambda>_ _. ret \<lparr>no_data = None, no_error = None\<rparr>) (engine_new ()) = (Inr (), g') \<and>
     fmlookup (eg_schemas g') ''builtin:sort'' = Some sort_schema"
proof -
  have "\<forall>name \<in> fst ` set builtin_nodes. fmlookup (eg_nodes (engine_new ())) name = None" by (simp add: engine_new_def)
  note r = builtins_registered [OF this, of "\<lambda>_ _. ret \<lparr>no_data = None, no_error = None\<rparr>" "\<lambda>_ _. ret \<lparr>no_data = None, no_error = None\<rparr>"]
  have "map_of builtin_nodes ''builtin:sort'' = Some sort_schema" by (simp add: builtin_nodes_def)
  with r show ?thesis by fastforce
qed

definition keys_distinct :: "node_schema \<Rightarrow> bool" where
  "keys_distinct sc \<longleftrightarrow> distinct (map fs_key (ns_inputs sc @ ns_parameters sc @ ns_settings sc)) \<and> distinct (map fs_key (ns_outputs sc))"

definition default_allowed :: "field_schema \<Rightarrow> bool" where
  "default_allowed f = (case fs_default f of
       Some (JString s) \<Rightarrow> fs_enum f = [] \<or> s \<in> set (fs_enum f)
     | _ \<Rightarrow> True)"

text \<open>The schemas are consistent: a reference that validation accepts, no key declared twice, and defaults that are
  among the allowed values.\<close>

theorem builtin_schemas_consistent:
  "\<forall>(name, sc) \<in> set builtin_nodes. validate_plugin_ref name = Inr () \<and> ns_plugin_ref sc = name \<and> keys_distinct sc \<and>
     list_all default_allowed (ns_inputs sc @ ns_parameters sc @ ns_settings sc)"
proof -
  have "list_all (\<lambda>(name, sc). validate_plugin_ref name = Inr () \<and> ns_plugin_ref sc = name \<and> keys_distinct sc \<and>
     list_all default_allowed (ns_inputs sc @ ns_parameters sc @ ns_settings sc)) builtin_nodes"
    by (simp add: builtin_nodes_def schema_defs validate_plugin_ref_def starts_with_def keys_distinct_def default_allowed_def)
  then show ?thesis by (simp add: list_all_iff)
qed

end
