(* ===== verification/Egress.thy ===== *)
theory Egress
  imports Nodes Ssrf
begin

text \<open>
  Requests that leave the program: the URL checks and the resolver of \<open>crates/orbflow-builtins/src/ssrf.rs\<close>
  and the HTTP node, \<open>http.rs\<close>. The crate url, the name service, serde and the HTTP client reqwest are the
  fields of \<open>net_env\<close> on a world of arbitrary type. A client is the configuration the code builds it with: its
  resolver and its redirect policy. reqwest sends a request through a system proxy if the process environment names
  one for its URL (\<open>ne_proxy\<close>: the addresses of that proxy) and the client was not built with \<open>no_proxy\<close>, which the
  code never calls. \<open>sends_as_documented\<close> states what reqwest documents of all this.
\<close>

section \<open>Addresses and URLs\<close>

text \<open>\<open>Display\<close> of an address: the first longest run of at least two zero segments is elided.\<close>

definition seg_str :: "16 word \<Rightarrow> string" where
  "seg_str s =
     (let n = unat s; ds = map hex_digit [n div 4096, n div 256 mod 16, n div 16 mod 16, n mod 16] in
      case dropWhile (\<lambda>c. c = CHR ''0'') ds of [] \<Rightarrow> ''0'' | t \<Rightarrow> t)"

definition zero_run :: "16 word list \<Rightarrow> nat \<Rightarrow> nat" where
  "zero_run segs i = length (takeWhile (\<lambda>s. s = 0) (drop i segs))"

definition longest_zeros :: "16 word list \<Rightarrow> nat \<times> nat" where
  "longest_zeros segs = fold (\<lambda>i (s, l). if zero_run segs i > l then (i, zero_run segs i) else (s, l)) [0..<8] (0, 0)"

fun ip_str :: "ip \<Rightarrow> string" where
  "ip_str (V4 a b c d) = join_str ''.'' (map (\<lambda>x. nat_str (unat x)) [a, b, c, d])"
| "ip_str (V6 s0 s1 s2 s3 s4 s5 s6 s7) =
     (case to_ipv4_mapped (V6 s0 s1 s2 s3 s4 s5 s6 s7) of
        Some (V4 a b c d) \<Rightarrow> ''::ffff:'' @ join_str ''.'' (map (\<lambda>x. nat_str (unat x)) [a, b, c, d])
      | _ \<Rightarrow>
        let segs = [s0, s1, s2, s3, s4, s5, s6, s7] in
        (case longest_zeros segs of (s, l) \<Rightarrow>
           if l > 1 then join_str '':'' (map seg_str (take s segs)) @ ''::'' @ join_str '':'' (map seg_str (drop (s + l) segs))
           else join_str '':'' (map seg_str segs)))"

datatype url_host = HostIp ip | HostDomain string

record parsed_url =
  pu_str :: string
  pu_scheme :: string
  pu_host_str :: "string option"
  pu_host :: "url_host option"
  pu_port :: "nat option"
  pu_known_port :: "nat option"

section \<open>Requests, responses and clients\<close>

record http_request =
  rq_method :: string
  rq_url :: string
  rq_headers :: "(string \<times> string) list"
  rq_body :: "string option"

record http_response =
  rs_status :: nat
  rs_reason :: "string option"
  rs_headers :: "(string \<times> string option) list"
  rs_content_length :: "nat option"
  rs_chunks :: "(string + string) list"

datatype redirect_action = Follow | Stop | RedirectError string

type_synonym 'w resolver = "string \<Rightarrow> 'w \<Rightarrow> (string + ip list) \<times> 'w"

record 'w client =
  cl_resolve :: "'w resolver"
  cl_redirect :: "nat \<Rightarrow> string \<Rightarrow> redirect_action"

record 'w net_env =
  ne_parse :: "string \<Rightarrow> string + parsed_url"
  ne_lookup :: "string \<Rightarrow> 'w \<Rightarrow> (string + ip list) \<times> 'w"
  ne_proxy :: "parsed_url \<Rightarrow> ip list option"
  ne_send :: "'w client \<Rightarrow> http_request \<Rightarrow> 'w \<Rightarrow> (string + http_response) \<times> 'w"
  ne_build_error :: "string option"
  ne_method :: "string \<Rightarrow> string + string"
  ne_lowercase :: "string \<Rightarrow> string"
  ne_json_str :: "json \<Rightarrow> string"
  ne_json_parse :: "string \<Rightarrow> string + json"
  ne_utf8_lossy :: "string \<Rightarrow> string"

definition sq :: "string \<Rightarrow> string" where
  "sq s = CHR 0x27 # s @ [CHR 0x27]"

section \<open>Checks against private addresses\<close>

definition BLOCKED_HOSTNAMES :: "string list" where
  "BLOCKED_HOSTNAMES = [''metadata.google.internal'', ''metadata.internal'', ''169.254.169.254'']"

definition ALLOWED_SCHEMES :: "string list" where
  "ALLOWED_SCHEMES = [''http'', ''https'']"

definition host_nonempty :: "parsed_url \<Rightarrow> string option" where
  "host_nonempty u = (case pu_host_str u of Some h \<Rightarrow> if h = [] then None else Some h | None \<Rightarrow> None)"

definition ip_of_host :: "parsed_url \<Rightarrow> ip option" where
  "ip_of_host u = (case pu_host u of Some (HostIp ip) \<Rightarrow> Some ip | _ \<Rightarrow> None)"

definition parse_checked :: "'w net_env \<Rightarrow> string \<Rightarrow> parsed_url result" where
  "parse_checked env s = (case ne_parse env s of Inl _ \<Rightarrow> Inl (InvalidNodeConfig (''invalid URL: '' @ s)) | Inr u \<Rightarrow> Inr u)"

definition validate_url_not_private :: "'w net_env \<Rightarrow> string \<Rightarrow> bool \<Rightarrow> unit result" where
  "validate_url_not_private env url_str allow_localhost =
     bindR (parse_checked env url_str) (\<lambda>u.
     bindR (rejectR (pu_scheme u \<notin> set ALLOWED_SCHEMES)
       (InvalidNodeConfig (''URL scheme '' @ sq (pu_scheme u) @ '' is not allowed (only http and https)''))) (\<lambda>_.
     bindR (or_config_error (host_nonempty u) (''URL has no host: '' @ url_str)) (\<lambda>host.
     let lower = ne_lowercase env host in
     bindR (rejectR (lower = ''localhost'' \<and> \<not> allow_localhost) (InvalidNodeConfig ''URL points to localhost'')) (\<lambda>_.
     bindR (rejectR (lower \<in> set BLOCKED_HOSTNAMES) (InvalidNodeConfig ''URL points to cloud metadata endpoint'')) (\<lambda>_.
       (case ip_of_host u of
          None \<Rightarrow> Inr ()
        | Some ip \<Rightarrow>
            (case is_private_ip ip allow_localhost of
               None \<Rightarrow> Inr ()
             | Some reason \<Rightarrow> Inl (InvalidNodeConfig (''URL points to '' @ reason @ '': '' @ host)))))))))"

fun first_private :: "bool \<Rightarrow> ip list \<Rightarrow> (ip \<times> string) option" where
  "first_private allow [] = None"
| "first_private allow (a # as) = (case is_private_ip a allow of Some reason \<Rightarrow> Some (a, reason) | None \<Rightarrow> first_private allow as)"

definition validate_url_not_private_async :: "'w net_env \<Rightarrow> string \<Rightarrow> bool \<Rightarrow> ('w, unit) act" where
  "validate_url_not_private_async env url_str allow_localhost =
     bindE (liftR (validate_url_not_private env url_str allow_localhost)) (\<lambda>_.
     bindE (liftR (parse_checked env url_str)) (\<lambda>u.
     bindE (liftR (or_config_error (host_nonempty u) (''URL has no host: '' @ url_str))) (\<lambda>host.
       let port = (case pu_port u of Some p \<Rightarrow> p | None \<Rightarrow> if pu_scheme u = ''https'' then 443 else 80);
           is_literal_ip = (ip_of_host u \<noteq> None) in
       (\<lambda>w. case ne_lookup env (host @ '':'' @ nat_str port) w of
          (Inr addrs, w') \<Rightarrow>
            (case first_private allow_localhost addrs of
               Some (a, reason) \<Rightarrow>
                 (Inl (InvalidNodeConfig (''URL hostname '' @ sq host @ '' resolves to '' @ reason @ '' ('' @ ip_str a @ '')'')), w')
             | None \<Rightarrow> (Inr (), w'))
        | (Inl _, w') \<Rightarrow>
            if is_literal_ip then (Inr (), w')
            else (Inl (InvalidNodeConfig (''URL hostname '' @ sq host @ '' could not be resolved'')), w')))))"

text \<open>\<open>SsrfSafeResolver::resolve\<close>\<close>

definition safe_resolve :: "'w net_env \<Rightarrow> bool \<Rightarrow> 'w resolver" where
  "safe_resolve env allow_localhost name w =
     (case ne_lookup env (name @ '':0'') w of
        (Inl e, w') \<Rightarrow> (Inl e, w')
      | (Inr addrs, w') \<Rightarrow>
          let validated = filter (\<lambda>a. is_private_ip a allow_localhost = None) addrs in
          (if validated = [] then Inl ''all resolved addresses are private/internal (SSRF protection)'' else Inr validated, w'))"

section \<open>The HTTP node\<close>

definition BINARY_CONTENT_PREFIXES :: "string list" where
  "BINARY_CONTENT_PREFIXES =
     [''image/'', ''audio/'', ''video/'', ''application/octet-stream'', ''application/pdf'', ''application/zip'',
      ''application/gzip'', ''application/x-tar'', ''application/x-7z'', ''application/vnd.'', ''font/'']"

definition MAX_BODY_SIZE :: nat where
  "MAX_BODY_SIZE = 2 ^ 20"

definition MAX_REDIRECTS :: nat where
  "MAX_REDIRECTS = 10"

definition ssrf_redirect_policy :: "'w net_env \<Rightarrow> nat \<Rightarrow> string \<Rightarrow> redirect_action" where
  "ssrf_redirect_policy env previous redirect_url =
     (if previous > MAX_REDIRECTS then RedirectError ''http node: too many redirects''
      else case validate_url_not_private env redirect_url False of
        Inr _ \<Rightarrow> Follow
      | Inl e \<Rightarrow> RedirectError (''http node: redirect target rejected by SSRF policy: '' @ error_str e))"

definition default_client :: "'w net_env \<Rightarrow> 'w client result" where
  "default_client env = (case ne_build_error env of
       Some e \<Rightarrow> Inl (InvalidNodeConfig (''failed to build HTTP client: '' @ e))
     | None \<Rightarrow> Inr \<lparr>cl_resolve = safe_resolve env False, cl_redirect = ssrf_redirect_policy env\<rparr>)"

definition is_binary_content_type :: "'w net_env \<Rightarrow> string \<Rightarrow> bool" where
  "is_binary_content_type env ct =
     (let t = trim (takeWhile (\<lambda>c. c \<noteq> CHR '';'') (ne_lowercase env ct)) in
      list_ex (\<lambda>p. starts_with p t) BINARY_CONTENT_PREFIXES)"

definition body_too_long :: "nat \<Rightarrow> nat \<Rightarrow> orbflow_error" where
  "body_too_long n max_bytes = InvalidNodeConfig
     (''http node: response body exceeds maximum size ('' @ nat_str n @ '' > '' @ nat_str max_bytes @ '' bytes)'')"

fun read_chunks :: "nat \<Rightarrow> string \<Rightarrow> (string + string) list \<Rightarrow> string result" where
  "read_chunks max_bytes body [] = Inr body"
| "read_chunks max_bytes body (Inl e # _) = Inl (Internal (''http node: read body: '' @ e))"
| "read_chunks max_bytes body (Inr chunk # rest) =
     (let next_len = min (length body + length chunk) (2 ^ 64 - 1) in
      if next_len > max_bytes then Inl (body_too_long next_len max_bytes)
      else read_chunks max_bytes (body @ chunk) rest)"

definition read_body_with_cap :: "http_response \<Rightarrow> nat \<Rightarrow> string result" where
  "read_body_with_cap resp max_bytes =
     (case rs_content_length resp of
        Some n \<Rightarrow> if n > max_bytes then Inl (body_too_long n max_bytes) else read_chunks max_bytes [] (rs_chunks resp)
      | None \<Rightarrow> read_chunks max_bytes [] (rs_chunks resp))"

definition PROTECTED_HEADERS :: "string list" where
  "PROTECTED_HEADERS = [''host'', ''content-length'', ''transfer-encoding'', ''te'', ''trailer'', ''upgrade'']"

fun add_headers :: "'w net_env \<Rightarrow> http_request \<Rightarrow> (string \<times> json) list \<Rightarrow> http_request result" where
  "add_headers env rq [] = Inr rq"
| "add_headers env rq ((k, v) # kvs) =
     (if ne_lowercase env k \<in> set PROTECTED_HEADERS
      then Inl (InvalidNodeConfig (''http node: header '' @ sq k @ '' is reserved and cannot be overridden''))
      else add_headers env
        (case v of JString s \<Rightarrow> rq\<lparr>rq_headers := rq_headers rq @ [(k, s)]\<rparr> | _ \<Rightarrow> rq) kvs)"

definition add_body :: "'w net_env \<Rightarrow> jmap \<Rightarrow> http_request \<Rightarrow> http_request" where
  "add_body env cfg rq = (case fmlookup cfg ''body'' of
       None \<Rightarrow> rq
     | Some (JString s) \<Rightarrow> rq\<lparr>rq_body := Some s\<rparr>
     | Some other \<Rightarrow> rq\<lparr>rq_headers := rq_headers rq @ [(''Content-Type'', ''application/json'')],
                       rq_body := Some (ne_json_str env other)\<rparr>)"

definition build_request :: "'w net_env \<Rightarrow> jmap \<Rightarrow> string \<Rightarrow> string \<Rightarrow> http_request result" where
  "build_request env cfg meth url =
     bindR (case fmlookup cfg ''headers'' of
         Some (JObject headers) \<Rightarrow> add_headers env
           \<lparr>rq_method = meth, rq_url = url, rq_headers = [(''Accept'', ''*/*'')], rq_body = None\<rparr> (fm_items headers)
       | _ \<Rightarrow> Inr \<lparr>rq_method = meth, rq_url = url, rq_headers = [(''Accept'', ''*/*'')], rq_body = None\<rparr>)
       (\<lambda>rq. Inr (add_body env cfg rq))"

definition body_value :: "'w net_env \<Rightarrow> string \<Rightarrow> string \<Rightarrow> json" where
  "body_value env content_type body_bytes =
     (if is_binary_content_type env content_type
      then JObject (make_output [(''_binary'', JBool True), (''content_type'', JString content_type),
        (''size_bytes'', JNumber (num_of_u64 (length body_bytes)))])
      else
        let body_str = ne_utf8_lossy env body_bytes; trimmed = trim body_str in
        if trimmed \<noteq> [] \<and> (starts_with ''{'' trimmed \<or> starts_with ''['' trimmed)
        then (case ne_json_parse env body_bytes of Inr parsed \<Rightarrow> parsed | Inl _ \<Rightarrow> JString body_str)
        else JString body_str)"

definition header_text :: "http_response \<Rightarrow> string \<Rightarrow> string" where
  "header_text resp name = (case map_of (rs_headers resp) name of Some (Some v) \<Rightarrow> v | _ \<Rightarrow> [])"

definition http_output :: "'w net_env \<Rightarrow> http_response \<Rightarrow> node_output result" where
  "http_output env resp =
     bindR (read_body_with_cap resp MAX_BODY_SIZE) (\<lambda>body_bytes.
       Inr (ok_output
         [(''status'', JNumber (num_of_u64 (rs_status resp))),
          (''status_text'', JString (nat_str (rs_status resp) @ '' '' @ (case rs_reason resp of Some r \<Rightarrow> r | None \<Rightarrow> []))),
          (''body'', body_value env (header_text resp ''content-type'') body_bytes),
          (''headers'', JObject (make_output (map (\<lambda>(k, v). (k, JString (case v of Some s \<Rightarrow> s | None \<Rightarrow> []))) (rs_headers resp))))]))"

definition http_execute :: "'w net_env \<Rightarrow> node_input \<Rightarrow> ('w, node_output) act" where
  "http_execute env inp =
     (let cfg = resolve_config inp; meth = string_val cfg ''method'' ''GET''; url = string_val cfg ''url'' [] in
      bindE (liftR (rejectR (url = []) (InvalidNodeConfig ''http node: url is required''))) (\<lambda>_.
      bindE (validate_url_not_private_async env url False) (\<lambda>_.
      bindE (liftR (case ne_method env meth of
          Inl e \<Rightarrow> Inl (InvalidNodeConfig (''http node: invalid method: '' @ e)) | Inr m \<Rightarrow> Inr m)) (\<lambda>m.
      bindE (liftR (default_client env)) (\<lambda>client.
      bindE (liftR (build_request env cfg m url)) (\<lambda>rq.
      bindE (\<lambda>w. case ne_send env client rq w of
          (Inl e, w') \<Rightarrow> (Inl (Internal (''http node: request failed: '' @ e)), w') | (Inr r, w') \<Rightarrow> (Inr r, w')) (\<lambda>resp.
        liftR (http_output env resp))))))))"

end
