(* ===== verification/EgressLaws.thy ===== *)
theory EgressLaws
  imports Egress
begin

text \<open>
  What leaves through the HTTP node. The world has a record \<open>made\<close> of the requests that were made: the URL and the
  addresses that were contacted for it.
\<close>

section \<open>What the client documents\<close>

text \<open>
  A request is a sequence of hops. The first goes to the URL of the request, each other one to the target of a
  redirect that the policy of the client agreed to. A hop contacts the system proxy of its URL, if there is one;
  otherwise the address in its URL, or addresses that the resolver of the client answered for the name in it.
\<close>

definition reaches :: "'w net_env \<Rightarrow> 'w client \<Rightarrow> parsed_url \<Rightarrow> ip \<Rightarrow> bool" where
  "reaches env cl u ip \<longleftrightarrow> (case ne_proxy env u of
       Some as \<Rightarrow> ip \<in> set as
     | None \<Rightarrow> pu_host u = Some (HostIp ip) \<or>
         (\<exists>name v as v'. pu_host u = Some (HostDomain name) \<and> cl_resolve cl name v = (Inr as, v') \<and> ip \<in> set as))"

text \<open>The process environment names no proxy.\<close>

definition no_system_proxy :: "'w net_env \<Rightarrow> bool" where
  "no_system_proxy env \<longleftrightarrow> (\<forall>u. ne_proxy env u = None)"

fun hops_ok :: "'w net_env \<Rightarrow> 'w client \<Rightarrow> nat \<Rightarrow> (parsed_url \<times> ip list) list \<Rightarrow> bool" where
  "hops_ok env cl k [] = True"
| "hops_ok env cl k ((u, ips) # hops) =
     ((\<forall>ip \<in> set ips. reaches env cl u ip) \<and>
      (0 < k \<longrightarrow> ne_parse env (pu_str u) = Inr u \<and> cl_redirect cl k (pu_str u) = Follow) \<and>
      hops_ok env cl (Suc k) hops)"

definition request_hops :: "'w net_env \<Rightarrow> 'w client \<Rightarrow> string \<Rightarrow> (parsed_url \<times> ip list) list \<Rightarrow> bool" where
  "request_hops env cl url hops \<longleftrightarrow>
     hops_ok env cl 0 hops \<and> (hops \<noteq> [] \<longrightarrow> ne_parse env url = Inr (fst (hd hops)))"

definition quiet_resolver :: "('w \<Rightarrow> (parsed_url \<times> ip list) list) \<Rightarrow> 'w resolver \<Rightarrow> bool" where
  "quiet_resolver made res \<longleftrightarrow> (\<forall>name w. made (snd (res name w)) = made w)"

definition sends_as_documented :: "'w net_env \<Rightarrow> ('w \<Rightarrow> (parsed_url \<times> ip list) list) \<Rightarrow> bool" where
  "sends_as_documented env made \<longleftrightarrow> quiet_resolver made (ne_lookup env) \<and>
     (\<forall>cl rq w. quiet_resolver made (cl_resolve cl) \<longrightarrow>
       (\<exists>hops. made (snd (ne_send env cl rq w)) = made w @ hops \<and> request_hops env cl (rq_url rq) hops))"

section \<open>Checked URLs\<close>

lemma bindE_liftR: "bindE (liftR r) f w = (case r of Inl e \<Rightarrow> (Inl e, w) | Inr x \<Rightarrow> f x w)"
  by (simp add: bindE_def liftR_def split: sum.split)

lemma validate_checked:
  assumes "validate_url_not_private env s allow = Inr ()"
  obtains u where "ne_parse env s = Inr u" "\<And>ip. ip_of_host u = Some ip \<Longrightarrow> is_private_ip ip allow = None"
    "pu_scheme u \<in> set ALLOWED_SCHEMES"
  using assms
  by (auto simp: validate_url_not_private_def parse_checked_def bindR_Inr_iff Let_def split: sum.splits option.splits)

lemma safe_resolve_public: "safe_resolve env allow name w = (Inr as, w') \<Longrightarrow> ip \<in> set as \<Longrightarrow> is_private_ip ip allow = None"
  by (auto simp: safe_resolve_def Let_def split: prod.splits sum.splits if_splits)

lemma safe_resolve_quiet: "quiet_resolver made (ne_lookup env) \<Longrightarrow> quiet_resolver made (safe_resolve env allow)"
  by (auto simp: quiet_resolver_def safe_resolve_def Let_def split: prod.split sum.split) (metis snd_conv)+

lemma follow_checked: "ssrf_redirect_policy env k s = Follow \<longleftrightarrow> k \<le> MAX_REDIRECTS \<and> validate_url_not_private env s False = Inr ()"
  by (auto simp: ssrf_redirect_policy_def split: sum.split)

lemma checked_client: "default_client env = Inr cl \<longleftrightarrow>
    ne_build_error env = None \<and> cl = \<lparr>cl_resolve = safe_resolve env False, cl_redirect = ssrf_redirect_policy env\<rparr>"
  by (auto simp: default_client_def split: option.split)

lemma checked_hop:
  assumes "default_client env = Inr cl" and "\<And>ip. ip_of_host u = Some ip \<Longrightarrow> is_private_ip ip False = None"
    and "reaches env cl u ip" and "no_system_proxy env"
  shows "is_private_ip ip False = None"
  using assms by (auto simp: reaches_def no_system_proxy_def checked_client ip_of_host_def dest: safe_resolve_public)

lemma redirect_checked:
  assumes "default_client env = Inr cl" and "cl_redirect cl k (pu_str u) = Follow" and "ne_parse env (pu_str u) = Inr u"
  shows "k \<le> MAX_REDIRECTS" and "ip_of_host u = Some ip \<Longrightarrow> is_private_ip ip False = None"
proof -
  from assms(1,2) have *: "k \<le> MAX_REDIRECTS" "validate_url_not_private env (pu_str u) False = Inr ()"
    by (simp_all add: checked_client follow_checked)
  from *(1) show "k \<le> MAX_REDIRECTS" .
  from *(2) assms(3) show "ip_of_host u = Some ip \<Longrightarrow> is_private_ip ip False = None"
    by (auto elim!: validate_checked)
qed

definition public_hops :: "(parsed_url \<times> ip list) list \<Rightarrow> bool" where
  "public_hops hops \<longleftrightarrow> (\<forall>h \<in> set hops. \<forall>ip \<in> set (snd h). \<not> internal_ip ip)"

lemma later_hops:
  assumes "default_client env = Inr cl" and "hops_ok env cl k hops" and "0 < k" and np: "no_system_proxy env"
  shows "public_hops hops \<and> (hops \<noteq> [] \<longrightarrow> k + length hops \<le> Suc MAX_REDIRECTS)"
  using assms(2,3)
proof (induction hops arbitrary: k)
  case (Cons h hops)
  obtain u ips where h: "h = (u, ips)" by (cases h)
  with Cons.prems have ok: "\<forall>ip \<in> set ips. reaches env cl u ip" "ne_parse env (pu_str u) = Inr u"
    "cl_redirect cl k (pu_str u) = Follow" "hops_ok env cl (Suc k) hops" by auto
  note r = redirect_checked [OF assms(1) ok(3,2)]
  have "\<forall>ip \<in> set ips. \<not> internal_ip ip"
    using checked_hop [OF assms(1) _ _ np] r(2) ok(1) filter_exact by blast
  with Cons.IH [OF ok(4)] r(1) h show ?case by (cases hops) (auto simp: public_hops_def)
qed (simp add: public_hops_def)

lemma checked_hops:
  assumes cl: "default_client env = Inr cl" and "request_hops env cl url hops"
    and "validate_url_not_private env url False = Inr ()" and np: "no_system_proxy env"
  shows "public_hops hops \<and> length hops \<le> Suc MAX_REDIRECTS"
proof (cases hops)
  case (Cons h rest)
  obtain u ips where h: "h = (u, ips)" by (cases h)
  with Cons assms(2) have ok: "\<forall>ip \<in> set ips. reaches env cl u ip" "hops_ok env cl (Suc 0) rest" "ne_parse env url = Inr u"
    by (auto simp: request_hops_def)
  from assms(3) ok(3) have "\<And>ip. ip_of_host u = Some ip \<Longrightarrow> is_private_ip ip False = None"
    by (auto elim!: validate_checked)
  then have "\<forall>ip \<in> set ips. \<not> internal_ip ip"
    using checked_hop [OF cl _ _ np] ok(1) filter_exact by blast
  with later_hops [OF cl ok(2) _ np] h Cons show ?thesis by (cases rest) (auto simp: public_hops_def)
qed (simp add: public_hops_def)

section \<open>The HTTP node\<close>

lemma async_check_quiet:
  assumes "quiet_resolver made (ne_lookup env)"
  shows "made (snd (validate_url_not_private_async env url allow w)) = made w"
  using assms
  by (auto simp: validate_url_not_private_async_def bindE_liftR Let_def quiet_resolver_def split: prod.split sum.split option.split)
    (metis snd_conv)+

lemma async_checked:
  "validate_url_not_private_async env url allow w = (Inr (), w') \<Longrightarrow> validate_url_not_private env url allow = Inr ()"
  by (auto simp: validate_url_not_private_async_def bindE_liftR split: sum.splits)

lemma add_headers_url: "add_headers env rq kvs = Inr rq' \<Longrightarrow> rq_url rq' = rq_url rq"
  by (induction env rq kvs rule: add_headers.induct) (auto split: if_splits json.splits)

lemma add_body_url [simp]: "rq_url (add_body env cfg rq) = rq_url rq"
  by (simp add: add_body_def split: option.split json.split)

lemma build_request_url: "build_request env cfg m url = Inr rq \<Longrightarrow> rq_url rq = url"
  by (auto simp: build_request_def bindR_Inr_iff dest!: add_headers_url split: option.splits json.splits)

text \<open>
  C26. Whatever the input of an HTTP node and whatever names resolve to and servers answer, the node contacts no
  internal address, for its URL or for a redirect it follows, in at most eleven requests, provided that the process
  environment names no proxy. Internal are 0/8, 10/8, 100.64/10, 127/8, 169.254/16, 172.16/12, 192.168/16 and
  255.255.255.255, also embedded in IPv6, \<open>::1\<close>, \<open>fc00::/7\<close> and \<open>fe80::/10\<close>; \<open>::\<close> is not among them (see
  \<open>unspecified_v6_passes\<close>).
\<close>

theorem http_node_public:
  assumes "sends_as_documented env made" and np: "no_system_proxy env"
  shows "\<exists>hops. made (snd (http_execute env inp w)) = made w @ hops \<and> length hops \<le> 11 \<and>
    (\<forall>h \<in> set hops. \<forall>ip \<in> set (snd h). \<not> internal_ip ip)"
proof -
  define url where "url = string_val (resolve_config inp) ''url'' []"
  from assms(1) have quiet: "quiet_resolver made (ne_lookup env)" by (simp add: sends_as_documented_def)
  have none: ?thesis if "made (snd (http_execute env inp w)) = made w" using that by (intro exI [of _ "[]"]) simp
  obtain r w1 where check: "validate_url_not_private_async env url False w = (r, w1)" by fastforce
  with async_check_quiet [OF quiet, of url False w] have w1: "made w1 = made w" by simp
  show ?thesis
  proof (cases "\<exists>m cl rq. r = Inr () \<and> url \<noteq> [] \<and> ne_method env (string_val (resolve_config inp) ''method'' ''GET'') = Inr m \<and>
      default_client env = Inr cl \<and> build_request env (resolve_config inp) m url = Inr rq")
    case False
    have "made (snd (http_execute env inp w)) = made w"
      using False check w1
      by (simp add: http_execute_def Let_def bindE_liftR bindE_def [of "validate_url_not_private_async _ _ _"] rejectR_def
          flip: url_def split: sum.split) blast
    then show ?thesis by (rule none)
  next
    case True
    then obtain m cl rq where t: "r = Inr ()" "url \<noteq> []" "ne_method env (string_val (resolve_config inp) ''method'' ''GET'') = Inr m"
      "default_client env = Inr cl" "build_request env (resolve_config inp) m url = Inr rq" by blast
    from t(4) have "quiet_resolver made (cl_resolve cl)" using safe_resolve_quiet [OF quiet] by (simp add: checked_client)
    with assms(1) obtain hops where h: "made (snd (ne_send env cl rq w1)) = made w1 @ hops" "request_hops env cl (rq_url rq) hops"
      unfolding sends_as_documented_def by blast
    have "made (snd (http_execute env inp w)) = made w @ hops"
      using t check w1 h(1)
      by (auto simp: http_execute_def Let_def act_simps rejectR_def simp flip: url_def split: sum.split prod.split)
    moreover from check t(1) have "validate_url_not_private env url False = Inr ()" by (auto dest: async_checked)
    with checked_hops [OF t(4) _ _ np] h(2) build_request_url [OF t(5)]
    have "public_hops hops \<and> length hops \<le> Suc MAX_REDIRECTS" by simp
    ultimately show ?thesis by (auto simp: public_hops_def MAX_REDIRECTS_def)
  qed
qed

text \<open>A body that is accepted is the whole answer and at most as long as the cap.\<close>

lemma read_chunks_Inr:
  "cap < 2 ^ 64 - 1 \<Longrightarrow> length body \<le> cap \<Longrightarrow> read_chunks cap body chunks = Inr b \<longleftrightarrow>
     (\<forall>c \<in> set chunks. \<not> isl c) \<and> b = body @ concat (map projr chunks) \<and> length b \<le> cap"
proof (induction cap body chunks rule: read_chunks.induct)
  case (3 cap body chunk rest)
  show ?case
  proof (cases "length body + length chunk \<le> cap")
    case True
    with 3 show ?thesis by (simp add: Let_def)
  next
    case False
    with 3 show ?thesis by (auto simp: Let_def)
  qed
qed auto

section \<open>A network\<close>

text \<open>
  A client on a small network: names and servers are tables, the world is what was contacted. It keeps what the
  client documents, whatever the tables say.
\<close>

datatype sim_answer = Answer http_response | Redirect string

record sim_net =
  sn_parse :: "string \<Rightarrow> string + parsed_url"
  sn_names :: "string \<Rightarrow> ip list option"
  sn_serve :: "string \<Rightarrow> sim_answer"

type_synonym sim_world = "(parsed_url \<times> ip list) list"

definition redirect_response :: http_response where
  "redirect_response = \<lparr>rs_status = 302, rs_reason = Some ''Found'', rs_headers = [], rs_content_length = None, rs_chunks = []\<rparr>"

fun sim_go :: "sim_net \<Rightarrow> nat \<Rightarrow> sim_world client \<Rightarrow> nat \<Rightarrow> parsed_url \<Rightarrow> sim_world \<Rightarrow> (string + http_response) \<times> sim_world" where
  "sim_go net 0 cl k u w = (Inl ''too many redirects'', w)"
| "sim_go net (Suc n) cl k u w =
     (case (case pu_host u of
         None \<Rightarrow> None
       | Some (HostIp ip) \<Rightarrow> Some [ip]
       | Some (HostDomain d) \<Rightarrow> (case cl_resolve cl d w of (Inr as, _) \<Rightarrow> Some as | _ \<Rightarrow> None)) of
        None \<Rightarrow> (Inl ''no address'', w)
      | Some ips \<Rightarrow>
          let w' = w @ [(u, ips)] in
          (case sn_serve net (pu_str u) of
             Answer r \<Rightarrow> (Inr r, w')
           | Redirect t \<Rightarrow>
               (case sn_parse net t of
                  Inl e \<Rightarrow> (Inl e, w')
                | Inr u' \<Rightarrow>
                    if sn_parse net (pu_str u') \<noteq> Inr u' then (Inl ''bad location'', w')
                    else (case cl_redirect cl (Suc k) (pu_str u') of
                      Follow \<Rightarrow> sim_go net n cl (Suc k) u' w'
                    | Stop \<Rightarrow> (Inr redirect_response, w')
                    | RedirectError e \<Rightarrow> (Inl e, w')))))"

definition sim_env :: "sim_net \<Rightarrow> sim_world net_env" where
  "sim_env net =
     \<lparr>ne_parse = sn_parse net,
      ne_lookup = (\<lambda>name w. (case sn_names net (takeWhile (\<lambda>c. c \<noteq> CHR '':'') name) of Some as \<Rightarrow> Inr as | None \<Rightarrow> Inl ''not found'', w)),
      ne_proxy = (\<lambda>_. None),
      ne_send = (\<lambda>cl rq w. case sn_parse net (rq_url rq) of Inl e \<Rightarrow> (Inl e, w) | Inr u \<Rightarrow> sim_go net 20 cl 0 u w),
      ne_build_error = None, ne_method = Inr, ne_lowercase = id, ne_json_str = (\<lambda>_. []),
      ne_json_parse = (\<lambda>_. Inl []), ne_utf8_lossy = id\<rparr>"

lemma sim_env_simps [simp]:
  "ne_parse (sim_env net) = sn_parse net" "ne_proxy (sim_env net) u = None" "ne_method (sim_env net) = Inr" "ne_build_error (sim_env net) = None"
  "ne_lowercase (sim_env net) = id" "ne_json_str (sim_env net) = (\<lambda>_. [])" "ne_utf8_lossy (sim_env net) = id"
  "ne_lookup (sim_env net) = (\<lambda>name w. (case sn_names net (takeWhile (\<lambda>c. c \<noteq> CHR '':'') name) of Some as \<Rightarrow> Inr as | None \<Rightarrow> Inl ''not found'', w))"
  "ne_send (sim_env net) cl rq w = (case sn_parse net (rq_url rq) of Inl e \<Rightarrow> (Inl e, w) | Inr u \<Rightarrow> sim_go net 20 cl 0 u w)"
  by (simp_all add: sim_env_def)

lemma sim_go_hops:
  "0 < k \<longrightarrow> sn_parse net (pu_str u) = Inr u \<and> cl_redirect cl k (pu_str u) = Follow \<Longrightarrow>
   \<exists>hops. snd (sim_go net n cl k u w) = w @ hops \<and> hops_ok (sim_env net) cl k hops \<and> (hops \<noteq> [] \<longrightarrow> fst (hd hops) = u)"
proof (induction n arbitrary: k u w)
  case (Suc n)
  define ips where "ips = (case pu_host u of
         None \<Rightarrow> None
       | Some (HostIp ip) \<Rightarrow> Some [ip]
       | Some (HostDomain d) \<Rightarrow> (case cl_resolve cl d w of (Inr as, _) \<Rightarrow> Some as | _ \<Rightarrow> None))"
  show ?case
  proof (cases ips)
    case None
    then show ?thesis by (auto simp flip: ips_def)
  next
    case (Some as)
    have r: "\<forall>ip \<in> set as. reaches (sim_env net) cl u ip"
      using Some by (auto simp: ips_def reaches_def split: option.splits url_host.splits prod.splits sum.splits)
    have one: "hops_ok (sim_env net) cl k [(u, as)]" using r Suc.prems by simp
    show ?thesis
    proof (cases "\<exists>t u'. sn_serve net (pu_str u) = Redirect t \<and> sn_parse net t = Inr u' \<and> sn_parse net (pu_str u') = Inr u' \<and>
        cl_redirect cl (Suc k) (pu_str u') = Follow")
      case True
      then obtain t u' where t: "sn_serve net (pu_str u) = Redirect t" "sn_parse net t = Inr u'" "sn_parse net (pu_str u') = Inr u'"
        "cl_redirect cl (Suc k) (pu_str u') = Follow" by blast
      from Suc.IH [of "Suc k" u' "w @ [(u, as)]"] t obtain hops where
        "snd (sim_go net n cl (Suc k) u' (w @ [(u, as)])) = (w @ [(u, as)]) @ hops" "hops_ok (sim_env net) cl (Suc k) hops" by auto
      with t Some one show ?thesis by (intro exI [of _ "(u, as) # hops"]) (simp add: Let_def flip: ips_def)
    next
      case False
      with Some one show ?thesis
        by (intro exI [of _ "[(u, as)]"]) (auto simp: Let_def simp flip: ips_def split: sim_answer.split sum.split redirect_action.split)
    qed
  qed
qed simp

lemma sim_unproxied: "no_system_proxy (sim_env net)"
  by (simp add: no_system_proxy_def)

lemma sim_documented: "sends_as_documented (sim_env net) id"
  unfolding sends_as_documented_def
proof (intro conjI allI impI)
  fix cl rq and w :: sim_world
  show "\<exists>hops. id (snd (ne_send (sim_env net) cl rq w)) = id w @ hops \<and> request_hops (sim_env net) cl (rq_url rq) hops"
  proof (cases "sn_parse net (rq_url rq)")
    case (Inr u)
    with sim_go_hops [of 0 net u cl 20 w] show ?thesis by (auto simp: request_hops_def)
  qed (simp add: request_hops_def)
qed (simp add: quiet_resolver_def)

text \<open>A public server that redirects to the metadata service of the cloud.\<close>

definition public_url :: parsed_url where
  "public_url = \<lparr>pu_str = ''https://api/'', pu_scheme = ''https'', pu_host_str = Some ''api'', pu_host = Some (HostDomain ''api''),
     pu_port = None, pu_known_port = Some 443\<rparr>"

definition metadata_url :: parsed_url where
  "metadata_url = \<lparr>pu_str = ''http://169.254.169.254/'', pu_scheme = ''http'', pu_host_str = Some ''169.254.169.254'',
     pu_host = Some (HostIp (V4 169 254 169 254)), pu_port = None, pu_known_port = Some 80\<rparr>"

definition sly_net :: sim_net where
  "sly_net = \<lparr>sn_parse = (\<lambda>s. if s = ''https://api/'' then Inr public_url
       else if s = ''http://169.254.169.254/'' then Inr metadata_url else Inl ''relative URL without a base''),
     sn_names = (\<lambda>n. if n = ''api'' then Some [V4 8 8 8 8] else None),
     sn_serve = (\<lambda>s. if s = ''https://api/'' then Redirect ''http://169.254.169.254/''
       else Answer \<lparr>rs_status = 200, rs_reason = Some ''OK'', rs_headers = [], rs_content_length = None, rs_chunks = [Inr ''secret'']\<rparr>)\<rparr>"

lemmas sly_defs = public_url_def metadata_url_def sly_net_def

definition get_api :: node_input where
  "get_api = \<lparr>ni_instance_id = ''i'', ni_node_id = ''n'', ni_plugin_ref = ''builtin:http'', ni_config = None,
     ni_input = Some (fmap_of_list [(''url'', JString ''https://api/'')]), ni_parameters = None, ni_capabilities = None, ni_attempt = 1\<rparr>"

lemma get_api_config [simp]:
  "fmlookup (resolve_config get_api) k = (if k = ''url'' then Some (JString ''https://api/'') else None)"
  by (simp add: resolve_config_lookup get_api_def fmlookup_of_list)

theorem http_node_public_witness:
  "\<exists>e. http_execute (sim_env sly_net) get_api [] = (Inl (Internal (''http node: request failed: '' @ e)), [(public_url, [V4 8 8 8 8])]) \<and>
    (\<exists>hops. snd (http_execute (sim_env sly_net) get_api []) = hops \<and> length hops \<le> 11 \<and>
      (\<forall>h \<in> set hops. \<forall>ip \<in> set (snd h). \<not> internal_ip ip))"
proof -
  have p: "is_private_ip (V4 8 8 8 8) False = None" "is_private_ip (V4 169 254 169 254) False = Some ''link-local address''"
    by (simp_all add: is_private_ip_def normalize_ip_def v4_is_private_def)
  have v: "validate_url_not_private (sim_env sly_net) ''https://api/'' False = Inr ()"
    "\<exists>e. validate_url_not_private (sim_env sly_net) ''http://169.254.169.254/'' False = Inl e"
    by (simp_all add: validate_url_not_private_def parse_checked_def sly_defs ALLOWED_SCHEMES_def BLOCKED_HOSTNAMES_def
        host_nonempty_def or_config_error_def ip_of_host_def rejectR_def Let_def)
  then obtain e where e: "validate_url_not_private (sim_env sly_net) ''http://169.254.169.254/'' False = Inl e" by blast
  have a: "validate_url_not_private_async (sim_env sly_net) ''https://api/'' False [] = (Inr (), [])"
    using p v(1) by (simp add: validate_url_not_private_async_def bindE_liftR parse_checked_def sly_defs host_nonempty_def or_config_error_def
        ip_of_host_def Let_def)
  have rq: "build_request (sim_env sly_net) (resolve_config get_api) ''GET'' ''https://api/'' =
      Inr \<lparr>rq_method = ''GET'', rq_url = ''https://api/'', rq_headers = [(''Accept'', ''*/*'')], rq_body = None\<rparr>"
    by (simp add: build_request_def add_body_def)
  have "\<exists>e. ne_send (sim_env sly_net) \<lparr>cl_resolve = safe_resolve (sim_env sly_net) False, cl_redirect = ssrf_redirect_policy (sim_env sly_net)\<rparr>
      \<lparr>rq_method = ''GET'', rq_url = ''https://api/'', rq_headers = [(''Accept'', ''*/*'')], rq_body = None\<rparr> [] =
      (Inl e, [(public_url, [V4 8 8 8 8])])"
    using e p by (simp add: safe_resolve_def sly_defs ssrf_redirect_policy_def MAX_REDIRECTS_def Let_def numeral_eq_Suc)
  then obtain f where f: "ne_send (sim_env sly_net) \<lparr>cl_resolve = safe_resolve (sim_env sly_net) False, cl_redirect = ssrf_redirect_policy (sim_env sly_net)\<rparr>
      \<lparr>rq_method = ''GET'', rq_url = ''https://api/'', rq_headers = [(''Accept'', ''*/*'')], rq_body = None\<rparr> [] =
      (Inl f, [(public_url, [V4 8 8 8 8])])" by blast
  have "http_execute (sim_env sly_net) get_api [] = (Inl (Internal (''http node: request failed: '' @ f)), [(public_url, [V4 8 8 8 8])])"
    using a rq f by (simp add: http_execute_def Let_def act_simps rejectR_def string_val_def default_client_def del: sim_env_simps(9))
  with http_node_public [OF sim_documented sim_unproxied, of sly_net get_api "[]"] show ?thesis by auto
qed

end
