(* ===== verification/Outbound.thy ===== *)
theory Outbound
  imports Egress Credentials
begin

text \<open>
  The other clients: the credential proxy of the worker (\<open>crates/orbflow-worker/src/credential_proxy.rs\<close>), the mail
  node (\<open>email.rs\<close>), the MCP client (\<open>crates/orbflow-mcp\<close>) and the node that calls it (\<open>mcp_tool.rs\<close>), and the
  connection descriptor of \<open>capability_postgres.rs\<close>. The mail library lettre and serde's parsing are parameters.
\<close>

section \<open>The credential proxy\<close>

record capability_request =
  cq_url :: string
  cq_method :: string
  cq_headers :: "(string, string) fmap"
  cq_body :: "json option"
  cq_credential_id :: string

record capability_response =
  cs_status_code :: nat
  cs_headers :: "(string, string) fmap"
  cs_body :: "json option"
  cs_error :: "string option"

record 'w proxy_env =
  px_net :: "'w net_env"
  px_parse_ip :: "string \<Rightarrow> ip option"
  px_base64 :: "string \<Rightarrow> string"
  px_from_utf8 :: "string \<Rightarrow> string option"
  px_get_credential :: "string \<Rightarrow> ('w, credential) act"

definition lookup_public :: "'w net_env \<Rightarrow> string \<Rightarrow> nat \<Rightarrow> ('w, unit) act" where
  "lookup_public env host port w =
     (case ne_lookup env (host @ '':'' @ nat_str port) w of
        (Inl _, w') \<Rightarrow> (Inl (InvalidNodeConfig (''credential proxy URL hostname '' @ sq host @ '' could not be resolved'')), w')
      | (Inr addrs, w') \<Rightarrow>
          (case first_private False addrs of
             Some (a, reason) \<Rightarrow>
               (Inl (InvalidNodeConfig (''credential proxy URL hostname '' @ sq host @ '' resolves to '' @ reason @ '' ('' @ ip_str a @ '')'')), w')
           | None \<Rightarrow>
               if addrs = [] then (Inl (InvalidNodeConfig (''credential proxy URL hostname '' @ sq host @ '' resolved no addresses'')), w')
               else (Inr (), w')))"

definition validate_proxy_url :: "'w proxy_env \<Rightarrow> string \<Rightarrow> ('w, parsed_url) act" where
  "validate_proxy_url env url =
     (let net = px_net env in
      bindE (liftR (case ne_parse net url of
          Inl e \<Rightarrow> Inl (InvalidNodeConfig (''invalid proxy URL: '' @ e)) | Inr u \<Rightarrow> Inr u)) (\<lambda>parsed.
      bindE (liftR (rejectR (pu_scheme parsed \<noteq> ''https'') (InvalidNodeConfig ''credential proxy only allows HTTPS URLs''))) (\<lambda>_.
      bindE (liftR (or_config_error (host_nonempty parsed) ''proxy URL has no host'')) (\<lambda>host.
      let host_lower = map ascii_lower host in
      bindE (liftR (rejectR (host_lower = ''localhost'' \<or> host_lower \<in> set BLOCKED_HOSTNAMES)
        (InvalidNodeConfig (''credential proxy blocked request to internal host: '' @ host)))) (\<lambda>_.
        (case px_parse_ip env host of
           Some ip \<Rightarrow>
             (case is_private_ip ip False of
                Some reason \<Rightarrow> raise (InvalidNodeConfig (''credential proxy blocked request to '' @ reason @ '': '' @ host))
              | None \<Rightarrow> ret parsed)
         | None \<Rightarrow>
             bindE (liftR (or_config_error (pu_known_port parsed) ''proxy URL has no port'')) (\<lambda>port.
             bindE (lookup_public net host port) (\<lambda>_. ret parsed))))))))"

definition data_str :: "credential \<Rightarrow> string \<Rightarrow> string option" where
  "data_str cred k = Option.bind (fmlookup (cd_data cred) k) json_as_str"

text \<open>The header the proxy adds: a key or a token as bearer, or a user with a password.\<close>

definition auth_header :: "'w proxy_env \<Rightarrow> credential \<Rightarrow> (string \<times> string) list" where
  "auth_header env cred = (case data_str cred ''api_key'' of
       Some key \<Rightarrow> [(''Authorization'', ''Bearer '' @ key)]
     | None \<Rightarrow> (case data_str cred ''token'' of
         Some token \<Rightarrow> [(''Authorization'', ''Bearer '' @ token)]
       | None \<Rightarrow> (case data_str cred ''username'' of
           Some user \<Rightarrow>
             let pass = (case data_str cred ''password'' of Some p \<Rightarrow> p | None \<Rightarrow> []) in
             [(''Authorization'', ''Basic '' @ px_base64 env (user @ '':'' @ pass))]
         | None \<Rightarrow> [])))"

definition with_json :: "'w net_env \<Rightarrow> json option \<Rightarrow> http_request \<Rightarrow> http_request" where
  "with_json net body rq = (case body of
       None \<Rightarrow> rq
     | Some b \<Rightarrow> rq\<lparr>rq_headers := (if list_ex (\<lambda>(k, _). eq_ignore_ascii_case k ''content-type'') (rq_headers rq) then rq_headers rq
           else rq_headers rq @ [(''Content-Type'', ''application/json'')]), rq_body := Some (ne_json_str net b)\<rparr>)"

definition response_bytes :: "http_response \<Rightarrow> string option" where
  "response_bytes r = (if list_all (\<lambda>c. \<not> isl c) (rs_chunks r) then Some (concat (map projr (rs_chunks r))) else None)"

definition visible_header :: "'w net_env \<Rightarrow> string \<Rightarrow> bool" where
  "visible_header net k =
     (let name = ne_lowercase net k in name \<noteq> ''authorization'' \<and> name \<noteq> ''set-cookie'' \<and> \<not> starts_with ''x-api-key'' name)"

definition capability_answer :: "'w proxy_env \<Rightarrow> http_response \<Rightarrow> capability_response" where
  "capability_answer env r =
     (let body_bytes = (case response_bytes r of Some b \<Rightarrow> b | None \<Rightarrow> []) in
      \<lparr>cs_status_code = rs_status r,
       cs_headers = fold (\<lambda>(k, v) m. case v of Some s \<Rightarrow> fmupd k s m | None \<Rightarrow> m)
         (filter (\<lambda>(k, _). visible_header (px_net env) k) (rs_headers r)) fmempty,
       cs_body = (case ne_json_parse (px_net env) body_bytes of
           Inr v \<Rightarrow> Some v | Inl _ \<Rightarrow> map_option JString (px_from_utf8 env body_bytes)),
       cs_error = None\<rparr>)"

definition host_of_url :: "'w net_env \<Rightarrow> string \<Rightarrow> string option" where
  "host_of_url net s = (case ne_parse net s of Inr u \<Rightarrow> pu_host_str u | Inl _ \<Rightarrow> None)"

definition proxy_request :: "'w proxy_env \<Rightarrow> capability_request \<Rightarrow> credential \<Rightarrow> parsed_url \<Rightarrow> string \<Rightarrow> http_request" where
  "proxy_request env req cred url meth = with_json (px_net env) (cq_body req)
     \<lparr>rq_method = meth, rq_url = pu_str url, rq_headers = fm_items (cq_headers req) @ auth_header env cred, rq_body = None\<rparr>"

text \<open>\<open>CredentialProxy::new\<close> takes \<open>reqwest::Client::new()\<close>: the system's resolver, and up to ten redirects followed
  wherever they lead.\<close>

definition proxy_client :: "'w net_env \<Rightarrow> 'w client" where
  "proxy_client env =
     \<lparr>cl_resolve = (\<lambda>name. ne_lookup env (name @ '':0'')),
      cl_redirect = (\<lambda>previous _. if previous > 10 then RedirectError ''too many redirects'' else Follow)\<rparr>"

definition proxy_handle :: "'w proxy_env \<Rightarrow> capability_request \<Rightarrow> ('w, capability_response) act" where
  "proxy_handle env req =
     bindE (validate_proxy_url env (cq_url req)) (\<lambda>validated_url.
     bindE (px_get_credential env (cq_credential_id req)) (\<lambda>cred.
       if (case cd_policy cred of None \<Rightarrow> False
           | Some policy \<Rightarrow> \<not> is_domain_allowed (host_of_url (px_net env)) policy (pu_str validated_url))
       then ret \<lparr>cs_status_code = 403, cs_headers = fmempty, cs_body = None,
              cs_error = Some (''domain not allowed for credential '' @ sq (cd_name cred) @ '': '' @ cq_url req)\<rparr>
       else
         bindE (liftR (case ne_method (px_net env) (cq_method req) of
             Inl e \<Rightarrow> Inl (InvalidNodeConfig (''credential proxy invalid HTTP method '' @ sq (cq_method req) @ '': '' @ e)) | Inr m \<Rightarrow> Inr m)) (\<lambda>meth.
         bindE (\<lambda>w. case ne_send (px_net env) (proxy_client (px_net env)) (proxy_request env req cred validated_url meth) w of
             (Inl e, w') \<Rightarrow> (Inl (Internal (''credential proxy HTTP error: '' @ e)), w') | (Inr r, w') \<Rightarrow> (Inr r, w')) (\<lambda>r.
           ret (capability_answer env r)))))"

section \<open>The mail node\<close>

datatype mail_outcome = MailSent | MailTimeout | MailFailed string

record mail_credentials =
  mc_username :: string
  mc_password :: string

record mail_transport =
  mt_host :: string
  mt_port :: nat
  mt_implicit_tls :: bool
  mt_credentials :: "mail_credentials option"

record 'm mail_parts =
  ml_from :: 'm
  ml_to :: "'m list"
  ml_subject :: string
  ml_html :: bool
  ml_body :: string

record ('w, 'm, 'g) mail_env =
  me_net :: "'w net_env"
  me_default_from :: "string option"
  me_default_host :: "string option"
  me_default_port :: nat
  me_var :: "string \<Rightarrow> string option"
  me_mailbox :: "string \<Rightarrow> string + 'm"
  me_build :: "'m mail_parts \<Rightarrow> string + 'g"
  me_relay_error :: "mail_transport \<Rightarrow> string option"
  me_send :: "mail_transport \<Rightarrow> 'g \<Rightarrow> 'w \<Rightarrow> mail_outcome \<times> 'w"

text \<open>The first value that is not empty.\<close>

fun first_given :: "string list \<Rightarrow> string" where
  "first_given [] = []"
| "first_given (s # ss) = (if s = [] then first_given ss else s)"

definition opt_str :: "string option \<Rightarrow> string" where
  "opt_str s = (case s of Some t \<Rightarrow> t | None \<Rightarrow> [])"

definition mail_port :: "('w, 'm, 'g) mail_env \<Rightarrow> jmap \<Rightarrow> int" where
  "mail_port env cfg =
     (let port = int_val cfg ''port'' 0;
          port = (if port \<le> 0 then int_val cfg ''smtp_port'' (int (me_default_port env)) else port) in
      if port \<le> 0 then 587 else port)"

fun parse_recipients :: "('w, 'm, 'g) mail_env \<Rightarrow> string list \<Rightarrow> 'm list result" where
  "parse_recipients env [] = Inr []"
| "parse_recipients env (r # rs) =
     (if r = [] then parse_recipients env rs
      else (case me_mailbox env r of
        Inl e \<Rightarrow> Inl (InvalidNodeConfig (''email node: invalid recipient address : '' @ e))
      | Inr m \<Rightarrow> bindR (parse_recipients env rs) (\<lambda>ms. Inr (m # ms))))"

definition bad_mail_host :: "string \<Rightarrow> bool" where
  "bad_mail_host host \<longleftrightarrow> CHR 0x40 \<in> set host \<or> CHR 0x23 \<in> set host \<or> CHR 0x3F \<in> set host \<or>
     (CHR 0x5B \<in> set host \<and> \<not> starts_with [CHR 0x5B] host)"

definition email_execute :: "('w, 'm, 'g) mail_env \<Rightarrow> node_input \<Rightarrow> ('w, node_output) act" where
  "email_execute env inp =
     (let cfg = resolve_config inp; to_list = string_val cfg ''to'' []; subject = string_val cfg ''subject'' [];
          body = string_val cfg ''body'' [];
          sender = first_given [string_val cfg ''from'' [], string_val cfg ''from_address'' [], opt_str (me_default_from env),
            opt_str (me_var env ''ORBFLOW_SMTP_FROM'')];
          host = first_given [string_val cfg ''host'' [], string_val cfg ''smtp_host'' [], opt_str (me_default_host env),
            opt_str (me_var env ''ORBFLOW_SMTP_HOST'')];
          port = mail_port env cfg in
      bindE (liftR (rejectR (to_list = [] \<or> subject = [] \<or> body = []) (InvalidNodeConfig ''email node: to, subject, and body are required''))) (\<lambda>_.
      bindE (liftR (rejectR (sender = []) (InvalidNodeConfig
        ''email node: from address is required (set via credential, input, or ORBFLOW_SMTP_FROM)''))) (\<lambda>_.
      bindE (liftR (rejectR (host = []) (InvalidNodeConfig
        ''email node: SMTP host is required (set via credential, input, or ORBFLOW_SMTP_HOST)''))) (\<lambda>_.
      bindE (liftR (rejectR (port > 65535) (InvalidNodeConfig
        (''email node: invalid SMTP port '' @ int_str port @ '' (must be 1'' @ [CHR 0xE2, CHR 0x80, CHR 0x93] @ ''65535)'')))) (\<lambda>_.
      bindE (liftR (rejectR (bad_mail_host host) (InvalidNodeConfig (''email node: SMTP host '' @ sq host @ '' contains invalid characters'')))) (\<lambda>_.
      bindE (catchE (validate_url_not_private_async (me_net env) (''http://'' @ host @ '':'' @ int_str port @ ''/'') False)
        (\<lambda>e. raise (InvalidNodeConfig (''email node: SMTP host '' @ sq host @ '': '' @ error_str e)))) (\<lambda>_.
      let html = (string_val cfg ''content_type'' ''text/plain'' = ''text/html'') in
      bindE (liftR (case me_mailbox env sender of
          Inl e \<Rightarrow> Inl (InvalidNodeConfig (''email node: invalid from address: '' @ e)) | Inr m \<Rightarrow> Inr m)) (\<lambda>from_mailbox.
      bindE (liftR (parse_recipients env (map trim (split_on (CHR 0x2C) to_list)))) (\<lambda>recipients.
      bindE (liftR (case me_build env \<lparr>ml_from = from_mailbox, ml_to = recipients, ml_subject = subject, ml_html = html, ml_body = body\<rparr> of
          Inl e \<Rightarrow> Inl (Internal (''email node: build message: '' @ e)) | Inr g \<Rightarrow> Inr g)) (\<lambda>message.
      let username = string_val cfg ''username'' []; password = string_val cfg ''password'' [];
          transport = \<lparr>mt_host = host, mt_port = nat port, mt_implicit_tls = (port = 465),
            mt_credentials = (if username = [] then None else Some \<lparr>mc_username = username, mc_password = password\<rparr>)\<rparr> in
      bindE (liftR (case me_relay_error env transport of
          Some e \<Rightarrow> Inl (Internal ((if port = 465 then ''email node: SMTP relay: '' else ''email node: SMTP starttls relay: '') @ e))
        | None \<Rightarrow> Inr ())) (\<lambda>_.
      bindE (\<lambda>w. case me_send env transport message w of
          (MailSent, w') \<Rightarrow> (Inr (), w')
        | (MailTimeout, w') \<Rightarrow> (Inl Timeout, w')
        | (MailFailed e, w') \<Rightarrow> (Inl (Internal (''email node: smtp send failed: '' @ e)), w')) (\<lambda>_.
        ret (ok_output [(''sent'', JBool True), (''message'', JString ''Email sent successfully'')])))))))))))))"

section \<open>The connection descriptor\<close>

definition capability_postgres_execute :: "node_input \<Rightarrow> node_output result" where
  "capability_postgres_execute inp =
     (let cfg = resolve_config inp; host = string_val cfg ''host'' ''localhost''; port = int_val cfg ''port'' 5432;
          database = string_val cfg ''database'' []; user = string_val cfg ''user'' [];
          sslmode = string_val cfg ''sslmode'' ''require''; pool_size = int_val cfg ''pool_size'' 10 in
      bindR (rejectR (database = []) (InvalidNodeConfig ''capability-postgres node: database name is required'')) (\<lambda>_.
      bindR (rejectR (user = []) (InvalidNodeConfig ''capability-postgres node: user is required'')) (\<lambda>_.
        Inr (ok_output [(''driver'', JString ''postgres''), (''host'', JString host), (''port'', JNumber (num_of_i64 port)),
          (''database'', JString database), (''user'', JString user), (''sslmode'', JString sslmode),
          (''pool_size'', JNumber (num_of_i64 pool_size))]))))"

end
