(* ===== verification/Mcp.thy ===== *)
theory Mcp
  imports Egress
begin

text \<open>
  The MCP client, \<open>crates/orbflow-mcp\<close> (\<open>schema.rs\<close>, \<open>transport.rs\<close>, \<open>client.rs\<close>), and the node that calls a
  tool of an MCP server, \<open>crates/orbflow-builtins/src/mcp_tool.rs\<close>. serde's derived parsing of an answer and of
  its parts is a parameter (\<open>mcp_env\<close>); what is sent is built here.
\<close>

section \<open>Messages\<close>

record rpc_request =
  jr_jsonrpc :: string
  jr_id :: json
  jr_method :: string
  jr_params :: "json option"

record rpc_error =
  je_code :: int
  je_message :: string
  je_data :: "json option"

record rpc_response =
  jp_jsonrpc :: string
  jp_id :: json
  jp_result :: "json option"
  jp_error :: "rpc_error option"

record mcp_tool =
  mt_name :: string
  mt_description :: "string option"
  mt_input_schema :: json

datatype mcp_content = McpText string | McpImage string string

record mcp_tool_result =
  mr_content :: "mcp_content list"
  mr_is_error :: bool

record 'w mcp_env =
  mv_net :: "'w net_env"
  mv_parse_response :: "string \<Rightarrow> string + rpc_response"
  mv_parse_result :: "json \<Rightarrow> string + mcp_tool_result"
  mv_parse_tools :: "json \<Rightarrow> (mcp_tool list) option"
  mv_version :: string

definition rpc_request_new :: "string \<Rightarrow> json option \<Rightarrow> rpc_request" where
  "rpc_request_new meth params =
     \<lparr>jr_jsonrpc = ''2.0'', jr_id = JNumber (num_of_i64 1), jr_method = meth, jr_params = params\<rparr>"

definition with_id :: "rpc_request \<Rightarrow> nat \<Rightarrow> rpc_request" where
  "with_id rq i = rq\<lparr>jr_id := JNumber (num_of_u64 i)\<rparr>"

definition rpc_json :: "rpc_request \<Rightarrow> json" where
  "rpc_json rq = JObject (make_output
     ([(''jsonrpc'', JString (jr_jsonrpc rq)), (''id'', jr_id rq), (''method'', JString (jr_method rq))] @
      (case jr_params rq of Some p \<Rightarrow> [(''params'', p)] | None \<Rightarrow> [])))"

definition initialize_params :: "string \<Rightarrow> json" where
  "initialize_params version = JObject (make_output
     [(''protocolVersion'', JString ''2024-11-05''), (''capabilities'', JObject fmempty),
      (''clientInfo'', JObject (make_output [(''name'', JString ''orbflow''), (''version'', JString version)]))])"

definition tool_call_params :: "string \<Rightarrow> jmap \<Rightarrow> json" where
  "tool_call_params name arguments = JObject (make_output [(''name'', JString name), (''arguments'', JObject arguments)])"

definition initialized_request :: rpc_request where
  "initialized_request = \<lparr>jr_jsonrpc = ''2.0'', jr_id = JNull, jr_method = ''notifications/initialized'', jr_params = None\<rparr>"

definition content_json :: "mcp_content \<Rightarrow> json" where
  "content_json c = JObject (make_output (case c of
       McpText text \<Rightarrow> [(''type'', JString ''text''), (''text'', JString text)]
     | McpImage dat mime \<Rightarrow> [(''type'', JString ''image''), (''data'', JString dat), (''mimeType'', JString mime)]))"

section \<open>Transport\<close>

datatype localhost_policy = Deny | AllowForDev

definition allow_localhost :: "localhost_policy \<Rightarrow> bool" where
  "allow_localhost p = (p = AllowForDev)"

definition trim_end_char :: "char \<Rightarrow> string \<Rightarrow> string" where
  "trim_end_char c s = rev (dropWhile (\<lambda>d. d = c) (rev s))"

definition mcp_resolve :: "'w net_env \<Rightarrow> localhost_policy \<Rightarrow> 'w resolver" where
  "mcp_resolve env policy name =
     safe_resolve env (allow_localhost policy \<and> eq_ignore_ascii_case (trim_end_char (CHR ''.'') name) ''localhost'') name"

definition shared_mcp_client :: "'w net_env \<Rightarrow> localhost_policy \<Rightarrow> 'w client result" where
  "shared_mcp_client env policy = (case ne_build_error env of
       Some e \<Rightarrow> Inl (InvalidNodeConfig (''failed to build MCP HTTP client: '' @ e))
     | None \<Rightarrow> Inr \<lparr>cl_resolve = mcp_resolve env policy, cl_redirect = (\<lambda>_ _. Stop)\<rparr>)"

definition validate_mcp_transport_url :: "'w net_env \<Rightarrow> string \<Rightarrow> localhost_policy \<Rightarrow> unit result" where
  "validate_mcp_transport_url env url_str policy =
     bindR (case ne_parse env url_str of Inl _ \<Rightarrow> Inl (InvalidNodeConfig (''invalid MCP URL: '' @ url_str)) | Inr u \<Rightarrow> Inr u) (\<lambda>u.
     bindR (rejectR (pu_scheme u \<notin> set ALLOWED_SCHEMES) (InvalidNodeConfig
       (''MCP URL scheme '' @ sq (pu_scheme u) @ '' is not allowed (only http and https)''))) (\<lambda>_.
     bindR (or_config_error (host_nonempty u) (''MCP URL has no host: '' @ url_str)) (\<lambda>host.
     let lower = ne_lowercase env host in
     bindR (rejectR (lower \<in> set BLOCKED_HOSTNAMES) (InvalidNodeConfig ''MCP server URL points to cloud metadata endpoint'')) (\<lambda>_.
     let ip = ip_of_host u;
         is_loopback_target = (lower = ''localhost'' \<or> (case ip of Some a \<Rightarrow> is_loopback a | None \<Rightarrow> False)) in
     bindR (rejectR (is_loopback_target \<and> \<not> allow_localhost policy) (InvalidNodeConfig
       ''MCP server URL points to localhost; enable MCP localhost dev mode to allow it'')) (\<lambda>_.
     bindR (rejectR (pu_scheme u = ''http'' \<and> \<not> (allow_localhost policy \<and> is_loopback_target)) (InvalidNodeConfig
       ''MCP server URL must use HTTPS unless MCP localhost dev mode is enabled'')) (\<lambda>_.
       (case ip of
          None \<Rightarrow> Inr ()
        | Some a \<Rightarrow> (case is_private_ip a (allow_localhost policy) of
            None \<Rightarrow> Inr ()
          | Some reason \<Rightarrow> Inl (InvalidNodeConfig (''MCP server URL points to '' @ reason @ '': '' @ host))))))))))"

record 'w transport =
  tp_client :: "'w client"
  tp_base_url :: string

definition new_with_localhost_policy :: "'w net_env \<Rightarrow> string \<Rightarrow> localhost_policy \<Rightarrow> 'w transport result" where
  "new_with_localhost_policy env base_url policy =
     bindR (validate_mcp_transport_url env base_url policy) (\<lambda>_.
     bindR (shared_mcp_client env policy) (\<lambda>client. Inr \<lparr>tp_client = client, tp_base_url = base_url\<rparr>))"

definition chunks_bytes :: "http_response \<Rightarrow> string + string" where
  "chunks_bytes r = (case List.find isl (rs_chunks r) of Some (Inl e) \<Rightarrow> Inl e | _ \<Rightarrow> Inr (concat (map projr (rs_chunks r))))"

definition is_success :: "nat \<Rightarrow> bool" where
  "is_success status \<longleftrightarrow> 200 \<le> status \<and> status < 300"

text \<open>
  \<open>HttpTransport::send\<close>. The text of a failed answer is only logged, cut at byte 512: \<open>None\<close> is the panic when that
  is inside a character.
\<close>

definition transport_send :: "'w mcp_env \<Rightarrow> 'w transport \<Rightarrow> rpc_request \<Rightarrow> 'w \<Rightarrow> (rpc_response result option) \<times> 'w" where
  "transport_send env tp rq w =
     (case ne_send (mv_net env) (tp_client tp)
         \<lparr>rq_method = ''POST'', rq_url = tp_base_url tp, rq_headers = [(''Content-Type'', ''application/json'')],
          rq_body = Some (ne_json_str (mv_net env) (rpc_json rq))\<rparr> w of
        (Inl e, w') \<Rightarrow> (Some (Inl (Internal (''MCP transport error: '' @ e))), w')
      | (Inr r, w') \<Rightarrow>
          if \<not> is_success (rs_status r) then
            let body = (case chunks_bytes r of Inr b \<Rightarrow> ne_utf8_lossy (mv_net env) b | Inl _ \<Rightarrow> []) in
            if length body > 512 \<and> \<not> char_boundary body 512 then (None, w')
            else (Some (Inl (Internal ''MCP server request failed'')), w')
          else
            (case (case chunks_bytes r of Inl e \<Rightarrow> Inl e | Inr b \<Rightarrow> mv_parse_response env b) of
               Inl e \<Rightarrow> (Some (Inl (Internal (''MCP response parse error: '' @ e))), w')
             | Inr resp \<Rightarrow> (Some (Inr resp), w')))"

section \<open>The client\<close>

text \<open>A computation that may panic.\<close>

type_synonym ('w, 'a) pact = "'w \<Rightarrow> 'a result option \<times> 'w"

definition bindP :: "('w, 'a) pact \<Rightarrow> ('a \<Rightarrow> ('w, 'b) pact) \<Rightarrow> ('w, 'b) pact" where
  "bindP m f w = (case m w of
       (None, w') \<Rightarrow> (None, w') | (Some (Inl e), w') \<Rightarrow> (Some (Inl e), w') | (Some (Inr x), w') \<Rightarrow> f x w')"

definition liftP :: "'a result \<Rightarrow> ('w, 'a) pact" where
  "liftP r w = (Some r, w)"

text \<open>\<open>let _ = m\<close>: the result is dropped, a panic is not.\<close>

definition dropP :: "('w, 'a) pact \<Rightarrow> ('w, unit) pact" where
  "dropP m w = (case m w of (None, w') \<Rightarrow> (None, w') | (Some _, w') \<Rightarrow> (Some (Inr ()), w'))"

definition rpc_result :: "string \<Rightarrow> rpc_response \<Rightarrow> json result" where
  "rpc_result what resp = (case jp_error resp of
       Some err \<Rightarrow> Inl (Internal (what @ '' failed: '' @ je_message err))
     | None \<Rightarrow> Inr (case jp_result resp of Some v \<Rightarrow> v | None \<Rightarrow> JNull))"

record 'w mcp_client =
  mc_transport :: "'w transport"
  mc_request_id :: "64 word"
  mc_initialized :: bool

definition mcp_client_new :: "'w net_env \<Rightarrow> string \<Rightarrow> 'w mcp_client result" where
  "mcp_client_new env server_url =
     bindR (new_with_localhost_policy env server_url Deny) (\<lambda>tp.
       Inr \<lparr>mc_transport = tp, mc_request_id = 1, mc_initialized = False\<rparr>)"

definition next_id :: "'w mcp_client \<Rightarrow> nat \<times> 'w mcp_client" where
  "next_id c = (unat (mc_request_id c), c\<lparr>mc_request_id := mc_request_id c + 1\<rparr>)"

text \<open>A method of the client answers with the client after it, also when it fails.\<close>

definition mcp_initialize :: "'w mcp_env \<Rightarrow> 'w mcp_client \<Rightarrow> 'w \<Rightarrow> json result option \<times> 'w mcp_client \<times> 'w" where
  "mcp_initialize env c w =
     (case next_id c of (i, c1) \<Rightarrow>
      (case bindP (transport_send env (mc_transport c) (with_id (rpc_request_new ''initialize'' (Some (initialize_params (mv_version env)))) i))
            (\<lambda>resp. bindP (liftP (rpc_result ''MCP initialize'' resp)) (\<lambda>v.
             bindP (dropP (transport_send env (mc_transport c) initialized_request)) (\<lambda>_. liftP (Inr v)))) w of
         (r, w') \<Rightarrow> (r, (case r of Some (Inr _) \<Rightarrow> c1\<lparr>mc_initialized := True\<rparr> | _ \<Rightarrow> c1), w')))"

definition mcp_list_tools :: "'w mcp_env \<Rightarrow> 'w mcp_client \<Rightarrow> 'w \<Rightarrow> (mcp_tool list) result option \<times> 'w mcp_client \<times> 'w" where
  "mcp_list_tools env c w =
     (case next_id c of (i, c1) \<Rightarrow>
      (case bindP (transport_send env (mc_transport c) (with_id (rpc_request_new ''tools/list'' None) i))
            (\<lambda>resp. bindP (liftP (rpc_result ''MCP tools/list'' resp)) (\<lambda>v.
             liftP (Inr (case Option.bind (json_get v ''tools'') (mv_parse_tools env) of Some ts \<Rightarrow> ts | None \<Rightarrow> [])))) w of
         (r, w') \<Rightarrow> (r, c1, w')))"

definition call_tool_request :: "'w mcp_env \<Rightarrow> 'w transport \<Rightarrow> string \<Rightarrow> jmap \<Rightarrow> nat \<Rightarrow> ('w, mcp_tool_result) pact" where
  "call_tool_request env tp name arguments i =
     bindP (transport_send env tp (with_id (rpc_request_new ''tools/call'' (Some (tool_call_params name arguments))) i)) (\<lambda>resp.
     bindP (liftP (rpc_result (''MCP tools/call '' @ sq name) resp)) (\<lambda>v.
     liftP (case mv_parse_result env v of Inl e \<Rightarrow> Inl (Internal (''MCP result parse error: '' @ e)) | Inr r \<Rightarrow> Inr r)))"

definition mcp_call_tool :: "'w mcp_env \<Rightarrow> 'w mcp_client \<Rightarrow> string \<Rightarrow> jmap \<Rightarrow> 'w \<Rightarrow> mcp_tool_result result option \<times> 'w mcp_client \<times> 'w" where
  "mcp_call_tool env c name arguments w =
     (case next_id c of (i, c1) \<Rightarrow>
      (case call_tool_request env (mc_transport c) name arguments i w of (r, w') \<Rightarrow> (r, c1, w')))"

section \<open>The node\<close>

definition validate_mcp_url :: "'w net_env \<Rightarrow> string \<Rightarrow> localhost_policy \<Rightarrow> ('w, unit) act" where
  "validate_mcp_url env url policy =
     bindE (liftR (case ne_parse env url of
         Inl e \<Rightarrow> Inl (InvalidNodeConfig (''mcp_tool: invalid URL: '' @ e)) | Inr u \<Rightarrow> Inr u)) (\<lambda>parsed.
     let host_is_loopback = (case pu_host parsed of
           Some (HostIp a) \<Rightarrow> is_loopback a
         | _ \<Rightarrow> (case pu_host_str parsed of Some h \<Rightarrow> eq_ignore_ascii_case h ''localhost'' | None \<Rightarrow> False)) in
     bindE (liftR (rejectR (pu_scheme parsed = ''http'' \<and> \<not> (allow_localhost policy \<and> host_is_loopback)) (InvalidNodeConfig
       ''mcp_tool: server_url must use HTTPS unless allow_localhost is enabled for local dev''))) (\<lambda>_.
     bindE (liftR (rejectR (pu_scheme parsed \<noteq> ''http'' \<and> pu_scheme parsed \<noteq> ''https'') (InvalidNodeConfig
       ''mcp_tool: server_url scheme must be http or https''))) (\<lambda>_.
       validate_url_not_private_async env url (allow_localhost policy))))"

text \<open>A key is read from the configuration, and from the parameters only when the configuration does not have it.\<close>

definition config_or_parameter :: "node_input \<Rightarrow> string \<Rightarrow> json option" where
  "config_or_parameter inp k = (case Option.bind (ni_config inp) (\<lambda>m. fmlookup m k) of
       Some v \<Rightarrow> Some v | None \<Rightarrow> Option.bind (ni_parameters inp) (\<lambda>m. fmlookup m k))"

definition config_bool :: "node_input \<Rightarrow> string \<Rightarrow> bool result" where
  "config_bool inp k = (case config_or_parameter inp k of
       None \<Rightarrow> Inr False
     | Some (JBool b) \<Rightarrow> Inr b
     | Some _ \<Rightarrow> Inl (InvalidNodeConfig (''mcp_tool: '' @ k @ '' must be a boolean'')))"

definition initialize_mcp :: "'w mcp_env \<Rightarrow> 'w transport \<Rightarrow> ('w, unit) pact" where
  "initialize_mcp env tp =
     bindP (transport_send env tp (with_id (rpc_request_new ''initialize'' (Some (initialize_params (mv_version env)))) 1)) (\<lambda>resp.
     bindP (liftP (case jp_error resp of
         Some err \<Rightarrow> Inl (Internal (''MCP initialize failed: '' @ je_message err)) | None \<Rightarrow> Inr ())) (\<lambda>_.
       dropP (transport_send env tp initialized_request)))"

definition text_content :: "mcp_tool_result \<Rightarrow> string" where
  "text_content r = join_str [CHR 0x0A] (concat (map (\<lambda>c. case c of McpText t \<Rightarrow> [t] | McpImage _ _ \<Rightarrow> []) (mr_content r)))"

definition mcp_output :: "mcp_tool_result \<Rightarrow> node_output" where
  "mcp_output r =
     \<lparr>no_data = Some (make_output [(''content'', JString (text_content r)), (''is_error'', JBool (mr_is_error r)),
        (''raw_content'', JArray (map content_json (mr_content r)))]),
      no_error = (if mr_is_error r then Some (text_content r) else None)\<rparr>"

definition mcp_tool_execute :: "'w mcp_env \<Rightarrow> node_input \<Rightarrow> ('w, node_output) pact" where
  "mcp_tool_execute env inp =
     bindP (liftP (or_config_error (Option.bind (config_or_parameter inp ''server_url'') json_as_str) ''mcp_tool: server_url is required'')) (\<lambda>server_url.
     bindP (liftP (or_config_error (Option.bind (config_or_parameter inp ''tool_name'') json_as_str) ''mcp_tool: tool_name is required'')) (\<lambda>tool_name.
     bindP (liftP (config_bool inp ''allow_localhost'')) (\<lambda>allowed.
     let policy = (if allowed then AllowForDev else Deny);
         arguments = (case ni_input inp of Some m \<Rightarrow> m | None \<Rightarrow> fmempty) in
     bindP (\<lambda>w. apfst Some (validate_mcp_url (mv_net env) server_url policy w)) (\<lambda>_.
     bindP (liftP (new_with_localhost_policy (mv_net env) server_url policy)) (\<lambda>tp.
     bindP (initialize_mcp env tp) (\<lambda>_.
     bindP (call_tool_request env tp tool_name arguments 2) (\<lambda>r.
       liftP (Inr (mcp_output r)))))))))"

end
