(* ===== verification/OutboundLaws.thy ===== *)
theory OutboundLaws
  imports EgressLaws Outbound Mcp
begin

text \<open>
  What the MCP node contacts, the answers of an MCP server that make it panic, and an example in which the credential
  proxy reaches a private address.
\<close>

section \<open>The MCP node\<close>

lemma v4_private_mono: "is_private_ip (V4 a b c d) False = None \<Longrightarrow> is_private_ip (V4 a b c d) True = None"
  by (auto simp: is_private_ip_def normalize_ip_def Let_def split: if_splits)

lemma private_mono: "is_private_ip ip False = None \<Longrightarrow> is_private_ip ip allow = None"
  by (cases allow) (auto simp: is_private_ip_def Let_def split: ip.splits if_splits)

lemma private_mono_conj: "is_private_ip ip (a \<and> b) = None \<Longrightarrow> is_private_ip ip a = None"
  by (cases b) (auto intro: private_mono)

text \<open>\<open>m\<close> makes at most \<open>n\<close> requests, all to addresses that satisfy \<open>P\<close>.\<close>

definition contacts :: "('w \<Rightarrow> (parsed_url \<times> ip list) list) \<Rightarrow> (ip \<Rightarrow> bool) \<Rightarrow> nat \<Rightarrow> ('w, 'a) pact \<Rightarrow> bool" where
  "contacts made P n m \<longleftrightarrow> (\<forall>w. \<exists>hops. made (snd (m w)) = made w @ hops \<and> length hops \<le> n \<and> (\<forall>h \<in> set hops. \<forall>ip \<in> set (snd h). P ip))"

named_theorems contacts_intros

lemma contacts_bind [contacts_intros]:
  assumes "contacts made P n m" and "\<And>x. (\<exists>w. fst (m w) = Some (Inr x)) \<Longrightarrow> contacts made P k (f x)"
  shows "contacts made P (n + k) (bindP m f)"
  unfolding contacts_def
proof
  fix w
  obtain r w1 where m: "m w = (r, w1)" by fastforce
  with assms(1) obtain hs where hs: "made w1 = made w @ hs" "length hs \<le> n" "\<forall>h \<in> set hs. \<forall>ip \<in> set (snd h). P ip"
    unfolding contacts_def by (metis snd_conv)
  show "\<exists>hops. made (snd (bindP m f w)) = made w @ hops \<and> length hops \<le> n + k \<and> (\<forall>h \<in> set hops. \<forall>ip \<in> set (snd h). P ip)"
  proof (cases "\<exists>x. r = Some (Inr x)")
    case True
    then obtain x where x: "r = Some (Inr x)" by blast
    with m have "\<exists>w. fst (m w) = Some (Inr x)" by (metis fst_conv)
    then have "contacts made P k (f x)" by (rule assms(2))
    then obtain ks where "made (snd (f x w1)) = made w1 @ ks" "length ks \<le> k" "\<forall>h \<in> set ks. \<forall>ip \<in> set (snd h). P ip"
      unfolding contacts_def by blast
    with hs m x show ?thesis by (intro exI [of _ "hs @ ks"]) (auto simp: bindP_def)
  next
    case False
    with hs m show ?thesis by (intro exI [of _ hs]) (auto simp: bindP_def split: option.split sum.split)
  qed
qed

lemma contacts_none: "(\<And>w. made (snd (m w)) = made w) \<Longrightarrow> contacts made P 0 m"
  by (simp add: contacts_def)

lemma contacts_lift [contacts_intros]: "contacts made P 0 (liftP r)"
  by (rule contacts_none) (simp add: liftP_def)

lemma contacts_drop [contacts_intros]: "contacts made P n m \<Longrightarrow> contacts made P n (dropP m)"
  by (auto simp: contacts_def dropP_def split: prod.split option.split) (metis snd_conv)+

lemma mcp_new_Inr:
  "new_with_localhost_policy env url policy = Inr tp \<longleftrightarrow> validate_mcp_transport_url env url policy = Inr () \<and>
     ne_build_error env = None \<and> tp_base_url tp = url \<and>
     tp_client tp = \<lparr>cl_resolve = mcp_resolve env policy, cl_redirect = (\<lambda>_ _. Stop)\<rparr>"
  by (auto simp: new_with_localhost_policy_def shared_mcp_client_def bindR_Inr_iff split: option.splits)

lemma mcp_checked:
  assumes "validate_mcp_transport_url env url policy = Inr ()" and "ne_parse env url = Inr u" and "ip_of_host u = Some ip"
  shows "is_private_ip ip (allow_localhost policy) = None"
  using assms by (auto simp: validate_mcp_transport_url_def bindR_Inr_iff Let_def split: option.splits)

lemma mcp_resolve_public: "mcp_resolve env policy name w = (Inr as, w') \<Longrightarrow> ip \<in> set as \<Longrightarrow> is_private_ip ip (allow_localhost policy) = None"
  unfolding mcp_resolve_def by (drule (1) safe_resolve_public) (rule private_mono_conj)

lemma transport_contacts [contacts_intros]:
  assumes "sends_as_documented (mv_net env) made" and np: "no_system_proxy (mv_net env)" and tp: "new_with_localhost_policy (mv_net env) url policy = Inr tp"
  shows "contacts made (\<lambda>ip. is_private_ip ip (allow_localhost policy) = None) 1 (transport_send env tp rq)"
  unfolding contacts_def
proof
  fix w
  define hr where "hr = \<lparr>rq_method = ''POST'', rq_url = tp_base_url tp, rq_headers = [(''Content-Type'', ''application/json'')],
          rq_body = Some (ne_json_str (mv_net env) (rpc_json rq))\<rparr>"
  from tp have cl: "tp_base_url tp = url" "tp_client tp = \<lparr>cl_resolve = mcp_resolve (mv_net env) policy, cl_redirect = (\<lambda>_ _. Stop)\<rparr>"
    and v: "validate_mcp_transport_url (mv_net env) url policy = Inr ()" by (simp_all add: mcp_new_Inr)
  have "quiet_resolver made (cl_resolve (tp_client tp))"
    using safe_resolve_quiet [of made "mv_net env"] assms(1) by (simp add: cl mcp_resolve_def sends_as_documented_def quiet_resolver_def)
  with assms(1) obtain hops where h: "made (snd (ne_send (mv_net env) (tp_client tp) hr w)) = made w @ hops"
    "request_hops (mv_net env) (tp_client tp) (rq_url hr) hops" unfolding sends_as_documented_def by blast
  have "made (snd (transport_send env tp rq w)) = made w @ hops"
    using h(1) by (cases "ne_send (mv_net env) (tp_client tp) hr w")
      (auto simp: transport_send_def Let_def simp flip: hr_def split: sum.split)
  moreover have "length hops \<le> 1 \<and> (\<forall>h \<in> set hops. \<forall>ip \<in> set (snd h). is_private_ip ip (allow_localhost policy) = None)"
  proof (cases hops)
    case (Cons hop rest)
    obtain u ips where hop: "hop = (u, ips)" by (cases hop)
    with Cons h(2) have *: "\<forall>ip \<in> set ips. reaches (mv_net env) (tp_client tp) u ip" "hops_ok (mv_net env) (tp_client tp) (Suc 0) rest"
      "ne_parse (mv_net env) url = Inr u" by (auto simp: request_hops_def hr_def cl)
    from *(2) have "rest = []" by (cases rest) (auto simp: cl)
    moreover have "is_private_ip ip (allow_localhost policy) = None" if "ip \<in> set ips" for ip
      using *(1,3) that mcp_checked [OF v *(3), of ip] np by (auto simp: reaches_def no_system_proxy_def cl ip_of_host_def dest: mcp_resolve_public)
    ultimately show ?thesis using Cons hop by simp
  qed simp
  ultimately show "\<exists>hops. made (snd (transport_send env tp rq w)) = made w @ hops \<and> length hops \<le> 1 \<and>
      (\<forall>h \<in> set hops. \<forall>ip \<in> set (snd h). is_private_ip ip (allow_localhost policy) = None)" by blast
qed

lemma mcp_url_check_contacts:
  assumes "sends_as_documented (mv_net env) made"
  shows "contacts made P 0 (\<lambda>w. apfst Some (validate_mcp_url (mv_net env) url policy w))"
proof (rule contacts_none)
  fix w
  from assms have q: "quiet_resolver made (ne_lookup (mv_net env))" by (simp add: sends_as_documented_def)
  show "made (snd (apfst Some (validate_mcp_url (mv_net env) url policy w))) = made w"
    using async_check_quiet [OF q] by (simp add: validate_mcp_url_def bindE_liftR Let_def split: sum.split)
qed

lemma mcp_tool_filtered:
  assumes "sends_as_documented (mv_net env) made" and np: "no_system_proxy (mv_net env)"
  shows "contacts made (\<lambda>ip. is_private_ip ip (config_bool inp ''allow_localhost'' = Inr True) = None) 3 (mcp_tool_execute env inp)"
proof -
  let ?P = "\<lambda>ip. is_private_ip ip (config_bool inp ''allow_localhost'' = Inr True) = None"
  have calls: "contacts made (\<lambda>ip. is_private_ip ip (allow_localhost policy) = None) 3
      (bindP (initialize_mcp env tp) (\<lambda>_. bindP (call_tool_request env tp name args 2) (\<lambda>r. liftP (Inr (mcp_output r)))))"
    if "new_with_localhost_policy (mv_net env) url policy = Inr tp" for tp url policy name args
  proof -
    note t = transport_contacts [OF assms(1) np that]
    have "contacts made (\<lambda>ip. is_private_ip ip (allow_localhost policy) = None) (1 + (0 + 1)) (initialize_mcp env tp)"
      unfolding initialize_mcp_def by (intro contacts_intros t)
    moreover have "contacts made (\<lambda>ip. is_private_ip ip (allow_localhost policy) = None) (1 + (0 + 0)) (call_tool_request env tp name args 2)"
      unfolding call_tool_request_def by (intro contacts_intros t)
    ultimately have "contacts made (\<lambda>ip. is_private_ip ip (allow_localhost policy) = None) ((1 + (0 + 1)) + ((1 + (0 + 0)) + 0))
      (bindP (initialize_mcp env tp) (\<lambda>_. bindP (call_tool_request env tp name args 2) (\<lambda>r. liftP (Inr (mcp_output r)))))"
      by (intro contacts_bind contacts_lift)
    then show ?thesis by (simp add: eval_nat_numeral)
  qed
  have "contacts made ?P (0 + (0 + (0 + (0 + (0 + 3))))) (mcp_tool_execute env inp)"
    unfolding mcp_tool_execute_def Let_def
  proof (intro contacts_bind contacts_lift mcp_url_check_contacts assms(1))
    fix url name allowed and u :: unit and tp
    assume a: "\<exists>w::'a. fst (liftP (config_bool inp ''allow_localhost'') w) = Some (Inr allowed)"
      and "\<exists>w::'a. fst (liftP (new_with_localhost_policy (mv_net env) url (if allowed then AllowForDev else Deny)) w) = Some (Inr tp)"
    then have *: "new_with_localhost_policy (mv_net env) url (if allowed then AllowForDev else Deny) = Inr tp"
      "config_bool inp ''allow_localhost'' = Inr allowed" by (auto simp: liftP_def)
    have "allow_localhost (if allowed then AllowForDev else Deny) = (config_bool inp ''allow_localhost'' = Inr True)"
      using *(2) by (simp add: allow_localhost_def)
    with calls [OF *(1)] show "contacts made ?P 3 (bindP (initialize_mcp env tp) (\<lambda>_. bindP (call_tool_request env tp name
        (case ni_input inp of None \<Rightarrow> fmempty | Some m \<Rightarrow> m) 2) (\<lambda>r. liftP (Inr (mcp_output r)))))" by simp
  qed
  then show ?thesis by simp
qed

text \<open>
  C28. A run of the MCP node, whatever its input, the names and the servers, makes at most three requests, followed
  redirects included, and contacts no internal address (see \<open>http_node_public\<close>), except loopback addresses if the
  node's configuration allows them, provided that the process environment names no proxy.
\<close>

theorem mcp_tool_contacts:
  assumes "sends_as_documented (mv_net env) made" and "no_system_proxy (mv_net env)"
  shows "\<exists>hops. made (snd (mcp_tool_execute env inp w)) = made w @ hops \<and> length hops \<le> 3 \<and>
    (\<forall>h \<in> set hops. \<forall>ip \<in> set (snd h).
       \<not> internal_ip ip \<or> loopback_ip ip \<and> config_bool inp ''allow_localhost'' = Inr True)"
proof -
  have "\<not> internal_ip ip \<or> loopback_ip ip \<and> allowed" if "is_private_ip ip allowed = None" for ip allowed
    using that filter_exact filter_exact_localhost by (cases allowed) auto
  with mcp_tool_filtered [OF assms, of inp] show ?thesis unfolding contacts_def by meson
qed

lemma public_addresses:
  "is_private_ip (V4 8 8 8 8) allow = None" "is_private_ip (V4 169 254 169 254) allow = Some ''link-local address''"
  by (simp_all add: is_private_ip_def normalize_ip_def v4_is_private_def)

definition mcp_sim :: "sim_net \<Rightarrow> sim_world mcp_env" where
  "mcp_sim net = \<lparr>mv_net = sim_env net, mv_parse_response = (\<lambda>_. Inl []), mv_parse_result = (\<lambda>_. Inl []),
     mv_parse_tools = (\<lambda>_. None), mv_version = ''0.1.0''\<rparr>"

definition call_api :: node_input where
  "call_api = get_api\<lparr>ni_config := Some (fmap_of_list [(''server_url'', JString ''https://api/''), (''tool_name'', JString ''t'')])\<rparr>"

theorem mcp_tool_contacts_witness:
  "mcp_tool_execute (mcp_sim sly_net) call_api [] = (Some (Inl (Internal ''MCP server request failed'')), [(public_url, [V4 8 8 8 8])]) \<and>
   (\<exists>hops. snd (mcp_tool_execute (mcp_sim sly_net) call_api []) = hops \<and> length hops \<le> 3 \<and>
     (\<forall>h \<in> set hops. \<forall>ip \<in> set (snd h). \<not> internal_ip ip))"
proof -
  have cfg: "config_or_parameter call_api ''server_url'' = Some (JString ''https://api/'')"
    "config_or_parameter call_api ''tool_name'' = Some (JString ''t'')" "config_bool call_api ''allow_localhost'' = Inr False"
    by (simp_all add: config_bool_def config_or_parameter_def call_api_def get_api_def fmlookup_of_list)
  have v: "validate_url_not_private (sim_env sly_net) ''https://api/'' False = Inr ()"
    "validate_mcp_transport_url (sim_env sly_net) ''https://api/'' Deny = Inr ()"
    by (simp_all add: validate_url_not_private_def validate_mcp_transport_url_def parse_checked_def sly_defs ALLOWED_SCHEMES_def
        BLOCKED_HOSTNAMES_def host_nonempty_def or_config_error_def ip_of_host_def rejectR_def allow_localhost_def Let_def)
  have a: "validate_url_not_private_async (sim_env sly_net) ''https://api/'' False [] = (Inr (), [])"
    using public_addresses v(1) by (simp add: validate_url_not_private_async_def bindE_liftR parse_checked_def sly_defs host_nonempty_def
        or_config_error_def ip_of_host_def Let_def)
  then have m: "validate_mcp_url (sim_env sly_net) ''https://api/'' Deny [] = (Inr (), [])"
    by (simp add: validate_mcp_url_def bindE_liftR sly_defs rejectR_def allow_localhost_def Let_def)
  have new: "new_with_localhost_policy (sim_env sly_net) ''https://api/'' Deny =
      Inr \<lparr>tp_client = \<lparr>cl_resolve = mcp_resolve (sim_env sly_net) Deny, cl_redirect = (\<lambda>_ _. Stop)\<rparr>, tp_base_url = ''https://api/''\<rparr>"
    using v(2) by (simp add: new_with_localhost_policy_def shared_mcp_client_def)
  have r: "mcp_resolve (sim_env sly_net) Deny ''api'' w = (Inr [V4 8 8 8 8], w)" for w
    using public_addresses by (simp add: mcp_resolve_def safe_resolve_def sly_defs allow_localhost_def Let_def)
  have "transport_send (mcp_sim sly_net) \<lparr>tp_client = \<lparr>cl_resolve = mcp_resolve (sim_env sly_net) Deny, cl_redirect = (\<lambda>_ _. Stop)\<rparr>,
      tp_base_url = ''https://api/''\<rparr> rq [] = (Some (Inl (Internal ''MCP server request failed'')), [(public_url, [V4 8 8 8 8])])" for rq
    using r by (simp add: transport_send_def mcp_sim_def sly_defs redirect_response_def is_success_def chunks_bytes_def numeral_eq_Suc Let_def)
  then have run: "mcp_tool_execute (mcp_sim sly_net) call_api [] =
      (Some (Inl (Internal ''MCP server request failed'')), [(public_url, [V4 8 8 8 8])])"
    using cfg m new by (simp add: mcp_tool_execute_def bindP_def liftP_def initialize_mcp_def or_config_error_def mcp_sim_def Let_def)
  from sim_documented have "sends_as_documented (mv_net (mcp_sim sly_net)) id" by (simp add: mcp_sim_def)
  moreover have "no_system_proxy (mv_net (mcp_sim sly_net))" using sim_unproxied by (simp add: mcp_sim_def)
  ultimately have "\<exists>hops. id (snd (mcp_tool_execute (mcp_sim sly_net) call_api [])) = id [] @ hops \<and> length hops \<le> 3 \<and>
    (\<forall>h \<in> set hops. \<forall>ip \<in> set (snd h). \<not> internal_ip ip \<or> loopback_ip ip \<and> config_bool call_api ''allow_localhost'' = Inr True)"
    by (rule mcp_tool_contacts)
  with run show ?thesis using cfg(3) by simp
qed

text \<open>An error page whose byte 512 is inside a character makes the client panic.\<close>

lemma mcp_error_panics:
  assumes "ne_send (mv_net env) (tp_client tp) \<lparr>rq_method = ''POST'', rq_url = tp_base_url tp, rq_headers = [(''Content-Type'', ''application/json'')],
      rq_body = Some (ne_json_str (mv_net env) (rpc_json rq))\<rparr> w =
    (Inr \<lparr>rs_status = 500, rs_reason = None, rs_headers = [], rs_content_length = None, rs_chunks = [Inr (replicate 511 CHR ''a'' @ [CHR 0xC3, CHR 0xA9])]\<rparr>, w')"
    and "ne_utf8_lossy (mv_net env) = id"
  shows "transport_send env tp rq w = (None, w')"
  using assms by (simp add: transport_send_def is_success_def chunks_bytes_def char_boundary_def nth_append Let_def)

section \<open>The credential proxy\<close>

lemma proxy_url_https: "validate_proxy_url env url w = (Inr u, w1) \<Longrightarrow> pu_scheme u = ''https''"
  by (auto simp: validate_proxy_url_def bindE_Inr_iff liftR_def ret_def raise_def Let_def split: option.splits)

text \<open>Every request the proxy starts goes to an HTTPS URL that the policy of the credential allows.\<close>

lemma proxy_request_checked:
  assumes "proxy_handle env req w = (Inr resp, w')"
  obtains u w1 cred w2 where "validate_proxy_url env (cq_url req) w = (Inr u, w1)" "pu_scheme u = ''https''"
    "px_get_credential env (cq_credential_id req) w1 = (Inr cred, w2)"
    "cs_status_code resp = 403 \<and> w' = w2 \<or>
     (\<forall>p. cd_policy cred = Some p \<longrightarrow> is_domain_allowed (host_of_url (px_net env)) p (pu_str u)) \<and>
     (\<exists>m r. ne_send (px_net env) (proxy_client (px_net env)) (proxy_request env req cred u m) w2 = (Inr r, w') \<and> resp = capability_answer env r)"
proof -
  obtain r w1 where v: "validate_proxy_url env (cq_url req) w = (r, w1)" by fastforce
  with assms obtain u where r: "r = Inr u" by (cases r) (auto simp: proxy_handle_def bindE_def)
  obtain c w2 where g: "px_get_credential env (cq_credential_id req) w1 = (c, w2)" by fastforce
  with assms v r obtain cred where c: "c = Inr cred" by (cases c) (auto simp: proxy_handle_def bindE_def)
  have "pu_scheme u = ''https''" using v r by (simp add: proxy_url_https)
  moreover have "cs_status_code resp = 403 \<and> w' = w2 \<or>
     (\<forall>p. cd_policy cred = Some p \<longrightarrow> is_domain_allowed (host_of_url (px_net env)) p (pu_str u)) \<and>
     (\<exists>m r. ne_send (px_net env) (proxy_client (px_net env)) (proxy_request env req cred u m) w2 = (Inr r, w') \<and> resp = capability_answer env r)"
    using assms v r g c
    by (auto simp: proxy_handle_def bindE_def ret_def liftR_def split: sum.splits if_splits option.splits prod.splits)
  ultimately show ?thesis using that v r g c by blast
qed

text \<open>The answer hands on no header that carries a secret.\<close>

lemma fold_headers_dom:
  "k |\<in>| fmdom (fold (\<lambda>(k, v) m. case v of Some s \<Rightarrow> fmupd k s m | None \<Rightarrow> m) hs m) \<Longrightarrow> k \<in> fst ` set hs \<or> k |\<in>| fmdom m"
  by (induction hs arbitrary: m) (force split: option.splits prod.splits)+

lemma answer_headers_visible:
  "k |\<in>| fmdom (cs_headers (capability_answer env r)) \<Longrightarrow> visible_header (px_net env) k"
  by (auto simp: capability_answer_def Let_def dest!: fold_headers_dom)

definition api_credential :: credential where
  "api_credential = \<lparr>cd_id = ''c'', cd_name = ''api'', cd_type = ''api_key'', cd_data = fmap_of_list [(''api_key'', JString ''k'')],
     cd_description = None, cd_owner_id = Some ''alice'', cd_access_tier = TierProxy,
     cd_policy = Some \<lparr>cp_allowed_tiers = [TierProxy], cp_allowed_domains = [''api''], cp_rate_limit_per_minute = 0\<rparr>,
     cd_created_at = 0, cd_updated_at = 0\<rparr>"

definition proxy_sim :: "sim_net \<Rightarrow> sim_world proxy_env" where
  "proxy_sim net = \<lparr>px_net = sim_env net,
     px_parse_ip = (\<lambda>_. None), px_base64 = id, px_from_utf8 = Some,
     px_get_credential = (\<lambda>i. if i = ''c'' then ret api_credential else raise NotFound)\<rparr>"

definition api_request :: capability_request where
  "api_request = \<lparr>cq_url = ''https://api/'', cq_method = ''GET'', cq_headers = fmempty, cq_body = None, cq_credential_id = ''c''\<rparr>"

text \<open>
  The checks of the credential proxy cover the URL of the request only. Its client follows redirects: an allowed
  server that redirects to the metadata address makes the proxy contact that address, although the credential's policy
  lists one domain, and hand its answer to the plugin.
\<close>

lemma proxy_reaches_metadata:
  "proxy_handle (proxy_sim sly_net) api_request [] =
     (Inr \<lparr>cs_status_code = 200, cs_headers = fmempty, cs_body = Some (JString ''secret''), cs_error = None\<rparr>,
      [(public_url, [V4 8 8 8 8]), (metadata_url, [V4 169 254 169 254])])"
proof -
  let ?page = "\<lparr>rs_status = 200, rs_reason = Some ''OK'', rs_headers = [], rs_content_length = None, rs_chunks = [Inr ''secret'']\<rparr>"
  have v: "validate_proxy_url (proxy_sim sly_net) ''https://api/'' [] = (Inr public_url, [])"
    using public_addresses by (simp add: validate_proxy_url_def proxy_sim_def bindE_liftR sly_defs rejectR_def host_nonempty_def or_config_error_def
        BLOCKED_HOSTNAMES_def lookup_public_def bindE_def liftR_def ret_def ascii_lower_def Let_def)
  have d: "is_domain_allowed (host_of_url (sim_env sly_net)) \<lparr>cp_allowed_tiers = [TierProxy], cp_allowed_domains = [''api''], cp_rate_limit_per_minute = 0\<rparr> (pu_str public_url)"
    by (simp add: is_domain_allowed_def host_of_url_def sly_defs)
  have s: "ne_send (sim_env sly_net) (proxy_client (sim_env sly_net)) rq [] = (Inr ?page, [(public_url, [V4 8 8 8 8]), (metadata_url, [V4 169 254 169 254])])"
    if "rq_url rq = pu_str public_url" for rq
    using that by (simp add: proxy_client_def sly_defs numeral_eq_Suc Let_def)
  have u: "rq_url (proxy_request (proxy_sim sly_net) api_request api_credential public_url m) = pu_str public_url" for m
    by (simp add: proxy_request_def with_json_def api_request_def)
  have a: "capability_answer (proxy_sim sly_net) ?page = \<lparr>cs_status_code = 200, cs_headers = fmempty, cs_body = Some (JString ''secret''), cs_error = None\<rparr>"
    by (simp add: capability_answer_def response_bytes_def proxy_sim_def sim_env_def)
  have p: "px_get_credential (proxy_sim sly_net) ''c'' = ret api_credential" "px_net (proxy_sim sly_net) = sim_env sly_net"
    "cd_policy api_credential = Some \<lparr>cp_allowed_tiers = [TierProxy], cp_allowed_domains = [''api''], cp_rate_limit_per_minute = 0\<rparr>"
    "cq_url api_request = ''https://api/''" "cq_credential_id api_request = ''c''"
    by (simp_all add: proxy_sim_def api_credential_def api_request_def)
  show ?thesis
    using v d a by (simp add: proxy_handle_def p bindE_def ret_def liftR_def s [OF u] del: sim_env_simps(9))
qed

end
