(* ===== verification/AiNodes.thy ===== *)
theory AiNodes
  imports Egress Worker
begin

text \<open>
  The AI nodes, \<open>crates/orbflow-builtins/src/ai_common.rs\<close>, \<open>ai_chat.rs\<close>, \<open>ai_classify.rs\<close>, \<open>ai_extract.rs\<close>,
  \<open>ai_sentiment.rs\<close>, \<open>ai_summarize.rs\<close> and \<open>ai_translate.rs\<close>. The crate genai is the field \<open>av_exec\<close>; a client of
  it is what \<open>build_client\<close> configures. The state is the cache of clients, a static of the module, and the world.
\<close>

section \<open>Configuration\<close>

datatype ai_provider = OpenAi | Anthropic | GoogleAi | Ollama

record ai_config =
  ac_provider :: ai_provider
  ac_api_key :: string
  ac_base_url :: string
  ac_organization :: "string option"
  ac_model :: string
  ac_temperature :: f64
  ac_max_tokens :: int
  ac_is_default_base_url :: bool

record token_usage =
  tu_prompt_tokens :: int
  tu_completion_tokens :: int
  tu_total_tokens :: int

record ai_response =
  ar_content :: string
  ar_model :: string
  ar_finish_reason :: string
  ar_usage :: token_usage

definition parse_provider :: "'w net_env \<Rightarrow> string \<Rightarrow> ai_provider result" where
  "parse_provider env s =
     (let l = ne_lowercase env s in
      if l = ''openai'' then Inr OpenAi
      else if l = ''anthropic'' then Inr Anthropic
      else if l = ''google_ai'' \<or> l = ''googleai'' \<or> l = ''google'' then Inr GoogleAi
      else if l = ''ollama'' then Inr Ollama
      else Inl (InvalidNodeConfig (''ai node: unknown provider: '' @ l @ ''; expected openai, anthropic, google_ai, or ollama'')))"

fun provider_default_base_url :: "ai_provider \<Rightarrow> string" where
  "provider_default_base_url OpenAi = ''https://api.openai.com/v1/''"
| "provider_default_base_url Anthropic = ''https://api.anthropic.com/''"
| "provider_default_base_url GoogleAi = ''https://generativelanguage.googleapis.com/v1beta/''"
| "provider_default_base_url Ollama = ''http://localhost:11434/''"

definition validate_ai_base_url :: "'w net_env \<Rightarrow> string \<Rightarrow> ai_provider \<Rightarrow> unit result" where
  "validate_ai_base_url env url provider = validate_url_not_private env url (provider = Ollama)"

definition from_config :: "'w net_env \<Rightarrow> jmap \<Rightarrow> ai_config result" where
  "from_config env cfg =
     bindR (parse_provider env (string_val cfg ''provider'' ''openai'')) (\<lambda>provider.
     let api_key = string_val cfg ''api_key'' [] in
     bindR (rejectR (api_key = [] \<and> provider \<noteq> Ollama)
       (InvalidNodeConfig (if fmlookup cfg ''api_key'' = Some JNull
         then ''ai node: credential secret was redacted before worker execution; configure a proxy-capable AI path or explicitly allow raw credential access''
         else ''ai node: api_key is required''))) (\<lambda>_.
     let user_base_url = string_val cfg ''base_url'' [];
         is_default = (user_base_url = []);
         url = (if is_default then provider_default_base_url provider else user_base_url);
         base_url = (if ends_with ''/'' url then url else url @ ''/'') in
     bindR (validate_ai_base_url env base_url provider) (\<lambda>_.
       Inr \<lparr>ac_provider = provider, ac_api_key = api_key, ac_base_url = base_url,
          ac_organization = (case fmlookup cfg ''organization'' of Some (JString s) \<Rightarrow> if s = [] then None else Some s | _ \<Rightarrow> None),
          ac_model = string_val cfg ''model'' ''gpt-4o-mini'',
          ac_temperature = f64_clamp (F 0) (F 2) (float_val cfg ''temperature'' (f64_of_rat (7 / 10))),
          ac_max_tokens = max 1 (min 16384 (int_val cfg ''max_tokens'' 1024)),
          ac_is_default_base_url = is_default\<rparr>)))"

section \<open>Cost\<close>

definition price :: "rat \<Rightarrow> rat \<Rightarrow> f64 \<times> f64" where
  "price i ou = (f64_of_rat i, f64_of_rat ou)"

definition DEFAULT_MODEL_PRICING :: "(ai_provider \<times> string \<times> f64 \<times> f64) list" where
  "DEFAULT_MODEL_PRICING =
     [(OpenAi, ''gpt-4o-mini'', price (15 / 100) (60 / 100)), (OpenAi, ''gpt-4o'', price (250 / 100) 10),
      (OpenAi, ''gpt-4-turbo'', price 10 30), (OpenAi, ''o1-mini'', price 3 12), (OpenAi, ''o1'', price 15 60),
      (Anthropic, ''opus'', price 15 75), (Anthropic, ''sonnet'', price 3 15), (Anthropic, ''haiku'', price (25 / 100) (125 / 100)),
      (GoogleAi, ''flash'', price (10 / 100) (40 / 100)), (GoogleAi, ''pro'', price (125 / 100) 5)]"

fun provider_fallback_pricing :: "ai_provider \<Rightarrow> f64 \<times> f64" where
  "provider_fallback_pricing OpenAi = price 1 3"
| "provider_fallback_pricing Anthropic = price 3 15"
| "provider_fallback_pricing GoogleAi = price (50 / 100) (150 / 100)"
| "provider_fallback_pricing Ollama = price 0 0"

definition model_pricing :: "ai_provider \<Rightarrow> string \<Rightarrow> f64 \<times> f64" where
  "model_pricing provider model =
     (case List.find (\<lambda>(p, pat, _). p = provider \<and>
           (if provider = OpenAi then starts_with pat model else str_contains pat model)) DEFAULT_MODEL_PRICING of
        Some (_, _, pricing) \<Rightarrow> pricing
      | None \<Rightarrow> provider_fallback_pricing provider)"

definition estimate_cost :: "ai_provider \<Rightarrow> string \<Rightarrow> token_usage \<Rightarrow> f64" where
  "estimate_cost provider model usage =
     (case model_pricing provider model of (input_price, output_price) \<Rightarrow>
        f64_add (f64_mul (f64_div (f64_of_rat (of_int (tu_prompt_tokens usage))) (F 1000000)) input_price)
          (f64_mul (f64_div (f64_of_rat (of_int (tu_completion_tokens usage))) (F 1000000)) output_price))"

definition usage_to_json :: "token_usage \<Rightarrow> json" where
  "usage_to_json usage = JObject (make_output
     [(''prompt_tokens'', JNumber (num_of_i64 (tu_prompt_tokens usage))),
      (''completion_tokens'', JNumber (num_of_i64 (tu_completion_tokens usage))),
      (''total_tokens'', JNumber (num_of_i64 (tu_total_tokens usage)))])"

definition resolve_model_id :: "ai_config \<Rightarrow> string" where
  "resolve_model_id config =
     (if str_contains ''::'' (ac_model config) then ac_model config
      else (case ac_provider config of OpenAi \<Rightarrow> ''openai'' | Anthropic \<Rightarrow> ''anthropic'' | GoogleAi \<Rightarrow> ''gemini'' | Ollama \<Rightarrow> ''ollama'')
        @ ''::'' @ ac_model config)"

section \<open>Clients\<close>

record ai_client =
  gc_auth :: "string option"
  gc_endpoint :: "string option"

type_synonym ai_cache = "(ai_provider \<times> string \<times> u64, ai_client) fmap"

datatype chat_message = UserMessage string | AssistantMessage string

record chat_request =
  cr_messages :: "chat_message list"
  cr_system :: "string option"
  cr_max_tokens :: int
  cr_temperature :: f64
  cr_json_mode :: bool

record genai_response =
  gr_content :: "string option"
  gr_prompt_tokens :: "int option"
  gr_completion_tokens :: "int option"
  gr_total_tokens :: "int option"
  gr_model_name :: string

datatype chat_outcome = ChatTimeout | ChatFailed | ChatDone genai_response

record 'w ai_env =
  av_net :: "'w net_env"
  av_hash :: "string \<Rightarrow> u64"
  av_exec :: "ai_client \<Rightarrow> string \<Rightarrow> chat_request \<Rightarrow> 'w \<Rightarrow> chat_outcome \<times> 'w"
  av_pretty :: "json \<Rightarrow> string"

definition build_client :: "ai_config \<Rightarrow> ai_client" where
  "build_client config =
     (let needs_custom_endpoint = (ac_base_url config \<noteq> provider_default_base_url (ac_provider config));
          endpoint = (if needs_custom_endpoint then Some (ac_base_url config) else None) in
      if ac_provider config = Ollama then \<lparr>gc_auth = None, gc_endpoint = endpoint\<rparr>
      else \<lparr>gc_auth = Some (ac_api_key config), gc_endpoint = endpoint\<rparr>)"

definition client_key :: "'w ai_env \<Rightarrow> ai_config \<Rightarrow> ai_provider \<times> string \<times> u64" where
  "client_key env config = (ac_provider config, ac_base_url config, av_hash env (ac_api_key config))"

definition get_or_build_client :: "'w ai_env \<Rightarrow> ai_config \<Rightarrow> ai_cache \<Rightarrow> ai_client \<times> ai_cache" where
  "get_or_build_client env config cache =
     (case fmlookup cache (client_key env config) of
        Some client \<Rightarrow> (client, cache)
      | None \<Rightarrow> let client = build_client config in (client, fmupd (client_key env config) client cache))"

section \<open>Completions\<close>

definition on_net :: "('w, 'a) act \<Rightarrow> (ai_cache \<times> 'w, 'a) act" where
  "on_net m = (\<lambda>(cache, w). case m w of (r, w') \<Rightarrow> (r, (cache, w')))"

definition to_message :: "string \<times> string \<Rightarrow> chat_message" where
  "to_message rc = (if fst rc = ''assistant'' then AssistantMessage (snd rc) else UserMessage (snd rc))"

definition opt_or :: "int option \<Rightarrow> int" where
  "opt_or x = (case x of Some i \<Rightarrow> i | None \<Rightarrow> 0)"

definition chat_completion ::
  "'w ai_env \<Rightarrow> ai_config \<Rightarrow> string option \<Rightarrow> (string \<times> string) list \<Rightarrow> bool \<Rightarrow> (ai_cache \<times> 'w, ai_response) act" where
  "chat_completion env config system_prompt user_messages json_mode =
     bindE (if ac_is_default_base_url config then ret ()
            else on_net (validate_url_not_private_async (av_net env) (ac_base_url config) (ac_provider config = Ollama))) (\<lambda>_.
     let chat_req = \<lparr>cr_messages = map to_message user_messages, cr_system = system_prompt, cr_max_tokens = ac_max_tokens config,
           cr_temperature = ac_temperature config, cr_json_mode = json_mode\<rparr> in
     (\<lambda>(cache, w).
        case get_or_build_client env config cache of (client, cache') \<Rightarrow>
        (case av_exec env client (resolve_model_id config) chat_req w of
           (ChatTimeout, w') \<Rightarrow> (Inl Timeout, (cache', w'))
         | (ChatFailed, w') \<Rightarrow> (Inl (Internal ''AI API request failed''), (cache', w'))
         | (ChatDone r, w') \<Rightarrow>
             (Inr \<lparr>ar_content = (case gr_content r of Some c \<Rightarrow> c | None \<Rightarrow> []), ar_model = gr_model_name r, ar_finish_reason = ''stop'',
                ar_usage = \<lparr>tu_prompt_tokens = opt_or (gr_prompt_tokens r), tu_completion_tokens = opt_or (gr_completion_tokens r),
                  tu_total_tokens = opt_or (gr_total_tokens r)\<rparr>\<rparr>, (cache', w')))))"

text \<open>\<open>split_inclusive(char::is_whitespace)\<close>\<close>

fun split_words :: "string \<Rightarrow> string list \<Rightarrow> string list" where
  "split_words w [] = (if w = [] then [] else [w])"
| "split_words w (c # cs) = (if space_len c \<noteq> 0 then (w @ c) # split_words [] cs else split_words (w @ c) cs)"

definition json_of_f64 :: "f64 \<Rightarrow> json" where
  "json_of_f64 f = (case num_of_f64 f of Some n \<Rightarrow> JNumber n | None \<Rightarrow> JNull)"

text \<open>The receiver of a stream takes the chunks, or only the first \<open>n\<close> and is then dropped.\<close>

definition accepts :: "nat option \<Rightarrow> nat \<Rightarrow> bool" where
  "accepts limit n = (case limit of None \<Rightarrow> True | Some k \<Rightarrow> n < k)"

fun stream_words :: "nat option \<Rightarrow> nat \<Rightarrow> nat \<Rightarrow> stream_chunk list \<Rightarrow> string list \<Rightarrow> stream_chunk list" where
  "stream_words limit full cursor out [] = out"
| "stream_words limit full cursor out (word # words) =
     (let cursor = cursor + length word in
      if accepts limit (length out)
      then stream_words limit full cursor
        (out @ [ChunkData (JObject (make_output [(''token'', JString word), (''done'', JBool (cursor \<ge> full))]))]) words
      else out)"

definition chat_completion_streaming ::
  "'w ai_env \<Rightarrow> ai_config \<Rightarrow> string option \<Rightarrow> (string \<times> string) list \<Rightarrow> bool \<Rightarrow> nat option \<Rightarrow>
   (ai_cache \<times> 'w, stream_chunk list \<times> node_output) act" where
  "chat_completion_streaming env config system_prompt user_messages json_mode limit =
     bindE (chat_completion env config system_prompt user_messages json_mode) (\<lambda>response.
     let words = split_words [] (utf8_chars (ar_content response));
         chunks = stream_words limit (length (ar_content response)) 0 [] words;
         cost = estimate_cost (ac_provider config) (ar_model response) (ar_usage response);
         out = ok_output [(''content'', JString (ar_content response)), (''model'', JString (ar_model response)),
           (''finish_reason'', JString (ar_finish_reason response)), (''usage'', usage_to_json (ar_usage response)), (''cost'', json_of_f64 cost)] in
     ret (if accepts limit (length chunks) then chunks @ [ChunkDone out] else chunks, out))"

definition model_json :: "'w ai_env \<Rightarrow> string \<Rightarrow> ai_response \<Rightarrow> json result" where
  "model_json env what response = (case ne_json_parse (av_net env) (ar_content response) of
       Inl e \<Rightarrow> Inl (Internal (what @ e)) | Inr v \<Rightarrow> Inr v)"

definition nonfinite_str :: "f64 \<Rightarrow> string" where
  "nonfinite_str x = (case x of F_PosInf \<Rightarrow> ''inf'' | F_NegInf \<Rightarrow> ''-inf'' | _ \<Rightarrow> ''NaN'')"

definition config_cost :: "ai_config \<Rightarrow> ai_response \<Rightarrow> f64" where
  "config_cost config response = estimate_cost (ac_provider config) (ac_model config) (ar_usage response)"

text \<open>\<open>Number::from_f64(cost).unwrap_or(0.into())\<close>\<close>

definition cost_number :: "f64 \<Rightarrow> json" where
  "cost_number cost = JNumber (case num_of_f64 cost of Some n \<Rightarrow> n | None \<Rightarrow> num_of_i64 0)"

definition execute_ai_node ::
  "'w ai_env \<Rightarrow> node_input \<Rightarrow> string \<Rightarrow> string \<Rightarrow> string \<Rightarrow> (json \<Rightarrow> (string \<times> json) list) \<Rightarrow> (ai_cache \<times> 'w, node_output) act" where
  "execute_ai_node env inp node_name text_key system_prompt extract_fields =
     (let cfg = resolve_config inp; txt = string_val cfg text_key [] in
      bindE (liftR (rejectR (txt = []) (InvalidNodeConfig (node_name @ '' node: '' @ text_key @ '' is required'')))) (\<lambda>_.
      bindE (liftR (from_config (av_net env) cfg)) (\<lambda>config.
      bindE (chat_completion env config (Some system_prompt) [(''user'', txt)] True) (\<lambda>response.
      let cost = config_cost config response in
      bindE (liftR (model_json env (''AI node: model returned invalid JSON '' @ em_dash @ '' '') response)) (\<lambda>parsed.
      bindE (liftR (case num_of_f64 cost of
          Some n \<Rightarrow> Inr n | None \<Rightarrow> Inl (Internal (''AI node: non-finite cost value: '' @ nonfinite_str cost)))) (\<lambda>cost_num.
        ret (ok_output (extract_fields parsed @ [(''usage'', usage_to_json (ar_usage response)), (''cost_usd'', JNumber cost_num)]))))))))"

section \<open>Chat\<close>

definition chat_prompt :: "'w ai_env \<Rightarrow> jmap \<Rightarrow> string \<Rightarrow> string" where
  "chat_prompt env cfg prompt = (case fmlookup cfg ''context'' of
       None \<Rightarrow> prompt
     | Some JNull \<Rightarrow> prompt
     | Some ctx \<Rightarrow> prompt @ [CHR 0x0A, CHR 0x0A] @ ''Context:'' @ [CHR 0x0A] @ av_pretty env ctx)"

definition chat_system :: "jmap \<Rightarrow> string option" where
  "chat_system cfg = (let s = string_val cfg ''system_prompt'' [] in if s = [] then None else Some s)"

definition chat_pairs :: "'w ai_env \<Rightarrow> ai_config \<Rightarrow> bool \<Rightarrow> ai_response \<Rightarrow> (string \<times> json) list" where
  "chat_pairs env config json_mode response =
     [(''content'', JString (ar_content response)), (''model'', JString (ar_model response)), (''usage'', usage_to_json (ar_usage response)),
      (''cost_usd'', cost_number (config_cost config response)), (''finish_reason'', JString (ar_finish_reason response))] @
     (if json_mode then (case ne_json_parse (av_net env) (ar_content response) of Inr v \<Rightarrow> [(''parsed_json'', v)] | Inl _ \<Rightarrow> []) else [])"

definition ai_chat_execute :: "'w ai_env \<Rightarrow> node_input \<Rightarrow> (ai_cache \<times> 'w, node_output) act" where
  "ai_chat_execute env inp =
     (let cfg = resolve_config inp; prompt = string_val cfg ''prompt'' [];
          json_mode = (string_val cfg ''response_format'' ''text'' = ''json'') in
      bindE (liftR (rejectR (prompt = []) (InvalidNodeConfig ''ai-chat node: prompt is required''))) (\<lambda>_.
      bindE (liftR (from_config (av_net env) cfg)) (\<lambda>config.
      bindE (chat_completion env config (chat_system cfg) [(''user'', chat_prompt env cfg prompt)] json_mode) (\<lambda>response.
        ret (ok_output (chat_pairs env config json_mode response))))))"

text \<open>\<open>execute_streaming\<close>: the chunks it sends. The worker takes every chunk up to the terminal one.\<close>

definition ai_chat_streaming :: "'w ai_env \<Rightarrow> (ai_cache \<times> 'w) streaming_executor" where
  "ai_chat_streaming env inp s =
     (let cfg = resolve_config inp; prompt = string_val cfg ''prompt'' [];
          json_mode = (string_val cfg ''response_format'' ''text'' = ''json'') in
      if prompt = [] then (([ChunkError ''ai-chat node: prompt is required''], Finished (Inr ())), s)
      else (case from_config (av_net env) cfg of
        Inl e \<Rightarrow> (([ChunkError (error_str e)], Finished (Inr ())), s)
      | Inr config \<Rightarrow>
          (case chat_completion env config (chat_system cfg) [(''user'', chat_prompt env cfg prompt)] json_mode s of
             (Inl e, s') \<Rightarrow> (([ChunkError (error_str e)], Finished (Inr ())), s')
           | (Inr response, s') \<Rightarrow>
               (([ChunkData (JObject (make_output [(''token'', JString (ar_content response))])),
                  ChunkDone (ok_output (chat_pairs env config json_mode response))], Finished (Inr ())), s'))))"

section \<open>Classification, extraction, sentiment, summaries, translation\<close>

definition lf :: string where
  "lf = [CHR 0x0A]"

definition ask_json ::
  "'w ai_env \<Rightarrow> string \<Rightarrow> ai_config \<Rightarrow> string \<Rightarrow> string \<Rightarrow> (ai_cache \<times> 'w, ai_response \<times> json) act" where
  "ask_json env node config system_prompt user_content =
     bindE (chat_completion env config (Some system_prompt) [(''user'', user_content)] True) (\<lambda>response.
     bindE (liftR (model_json env (node @ '' node: model returned invalid JSON: '') response)) (\<lambda>parsed.
       ret (response, parsed)))"

definition require_object :: "string \<Rightarrow> json \<Rightarrow> unit result" where
  "require_object node v = rejectR (json_as_object v = None) (Internal (node @ '' node: model returned JSON that is not an object''))"

definition dq :: "string \<Rightarrow> string" where
  "dq s = CHR 0x22 # s @ [CHR 0x22]"

definition multi_prompt :: string where
  "multi_prompt = ''You are a text classifier. Classify the given text into one or more of the provided categories. Respond ONLY with valid JSON: {''
     @ dq ''categories'' @ '': [{'' @ dq ''category'' @ '': '' @ dq ''...'' @ '', '' @ dq ''confidence'' @ '': 0.0}], ''
     @ dq ''reasoning'' @ '': '' @ dq ''brief explanation'' @ ''}''"

definition single_prompt :: string where
  "single_prompt = ''You are a text classifier. Classify the given text into exactly one of the provided categories. Respond ONLY with valid JSON: {''
     @ dq ''category'' @ '': '' @ dq ''chosen_category'' @ '', '' @ dq ''confidence'' @ '': 0.0, ''
     @ dq ''reasoning'' @ '': '' @ dq ''brief explanation'' @ ''}''"

definition str_field :: "json \<Rightarrow> string \<Rightarrow> json" where
  "str_field v k = (case Option.bind (json_get v k) json_as_str of Some s \<Rightarrow> JString s | None \<Rightarrow> JNull)"

definition field_or :: "json \<Rightarrow> string \<Rightarrow> json \<Rightarrow> json" where
  "field_or v k d = (case json_get v k of Some x \<Rightarrow> x | None \<Rightarrow> d)"

definition ai_classify_execute :: "'w ai_env \<Rightarrow> node_input \<Rightarrow> (ai_cache \<times> 'w, node_output) act" where
  "ai_classify_execute env inp =
     (let cfg = resolve_config inp; txt = string_val cfg ''text'' []; categories = string_val cfg ''categories'' [];
          instructions = string_val cfg ''instructions'' []; multi_label = bool_val cfg ''multi_label'' False in
      bindE (liftR (rejectR (txt = []) (InvalidNodeConfig ''ai-classify node: text is required''))) (\<lambda>_.
      bindE (liftR (rejectR (categories = []) (InvalidNodeConfig ''ai-classify node: categories is required''))) (\<lambda>_.
      bindE (liftR (from_config (av_net env) cfg)) (\<lambda>config.
      bindE (ask_json env ''ai-classify'' config (if multi_label then multi_prompt else single_prompt)
        (''Categories: '' @ categories @ lf @ lf @ (if instructions = [] then [] else instructions @ lf @ lf) @ ''Text:'' @ lf @ txt)) (\<lambda>(response, parsed).
      bindE (liftR (require_object ''ai-classify'' parsed)) (\<lambda>_.
        ret (ok_output
          [(''category'', str_field parsed ''category''), (''categories'', field_or parsed ''categories'' (JArray [])),
           (''confidence'', (case Option.bind (Option.bind (json_get parsed ''confidence'') json_as_f64) num_of_f64 of
               Some n \<Rightarrow> JNumber n | None \<Rightarrow> JNull)),
           (''reasoning'', str_field parsed ''reasoning''), (''usage'', usage_to_json (ar_usage response)),
           (''cost_usd'', cost_number (config_cost config response))])))))))"

definition extract_prompt :: string where
  "extract_prompt = ''You are a data extraction assistant. Extract data from the provided text according to the given JSON schema. Return ONLY valid JSON matching the schema, with no additional text.''"

definition ai_extract_execute :: "'w ai_env \<Rightarrow> node_input \<Rightarrow> (ai_cache \<times> 'w, node_output) act" where
  "ai_extract_execute env inp =
     (let cfg = resolve_config inp; txt = string_val cfg ''text'' []; schema = string_val cfg ''schema'' [];
          instructions = string_val cfg ''instructions'' [] in
      bindE (liftR (rejectR (txt = []) (InvalidNodeConfig ''ai-extract node: text is required''))) (\<lambda>_.
      bindE (liftR (rejectR (schema = []) (InvalidNodeConfig ''ai-extract node: schema is required''))) (\<lambda>_.
      bindE (liftR (from_config (av_net env) cfg)) (\<lambda>config.
      bindE (ask_json env ''ai-extract'' config extract_prompt
        (''Schema:'' @ lf @ schema @ lf @ lf @ (if instructions = [] then [] else instructions @ lf @ lf) @ ''Text:'' @ lf @ txt)) (\<lambda>(response, extracted).
        ret (ok_output
          [(''extracted'', extracted), (''raw_response'', JString (ar_content response)), (''usage'', usage_to_json (ar_usage response)),
           (''cost_usd'', cost_number (config_cost config response))]))))))"

definition sentiment_prompt :: string where
  "sentiment_prompt = ''Analyze the sentiment of the given text. Return JSON: {'' @ dq ''sentiment'' @ '': '' @ dq ''positive|negative|neutral|mixed'' @ '', ''
     @ dq ''score'' @ '': -1.0 to 1.0, '' @ dq ''emotions'' @ '': {'' @ dq ''joy'' @ '': 0.0-1.0, ...}, '' @ dq ''reasoning'' @ '': '' @ dq ''...'' @ ''}''"

definition ai_sentiment_execute :: "'w ai_env \<Rightarrow> node_input \<Rightarrow> (ai_cache \<times> 'w, node_output) act" where
  "ai_sentiment_execute env inp = execute_ai_node env inp ''ai-sentiment'' ''text'' sentiment_prompt (\<lambda>parsed.
     [(''sentiment'', field_or parsed ''sentiment'' (JString ''neutral'')), (''score'', field_or parsed ''score'' (json_of_f64 (F 0))),
      (''emotions'', field_or parsed ''emotions'' (JObject fmempty)), (''reasoning'', field_or parsed ''reasoning'' (JString []))])"

definition ai_summarize_execute :: "'w ai_env \<Rightarrow> node_input \<Rightarrow> (ai_cache \<times> 'w, node_output) act" where
  "ai_summarize_execute env inp =
     (let cfg = resolve_config inp; txt = string_val cfg ''text'' []; style = string_val cfg ''style'' ''brief'';
          max_length = string_val cfg ''max_length'' ''1 paragraph'' in
      bindE (liftR (rejectR (txt = []) (InvalidNodeConfig ''ai-summarize node: text is required''))) (\<lambda>_.
      bindE (liftR (from_config (av_net env) cfg)) (\<lambda>config.
      bindE (ask_json env ''ai-summarize'' config
        (''You are a text summarizer. Summarize the given text in '' @ style @ '' style. Max length: '' @ max_length @ ''. Return JSON: {''
           @ dq ''summary'' @ '': '' @ dq ''...'' @ '', '' @ dq ''key_points'' @ '': ['' @ dq ''...'' @ '']}'') txt) (\<lambda>(response, parsed).
      bindE (liftR (require_object ''ai-summarize'' parsed)) (\<lambda>_.
        ret (ok_output
          [(''summary'', field_or parsed ''summary'' (JString (ar_content response))), (''key_points'', field_or parsed ''key_points'' (JArray [])),
           (''usage'', usage_to_json (ar_usage response)), (''cost_usd'', cost_number (config_cost config response))]))))))"

definition ai_translate_execute :: "'w ai_env \<Rightarrow> node_input \<Rightarrow> (ai_cache \<times> 'w, node_output) act" where
  "ai_translate_execute env inp =
     (let cfg = resolve_config inp; txt = string_val cfg ''text'' []; target_language = string_val cfg ''target_language'' ''English'';
          source_language = string_val cfg ''source_language'' ''auto''; tone = string_val cfg ''tone'' ''formal'' in
      bindE (liftR (rejectR (txt = []) (InvalidNodeConfig ''ai-translate node: text is required''))) (\<lambda>_.
      bindE (liftR (rejectR (target_language = []) (InvalidNodeConfig ''ai-translate node: target_language is required''))) (\<lambda>_.
      bindE (liftR (from_config (av_net env) cfg)) (\<lambda>config.
      bindE (ask_json env ''ai-translate'' config
        (''Translate the given text to '' @ target_language @ '' in a '' @ tone @ '' tone. If source_language is auto, detect it. Return JSON: {''
           @ dq ''translated'' @ '': '' @ dq ''...'' @ '', '' @ dq ''detected_language'' @ '': '' @ dq ''...'' @ ''}'')
        (if source_language = ''auto'' then txt else ''Source language: '' @ source_language @ lf @ lf @ txt)) (\<lambda>(response, parsed).
      bindE (liftR (require_object ''ai-translate'' parsed)) (\<lambda>_.
        ret (ok_output
          [(''translated'', field_or parsed ''translated'' (JString (ar_content response))),
           (''detected_language'', field_or parsed ''detected_language'' (JString source_language)),
           (''usage'', usage_to_json (ar_usage response)), (''cost_usd'', cost_number (config_cost config response))])))))))"

end
