(* ===== verification/AiLaws.thy ===== *)
theory AiLaws
  imports AiNodes EgressLaws
begin

text \<open>
  The AI nodes and what the rest of the program relies on: the stream of a chat is its answer, the engine's
  metering reads what the nodes report, and a cached client carries the key of the configuration it serves.
\<close>

section \<open>Streams\<close>

text \<open>
Streaming a chat gives the worker what running it gives: the terminal chunk carries the output of the plain
  execution, or its error, and the world ends up the same.
\<close>

theorem chat_stream_is_answer:
  "\<exists>chunks. ai_chat_streaming env inp s = ((chunks, Finished (Inr ())), snd (ai_chat_execute env inp s)) \<and>
     (case fst (ai_chat_execute env inp s) of
        Inr out \<Rightarrow> verdict (up_to_terminal chunks) = (Some out, None)
      | Inl e \<Rightarrow> verdict (up_to_terminal chunks) =
          (None, Some (if string_val (resolve_config inp) ''prompt'' [] = [] then ''ai-chat node: prompt is required'' else error_str e)))"
  by (auto simp: ai_chat_streaming_def ai_chat_execute_def bindE_def liftR_def rejectR_def ret_def Let_def ok_output_def verdict_def
      split: sum.split prod.split)

section \<open>Metering\<close>

lemma make_output_lookup: "fmlookup (make_output kvs) k = map_of (rev kvs) k"
  by (induction kvs rule: rev_induct) (auto simp: make_output_def split_beta)

lemma config_Inr: "num_of_f64 c = Some n \<Longrightarrow> num_as_f64 n = Some c"
  by (auto simp: num_of_f64_def split: f64.splits)

lemma usage_read [simp]:
  "json_get (usage_to_json u) ''prompt_tokens'' = Some (JNumber (num_of_i64 (tu_prompt_tokens u)))"
  "json_get (usage_to_json u) ''completion_tokens'' = Some (JNumber (num_of_i64 (tu_completion_tokens u)))"
  "json_get (usage_to_json u) ''total_tokens'' = Some (JNumber (num_of_i64 (tu_total_tokens u)))"
  by (simp_all add: usage_to_json_def make_output_lookup)

lemma round_zero: "f64_of_rat 0 = F 0"
  using f64_of_rat_small_int [of 0] by simp

lemma cost_read [simp]: "json_as_f64 (cost_number c) = Some (case c of F _ \<Rightarrow> c | _ \<Rightarrow> F 0)"
  by (simp add: cost_number_def num_of_f64_def num_of_i64_def round_zero split: f64.split)

text \<open>What the engine's metering reads of an output with the given usage and cost.\<close>

definition metered :: "token_usage \<Rightarrow> f64 \<Rightarrow> node_metrics \<Rightarrow> bool" where
  "metered u cost m \<longleftrightarrow>
     nm_tokens m = Some \<lparr>tk_prompt_tokens = word_of_int (tu_prompt_tokens u), tk_completion_tokens = word_of_int (tu_completion_tokens u),
       tk_total_tokens = word_of_int (tu_total_tokens u)\<rparr> \<and>
     nm_cost_usd m = (case cost of F _ \<Rightarrow> cost | _ \<Rightarrow> F 0)"

lemma meteredI:
  assumes "no_data out = Some (make_output kvs)" and "map_of (rev kvs) ''usage'' = Some (usage_to_json u)"
    and "map_of (rev kvs) ''cost_usd'' = Some v" and "json_as_f64 v = Some (case cost of F _ \<Rightarrow> cost | _ \<Rightarrow> F 0)"
  shows "\<exists>d. no_data out = Some d \<and> metered u cost (extract_metrics_from_output str d ms)"
  using assms by (simp add: metered_def extract_metrics_from_output_def make_output_lookup num_of_i64_def)

definition ai_executes :: "'w ai_env \<Rightarrow> (node_input \<Rightarrow> (ai_cache \<times> 'w, node_output) act) set" where
  "ai_executes env = {ai_chat_execute env, ai_classify_execute env, ai_extract_execute env, ai_sentiment_execute env,
     ai_summarize_execute env, ai_translate_execute env}"

lemma ask_json_Inr:
  "ask_json env node config sys msg s = (Inr (response, parsed), s') \<longleftrightarrow>
     chat_completion env config (Some sys) [(''user'', msg)] True s = (Inr response, s') \<and>
     model_json env (node @ '' node: model returned invalid JSON: '') response = Inr parsed"
  by (cases s') (auto simp: ask_json_def bindE_Inr_iff liftR_def ret_def)

text \<open>What a run of an AI node that succeeds has done.\<close>

definition completed :: "'w ai_env \<Rightarrow> node_input \<Rightarrow> ai_cache \<times> 'w \<Rightarrow> ai_config \<Rightarrow> ai_response \<Rightarrow> ai_cache \<times> 'w \<Rightarrow> bool" where
  "completed env inp s config response s' \<longleftrightarrow> from_config (av_net env) (resolve_config inp) = Inr config \<and>
     (\<exists>sys msgs json. chat_completion env config sys msgs json s = (Inr response, s'))"

lemma require_object_Inr: "liftR (require_object node v) s = (Inr u, s') \<longleftrightarrow> s' = s \<and> json_as_object v \<noteq> None"
  by (auto simp: liftR_def require_object_def)

lemmas node_run_simps = bindE_Inr_iff liftR_def ret_def ask_json_Inr Let_def completed_def

lemma chat_run:
  "ai_chat_execute env inp s = (Inr out, s') \<Longrightarrow> \<exists>config response. completed env inp s config response s' \<and>
     (\<exists>j. no_data out = Some (make_output (chat_pairs env config j response)))"
  by (auto simp: ai_chat_execute_def node_run_simps ok_output_def) blast

lemma classify_run:
  "ai_classify_execute env inp s = (Inr out, s') \<Longrightarrow> \<exists>config response. completed env inp s config response s' \<and>
     (\<exists>a b c d. no_data out = Some (make_output [(''category'', a), (''categories'', b), (''confidence'', c), (''reasoning'', d),
        (''usage'', usage_to_json (ar_usage response)), (''cost_usd'', cost_number (config_cost config response))]))"
  by (auto simp: ai_classify_execute_def node_run_simps ok_output_def split: prod.splits) blast+

lemma extract_run:
  "ai_extract_execute env inp s = (Inr out, s') \<Longrightarrow> \<exists>config response. completed env inp s config response s' \<and>
     (\<exists>a b. no_data out = Some (make_output [(''extracted'', a), (''raw_response'', b),
        (''usage'', usage_to_json (ar_usage response)), (''cost_usd'', cost_number (config_cost config response))]))"
  by (auto simp: ai_extract_execute_def node_run_simps ok_output_def split: prod.splits) blast+

lemma sentiment_run:
  "ai_sentiment_execute env inp s = (Inr out, s') \<Longrightarrow> \<exists>config response. completed env inp s config response s' \<and>
     (\<exists>a b c d n. num_of_f64 (config_cost config response) = Some n \<and>
        no_data out = Some (make_output [(''sentiment'', a), (''score'', b), (''emotions'', c), (''reasoning'', d),
          (''usage'', usage_to_json (ar_usage response)), (''cost_usd'', JNumber n)]))"
  by (auto simp: ai_sentiment_execute_def execute_ai_node_def node_run_simps ok_output_def split: prod.splits option.splits) blast+

lemma summarize_run:
  "ai_summarize_execute env inp s = (Inr out, s') \<Longrightarrow> \<exists>config response. completed env inp s config response s' \<and>
     (\<exists>a b. no_data out = Some (make_output [(''summary'', a), (''key_points'', b),
        (''usage'', usage_to_json (ar_usage response)), (''cost_usd'', cost_number (config_cost config response))]))"
  by (auto simp: ai_summarize_execute_def node_run_simps ok_output_def split: prod.splits) blast+

lemma translate_run:
  "ai_translate_execute env inp s = (Inr out, s') \<Longrightarrow> \<exists>config response. completed env inp s config response s' \<and>
     (\<exists>a b. no_data out = Some (make_output [(''translated'', a), (''detected_language'', b),
        (''usage'', usage_to_json (ar_usage response)), (''cost_usd'', cost_number (config_cost config response))]))"
  by (auto simp: ai_translate_execute_def node_run_simps ok_output_def split: prod.splits) blast+

lemma chat_pairs_read:
  "map_of (rev (chat_pairs env config j response)) ''usage'' = Some (usage_to_json (ar_usage response))"
  "map_of (rev (chat_pairs env config j response)) ''cost_usd'' = Some (cost_number (config_cost config response))"
  "map_of (rev (chat_pairs env config j response)) ''content'' = Some (JString (ar_content response))"
  by (cases j; cases "ne_json_parse (av_net env) (ar_content response)"; simp add: chat_pairs_def)+

text \<open>
Whichever AI node ran, the engine's metering of its output reads the token usage the provider answered and the
  cost of it under the configured model.
\<close>

theorem ai_usage_metered:
  assumes "ex \<in> ai_executes env" and "ex inp s = (Inr out, s')"
  shows "\<exists>config response d. completed env inp s config response s' \<and> no_data out = Some d \<and>
    metered (ar_usage response) (config_cost config response) (extract_metrics_from_output str d ms)"
proof -
  let ?Q = "\<lambda>config response kvs v. completed env inp s config response s' \<and> no_data out = Some (make_output kvs) \<and>
      map_of (rev kvs) ''usage'' = Some (usage_to_json (ar_usage response)) \<and> map_of (rev kvs) ''cost_usd'' = Some v \<and>
      json_as_f64 v = Some (case config_cost config response of F _ \<Rightarrow> config_cost config response | _ \<Rightarrow> F 0)"
  from assms consider "ai_chat_execute env inp s = (Inr out, s')" | "ai_classify_execute env inp s = (Inr out, s')"
    | "ai_extract_execute env inp s = (Inr out, s')" | "ai_sentiment_execute env inp s = (Inr out, s')"
    | "ai_summarize_execute env inp s = (Inr out, s')" | "ai_translate_execute env inp s = (Inr out, s')"
    by (auto simp: ai_executes_def)
  then have "\<exists>config response kvs v. ?Q config response kvs v"
  proof cases
    case 1
    from chat_run [OF this] obtain config response j where "completed env inp s config response s'"
      "no_data out = Some (make_output (chat_pairs env config j response))" by blast
    then have "?Q config response (chat_pairs env config j response) (cost_number (config_cost config response))"
      by (simp add: chat_pairs_read)
    then show ?thesis by blast
  next
    case 2
    from classify_run [OF this] show ?thesis by (fastforce simp: round_zero)
  next
    case 3
    from extract_run [OF this] show ?thesis by (fastforce simp: round_zero)
  next
    case 4
    from sentiment_run [OF this] show ?thesis by (fastforce simp: num_of_f64_def split: f64.splits)
  next
    case 5
    from summarize_run [OF this] show ?thesis by (fastforce simp: round_zero)
  next
    case 6
    from translate_run [OF this] show ?thesis by (fastforce simp: round_zero)
  qed
  then show ?thesis using meteredI by blast
qed

text \<open>Of these nodes only the chat counts as a call of an interface.\<close>

lemma only_chat_is_api_call:
  assumes "ex \<in> ai_executes env" and "ex inp s = (Inr out, s')" and "no_data out = Some d" and "ex \<noteq> ai_chat_execute env"
  shows "nm_api_calls (extract_metrics_from_output str d ms) = 0"
proof -
  from assms(1,2,4) consider "ai_classify_execute env inp s = (Inr out, s')"
    | "ai_extract_execute env inp s = (Inr out, s')" | "ai_sentiment_execute env inp s = (Inr out, s')"
    | "ai_summarize_execute env inp s = (Inr out, s')" | "ai_translate_execute env inp s = (Inr out, s')"
    by (auto simp: ai_executes_def)
  then have "fmlookup d ''status'' = None \<and> fmlookup d ''content'' = None"
    using assms(3) by cases (auto simp: make_output_lookup dest!: classify_run extract_run sentiment_run summarize_run translate_run)
  then show ?thesis by (simp add: extract_metrics_from_output_def)
qed

section \<open>The cache of clients\<close>

text \<open>The cache after completions with these configurations, oldest first.\<close>

definition cache_after :: "'w ai_env \<Rightarrow> ai_config list \<Rightarrow> ai_cache" where
  "cache_after env configs = fold (\<lambda>config cache. snd (get_or_build_client env config cache)) configs fmempty"

lemma build_client_key: "ac_provider a = ac_provider b \<Longrightarrow> ac_base_url a = ac_base_url b \<Longrightarrow> ac_api_key a = ac_api_key b \<Longrightarrow> build_client a = build_client b"
  by (simp add: build_client_def Let_def)

lemma cache_after_lookup:
  "fmlookup (cache_after env configs) k = Some client \<Longrightarrow> \<exists>config \<in> set configs. client_key env config = k \<and> client = build_client config"
proof (induction configs arbitrary: client rule: rev_induct)
  case (snoc config configs)
  then show ?case
    by (auto simp: cache_after_def get_or_build_client_def Let_def split: option.splits if_splits)
qed (simp add: cache_after_def)

text \<open>
As long as the hash separates the keys in use, a completion is sent with the client its own configuration
  describes, in particular with its own key, whatever completions filled the cache before.
\<close>

theorem ai_client_own_key:
  assumes "inj_on (av_hash env) (ac_api_key ` set (config # configs))"
  shows "fst (get_or_build_client env config (cache_after env configs)) = build_client config"
proof (cases "fmlookup (cache_after env configs) (client_key env config)")
  case (Some client)
  from cache_after_lookup [OF this] obtain c where c: "c \<in> set configs" "client_key env c = client_key env config" "client = build_client c"
    by blast
  from c(2) have "av_hash env (ac_api_key c) = av_hash env (ac_api_key config)" by (simp add: client_key_def)
  from inj_onD [OF assms this] c(1) have "ac_api_key c = ac_api_key config" by simp
  with c have "client = build_client config" by (auto simp: client_key_def intro: build_client_key)
  with Some show ?thesis by (simp add: get_or_build_client_def)
qed (simp add: get_or_build_client_def Let_def)

text \<open>Two keys with one hash: the later configuration is served with the key of the earlier one.\<close>

lemma colliding_keys:
  assumes "av_hash env (ac_api_key a) = av_hash env (ac_api_key b)" and "ac_provider a = ac_provider b" and "ac_base_url a = ac_base_url b"
    and "ac_provider a \<noteq> Ollama"
  shows "gc_auth (fst (get_or_build_client env b (cache_after env [a]))) = Some (ac_api_key a)"
  using assms by (simp add: cache_after_def get_or_build_client_def client_key_def build_client_def Let_def)

section \<open>Witnesses\<close>

definition ai_sim :: "sim_world ai_env" where
  "ai_sim = \<lparr>av_net = sim_env (sly_net\<lparr>sn_parse := (\<lambda>_. Inr public_url)\<rparr>), av_hash = (\<lambda>k. of_nat (length k)),
     av_exec = (\<lambda>_ _ _ w. (ChatDone \<lparr>gr_content = Some ''hi'', gr_prompt_tokens = Some 3, gr_completion_tokens = Some 2,
       gr_total_tokens = Some 5, gr_model_name = ''m''\<rparr>, w)), av_pretty = (\<lambda>_. [])\<rparr>"

definition ask_hi :: node_input where
  "ask_hi = get_api\<lparr>ni_input := Some (fmap_of_list [(''prompt'', JString ''hi''), (''provider'', JString ''ollama'')])\<rparr>"

lemma ask_hi_config [simp]:
  "fmlookup (resolve_config ask_hi) k = (if k = ''prompt'' then Some (JString ''hi'') else if k = ''provider'' then Some (JString ''ollama'') else None)"
  by (simp add: resolve_config_lookup ask_hi_def get_api_def fmlookup_of_list)

lemma ask_hi_runs: "\<exists>out. ai_chat_execute ai_sim ask_hi (fmempty, []) = (Inr out, snd (ai_chat_execute ai_sim ask_hi (fmempty, [])))"
proof -
  have "validate_url_not_private (sim_env (sly_net\<lparr>sn_parse := (\<lambda>_. Inr public_url)\<rparr>)) s True = Inr ()" for s
    by (simp add: validate_url_not_private_def parse_checked_def public_url_def ALLOWED_SCHEMES_def BLOCKED_HOSTNAMES_def
        host_nonempty_def or_config_error_def ip_of_host_def rejectR_def Let_def)
  then have "\<exists>config. from_config (av_net ai_sim) (resolve_config ask_hi) = Inr config \<and> ac_is_default_base_url config"
    by (simp add: from_config_def parse_provider_def ai_sim_def string_val_def rejectR_def validate_ai_base_url_def Let_def)
  then show ?thesis
    by (auto simp: ai_chat_execute_def bindE_def liftR_def rejectR_def string_val_def ret_def chat_completion_def ai_sim_def Let_def split_beta)
qed

theorem ai_usage_metered_witness:
  "\<exists>config response d. completed ai_sim ask_hi (fmempty, []) config response (snd (ai_chat_execute ai_sim ask_hi (fmempty, []))) \<and>
     metered (ar_usage response) (config_cost config response) (extract_metrics_from_output (\<lambda>_. []) d 7)"
proof -
  from ask_hi_runs obtain out where "ai_chat_execute ai_sim ask_hi (fmempty, []) = (Inr out, snd (ai_chat_execute ai_sim ask_hi (fmempty, [])))"
    by blast
  from ai_usage_metered [of "ai_chat_execute ai_sim" ai_sim, OF _ this, of "\<lambda>_. []" 7] show ?thesis by (auto simp: ai_executes_def)
qed

definition tenant :: "string \<Rightarrow> ai_config" where
  "tenant key = \<lparr>ac_provider = OpenAi, ac_api_key = key, ac_base_url = ''https://api.openai.com/v1/'', ac_organization = None, ac_model = ''gpt-4o'',
     ac_temperature = F 1, ac_max_tokens = 10, ac_is_default_base_url = True\<rparr>"

theorem ai_client_own_key_witness:
  "gc_auth (fst (get_or_build_client ai_sim (tenant ''b12'') (cache_after ai_sim [tenant ''a1'']))) = Some ''b12''"
proof -
  have "inj_on (av_hash ai_sim) (ac_api_key ` set [tenant ''b12'', tenant ''a1''])" by (simp add: ai_sim_def tenant_def)
  from ai_client_own_key [OF this] show ?thesis by (simp add: build_client_def tenant_def Let_def)
qed

end
