(* ===== verification/SlaStats.thy ===== *)
theory SlaStats
  imports EngineBase
begin

text \<open>
  Rolling statistics and the SLA monitor: \<open>crates/orbflow-core/src/prediction.rs\<close>, \<open>crates/orbflow-engine/src/sla.rs\<close>,
  and alert rules: \<open>crates/orbflow-core/src/alerts.rs\<close>, \<open>crates/orbflow-engine/src/alerts.rs\<close>. The square root of
  the standard library is a parameter. The locks of the monitor are not modelled: no lock is held across another.
\<close>

section \<open>Rolling statistics\<close>

definition F64_EPSILON :: f64 where
  "F64_EPSILON = F (1 / 2 ^ 52)"

record rolling_stats =
  rl_window_size :: nat
  rl_values :: "f64 list"

definition rl_new :: "nat \<Rightarrow> rolling_stats" where
  "rl_new window_size = \<lparr>rl_window_size = window_size, rl_values = []\<rparr>"

definition rl_push :: "f64 \<Rightarrow> rolling_stats \<Rightarrow> rolling_stats" where
  "rl_push value r =
     (let vs = (if length (rl_values r) \<ge> rl_window_size r then drop 1 (rl_values r) else rl_values r) in
      r\<lparr>rl_values := vs @ [value]\<rparr>)"

definition f64_sum :: "f64 list \<Rightarrow> f64" where
  "f64_sum xs = fold (\<lambda>x acc. f64_add acc x) xs (F 0)"

definition f64_of_usize :: "nat \<Rightarrow> f64" where
  "f64_of_usize n = f64_of_rat (of_nat n)"

definition rl_mean :: "rolling_stats \<Rightarrow> f64 option" where
  "rl_mean r = (if rl_values r = [] then None
     else Some (f64_div (f64_sum (rl_values r)) (f64_of_usize (length (rl_values r)))))"

definition rl_stddev :: "(f64 \<Rightarrow> f64) \<Rightarrow> rolling_stats \<Rightarrow> f64 option" where
  "rl_stddev sq_root r = Option.bind (rl_mean r) (\<lambda>mean.
     if length (rl_values r) < 2 then None
     else
       let variance = f64_div (f64_sum (map (\<lambda>v. f64_mul (f64_sub v mean) (f64_sub v mean)) (rl_values r)))
             (f64_of_usize (length (rl_values r) - 1)) in
       Some (sq_root variance))"

definition z_score :: "(f64 \<Rightarrow> f64) \<Rightarrow> rolling_stats \<Rightarrow> f64 \<Rightarrow> f64 option" where
  "z_score sq_root r value = Option.bind (rl_mean r) (\<lambda>mean. Option.bind (rl_stddev sq_root r) (\<lambda>stddev.
     if f64_lt stddev F64_EPSILON then None else Some (f64_div (f64_sub value mean) stddev)))"

definition is_anomalous :: "(f64 \<Rightarrow> f64) \<Rightarrow> rolling_stats \<Rightarrow> f64 \<Rightarrow> f64 \<Rightarrow> bool" where
  "is_anomalous sq_root r value threshold =
     (case z_score sq_root r value of Some z \<Rightarrow> f64_lt threshold (f64_abs z) | None \<Rightarrow> False)"

datatype anomaly_severity = AnomalyWarning | AnomalyHigh | AnomalyCritical

definition from_z_score :: "f64 \<Rightarrow> anomaly_severity option" where
  "from_z_score z =
     (let abs_z = f64_abs z in
      if f64_lt (F 4) abs_z then Some AnomalyCritical
      else if f64_lt (F 3) abs_z then Some AnomalyHigh
      else if f64_lt (F 2) abs_z then Some AnomalyWarning
      else None)"

record anomaly_context =
  ax_workflow_id :: "string option"
  ax_node_id :: "string option"
  ax_instance_id :: "string option"

record anomaly =
  ay_metric :: string
  ay_observed :: f64
  ay_expected_mean :: f64
  ay_stddev :: f64
  ay_z_score :: f64
  ay_severity :: anomaly_severity
  ay_detected_at :: int
  ay_context :: anomaly_context

definition check_anomaly ::
  "(f64 \<Rightarrow> f64) \<Rightarrow> int \<Rightarrow> rolling_stats \<Rightarrow> f64 \<Rightarrow> string \<Rightarrow> f64 \<Rightarrow> anomaly_context \<Rightarrow> anomaly option" where
  "check_anomaly sq_root now stats value metric threshold ctx =
     Option.bind (z_score sq_root stats value) (\<lambda>z.
     Option.bind (from_z_score z) (\<lambda>severity.
     Option.bind (rl_mean stats) (\<lambda>mean.
     Option.bind (rl_stddev sq_root stats) (\<lambda>stddev.
       if f64_le (f64_abs z) threshold then None
       else Some \<lparr>ay_metric = metric, ay_observed = value, ay_expected_mean = mean, ay_stddev = stddev, ay_z_score = z,
         ay_severity = severity, ay_detected_at = now, ay_context = ctx\<rparr>))))"

section \<open>The SLA monitor\<close>

definition ANOMALY_THRESHOLD :: f64 where
  "ANOMALY_THRESHOLD = F 3"

definition ROLLING_WINDOW_SIZE :: nat where
  "ROLLING_WINDOW_SIZE = 100"

record sla_config =
  sc_max_duration_ms :: "int option"
  sc_max_failure_rate :: "f64 option"

record sla_monitor =
  sm_stats :: "(string, rolling_stats) fmap"
  sm_failure_stats :: "(string, rolling_stats) fmap"
  sm_configs :: "(string, sla_config) fmap"

definition sla_new :: sla_monitor where
  "sla_new = \<lparr>sm_stats = fmempty, sm_failure_stats = fmempty, sm_configs = fmempty\<rparr>"

definition set_config :: "string \<Rightarrow> sla_config \<Rightarrow> sla_monitor \<Rightarrow> sla_monitor" where
  "set_config w config m = m\<lparr>sm_configs := fmupd w config (sm_configs m)\<rparr>"

definition rolling_of :: "(string, rolling_stats) fmap \<Rightarrow> string \<Rightarrow> rolling_stats" where
  "rolling_of stats w = (case fmlookup stats w of Some r \<Rightarrow> r | None \<Rightarrow> rl_new ROLLING_WINDOW_SIZE)"

definition record_failure :: "string \<Rightarrow> sla_monitor \<Rightarrow> sla_monitor" where
  "record_failure w m = m\<lparr>sm_failure_stats := fmupd w (rl_push (F 1) (rolling_of (sm_failure_stats m) w)) (sm_failure_stats m)\<rparr>"

definition record_success :: "string \<Rightarrow> sla_monitor \<Rightarrow> sla_monitor" where
  "record_success w m = m\<lparr>sm_failure_stats := fmupd w (rl_push (F 0) (rolling_of (sm_failure_stats m) w)) (sm_failure_stats m)\<rparr>"

definition or_zero :: "f64 option \<Rightarrow> f64" where
  "or_zero x = (case x of Some y \<Rightarrow> y | None \<Rightarrow> F 0)"

definition check_failure_rate :: "(f64 \<Rightarrow> f64) \<Rightarrow> sla_monitor \<Rightarrow> string \<Rightarrow> sla_check_result option" where
  "check_failure_rate sq_root m w =
     Option.bind (fmlookup (sm_failure_stats m) w) (\<lambda>rolling.
     Option.bind (rl_mean rolling) (\<lambda>current_rate.
       if is_anomalous sq_root rolling current_rate ANOMALY_THRESHOLD
       then Some (FailureRateAnomaly w current_rate (or_zero (rl_mean rolling)) (or_zero (z_score sq_root rolling current_rate)))
       else None))"

definition check_and_record :: "(f64 \<Rightarrow> f64) \<Rightarrow> string \<Rightarrow> int \<Rightarrow> sla_monitor \<Rightarrow> sla_check_result \<times> sla_monitor" where
  "check_and_record sq_root w duration_ms m =
     (let d = f64_of_rat (of_int duration_ms);
          rolling = rl_push d (rolling_of (sm_stats m) w);
          m' = m\<lparr>sm_stats := fmupd w rolling (sm_stats m)\<rparr>;
          anomalous = is_anomalous sq_root rolling d ANOMALY_THRESHOLD;
          expected_mean_ms = or_zero (rl_mean rolling);
          z = or_zero (z_score sq_root rolling d) in
      case Option.bind (fmlookup (sm_configs m') w) sc_max_duration_ms of
        Some max_ms \<Rightarrow>
          if duration_ms > max_ms then (DurationViolation duration_ms max_ms, m')
          else if anomalous then (LatencyAnomaly duration_ms expected_mean_ms z, m')
          else (case check_failure_rate sq_root m' w of Some r \<Rightarrow> (r, m') | None \<Rightarrow> (SlaOk, m'))
      | None \<Rightarrow>
          if anomalous then (LatencyAnomaly duration_ms expected_mean_ms z, m')
          else (case check_failure_rate sq_root m' w of Some r \<Rightarrow> (r, m') | None \<Rightarrow> (SlaOk, m')))"

section \<open>Alert rules\<close>

datatype alert_metric = FailureRate | P95Duration | ExecutionCount
datatype alert_operator = GreaterThan | LessThan | EqualTo
datatype alert_channel = AlertWebhook string | AlertLog

record alert_rule =
  al_id :: string
  al_workflow_id :: "string option"
  al_metric :: alert_metric
  al_operator :: alert_operator
  al_threshold :: f64
  al_channel :: alert_channel
  al_enabled :: bool
  al_created_at :: int

record daily_count =
  dc_date :: string
  dc_count :: int
  dc_failed :: int

record execution_stats =
  es_total :: int
  es_succeeded :: int
  es_failed :: int
  es_running :: int
  es_avg_duration_ms :: f64
  es_p50_duration_ms :: f64
  es_p95_duration_ms :: f64
  es_p99_duration_ms :: f64
  es_executions_by_day :: "daily_count list"

definition evaluate_rule :: "alert_rule \<Rightarrow> f64 \<Rightarrow> bool" where
  "evaluate_rule rule current_value =
     (if \<not> al_enabled rule then False
      else (case al_operator rule of
          GreaterThan \<Rightarrow> f64_lt (al_threshold rule) current_value
        | LessThan \<Rightarrow> f64_lt current_value (al_threshold rule)
        | EqualTo \<Rightarrow> f64_lt (f64_abs (f64_sub current_value (al_threshold rule))) F64_EPSILON))"

definition extract_metric_value :: "execution_stats \<Rightarrow> alert_metric \<Rightarrow> f64" where
  "extract_metric_value stats metric = (case metric of
       FailureRate \<Rightarrow> (if es_total stats = 0 then F 0
         else f64_div (f64_of_rat (of_int (es_failed stats))) (f64_of_rat (of_int (es_total stats))))
     | P95Duration \<Rightarrow> es_p95_duration_ms stats
     | ExecutionCount \<Rightarrow> f64_of_rat (of_int (es_total stats)))"

definition evaluate_rules :: "execution_stats result \<Rightarrow> alert_rule list \<Rightarrow> alert_rule list result" where
  "evaluate_rules stats rules =
     bindR stats (\<lambda>s. Inr (fold (\<lambda>rule triggered.
       if \<not> al_enabled rule then triggered
       else if evaluate_rule rule (extract_metric_value s (al_metric rule)) then triggered @ [rule] else triggered) rules []))"

section \<open>Laws\<close>

text \<open>The window holds the last observations, at most as many as its size.\<close>

lemma rl_push_window:
  assumes "0 < n" and "rl_window_size r = n" and "rl_values r = drop (length xs - n) xs"
  shows "rl_window_size (rl_push x r) = n \<and> rl_values (rl_push x r) = drop (Suc (length xs) - n) (xs @ [x])"
proof (cases "n \<le> length xs")
  case True
  then have "drop 1 (drop (length xs - n) xs) = drop (Suc (length xs) - n) xs" by (simp add: Suc_diff_le)
  with assms True show ?thesis by (simp add: rl_push_def Let_def)
next
  case False
  with assms show ?thesis by (simp add: rl_push_def Let_def)
qed

lemma rolling_window:
  assumes "0 < n"
  shows "rl_values (fold rl_push xs (rl_new n)) = drop (length xs - n) xs"
proof -
  have "rl_window_size (fold rl_push xs (rl_new n)) = n \<and> rl_values (fold rl_push xs (rl_new n)) = drop (length xs - n) xs"
  proof (induction xs rule: rev_induct)
    case (snoc x xs)
    with rl_push_window [OF assms, of "fold rl_push xs (rl_new n)" xs x] show ?case by simp
  qed (simp add: rl_new_def)
  then show ?thesis by simp
qed

text \<open>What happens to one workflow's monitor.\<close>

datatype sla_step = Failed string | Succeeded string | Finished_in string int | Configured string sla_config

fun sla_run :: "(f64 \<Rightarrow> f64) \<Rightarrow> sla_step \<Rightarrow> sla_monitor \<Rightarrow> sla_monitor" where
  "sla_run sq_root (Failed w) m = record_failure w m"
| "sla_run sq_root (Succeeded w) m = record_success w m"
| "sla_run sq_root (Finished_in w ms) m = snd (check_and_record sq_root w ms m)"
| "sla_run sq_root (Configured w c) m = set_config w c m"

lemma check_and_record_simps [simp]:
  "sm_failure_stats (snd (check_and_record sq_root w ms m)) = sm_failure_stats m"
  "sm_stats (snd (check_and_record sq_root w ms m)) = fmupd w (rl_push (f64_of_rat (of_int ms)) (rolling_of (sm_stats m) w)) (sm_stats m)"
  by (simp_all add: check_and_record_def Let_def split: option.split)

fun outcomes_of :: "string \<Rightarrow> sla_step list \<Rightarrow> f64 list" where
  "outcomes_of w [] = []"
| "outcomes_of w (s # ss) = (case s of
       Failed v \<Rightarrow> (if v = w then [F 1] else [])
     | Succeeded v \<Rightarrow> (if v = w then [F 0] else [])
     | _ \<Rightarrow> []) @ outcomes_of w ss"

fun durations_of :: "string \<Rightarrow> sla_step list \<Rightarrow> f64 list" where
  "durations_of w [] = []"
| "durations_of w (s # ss) = (case s of Finished_in v ms \<Rightarrow> (if v = w then [f64_of_rat (of_int ms)] else []) | _ \<Rightarrow> []) @ durations_of w ss"

lemma rolling_of_upd [simp]: "rolling_of (fmupd v r stats) w = (if w = v then r else rolling_of stats w)"
  by (simp add: rolling_of_def)

lemma sla_rolling:
  "rolling_of (sm_failure_stats (fold (sla_run sq_root) steps m)) w = fold rl_push (outcomes_of w steps) (rolling_of (sm_failure_stats m) w) \<and>
   rolling_of (sm_stats (fold (sla_run sq_root) steps m)) w = fold rl_push (durations_of w steps) (rolling_of (sm_stats m) w)"
proof (induction steps arbitrary: m)
  case (Cons s steps)
  then show ?case by (cases s) (auto simp: record_failure_def record_success_def set_config_def)
qed simp

text \<open>
Whatever happens in the engine, the monitor judges a workflow by its own last hundred outcomes and durations.
\<close>

theorem sla_window_exact:
  "rl_values (rolling_of (sm_failure_stats (fold (sla_run sq_root) steps sla_new)) w) = drop (length (outcomes_of w steps) - 100) (outcomes_of w steps) \<and>
   rl_values (rolling_of (sm_stats (fold (sla_run sq_root) steps sla_new)) w) = drop (length (durations_of w steps) - 100) (durations_of w steps)"
proof -
  have "rolling_of fmempty w = rl_new 100" by (simp add: rolling_of_def ROLLING_WINDOW_SIZE_def)
  then show ?thesis
    using sla_rolling [of sq_root steps sla_new w] rolling_window [of 100] by (simp add: sla_new_def)
qed

lemma round_zero_rat: "f64_of_rat 0 = F 0"
  using f64_of_rat_small_int [of 0] by simp

text \<open>The window's mean is never an anomaly of the window.\<close>

lemma mean_not_anomalous:
  assumes "rl_mean r = Some mean" and "f64_lt (F 0) threshold \<or> threshold = F 0"
  shows "\<not> is_anomalous sq_root r mean threshold"
proof -
  have "f64_sub mean mean = F 0 \<or> f64_sub mean mean = F_NaN"
    by (cases mean) (simp_all add: f64_sub_def f64_neg_def round_zero_rat)
  then have z: "f64_abs (f64_div (f64_sub mean mean) d) \<in> {F 0, F_NaN}" for d
    by (cases d) (auto simp: f64_abs_def round_zero_rat)
  from assms(2) have "\<not> f64_lt threshold (f64_abs (f64_div (f64_sub mean mean) d))" for d
    using z [of d] by (cases threshold) auto
  with assms(1) show ?thesis by (simp add: is_anomalous_def z_score_def split: option.split bind_split)
qed

lemma failure_rate_none: "check_failure_rate sq_root m w = None"
  using mean_not_anomalous [of _ _ ANOMALY_THRESHOLD sq_root]
  by (auto simp: check_failure_rate_def ANOMALY_THRESHOLD_def Option.bind_eq_None_conv split: bind_split)

text \<open>
  C25. The monitor never reports an anomalous failure rate, whatever the outcomes of a workflow were: it asks whether
  the mean of the window is anomalous in the window.
\<close>

theorem failure_rate_never_anomalous:
  "check_failure_rate sq_root (fold (sla_run sq_root) steps sla_new) w = None \<and>
   fst (check_and_record sq_root w ms (fold (sla_run sq_root) steps sla_new)) \<noteq> FailureRateAnomaly v rate expected z"
  by (simp add: check_and_record_def Let_def failure_rate_none split: option.split)

text \<open>Without a configuration the monitor reports no violation of a duration.\<close>

lemma no_violation_unconfigured:
  "fmlookup (sm_configs m) w = None \<Longrightarrow> fst (check_and_record sq_root w ms m) \<noteq> DurationViolation a b"
  by (simp add: check_and_record_def Let_def failure_rate_none split: option.split)

lemma evaluate_rules_exact:
  "evaluate_rules (Inr s) rules = Inr (filter (\<lambda>rule. evaluate_rule rule (extract_metric_value s (al_metric rule))) rules)"
proof -
  have "fold (\<lambda>rule triggered. if \<not> al_enabled rule then triggered
       else if evaluate_rule rule (extract_metric_value s (al_metric rule)) then triggered @ [rule] else triggered) rules acc =
     acc @ filter (\<lambda>rule. evaluate_rule rule (extract_metric_value s (al_metric rule))) rules" for acc
    by (induction rules arbitrary: acc) (auto simp: evaluate_rule_def)
  then show ?thesis by (simp add: evaluate_rules_def)
qed

end
