(* ===== verification/TestSuites.thy ===== *)
theory TestSuites
  imports TestNode Lifecycle MemWorld
begin

text \<open>
  Test suites: \<open>crates/orbflow-core/src/testing.rs\<close> and the methods \<open>run_test_suite\<close> and \<open>compute_test_coverage\<close>
  of the trait \<open>Engine\<close> (\<open>crates/orbflow-core/src/ports.rs\<close>), which the engine inherits. The crate regex is a
  parameter. Durations are read from an \<open>Instant\<close> of the world.
\<close>

section \<open>Assertions\<close>

datatype matcher_type = MEquals | MContains | MGreaterThan | MLessThan | MExists | MNotExists | MRegex | MTypeOf

record test_assertion =
  ta_field_path :: string
  ta_matcher :: matcher_type
  ta_expected :: "json option"
  ta_message :: "string option"

record test_case =
  tc_name :: string
  tc_node_id :: string
  tc_input_overrides :: "jmap option"
  tc_assertions :: "test_assertion list"

record test_suite =
  ts_name :: string
  ts_workflow_id :: string
  ts_description :: "string option"
  ts_cases :: "test_case list"
  ts_created_at :: int

record assertion_result =
  as_passed :: bool
  as_field_path :: string
  as_matcher :: matcher_type
  as_expected :: "json option"
  as_actual :: "json option"
  as_message :: "string option"

record test_case_result =
  tcr_name :: string
  tcr_node_id :: string
  tcr_passed :: bool
  tcr_assertions :: "assertion_result list"
  tcr_error :: "string option"
  tcr_duration_ms :: nat

record test_suite_result =
  sr_suite_name :: string
  sr_workflow_id :: string
  sr_total :: nat
  sr_passed :: nat
  sr_failed :: nat
  sr_results :: "test_case_result list"
  sr_duration_ms :: nat
  sr_run_at :: int

record coverage_report =
  cv_workflow_id :: string
  cv_total_nodes :: nat
  cv_tested_nodes :: nat
  cv_coverage_pct :: f64
  cv_untested_nodes :: "string list"

text \<open>A compiled pattern decides a text.\<close>

type_synonym regex_crate = "string \<Rightarrow> string + (string \<Rightarrow> bool)"

definition build_test_cached_outputs :: "jmap option \<Rightarrow> (string, jmap) fmap" where
  "build_test_cached_outputs overrides = (case overrides of
       None \<Rightarrow> fmempty
     | Some m \<Rightarrow> fmmap (\<lambda>v. case v of JObject obj \<Rightarrow> obj | other \<Rightarrow> fmupd ''value'' other fmempty) m)"

fun get_path :: "json \<Rightarrow> string list \<Rightarrow> json option" where
  "get_path v [] = Some v"
| "get_path v (s # ss) = (case json_get v s of None \<Rightarrow> None | Some w \<Rightarrow> get_path w ss)"

definition resolve_field_path :: "jmap \<Rightarrow> string \<Rightarrow> json option" where
  "resolve_field_path out path = (case split_on (CHR ''.'') path of
       [] \<Rightarrow> None
     | s # ss \<Rightarrow> (case fmlookup out s of None \<Rightarrow> None | Some v \<Rightarrow> get_path v ss))"

definition json_type_name :: "json \<Rightarrow> string" where
  "json_type_name v = (case v of
       JString _ \<Rightarrow> ''string'' | JNumber _ \<Rightarrow> ''number'' | JBool _ \<Rightarrow> ''boolean'' | JObject _ \<Rightarrow> ''object''
     | JArray _ \<Rightarrow> ''array'' | JNull \<Rightarrow> ''null'')"

definition assertion_result_of :: "test_assertion \<Rightarrow> json option \<Rightarrow> bool \<Rightarrow> string option \<Rightarrow> assertion_result" where
  "assertion_result_of a actual passed message =
     \<lparr>as_passed = passed, as_field_path = ta_field_path a, as_matcher = ta_matcher a, as_expected = ta_expected a,
      as_actual = actual, as_message = message\<rparr>"

definition compare_f64 :: "(f64 \<Rightarrow> f64 \<Rightarrow> bool) \<Rightarrow> json option \<Rightarrow> json option \<Rightarrow> bool" where
  "compare_f64 r actual expected = (case (actual, expected) of
       (Some a, Some e) \<Rightarrow> (case (json_as_f64 a, json_as_f64 e) of (Some x, Some y) \<Rightarrow> r x y | _ \<Rightarrow> False)
     | _ \<Rightarrow> False)"

definition match_regex :: "regex_crate \<Rightarrow> test_assertion \<Rightarrow> json option \<Rightarrow> assertion_result" where
  "match_regex rx a actual = (case (actual, ta_expected a) of
       (Some (JString txt), Some (JString pattern)) \<Rightarrow>
         if length pattern > 512 then assertion_result_of a actual False (Some ''regex pattern exceeds 512 byte limit'')
         else (case rx pattern of
             Inr re \<Rightarrow> assertion_result_of a actual (re txt) (ta_message a)
           | Inl e \<Rightarrow> assertion_result_of a actual False (Some (''invalid regex pattern: '' @ e)))
     | _ \<Rightarrow> assertion_result_of a actual False (ta_message a))"

definition evaluate_assertion :: "regex_crate \<Rightarrow> test_assertion \<Rightarrow> jmap \<Rightarrow> assertion_result" where
  "evaluate_assertion rx a out =
     (let actual = resolve_field_path out (ta_field_path a) in
      case ta_matcher a of
        MExists \<Rightarrow> assertion_result_of a actual (actual \<noteq> None) (ta_message a)
      | MNotExists \<Rightarrow> assertion_result_of a actual (actual = None) (ta_message a)
      | MEquals \<Rightarrow> assertion_result_of a actual (actual \<noteq> None \<and> ta_expected a \<noteq> None \<and> actual = ta_expected a) (ta_message a)
      | MContains \<Rightarrow> assertion_result_of a actual
          (case (actual, ta_expected a) of (Some (JString haystack), Some (JString needle)) \<Rightarrow> str_contains needle haystack | _ \<Rightarrow> False) (ta_message a)
      | MGreaterThan \<Rightarrow> assertion_result_of a actual (compare_f64 (\<lambda>x y. f64_lt y x) actual (ta_expected a)) (ta_message a)
      | MLessThan \<Rightarrow> assertion_result_of a actual (compare_f64 f64_lt actual (ta_expected a)) (ta_message a)
      | MRegex \<Rightarrow> match_regex rx a actual
      | MTypeOf \<Rightarrow> assertion_result_of a actual
          (case (actual, ta_expected a) of (Some v, Some (JString t)) \<Rightarrow> json_type_name v = t | _ \<Rightarrow> False) (ta_message a))"

section \<open>Suites\<close>

text \<open>The world's \<open>Instant\<close> in milliseconds, and the regular expressions.\<close>

record 'w suite_env =
  se_instant :: "'w \<Rightarrow> nat \<times> 'w"
  se_regex :: regex_crate

definition instant :: "'w suite_env \<Rightarrow> ('w engine, nat) act" where
  "instant senv = portG (\<lambda>w. case se_instant senv w of (t, w') \<Rightarrow> (Inr t, w'))"

definition case_output :: "test_case \<Rightarrow> test_node_result \<Rightarrow> jmap" where
  "case_output c res = (case Option.bind (fmlookup (tr_node_outputs res) (tc_node_id c)) st_output of Some m \<Rightarrow> m | None \<Rightarrow> fmempty)"

definition result_of_case :: "regex_crate \<Rightarrow> test_case \<Rightarrow> test_node_result result \<Rightarrow> nat \<Rightarrow> test_case_result" where
  "result_of_case rx c r duration_ms = (case r of
       Inr res \<Rightarrow>
         let assertion_results = map (\<lambda>a. evaluate_assertion rx a (case_output c res)) (tc_assertions c) in
         \<lparr>tcr_name = tc_name c, tcr_node_id = tc_node_id c, tcr_passed = list_all as_passed assertion_results,
          tcr_assertions = assertion_results, tcr_error = None, tcr_duration_ms = duration_ms\<rparr>
     | Inl e \<Rightarrow>
         \<lparr>tcr_name = tc_name c, tcr_node_id = tc_node_id c, tcr_passed = False, tcr_assertions = [],
          tcr_error = Some (error_str e), tcr_duration_ms = duration_ms\<rparr>)"

definition run_test_case ::
  "'w engine_env \<Rightarrow> (('w, node_output) act \<Rightarrow> ('w, node_output) act) \<Rightarrow> 'w suite_env \<Rightarrow> string \<Rightarrow> test_case \<Rightarrow> ('w engine, test_case_result) act" where
  "run_test_case env timed senv workflow_id c =
     bindE (instant senv) (\<lambda>case_start.
     tryE (test_node env timed workflow_id (tc_node_id c) (build_test_cached_outputs (tc_input_overrides c)) None) (\<lambda>r.
     bindE (instant senv) (\<lambda>case_end.
       ret (result_of_case (se_regex senv) c r (case_end - case_start)))))"

fun run_test_cases ::
  "'w engine_env \<Rightarrow> (('w, node_output) act \<Rightarrow> ('w, node_output) act) \<Rightarrow> 'w suite_env \<Rightarrow> string \<Rightarrow> test_case list \<Rightarrow> test_case_result list \<Rightarrow>
   ('w engine, test_case_result list) act" where
  "run_test_cases env timed senv workflow_id [] results = ret results"
| "run_test_cases env timed senv workflow_id (c # cs) results =
     bindE (run_test_case env timed senv workflow_id c) (\<lambda>r. run_test_cases env timed senv workflow_id cs (results @ [r]))"

definition run_test_suite ::
  "'w engine_env \<Rightarrow> (('w, node_output) act \<Rightarrow> ('w, node_output) act) \<Rightarrow> 'w suite_env \<Rightarrow> test_suite \<Rightarrow> ('w engine, test_suite_result) act" where
  "run_test_suite env timed senv suite =
     bindE (instant senv) (\<lambda>started.
     bindE (run_test_cases env timed senv (ts_workflow_id suite) (ts_cases suite) []) (\<lambda>results.
     bindE (instant senv) (\<lambda>ended.
     bindE (nowG env) (\<lambda>now.
       let passed = length (filter tcr_passed results) in
       ret \<lparr>sr_suite_name = ts_name suite, sr_workflow_id = ts_workflow_id suite, sr_total = length results, sr_passed = passed,
          sr_failed = length results - passed, sr_results = results, sr_duration_ms = ended - started, sr_run_at = now\<rparr>))))"

definition coverage_of :: "string \<Rightarrow> workflow \<Rightarrow> test_suite \<Rightarrow> coverage_report" where
  "coverage_of workflow_id w suite =
     (let all_node_ids = map n_id (wf_nodes w); tested_ids = set (map tc_node_id (ts_cases suite));
          untested = filter (\<lambda>i. i \<notin> tested_ids) all_node_ids; total_nodes = length all_node_ids;
          tested = total_nodes - length untested in
      \<lparr>cv_workflow_id = workflow_id, cv_total_nodes = total_nodes, cv_tested_nodes = tested,
       cv_coverage_pct = (if total_nodes > 0
         then f64_mul (f64_div (f64_of_rat (of_nat tested)) (f64_of_rat (of_nat total_nodes))) (F 100) else F 0),
       cv_untested_nodes = untested\<rparr>)"

definition compute_test_coverage :: "'w engine_env \<Rightarrow> string \<Rightarrow> test_suite \<Rightarrow> ('w engine, coverage_report) act" where
  "compute_test_coverage env workflow_id suite =
     bindE (portG (ee_get_workflow env workflow_id)) (\<lambda>w. ret (coverage_of workflow_id w suite))"

section \<open>Laws\<close>

lemma instant_Inr: "\<exists>t. instant senv g = (Inr t, snd (instant senv g))"
  by (simp add: instant_def portG_def split_beta)

text \<open>The inline run behind a test case.\<close>

definition case_run ::
  "'w engine_env \<Rightarrow> (('w, node_output) act \<Rightarrow> ('w, node_output) act) \<Rightarrow> 'w suite_env \<Rightarrow> string \<Rightarrow> test_case \<Rightarrow> 'w engine \<Rightarrow> test_node_result result" where
  "case_run env timed senv wid c g =
     fst (test_node env timed wid (tc_node_id c) (build_test_cached_outputs (tc_input_overrides c)) None (snd (instant senv g)))"

lemma run_test_case_run: "\<exists>ms g'. run_test_case env timed senv wid c g = (Inr (result_of_case (se_regex senv) c (case_run env timed senv wid c g) ms), g')"
proof -
  obtain r g1 where r: "test_node env timed wid (tc_node_id c) (build_test_cached_outputs (tc_input_overrides c)) None (snd (instant senv g)) = (r, g1)"
    by fastforce
  obtain t t' where "instant senv g = (Inr t, snd (instant senv g))" "instant senv g1 = (Inr t', snd (instant senv g1))"
    using instant_Inr by metis
  with r have "run_test_case env timed senv wid c g = (Inr (result_of_case (se_regex senv) c r (t' - t)), snd (instant senv g1))"
    unfolding run_test_case_def bindE_def tryE_def ret_def by (metis (no_types, lifting) case_prod_conv sum.case(2))
  with r show ?thesis
    by (intro exI [of _ "t' - t"] exI [of _ "snd (instant senv g1)"]) (simp add: case_run_def)
qed

lemma result_of_case_simps [simp]:
  "tcr_node_id (result_of_case rx c r ms) = tc_node_id c"
  "tcr_passed (result_of_case rx c r ms) \<longleftrightarrow>
     (\<exists>res. r = Inr res \<and> list_all (\<lambda>a. as_passed (evaluate_assertion rx a (case_output c res))) (tc_assertions c))"
  "tcr_error (result_of_case rx c r ms) = (case r of Inr _ \<Rightarrow> None | Inl e \<Rightarrow> Some (error_str e))"
proof -
  show "tcr_node_id (result_of_case rx c r ms) = tc_node_id c"
    by (simp add: result_of_case_def Let_def split: sum.split)
  show "tcr_passed (result_of_case rx c r ms) \<longleftrightarrow>
     (\<exists>res. r = Inr res \<and> list_all (\<lambda>a. as_passed (evaluate_assertion rx a (case_output c res))) (tc_assertions c))"
    by (cases r) (simp_all add: result_of_case_def Let_def list.pred_map comp_def)
  show "tcr_error (result_of_case rx c r ms) = (case r of Inr _ \<Rightarrow> None | Inl e \<Rightarrow> Some (error_str e))"
    by (cases r) (simp_all add: result_of_case_def Let_def)
qed

text \<open>
  A test case never fails to answer; it passes exactly if the inline run of its node answers and every assertion
  holds of the output the run recorded for the node, none at all counting as an empty one.
\<close>

theorem test_case_verdict:
  "\<exists>r g'. run_test_case env timed senv wid c g = (Inr r, g') \<and>
     (tcr_passed r \<longleftrightarrow> (\<exists>res. case_run env timed senv wid c g = Inr res \<and>
        list_all (\<lambda>a. as_passed (evaluate_assertion (se_regex senv) a (case_output c res))) (tc_assertions c)))"
proof -
  obtain ms g' where "run_test_case env timed senv wid c g = (Inr (result_of_case (se_regex senv) c (case_run env timed senv wid c g) ms), g')"
    using run_test_case_run by metis
  then show ?thesis
    by (intro exI [of _ "result_of_case (se_regex senv) c (case_run env timed senv wid c g) ms"] exI [of _ g']) simp
qed

lemma run_test_cases_total:
  "\<exists>rs g'. run_test_cases env timed senv wid cs acc g = (Inr (acc @ rs), g') \<and> map tcr_node_id rs = map tc_node_id cs"
proof (induction cs arbitrary: acc g)
  case (Cons c cs)
  obtain ms g1 where r: "run_test_case env timed senv wid c g = (Inr (result_of_case (se_regex senv) c (case_run env timed senv wid c g) ms), g1)"
    using run_test_case_run by metis
  let ?r = "result_of_case (se_regex senv) c (case_run env timed senv wid c g) ms"
  from Cons.IH [of "acc @ [?r]" g1] obtain rs g' where "run_test_cases env timed senv wid cs (acc @ [?r]) g1 = (Inr ((acc @ [?r]) @ rs), g')"
    "map tcr_node_id rs = map tc_node_id cs" by blast
  with r show ?case by (intro exI [of _ "?r # rs"] exI [of _ g']) (simp add: bindE_def)
qed (auto simp: ret_def)

text \<open>A suite answers with one result per case, in order, and its counts add up.\<close>

lemma test_suite_counts:
  assumes "run_test_suite env timed senv suite g = (Inr r, g')"
  shows "map tcr_node_id (sr_results r) = map tc_node_id (ts_cases suite) \<and> sr_total r = length (ts_cases suite) \<and>
    sr_passed r + sr_failed r = sr_total r"
proof -
  from assms obtain rs g1 g2 where rs: "run_test_cases env timed senv (ts_workflow_id suite) (ts_cases suite) [] g1 = (Inr rs, g2)"
    and "sr_results r = rs" "sr_total r = length rs" "sr_passed r = length (filter tcr_passed rs)" "sr_failed r = length rs - length (filter tcr_passed rs)"
    by (auto simp: run_test_suite_def bindE_Inr_iff ret_def Let_def)
  moreover from run_test_cases_total [of env timed senv "ts_workflow_id suite" "ts_cases suite" "[]" g1] rs
  have "map tcr_node_id rs = map tc_node_id (ts_cases suite)" by auto
  ultimately show ?thesis by (metis le_add_diff_inverse length_filter_le length_map)
qed

lemma empty_output_unresolved: "resolve_field_path fmempty p = None"
  by (simp add: resolve_field_path_def split: list.split)

text \<open>
  A test case does not see that its node failed: the inline run reports the failure in the node's state and not as
  an error, so a case that asserts nothing, or only that fields are absent, passes and carries no error.
\<close>

theorem failed_node_passes_case:
  assumes "case_run env timed senv wid c g = Inr res"
    and "fmlookup (tr_node_outputs res) (tc_node_id c) = Some (failed_state (tc_node_id c) e)"
    and "list_all (\<lambda>a. ta_matcher a = MNotExists) (tc_assertions c)"
  shows "\<exists>r g'. run_test_case env timed senv wid c g = (Inr r, g') \<and> tcr_passed r \<and> tcr_error r = None"
proof -
  have "case_output c res = fmempty" using assms(2) by (simp add: case_output_def failed_state_def)
  then have "list_all (\<lambda>a. as_passed (evaluate_assertion (se_regex senv) a (case_output c res))) (tc_assertions c)"
    using assms(3) by (auto simp: list_all_iff evaluate_assertion_def assertion_result_of_def empty_output_unresolved Let_def)
  moreover obtain ms g' where "run_test_case env timed senv wid c g = (Inr (result_of_case (se_regex senv) c (case_run env timed senv wid c g) ms), g')"
    using run_test_case_run by metis
  ultimately show ?thesis using assms(1)
    by (intro exI [of _ "result_of_case (se_regex senv) c (case_run env timed senv wid c g) ms"] exI [of _ g']) simp
qed

definition lone_engine :: "mem_world engine" where
  "lone_engine = engine_new (mem_world_of (mem_store_new\<lparr>ms_workflows := fmupd ''wf-1'' (sample_workflow [sample_node KAction ''a''] []) fmempty\<rparr>))"

definition still :: "mem_world suite_env" where
  "still = \<lparr>se_instant = (\<lambda>w. (0, w)), se_regex = (\<lambda>_. Inl [])\<rparr>"

definition smoke_case :: test_case where
  "smoke_case = \<lparr>tc_name = ''smoke'', tc_node_id = ''a'', tc_input_overrides = None, tc_assertions = []\<rparr>"

lemma lone_node_fails:
  "\<exists>g' res. test_node mem_env id ''wf-1'' ''a'' fmempty None lone_engine = (Inr res, g') \<and>
     fmlookup (tr_node_outputs res) ''a'' = Some (failed_state ''a'' NodeNotFound)"
proof -
  let ?w = "sample_workflow [sample_node KAction ''a''] []"
  have "set (ancestors_of ?w ''a'') = {}" using ancestors_of_correct [of ?w "''a''"] by (simp add: edge_rel_def)
  then have a: "ancestors_of ?w ''a'' = []" by simp
  have "\<exists>g. portG (ee_get_workflow mem_env ''wf-1'') lone_engine = (Inr ?w, g) \<and> fmlookup (eg_nodes g) ''builtin:log'' = None"
    by (simp add: portG_def mem_env_def on_store_def lone_engine_def engine_new_def mem_world_of_def ms_get_workflow_def)
  then obtain g where "portG (ee_get_workflow mem_env ''wf-1'') lone_engine = (Inr ?w, g)" "fmlookup (eg_nodes g) ''builtin:log'' = None" by blast
  with a show ?thesis
    by (simp add: test_node_def bindE_def node_by_id_def ret_def tryE_def execute_node_inline_def getsE_def raise_def note_state_def)
qed

theorem failed_node_passes_case_witness:
  "\<exists>r g'. run_test_case mem_env id still ''wf-1'' smoke_case lone_engine = (Inr r, g') \<and> tcr_passed r \<and> tcr_error r = None"
proof -
  have i: "snd (instant still lone_engine) = lone_engine"
    by (simp add: instant_def portG_def still_def)
  from lone_node_fails obtain res g' where
    "test_node mem_env id ''wf-1'' ''a'' fmempty None lone_engine = (Inr res, g')"
    "fmlookup (tr_node_outputs res) ''a'' = Some (failed_state ''a'' NodeNotFound)" by blast
  then show ?thesis
    by (intro failed_node_passes_case [where res = res and e = NodeNotFound])
      (simp_all add: i case_run_def smoke_case_def build_test_cached_outputs_def)
qed

end
