(* ===== verification/Triggers.thy ===== *)
theory Triggers
  imports Lifecycle AuditTrail Http MemStore
begin

text \<open>
  Triggers: \<open>crates/orbflow-trigger/src\<close>. The manager keeps the cron jobs, event subscriptions and webhook routes of
  the workflows and starts a workflow when one of them fires. A firing is a value (\<open>tokio::spawn\<close> of the callback);
  \<open>fire_trigger\<close> is what the callback does. The cron scheduler, HMAC-SHA256 and serde are parameters.
\<close>

definition FIRED_TRIGGER_NODE_ID_KEY :: string where
  "FIRED_TRIGGER_NODE_ID_KEY = ''_fired_trigger_node_id''"

text \<open>Workflow, kind of trigger and payload of a call of the callback.\<close>

type_synonym firing = "string \<times> trigger_type \<times> jmap"

definition with_fired_node :: "string option \<Rightarrow> jmap \<Rightarrow> jmap" where
  "with_fired_node node payload = (case node of
       None \<Rightarrow> payload | Some n \<Rightarrow> fmupd FIRED_TRIGGER_NODE_ID_KEY (JString n) payload)"

section \<open>Events\<close>

record event_bus =
  eb_subscriptions :: "(string, string list) fmap"
  eb_workflow_events :: "(string, string list) fmap"
  eb_trigger_nodes :: "(string, (string, string) fmap) fmap"

definition event_bus_new :: event_bus where
  "event_bus_new = \<lparr>eb_subscriptions = fmempty, eb_workflow_events = fmempty, eb_trigger_nodes = fmempty\<rparr>"

definition or_default :: "'k \<Rightarrow> ('k, 'v list) fmap \<Rightarrow> 'v list" where
  "or_default k m = (case fmlookup m k of None \<Rightarrow> [] | Some vs \<Rightarrow> vs)"

definition note_trigger_node :: "string \<Rightarrow> string \<Rightarrow> string option \<Rightarrow> event_bus \<Rightarrow> event_bus" where
  "note_trigger_node wid ev node b = (case node of
       None \<Rightarrow> b
     | Some n \<Rightarrow> b\<lparr>eb_trigger_nodes := fmupd wid
         (fmupd ev n (case fmlookup (eb_trigger_nodes b) wid of None \<Rightarrow> fmempty | Some m \<Rightarrow> m)) (eb_trigger_nodes b)\<rparr>)"

definition subscribe_trigger_node :: "string \<Rightarrow> string \<Rightarrow> string option \<Rightarrow> event_bus \<Rightarrow> event_bus" where
  "subscribe_trigger_node wid ev node b0 =
     (let b = note_trigger_node wid ev node b0; subs = or_default ev (eb_subscriptions b) in
      if wid \<in> set subs then b\<lparr>eb_subscriptions := fmupd ev subs (eb_subscriptions b)\<rparr>
      else b\<lparr>eb_subscriptions := push_at ev wid (eb_subscriptions b),
             eb_workflow_events := push_at wid ev (eb_workflow_events b)\<rparr>)"

definition subscribe :: "string \<Rightarrow> string \<Rightarrow> event_bus \<Rightarrow> event_bus" where
  "subscribe wid ev = subscribe_trigger_node wid ev None"

definition event_node :: "event_bus \<Rightarrow> string \<Rightarrow> string \<Rightarrow> string option" where
  "event_node b wid ev = Option.bind (fmlookup (eb_trigger_nodes b) wid) (\<lambda>events. fmlookup events ev)"

definition emit :: "string \<Rightarrow> jmap \<Rightarrow> event_bus \<Rightarrow> firing list" where
  "emit ev payload b = (case fmlookup (eb_subscriptions b) ev of
       None \<Rightarrow> []
     | Some subscribers \<Rightarrow> map (\<lambda>wid. (wid, TEvent, with_fired_node (event_node b wid ev) payload)) subscribers)"

definition unsubscribe :: "string \<Rightarrow> string \<Rightarrow> (string, string list) fmap \<Rightarrow> (string, string list) fmap" where
  "unsubscribe wid ev subs = (case fmlookup subs ev of
       None \<Rightarrow> subs | Some ws \<Rightarrow> fmupd ev (filter (\<lambda>v. v \<noteq> wid) ws) subs)"

definition event_remove :: "string \<Rightarrow> event_bus \<Rightarrow> event_bus" where
  "event_remove wid b =
     b\<lparr>eb_subscriptions := fold (unsubscribe wid) (or_default wid (eb_workflow_events b)) (eb_subscriptions b),
       eb_workflow_events := fmdrop wid (eb_workflow_events b), eb_trigger_nodes := fmdrop wid (eb_trigger_nodes b)\<rparr>"

section \<open>Webhooks\<close>

definition MAX_WEBHOOK_BODY_SIZE :: nat where
  "MAX_WEBHOOK_BODY_SIZE = 256 * 1024"

definition WEBHOOK_RATE_LIMIT :: nat where
  "WEBHOOK_RATE_LIMIT = 30"

text \<open>In milliseconds, like the time stamps of the limiter.\<close>

definition WEBHOOK_RATE_WINDOW :: int where
  "WEBHOOK_RATE_WINDOW = 60000"

text \<open>The routes, the limiter of the router and the static table of trigger nodes.\<close>

record webhook_state =
  wh_routes :: "(string, string \<times> string option) fmap"
  wh_rate_limits :: "(string, nat \<times> int) fmap"
  wh_auth_token :: "string option"
  wh_trigger_nodes :: "(string, string) fmap"

definition webhook_new :: "string option \<Rightarrow> webhook_state" where
  "webhook_new auth_token = \<lparr>wh_routes = fmempty, wh_rate_limits = fmempty, wh_auth_token = auth_token, wh_trigger_nodes = fmempty\<rparr>"

definition trim_slashes :: "string \<Rightarrow> string" where
  "trim_slashes s = rev (dropWhile (\<lambda>c. c = CHR ''/'') (rev (dropWhile (\<lambda>c. c = CHR ''/'') s)))"

definition webhook_key :: "string \<Rightarrow> string \<Rightarrow> string" where
  "webhook_key wid path = (let trimmed = trim_slashes path in if trimmed = [] then wid else wid @ ''/'' @ trimmed)"

definition register_with_secret :: "string \<Rightarrow> string \<Rightarrow> string option \<Rightarrow> webhook_state \<Rightarrow> webhook_state" where
  "register_with_secret wid path secret st =
     (let key = webhook_key wid path in
      st\<lparr>wh_trigger_nodes := fmdrop key (wh_trigger_nodes st), wh_routes := fmupd key (wid, secret) (wh_routes st)\<rparr>)"

definition webhook_register :: "string \<Rightarrow> string \<Rightarrow> webhook_state \<Rightarrow> webhook_state" where
  "webhook_register wid path = register_with_secret wid path None"

definition register_trigger_node_with_secret ::
  "string \<Rightarrow> string \<Rightarrow> string \<Rightarrow> string option \<Rightarrow> webhook_state \<Rightarrow> webhook_state" where
  "register_trigger_node_with_secret wid path node secret st =
     (let key = webhook_key wid path in
      st\<lparr>wh_trigger_nodes := fmupd key node (wh_trigger_nodes st), wh_routes := fmupd key (wid, secret) (wh_routes st)\<rparr>)"

definition under :: "string \<Rightarrow> string \<Rightarrow> bool" where
  "under wid key = (case strip_prefix wid key of None \<Rightarrow> False | Some suffix \<Rightarrow> suffix = [] \<or> starts_with ''/'' suffix)"

definition webhook_remove :: "string \<Rightarrow> webhook_state \<Rightarrow> webhook_state" where
  "webhook_remove wid st =
     st\<lparr>wh_routes := fmfilter (\<lambda>k. case fmlookup (wh_routes st) k of None \<Rightarrow> False | Some (v, _) \<Rightarrow> v \<noteq> wid) (wh_routes st),
        wh_trigger_nodes := fmfilter (\<lambda>key. \<not> under wid key) (wh_trigger_nodes st)\<rparr>"

text \<open>A request: its headers as \<open>to_str().ok()\<close> gives them, the query and the raw body.\<close>

record webhook_request =
  wr_authorization :: "string option"
  wr_signature :: "string option"
  wr_query :: "(string, string) fmap"
  wr_body :: string

record webhook_env =
  we_hmac :: "string \<Rightarrow> string \<Rightarrow> string"
  we_parse_body :: "string \<Rightarrow> jmap option"

text \<open>A header is ASCII, so that decoding it does not panic.\<close>

definition webhook_signature_ok :: "webhook_env \<Rightarrow> string \<Rightarrow> string \<Rightarrow> string \<Rightarrow> bool" where
  "webhook_signature_ok env secret body signature_header =
     (let sig_hex = (case strip_prefix ''sha256='' signature_header of Some s \<Rightarrow> s | None \<Rightarrow> signature_header);
          expected = we_hmac env secret body in
      case hex_decode sig_hex of Returns (Some provided) \<Rightarrow> expected = provided | _ \<Rightarrow> False)"

definition verify_bearer_token :: "webhook_request \<Rightarrow> string \<Rightarrow> bool" where
  "verify_bearer_token req expected = (case Option.bind (wr_authorization req) (strip_prefix ''Bearer '') of
       None \<Rightarrow> False | Some provided \<Rightarrow> provided = expected)"

text \<open>The limiter: whether a request at \<open>now\<close> may go on.\<close>

definition rate_check :: "string \<Rightarrow> int \<Rightarrow> (string, nat \<times> int) fmap \<Rightarrow> bool \<times> (string, nat \<times> int) fmap" where
  "rate_check wid now m0 =
     (let m = (if fcard (fmdom m0) > 100
               then fmfilter (\<lambda>k. case fmlookup m0 k of None \<Rightarrow> False | Some (_, s) \<Rightarrow> now - s < WEBHOOK_RATE_WINDOW * 2) m0 else m0);
          (c, s) = (case fmlookup m wid of None \<Rightarrow> (0, now) | Some e \<Rightarrow> e);
          (c', s') = (if now - s \<ge> WEBHOOK_RATE_WINDOW then (0, now) else (c, s)) in
      (Suc c' \<le> WEBHOOK_RATE_LIMIT, fmupd wid (Suc c', s') m))"

definition verify_and_merge_payload ::
  "webhook_env \<Rightarrow> string \<Rightarrow> string \<Rightarrow> webhook_request \<Rightarrow> int \<Rightarrow> webhook_state \<Rightarrow> string response \<times> firing list \<times> webhook_state" where
  "verify_and_merge_payload env key wid req now st =
     (case (if wr_body req = [] then Some None else map_option Some (we_parse_body env (wr_body req))) of
        None \<Rightarrow> (Fail 400 ''invalid JSON body'', [], st)
      | Some body \<Rightarrow>
          (case rate_check wid now (wh_rate_limits st) of (ok, m) \<Rightarrow>
             let st' = st\<lparr>wh_rate_limits := m\<rparr>; payload = (case body of Some b \<Rightarrow> b | None \<Rightarrow> fmempty) in
             if \<not> ok then (Fail 429 ''rate limit exceeded'', [], st')
             else if fmdom (wr_query req) |\<inter>| fmdom payload \<noteq> {||}
             then (Fail 400 ''query parameter conflicts with body field'', [], st')
             else (Data 200 wid,
                   [(wid, TWebhook, with_fired_node (fmlookup (wh_trigger_nodes st) key) (fmadd payload (fmmap JString (wr_query req))))],
                   st')))"

definition process_webhook ::
  "webhook_env \<Rightarrow> string \<Rightarrow> webhook_request \<Rightarrow> int \<Rightarrow> webhook_state \<Rightarrow> string response \<times> firing list \<times> webhook_state" where
  "process_webhook env key req now st = (case fmlookup (wh_routes st) key of
       None \<Rightarrow> (Fail 404 ''webhook not found'', [], st)
     | Some (wid, secret) \<Rightarrow>
         if (case wh_auth_token st of None \<Rightarrow> False | Some tok \<Rightarrow> \<not> verify_bearer_token req tok) then (Fail 401 ''unauthorized'', [], st)
         else (case secret of
             None \<Rightarrow>
               if wh_auth_token st = None then (Fail 401 ''webhook signature required'', [], st)
               else verify_and_merge_payload env key wid req now st
           | Some s \<Rightarrow>
               if wr_query req \<noteq> fmempty then (Fail 400 ''signed webhook query parameters are not accepted'', [], st)
               else (let sig_header = (case wr_signature req of None \<Rightarrow> [] | Some h \<Rightarrow> h) in
                 if sig_header = [] then (Fail 401 ''missing signature'', [], st)
                 else if \<not> webhook_signature_ok env s (wr_body req) sig_header then (Fail 401 ''invalid signature'', [], st)
                 else verify_and_merge_payload env key wid req now st)))"

definition handle_webhook ::
  "webhook_env \<Rightarrow> string \<Rightarrow> webhook_request \<Rightarrow> int \<Rightarrow> webhook_state \<Rightarrow> string response \<times> firing list \<times> webhook_state" where
  "handle_webhook env workflow_id = process_webhook env workflow_id"

definition handle_webhook_with_path ::
  "webhook_env \<Rightarrow> string \<Rightarrow> string \<Rightarrow> webhook_request \<Rightarrow> int \<Rightarrow> webhook_state \<Rightarrow> string response \<times> firing list \<times> webhook_state" where
  "handle_webhook_with_path env workflow_id path = process_webhook env
     (let trimmed = trim_slashes path in if trimmed = [] then workflow_id else workflow_id @ ''/'' @ trimmed)"

section \<open>Schedules\<close>

text \<open>A job of the scheduler: its id, expression and what its closure captures.\<close>

record cron_job =
  jb_id :: string
  jb_cron :: string
  jb_workflow :: string
  jb_node :: "string option"

text \<open>The crate tokio_cron_scheduler: making a job (a failure, or its id), adding, removing, starting.\<close>

record 'w trigger_env =
  te_engine :: "'w engine_env"
  te_list_workflows :: "list_options \<Rightarrow> ('w, workflow list \<times> int) act"
  te_job_new :: "string \<Rightarrow> 'w \<Rightarrow> (string + string) \<times> 'w"
  te_job_add :: "cron_job \<Rightarrow> 'w \<Rightarrow> (string + unit) \<times> 'w"
  te_job_remove :: "string \<Rightarrow> 'w \<Rightarrow> (string + unit) \<times> 'w"
  te_cron_start :: "'w \<Rightarrow> (string + unit) \<times> 'w"

record 'w triggers =
  tg_jobs :: "(string, string list) fmap"
  tg_event :: event_bus
  tg_webhook :: webhook_state
  tg_world :: 'w

definition cron_payload :: "cron_job \<Rightarrow> jmap" where
  "cron_payload job = with_fired_node (jb_node job) fmempty"

definition cron_fire :: "cron_job \<Rightarrow> firing" where
  "cron_fire job = (jb_workflow job, TSchedule, cron_payload job)"

definition add_trigger_node :: "'w trigger_env \<Rightarrow> string \<Rightarrow> string option \<Rightarrow> string \<Rightarrow> 'w triggers \<Rightarrow> 'w triggers" where
  "add_trigger_node env wid node cron_expr t = (case te_job_new env cron_expr (tg_world t) of
       (Inl e, w) \<Rightarrow> t\<lparr>tg_world := w\<rparr>
     | (Inr job_id, w) \<Rightarrow>
         (case te_job_add env \<lparr>jb_id = job_id, jb_cron = cron_expr, jb_workflow = wid, jb_node = node\<rparr> w of
            (Inr _, w') \<Rightarrow> t\<lparr>tg_world := w', tg_jobs := push_at wid job_id (tg_jobs t)\<rparr>
          | (Inl e, w') \<Rightarrow> t\<lparr>tg_world := w'\<rparr>))"

definition cron_add :: "'w trigger_env \<Rightarrow> string \<Rightarrow> string \<Rightarrow> 'w triggers \<Rightarrow> 'w triggers" where
  "cron_add env wid cron_expr = add_trigger_node env wid None cron_expr"

definition cron_remove :: "'w trigger_env \<Rightarrow> string \<Rightarrow> 'w triggers \<Rightarrow> 'w triggers" where
  "cron_remove env wid t =
     t\<lparr>tg_world := fold (\<lambda>job_id w. snd (te_job_remove env job_id w)) (or_default wid (tg_jobs t)) (tg_world t),
       tg_jobs := fmdrop wid (tg_jobs t)\<rparr>"

section \<open>The manager\<close>

definition triggers_new :: "string option \<Rightarrow> 'w \<Rightarrow> 'w triggers" where
  "triggers_new auth_token w = \<lparr>tg_jobs = fmempty, tg_event = event_bus_new, tg_webhook = webhook_new auth_token, tg_world = w\<rparr>"

definition non_empty_string :: "json \<Rightarrow> string option" where
  "non_empty_string v = Option.bind (json_as_str v) (\<lambda>s. let t = trim s in if t = [] then None else Some t)"

definition SECRET_KEYS :: "string list" where
  "SECRET_KEYS = [''secret'', ''webhook_secret'', ''signature_secret'']"

fun first_some :: "('a \<Rightarrow> 'b option) \<Rightarrow> 'a list \<Rightarrow> 'b option" where
  "first_some f [] = None"
| "first_some f (x # xs) = (case f x of Some y \<Rightarrow> Some y | None \<Rightarrow> first_some f xs)"

definition webhook_secret_from_node :: "wf_node \<Rightarrow> string option" where
  "webhook_secret_from_node n =
     (case first_some (\<lambda>key. Option.bind (n_config n) (\<lambda>config. Option.bind (fmlookup config key) non_empty_string)) SECRET_KEYS of
        Some secret \<Rightarrow> Some secret
      | None \<Rightarrow> first_some (\<lambda>param.
          if pa_mode param \<noteq> PStatic \<or> pa_key param \<notin> set SECRET_KEYS then None
          else Option.bind (pa_value param) non_empty_string) (n_parameters n))"

definition node_uses_credentials :: "wf_node \<Rightarrow> bool" where
  "node_uses_credentials n =
     (Option.bind (n_config n) (\<lambda>config. Option.bind (fmlookup config ''credential_id'') non_empty_string) \<noteq> None \<or>
      list_ex (\<lambda>param. pa_key param = ''credential_id'' \<and>
        (Option.bind (pa_value param) non_empty_string \<noteq> None \<or>
         (case pa_expression param of None \<Rightarrow> False | Some expr \<Rightarrow> trim expr \<noteq> []))) (n_parameters n))"

definition workflow_uses_credentials :: "workflow \<Rightarrow> bool" where
  "workflow_uses_credentials w = list_ex node_uses_credentials (wf_nodes w)"

definition path_or_empty :: "string option \<Rightarrow> string" where
  "path_or_empty p = (case p of None \<Rightarrow> [] | Some s \<Rightarrow> s)"

definition register_trigger_node :: "'w trigger_env \<Rightarrow> string \<Rightarrow> wf_node \<Rightarrow> 'w triggers \<Rightarrow> 'w triggers" where
  "register_trigger_node env wid node t = (case n_trigger_config node of
       None \<Rightarrow> t
     | Some tc \<Rightarrow> (case tn_trigger_type tc of
           TSchedule \<Rightarrow> (case tn_cron tc of
               Some cron_expr \<Rightarrow> if cron_expr \<noteq> [] then add_trigger_node env wid (Some (n_id node)) cron_expr t else t
             | None \<Rightarrow> t)
         | TEvent \<Rightarrow> (case tn_event_name tc of
               Some ev \<Rightarrow> if ev \<noteq> [] then t\<lparr>tg_event := subscribe_trigger_node wid ev (Some (n_id node)) (tg_event t)\<rparr> else t
             | None \<Rightarrow> t)
         | TWebhook \<Rightarrow> t\<lparr>tg_webhook := register_trigger_node_with_secret wid (path_or_empty (tn_path tc)) (n_id node)
             (webhook_secret_from_node node) (tg_webhook t)\<rparr>
         | TManual \<Rightarrow> t))"

definition register_trigger :: "'w trigger_env \<Rightarrow> string \<Rightarrow> trigger \<Rightarrow> 'w triggers \<Rightarrow> 'w triggers" where
  "register_trigger env wid trig t = (let tc = tr_config trig in case tr_type trig of
       TSchedule \<Rightarrow> (case tc_cron tc of Some cron_expr \<Rightarrow> if cron_expr \<noteq> [] then cron_add env wid cron_expr t else t | None \<Rightarrow> t)
     | TEvent \<Rightarrow> (case tc_event_name tc of
           Some ev \<Rightarrow> if ev \<noteq> [] then t\<lparr>tg_event := subscribe wid ev (tg_event t)\<rparr> else t
         | None \<Rightarrow> t)
     | TWebhook \<Rightarrow> t\<lparr>tg_webhook := webhook_register wid (path_or_empty (tc_path tc)) (tg_webhook t)\<rparr>
     | TManual \<Rightarrow> t)"

definition register_workflow_triggers :: "'w trigger_env \<Rightarrow> workflow \<Rightarrow> 'w triggers \<Rightarrow> 'w triggers" where
  "register_workflow_triggers env w t =
     (let nodes = trigger_nodes w in
      if nodes \<noteq> [] then fold (register_trigger_node env (wf_id w)) nodes t
      else fold (register_trigger env (wf_id w)) (wf_triggers w) t)"

definition unregister_workflow :: "'w trigger_env \<Rightarrow> string \<Rightarrow> 'w triggers \<Rightarrow> 'w triggers" where
  "unregister_workflow env wid t0 =
     (let t = cron_remove env wid t0 in
      t\<lparr>tg_event := event_remove wid (tg_event t), tg_webhook := webhook_remove wid (tg_webhook t)\<rparr>)"

definition refresh_workflow_from_def :: "'w trigger_env \<Rightarrow> workflow \<Rightarrow> 'w triggers \<Rightarrow> 'w triggers" where
  "refresh_workflow_from_def env w t0 =
     (let t = unregister_workflow env (wf_id w) t0 in
      if wf_status w = Active then register_workflow_triggers env w t else t)"

definition register_page :: "'w trigger_env \<Rightarrow> workflow list \<Rightarrow> 'w triggers \<Rightarrow> 'w triggers" where
  "register_page env ws = fold (\<lambda>w t. if wf_status w \<noteq> Active then t else register_workflow_triggers env w t) ws"

text \<open>The loop over the pages does not end if the store never answers a short one.\<close>

definition TRIGGER_PAGE_SIZE :: int where
  "TRIGGER_PAGE_SIZE = 100"

partial_function (option) load_triggers :: "'w trigger_env \<Rightarrow> int \<Rightarrow> 'w triggers \<Rightarrow> (unit result \<times> 'w triggers) option" where
  "load_triggers env offset t =
     (case te_list_workflows env \<lparr>lo_offset = offset, lo_limit = TRIGGER_PAGE_SIZE\<rparr> (tg_world t) of
        (Inl e, w) \<Rightarrow> Some (Inl e, t\<lparr>tg_world := w\<rparr>)
      | (Inr page, w) \<Rightarrow>
          let t' = register_page env (fst page) (t\<lparr>tg_world := w\<rparr>) in
          if int (length (fst page)) < TRIGGER_PAGE_SIZE then Some (Inr (), t')
          else load_triggers env (offset + TRIGGER_PAGE_SIZE) t')"

declare load_triggers.simps [code]

definition triggers_start :: "'w trigger_env \<Rightarrow> 'w triggers \<Rightarrow> (unit result \<times> 'w triggers) option" where
  "triggers_start env t = map_option (\<lambda>(r, t'). case r of
       Inl e \<Rightarrow> (Inl e, t')
     | Inr _ \<Rightarrow> (case te_cron_start env (tg_world t') of
         (Inl e, w) \<Rightarrow> (Inl (Internal (''cron scheduler start: '' @ e)), t'\<lparr>tg_world := w\<rparr>)
       | (Inr _, w) \<Rightarrow> (Inr (), t'\<lparr>tg_world := w\<rparr>))) (load_triggers env 0 t)"

definition emit_event :: "string \<Rightarrow> jmap \<Rightarrow> 'w triggers \<Rightarrow> firing list" where
  "emit_event ev payload t = emit ev payload (tg_event t)"

text \<open>What the callback does; its errors are logged.\<close>

definition fire_trigger :: "'w engine_env \<Rightarrow> firing \<Rightarrow> ('w engine, unit) act" where
  "fire_trigger env f = (case f of (wid, trigger_type, payload) \<Rightarrow>
     tryE (portG (ee_get_workflow env wid)) (\<lambda>r. case r of
         Inl e \<Rightarrow> ret ()
       | Inr _ \<Rightarrow> tryE (start_workflow env wid (fmupd ''_trigger_type'' (JString (trigger_type_str trigger_type)) payload))
           (\<lambda>_. ret ())))"

end
