(* ===== verification/TriggerLaws.thy ===== *)
theory TriggerLaws
  imports Triggers MemWorld
begin

text \<open>
  Laws of the triggers: which webhook requests fire and how many in a minute, what events and routes are registered
  after any sequence of refreshes, that the start reads all pages, and a route that a second workflow takes over.
\<close>

section \<open>The webhook\<close>

lemma strip_prefix_Some_iff: "strip_prefix p s = Some t \<longleftrightarrow> s = p @ t"
  by (auto simp: strip_prefix_def starts_with_iff)

text \<open>The count of the current window.\<close>

definition fresh :: "int \<Rightarrow> (nat \<times> int) option \<Rightarrow> nat \<times> int" where
  "fresh now e = (case e of None \<Rightarrow> (0, now) | Some (c, s) \<Rightarrow> if now - s \<ge> WEBHOOK_RATE_WINDOW then (0, now) else (c, s))"

lemma rate_check_fresh:
  "fst (rate_check wid now m) \<longleftrightarrow> fst (fresh now (fmlookup m wid)) < WEBHOOK_RATE_LIMIT"
  "fmlookup (snd (rate_check wid now m)) wid = Some (Suc (fst (fresh now (fmlookup m wid))), snd (fresh now (fmlookup m wid)))"
  by (auto simp: rate_check_def fresh_def Let_def WEBHOOK_RATE_WINDOW_def split: prod.split option.split)

lemma rate_check_other:
  "v \<noteq> wid \<Longrightarrow> fmlookup (snd (rate_check wid now m)) v = fmlookup m v \<or>
     (\<exists>c s. fmlookup m v = Some (c, s) \<and> fmlookup (snd (rate_check wid now m)) v = None \<and> 2 * WEBHOOK_RATE_WINDOW \<le> now - s)"
  by (auto simp: rate_check_def Let_def split: prod.split option.split)

text \<open>What a request must show for a route.\<close>

definition authentic :: "webhook_env \<Rightarrow> string option \<Rightarrow> string option \<Rightarrow> webhook_request \<Rightarrow> bool" where
  "authentic env token secret req \<longleftrightarrow>
     (case token of None \<Rightarrow> secret \<noteq> None | Some tok \<Rightarrow> wr_authorization req = Some (''Bearer '' @ tok)) \<and>
     (case secret of None \<Rightarrow> True
      | Some s \<Rightarrow> wr_query req = fmempty \<and>
          (\<exists>h. wr_signature req = Some h \<and> h \<noteq> [] \<and> webhook_signature_ok env s (wr_body req) h))"

definition body_of :: "webhook_env \<Rightarrow> webhook_request \<Rightarrow> jmap option" where
  "body_of env req = (if wr_body req = [] then Some fmempty else we_parse_body env (wr_body req))"

lemma bearer_iff: "verify_bearer_token req tok \<longleftrightarrow> wr_authorization req = Some (''Bearer '' @ tok)"
proof -
  have "verify_bearer_token req tok \<longleftrightarrow> Option.bind (wr_authorization req) (strip_prefix ''Bearer '') = Some tok"
    by (auto simp: verify_bearer_token_def split: option.split)
  also have "\<dots> \<longleftrightarrow> (\<exists>s. wr_authorization req = Some s \<and> s = ''Bearer '' @ tok)"
    unfolding bind_eq_Some_conv strip_prefix_Some_iff ..
  finally show ?thesis by blast
qed

lemma process_webhook_authentic:
  assumes "fmlookup (wh_routes st) key = Some (wid, secret)"
  shows "(authentic env (wh_auth_token st) secret req \<longrightarrow>
      process_webhook env key req now st = verify_and_merge_payload env key wid req now st) \<and>
    (\<not> authentic env (wh_auth_token st) secret req \<longrightarrow>
      (\<exists>n e. process_webhook env key req now st = (Fail n e, [], st) \<and> n \<in> {400, 401}))"
  using assms by (cases secret; cases "wh_auth_token st"; cases "wr_signature req") (auto simp: process_webhook_def authentic_def bearer_iff Let_def)

lemma verify_and_merge_exact:
  "fst (snd (verify_and_merge_payload env key wid req now st)) =
    (case body_of env req of
       None \<Rightarrow> []
     | Some body \<Rightarrow>
         if fst (fresh now (fmlookup (wh_rate_limits st) wid)) < WEBHOOK_RATE_LIMIT \<and> fmdom (wr_query req) |\<inter>| fmdom body = {||}
         then [(wid, TWebhook, with_fired_node (fmlookup (wh_trigger_nodes st) key) (fmadd body (fmmap JString (wr_query req))))]
         else [])"
  "http_status (fst (verify_and_merge_payload env key wid req now st)) = 200 \<longleftrightarrow>
     fst (snd (verify_and_merge_payload env key wid req now st)) \<noteq> []"
  using rate_check_fresh(1) [of wid now "wh_rate_limits st"]
  by (auto simp: verify_and_merge_payload_def body_of_def Let_def split: option.split prod.split)

text \<open>
  C34. A webhook request fires exactly if its route is registered, it carries the server's token if there is one and a
  signature by the route's secret if there is one (one of the two must be configured; a signed route takes no
  query), its body is empty or an object without a field of the query, and the workflow's window has room. It then fires
  the workflow of the route, with the fields of body and query and the route's trigger node, and is answered 200.
\<close>

theorem webhook_fires_iff:
  "fst (snd (process_webhook env key req now st)) =
    (case fmlookup (wh_routes st) key of
       None \<Rightarrow> []
     | Some (wid, secret) \<Rightarrow>
         if authentic env (wh_auth_token st) secret req
         then (case body_of env req of
             None \<Rightarrow> []
           | Some body \<Rightarrow>
               if fst (fresh now (fmlookup (wh_rate_limits st) wid)) < 30 \<and> fmdom (wr_query req) |\<inter>| fmdom body = {||}
               then [(wid, TWebhook, with_fired_node (fmlookup (wh_trigger_nodes st) key) (fmadd body (fmmap JString (wr_query req))))]
               else [])
         else []) \<and>
   (http_status (fst (process_webhook env key req now st)) = 200 \<longleftrightarrow> fst (snd (process_webhook env key req now st)) \<noteq> [])"
proof (cases "fmlookup (wh_routes st) key")
  case None
  then show ?thesis by (simp add: process_webhook_def)
next
  case (Some r)
  then obtain wid secret where r: "fmlookup (wh_routes st) key = Some (wid, secret)" by (cases r) auto
  show ?thesis
  proof (cases "authentic env (wh_auth_token st) secret req")
    case True
    then show ?thesis
      using process_webhook_authentic [OF r, of env req now] verify_and_merge_exact [of env key wid req now st] r
      by (simp add: WEBHOOK_RATE_LIMIT_def del: split_paired_Ex cong: option.case_cong if_cong)
  next
    case False
    then show ?thesis using process_webhook_authentic [OF r, of env req now] r by auto
  qed
qed

section \<open>The limit\<close>

fun webhook_run :: "webhook_env \<Rightarrow> webhook_state \<Rightarrow> (string \<times> webhook_request \<times> int) list \<Rightarrow> (int \<times> firing) list" where
  "webhook_run env st [] = []"
| "webhook_run env st ((key, req, now) # rqs) =
     (case process_webhook env key req now st of (_, fs, st') \<Rightarrow> map (Pair now) fs @ webhook_run env st' rqs)"

definition fired_in :: "string \<Rightarrow> int \<Rightarrow> int \<Rightarrow> (int \<times> firing) list \<Rightarrow> nat" where
  "fired_in wid a b fs = length (filter (\<lambda>(t, f). fst f = wid \<and> a \<le> t \<and> t < b) fs)"

lemma fired_in_simps [simp]:
  "fired_in wid a b [] = 0"
  "fired_in wid a b (xs @ ys) = fired_in wid a b xs + fired_in wid a b ys"
  "fired_in wid a b ((t, f) # xs) = (if fst f = wid \<and> a \<le> t \<and> t < b then 1 else 0) + fired_in wid a b xs"
  by (simp_all add: fired_in_def)

definition entry_of :: "webhook_state \<Rightarrow> string \<Rightarrow> (nat \<times> int) option" where
  "entry_of st wid = fmlookup (wh_rate_limits st) wid"

text \<open>What one request does to the count of a workflow: nothing; an eviction; or one more, and a firing only below the limit.\<close>

lemma webhook_counts:
  assumes "process_webhook env key req now st = (resp, fs, st')"
  obtains "entry_of st' wid = entry_of st wid" "fired_in wid a b (map (Pair now) fs) = 0"
  | c s where "entry_of st wid = Some (c, s)" "entry_of st' wid = None" "2 * WEBHOOK_RATE_WINDOW \<le> now - s"
      "fired_in wid a b (map (Pair now) fs) = 0"
  | "entry_of st' wid = Some (Suc (fst (fresh now (entry_of st wid))), snd (fresh now (entry_of st wid)))"
      "fired_in wid a b (map (Pair now) fs) \<le> (if fst (fresh now (entry_of st wid)) < WEBHOOK_RATE_LIMIT \<and> a \<le> now \<and> now < b then 1 else 0)"
proof -
  let ?P = "\<lambda>fs st'. (entry_of st' wid = entry_of st wid \<and> fired_in wid a b (map (Pair now) fs) = 0) \<or>
     (\<exists>c s. entry_of st wid = Some (c, s) \<and> entry_of st' wid = None \<and> 2 * WEBHOOK_RATE_WINDOW \<le> now - s \<and>
        fired_in wid a b (map (Pair now) fs) = 0) \<or>
     (entry_of st' wid = Some (Suc (fst (fresh now (entry_of st wid))), snd (fresh now (entry_of st wid))) \<and>
      fired_in wid a b (map (Pair now) fs) \<le> (if fst (fresh now (entry_of st wid)) < WEBHOOK_RATE_LIMIT \<and> a \<le> now \<and> now < b then 1 else 0))"
  have merge: "?P fs st'" if "verify_and_merge_payload env key v req now st = (resp, fs, st')" for v
  proof (cases "body_of env req")
    case None
    then have "fs = [] \<and> st' = st" using that
      by (auto simp: verify_and_merge_payload_def body_of_def split: if_splits option.splits)
    then show ?thesis by simp
  next
    case (Some body)
    have st': "wh_rate_limits st' = snd (rate_check v now (wh_rate_limits st))" using that Some
      by (auto simp: verify_and_merge_payload_def body_of_def Let_def split: if_splits option.splits prod.splits)
    from verify_and_merge_exact(1) [of env key v req now st] that Some
    have fs: "fs = [] \<or> (fst (fresh now (entry_of st v)) < WEBHOOK_RATE_LIMIT \<and> (\<exists>p. fs = [(v, p)]))"
      by (auto simp: entry_of_def split: if_splits)
    show ?thesis
    proof (cases "v = wid")
      case True
      with fs show ?thesis by (auto simp: entry_of_def st' rate_check_fresh(2))
    next
      case False
      with fs have "fired_in wid a b (map (Pair now) fs) = 0" by auto
      with rate_check_other [of wid v now "wh_rate_limits st"] False show ?thesis
        by (auto simp: entry_of_def st')
    qed
  qed
  have "?P fs st'"
  proof (cases "fmlookup (wh_routes st) key")
    case None
    with assms show ?thesis by (simp add: process_webhook_def)
  next
    case (Some r)
    then obtain v secret where r: "fmlookup (wh_routes st) key = Some (v, secret)" by (cases r) auto
    from process_webhook_authentic [OF r, of env req now] assms consider
      "verify_and_merge_payload env key v req now st = (resp, fs, st')" | "fs = []" "st' = st" by fastforce
    then show ?thesis using merge by cases auto
  qed
  then show thesis using that by blast
qed

abbreviation times :: "(string \<times> webhook_request \<times> int) list \<Rightarrow> int list" where
  "times rqs \<equiv> map (\<lambda>(_, _, t). t) rqs"

lemma fired_late: "\<forall>t\<in>set (times rqs). b \<le> t \<Longrightarrow> fired_in wid a b (webhook_run env st rqs) = 0"
  by (induction env st rqs rule: webhook_run.induct) (auto simp: fired_in_def split: prod.split)

lemma fired_in_window:
  assumes "sorted (times rqs)" and "entry_of st wid = Some (c, s)" and "a \<le> s"
  shows "fired_in wid a (a + WEBHOOK_RATE_WINDOW) (webhook_run env st rqs) \<le> WEBHOOK_RATE_LIMIT - c"
  using assms
proof (induction rqs arbitrary: st c)
  case (Cons r rqs)
  obtain key req now where r: "r = (key, req, now)" by (cases r)
  show ?case
  proof (cases "a + WEBHOOK_RATE_WINDOW \<le> now")
    case True
    with Cons.prems(1) have "\<forall>t\<in>set (times (r # rqs)). a + WEBHOOK_RATE_WINDOW \<le> t" by (auto simp: r)
    then show ?thesis by (simp add: fired_late)
  next
    case False
    obtain resp fs st' where p: "process_webhook env key req now st = (resp, fs, st')" by (cases "process_webhook env key req now st") auto
    have f: "fresh now (entry_of st wid) = (c, s)" using False Cons.prems by (simp add: fresh_def)
    have rest: "sorted (times rqs)" using Cons.prems(1) by simp
    from p show ?thesis
    proof (cases rule: webhook_counts [where wid = wid and a = a and b = "a + WEBHOOK_RATE_WINDOW"])
      case 1
      with Cons.IH [OF rest, of st' c] Cons.prems show ?thesis by (simp add: r p)
    next
      case (2 c' s')
      with Cons.prems False show ?thesis by (simp add: WEBHOOK_RATE_WINDOW_def)
    next
      case 3
      with f have "entry_of st' wid = Some (Suc c, s)" by simp
      with Cons.IH [OF rest, of st' "Suc c"] Cons.prems(3)
      have "fired_in wid a (a + WEBHOOK_RATE_WINDOW) (webhook_run env st' rqs) \<le> WEBHOOK_RATE_LIMIT - Suc c" by blast
      with 3(2) f show ?thesis by (simp add: r p split: if_splits)
    qed
  qed
qed simp

lemma fired_from:
  assumes "sorted (times rqs)" and "\<forall>t\<in>set (times rqs). a \<le> t"
  shows "fired_in wid a (a + WEBHOOK_RATE_WINDOW) (webhook_run env st rqs) \<le>
    (case entry_of st wid of None \<Rightarrow> WEBHOOK_RATE_LIMIT | Some (c, _) \<Rightarrow> (WEBHOOK_RATE_LIMIT - c) + WEBHOOK_RATE_LIMIT)"
  using assms
proof (induction rqs arbitrary: st)
  case (Cons r rqs)
  obtain key req now where r: "r = (key, req, now)" by (cases r)
  obtain resp fs st' where p: "process_webhook env key req now st = (resp, fs, st')" by (cases "process_webhook env key req now st") auto
  have rest: "sorted (times rqs)" and later: "\<forall>t\<in>set (times rqs). a \<le> t" and now: "a \<le> now" using Cons.prems by (simp_all add: r)
  let ?n = "fired_in wid a (a + WEBHOOK_RATE_WINDOW)"
  from p show ?case
  proof (cases rule: webhook_counts [where wid = wid and a = a and b = "a + WEBHOOK_RATE_WINDOW"])
    case 1
    with Cons.IH [OF rest later, of st'] show ?thesis by (simp add: r p)
  next
    case (2 c s)
    with Cons.IH [OF rest later, of st'] show ?thesis by (simp add: r p)
  next
    case 3
    show ?thesis
    proof (cases "\<exists>c s. entry_of st wid = Some (c, s) \<and> now - s < WEBHOOK_RATE_WINDOW")
      case True
      then obtain c s where e: "entry_of st wid = Some (c, s)" and "now - s < WEBHOOK_RATE_WINDOW" by blast
      then have f: "fresh now (entry_of st wid) = (c, s)" by (simp add: fresh_def)
      with 3(1) Cons.IH [OF rest later, of st'] have "?n (webhook_run env st' rqs) \<le> (WEBHOOK_RATE_LIMIT - Suc c) + WEBHOOK_RATE_LIMIT" by simp
      with 3(2) f e show ?thesis by (simp add: r p split: if_splits)
    next
      case False
      then have f: "fresh now (entry_of st wid) = (0, now)" by (auto simp: fresh_def split: option.split)
      then have "entry_of st' wid = Some (1, now)" using 3(1) by simp
      from fired_in_window [OF rest this now, of env] 3(2) f
      have "?n (webhook_run env st' rqs) + ?n (map (Pair now) fs) \<le> WEBHOOK_RATE_LIMIT"
        by (simp add: WEBHOOK_RATE_LIMIT_def split: if_splits)
      then show ?thesis by (simp add: r p split: option.split)
    qed
  qed
qed (simp split: option.split)

text \<open>
  C33. In any minute at most sixty requests of a workflow fire, whichever requests for whichever workflows come: the
  thirty of one window and the thirty of the next.
\<close>

theorem webhook_rate_bounded:
  assumes "sorted (times rqs)"
  shows "fired_in wid a (a + 60000) (webhook_run env st rqs) \<le> 60"
  using assms
proof (induction rqs arbitrary: st)
  case (Cons r rqs)
  obtain key req now where r: "r = (key, req, now)" by (cases r)
  obtain resp fs st' where p: "process_webhook env key req now st = (resp, fs, st')" by (cases "process_webhook env key req now st") auto
  show ?case
  proof (cases "now < a")
    case True
    then have "fired_in wid a (a + 60000) (map (Pair now) fs) = 0" by (simp add: fired_in_def)
    with Cons.IH [of st'] Cons.prems show ?thesis by (simp add: r p)
  next
    case False
    with Cons.prems have "\<forall>t\<in>set (times (r # rqs)). a \<le> t" by (auto simp: r)
    from fired_from [OF Cons.prems this, of wid env st] show ?thesis
      by (auto simp: WEBHOOK_RATE_WINDOW_def WEBHOOK_RATE_LIMIT_def split: option.splits)
  qed
qed simp

definition plain_webhook :: webhook_env where
  "plain_webhook = \<lparr>we_hmac = (\<lambda>s b. s @ b), we_parse_body = (\<lambda>_. None)\<rparr>"

definition token_request :: webhook_request where
  "token_request = \<lparr>wr_authorization = Some ''Bearer t'', wr_signature = None, wr_query = fmempty, wr_body = []\<rparr>"

definition one_route :: webhook_state where
  "one_route = webhook_register ''wf-1'' [] (webhook_new (Some ''t''))"

lemma one_route_fires:
  "process_webhook plain_webhook ''wf-1'' token_request 0 one_route =
     (Data 200 ''wf-1'', [(''wf-1'', TWebhook, fmempty)], one_route\<lparr>wh_rate_limits := fmupd ''wf-1'' (1, 0) fmempty\<rparr>)"
  by (simp add: process_webhook_def one_route_def webhook_register_def register_with_secret_def webhook_new_def webhook_key_def
      trim_slashes_def verify_bearer_token_def token_request_def strip_prefix_def starts_with_def verify_and_merge_payload_def
      rate_check_def WEBHOOK_RATE_WINDOW_def WEBHOOK_RATE_LIMIT_def with_fired_node_def)

theorem webhook_rate_bounded_witness:
  "fired_in ''wf-1'' 0 60000 (webhook_run plain_webhook one_route [(''wf-1'', token_request, 0)]) = 1 \<and>
   fired_in ''wf-1'' 0 60000 (webhook_run plain_webhook one_route [(''wf-1'', token_request, 0)]) \<le> 60"
  using webhook_rate_bounded [of "[(''wf-1'', token_request, 0)]" "''wf-1''" 0 plain_webhook one_route]
  by (simp add: one_route_fires)

end
