(* ===== verification/TriggerRuns.thy ===== *)
theory TriggerRuns
  imports Triggers MemWorld
begin

text \<open>
  What is registered: after any sequence of refreshes and removals the events and the webhook routes are those of the
  current definitions, as long as no workflow id contains a slash; with one that does, a route is taken over. The start
  reads every page of the store.
\<close>

section \<open>Events\<close>

definition listens :: "event_bus \<Rightarrow> string \<Rightarrow> string \<Rightarrow> bool" where
  "listens b wid ev \<longleftrightarrow> wid \<in> set (or_default ev (eb_subscriptions b))"

text \<open>Both indices agree and no workflow is listed twice.\<close>

definition bus_ok :: "event_bus \<Rightarrow> bool" where
  "bus_ok b \<longleftrightarrow> (\<forall>wid ev. listens b wid ev \<longleftrightarrow> ev \<in> set (or_default wid (eb_workflow_events b))) \<and>
     (\<forall>ev. distinct (or_default ev (eb_subscriptions b)))"

lemma or_default_simps [simp]:
  "or_default k (push_at k' v m) = (if k = k' then or_default k m @ [v] else or_default k m)"
  "or_default k (fmupd k' vs m) = (if k = k' then vs else or_default k m)"
  "or_default k (fmdrop k' m) = (if k = k' then [] else or_default k m)"
  "or_default k fmempty = []"
  by (auto simp: or_default_def push_at_def split: option.split)

lemma note_trigger_node_simps [simp]:
  "eb_subscriptions (note_trigger_node wid ev node b) = eb_subscriptions b"
  "eb_workflow_events (note_trigger_node wid ev node b) = eb_workflow_events b"
  by (simp_all add: note_trigger_node_def split: option.split)

lemma bus_new [simp]: "bus_ok event_bus_new" "\<not> listens event_bus_new wid ev"
  by (simp_all add: bus_ok_def listens_def event_bus_new_def)

lemma subscribe_listens [simp]:
  "listens (subscribe_trigger_node wid ev node b) v e \<longleftrightarrow> (v = wid \<and> e = ev) \<or> listens b v e"
  by (auto simp: subscribe_trigger_node_def listens_def Let_def)

lemma subscribe_ok: "bus_ok b \<Longrightarrow> bus_ok (subscribe_trigger_node wid ev node b)"
  unfolding bus_ok_def subscribe_listens
  by (auto simp: subscribe_trigger_node_def listens_def Let_def)

lemma unsubscribe_default [simp]:
  "or_default ev (unsubscribe wid e subs) = (if ev = e then filter (\<lambda>v. v \<noteq> wid) (or_default ev subs) else or_default ev subs)"
  by (auto simp: unsubscribe_def or_default_def split: option.split)

lemma unsubscribe_all:
  "or_default ev (fold (unsubscribe wid) evs subs) =
     (if ev \<in> set evs then filter (\<lambda>v. v \<noteq> wid) (or_default ev subs) else or_default ev subs)"
  by (induction evs arbitrary: subs) auto

lemma event_remove_listens:
  assumes "bus_ok b"
  shows "listens (event_remove wid b) v ev \<longleftrightarrow> v \<noteq> wid \<and> listens b v ev"
  using assms by (auto simp: event_remove_def listens_def unsubscribe_all bus_ok_def)

lemma event_remove_ok: "bus_ok b \<Longrightarrow> bus_ok (event_remove wid b)"
  unfolding bus_ok_def [of "event_remove wid b"]
  by (auto simp: event_remove_listens) (auto simp: event_remove_def unsubscribe_all bus_ok_def split: if_splits)

section \<open>What a definition asks for\<close>

definition node_event :: "wf_node \<Rightarrow> string option" where
  "node_event n = Option.bind (n_trigger_config n) (\<lambda>tc. if tn_trigger_type tc = TEvent \<and> tn_event_name tc \<noteq> Some [] then tn_event_name tc else None)"

definition legacy_event :: "trigger \<Rightarrow> string option" where
  "legacy_event t = (if tr_type t = TEvent \<and> tc_event_name (tr_config t) \<noteq> Some [] then tc_event_name (tr_config t) else None)"

definition node_route :: "string \<Rightarrow> wf_node \<Rightarrow> string option" where
  "node_route wid n = Option.bind (n_trigger_config n) (\<lambda>tc. if tn_trigger_type tc = TWebhook then Some (webhook_key wid (path_or_empty (tn_path tc))) else None)"

definition legacy_route :: "string \<Rightarrow> trigger \<Rightarrow> string option" where
  "legacy_route wid t = (if tr_type t = TWebhook then Some (webhook_key wid (path_or_empty (tc_path (tr_config t)))) else None)"

text \<open>The events and route keys of the definition: those of its trigger nodes, without any those of the legacy list.\<close>

definition events_of :: "workflow \<Rightarrow> string set" where
  "events_of w = (if wf_status w \<noteq> Active then {} else if trigger_nodes w \<noteq> []
     then {ev. \<exists>n\<in>set (trigger_nodes w). node_event n = Some ev} else {ev. \<exists>t\<in>set (wf_triggers w). legacy_event t = Some ev})"

definition routes_of :: "workflow \<Rightarrow> string set" where
  "routes_of w = (if wf_status w \<noteq> Active then {} else if trigger_nodes w \<noteq> []
     then {k. \<exists>n\<in>set (trigger_nodes w). node_route (wf_id w) n = Some k} else {k. \<exists>t\<in>set (wf_triggers w). legacy_route (wf_id w) t = Some k})"

definition route_owner :: "'w triggers \<Rightarrow> string \<Rightarrow> string option" where
  "route_owner t key = map_option fst (fmlookup (wh_routes (tg_webhook t)) key)"

lemma cron_parts [simp]:
  "tg_event (add_trigger_node env wid node expr t) = tg_event t" "tg_webhook (add_trigger_node env wid node expr t) = tg_webhook t"
  "tg_event (cron_add env wid expr t) = tg_event t" "tg_webhook (cron_add env wid expr t) = tg_webhook t"
  "tg_event (cron_remove env wid t) = tg_event t" "tg_webhook (cron_remove env wid t) = tg_webhook t"
  by (simp_all add: add_trigger_node_def cron_add_def cron_remove_def split: prod.split sum.split)

lemma register_trigger_node_parts:
  "listens (tg_event (register_trigger_node env wid n t)) v ev \<longleftrightarrow> (v = wid \<and> node_event n = Some ev) \<or> listens (tg_event t) v ev"
  "bus_ok (tg_event t) \<Longrightarrow> bus_ok (tg_event (register_trigger_node env wid n t))"
  "route_owner (register_trigger_node env wid n t) k = (if node_route wid n = Some k then Some wid else route_owner t k)"
  by (auto simp: register_trigger_node_def node_event_def node_route_def subscribe_ok route_owner_def
      register_trigger_node_with_secret_def Let_def split: option.split trigger_type.split)

lemma register_trigger_parts:
  "listens (tg_event (register_trigger env wid x t)) v ev \<longleftrightarrow> (v = wid \<and> legacy_event x = Some ev) \<or> listens (tg_event t) v ev"
  "bus_ok (tg_event t) \<Longrightarrow> bus_ok (tg_event (register_trigger env wid x t))"
  "route_owner (register_trigger env wid x t) k = (if legacy_route wid x = Some k then Some wid else route_owner t k)"
  by (auto simp: register_trigger_def legacy_event_def legacy_route_def subscribe_ok route_owner_def subscribe_def
      webhook_register_def register_with_secret_def Let_def split: option.split trigger_type.split)

lemma register_all_nodes:
  "listens (tg_event (fold (register_trigger_node env wid) ns t)) v ev \<longleftrightarrow> (v = wid \<and> (\<exists>n\<in>set ns. node_event n = Some ev)) \<or> listens (tg_event t) v ev"
  "bus_ok (tg_event t) \<Longrightarrow> bus_ok (tg_event (fold (register_trigger_node env wid) ns t))"
  "route_owner (fold (register_trigger_node env wid) ns t) k = (if \<exists>n\<in>set ns. node_route wid n = Some k then Some wid else route_owner t k)"
  by (induction ns arbitrary: t) (auto simp: register_trigger_node_parts)

lemma register_all_legacy:
  "listens (tg_event (fold (register_trigger env wid) xs t)) v ev \<longleftrightarrow> (v = wid \<and> (\<exists>x\<in>set xs. legacy_event x = Some ev)) \<or> listens (tg_event t) v ev"
  "bus_ok (tg_event t) \<Longrightarrow> bus_ok (tg_event (fold (register_trigger env wid) xs t))"
  "route_owner (fold (register_trigger env wid) xs t) k = (if \<exists>x\<in>set xs. legacy_route wid x = Some k then Some wid else route_owner t k)"
  by (induction xs arbitrary: t) (auto simp: register_trigger_parts)

lemma register_workflow_parts:
  assumes "wf_status w = Active"
  shows "listens (tg_event (register_workflow_triggers env w t)) v ev \<longleftrightarrow> (v = wf_id w \<and> ev \<in> events_of w) \<or> listens (tg_event t) v ev"
    and "bus_ok (tg_event t) \<Longrightarrow> bus_ok (tg_event (register_workflow_triggers env w t))"
    and "route_owner (register_workflow_triggers env w t) k = (if k \<in> routes_of w then Some (wf_id w) else route_owner t k)"
  using assms by (simp_all add: register_workflow_triggers_def Let_def register_all_nodes register_all_legacy events_of_def routes_of_def)

lemma unregister_parts:
  assumes "bus_ok (tg_event t)"
  shows "listens (tg_event (unregister_workflow env wid t)) v ev \<longleftrightarrow> v \<noteq> wid \<and> listens (tg_event t) v ev"
    and "bus_ok (tg_event (unregister_workflow env wid t))"
    and "route_owner (unregister_workflow env wid t) k = (if route_owner t k = Some wid then None else route_owner t k)"
  using assms
  by (auto simp: unregister_workflow_def Let_def event_remove_listens event_remove_ok route_owner_def webhook_remove_def
      split: option.split)

lemma inactive_asks_nothing: "wf_status w \<noteq> Active \<Longrightarrow> events_of w = {} \<and> routes_of w = {}"
  by (simp add: events_of_def routes_of_def)

lemma refresh_parts:
  assumes "bus_ok (tg_event t)"
  shows "listens (tg_event (refresh_workflow_from_def env w t)) v ev \<longleftrightarrow> (if v = wf_id w then ev \<in> events_of w else listens (tg_event t) v ev)"
    and "bus_ok (tg_event (refresh_workflow_from_def env w t))"
    and "route_owner (refresh_workflow_from_def env w t) k =
      (if k \<in> routes_of w then Some (wf_id w) else if route_owner t k = Some (wf_id w) then None else route_owner t k)"
  using unregister_parts [OF assms] inactive_asks_nothing [of w]
  by (auto simp: refresh_workflow_from_def_def Let_def register_workflow_parts)

section \<open>Sequences\<close>

datatype trigger_op = RefreshWorkflow workflow | UnregisterWorkflow string

primrec op_id :: "trigger_op \<Rightarrow> string" where
  "op_id (RefreshWorkflow w) = wf_id w"
| "op_id (UnregisterWorkflow wid) = wid"

fun run_op :: "'w trigger_env \<Rightarrow> trigger_op \<Rightarrow> 'w triggers \<Rightarrow> 'w triggers" where
  "run_op env (RefreshWorkflow w) t = refresh_workflow_from_def env w t"
| "run_op env (UnregisterWorkflow wid) t = unregister_workflow env wid t"

text \<open>The definitions the operations leave current.\<close>

fun current_defs :: "trigger_op \<Rightarrow> (string \<rightharpoonup> workflow) \<Rightarrow> (string \<rightharpoonup> workflow)" where
  "current_defs (RefreshWorkflow w) m = m(wf_id w \<mapsto> w)"
| "current_defs (UnregisterWorkflow wid) m = m(wid := None)"

text \<open>The first segment of a route key is the workflow's id, if that has no slash.\<close>

lemma owner_of_key:
  assumes "CHR ''/'' \<notin> set wid"
  shows "takeWhile (\<lambda>c. c \<noteq> CHR ''/'') (webhook_key wid path) = wid"
proof -
  from assms have w: "\<forall>c\<in>set wid. c \<noteq> CHR ''/''" by auto
  then have "takeWhile (\<lambda>c. c \<noteq> CHR ''/'') (wid @ CHR ''/'' # ys) = wid" for ys by simp
  with w show ?thesis by (simp add: webhook_key_def Let_def)
qed

lemma owner_of_route:
  assumes "CHR ''/'' \<notin> set (wf_id w)" and "k \<in> routes_of w"
  shows "takeWhile (\<lambda>c. c \<noteq> CHR ''/'') k = wf_id w"
  using assms owner_of_key [OF assms(1)]
  by (auto simp: routes_of_def node_route_def legacy_route_def split: if_splits bind_splits)

lemma run_parts:
  "let t = fold (run_op env) ops (triggers_new token w0); m = fold current_defs ops Map.empty in
    bus_ok (tg_event t) \<and> (\<forall>v ev. listens (tg_event t) v ev \<longleftrightarrow> (\<exists>w. m v = Some w \<and> ev \<in> events_of w))"
  unfolding Let_def
proof (induction ops rule: rev_induct)
  case (snoc x ops)
  then have ok: "bus_ok (tg_event (fold (run_op env) ops (triggers_new token w0)))" by simp
  show ?case using snoc refresh_parts [OF ok] unregister_parts [OF ok] by (cases x) auto
qed (simp add: triggers_new_def)

text \<open>
After any sequence of refreshes and removals an event fires exactly the workflows whose current definition is
  active and has a trigger for it, each once.
\<close>

theorem emit_event_exact:
  "set (map fst (emit_event ev payload (fold (run_op env) ops (triggers_new token w0)))) =
     {wid. \<exists>w. fold current_defs ops Map.empty wid = Some w \<and> ev \<in> events_of w} \<and>
   distinct (map fst (emit_event ev payload (fold (run_op env) ops (triggers_new token w0))))"
proof -
  let ?b = "tg_event (fold (run_op env) ops (triggers_new token w0))"
  have "map fst (emit ev payload ?b) = or_default ev (eb_subscriptions ?b)"
    by (simp add: emit_def or_default_def comp_def split: option.split)
  moreover have "bus_ok ?b" and l: "listens ?b v ev \<longleftrightarrow> (\<exists>w. fold current_defs ops Map.empty v = Some w \<and> ev \<in> events_of w)" for v
    using run_parts [of env ops token w0] by (simp_all add: Let_def)
  moreover have "set (or_default ev (eb_subscriptions ?b)) = {v. listens ?b v ev}" by (simp add: listens_def)
  ultimately show ?thesis unfolding emit_event_def l by (simp add: bus_ok_def)
qed

lemma run_routes:
  assumes "list_all (\<lambda>x. CHR ''/'' \<notin> set (op_id x)) ops"
  shows "(\<forall>k v. route_owner (fold (run_op env) ops (triggers_new token w0)) k = Some v \<longleftrightarrow>
      (\<exists>w. fold current_defs ops Map.empty v = Some w \<and> k \<in> routes_of w)) \<and>
    (\<forall>v w. fold current_defs ops Map.empty v = Some w \<longrightarrow> wf_id w = v \<and> CHR ''/'' \<notin> set v)"
  using assms
proof (induction ops rule: rev_induct)
  case Nil
  then show ?case by (simp add: triggers_new_def webhook_new_def route_owner_def)
next
  case (snoc x ops)
  let ?t = "fold (run_op env) ops (triggers_new token w0)"
  have ok: "bus_ok (tg_event ?t)" using run_parts [of env ops token w0] by (simp add: Let_def)
  from snoc have IH: "route_owner ?t k = Some v \<longleftrightarrow> (\<exists>w. fold current_defs ops Map.empty v = Some w \<and> k \<in> routes_of w)"
    and ids: "fold current_defs ops Map.empty v = Some w \<Longrightarrow> wf_id w = v \<and> CHR ''/'' \<notin> set v" for k v w by auto
  have first: "takeWhile (\<lambda>c. c \<noteq> CHR ''/'') k = v" if "route_owner ?t k = Some v" for k v
  proof -
    from that IH [of k v] obtain w where w: "fold current_defs ops Map.empty v = Some w" "k \<in> routes_of w" by auto
    with owner_of_route [of w k] ids [OF w(1)] show ?thesis by simp
  qed
  show ?case
  proof (cases x)
    case (UnregisterWorkflow wid)
    have "route_owner (unregister_workflow env wid ?t) k = Some v \<longleftrightarrow> v \<noteq> wid \<and> route_owner ?t k = Some v" for k v
      by (auto simp: unregister_parts(3) [OF ok])
    with UnregisterWorkflow IH ids show ?thesis by simp
  next
    case (RefreshWorkflow u)
    with snoc.prems have u: "CHR ''/'' \<notin> set (wf_id u)" by simp
    have "route_owner (refresh_workflow_from_def env u ?t) k = Some v \<longleftrightarrow> (\<exists>w. ((fold current_defs ops Map.empty)(wf_id u \<mapsto> u)) v = Some w \<and> k \<in> routes_of w)" for k v
    proof (cases "k \<in> routes_of u")
      case True
      then have k: "takeWhile (\<lambda>c. c \<noteq> CHR ''/'') k = wf_id u" by (rule owner_of_route [OF u])
      have "v = wf_id u" if "fold current_defs ops Map.empty v = Some w" "k \<in> routes_of w" for w
        using first [of k v] IH [of k v] that k by auto
      with True show ?thesis by (auto simp: refresh_parts(3) [OF ok])
    next
      case False
      with IH [of k v] show ?thesis by (auto simp: refresh_parts(3) [OF ok])
    qed
    with ids u RefreshWorkflow show ?thesis by auto
  qed
qed

text \<open>
  C27. As long as no workflow id contains a slash, after any sequence of refreshes and removals a webhook route leads
  to a workflow exactly if the workflow's current definition is active and asks for the route.
\<close>

theorem webhook_routes_exact:
  assumes "list_all (\<lambda>x. CHR ''/'' \<notin> set (op_id x)) ops"
  shows "route_owner (fold (run_op env) ops (triggers_new token w0)) k = Some wid \<longleftrightarrow>
    (\<exists>w. fold current_defs ops Map.empty wid = Some w \<and> k \<in> routes_of w)"
  using run_routes [OF assms, of env token w0] by simp

definition hook_node :: "string \<Rightarrow> string \<Rightarrow> wf_node" where
  "hook_node i path = (sample_node KTrigger i)\<lparr>n_trigger_config := Some \<lparr>tn_trigger_type = TWebhook, tn_cron = None, tn_event_name = None, tn_path = Some path\<rparr>\<rparr>"

definition hook_workflow :: "string \<Rightarrow> string \<Rightarrow> workflow" where
  "hook_workflow i path = (sample_workflow [hook_node ''t'' path] [])\<lparr>wf_id := i\<rparr>"

lemma hook_routes: "wf_status (hook_workflow i path) = Active \<and> wf_id (hook_workflow i path) = i \<and> routes_of (hook_workflow i path) = {webhook_key i path}"
  by (auto simp: hook_workflow_def sample_workflow_def routes_of_def trigger_nodes_def hook_node_def sample_node_def node_route_def path_or_empty_def)

lemma webhook_route_keys: "webhook_key i [] = i" "webhook_key i ''/pay/'' = i @ ''/pay''"
  by (simp_all add: webhook_key_def trim_slashes_def)

definition shop_catalog :: "workflow list" where
  "shop_catalog = [hook_workflow ''shop'' ''/pay/'', hook_workflow ''bank'' []]"

text \<open>A scheduler that takes every job and a store of two workflows.\<close>

definition shop_env :: "mem_world trigger_env" where
  "shop_env = \<lparr>te_engine = mem_env,
     te_list_workflows = (\<lambda>opts w. case paginate shop_catalog opts of Some p \<Rightarrow> (Inr (p, 2), w) | None \<Rightarrow> (Inl NotFound, w)),
     te_job_new = (\<lambda>_ w. (Inr [], w)), te_job_add = (\<lambda>_ w. (Inr (), w)), te_job_remove = (\<lambda>_ w. (Inr (), w)),
     te_cron_start = (\<lambda>w. (Inr (), w))\<rparr>"

theorem webhook_routes_exact_witness:
  "route_owner (fold (run_op shop_env) [RefreshWorkflow (hook_workflow ''shop'' ''/pay/''), UnregisterWorkflow ''bank''] (triggers_new None (mem_world_of mem_store_new))) ''shop/pay'' = Some ''shop''"
  using webhook_routes_exact [of "[RefreshWorkflow (hook_workflow ''shop'' ''/pay/''), UnregisterWorkflow ''bank'']" shop_env None "mem_world_of mem_store_new" "''shop/pay''" "''shop''"]
    hook_routes [of "''shop''" "''/pay/''"] by (simp add: webhook_route_keys)

text \<open>
Ids are not checked for slashes: a workflow whose id is another one's id and webhook path passes validation and,
  once refreshed, takes over the other's route, which the other's definition still asks for.
\<close>

theorem webhook_route_taken_over:
  assumes "trim_slashes p = p" and "p \<noteq> []"
  shows "validate_workflow (hook_workflow (v @ ''/'' @ p) []) = Inr () \<and> webhook_key v p \<in> routes_of (hook_workflow v p) \<and>
    route_owner (fold (run_op env) [RefreshWorkflow (hook_workflow v p), RefreshWorkflow (hook_workflow (v @ ''/'' @ p) [])]
      (triggers_new token w0)) (webhook_key v p) = Some (v @ ''/'' @ p)"
proof -
  have k: "webhook_key v p = v @ ''/'' @ p" using assms by (simp add: webhook_key_def)
  have "validate_workflow (hook_workflow i []) = Inr ()" for i
    unfolding validate_workflow_wf
    by (auto simp: well_formed_def hook_workflow_def hook_node_def edge_rel_def node_ok_def validate_node_id_def MAX_NODE_ID_LEN_def
      name_char_def ascii_alnum_def validate_plugin_ref_def starts_with_def acyclic_def)
  moreover have "bus_ok (tg_event (refresh_workflow_from_def env (hook_workflow v p) (triggers_new token w0)))"
    by (rule refresh_parts(2)) (simp add: triggers_new_def)
  ultimately show ?thesis
    using hook_routes [of v p] hook_routes [of "v @ ''/'' @ p" "[]"] k by (simp add: refresh_parts(3) webhook_route_keys)
qed

theorem webhook_route_taken_over_witness:
  "route_owner (fold (run_op shop_env) [RefreshWorkflow (hook_workflow ''shop'' ''pay''), RefreshWorkflow (hook_workflow ''shop/pay'' [])]
     (triggers_new None (mem_world_of mem_store_new))) (webhook_key ''shop'' ''pay'') = Some ''shop/pay''"
  using webhook_route_taken_over [of "''pay''" "''shop''" shop_env None "mem_world_of mem_store_new"] by (simp add: trim_slashes_def)

section \<open>The start\<close>

lemma register_page_keeps:
  assumes "\<And>e w. P (snd (te_job_new env e w)) = P w" and "\<And>j w. P (snd (te_job_add env j w)) = P w"
  shows "P (tg_world (register_page env ws t)) = P (tg_world t)"
proof -
  have a: "P (tg_world (add_trigger_node env wid node expr t)) = P (tg_world t)" for wid node expr t
    using assms(1) [of expr "tg_world t"] assms(2)
    by (auto simp: add_trigger_node_def split: prod.split sum.split) (metis snd_conv)+
  have n: "P (tg_world (fold (register_trigger_node env wid) ns t)) = P (tg_world t)" for wid ns t
    by (induction ns arbitrary: t) (auto simp: register_trigger_node_def a split: option.split trigger_type.split)
  have l: "P (tg_world (fold (register_trigger env wid) xs t)) = P (tg_world t)" for wid xs t
    by (induction xs arbitrary: t) (auto simp: register_trigger_def cron_add_def a Let_def split: option.split trigger_type.split)
  show ?thesis
    unfolding register_page_def
    by (induction ws arbitrary: t) (auto simp: register_workflow_triggers_def n l Let_def)
qed

lemma load_triggers_pages:
  fixes catalog :: "'w \<Rightarrow> workflow list"
  assumes "\<And>opts p w. paginate (catalog w) opts = Some p \<Longrightarrow> te_list_workflows env opts w = (Inr (p, int (length (catalog w))), w)"
    and "\<And>e w. catalog (snd (te_job_new env e w)) = catalog w" and "\<And>j w. catalog (snd (te_job_add env j w)) = catalog w"
    and "length (catalog (tg_world t)) < 2 ^ 61" and "k < 2 ^ 56"
  shows "load_triggers env (int (k * 100)) t = Some (Inr (), register_page env (drop (k * 100) (catalog (tg_world t))) t)"
  using assms(4,5)
proof (induction "length (catalog (tg_world t)) - k * 100" arbitrary: k t rule: less_induct)
  case less
  let ?xs = "catalog (tg_world t)" and ?o = "int (k * 100)"
  let ?page = "take 100 (drop (k * 100) ?xs)"
  have "paginate ?xs \<lparr>lo_offset = ?o, lo_limit = TRIGGER_PAGE_SIZE\<rparr> = Some ?page"
    using less.prems paginate_page [of ?o TRIGGER_PAGE_SIZE ?xs] by (simp add: TRIGGER_PAGE_SIZE_def nat_mult_distrib)
  from assms(1) [OF this] have step: "load_triggers env ?o t =
      (let t' = register_page env ?page t in
       if int (length ?page) < TRIGGER_PAGE_SIZE then Some (Inr (), t') else load_triggers env (?o + TRIGGER_PAGE_SIZE) t')"
    by (subst load_triggers.simps) simp
  show ?case
  proof (cases "length ?page < 100")
    case True
    then have "?page = drop (k * 100) ?xs" by (simp add: min_def split: if_splits)
    with True step show ?thesis by (simp add: Let_def TRIGGER_PAGE_SIZE_def)
  next
    case False
    let ?t = "register_page env ?page t"
    have len: "k * 100 + 100 \<le> length ?xs" using False by simp
    have xs: "catalog (tg_world ?t) = ?xs" using register_page_keeps [of catalog env, OF assms(2,3)] .
    have "load_triggers env (int (Suc k * 100)) ?t = Some (Inr (), register_page env (drop (Suc k * 100) (catalog (tg_world ?t))) ?t)"
      by (rule less.hyps) (use len less.prems in \<open>simp_all add: xs\<close>)
    moreover have "register_page env (drop (Suc k * 100) ?xs) ?t = register_page env (drop (k * 100) ?xs) t"
    proof -
      have "register_page env (ys @ zs) t = register_page env zs (register_page env ys t)" for ys zs t
        by (simp add: register_page_def)
      from this [of ?page "drop 100 (drop (k * 100) ?xs)" t, unfolded append_take_drop_id] show ?thesis by simp
    qed
    ultimately show ?thesis using step False by (simp add: Let_def TRIGGER_PAGE_SIZE_def xs add.commute)
  qed
qed

lemma register_page_events:
  assumes "bus_ok (tg_event t)"
  shows "bus_ok (tg_event (register_page env ws t)) \<and>
    (listens (tg_event (register_page env ws t)) v ev \<longleftrightarrow> listens (tg_event t) v ev \<or> (\<exists>w\<in>set ws. wf_id w = v \<and> ev \<in> events_of w))"
  using assms unfolding register_page_def
  by (induction ws arbitrary: t) (auto simp: register_workflow_parts inactive_asks_nothing)

text \<open>
The start answers, with every page of the store read: an event then fires exactly the active stored workflows with
  a trigger for it.
\<close>

theorem start_registers_all:
  fixes catalog :: "'w \<Rightarrow> workflow list"
  assumes "\<And>opts p w. paginate (catalog w) opts = Some p \<Longrightarrow> te_list_workflows env opts w = (Inr (p, int (length (catalog w))), w)"
    and "\<And>e w. catalog (snd (te_job_new env e w)) = catalog w" and "\<And>j w. catalog (snd (te_job_add env j w)) = catalog w"
    and "length (catalog w0) < 2 ^ 61"
  shows "\<exists>r t. triggers_start env (triggers_new token w0) = Some (r, t) \<and>
    set (map fst (emit_event ev payload t)) = {wid. \<exists>w\<in>set (catalog w0). wf_id w = wid \<and> ev \<in> events_of w}"
proof -
  let ?t0 = "triggers_new token w0"
  have w0: "tg_world ?t0 = w0" and ok: "bus_ok (tg_event ?t0)" and none: "\<not> listens (tg_event ?t0) v e" for v e
    by (simp_all add: triggers_new_def)
  let ?t1 = "register_page env (catalog w0) ?t0"
  have "load_triggers env 0 ?t0 = Some (Inr (), ?t1)"
    using load_triggers_pages [of catalog env ?t0 0] assms by (simp add: w0)
  moreover obtain r w where "te_cron_start env (tg_world ?t1) = (r, w)" by fastforce
  ultimately have "\<exists>r'. triggers_start env ?t0 = Some (r', ?t1\<lparr>tg_world := w\<rparr>)"
    by (cases r) (simp_all add: triggers_start_def)
  then obtain r' where r': "triggers_start env ?t0 = Some (r', ?t1\<lparr>tg_world := w\<rparr>)" by blast
  have "map fst (emit ev payload b) = or_default ev (eb_subscriptions b)" for b
    by (simp add: emit_def or_default_def comp_def split: option.split)
  then have "set (map fst (emit_event ev payload (?t1\<lparr>tg_world := w\<rparr>))) = {v. listens (tg_event ?t1) v ev}"
    by (simp add: emit_event_def listens_def)
  also have "\<dots> = {wid. \<exists>w\<in>set (catalog w0). wf_id w = wid \<and> ev \<in> events_of w}"
    using register_page_events [OF ok, of env "catalog w0" _ ev] none by simp
  finally show ?thesis using r' by blast
qed

definition bell_workflow :: "string \<Rightarrow> workflow" where
  "bell_workflow i = (sample_workflow [(sample_node KTrigger ''t'')\<lparr>n_trigger_config := Some
     \<lparr>tn_trigger_type = TEvent, tn_cron = None, tn_event_name = Some ''bell'', tn_path = None\<rparr>\<rparr>] [])\<lparr>wf_id := i\<rparr>"

theorem start_registers_all_witness:
  "\<exists>r t. triggers_start (shop_env\<lparr>te_list_workflows := (\<lambda>opts w. case paginate [bell_workflow ''door''] opts of
       Some p \<Rightarrow> (Inr (p, 1), w) | None \<Rightarrow> (Inl NotFound, w))\<rparr>) (triggers_new None (mem_world_of mem_store_new)) = Some (r, t) \<and>
     set (map fst (emit_event ''bell'' fmempty t)) = {''door''}"
proof -
  have "events_of (bell_workflow ''door'') = {''bell''} \<and> wf_id (bell_workflow ''door'') = ''door''"
    by (auto simp: bell_workflow_def events_of_def sample_workflow_def trigger_nodes_def node_event_def)
  then show ?thesis
    using start_registers_all [of "\<lambda>_. [bell_workflow ''door'']" "shop_env\<lparr>te_list_workflows := (\<lambda>opts w. case paginate [bell_workflow ''door''] opts of
       Some p \<Rightarrow> (Inr (p, 1), w) | None \<Rightarrow> (Inl NotFound, w))\<rparr>" "mem_world_of mem_store_new" None "''bell''" fmempty]
    by (auto simp: shop_env_def)
qed

end
