(* ===== verification/SubWorkflow.thy ===== *)
theory SubWorkflow
  imports Lifecycle BuiltinSchemas MemWorld
begin

text \<open>
  Sub-workflows: \<open>crates/orbflow-engine/src/subworkflow.rs\<close>, a node that starts a workflow and polls its instance until it
  has ended. The semaphore, the timers and what else happens to the engine while the node waits are parameters.
\<close>

definition SUB_WORKFLOW_PLUGIN_REF :: string where
  "SUB_WORKFLOW_PLUGIN_REF = ''builtin:sub-workflow''"

text \<open>Durations are in milliseconds.\<close>

definition DEFAULT_SUB_WORKFLOW_TIMEOUT :: nat where
  "DEFAULT_SUB_WORKFLOW_TIMEOUT = 30 * 60 * 1000"

definition MAX_BACKOFF :: nat where
  "MAX_BACKOFF = 10000"

text \<open>How the wait for a permit ends: \<open>select!\<close> between the semaphore and the deadline.\<close>

datatype acquired = Permit | DeadlineFirst | SemaphoreClosed

record 'w poll_env =
  pl_clock :: "'w engine \<Rightarrow> int"
  pl_acquire :: "int \<Rightarrow> 'w engine \<Rightarrow> acquired \<times> 'w engine"
  pl_release :: "'w engine \<Rightarrow> 'w engine"
  pl_sleep :: "nat \<Rightarrow> int \<Rightarrow> 'w engine \<Rightarrow> bool \<times> 'w engine"

definition sub_workflow_schema :: node_schema where
  "sub_workflow_schema =
     \<lparr>ns_plugin_ref = SUB_WORKFLOW_PLUGIN_REF, ns_name = ''Sub-Workflow'',
      ns_description = ''Execute another workflow as a child process'', ns_category = ''builtin'', ns_node_kind = None,
      ns_icon = ''workflow'', ns_color = ''#8b5cf6'', ns_docs = None, ns_image_url = Some ''/icons/workflow.svg'',
      ns_inputs = [fld ''workflow_id'' ''Workflow ID'' FtString True None (Some ''ID of the child workflow to execute'') [] None],
      ns_outputs =
       [fld ''child_instance_id'' ''Child Instance ID'' FtString False None None [] None,
        fld ''child_workflow_id'' ''Child Workflow ID'' FtString False None None [] None,
        fld ''status'' ''Status'' FtString False None None [] None,
        fld ''outputs'' ''Outputs'' FtObject False None None [] None],
      ns_parameters = [], ns_capability_ports = [], ns_settings = [], ns_provides_capability = None\<rparr>"

definition child_id_ok :: "string \<Rightarrow> bool" where
  "child_id_ok wid = (wid \<noteq> [] \<and> length wid \<le> 128 \<and> list_all (\<lambda>c. ascii_alnum c \<or> c = CHR ''-'' \<or> c = CHR ''_'') wid)"

text \<open>\<open>Debug\<close> of a duration of whole milliseconds.\<close>

definition duration_debug :: "nat \<Rightarrow> string" where
  "duration_debug ms =
     (let r = ms mod 1000 in
      if ms \<ge> 1000 then nat_str (ms div 1000) @
        (if r = 0 then [] else ''.'' @ rev (dropWhile (\<lambda>c. c = CHR ''0'') (rev (drop 1 (nat_str (1000 + r)))))) @ ''s''
      else if ms > 0 then nat_str ms @ ''ms'' else ''0ns'')"

definition timed_out :: "nat \<Rightarrow> string \<Rightarrow> orbflow_error" where
  "timed_out max_wait child = Internal (''sub-workflow: timed out waiting for child '' @ child @ '' after '' @ duration_debug max_wait)"

text \<open>The loop, up to the ended instance. The permit is dropped on every way out.\<close>

partial_function (option) poll_child ::
  "'w engine_env \<Rightarrow> 'w poll_env \<Rightarrow> nat \<Rightarrow> string \<Rightarrow> int \<Rightarrow> nat \<Rightarrow> 'w engine \<Rightarrow> (wf_instance result \<times> 'w engine) option" where
  "poll_child env pl max_wait child_id deadline backoff g =
     (case pl_acquire pl deadline g of
        (SemaphoreClosed, g1) \<Rightarrow> Some (Inl (Internal ''sub-workflow semaphore closed''), g1)
      | (DeadlineFirst, g1) \<Rightarrow> Some (Inl (timed_out max_wait child_id), g1)
      | (Permit, g1) \<Rightarrow> (case pl_sleep pl backoff deadline g1 of (slept, g2) \<Rightarrow>
          if \<not> slept then Some (Inl (timed_out max_wait child_id), pl_release pl g2)
          else (case portG (ee_get_instance env child_id) g2 of
            (Inl e, g3) \<Rightarrow>
              Some (Inl (Internal (''sub-workflow: failed to check child '' @ child_id @ '': '' @ error_str e)), pl_release pl g3)
          | (Inr child, g3) \<Rightarrow>
              if \<not> inst_terminal child
              then poll_child env pl max_wait child_id deadline (min (backoff * 2) MAX_BACKOFF) (pl_release pl g3)
              else Some (Inr child, pl_release pl g3))))"

declare poll_child.simps [code]

definition child_outputs :: "wf_instance \<Rightarrow> jmap" where
  "child_outputs child = fmmap_keys (\<lambda>_ ns. JObject (the (st_output ns))) (fmfilter (\<lambda>n. case fmlookup (in_node_states child) n of
      None \<Rightarrow> False | Some ns \<Rightarrow> st_output ns \<noteq> None) (in_node_states child))"

definition child_answer :: "string \<Rightarrow> string \<Rightarrow> wf_instance \<Rightarrow> node_output result" where
  "child_answer wid child_id child =
     (if in_status child = IFailed then Inl (Internal (''sub-workflow: child '' @ child_id @ '' failed''))
      else if in_status child = ICancelled then Inl (Internal (''sub-workflow: child '' @ child_id @ '' cancelled''))
      else Inr \<lparr>no_data = Some (fmap_of_list
         [(''child_instance_id'', JString child_id), (''child_workflow_id'', JString wid),
          (''status'', JString ''completed''), (''outputs'', JObject (child_outputs child))]), no_error = None\<rparr>)"

definition child_id_of :: "node_input \<Rightarrow> string option" where
  "child_id_of input = Option.bind (ni_input input) (\<lambda>m. Option.bind (fmlookup m ''workflow_id'') json_as_str)"

definition sub_workflow_execute ::
  "'w engine_env \<Rightarrow> 'w poll_env \<Rightarrow> nat \<Rightarrow> node_input \<Rightarrow> 'w engine \<Rightarrow> (node_output result \<times> 'w engine) option" where
  "sub_workflow_execute env pl max_wait input g = (case child_id_of input of
       None \<Rightarrow> Some (Inl (Internal ''sub-workflow: workflow_id is required in input''), g)
     | Some wid \<Rightarrow>
         if \<not> child_id_ok wid
         then Some (Inl (InvalidNodeConfig ''sub-workflow: workflow_id must be 1-128 alphanumeric/hyphen/underscore characters''), g)
         else
           let child_input = (case ni_input input of None \<Rightarrow> fmempty | Some m \<Rightarrow> fmdrop ''workflow_id'' m) in
           (case start_workflow env wid child_input g of
              (Inl e, g1) \<Rightarrow> Some (Inl (Internal (''sub-workflow: start failed: '' @ error_str e)), g1)
            | (Inr child_inst, g1) \<Rightarrow>
                map_option (\<lambda>(r, g2). (case r of Inl e \<Rightarrow> Inl e | Inr child \<Rightarrow> child_answer wid (in_id child_inst) child, g2))
                  (poll_child env pl max_wait (in_id child_inst) (pl_clock pl g1 + int max_wait) 200 g1)))"

section \<open>Laws\<close>

text \<open>
  What the timers document: a sleep that ends first began before the deadline and lasts at least its time; the clock does
  not go back.
\<close>

definition timers :: "'w engine_env \<Rightarrow> 'w poll_env \<Rightarrow> bool" where
  "timers env pl \<longleftrightarrow>
     (\<forall>b d g g'. pl_sleep pl b d g = (True, g') \<longrightarrow> pl_clock pl g < d \<and> pl_clock pl g + int b \<le> pl_clock pl g') \<and>
     (\<forall>d g. pl_clock pl g \<le> pl_clock pl (snd (pl_acquire pl d g))) \<and> (\<forall>g. pl_clock pl g \<le> pl_clock pl (pl_release pl g)) \<and>
     (\<forall>i g. pl_clock pl g \<le> pl_clock pl (snd (portG (ee_get_instance env i) g)))"

lemma poll_child_returns:
  assumes "timers env pl" and "0 < backoff"
  shows "\<exists>r g'. poll_child env pl max_wait i deadline backoff g = Some (r, g')"
  using assms(2)
proof (induction "nat (deadline - pl_clock pl g)" arbitrary: backoff g rule: less_induct)
  case less
  obtain a g1 where a: "pl_acquire pl deadline g = (a, g1)" by fastforce
  obtain s g2 where s: "pl_sleep pl backoff deadline g1 = (s, g2)" by fastforce
  obtain r g3 where r: "portG (ee_get_instance env i) g2 = (r, g3)" by fastforce
  have "\<exists>r g'. poll_child env pl max_wait i deadline (min (backoff * 2) MAX_BACKOFF) (pl_release pl g3) = Some (r, g')" if "s = True"
  proof (rule less.hyps)
    have "pl_clock pl g \<le> pl_clock pl g1" "pl_clock pl g2 \<le> pl_clock pl g3" "pl_clock pl g3 \<le> pl_clock pl (pl_release pl g3)"
      using assms(1) a r unfolding timers_def by (metis snd_conv)+
    moreover have "pl_clock pl g1 < deadline" "pl_clock pl g1 + int backoff \<le> pl_clock pl g2"
      using assms(1) s that unfolding timers_def by blast+
    ultimately show "nat (deadline - pl_clock pl (pl_release pl g3)) < nat (deadline - pl_clock pl g)" using less.prems by simp
    show "0 < min (backoff * 2) MAX_BACKOFF" using less.prems by (simp add: MAX_BACKOFF_def)
  qed
  then show ?case
    by (subst poll_child.simps) (auto simp: a s r split: acquired.split sum.split)
qed

text \<open>
  C36. A sub-workflow node returns, whatever the child does: it polls only until its deadline.
\<close>

theorem sub_workflow_returns:
  assumes "timers env pl"
  shows "\<exists>r g'. sub_workflow_execute env pl max_wait input g = Some (r, g')"
proof -
  have "poll_child env pl max_wait i d 200 g1 \<noteq> None" for i d g1
    using poll_child_returns [OF assms, of 200 max_wait i d g1] by auto
  then have "sub_workflow_execute env pl max_wait input g \<noteq> None"
    by (simp add: sub_workflow_execute_def Let_def del: not_None_eq split: option.split prod.split sum.split)
  then show ?thesis by auto
qed

lemma poll_child_ended:
  fixes env :: "'w engine_env" and pl :: "'w poll_env"
  assumes "poll_child env pl max_wait i deadline backoff g = Some (r, g')"
  shows "(\<exists>e. r = Inl e) \<or> (\<exists>child g0. r = Inr child \<and> fst (portG (ee_get_instance env i) g0) = Inr child \<and> inst_terminal child)"
proof -
  let ?P = "\<lambda>env i y. (\<exists>e. fst y = Inl e) \<or>
    (\<exists>child g0. fst y = Inr child \<and> fst (portG (ee_get_instance env i) g0) = Inr child \<and> inst_terminal child)"
  have "?P env i (r, g')"
  proof (rule poll_child.raw_induct [OF _ assms, of "\<lambda>env pl max_wait i deadline backoff g y. ?P env i y"])
    fix rec :: "'w engine_env \<Rightarrow> 'w poll_env \<Rightarrow> nat \<Rightarrow> string \<Rightarrow> int \<Rightarrow> nat \<Rightarrow> 'w engine \<Rightarrow> (wf_instance result \<times> 'w engine) option"
      and env :: "'w engine_env" and pl :: "'w poll_env" and max_wait i deadline backoff g y
    assume IH: "\<And>env pl max_wait i deadline backoff g y. rec env pl max_wait i deadline backoff g = Some y \<Longrightarrow> ?P env i y"
    obtain a g1 where a: "pl_acquire pl deadline g = (a, g1)" by fastforce
    obtain s g2 where s: "pl_sleep pl backoff deadline g1 = (s, g2)" by fastforce
    obtain q g3 where q: "portG (ee_get_instance env i) g2 = (q, g3)" by fastforce
    then have fin: "\<exists>g0. fst (portG (ee_get_instance env i) g0) = q" by (metis fst_conv)
    assume "(case pl_acquire pl deadline g of
        (SemaphoreClosed, g1) \<Rightarrow> Some (Inl (Internal ''sub-workflow semaphore closed''), g1)
      | (DeadlineFirst, g1) \<Rightarrow> Some (Inl (timed_out max_wait i), g1)
      | (Permit, g1) \<Rightarrow> (case pl_sleep pl backoff deadline g1 of (slept, g2) \<Rightarrow>
          if \<not> slept then Some (Inl (timed_out max_wait i), pl_release pl g2)
          else (case portG (ee_get_instance env i) g2 of
            (Inl e, g3) \<Rightarrow>
              Some (Inl (Internal (''sub-workflow: failed to check child '' @ i @ '': '' @ error_str e)), pl_release pl g3)
          | (Inr child, g3) \<Rightarrow>
              if \<not> inst_terminal child
              then rec env pl max_wait i deadline (min (backoff * 2) MAX_BACKOFF) (pl_release pl g3)
              else Some (Inr child, pl_release pl g3)))) = Some y"
    with IH [of env pl max_wait i deadline "min (backoff * 2) MAX_BACKOFF" "pl_release pl g3" y] fin show "?P env i y"
      by (auto simp: a s q split: acquired.splits if_splits sum.splits)
  qed
  then show ?thesis by simp
qed

text \<open>
A sub-workflow node succeeds only after it has started the workflow named in its input, if that is a plain id, on
  behalf of no owner, and has read the started instance back as completed; it answers the outputs of the child's nodes.
\<close>

theorem sub_workflow_success:
  assumes "sub_workflow_execute env pl max_wait input g = Some (Inr out, g')"
  shows "\<exists>wid child_inst child g0. child_id_of input = Some wid \<and> child_id_ok wid \<and>
    fst (start_workflow_with_owner env wid (fmdrop ''workflow_id'' (the (ni_input input))) None g) = Inr child_inst \<and>
    fst (portG (ee_get_instance env (in_id child_inst)) g0) = Inr child \<and> in_status child = ICompleted \<and>
    child_answer wid (in_id child_inst) child = Inr out"
proof -
  from assms obtain wid where wid: "child_id_of input = Some wid" "child_id_ok wid"
    by (auto simp: sub_workflow_execute_def split: option.splits if_splits)
  then obtain m where m: "ni_input input = Some m" by (auto simp: child_id_of_def bind_eq_Some_conv)
  obtain q g1 where start: "start_workflow env wid (fmdrop ''workflow_id'' m) g = (q, g1)" by fastforce
  with assms wid m obtain child_inst where q: "q = Inr child_inst"
    by (cases q) (auto simp: sub_workflow_execute_def)
  with start assms wid m obtain r where poll: "poll_child env pl max_wait (in_id child_inst) (pl_clock pl g1 + int max_wait) 200 g1 = Some (r, g')"
    and r: "(case r of Inl e \<Rightarrow> Inl e | Inr child \<Rightarrow> child_answer wid (in_id child_inst) child) = Inr out"
    by (auto simp: sub_workflow_execute_def)
  from poll_child_ended [OF poll] r obtain child g0 where c: "fst (portG (ee_get_instance env (in_id child_inst)) g0) = Inr child"
    "inst_terminal child" "child_answer wid (in_id child_inst) child = Inr out" by auto
  then have "in_status child = ICompleted" by (auto simp: child_answer_def inst_terminal_def split: if_splits)
  with wid m start q c show ?thesis by (simp add: start_workflow_def) blast
qed

definition child_request :: node_input where
  "child_request = \<lparr>ni_instance_id = ''i'', ni_node_id = ''n'', ni_plugin_ref = SUB_WORKFLOW_PLUGIN_REF, ni_config = None,
     ni_input = Some (fmupd ''workflow_id'' (JString ''wf-1'') fmempty), ni_parameters = None, ni_capabilities = None, ni_attempt = 1\<rparr>"

definition parent_engine :: "mem_world engine" where
  "parent_engine = engine_new (mem_world_of (mem_store_new\<lparr>ms_workflows := fmupd ''wf-1'' (sample_workflow [sample_node KTrigger ''t''] []) fmempty\<rparr>))"

text \<open>An impatient node and one whose first look comes at once.\<close>

definition impatient :: "mem_world poll_env" where
  "impatient = \<lparr>pl_clock = (\<lambda>_. 0), pl_acquire = (\<lambda>_ g. (DeadlineFirst, g)), pl_release = id, pl_sleep = (\<lambda>_ _ g. (False, g))\<rparr>"

text \<open>A node whose sleeps pass the time of the world, and whose child waits for a worker that never answers: it polls
  until its deadline.\<close>

definition ticking :: "mem_world poll_env" where
  "ticking = \<lparr>pl_clock = (\<lambda>g. mw_clock (eg_world g)), pl_acquire = (\<lambda>_ g. (Permit, g)), pl_release = id,
     pl_sleep = (\<lambda>b d g. if mw_clock (eg_world g) < d
       then (True, g\<lparr>eg_world := (eg_world g)\<lparr>mw_clock := mw_clock (eg_world g) + int b\<rparr>\<rparr>) else (False, g))\<rparr>"

definition waiting_engine :: "mem_world engine" where
  "waiting_engine = engine_new (mem_world_of (mem_store_new\<lparr>ms_workflows := fmupd ''wf-1'' diamond fmempty\<rparr>))"

lemma ticking_timers: "timers mem_env ticking"
  by (simp add: timers_def ticking_def portG_def mem_env_def on_store_def ms_get_instance_def split: option.split prod.split)

lemma waiting_polls:
  "case sub_workflow_execute mem_env ticking 1000 child_request waiting_engine of
     None \<Rightarrow> False
   | Some (r, g) \<Rightarrow> isl r \<and> 1000 \<le> mw_clock (eg_world g)"
  by code_simp

theorem sub_workflow_returns_witness:
  "\<exists>e g'. sub_workflow_execute mem_env ticking 1000 child_request waiting_engine = Some (Inl e, g') \<and>
     1000 \<le> mw_clock (eg_world g')"
proof -
  obtain r g' where "sub_workflow_execute mem_env ticking 1000 child_request waiting_engine = Some (r, g')"
    using sub_workflow_returns [OF ticking_timers] by blast
  with waiting_polls show ?thesis by (auto simp: isl_def)
qed

definition prompt :: "mem_world poll_env" where
  "prompt = impatient\<lparr>pl_acquire := (\<lambda>_ g. (Permit, g)), pl_sleep := (\<lambda>_ _ g. (True, g))\<rparr>"

text \<open>A workflow that is only a trigger has completed as soon as it is started.\<close>

lemma child_completes:
  "case start_workflow mem_env ''wf-1'' fmempty parent_engine of
     (Inr inst, g) \<Rightarrow> (case portG (ee_get_instance mem_env (in_id inst)) g of (Inr i, _) \<Rightarrow> in_status i = ICompleted | _ \<Rightarrow> False)
   | _ \<Rightarrow> False"
  by code_simp

theorem sub_workflow_success_witness:
  "\<exists>out g' (child_inst :: wf_instance) child g0. sub_workflow_execute mem_env prompt 1000 child_request parent_engine = Some (Inr out, g') \<and>
     fst (portG (ee_get_instance mem_env (in_id child_inst)) g0) = Inr child \<and> child_answer ''wf-1'' (in_id child_inst) child = Inr out"
proof -
  obtain q g1 where s: "start_workflow mem_env ''wf-1'' fmempty parent_engine = (q, g1)" by fastforce
  with child_completes obtain inst where q: "q = Inr inst" by (cases q) auto
  obtain q' g2 where g: "portG (ee_get_instance mem_env (in_id inst)) g1 = (q', g2)" by fastforce
  with child_completes s q obtain i where "q' = Inr i" "in_status i = ICompleted" by (cases q') auto
  with g have "poll_child mem_env prompt mw (in_id inst) d b g1 = Some (Inr i, g2)" for mw d b
    by (subst poll_child.simps) (simp add: prompt_def impatient_def inst_terminal_def)
  moreover have "fmdrop ''workflow_id'' (fmupd ''workflow_id'' (JString ''wf-1'') fmempty) = fmempty"
    by (rule fmap_ext) simp
  ultimately have "\<exists>out g'. sub_workflow_execute mem_env prompt 1000 child_request parent_engine = Some (Inr out, g')"
    using s q \<open>in_status i = ICompleted\<close>
    by (simp add: sub_workflow_execute_def child_request_def child_id_of_def child_id_ok_def ascii_alnum_def child_answer_def)
  then obtain out g' where e: "sub_workflow_execute mem_env prompt 1000 child_request parent_engine = Some (Inr out, g')" by blast
  from sub_workflow_success [OF e] obtain wid and ci :: wf_instance and child g0 where w: "child_id_of child_request = Some wid"
    and c: "fst (portG (ee_get_instance mem_env (in_id ci)) g0) = Inr child" "child_answer wid (in_id ci) child = Inr out" by blast
  from w have "wid = ''wf-1''" by (simp add: child_id_of_def child_request_def)
  with c e show ?thesis by blast
qed

end
