(* ===== verification/Spec2Isabelle.thy ===== *)
theory Spec2Isabelle
  imports Control TestNode Ssrf AuditTrail PolicyApi ReviewRuns Worker WorkflowApi CredentialApi PgReview NodeLaws BuiltinSchemas OutboundLaws AiLaws SlaStats TestSuites TriggerLaws TriggerRuns SubWorkflow
begin

text \<open>
  A verification development for Orbflow, a distributed workflow engine in Rust
  (\<open>crates/\<close> of the repository).

  \<^bold>\<open>The program.\<close> A workflow is a directed acyclic graph of nodes. The engine
  (\<open>crates/orbflow-engine\<close>) starts instances of stored workflows, sends a task for every node
  that is ready over a message bus, receives the workers' results, evaluates the edges'
  conditions in CEL, retries, waits for approvals, compensates (a saga) after failures and
  recovers after a crash. Instances, workflows, events, credentials and change requests live in
  a store behind the traits of \<open>crates/orbflow-core/src/ports.rs\<close>; an instance is saved under
  optimistic locking. \<open>crates/orbflow-memstore\<close> is the store in memory.

  \<^bold>\<open>How it is modelled.\<close> Structs are records, enums datatypes, hash maps finite maps; the
  code's results are \<open>orbflow_error + 'a\<close>, its fallible stateful functions are computations
  \<open>'s \<Rightarrow> result \<times> 's\<close> (\<open>Prelude\<close>: \<open>bindE\<close> is \<open>?\<close>, \<open>tryE\<close> a match on the result,
  \<open>logE\<close> a logged error). A handler of the engine works on the instance value it was given,
  the engine's own tables and an outside world of arbitrary type, which only the fields of
  \<open>engine_env\<close> (clock, ids, store, bus, monitors, serde, CEL) read and change: third-party
  code, the database and the bus are those fields, with nothing assumed of them. What a property
  needs of them is stated as the locale \<open>engine_store\<close> (\<open>SaveInstance\<close>): the instance
  store answers as the trait documents, and the other ports leave the stored instances alone.
  \<open>MemWorld\<close> interprets it on the in-memory store, where the witnesses run. The mutex of an
  instance serialises its handlers, so a handler is one step; steps of one engine compose to
  runs (\<open>engine_step\<close>, \<open>engine_run\<close> in \<open>History\<close>).

  \<^bold>\<open>The theories\<close>, from the bottom up:
  \<^item> \<open>Prelude\<close>: errors (\<open>error.rs\<close>), computations, the relations they keep (locale
    \<open>preorder_rel\<close>, interpreted for every frame condition), weakest preconditions, maps, strings.
  \<^item> \<open>Json\<close>, \<open>Workflow\<close>, \<open>Graph\<close>, \<open>Samples\<close>: JSON and floats; the data of a workflow
    (\<open>workflow.rs\<close>, \<open>trigger.rs\<close>); graphs; small examples.
  \<^item> \<open>Ancestors\<close>, \<open>Migrate\<close>, \<open>Validate\<close>, \<open>Topo\<close>: the look-ups of \<open>workflow.rs\<close>, its migration of
    legacy triggers, \<open>validate.rs\<close> and \<open>topo.rs\<close>. Validation is characterised by \<open>well_formed\<close>, the
    three-colour search by acyclicity, Kahn's loop by the order it yields.
  \<^item> \<open>Ports\<close>, \<open>Metering\<close>, \<open>Execution\<close>, \<open>Events\<close>, \<open>Wire\<close>, \<open>Subjects\<close>, \<open>Pagination\<close>, \<open>Versioning\<close>,
    \<open>Credentials\<close>, \<open>CredentialSchemas\<close>, \<open>Ssrf\<close>, \<open>Dedup\<close>, \<open>Cel\<close>: the files of those names, with their laws.
  \<^item> \<open>Dag\<close>: \<open>dag.rs\<close>. Which nodes are ready, which are skipped, and that a run cannot get stuck.
  \<^item> \<open>MemStore\<close>: \<open>orbflow-memstore\<close>, every operation; locale \<open>instance_store\<close> is its contract.
  \<^item> \<open>EngineBase\<close>, \<open>Resolve\<close>, \<open>SaveInstance\<close>, \<open>MemWorld\<close>, \<open>Frame\<close>, \<open>Saga\<close>, \<open>Dispatch\<close>,
    \<open>ResultFlow\<close>, \<open>Lifecycle\<close>: \<open>engine.rs\<close>, \<open>saga.rs\<close> and \<open>resume.rs\<close>, every handler, in the order
    in which they call each other. \<open>Frame\<close> has the relation \<open>quiet\<close>: what leaves the stored
    instances alone.
  \<^item> \<open>TestNode\<close>: \<open>testnode.rs\<close>, the inline run of one node.
  \<^item> \<open>History\<close>: what operations leave of the past (relation \<open>course\<close>, over runs).
  \<^item> \<open>Results\<close>: which results are accepted, with what effect, and that each counts once.
  \<^item> \<open>Compensation\<close>: the plan of a saga, its start and progress, and a case in which it is lost.
  \<^item> \<open>Control\<close>: cancellation, decisions, workflow definitions, starts, and bounds.
  \<^item> \<open>AuditTrail\<close>: \<open>audit.rs\<close> and the audit columns of the PostgreSQL event table. Chains that verify
    are the honest ones, and two of them with the same newest hash are equal or show a collision.
  \<^item> \<open>Rbac\<close>, \<open>Http\<close>, \<open>PolicyApi\<close>: \<open>rbac.rs\<close>; the errors, authentication, permission check, paging and
    start limiter of \<open>crates/orbflow-httpapi\<close>; its policy endpoints and \<open>setup_rbac\<close> of the server. An
    endpoint takes a world and returns a response (\<open>Data\<close> or \<open>Fail\<close> with a status) and a world.
  \<^item> \<open>Worker\<close>: \<open>crates/orbflow-worker/src/worker.rs\<close>: tasks, streams and results, and that the engine accepts
    what the worker answers and that the answer takes its node on.
  \<^item> \<open>WorkflowApi\<close>, \<open>CredentialApi\<close>: the endpoints on workflows, instances and approvals, and on credentials.
  \<^item> \<open>ReviewApi\<close>, \<open>Review\<close>, \<open>ReviewRuns\<close>: the change-request endpoints. \<open>Review\<close> states what the store
    behind them promises as the locale \<open>review_store\<close> and proves how requests move a change request;
    \<open>ReviewRuns\<close> interprets it on the in-memory store and has the properties of sequences of requests.

  \<^item> \<open>PgStore\<close>, \<open>PgLaws\<close>, \<open>PgReview\<close>: \<open>crates/orbflow-postgres\<close> as statements on tables that may fail at any
    point. Failures change nothing, versions are kept, the instance tables refine the in-memory store, and
    \<open>review_store\<close> is interpreted once more; two cases in which the tables and the code above disagree.
  \<^item> \<open>Nodes\<close>, \<open>NodeLaws\<close>, \<open>BuiltinSchemas\<close>: the logic and trigger nodes of \<open>crates/orbflow-builtins\<close>, their laws
    (the sort node through the locale \<open>sort_order\<close>), and the schemas and registration of all built-in nodes.

  \<^item> \<open>Egress\<close>, \<open>EgressLaws\<close>: the URL checks, the filtering resolver and the HTTP node. What its client documents of
    hops, redirects and system proxies is the hypothesis \<open>sends_as_documented\<close>, which a small network satisfies; the
    addresses that may not be contacted are specified by \<open>internal_ip\<close> in \<open>Ssrf\<close>, as ranges of numbers.
  \<^item> \<open>Outbound\<close>, \<open>Mcp\<close>, \<open>OutboundLaws\<close>: the credential proxy, the mail and PostgreSQL nodes, and \<open>crates/orbflow-mcp\<close>
    with its node; what the MCP node contacts, and an example in which the proxy reaches a private address.
  \<^item> \<open>AiNodes\<close>, \<open>AiLaws\<close>: the AI nodes; streaming agrees with execution, metering reads what they report, and the
    cache of clients keeps the keys apart as long as its hash does.
  \<^item> \<open>SlaStats\<close>: the rolling statistics, the SLA monitor and the alert rules; the monitor's windows are exact and its
    failure-rate check never fires.
  \<^item> \<open>TestSuites\<close>: test suites as the engine inherits them from its trait: the verdict of a case, counts, coverage.
  \<^item> \<open>Triggers\<close>, \<open>TriggerLaws\<close>, \<open>TriggerRuns\<close>: \<open>crates/orbflow-trigger\<close>: cron jobs, events, webhooks and the manager. Which
    requests fire and how many; what is registered after any sequence of operations; a start that reads every page.
  \<^item> \<open>SubWorkflow\<close>: \<open>subworkflow.rs\<close>. A node that starts a workflow returns, and with success only after it has read the
    child back as completed.

  \<^bold>\<open>Bounds.\<close> Nothing runs on fuel; the two loops that end only if the outside does its part
  (\<open>load_triggers\<close>, \<open>poll_child\<close>) are partial functions, proved to return under what the store and the timers document. A save makes at most four attempts
  (\<open>SAVE_INSTANCE_MAX_RETRIES\<close>) and is a recursion on the ones left; the skip cascade ends because
  pending nodes decrease, the searches because unvisited nodes do. The set of processed results
  holds 100 ids, the CEL cache 10000 programs, both as in the code.

  \<^bold>\<open>Integers.\<close> Widths are kept where the code can reach their ends: metered totals and hashes are
  words, pagination and float casts saturate or panic as written. Versions, attempts and time
  stamps are unbounded: they are counted up by one per write. A float is a rational, an infinity
  or NaN; rounding is \<open>f64_of_rat\<close>.

  \<^bold>\<open>Not modelled.\<close> Log lines and OpenTelemetry counters (written, never read); serde's parsing and
  printing (parameters); pure delegations of the engine to the store; the subscription loops of
  start and stop; concurrent engines on one store other than through the conflicts a store
  reports; the gRPC interface and the NATS bus (network clients); the plugin processes, the plugin registry and
  marketplace; configuration, telemetry and the compliance data. SHA-256, HMAC and Ed25519, the cron scheduler, HTTP
  clients, regular expressions and square roots are parameters. The lock around the RBAC policy is never poisoned,
  since no code panics while it holds it. A commit of PostgreSQL that reports an error is taken as not applied; the
  commit whose answer is lost is not represented. \<open>testrunner.rs\<close> is no module of its crate and is dead code.

  \<^bold>\<open>Open ends.\<close> What could be added, in this order: installing and upgrading plugins (\<open>crates/orbflow-registry\<close>), the
  remaining PostgreSQL stores (credentials, policy, budgets, metrics, alerts), the remaining endpoints of the HTTP
  interface (versions, metrics, audit, budgets, alerts, marketplace), and the checks of the configuration.
\<close>

end
